(* ===== verification/RC_Prelude.thy ===== *)
theory RC_Prelude
  imports Main "HOL-Library.Char_ord" "HOL-Library.List_Lexorder"
begin

text \<open>
  Shared vocabulary of the development: the errors the Go code returns, the list facts behind
  \<^verbatim>\<open>slices.DeleteFunc\<close>, \<^verbatim>\<open>slices.IndexFunc\<close> and \<^verbatim>\<open>slices.SortFunc\<close>, and the parts of
  package \<^verbatim>\<open>strings\<close> that the components use.
  Go strings are byte strings: \<^typ>\<open>string\<close> is a list of bytes, its linear order (from
  List\_Lexorder and Char\_ord) is the one \<^verbatim>\<open>strings.Compare\<close> and \<^verbatim>\<open>slices.Sort\<close> use.
\<close>

section \<open>Errors\<close>

text \<open>
  An error value. \<open>EWrap\<close> is \<^verbatim>\<open>fmt.Errorf("...: %w", err)\<close>: it keeps the wrapped error for
  \<^verbatim>\<open>errors.Is\<close>. The API errors are the ones \<^verbatim>\<open>apierrors\<close> distinguishes.
\<close>

datatype err =
    ENotFound
  | EConflict
  | EAlreadyExists
  | ECanceled
  | EAbsent
  | EClosed
  | EOwnerChanged
  | EProcessNotFound
  | EProcessConflict
  | ESlowClient
  | EActivityUnsupported
  | EDeadlineExceeded
  | EPermission
  | EExecNotFound
  | EInvalidExecutable
  | EUnsupportedOS
  | EPlacementConflict
  | EForbidden string
  | EInvalid string
  | ETerminating string
  | EJoin "err list"
  | EClaimConflict string
  | EMsg string
  | EWrap string err

text \<open>\<^verbatim>\<open>errors.Is\<close>: the error itself or one it wraps; \<open>EJoin\<close> is \<^verbatim>\<open>errors.Join\<close> of the errors that are not nil.\<close>

fun err_is :: "err \<Rightarrow> err \<Rightarrow> bool" where
  "err_is t (EWrap m e) = (EWrap m e = t \<or> err_is t e)"
| "err_is t (EJoin es) = (EJoin es = t \<or> (\<exists>e \<in> set es. err_is t e))"
| "err_is t e = (e = t)"

type_synonym 'a result = "err + 'a"

named_theorems go_simps "executable equations of the Go library functions the model uses"
named_theorems hold_intros "preservation facts of hold sets"
named_theorems hold_simps "equations of hold set operations"
named_theorems sup_intros "preservation facts of the process supervisor"

section \<open>Lists\<close>

text \<open>\<^verbatim>\<open>slices.DeleteFunc\<close> on a key, and \<^verbatim>\<open>slices.IndexFunc\<close> followed by indexing.\<close>

abbreviation drop_key :: "('a \<Rightarrow> 'k) \<Rightarrow> 'k \<Rightarrow> 'a list \<Rightarrow> 'a list" where
  "drop_key f k \<equiv> filter (\<lambda>x. f x \<noteq> k)"

abbreviation find_key :: "('a \<Rightarrow> 'k) \<Rightarrow> 'k \<Rightarrow> 'a list \<Rightarrow> 'a option" where
  "find_key f k \<equiv> find (\<lambda>x. f x = k)"

lemma find_key_Some_iff:
  assumes "distinct (map f xs)"
  shows "find_key f k xs = Some x \<longleftrightarrow> x \<in> set xs \<and> f x = k"
  using assms by (induction xs) (auto simp: rev_image_eqI)

lemma find_key_SomeD: "find_key f k xs = Some x \<Longrightarrow> x \<in> set xs \<and> f x = k"
  by (induction xs) (auto split: if_splits)

lemma find_key_None_iff: "find_key f k xs = None \<longleftrightarrow> k \<notin> f ` set xs"
  by (induction xs) auto

lemma find_key_unique:
  assumes "x \<in> set xs" "f x = k" "\<And>y. y \<in> set xs \<Longrightarrow> f y = k \<Longrightarrow> y = x"
  shows "find_key f k xs = Some x"
proof (cases "find_key f k xs")
  case None
  with assms(1,2) show ?thesis by (metis find_key_None_iff imageI)
next
  case (Some y)
  with assms(3) find_key_SomeD [OF Some] show ?thesis by simp
qed

lemma drop_key_absent: "k \<notin> f ` set xs \<Longrightarrow> drop_key f k xs = xs"
  by (induction xs) auto

lemma drop_key_length_neq: "length (drop_key f k xs) \<noteq> length xs \<longleftrightarrow> k \<in> f ` set xs"
proof
  assume "length (drop_key f k xs) \<noteq> length xs"
  then show "k \<in> f ` set xs" by (metis drop_key_absent)
next
  assume "k \<in> f ` set xs"
  then obtain x where "x \<in> set xs" "f x = k" by auto
  then have "length (drop_key f k xs) < length xs"
    by (intro length_filter_less) auto
  then show "length (drop_key f k xs) \<noteq> length xs" by simp
qed

lemma distinct_map_drop_key: "distinct (map f xs) \<Longrightarrow> distinct (map f (drop_key f k xs))"
  by (induction xs) auto

lemma key_notin_drop_key [simp]: "k \<notin> f ` {x \<in> A. f x \<noteq> k}"
  by auto

lemma distinct_map_sort_key [simp]:
  "distinct (map f (sort_key g xs)) \<longleftrightarrow> distinct (map f xs)"
  by (simp add: distinct_map)

text \<open>Two lists sorted by a key that is injective on them are equal when their sets are.\<close>

lemma sorted_map_inj_unique:
  assumes "sorted (map f xs)" "sorted (map f ys)" "distinct (map f xs)" "distinct (map f ys)"
    and "set xs = set ys"
  shows "xs = ys"
proof -
  have "map f xs = map f ys"
    using assms by (intro sorted_distinct_set_unique) auto
  moreover have "inj_on f (set xs \<union> set ys)"
    using assms by (simp add: distinct_map)
  ultimately show ?thesis by (auto dest: map_inj_on)
qed

lemma find_key_perm:
  assumes "distinct (map f xs)" "set ys = set xs" "distinct (map f ys)"
  shows "find_key f k ys = find_key f k xs"
proof (cases "find_key f k xs")
  case None
  with assms(2) have "k \<notin> f ` set ys" by (simp add: find_key_None_iff)
  then have "find_key f k ys = None" by (simp only: find_key_None_iff not_False_eq_True)
  with None show ?thesis by simp
next
  case (Some x)
  with assms have "find_key f k ys = Some x" by (simp add: find_key_Some_iff)
  with Some show ?thesis by simp
qed

text \<open>Filters keep sortedness: what \<^verbatim>\<open>slices.DeleteFunc\<close> does to a sorted list.\<close>

lemma sorted_map_filter: "sorted (map f xs) \<Longrightarrow> sorted (map f (filter P xs))"
  by (rule sorted_filter)

section \<open>Strings\<close>

text \<open>\<^verbatim>\<open>strings.HasPrefix\<close>, \<^verbatim>\<open>strings.TrimSuffix\<close>, \<^verbatim>\<open>strings.Trim(s, c)\<close> for one character.\<close>

fun has_prefix :: "'a list \<Rightarrow> 'a list \<Rightarrow> bool" where
  "has_prefix [] s = True"
| "has_prefix (p # ps) [] = False"
| "has_prefix (p # ps) (c # cs) = (p = c \<and> has_prefix ps cs)"

lemma has_prefix_iff: "has_prefix p s \<longleftrightarrow> (\<exists>t. s = p @ t)"
  by (induction p s rule: has_prefix.induct) auto

lemma has_prefix_append [simp]: "has_prefix p (p @ t)"
  by (auto simp: has_prefix_iff)

lemma has_prefix_take: "has_prefix p s \<longleftrightarrow> take (length p) s = p"
  by (auto simp: has_prefix_iff) (metis append_take_drop_id)

definition has_suffix :: "'a list \<Rightarrow> 'a list \<Rightarrow> bool" where
  "has_suffix p s = has_prefix (rev p) (rev s)"

lemma has_suffix_iff: "has_suffix p s \<longleftrightarrow> (\<exists>t. s = t @ p)"
proof -
  have "has_suffix p s \<longleftrightarrow> (\<exists>t. rev s = rev p @ t)" by (simp add: has_suffix_def has_prefix_iff)
  also have "\<dots> \<longleftrightarrow> (\<exists>t. s = t @ p)"
    by (metis rev_append rev_rev_ident)
  finally show ?thesis .
qed

definition trim_suffix :: "'a list \<Rightarrow> 'a list \<Rightarrow> 'a list" where
  "trim_suffix p s = (if has_suffix p s then take (length s - length p) s else s)"

definition trim_right :: "('a \<Rightarrow> bool) \<Rightarrow> 'a list \<Rightarrow> 'a list" where
  "trim_right P s = rev (dropWhile P (rev s))"

definition trim :: "('a \<Rightarrow> bool) \<Rightarrow> 'a list \<Rightarrow> 'a list" where
  "trim P s = trim_right P (dropWhile P s)"

lemma trim_right_last: "trim_right P s \<noteq> [] \<Longrightarrow> \<not> P (last (trim_right P s))"
  using hd_dropWhile [of P "rev s"] by (simp add: trim_right_def last_rev)

lemma trim_right_prefix: "\<exists>t. s = trim_right P s @ t \<and> (\<forall>x \<in> set t. P x)"
proof -
  have "rev s = takeWhile P (rev s) @ dropWhile P (rev s)" by simp
  then have "s = trim_right P s @ rev (takeWhile P (rev s))"
    by (metis rev_append rev_rev_ident trim_right_def)
  moreover have "\<forall>x \<in> set (rev (takeWhile P (rev s))). P x"
    by (auto dest: set_takeWhileD)
  ultimately show ?thesis by blast
qed

lemma set_trim_right: "set (trim_right P s) \<subseteq> set s"
  by (metis trim_right_prefix set_append Un_upper1)

lemma length_trim_right: "length (trim_right P s) \<le> length s"
  by (metis trim_right_prefix length_append le_add1)

lemma set_trim: "set (trim P s) \<subseteq> set s"
  using set_trim_right [of P "dropWhile P s"] by (auto simp: trim_def dest: set_dropWhileD)

lemma length_trim: "length (trim P s) \<le> length s"
  unfolding trim_def by (meson length_trim_right length_dropWhile_le order_trans)

lemma trim_last: "trim P s \<noteq> [] \<Longrightarrow> \<not> P (last (trim P s))"
  by (simp add: trim_def trim_right_last)

lemma trim_hd: "trim P s \<noteq> [] \<Longrightarrow> \<not> P (hd (trim P s))"
proof -
  assume ne: "trim P s \<noteq> []"
  obtain t where t: "dropWhile P s = trim P s @ t"
    using trim_right_prefix [of "dropWhile P s" P] by (auto simp: trim_def)
  with ne have "hd (trim P s) = hd (dropWhile P s)" "dropWhile P s \<noteq> []"
    by (auto simp: hd_append)
  then show "\<not> P (hd (trim P s))" by (simp add: hd_dropWhile)
qed

text \<open>
  \<^verbatim>\<open>strings.Cut(s, c)\<close> at a one-byte separator: the text before the first occurrence and the
  text after it; the whole string and the empty string when there is none.
\<close>

fun cut :: "char \<Rightarrow> string \<Rightarrow> string \<times> string" where
  "cut c [] = ([], [])"
| "cut c (x # xs) = (if x = c then ([], xs) else (let (a, b) = cut c xs in (x # a, b)))"

lemma cut_append: "c \<notin> set a \<Longrightarrow> cut c (a @ c # b) = (a, b)"
  by (induction a) auto

lemma cut_fst_clean: "c \<notin> set (fst (cut c s))"
  by (induction s) (auto simp: Let_def split: prod.splits)

text \<open>\<^verbatim>\<open>strings.Contains\<close>.\<close>

fun contains :: "string \<Rightarrow> string \<Rightarrow> bool" where
  "contains sub [] = (sub = [])"
| "contains sub (c # cs) = (has_prefix sub (c # cs) \<or> contains sub cs)"

lemma contains_iff: "contains sub s \<longleftrightarrow> (\<exists>a b. s = a @ sub @ b)"
proof (induction s)
  case (Cons c cs)
  have "(\<exists>a b. c # cs = a @ sub @ b) \<longleftrightarrow> has_prefix sub (c # cs) \<or> (\<exists>a b. cs = a @ sub @ b)"
    by (auto simp: has_prefix_iff Cons_eq_append_conv)
  with Cons show ?case by simp
qed simp

text \<open>\<^verbatim>\<open>strings.ReplaceAll\<close> of a text that is not empty.\<close>

function replace_all :: "string \<Rightarrow> string \<Rightarrow> string \<Rightarrow> string" where
  "replace_all old new s =
     (if old = [] \<or> s = [] then s
      else if has_prefix old s then new @ replace_all old new (drop (length old) s)
      else hd s # replace_all old new (tl s))"
  by auto
termination by (relation "measure (\<lambda>(_, _, s). length s)") (auto simp: has_prefix_iff)

declare replace_all.simps [simp del]

text \<open>\<^verbatim>\<open>strings.Split(s, c)\<close> at a one-byte separator.\<close>

fun split_on :: "char \<Rightarrow> string \<Rightarrow> string list" where
  "split_on c [] = [[]]"
| "split_on c (x # xs) =
     (if x = c then [] # split_on c xs
      else (case split_on c xs of [] \<Rightarrow> [[x]] | y # ys \<Rightarrow> (x # y) # ys))"

lemma split_on_nonempty [simp]: "split_on c s \<noteq> []"
  by (induction s) (auto split: list.splits)

text \<open>\<^verbatim>\<open>strings.Join\<close>.\<close>

fun join :: "string \<Rightarrow> string list \<Rightarrow> string" where
  "join sep [] = []"
| "join sep [x] = x"
| "join sep (x # y # ys) = x @ sep @ join sep (y # ys)"

lemma join_split_on: "join [c] (split_on c s) = s"
proof (induction s)
  case Nil
  then show ?case by simp
next
  case (Cons x xs)
  show ?case
  proof (cases "split_on c xs")
    case Nil
    then show ?thesis by simp
  next
    case (Cons y ys)
    with \<open>join [c] (split_on c xs) = xs\<close> show ?thesis by (cases ys) auto
  qed
qed

text \<open>\<^verbatim>\<open>strings.ToLower\<close> and \<^verbatim>\<open>strings.ToUpper\<close> on ASCII; other bytes are unchanged.\<close>

definition to_lower_char :: "char \<Rightarrow> char" where
  "to_lower_char c = (let n = of_char c :: nat in if 65 \<le> n \<and> n \<le> 90 then char_of (n + 32) else c)"

definition to_upper_char :: "char \<Rightarrow> char" where
  "to_upper_char c = (let n = of_char c :: nat in if 97 \<le> n \<and> n \<le> 122 then char_of (n - 32) else c)"

definition to_lower :: "string \<Rightarrow> string" where
  "to_lower s = map to_lower_char s"

definition to_upper :: "string \<Rightarrow> string" where
  "to_upper s = map to_upper_char s"

text \<open>Decimal rendering of an integer, as \<^verbatim>\<open>fmt\<close>'s \<^verbatim>\<open>%d\<close> writes it.\<close>

fun nat_digits :: "nat \<Rightarrow> string" where
  "nat_digits n = (if n < 10 then [char_of (48 + n)]
                   else nat_digits (n div 10) @ [char_of (48 + n mod 10)])"

declare nat_digits.simps [simp del]

definition int_digits :: "int \<Rightarrow> string" where
  "int_digits i = (if i < 0 then CHR ''-'' # nat_digits (nat (- i)) else nat_digits (nat i))"

fun digits_value :: "string \<Rightarrow> nat" where
  "digits_value s = foldl (\<lambda>a c. a * 10 + (of_char c - 48)) 0 s"

lemma of_char_digit: "n < 10 \<Longrightarrow> of_char (char_of (48 + n :: nat) :: char) = (48 + n :: nat)"
  by simp

lemma digits_value_nat_digits: "digits_value (nat_digits n) = n"
proof (induction n rule: nat_digits.induct)
  case (1 n)
  then show ?case
    by (cases "n < 10") (auto simp: nat_digits.simps [of n] of_char_digit)
qed

lemma nat_digits_inj: "nat_digits m = nat_digits n \<Longrightarrow> m = n"
  by (metis digits_value_nat_digits)

lemma nat_digits_range: "\<forall>c \<in> set (nat_digits n). 48 \<le> (of_char c :: nat) \<and> (of_char c :: nat) \<le> 57"
proof (induction n rule: nat_digits.induct)
  case (1 n)
  then show ?case
    by (cases "n < 10") (auto simp: nat_digits.simps [of n] of_char_digit)
qed

lemma nat_digits_nonempty: "nat_digits n \<noteq> []"
  by (subst nat_digits.simps) simp

lemma nat_digits_no_dash: "CHR ''-'' \<notin> set (nat_digits n)"
  using nat_digits_range [of n] by auto

lemma int_digits_inj: "int_digits i = int_digits j \<Longrightarrow> i = j"
proof -
  assume eq: "int_digits i = int_digits j"
  have no: "\<And>n xs. nat_digits n \<noteq> CHR ''-'' # xs"
    using nat_digits_no_dash by (metis list.set_intros(1))
  show "i = j"
    using eq no no [symmetric] nat_digits_inj
    by (auto simp: int_digits_def split: if_splits dest!: nat_digits_inj)
qed

end
