(* ===== verification/Kube.thy ===== *)
theory Kube
  imports RC_Prelude
begin

text \<open>
  The Kubernetes vocabulary the components share: object metadata, JSON documents in
  annotations, and the optimistic-concurrency contract of an API object.
  The API server, client-go and apimachinery are not part of the repository. What the code
  observes of them is data of the model (the controller reference of an object, its status
  conditions), and the calls that read and write objects are arguments of the definitions that
  use them, with \<open>optimistic_lock\<close> as the documented behaviour of a patch that carries a
  resourceVersion.
\<close>

section \<open>Object metadata\<close>

type_synonym time = nat

record owner_ref =
  or_apiVersion :: string
  or_kind :: string
  or_name :: string
  or_uid :: string

text \<open>
  JSON values. An annotation holds text: \<open>Doc j\<close> is the text of the JSON value \<open>j\<close>, \<open>Raw s\<close> is
  text that is not a JSON document (in particular the empty string).
\<close>

datatype json =
    JNull
  | JBool bool
  | JNum int
  | JStr string
  | JArr "json list"
  | JObj "(string \<times> json) list"

datatype annotation = Raw string | Doc json

text \<open>
  \<open>o_version\<close> is the opaque resourceVersion (only compared for equality), \<open>o_controller\<close> is the
  owner reference that \<^verbatim>\<open>metav1.GetControllerOf\<close> returns, \<open>o_deleting\<close> the deletionTimestamp.
\<close>

record kobj =
  o_namespace :: string
  o_name :: string
  o_uid :: string
  o_version :: nat
  o_generation :: int
  o_annotations :: "string \<rightharpoonup> annotation"
  o_labels :: "string \<rightharpoonup> string"
  o_created :: "time option"
  o_deleting :: "time option"
  o_finalizers :: "string list"
  o_controller :: "owner_ref option"

text \<open>\<^verbatim>\<open>obj.GetAnnotations()[a]\<close>: a missing key reads as the empty string.\<close>

definition annotation_value :: "('x) kobj_scheme \<Rightarrow> string \<Rightarrow> annotation" where
  "annotation_value obj a = (case o_annotations obj a of None \<Rightarrow> Raw [] | Some v \<Rightarrow> v)"

text \<open>\<^verbatim>\<open>controllerutil.ContainsFinalizer\<close>, \<^verbatim>\<open>AddFinalizer\<close> and \<^verbatim>\<open>RemoveFinalizer\<close>.\<close>

definition contains_finalizer :: "('x) kobj_scheme \<Rightarrow> string \<Rightarrow> bool" where
  "contains_finalizer obj f = (f \<in> set (o_finalizers obj))"

definition add_finalizer :: "string \<Rightarrow> ('x) kobj_scheme \<Rightarrow> ('x) kobj_scheme" where
  "add_finalizer f obj =
     (if contains_finalizer obj f then obj else obj\<lparr>o_finalizers := o_finalizers obj @ [f]\<rparr>)"

definition remove_finalizer :: "string \<Rightarrow> ('x) kobj_scheme \<Rightarrow> ('x) kobj_scheme" where
  "remove_finalizer f obj = obj\<lparr>o_finalizers := filter (\<lambda>x. x \<noteq> f) (o_finalizers obj)\<rparr>"

text \<open>\<^verbatim>\<open>metav1.IsControlledBy\<close>: the controller reference carries the owner's UID.\<close>

definition is_controlled_by :: "('x) kobj_scheme \<Rightarrow> string \<Rightarrow> bool" where
  "is_controlled_by obj uid =
     (case o_controller obj of None \<Rightarrow> False | Some r \<Rightarrow> or_uid r = uid)"

section \<open>Status conditions\<close>

datatype cond_status = CTrue | CFalse | CUnknown

record condition =
  c_status :: cond_status
  c_observed :: int
  c_reason :: string
  c_message :: string
  c_transition :: "time option"

text \<open>The conditions of a status by type: what \<^verbatim>\<open>meta.FindStatusCondition\<close> returns.\<close>

type_synonym conditions = "string \<rightharpoonup> condition"

text \<open>\<^verbatim>\<open>conditions.ReadyAtGeneration\<close>.\<close>

definition ReadyAtGeneration :: "conditions \<Rightarrow> string \<Rightarrow> int \<Rightarrow> int \<Rightarrow> bool" where
  "ReadyAtGeneration conds condType generation observedGeneration =
     (if observedGeneration < generation then False
      else (case conds condType of
              None \<Rightarrow> False
            | Some c \<Rightarrow> c_status c = CTrue \<and> c_observed c \<ge> generation))"

section \<open>Reading and patching one API object\<close>

text \<open>
  \<open>get s\<close> reads the object under a fixed key from the API state \<open>s\<close> outside every cache.
  \<open>patch before after s\<close> sends the difference between the two with the resourceVersion of
  \<open>before\<close> as a precondition. The documented contract: a successful patch found exactly the object
  that was read, and afterwards the object reads as \<open>after\<close> with a new resourceVersion; a Conflict,
  AlreadyExists or NotFound answer wrote nothing. Other errors promise nothing: the write may have
  happened.
\<close>

definition api_refused :: "err \<Rightarrow> bool" where
  "api_refused e = (err_is EConflict e \<or> err_is EAlreadyExists e \<or> err_is ENotFound e)"

type_synonym ('api, 'o) getter = "'api \<Rightarrow> 'o result"
type_synonym ('api, 'o) patcher = "'o \<Rightarrow> 'o \<Rightarrow> 'api \<Rightarrow> 'api \<times> err option"

definition optimistic_lock ::
  "('api, 'x kobj_scheme) getter \<Rightarrow> ('api, 'x kobj_scheme) patcher \<Rightarrow> bool" where
  "optimistic_lock get patch \<longleftrightarrow>
     (\<forall>before after s s'. patch before after s = (s', None) \<longrightarrow>
        get s = Inr before \<and> (\<exists>v. get s' = Inr (after\<lparr>o_version := v\<rparr>))) \<and>
     (\<forall>before after s s' e. patch before after s = (s', Some e) \<longrightarrow> api_refused e \<longrightarrow> s' = s)"

text \<open>
  An API object in memory, which satisfies the contract: the version grows with every write.
\<close>

definition mem_get :: "('x kobj_scheme) option \<Rightarrow> 'x kobj_scheme result" where
  "mem_get s = (case s of None \<Rightarrow> Inl ENotFound | Some obj \<Rightarrow> Inr obj)"

definition mem_patch ::
  "'x kobj_scheme \<Rightarrow> 'x kobj_scheme \<Rightarrow> ('x kobj_scheme) option \<Rightarrow> ('x kobj_scheme) option \<times> err option" where
  "mem_patch before after s =
     (case s of
        None \<Rightarrow> (s, Some ENotFound)
      | Some obj \<Rightarrow> if obj = before then (Some (after\<lparr>o_version := Suc (o_version obj)\<rparr>), None)
                    else (s, Some EConflict))"

lemma optimistic_lock_mem: "optimistic_lock mem_get mem_patch"
  by (auto simp: optimistic_lock_def mem_get_def mem_patch_def split: option.splits if_splits)

lemma optimistic_lock_ok:
  assumes "optimistic_lock get patch" and "patch before after s = (s', None)"
  shows "get s = Inr before" and "\<exists>v. get s' = Inr (after\<lparr>o_version := v\<rparr>)"
  using assms unfolding optimistic_lock_def by blast+

lemma optimistic_lock_refused:
  assumes "optimistic_lock get patch" and "patch before after s = (s', Some e)"
    and "api_refused e"
  shows "s' = s"
  using assms unfolding optimistic_lock_def by blast

section \<open>Finalizer facts\<close>

lemma add_finalizer_frame [simp]:
  "o_annotations (add_finalizer f obj) = o_annotations obj"
  "o_uid (add_finalizer f obj) = o_uid obj"
  "o_deleting (add_finalizer f obj) = o_deleting obj"
  by (simp_all add: add_finalizer_def)

lemma contains_add_finalizer [simp]:
  "contains_finalizer (add_finalizer f obj) g \<longleftrightarrow> g = f \<or> contains_finalizer obj g"
  by (auto simp: add_finalizer_def contains_finalizer_def)

lemma contains_remove_finalizer [simp]:
  "contains_finalizer (remove_finalizer f obj) g \<longleftrightarrow> g \<noteq> f \<and> contains_finalizer obj g"
  by (auto simp: remove_finalizer_def contains_finalizer_def)

end
