(* ===== verification/HoldSet.thy ===== *)
theory HoldSet
  imports Kube
begin

text \<open>
  Package \<^verbatim>\<open>internal/holdset\<close>: a durable list of holders with an irreversible Closed fence, kept
  in one annotation of one API object. \<^verbatim>\<open>holdset.go\<close> gives the holders, the in-memory state and
  its operations, admission, the compare-and-swap loop \<^verbatim>\<open>Update\<close> and the operations built on it;
  \<^verbatim>\<open>store.go\<close> gives the two stores. The theory proves the state invariant (sorted, distinct keys),
  the fence, admission against a conflict policy (locale \<open>conflicts_policy\<close>) and that \<^verbatim>\<open>Update\<close>
  is atomic against concurrent writers (locale \<open>hold_store\<close>, the \<^verbatim>\<open>Store\<close> interface).
\<close>

section \<open>Holders and state\<close>

type_synonym mode = string

record holder =
  h_kind :: string
  h_name :: string
  h_uid :: string
  h_mode :: mode
  h_since :: "time option"

definition HolderFor :: "string \<Rightarrow> 'x kobj_scheme \<Rightarrow> mode \<Rightarrow> holder" where
  "HolderFor kind owner mode =
     \<lparr>h_kind = kind, h_name = o_name owner, h_uid = o_uid owner, h_mode = mode, h_since = None\<rparr>"

definition Key :: "holder \<Rightarrow> string" where
  "Key h = h_kind h @ ''/'' @ h_uid h"

record hold_state =
  hs_closed :: bool
  hs_holders :: "holder list"

definition empty_state :: hold_state where
  "empty_state = \<lparr>hs_closed = False, hs_holders = []\<rparr>"

definition State_Find :: "string \<Rightarrow> hold_state \<Rightarrow> holder option" where
  "State_Find key s = find_key Key key (hs_holders s)"

definition State_Remove :: "string \<Rightarrow> hold_state \<Rightarrow> hold_state \<times> bool" where
  "State_Remove key s =
     (let kept = drop_key Key key (hs_holders s)
      in (s\<lparr>hs_holders := kept\<rparr>, length kept \<noteq> length (hs_holders s)))"

text \<open>
  \<^verbatim>\<open>State.Put\<close>; \<open>now\<close> is \<^verbatim>\<open>metav1.Now()\<close>. \<^verbatim>\<open>slices.SortFunc\<close> is not stable, so the order of
  holders with equal keys is only fixed where keys are distinct, which \<open>hold_wf\<close> below maintains.
\<close>

definition put_since :: "time \<Rightarrow> holder \<Rightarrow> hold_state \<Rightarrow> time option" where
  "put_since now h s =
     (let since = (case State_Find (Key h) s of
                     Some e \<Rightarrow> if h_since e \<noteq> None then h_since e else h_since h
                   | None \<Rightarrow> h_since h)
      in if since = None then Some now else since)"

definition State_Put :: "time \<Rightarrow> holder \<Rightarrow> hold_state \<Rightarrow> hold_state" where
  "State_Put now h s =
     (let h' = h\<lparr>h_since := put_since now h s\<rparr>;
          s' = fst (State_Remove (Key h') s)
      in s'\<lparr>hs_holders := sort_key Key (hs_holders s' @ [h'])\<rparr>)"

section \<open>Admission\<close>

type_synonym conflicts = "holder list \<Rightarrow> holder \<Rightarrow> holder list"

record hold_result =
  r_admitted :: bool
  r_held :: bool
  r_closed :: bool
  r_conflicts :: "holder list"

definition no_result :: hold_result where
  "no_result = \<lparr>r_admitted = False, r_held = False, r_closed = False, r_conflicts = []\<rparr>"

definition State_Admit ::
  "time \<Rightarrow> holder \<Rightarrow> conflicts \<Rightarrow> hold_state \<Rightarrow> hold_result \<times> hold_state \<times> bool" where
  "State_Admit now candidate conflicts s =
     (if (case State_Find (Key candidate) s of
            Some e \<Rightarrow> h_mode e = h_mode candidate | None \<Rightarrow> False)
      then (no_result\<lparr>r_admitted := \<not> hs_closed s, r_held := True, r_closed := hs_closed s\<rparr>, s, False)
      else if hs_closed s then (no_result\<lparr>r_closed := True\<rparr>, s, False)
      else let others = drop_key Key (Key candidate) (hs_holders s);
               blocking = conflicts others candidate
           in if blocking \<noteq> [] then (no_result\<lparr>r_conflicts := blocking\<rparr>, s, False)
              else (no_result\<lparr>r_admitted := True\<rparr>, State_Put now candidate s, True))"

section \<open>The compare-and-swap loop\<close>

text \<open>
  The \<^verbatim>\<open>Store\<close> interface: \<open>load\<close> gives the object (None when absent) and its decoded state,
  \<open>save\<close> persists a state under that object's resourceVersion.
\<close>

type_synonym ('api, 'o) load = "'api \<Rightarrow> ('o option \<times> hold_state) result"
type_synonym ('api, 'o) save = "'o option \<Rightarrow> hold_state \<Rightarrow> 'api \<Rightarrow> 'api \<times> err option"

record ('api, 'o) store =
  st_load :: "('api, 'o) load"
  st_save :: "('api, 'o) save"

text \<open>
  The \<open>change\<close> closure of \<^verbatim>\<open>Update\<close>: from the object and its state, the value of the captured
  variable (the admission result, the removed holders) and either an error or whether the state
  changed, with the new state.
\<close>

type_synonym ('o, 'r) change = "'o option \<Rightarrow> hold_state \<Rightarrow> 'r \<times> (bool \<times> hold_state) result"

definition retriable :: "err \<Rightarrow> bool" where
  "retriable e = (err_is EConflict e \<or> err_is EAlreadyExists e)"

text \<open>
  \<^verbatim>\<open>retry.OnError\<close> with a backoff of \<open>steps\<close> attempts: a retriable error tries again, the last one
  is returned when the attempts are used up. \<open>k\<close> numbers the attempts.
\<close>

fun retry_on_error ::
  "nat \<Rightarrow> (nat \<Rightarrow> 's \<Rightarrow> 's \<times> err option) \<Rightarrow> nat \<Rightarrow> err option \<Rightarrow> 's \<Rightarrow> 's \<times> err option" where
  "retry_on_error 0 f k lastErr s = (s, lastErr)"
| "retry_on_error (Suc steps) f k lastErr s =
     (case f k s of
        (s', None) \<Rightarrow> (s', None)
      | (s', Some e) \<Rightarrow>
          if retriable e then retry_on_error steps f (Suc k) (Some e) s' else (s', Some e))"

text \<open>
  One attempt of \<^verbatim>\<open>Update\<close>. The state of the loop is the API state, the captured variable
  \<open>result\<close> of \<^verbatim>\<open>Update\<close> and the captured variable of the closure. \<open>env n\<close> is what the other
  controllers do to the API at their \<open>n\<close>-th opportunity: before the load and between the load and
  the save of every attempt.
\<close>

fun update_attempt ::
  "(nat \<Rightarrow> 'api \<Rightarrow> 'api) \<Rightarrow> ('api, 'o) store \<Rightarrow> ('o, 'r) change \<Rightarrow>
   nat \<Rightarrow> 'api \<times> hold_state \<times> 'r \<Rightarrow> ('api \<times> hold_state \<times> 'r) \<times> err option" where
  "update_attempt env store change k (api, result, out) =
     (let api0 = env (2 * k) api
      in case st_load store api0 of
           Inl e \<Rightarrow> ((api0, result, out), Some e)
         | Inr (obj, current) \<Rightarrow>
             (case change obj current of
                (out', Inl e) \<Rightarrow> ((api0, result, out'), Some e)
              | (out', Inr (changed, current')) \<Rightarrow>
                  if \<not> changed then ((api0, current', out'), None)
                  else let (api2, e) = st_save store obj current' (env (2 * k + 1) api0)
                       in ((api2, current', out'), e)))"

definition Update ::
  "nat \<Rightarrow> (nat \<Rightarrow> 'api \<Rightarrow> 'api) \<Rightarrow> ('api, 'o) store \<Rightarrow> ('o, 'r) change \<Rightarrow> 'r \<Rightarrow> 'api \<Rightarrow>
   ('api \<times> hold_state \<times> 'r) \<times> err option" where
  "Update steps env store change out0 api =
     retry_on_error steps (update_attempt env store change) 0 None (api, empty_state, out0)"

section \<open>Acquire, Release, Close and Sweep\<close>

definition acquire_change :: "time \<Rightarrow> holder \<Rightarrow> conflicts \<Rightarrow> ('o, hold_result) change" where
  "acquire_change now candidate conflicts obj s =
     (case State_Admit now candidate conflicts s of (r, s', changed) \<Rightarrow> (r, Inr (changed, s')))"

definition Acquire ::
  "nat \<Rightarrow> (nat \<Rightarrow> 'api \<Rightarrow> 'api) \<Rightarrow> time \<Rightarrow> ('api, 'o) store \<Rightarrow> holder \<Rightarrow> conflicts \<Rightarrow> 'api \<Rightarrow>
   'api \<times> hold_result result" where
  "Acquire steps env now store candidate conflicts api =
     (case Update steps env store (acquire_change now candidate conflicts) no_result api of
        ((api', _, r), None) \<Rightarrow> (api', Inr r)
      | ((api', _, r), Some e) \<Rightarrow> (api', if err_is EAbsent e then Inr no_result else Inl e))"

definition release_change :: "string \<Rightarrow> ('o, unit) change" where
  "release_change key obj s = ((), case State_Remove key s of (s', removed) \<Rightarrow> Inr (removed, s'))"

definition Release ::
  "nat \<Rightarrow> (nat \<Rightarrow> 'api \<Rightarrow> 'api) \<Rightarrow> ('api, 'o) store \<Rightarrow> string \<Rightarrow> 'api \<Rightarrow> 'api \<times> err option" where
  "Release steps env store key api =
     (case Update steps env store (release_change key) () api of ((api', _, _), e) \<Rightarrow> (api', e))"

definition close_change :: "('o, unit) change" where
  "close_change obj s =
     ((), if obj = None then Inl EAbsent
          else if hs_closed s then Inr (False, s)
          else Inr (True, s\<lparr>hs_closed := True\<rparr>))"

definition Close ::
  "nat \<Rightarrow> (nat \<Rightarrow> 'api \<Rightarrow> 'api) \<Rightarrow> ('api, 'o) store \<Rightarrow> 'api \<Rightarrow> 'api \<times> holder list result" where
  "Close steps env store api =
     (case Update steps env store close_change () api of
        ((api', s, _), None) \<Rightarrow> (api', Inr (hs_holders s))
      | ((api', _, _), Some e) \<Rightarrow> (api', Inl e))"

text \<open>The evaluation loop of \<^verbatim>\<open>Sweep\<close>: the first error of \<open>stale\<close> ends it.\<close>

fun stale_holders :: "(holder \<Rightarrow> bool result) \<Rightarrow> holder list \<Rightarrow> holder list result" where
  "stale_holders stale [] = Inr []"
| "stale_holders stale (h # hs) =
     (case stale h of
        Inl e \<Rightarrow> Inl e
      | Inr gone \<Rightarrow>
          (case stale_holders stale hs of
             Inl e \<Rightarrow> Inl e
           | Inr rest \<Rightarrow> Inr (if gone then h # rest else rest)))"

fun sweep_remove :: "holder list \<Rightarrow> hold_state \<Rightarrow> holder list \<times> hold_state" where
  "sweep_remove [] s = ([], s)"
| "sweep_remove (h # hs) s =
     (case State_Remove (Key h) s of
        (s', gone) \<Rightarrow> (case sweep_remove hs s' of
           (removed, s'') \<Rightarrow> (if gone then h # removed else removed, s'')))"

definition sweep_change :: "holder list \<Rightarrow> ('o, holder list) change" where
  "sweep_change candidates obj s =
     (case sweep_remove candidates s of (removed, s') \<Rightarrow> (removed, Inr (removed \<noteq> [], s')))"

definition Sweep ::
  "nat \<Rightarrow> (nat \<Rightarrow> 'api \<Rightarrow> 'api) \<Rightarrow> ('api, 'o) store \<Rightarrow> (holder \<Rightarrow> bool result) \<Rightarrow> 'api \<Rightarrow>
   'api \<times> holder list result" where
  "Sweep steps env store stale api =
     (case st_load store api of
        Inl e \<Rightarrow> (api, Inl e)
      | Inr (_, current) \<Rightarrow>
          if hs_holders current = [] then (api, Inr [])
          else (case stale_holders stale (hs_holders current) of
                  Inl e \<Rightarrow> (api, Inl e)
                | Inr [] \<Rightarrow> (api, Inr [])
                | Inr candidates \<Rightarrow>
                    (case Update steps env store (sweep_change candidates) [] api of
                       ((api', _, removed), None) \<Rightarrow> (api', Inr removed)
                     | ((api', _, _), Some e) \<Rightarrow> (api', Inl e))))"

section \<open>Encoding\<close>

text \<open>
  The JSON form of the hold set. \<open>tc\<close> renders and reads the RFC 3339 text of a time; a zero time
  is \<^verbatim>\<open>null\<close>. Reading follows \<^verbatim>\<open>encoding/json\<close>: keys match ignoring case, unknown keys are
  ignored, \<^verbatim>\<open>null\<close> leaves a scalar at its zero value, a value of another type is an error.
\<close>

record time_codec =
  tc_format :: "time \<Rightarrow> string"
  tc_parse :: "string \<Rightarrow> time option"

definition time_codec_ok :: "time_codec \<Rightarrow> bool" where
  "time_codec_ok tc \<longleftrightarrow> (\<forall>t. tc_parse tc (tc_format tc t) = Some t)"

definition marshal_holder :: "time_codec \<Rightarrow> holder \<Rightarrow> json" where
  "marshal_holder tc h =
     JObj [(''kind'', JStr (h_kind h)), (''name'', JStr (h_name h)), (''uid'', JStr (h_uid h)),
           (''mode'', JStr (h_mode h)),
           (''since'', case h_since h of None \<Rightarrow> JNull | Some t \<Rightarrow> JStr (tc_format tc t))]"

definition marshal_state :: "time_codec \<Rightarrow> hold_state \<Rightarrow> json" where
  "marshal_state tc s =
     JObj ((if hs_closed s then [(''closed'', JBool True)] else []) @
           (if hs_holders s \<noteq> [] then [(''holders'', JArr (map (marshal_holder tc) (hs_holders s)))]
            else []))"

definition json_error :: err where
  "json_error = EMsg ''json: cannot unmarshal''"

definition json_string :: "string \<Rightarrow> json \<Rightarrow> string result" where
  "json_string old v = (case v of JStr x \<Rightarrow> Inr x | JNull \<Rightarrow> Inr old | _ \<Rightarrow> Inl json_error)"

definition json_time :: "time_codec \<Rightarrow> json \<Rightarrow> time option result" where
  "json_time tc v =
     (case v of
        JNull \<Rightarrow> Inr None
      | JStr x \<Rightarrow> (case tc_parse tc x of None \<Rightarrow> Inl json_error | Some t \<Rightarrow> Inr (Some t))
      | _ \<Rightarrow> Inl json_error)"

definition set_holder_field :: "time_codec \<Rightarrow> holder \<Rightarrow> string \<times> json \<Rightarrow> holder result" where
  "set_holder_field tc h m =
     (let k = to_lower (fst m); v = snd m
      in if k = ''kind'' then map_sum id (\<lambda>x. h\<lparr>h_kind := x\<rparr>) (json_string (h_kind h) v)
         else if k = ''name'' then map_sum id (\<lambda>x. h\<lparr>h_name := x\<rparr>) (json_string (h_name h) v)
         else if k = ''uid'' then map_sum id (\<lambda>x. h\<lparr>h_uid := x\<rparr>) (json_string (h_uid h) v)
         else if k = ''mode'' then map_sum id (\<lambda>x. h\<lparr>h_mode := x\<rparr>) (json_string (h_mode h) v)
         else if k = ''since'' then map_sum id (\<lambda>x. h\<lparr>h_since := x\<rparr>) (json_time tc v)
         else Inr h)"

definition zero_holder :: holder where
  "zero_holder = \<lparr>h_kind = [], h_name = [], h_uid = [], h_mode = [], h_since = None\<rparr>"

fun fold_result :: "('a \<Rightarrow> 'b \<Rightarrow> 'a result) \<Rightarrow> 'a \<Rightarrow> 'b list \<Rightarrow> 'a result" where
  "fold_result f a [] = Inr a"
| "fold_result f a (x # xs) = (case f a x of Inl e \<Rightarrow> Inl e | Inr a' \<Rightarrow> fold_result f a' xs)"

definition unmarshal_holder :: "time_codec \<Rightarrow> json \<Rightarrow> holder result" where
  "unmarshal_holder tc j =
     (case j of
        JNull \<Rightarrow> Inr zero_holder
      | JObj ms \<Rightarrow> fold_result (set_holder_field tc) zero_holder ms
      | _ \<Rightarrow> Inl json_error)"

definition unmarshal_holders :: "time_codec \<Rightarrow> json list \<Rightarrow> holder list result" where
  "unmarshal_holders tc js =
     fold_result (\<lambda>hs j. map_sum id (\<lambda>h. hs @ [h]) (unmarshal_holder tc j)) [] js"

definition set_state_field :: "time_codec \<Rightarrow> hold_state \<Rightarrow> string \<times> json \<Rightarrow> hold_state result" where
  "set_state_field tc s m =
     (let k = to_lower (fst m); v = snd m
      in if k = ''closed''
         then (case v of JBool b \<Rightarrow> Inr (s\<lparr>hs_closed := b\<rparr>) | JNull \<Rightarrow> Inr s | _ \<Rightarrow> Inl json_error)
         else if k = ''holders''
         then (case v of
                 JArr js \<Rightarrow> map_sum id (\<lambda>hs. s\<lparr>hs_holders := hs\<rparr>) (unmarshal_holders tc js)
               | JNull \<Rightarrow> Inr (s\<lparr>hs_holders := []\<rparr>)
               | _ \<Rightarrow> Inl json_error)
         else Inr s)"

definition unmarshal_state :: "time_codec \<Rightarrow> annotation \<Rightarrow> hold_state result" where
  "unmarshal_state tc a =
     (case a of
        Doc (JObj ms) \<Rightarrow> fold_result (set_state_field tc) empty_state ms
      | Doc JNull \<Rightarrow> Inr empty_state
      | _ \<Rightarrow> Inl json_error)"

definition Decode :: "time_codec \<Rightarrow> string \<Rightarrow> 'x kobj_scheme \<Rightarrow> hold_state result" where
  "Decode tc annotation obj =
     (let value = annotation_value obj annotation
      in if value = Raw [] then Inr empty_state
         else (case unmarshal_state tc value of
                 Inl e \<Rightarrow> Inl (EWrap (''decode hold set '' @ annotation) e)
               | Inr s \<Rightarrow> Inr s))"

definition Encode :: "time_codec \<Rightarrow> string \<Rightarrow> hold_state \<Rightarrow> 'x kobj_scheme \<Rightarrow> 'x kobj_scheme" where
  "Encode tc annotation s obj =
     obj\<lparr>o_annotations := (o_annotations obj)(annotation \<mapsto> Doc (marshal_state tc s))\<rparr>"

section \<open>Stores\<close>

text \<open>
  \<^verbatim>\<open>AnnotationStore\<close>. \<open>get\<close> and \<open>patch\<close> are the client's uncached read and its conditional
  metadata patch at the store's key; \<open>as_decode\<close> is the resolved \<^verbatim>\<open>Decode\<close> field.
\<close>

record 'o annotation_store =
  as_uid :: string
  as_annotation :: string
  as_decode :: "'o \<Rightarrow> hold_state result"
  as_legacy :: "string list"

definition AnnotationStore_Load ::
  "('api, 'x kobj_scheme) getter \<Rightarrow> 'x kobj_scheme annotation_store \<Rightarrow>
   ('api, 'x kobj_scheme) load" where
  "AnnotationStore_Load get st api =
     (case get api of
        Inl e \<Rightarrow> if err_is ENotFound e then Inr (None, empty_state) else Inl e
      | Inr obj \<Rightarrow>
          if as_uid st \<noteq> [] \<and> o_uid obj \<noteq> as_uid st then Inr (None, empty_state)
          else (case as_decode st obj of Inl e \<Rightarrow> Inl e | Inr s \<Rightarrow> Inr (Some obj, s)))"

definition delete_annotations :: "string list \<Rightarrow> 'x kobj_scheme \<Rightarrow> 'x kobj_scheme" where
  "delete_annotations ks obj = obj\<lparr>o_annotations := (o_annotations obj) |` (- set ks)\<rparr>"

definition AnnotationStore_Save ::
  "('api, 'x kobj_scheme) patcher \<Rightarrow> time_codec \<Rightarrow> 'x kobj_scheme annotation_store \<Rightarrow>
   ('api, 'x kobj_scheme) save" where
  "AnnotationStore_Save patch tc st obj s api =
     (case obj of
        None \<Rightarrow> (api, Some EAbsent)
      | Some before \<Rightarrow>
          patch before (delete_annotations (as_legacy st) (Encode tc (as_annotation st) s before)) api)"

text \<open>
  \<^verbatim>\<open>LeaseStore\<close>. \<open>update\<close> is the client's Update of the object as it was read, \<open>create\<close> its Create;
  \<open>ls_new\<close> is the Lease built from the store's key, labels and owner references.
\<close>

record 'o lease_store =
  ls_annotation :: string
  ls_decode :: "'o \<Rightarrow> hold_state result"
  ls_new :: 'o

definition LeaseStore_Load ::
  "('api, 'x kobj_scheme) getter \<Rightarrow> 'x kobj_scheme lease_store \<Rightarrow> ('api, 'x kobj_scheme) load" where
  "LeaseStore_Load get st api =
     (case get api of
        Inl e \<Rightarrow> if err_is ENotFound e then Inr (None, empty_state) else Inl e
      | Inr lease \<Rightarrow> (case ls_decode st lease of Inl e \<Rightarrow> Inl e | Inr s \<Rightarrow> Inr (Some lease, s)))"

definition LeaseStore_Save ::
  "('api, 'x kobj_scheme) patcher \<Rightarrow> ('x kobj_scheme \<Rightarrow> 'api \<Rightarrow> 'api \<times> err option) \<Rightarrow>
   time_codec \<Rightarrow> 'x kobj_scheme lease_store \<Rightarrow> ('api, 'x kobj_scheme) save" where
  "LeaseStore_Save update create tc st obj s api =
     (case obj of
        None \<Rightarrow> create (Encode tc (ls_annotation st) s (ls_new st)) api
      | Some before \<Rightarrow> update before (Encode tc (ls_annotation st) s before) api)"

section \<open>The state invariant\<close>

text \<open>Holders are sorted by key and no key occurs twice.\<close>

definition hold_wf :: "hold_state \<Rightarrow> bool" where
  "hold_wf s \<longleftrightarrow> sorted (map Key (hs_holders s)) \<and> distinct (map Key (hs_holders s))"

lemma hold_wf_empty [simp, hold_intros]: "hold_wf empty_state"
  by (simp add: hold_wf_def empty_state_def)

lemma empty_state_simps [simp]: "hs_closed empty_state = False" "hs_holders empty_state = []"
  by (simp_all add: empty_state_def)

lemma hold_wf_close [simp]: "hold_wf (s\<lparr>hs_closed := b\<rparr>) = hold_wf s"
  by (simp add: hold_wf_def)

lemma Key_since [simp]: "Key (h\<lparr>h_since := t\<rparr>) = Key h"
  by (simp add: Key_def)

lemma Key_mode [simp]: "Key (h\<lparr>h_mode := t\<rparr>) = Key h"
  by (simp add: Key_def)

text \<open>A key determines kind and UID where kinds contain no slash, as the code's kinds do.\<close>

lemma Key_inj:
  assumes "CHR ''/'' \<notin> set (h_kind a)" "CHR ''/'' \<notin> set (h_kind b)" "Key a = Key b"
  shows "h_kind a = h_kind b \<and> h_uid a = h_uid b"
proof -
  have "cut (CHR ''/'') (Key a) = (h_kind a, h_uid a)" "cut (CHR ''/'') (Key b) = (h_kind b, h_uid b)"
    using assms(1,2) by (simp_all add: Key_def cut_append)
  then show ?thesis by (metis assms(3) prod.inject)
qed

lemma Remove_holders [hold_simps]:
  "hs_holders (fst (State_Remove k s)) = drop_key Key k (hs_holders s)"
  "hs_closed (fst (State_Remove k s)) = hs_closed s"
  "snd (State_Remove k s) \<longleftrightarrow> k \<in> Key ` set (hs_holders s)"
  using drop_key_length_neq [of Key k "hs_holders s"]
  by (simp_all add: State_Remove_def Let_def)

lemma hold_wf_Remove [hold_intros]: "hold_wf s \<Longrightarrow> hold_wf (fst (State_Remove k s))"
  unfolding hold_wf_def Remove_holders
  by (simp add: sorted_map_filter distinct_map_drop_key)

lemma set_Put:
  "set (hs_holders (State_Put now h s)) =
     insert (h\<lparr>h_since := put_since now h s\<rparr>) {x \<in> set (hs_holders s). Key x \<noteq> Key h}"
  by (auto simp: State_Put_def Let_def Remove_holders)

lemma Put_closed [hold_simps, simp]: "hs_closed (State_Put now h s) = hs_closed s"
  by (simp add: State_Put_def Let_def Remove_holders)

lemma hold_wf_Put [hold_intros]: "hold_wf s \<Longrightarrow> hold_wf (State_Put now h s)"
  by (simp add: hold_wf_def State_Put_def Let_def Remove_holders distinct_map_drop_key)

lemma Find_Some_iff:
  "hold_wf s \<Longrightarrow> State_Find k s = Some h \<longleftrightarrow> h \<in> set (hs_holders s) \<and> Key h = k"
  by (simp add: hold_wf_def State_Find_def find_key_Some_iff)

lemma Find_None_iff: "State_Find k s = None \<longleftrightarrow> k \<notin> Key ` set (hs_holders s)"
  by (simp only: State_Find_def find_key_None_iff)

lemma Find_Put_same: "State_Find (Key h) (State_Put now h s) = Some (h\<lparr>h_since := put_since now h s\<rparr>)"
  unfolding State_Find_def by (rule find_key_unique) (auto simp: set_Put)

text \<open>Lookup after a write: what \<^verbatim>\<open>Find\<close> returns after \<^verbatim>\<open>Put\<close> and \<^verbatim>\<open>Remove\<close>.\<close>

lemma Find_Put:
  assumes "hold_wf s"
  shows "State_Find k (State_Put now h s) =
    (if k = Key h then Some (h\<lparr>h_since := put_since now h s\<rparr>) else State_Find k s)"
proof (cases "k = Key h")
  case True
  then show ?thesis by (simp add: Find_Put_same)
next
  case False
  show ?thesis
  proof (cases "State_Find k s")
    case None
    with False have "k \<notin> Key ` set (hs_holders (State_Put now h s))"
      by (auto simp: set_Put Find_None_iff)
    with None False show ?thesis by (simp add: Find_None_iff [THEN iffD2])
  next
    case (Some x)
    with assms False have "State_Find k (State_Put now h s) = Some x"
      by (simp add: Find_Some_iff [OF hold_wf_Put [OF assms]] Find_Some_iff set_Put)
    with Some False show ?thesis by simp
  qed
qed

lemma Find_Remove:
  assumes "hold_wf s"
  shows "State_Find k (fst (State_Remove k' s)) = (if k = k' then None else State_Find k s)"
proof (cases "k = k'")
  case True
  then show ?thesis by (simp add: Find_None_iff Remove_holders)
next
  case False
  show ?thesis
  proof (cases "State_Find k s")
    case None
    then have "k \<notin> Key ` set (hs_holders (fst (State_Remove k' s)))"
      by (auto simp: Remove_holders Find_None_iff)
    with None False show ?thesis by (simp add: Find_None_iff [THEN iffD2])
  next
    case (Some x)
    with assms False have "State_Find k (fst (State_Remove k' s)) = Some x"
      by (simp add: Find_Some_iff [OF hold_wf_Remove [OF assms]] Find_Some_iff Remove_holders)
    with Some False show ?thesis by simp
  qed
qed

text \<open>The start time of a hold survives a rewrite of the holder.\<close>

lemma put_since_keeps:
  "State_Find (Key h) s = Some e \<Longrightarrow> h_since e \<noteq> None \<Longrightarrow> put_since now h s = h_since e"
  by (auto simp: put_since_def)

lemma put_since_some: "put_since now h s \<noteq> None"
  by (auto simp: put_since_def Let_def)

section \<open>Admission\<close>

lemma Admit_cases:
  obtains (held) e where "State_Find (Key c) s = Some e" "h_mode e = h_mode c"
    "State_Admit now c conflicts s =
       (no_result\<lparr>r_admitted := \<not> hs_closed s, r_held := True, r_closed := hs_closed s\<rparr>, s, False)"
  | (closed) "hs_closed s"
    "State_Admit now c conflicts s = (no_result\<lparr>r_closed := True\<rparr>, s, False)"
  | (blocked) "\<not> hs_closed s" "conflicts (drop_key Key (Key c) (hs_holders s)) c \<noteq> []"
    "State_Admit now c conflicts s =
       (no_result\<lparr>r_conflicts := conflicts (drop_key Key (Key c) (hs_holders s)) c\<rparr>, s, False)"
  | (admitted) "\<not> hs_closed s" "conflicts (drop_key Key (Key c) (hs_holders s)) c = []"
    "State_Admit now c conflicts s = (no_result\<lparr>r_admitted := True\<rparr>, State_Put now c s, True)"
proof (cases "case State_Find (Key c) s of Some e \<Rightarrow> h_mode e = h_mode c | None \<Rightarrow> False")
  case True
  then obtain e where "State_Find (Key c) s = Some e" "h_mode e = h_mode c"
    by (auto split: option.splits)
  then show ?thesis by (intro held [of e]) (simp_all add: State_Admit_def)
next
  case new: False
  show ?thesis
  proof (cases "hs_closed s")
    case True
    with new show ?thesis by (intro closed) (simp_all add: State_Admit_def)
  next
    case opened: False
    show ?thesis
      using new opened blocked admitted
      by (cases "conflicts (drop_key Key (Key c) (hs_holders s)) c = []")
        (simp_all add: State_Admit_def)
  qed
qed

lemma no_result_simps [simp]:
  "r_admitted no_result = False" "r_held no_result = False" "r_closed no_result = False"
  "r_conflicts no_result = []"
  by (simp_all add: no_result_def)

text \<open>An unchanged admission returns the state it was given.\<close>

lemma Admit_unchanged: "State_Admit now c conflicts s = (r, s', False) \<Longrightarrow> s' = s"
  by (rule Admit_cases [of c s now conflicts]) auto

lemma Admit_wf: "hold_wf s \<Longrightarrow> State_Admit now c conflicts s = (r, s', ch) \<Longrightarrow> hold_wf s'"
  by (rule Admit_cases [of c s now conflicts]) (auto intro: hold_wf_Put)

lemma Admit_closed_flag: "State_Admit now c conflicts s = (r, s', ch) \<Longrightarrow> hs_closed s' = hs_closed s"
  by (rule Admit_cases [of c s now conflicts]) auto

text \<open>Admitted means: the set is open and the candidate now holds its mode.\<close>

lemma Admit_admitted:
  assumes "State_Admit now c conflicts s = (r, s', ch)" "r_admitted r"
  shows "\<not> hs_closed s' \<and> (\<exists>h. State_Find (Key c) s' = Some h \<and> h_mode h = h_mode c)"
proof (rule Admit_cases [of c s now conflicts])
  fix e
  assume "State_Find (Key c) s = Some e" "h_mode e = h_mode c"
    "State_Admit now c conflicts s =
       (no_result\<lparr>r_admitted := \<not> hs_closed s, r_held := True, r_closed := hs_closed s\<rparr>, s, False)"
  with assms show ?thesis by auto
next
  assume "\<not> hs_closed s" "conflicts (drop_key Key (Key c) (hs_holders s)) c = []"
    "State_Admit now c conflicts s = (no_result\<lparr>r_admitted := True\<rparr>, State_Put now c s, True)"
  with assms show ?thesis by (auto simp: Find_Put_same)
qed (use assms in auto)

section \<open>Conflict policies\<close>

text \<open>
  What a \<^verbatim>\<open>Conflicts\<close> policy promises to the hold set: a set of holders it calls compatible stays
  so when holders leave, and when a candidate without conflicts joins. Whether holders are
  compatible does not depend on their start times.
\<close>

locale conflicts_policy =
  fixes conflicts :: conflicts
    and compatible :: "holder set \<Rightarrow> bool"
  assumes compatible_empty: "compatible {}"
    and compatible_mono: "compatible B \<Longrightarrow> A \<subseteq> B \<Longrightarrow> compatible A"
    and compatible_admit:
      "compatible (set hs) \<Longrightarrow> Key c \<notin> Key ` set hs \<Longrightarrow> conflicts hs c = [] \<Longrightarrow>
       compatible (insert (c\<lparr>h_since := t\<rparr>) (set hs))"
    and conflicts_existing: "set (conflicts hs c) \<subseteq> set hs"
begin

lemma Put_compatible:
  assumes "compatible (set (hs_holders s))"
    and "conflicts (drop_key Key (Key c) (hs_holders s)) c = []"
  shows "compatible (set (hs_holders (State_Put now c s)))"
proof -
  let ?others = "drop_key Key (Key c) (hs_holders s)"
  have "compatible (set ?others)"
    using assms(1) by (rule compatible_mono) auto
  then have "compatible (insert (c\<lparr>h_since := put_since now c s\<rparr>) (set ?others))"
    using assms(2) by (intro compatible_admit) auto
  then show ?thesis by (simp add: set_Put)
qed

lemma Admit_compatible:
  assumes "compatible (set (hs_holders s))" "State_Admit now c conflicts s = (r, s', ch)"
  shows "compatible (set (hs_holders s'))"
  using assms by (cases rule: Admit_cases [of c s now conflicts]) (auto intro: Put_compatible)

lemma Remove_compatible:
  "compatible (set (hs_holders s)) \<Longrightarrow> compatible (set (hs_holders (fst (State_Remove k s))))"
  by (rule compatible_mono) (auto simp: Remove_holders)

text \<open>A refusal names real holders: the reported conflicts are in the set and are not the candidate.\<close>

lemma Admit_conflicts:
  assumes "State_Admit now c conflicts s = (r, s', ch)" "h \<in> set (r_conflicts r)"
  shows "h \<in> set (hs_holders s) \<and> Key h \<noteq> Key c"
  using assms conflicts_existing [of "drop_key Key (Key c) (hs_holders s)" c]
  by (cases rule: Admit_cases [of c s now conflicts]) auto

end

section \<open>Steps and reachable states\<close>

text \<open>Every change of a stored hold set is one of these steps.\<close>

inductive hold_step :: "conflicts \<Rightarrow> hold_state \<Rightarrow> hold_state \<Rightarrow> bool" for conflicts where
  admit: "State_Admit now c conflicts s = (r, s', True) \<Longrightarrow> hold_step conflicts s s'"
| remove: "State_Remove k s = (s', True) \<Longrightarrow> hold_step conflicts s s'"
| close: "\<not> hs_closed s \<Longrightarrow> hold_step conflicts s (s\<lparr>hs_closed := True\<rparr>)"

inductive hold_reachable :: "conflicts \<Rightarrow> hold_state \<Rightarrow> hold_state \<Rightarrow> bool" for conflicts where
  refl: "hold_reachable conflicts s s"
| step: "hold_reachable conflicts s t \<Longrightarrow> hold_step conflicts t u \<Longrightarrow> hold_reachable conflicts s u"

lemma hold_step_wf: "hold_step conflicts s t \<Longrightarrow> hold_wf s \<Longrightarrow> hold_wf t"
proof (induction rule: hold_step.induct)
  case (admit now c s r s')
  then show ?case by (blast intro: Admit_wf)
next
  case (remove k s s')
  then show ?case using hold_wf_Remove [of s k] by simp
qed simp

lemma hold_reachable_wf: "hold_reachable conflicts s t \<Longrightarrow> hold_wf s \<Longrightarrow> hold_wf t"
  by (induction rule: hold_reachable.induct) (auto dest: hold_step_wf)

text \<open>The fence: a step never reopens a set, and a closed set only loses holders.\<close>

lemma hold_step_closed:
  assumes "hold_step conflicts s t" "hs_closed s"
  shows "hs_closed t \<and> set (hs_holders t) \<subseteq> set (hs_holders s)"
  using assms(1)
proof (cases rule: hold_step.cases)
  case (admit now c r)
  with assms(2) show ?thesis
    by (cases rule: Admit_cases [of c s now conflicts]) auto
next
  case (remove k)
  then have "t = fst (State_Remove k s)" by simp
  with assms(2) show ?thesis by (auto simp: Remove_holders)
next
  case close
  with assms(2) show ?thesis by simp
qed

lemma hold_reachable_closed:
  "hold_reachable conflicts s t \<Longrightarrow> hs_closed s \<Longrightarrow>
   hs_closed t \<and> set (hs_holders t) \<subseteq> set (hs_holders s)"
  by (induction rule: hold_reachable.induct) (auto dest: hold_step_closed)

context conflicts_policy
begin

lemma step_compatible:
  assumes "hold_step conflicts s t" "compatible (set (hs_holders s))"
  shows "compatible (set (hs_holders t))"
  using assms(1)
proof (cases rule: hold_step.cases)
  case (admit now c r)
  with assms(2) show ?thesis by (blast intro: Admit_compatible)
next
  case (remove k)
  with assms(2) show ?thesis using Remove_compatible [of s k] by simp
next
  case close
  with assms(2) show ?thesis by simp
qed

lemma reachable_compatible:
  "hold_reachable conflicts s t \<Longrightarrow> compatible (set (hs_holders s)) \<Longrightarrow>
   compatible (set (hs_holders t))"
  by (induction rule: hold_reachable.induct) (auto dest: step_compatible)

end

lemma close_change_ok:
  "close_change obj st = (u, Inr (changed, result)) \<Longrightarrow> hs_closed result \<and> (\<not> changed \<longrightarrow> result = st)"
  by (auto simp: close_change_def split: if_splits)

section \<open>Update is atomic\<close>

text \<open>
  The contract of the \<^verbatim>\<open>Store\<close> interface. A save that succeeds was made at an API state whose load
  still gives what was loaded before (the resourceVersion check), and afterwards the saved state is
  what a load gives. A save refused with a retriable error wrote nothing.
\<close>

locale hold_store =
  fixes load :: "('api, 'o) load"
    and save :: "('api, 'o) save"
  assumes save_current:
      "load s0 = Inr (obj, st0) \<Longrightarrow> save obj st s = (s', None) \<Longrightarrow> load s = Inr (obj, st0)"
    and save_persists:
      "load s0 = Inr (obj, st0) \<Longrightarrow> save obj st s = (s', None) \<Longrightarrow> \<exists>obj'. load s' = Inr (obj', st)"
    and save_refused: "save obj st s = (s', Some e) \<Longrightarrow> retriable e \<Longrightarrow> s' = s"
begin

abbreviation the_store :: "('api, 'o) store" where
  "the_store \<equiv> \<lparr>st_load = load, st_save = save\<rparr>"

text \<open>
  The linearization point of an update: at API state \<open>s\<close> the closure saw the stored state, and if it
  changed it, the very state it saw was replaced by the new one in one write.
\<close>

definition linearized :: "('o, 'r) change \<Rightarrow> 'api \<Rightarrow> hold_state \<Rightarrow> 'r \<Rightarrow> bool" where
  "linearized change api' result out \<longleftrightarrow>
     (\<exists>s obj st changed.
        load s = Inr (obj, st) \<and> change obj st = (out, Inr (changed, result)) \<and>
        (if changed then save obj result s = (api', None) \<and> (\<exists>obj'. load api' = Inr (obj', result))
         else api' = s))"

lemma attempt_ok:
  assumes "update_attempt env the_store change k (api, r0, o0) = ((api', result, out), None)"
  shows "linearized change api' result out"
proof -
  obtain obj st where ld: "load (env (2 * k) api) = Inr (obj, st)"
    using assms by (auto simp: Let_def split: sum.splits)
  obtain changed where ch: "change obj st = (out, Inr (changed, result))"
    using assms ld by (auto simp: Let_def split: prod.splits sum.splits if_splits)
  show ?thesis
  proof (cases changed)
    case False
    then have "api' = env (2 * k) api" using assms ld ch by (simp add: Let_def)
    with False ld ch show ?thesis unfolding linearized_def by force
  next
    case True
    then have sv: "save obj result (env (2 * k + 1) (env (2 * k) api)) = (api', None)"
      using assms ld ch by (auto simp: Let_def split: prod.splits)
    from save_current [OF ld sv] save_persists [OF ld sv] True ch sv show ?thesis
      unfolding linearized_def by force
  qed
qed

lemma retry_ok:
  "retry_on_error steps (update_attempt env the_store change) k (Some e) st = ((api', result, out), None) \<Longrightarrow>
   linearized change api' result out"
proof (induction steps arbitrary: k e st)
  case 0
  then show ?case by simp
next
  case (Suc steps)
  obtain api r0 o0 where st: "st = (api, r0, o0)" by (cases st)
  obtain st' x where a: "update_attempt env the_store change k st = (st', x)" by fastforce
  show ?case
  proof (cases x)
    case None
    with Suc.prems a have "st' = (api', result, out)" by simp
    with a None st show ?thesis by (metis attempt_ok)
  next
    case (Some e')
    with Suc.prems a have "retry_on_error steps (update_attempt env the_store change) (Suc k) (Some e') st'
        = ((api', result, out), None)"
      by (auto split: if_splits)
    then show ?thesis by (rule Suc.IH)
  qed
qed

theorem Update_linearized:
  assumes "Update (Suc steps) env the_store change out0 api = ((api', result, out), None)"
  shows "linearized change api' result out"
proof -
  obtain st' x where a: "update_attempt env the_store change 0 (api, empty_state, out0) = (st', x)"
    by fastforce
  show ?thesis
  proof (cases x)
    case None
    with assms a have "st' = (api', result, out)" by (simp add: Update_def)
    with a None show ?thesis by (metis attempt_ok)
  next
    case (Some e')
    with assms a show ?thesis
      by (auto simp: Update_def split: if_splits intro: retry_ok)
  qed
qed

text \<open>An admitted \<^verbatim>\<open>Acquire\<close> leaves an open stored set that holds the candidate.\<close>

theorem Acquire_admitted:
  assumes "Acquire (Suc steps) env now the_store c conflicts api = (api', Inr r)" and "r_admitted r"
  shows "\<exists>obj st h. load api' = Inr (obj, st) \<and> \<not> hs_closed st \<and>
           State_Find (Key c) st = Some h \<and> h_mode h = h_mode c"
proof -
  obtain result where "Update (Suc steps) env the_store (acquire_change now c conflicts) no_result api
      = ((api', result, r), None)"
    using assms by (auto simp: Acquire_def split: prod.splits option.splits if_splits)
  then obtain s obj st changed where
    ld: "load s = Inr (obj, st)" and
    ch: "acquire_change now c conflicts obj st = (r, Inr (changed, result))" and
    wr: "if changed then \<exists>obj'. load api' = Inr (obj', result) else api' = s"
    using Update_linearized [of steps] by (fastforce simp: linearized_def split: if_splits)
  have ad: "State_Admit now c conflicts st = (r, result, changed)"
    using ch by (auto simp: acquire_change_def split: prod.splits)
  have "\<exists>obj'. load api' = Inr (obj', result)"
    using wr ld Admit_unchanged [of now c conflicts st r result] ad by (auto split: if_splits)
  then show ?thesis using Admit_admitted [OF ad assms(2)] by blast
qed

text \<open>After \<^verbatim>\<open>Release\<close> the stored set no longer holds the key.\<close>

theorem Release_released:
  assumes "Release (Suc steps) env the_store key api = (api', None)"
  shows "\<exists>obj st. load api' = Inr (obj, st) \<and> State_Find key st = None"
proof -
  obtain result u where "Update (Suc steps) env the_store (release_change key) () api = ((api', result, u), None)"
    using assms by (auto simp: Release_def split: prod.splits)
  then have "linearized (release_change key) api' result u" by (rule Update_linearized)
  then obtain s obj st changed where ld: "load s = Inr (obj, st)"
    and ch: "release_change key obj st = (u, Inr (changed, result))"
    and wr: "if changed then \<exists>obj'. load api' = Inr (obj', result) else api' = s"
    unfolding linearized_def by (metis (full_types))
  from ch have rm: "State_Remove key st = (result, changed)"
    by (auto simp: release_change_def split: prod.splits)
  have "State_Find key result = None" using Remove_holders(1) [of key st] rm by (simp add: Find_None_iff)
  moreover have "\<not> changed \<Longrightarrow> State_Find key st = None"
    using Remove_holders(3) [of key st] rm by (simp add: Find_None_iff)
  ultimately show ?thesis using ld wr by (cases changed) auto
qed

text \<open>\<^verbatim>\<open>Close\<close> returns exactly the holders of a stored set that is closed.\<close>

theorem Close_fences:
  assumes "Close (Suc steps) env the_store api = (api', Inr hs)"
  shows "\<exists>obj st. load api' = Inr (obj, st) \<and> hs_closed st \<and> hs_holders st = hs"
proof -
  obtain result u where "Update (Suc steps) env the_store close_change () api = ((api', result, u), None)"
    and hs: "hs = hs_holders result"
    using assms by (auto simp: Close_def split: prod.splits option.splits)
  from this(1) have "linearized close_change api' result u" by (rule Update_linearized)
  then show ?thesis
    using hs close_change_ok by (fastforce simp: linearized_def split: if_splits)
qed

end

section \<open>Round trip of the encoding\<close>

lemma fold_result_append:
  "fold_result f a (xs @ ys) = (case fold_result f a xs of Inl e \<Rightarrow> Inl e | Inr b \<Rightarrow> fold_result f b ys)"
  by (induction xs arbitrary: a) (auto split: sum.splits)

lemma to_lower_literals [simp]:
  "to_lower ''kind'' = ''kind''" "to_lower ''name'' = ''name''" "to_lower ''uid'' = ''uid''"
  "to_lower ''mode'' = ''mode''" "to_lower ''since'' = ''since''"
  "to_lower ''closed'' = ''closed''" "to_lower ''holders'' = ''holders''"
  by code_simp+

lemma unmarshal_marshal_holder:
  "time_codec_ok tc \<Longrightarrow> unmarshal_holder tc (marshal_holder tc h) = Inr h"
  by (cases h)
    (auto simp: unmarshal_holder_def marshal_holder_def set_holder_field_def json_string_def json_time_def
      zero_holder_def time_codec_ok_def split: option.splits)

lemma unmarshal_marshal_holders:
  assumes "time_codec_ok tc"
  shows "unmarshal_holders tc (map (marshal_holder tc) hs) = Inr hs"
  unfolding unmarshal_holders_def
proof (induction hs rule: rev_induct)
  case (snoc h hs)
  with assms show ?case by (simp add: fold_result_append unmarshal_marshal_holder)
qed simp

lemma unmarshal_marshal_state:
  "time_codec_ok tc \<Longrightarrow> unmarshal_state tc (Doc (marshal_state tc s)) = Inr s"
  by (cases s)
    (auto simp: unmarshal_state_def marshal_state_def set_state_field_def empty_state_def
      unmarshal_marshal_holders)

lemma annotation_value_Encode [simp]:
  "annotation_value (Encode tc a s obj) b = (if b = a then Doc (marshal_state tc s) else annotation_value obj b)"
  by (simp add: annotation_value_def Encode_def)

lemma annotation_value_version [simp]:
  "annotation_value (obj\<lparr>o_version := v\<rparr>) a = annotation_value obj a"
  by (simp add: annotation_value_def)

lemma annotation_value_delete [simp]:
  "annotation_value (delete_annotations ks obj) a = (if a \<in> set ks then Raw [] else annotation_value obj a)"
  by (simp add: annotation_value_def delete_annotations_def restrict_map_def)

lemma o_uid_delete_Encode [simp]:
  "o_uid (delete_annotations ks obj) = o_uid obj" "o_uid (Encode tc a s obj) = o_uid obj"
  "o_created (delete_annotations ks obj) = o_created obj" "o_created (Encode tc a s obj) = o_created obj"
  by (simp_all add: delete_annotations_def Encode_def)

section \<open>The two stores keep the contract\<close>

text \<open>
  What a store needs of its \<^verbatim>\<open>Decode\<close>: it reads back what \<^verbatim>\<open>Save\<close> wrote, at any resourceVersion.
\<close>

definition decodes_saved :: "time_codec \<Rightarrow> 'x kobj_scheme annotation_store \<Rightarrow> bool" where
  "decodes_saved tc st \<longleftrightarrow>
     (\<forall>obj s v. as_decode st
        ((delete_annotations (as_legacy st) (Encode tc (as_annotation st) s obj))\<lparr>o_version := v\<rparr>) = Inr s)"

lemma retriable_refused: "retriable e \<Longrightarrow> api_refused e"
  by (auto simp: retriable_def api_refused_def)

lemma AnnotationStore_is_hold_store:
  assumes lock: "optimistic_lock get patch" and dec: "decodes_saved tc st"
  shows "hold_store (AnnotationStore_Load get st) (AnnotationStore_Save patch tc st)"
proof
  fix s0 obj st0 state s s'
  assume ld: "AnnotationStore_Load get st s0 = Inr (obj, st0)"
    and sv: "AnnotationStore_Save patch tc st obj state s = (s', None)"
  from sv obtain before where obj: "obj = Some before"
    and p: "patch before (delete_annotations (as_legacy st) (Encode tc (as_annotation st) state before)) s = (s', None)"
    by (auto simp: AnnotationStore_Save_def split: option.splits)
  from ld obj have uid: "as_uid st = [] \<or> o_uid before = as_uid st" and d: "as_decode st before = Inr st0"
    by (auto simp: AnnotationStore_Load_def split: sum.splits if_splits)
  from optimistic_lock_ok(1) [OF lock p] uid d obj
  show "AnnotationStore_Load get st s = Inr (obj, st0)" by (auto simp: AnnotationStore_Load_def)
  from optimistic_lock_ok(2) [OF lock p] uid dec
  show "\<exists>obj'. AnnotationStore_Load get st s' = Inr (obj', state)"
    by (auto simp: AnnotationStore_Load_def decodes_saved_def)
next
  fix obj state s s' e
  assume "AnnotationStore_Save patch tc st obj state s = (s', Some e)" "retriable e"
  then show "s' = s"
    by (auto simp: AnnotationStore_Save_def split: option.splits
        intro: optimistic_lock_refused [OF lock] retriable_refused)
qed

text \<open>\<^verbatim>\<open>Create\<close> succeeds only where nothing exists, and then the new object is what is read.\<close>

definition create_once ::
  "('api, 'x kobj_scheme) getter \<Rightarrow> ('x kobj_scheme \<Rightarrow> 'api \<Rightarrow> 'api \<times> err option) \<Rightarrow> bool" where
  "create_once get create \<longleftrightarrow>
     (\<forall>obj s s'. create obj s = (s', None) \<longrightarrow>
        get s = Inl ENotFound \<and> (\<exists>u v. get s' = Inr (obj\<lparr>o_uid := u, o_version := v\<rparr>))) \<and>
     (\<forall>obj s s' e. create obj s = (s', Some e) \<longrightarrow> api_refused e \<longrightarrow> s' = s)"

definition lease_decodes_saved :: "time_codec \<Rightarrow> 'x kobj_scheme lease_store \<Rightarrow> bool" where
  "lease_decodes_saved tc st \<longleftrightarrow>
     (\<forall>obj s. annotation_value obj (ls_annotation st) = Doc (marshal_state tc s) \<longrightarrow> ls_decode st obj = Inr s)"

lemma LeaseStore_is_hold_store:
  assumes lock: "optimistic_lock get update" and crt: "create_once get create"
    and dec: "lease_decodes_saved tc st"
  shows "hold_store (LeaseStore_Load get st) (LeaseStore_Save update create tc st)"
proof
  fix s0 obj st0 state s s'
  assume ld: "LeaseStore_Load get st s0 = Inr (obj, st0)"
    and sv: "LeaseStore_Save update create tc st obj state s = (s', None)"
  have dec': "\<And>o'. annotation_value o' (ls_annotation st) = Doc (marshal_state tc state) \<Longrightarrow>
      ls_decode st o' = Inr state"
    using dec by (simp add: lease_decodes_saved_def)
  have both: "LeaseStore_Load get st s = Inr (obj, st0) \<and> (\<exists>obj'. LeaseStore_Load get st s' = Inr (obj', state))"
  proof (cases obj)
    case None
    with ld have "st0 = empty_state" by (auto simp: LeaseStore_Load_def split: sum.splits if_splits)
    moreover from None sv have c: "create (Encode tc (ls_annotation st) state (ls_new st)) s = (s', None)"
      by (simp add: LeaseStore_Save_def)
    moreover have "annotation_value ((Encode tc (ls_annotation st) state (ls_new st))\<lparr>o_uid := u, o_version := v\<rparr>)
        (ls_annotation st) = Doc (marshal_state tc state)" for u v
      by (simp add: annotation_value_def Encode_def)
    moreover from crt c obtain u v where "get s = Inl ENotFound"
      and "get s' = Inr ((Encode tc (ls_annotation st) state (ls_new st))\<lparr>o_uid := u, o_version := v\<rparr>)"
      unfolding create_once_def by blast
    ultimately show ?thesis
      using None dec' by (simp add: LeaseStore_Load_def)
  next
    case (Some before)
    with ld have d: "ls_decode st before = Inr st0"
      by (auto simp: LeaseStore_Load_def split: sum.splits if_splits)
    from Some sv have p: "update before (Encode tc (ls_annotation st) state before) s = (s', None)"
      by (simp add: LeaseStore_Save_def)
    from optimistic_lock_ok [OF lock p] d Some dec' show ?thesis
      by (auto simp: LeaseStore_Load_def)
  qed
  then show "LeaseStore_Load get st s = Inr (obj, st0)" by simp
  from both show "\<exists>obj'. LeaseStore_Load get st s' = Inr (obj', state)" by simp
next
  fix obj state s s' e
  assume "LeaseStore_Save update create tc st obj state s = (s', Some e)" "retriable e"
  then show "s' = s"
  proof (cases obj)
    case None
    then show ?thesis
      using \<open>LeaseStore_Save update create tc st obj state s = (s', Some e)\<close> crt
        retriable_refused [OF \<open>retriable e\<close>]
      unfolding create_once_def LeaseStore_Save_def by simp
  next
    case (Some before)
    then show ?thesis
      using \<open>LeaseStore_Save update create tc st obj state s = (s', Some e)\<close>
        retriable_refused [OF \<open>retriable e\<close>]
      by (auto simp: LeaseStore_Save_def intro: optimistic_lock_refused [OF lock])
  qed
qed

end
