(* ===== verification/RC_Types.thy ===== *)
theory RC_Types
  imports Kube
begin

text \<open>
  The custom resources of rc that several components read and write, from \<^verbatim>\<open>api/\<close>: the fields of
  their spec and status that the modelled code uses, on top of the shared metadata.
\<close>

text \<open>\<^verbatim>\<open>WorkspaceMount\<close>: the two references name a Worktree or a Repository.\<close>

record ws_mount =
  mt_name :: string
  mt_path :: string
  mt_worktree :: "string option"
  mt_repository :: "string option"
  mt_readOnly :: bool

text \<open>
  \<^verbatim>\<open>WorkspaceLifecycleStatus\<close>, and the parts of \<^verbatim>\<open>WorkspaceSpec\<close> and \<^verbatim>\<open>WorkspaceStatus\<close> that
  admission and retention use. Times and durations are nanoseconds; a nil pointer is \<open>None\<close>.
\<close>

type_synonym duration = int

record lifecycle_status =
  lc_idleSuspendAt :: "time option"
  lc_deleteAt :: "time option"
  lc_maxRunSuspendAt :: "time option"
  lc_lastAutomaticSuspendReason :: string
  lc_activeExecutions :: int

record workspace = kobj +
  ws_mounts :: "ws_mount list"
  ws_desired :: string
  ws_idleTimeout :: "duration option"
  ws_maxRunDuration :: "duration option"
  ws_deleteAfterSuspended :: "duration option"
  ws_retentionPolicy :: string
  ws_lifecycle :: "lifecycle_status option"
  ws_lastExecutionCompletedAt :: "time option"
  ws_admissionClosed :: bool
  ws_lastActivityTime :: "time option"
  ws_runningSince :: "time option"
  ws_suspendedAt :: "time option"
  ws_runtimePodName :: string
  ws_conditions :: conditions

text \<open>\<^verbatim>\<open>WorkspaceExec\<close>: one command of a Workspace or of an Environment draft.\<close>

datatype exec_phase = PhaseUnset | PhasePending | PhaseStarting | PhaseRunning | PhaseSucceeded | PhaseFailed
  | PhaseStopped | PhaseLost

fun Terminal :: "exec_phase \<Rightarrow> bool" where
  "Terminal PhaseSucceeded = True"
| "Terminal PhaseFailed = True"
| "Terminal PhaseStopped = True"
| "Terminal PhaseLost = True"
| "Terminal _ = False"

record workspace_exec = kobj +
  we_targetKind :: string
  we_targetName :: string
  we_desired :: string
  we_phase :: exec_phase
  we_completedAt :: "time option"

definition WorkspaceRetentionPolicyRetain :: string where
  "WorkspaceRetentionPolicyRetain = ''Retain''"

definition WorkspaceRetentionPolicyDeleteAfterProcessesExit :: string where
  "WorkspaceRetentionPolicyDeleteAfterProcessesExit = ''DeleteAfterProcessesExit''"

definition EffectiveRetentionPolicy :: "workspace \<Rightarrow> string" where
  "EffectiveRetentionPolicy ws =
     (if ws_retentionPolicy ws = [] then WorkspaceRetentionPolicyRetain else ws_retentionPolicy ws)"

definition IsTemporary :: "workspace \<Rightarrow> bool" where
  "IsTemporary ws = (EffectiveRetentionPolicy ws = WorkspaceRetentionPolicyDeleteAfterProcessesExit)"

text \<open>
  \<^verbatim>\<open>WorktreeSpec\<close> and \<^verbatim>\<open>WorktreeStatus\<close>: the child volume, the checkout it asks for and what the
  controller reports. A \<^verbatim>\<open>resource.Quantity\<close> is the exact integer it denotes in the smallest unit.
\<close>

record storage_spec =
  sp_class :: string
  sp_size :: "int option"
  sp_accessModes :: "string list"

record usage_reference =
  ur_kind :: string
  ur_name :: string
  ur_uid :: string
  ur_mode :: string
  ur_since :: "time option"

record worktree = kobj +
  wt_repository :: string
  wt_branch :: string
  wt_resetBranch :: string
  wt_ref :: string
  wt_detach :: bool
  wt_orphan :: bool
  wt_noCheckout :: bool
  wt_lock :: bool
  wt_storage :: "storage_spec option"
  wt_claim :: string
  wt_sourceClaim :: string
  wt_path :: string
  wt_jobName :: string
  wt_usedBy :: "usage_reference list"
  wt_observed :: int
  wt_conditions :: conditions

definition workspacesGroup :: string where
  "workspacesGroup = ''workspaces.rc.ayaka.io''"

definition workspacesGroupVersion :: string where
  "workspacesGroupVersion = ''workspaces.rc.ayaka.io/v1alpha1''"

end
