(* ===== verification/WorktreeOwnership.thy ===== *)
theory WorktreeOwnership
  imports HoldSet RC_Types
begin

text \<open>
  Package \<^verbatim>\<open>internal/worktreeownership\<close>: ownership of generated Worktrees, the blockers of a
  deletion, volume protection (\<^verbatim>\<open>ownership.go\<close>), the Worktree hold set with its readers and writers
  (\<^verbatim>\<open>access.go\<close>) and the Leases of older releases (\<^verbatim>\<open>legacy.go\<close>).
\<close>

section \<open>Ownership\<close>

definition GeneratedForLabel :: string where
  "GeneratedForLabel = ''workspaces.rc.ayaka.io/generated-for''"

definition WorkspaceCleanupFinalizer :: string where
  "WorkspaceCleanupFinalizer = ''workspaces.rc.ayaka.io/terminate-processes''"

definition DeletionFinalizer :: string where
  "DeletionFinalizer = ''repositories.rc.ayaka.io/worktree-delete-protection''"

definition VolumeProtectionFinalizer :: string where
  "VolumeProtectionFinalizer = ''repositories.rc.ayaka.io/worktree-volume-protection''"

text \<open>
  \<^verbatim>\<open>InitializeGenerated\<close>: \<^verbatim>\<open>metav1.NewControllerRef\<close> is the controller reference with the
  Workspace's API version, kind, name and UID.
\<close>

definition InitializeGenerated :: "workspace \<Rightarrow> worktree \<Rightarrow> worktree" where
  "InitializeGenerated workspace worktree =
     add_finalizer DeletionFinalizer
       (worktree\<lparr>o_controller := Some \<lparr>or_apiVersion = workspacesGroupVersion, or_kind = ''Workspace'',
                   or_name = o_name workspace, or_uid = o_uid workspace\<rparr>,
                 o_labels := (o_labels worktree)(GeneratedForLabel \<mapsto> o_name workspace)\<rparr>)"

definition ReadyAtCurrentGeneration :: "worktree \<Rightarrow> bool" where
  "ReadyAtCurrentGeneration worktree =
     ReadyAtGeneration (wt_conditions worktree) ''Ready'' (o_generation worktree) (wt_observed worktree)"

text \<open>
  \<^verbatim>\<open>schema.ParseGroupVersion\<close> is an argument: the group of an API version, None when malformed.
\<close>

definition WorkspaceOwner :: "(string \<Rightarrow> string option) \<Rightarrow> worktree \<Rightarrow> owner_ref option" where
  "WorkspaceOwner parseGroup worktree =
     (case o_controller worktree of
        None \<Rightarrow> None
      | Some owner \<Rightarrow>
          if or_kind owner \<noteq> ''Workspace'' then None
          else if parseGroup (or_apiVersion owner) \<noteq> Some workspacesGroup then None
          else Some owner)"

definition IsOwnedBy :: "(string \<Rightarrow> string option) \<Rightarrow> worktree \<Rightarrow> workspace \<Rightarrow> bool" where
  "IsOwnedBy parseGroup worktree workspace =
     (case WorkspaceOwner parseGroup worktree of
        None \<Rightarrow> False
      | Some owner \<Rightarrow> or_uid owner \<noteq> [] \<and> or_uid owner = o_uid workspace \<and>
          or_name owner = o_name workspace \<and> o_namespace worktree = o_namespace workspace)"

section \<open>Reference blockers\<close>

fun index_values :: "string list \<Rightarrow> ws_mount list \<Rightarrow> string list" where
  "index_values names [] = names"
| "index_values names (m # ms) =
     (case mt_worktree m of
        None \<Rightarrow> index_values names ms
      | Some w \<Rightarrow> index_values (if w \<in> set names then names else names @ [w]) ms)"

definition WorkspaceWorktreeIndexValues :: "workspace \<Rightarrow> string list" where
  "WorkspaceWorktreeIndexValues workspace = index_values [] (ws_mounts workspace)"

definition mounts_worktree :: "string \<Rightarrow> workspace \<Rightarrow> bool" where
  "mounts_worktree name workspace = list_ex (\<lambda>m. mt_worktree m = Some name) (ws_mounts workspace)"

definition referenceBlockers :: "workspace list \<Rightarrow> string \<Rightarrow> string list" where
  "referenceBlockers workspaces name =
     sort (map o_name (filter (\<lambda>w.
       \<not> (o_deleting w \<noteq> None \<and> WorkspaceCleanupFinalizer \<notin> set (o_finalizers w)) \<and>
       mounts_worktree name w) workspaces))"

text \<open>
  \<open>listNs\<close> lists the Workspaces of the namespace, \<open>listIdx\<close> those the cache index returns for the
  Worktree name; either may fail.
\<close>

definition ListReferenceBlockers :: "workspace list result \<Rightarrow> string \<Rightarrow> string list result" where
  "ListReferenceBlockers listNs name =
     (case listNs of
        Inl e \<Rightarrow> Inl (EWrap (''list Workspace references for Worktree '' @ name) e)
      | Inr ws \<Rightarrow> Inr (referenceBlockers ws name))"

definition ReferenceBlockers ::
  "workspace list result \<Rightarrow> workspace list result \<Rightarrow> string \<Rightarrow> string list result" where
  "ReferenceBlockers listIdx listNs name =
     (case listIdx of
        Inl _ \<Rightarrow> ListReferenceBlockers listNs name
      | Inr ws \<Rightarrow> Inr (referenceBlockers ws name))"

section \<open>Volume protection\<close>

definition EnsureVolumeProtection ::
  "('api, 'x kobj_scheme) patcher \<Rightarrow> 'x kobj_scheme \<Rightarrow> 'api \<Rightarrow> 'api \<times> err option" where
  "EnsureVolumeProtection patch claim api =
     (if o_deleting claim \<noteq> None
      then (api, Some (EMsg ''PVC deletion is in progress; reconcile storage deletion before protecting it''))
      else if contains_finalizer claim VolumeProtectionFinalizer then (api, None)
      else patch claim (add_finalizer VolumeProtectionFinalizer claim) api)"

definition ProtectVolume ::
  "('api, 'x kobj_scheme) getter \<Rightarrow> ('api, 'x kobj_scheme) patcher \<Rightarrow> worktree \<Rightarrow> 'api \<Rightarrow>
   'api \<times> err option" where
  "ProtectVolume get patch worktree api =
     (case get api of
        Inl e \<Rightarrow> (api, Some (EWrap ''get Worktree volume before adoption'' e))
      | Inr claim \<Rightarrow>
          if \<not> is_controlled_by claim (o_uid worktree) \<or> o_deleting claim \<noteq> None
          then (api, Some (EMsg ''worktree volume is deleting or has a different owner''))
          else EnsureVolumeProtection patch claim api)"

definition ReleaseVolumeProtection ::
  "('api, 'x kobj_scheme) patcher \<Rightarrow> 'x kobj_scheme \<Rightarrow> 'api \<Rightarrow> 'api \<times> err option" where
  "ReleaseVolumeProtection patch claim api =
     (if \<not> contains_finalizer claim VolumeProtectionFinalizer then (api, None)
      else case patch claim (remove_finalizer VolumeProtectionFinalizer claim) api of
             (api', None) \<Rightarrow> (api', None)
           | (api', Some e) \<Rightarrow> (api', if err_is ENotFound e then None else Some e))"

section \<open>The Worktree hold set\<close>

definition HoldersAnnotation :: string where
  "HoldersAnnotation = ''repositories.rc.ayaka.io/holders''"

definition legacyMountHoldersAnnotation :: string where
  "legacyMountHoldersAnnotation = ''repositories.rc.ayaka.io/mount-holders''"

definition legacyMountsClosedAnnotation :: string where
  "legacyMountsClosedAnnotation = ''repositories.rc.ayaka.io/mounts-closed''"

definition Read :: mode where "Read = ''read''"
definition Write :: mode where "Write = ''write''"
definition KindWorkspace :: string where "KindWorkspace = ''Workspace''"
definition KindWorktreeExec :: string where "KindWorktreeExec = ''WorktreeExec''"

definition Conflicts :: conflicts where
  "Conflicts existing candidate =
     (if h_mode candidate \<noteq> Write then [] else filter (\<lambda>h. h_mode h = Write) existing)"

definition WorkspaceHolder :: "workspace \<Rightarrow> mode \<Rightarrow> holder" where
  "WorkspaceHolder workspace mode = HolderFor KindWorkspace workspace mode"

text \<open>
  The legacy tokens, \<^verbatim>\<open>map[string]bool\<close> in JSON: a later duplicate key replaces the value, \<^verbatim>\<open>null\<close>
  is false. Go visits the map in an arbitrary order; the model visits the keys in document order,
  and \<open>decode_tokens_order\<close> below shows when the order does not matter.
\<close>

fun unmarshal_tokens :: "(string \<times> bool) list \<Rightarrow> (string \<times> json) list \<Rightarrow> (string \<times> bool) list result" where
  "unmarshal_tokens acc [] = Inr acc"
| "unmarshal_tokens acc ((k, v) # ms) =
     (case v of
        JBool b \<Rightarrow> unmarshal_tokens (filter (\<lambda>p. fst p \<noteq> k) acc @ [(k, b)]) ms
      | JNull \<Rightarrow> unmarshal_tokens (filter (\<lambda>p. fst p \<noteq> k) acc @ [(k, False)]) ms
      | _ \<Rightarrow> Inl json_error)"

definition tokens_of :: "annotation \<Rightarrow> (string \<times> bool) list result" where
  "tokens_of a =
     (case a of Doc (JObj ms) \<Rightarrow> unmarshal_tokens [] ms | Doc JNull \<Rightarrow> Inr [] | _ \<Rightarrow> Inl json_error)"

definition token_holder :: "time option \<Rightarrow> string \<Rightarrow> holder" where
  "token_holder created token =
     (case cut (CHR ''/'') token of
        (uid, name) \<Rightarrow> \<lparr>h_kind = KindWorkspace, h_name = name, h_uid = uid, h_mode = Read, h_since = created\<rparr>)"

definition import_token :: "time \<Rightarrow> time option \<Rightarrow> string \<times> bool \<Rightarrow> hold_state \<Rightarrow> hold_state" where
  "import_token now created t s =
     (let h = token_holder created (fst t)
      in if snd t \<and> h_uid h \<noteq> [] \<and> State_Find (Key h) s = None then State_Put now h s else s)"

definition worktree_Decode :: "time \<Rightarrow> time_codec \<Rightarrow> worktree \<Rightarrow> hold_state result" where
  "worktree_Decode now tc worktree =
     (case Decode tc HoldersAnnotation worktree of
        Inl e \<Rightarrow> Inl e
      | Inr s0 \<Rightarrow>
          let s = (if annotation_value worktree legacyMountsClosedAnnotation \<noteq> Raw []
                   then s0\<lparr>hs_closed := True\<rparr> else s0);
              data = annotation_value worktree legacyMountHoldersAnnotation
          in if data = Raw [] then Inr s
             else (case tokens_of data of
                     Inl e \<Rightarrow> Inl (EWrap ''decode legacy Worktree mount holders'' e)
                   | Inr tokens \<Rightarrow> Inr (fold (import_token now (o_created worktree)) tokens s)))"

definition MountsClosed :: "time \<Rightarrow> time_codec \<Rightarrow> worktree \<Rightarrow> bool" where
  "MountsClosed now tc worktree =
     (if o_deleting worktree \<noteq> None then True
      else case worktree_Decode now tc worktree of Inl _ \<Rightarrow> True | Inr s \<Rightarrow> hs_closed s)"

text \<open>\<^verbatim>\<open>MountAccess.Store\<close>.\<close>

definition MountAccess_Config :: "time \<Rightarrow> time_codec \<Rightarrow> string \<Rightarrow> worktree annotation_store" where
  "MountAccess_Config now tc uid =
     \<lparr>as_uid = uid, as_annotation = HoldersAnnotation, as_decode = worktree_Decode now tc,
      as_legacy = [legacyMountHoldersAnnotation, legacyMountsClosedAnnotation]\<rparr>"

definition MountAccess_Store ::
  "('api, worktree) getter \<Rightarrow> ('api, worktree) patcher \<Rightarrow> time \<Rightarrow> time_codec \<Rightarrow> string \<Rightarrow>
   ('api, worktree) store" where
  "MountAccess_Store get patch now tc uid =
     \<lparr>st_load = AnnotationStore_Load get (MountAccess_Config now tc uid),
      st_save = AnnotationStore_Save patch tc (MountAccess_Config now tc uid)\<rparr>"

definition mount_admit_change :: "time \<Rightarrow> worktree \<Rightarrow> holder \<Rightarrow> (worktree, hold_result) change" where
  "mount_admit_change now captured h obj s =
     (case obj of
        None \<Rightarrow> (no_result, Inr (False, s))
      | Some current \<Rightarrow>
          if o_generation current \<noteq> o_generation captured \<or> wt_claim current \<noteq> wt_claim captured
          then (no_result\<lparr>r_held := (case State_Find (Key h) s of
                   None \<Rightarrow> False | Some e \<Rightarrow> h_mode e = h_mode h)\<rparr>, Inr (False, s))
          else (case State_Admit now h Conflicts
                       (s\<lparr>hs_closed := hs_closed s \<or> o_deleting current \<noteq> None\<rparr>) of
                  (r, admission, changed) \<Rightarrow>
                    (r, Inr (changed, if changed then s\<lparr>hs_holders := hs_holders admission\<rparr> else s))))"

text \<open>\<open>getOwner\<close> reads the live owner outside the cache.\<close>

definition MountAccess_Admit ::
  "nat \<Rightarrow> (nat \<Rightarrow> 'api \<Rightarrow> 'api) \<Rightarrow> time \<Rightarrow> ('api, worktree) store \<Rightarrow> ('api, 'x kobj_scheme) getter \<Rightarrow>
   worktree \<Rightarrow> holder \<Rightarrow> 'api \<Rightarrow> 'api \<times> hold_result \<times> err option" where
  "MountAccess_Admit steps env now store getOwner captured h api =
     (case getOwner api of
        Inl e \<Rightarrow> (api, no_result, if err_is ENotFound e then None else Some e)
      | Inr live \<Rightarrow>
          if o_uid live \<noteq> h_uid h \<or> o_deleting live \<noteq> None then (api, no_result, None)
          else (case Update steps env store (mount_admit_change now captured h) no_result api of
                  ((api', _, r), e) \<Rightarrow> (api', r, e)))"

definition MountAccess_Close ::
  "nat \<Rightarrow> (nat \<Rightarrow> 'api \<Rightarrow> 'api) \<Rightarrow> ('api, worktree) store \<Rightarrow> 'api \<Rightarrow> 'api \<times> holder list result" where
  "MountAccess_Close steps env store api =
     (case Close steps env store api of
        (api', Inl e) \<Rightarrow> (api', Inl (EWrap ''close Worktree admission'' e))
      | (api', Inr hs) \<Rightarrow> (api', Inr hs))"

definition MountAccess_Release ::
  "nat \<Rightarrow> (nat \<Rightarrow> 'api \<Rightarrow> 'api) \<Rightarrow> ('api, worktree) store \<Rightarrow> string \<Rightarrow> 'api \<Rightarrow> 'api \<times> err option" where
  "MountAccess_Release steps env store holderKey api = Release steps env store holderKey api"

definition retain_change :: "time \<Rightarrow> string \<Rightarrow> bool \<Rightarrow> (worktree, unit) change" where
  "retain_change now key kept obj s =
     ((), case State_Find key s of
            None \<Rightarrow> Inr (False, s)
          | Some existing \<Rightarrow>
              if \<not> kept then (case State_Remove key s of (s', removed) \<Rightarrow> Inr (removed, s'))
              else if h_mode existing = Write
              then Inr (True, State_Put now (existing\<lparr>h_mode := Read\<rparr>) s)
              else Inr (False, s))"

text \<open>\<open>stores w\<close> is the store of candidate \<open>w\<close> in the shared API state.\<close>

fun MountAccess_Retain ::
  "nat \<Rightarrow> (nat \<Rightarrow> 'api \<Rightarrow> 'api) \<Rightarrow> time \<Rightarrow> (worktree \<Rightarrow> ('api, worktree) store) \<Rightarrow> workspace \<Rightarrow>
   (string \<rightharpoonup> mode) \<Rightarrow> worktree list \<Rightarrow> 'api \<Rightarrow> 'api \<times> err option" where
  "MountAccess_Retain steps env now stores workspace keep [] api = (api, None)"
| "MountAccess_Retain steps env now stores workspace keep (w # ws) api =
     (if o_namespace w \<noteq> o_namespace workspace then MountAccess_Retain steps env now stores workspace keep ws api
      else if keep (o_name w) = Some Write then MountAccess_Retain steps env now stores workspace keep ws api
      else (case Update steps env (stores w)
                   (retain_change now (Key (WorkspaceHolder workspace Read)) (keep (o_name w) \<noteq> None)) () api of
              ((api', _, _), None) \<Rightarrow> MountAccess_Retain steps env now stores workspace keep ws api'
            | ((api', _, _), Some e) \<Rightarrow>
                if err_is ENotFound e then MountAccess_Retain steps env now stores workspace keep ws api'
                else (api', Some e)))"

definition MountAccess_ReleaseExcept ::
  "nat \<Rightarrow> (nat \<Rightarrow> 'api \<Rightarrow> 'api) \<Rightarrow> time \<Rightarrow> (worktree \<Rightarrow> ('api, worktree) store) \<Rightarrow> workspace \<Rightarrow>
   (string \<rightharpoonup> bool) \<Rightarrow> worktree list \<Rightarrow> 'api \<Rightarrow> 'api \<times> err option" where
  "MountAccess_ReleaseExcept steps env now stores workspace keep candidates api =
     MountAccess_Retain steps env now stores workspace
       (\<lambda>name. if keep name = Some True then Some Write else None) candidates api"

section \<open>Legacy write Leases\<close>

record lease = kobj +
  le_holder :: "string option"

definition LegacyHolderLabel :: string where
  "LegacyHolderLabel = ''workspaces.rc.ayaka.io/write-holder''"

definition legacyDeletePrefix :: string where
  "legacyDeletePrefix = ''worktree-delete/''"

text \<open>\<open>sha10hex\<close> is the hexadecimal text of the first ten bytes of the SHA-256 sum.\<close>

definition LegacyWriteLeaseName :: "(string \<Rightarrow> string) \<Rightarrow> worktree \<Rightarrow> string" where
  "LegacyWriteLeaseName sha10hex worktree =
     (let identity = (if o_uid worktree = [] then o_namespace worktree @ ''/'' @ o_name worktree
                      else o_uid worktree)
      in ''rc-worktree-'' @ sha10hex identity)"

definition LegacyDeletionHolder :: "worktree \<Rightarrow> string" where
  "LegacyDeletionHolder worktree = legacyDeletePrefix @ o_uid worktree"

record legacy_writer =
  lw_lease :: lease
  lw_holder :: string
  lw_deletion :: bool
  lw_name :: string

definition label_value :: "'x kobj_scheme \<Rightarrow> string \<Rightarrow> string" where
  "label_value obj l = (case o_labels obj l of None \<Rightarrow> [] | Some v \<Rightarrow> v)"

definition LegacyWriterOf :: "lease result \<Rightarrow> legacy_writer option result" where
  "LegacyWriterOf getLease =
     (case getLease of
        Inl e \<Rightarrow> if err_is ENotFound e then Inr None else Inl e
      | Inr lease \<Rightarrow>
          let writer = \<lparr>lw_lease = lease, lw_holder = [], lw_deletion = False,
                        lw_name = label_value lease LegacyHolderLabel\<rparr>
          in (case le_holder lease of
                None \<Rightarrow> Inr (Some writer)
              | Some identity \<Rightarrow>
                  let w = (if has_prefix legacyDeletePrefix identity then writer\<lparr>lw_deletion := True\<rparr>
                           else writer\<lparr>lw_holder := identity\<rparr>)
                  in Inr (Some (if lw_name w = [] then w\<lparr>lw_name := identity\<rparr> else w))))"

text \<open>\<open>del l\<close> deletes Lease \<open>l\<close> with its UID as precondition.\<close>

fun release_legacy :: "(lease \<Rightarrow> 'api \<Rightarrow> 'api \<times> err option) \<Rightarrow> string \<Rightarrow> (string \<Rightarrow> bool) \<Rightarrow> lease list \<Rightarrow>
   'api \<Rightarrow> 'api \<times> err option" where
  "release_legacy del holderUID keep [] api = (api, None)"
| "release_legacy del holderUID keep (l # ls) api =
     (if keep (o_name l) \<or> le_holder l \<noteq> Some holderUID then release_legacy del holderUID keep ls api
      else (case del l api of
              (api', None) \<Rightarrow> release_legacy del holderUID keep ls api'
            | (api', Some e) \<Rightarrow>
                if err_is ENotFound e then release_legacy del holderUID keep ls api'
                else (api', Some (EWrap ''release legacy Worktree write Lease'' e))))"

definition ReleaseLegacyWriteLeases ::
  "(lease \<Rightarrow> 'api \<Rightarrow> 'api \<times> err option) \<Rightarrow> ('api \<Rightarrow> lease list result) \<Rightarrow> string \<Rightarrow> (string \<Rightarrow> bool) \<Rightarrow>
   'api \<Rightarrow> 'api \<times> err option" where
  "ReleaseLegacyWriteLeases del list holderUID keep api =
     (case list api of
        Inl e \<Rightarrow> (api, Some (EWrap ''list legacy Worktree write Leases'' e))
      | Inr leases \<Rightarrow> release_legacy del holderUID keep leases api)"

section \<open>Readers and writers\<close>

definition one_writer :: "holder set \<Rightarrow> bool" where
  "one_writer A \<longleftrightarrow> (\<forall>a \<in> A. \<forall>b \<in> A. h_mode a = Write \<longrightarrow> h_mode b = Write \<longrightarrow> a = b)"

lemma Conflicts_iff: "Conflicts hs c = [] \<longleftrightarrow> h_mode c \<noteq> Write \<or> (\<forall>h \<in> set hs. h_mode h \<noteq> Write)"
  by (auto simp: Conflicts_def filter_empty_conv)

lemma modes_distinct [simp]: "Read \<noteq> Write" "Write \<noteq> Read"
  by (simp_all add: Read_def Write_def)

interpretation worktree_policy: conflicts_policy Conflicts one_writer
proof unfold_locales
  fix hs c t
  assume "one_writer (set hs)" "Conflicts hs c = []"
  then show "one_writer (insert (c\<lparr>h_since := t\<rparr>) (set hs))"
    by (auto simp: one_writer_def Conflicts_iff)
next
  fix hs c
  show "set (Conflicts hs c) \<subseteq> set hs" by (auto simp: Conflicts_def)
qed (auto simp: one_writer_def)

text \<open>
  The changes of a Worktree hold set: the generic steps, the downgrade of \<^verbatim>\<open>Retain\<close>, and the record of a
  legacy writer by the Worktree controller, which is not an admission and ignores the fence.
\<close>

inductive worktree_step :: "hold_state \<Rightarrow> hold_state \<Rightarrow> bool" where
  hold: "hold_step Conflicts s t \<Longrightarrow> worktree_step s t"
| downgrade: "State_Find k s = Some e \<Longrightarrow> h_mode e = Write \<Longrightarrow>
     worktree_step s (State_Put now (e\<lparr>h_mode := Read\<rparr>) s)"
| recorded: "Conflicts (drop_key Key (Key h) (hs_holders s)) h = [] \<Longrightarrow> worktree_step s (State_Put now h s)"

inductive worktree_reachable :: "hold_state \<Rightarrow> hold_state \<Rightarrow> bool" where
  refl: "worktree_reachable s s"
| step: "worktree_reachable s t \<Longrightarrow> worktree_step t u \<Longrightarrow> worktree_reachable s u"

definition worktree_inv :: "hold_state \<Rightarrow> bool" where
  "worktree_inv s \<longleftrightarrow> hold_wf s \<and> one_writer (set (hs_holders s))"

lemma worktree_step_inv: "worktree_step s t \<Longrightarrow> worktree_inv s \<Longrightarrow> worktree_inv t"
proof (induction rule: worktree_step.induct)
  case (hold s t)
  then show ?case
    by (auto simp: worktree_inv_def intro: hold_step_wf worktree_policy.step_compatible)
next
  case (downgrade k s e now)
  have "Conflicts (drop_key Key (Key (e\<lparr>h_mode := Read\<rparr>)) (hs_holders s)) (e\<lparr>h_mode := Read\<rparr>) = []"
    by (simp add: Conflicts_def)
  with downgrade show ?case
    by (auto simp: worktree_inv_def intro: hold_wf_Put worktree_policy.Put_compatible)
next
  case (recorded h s now)
  then show ?case
    by (auto simp: worktree_inv_def intro: hold_wf_Put worktree_policy.Put_compatible)
qed

lemma worktree_reachable_inv: "worktree_reachable s t \<Longrightarrow> worktree_inv s \<Longrightarrow> worktree_inv t"
  by (induction rule: worktree_reachable.induct) (auto dest: worktree_step_inv)

lemma worktree_reachable_trans:
  "worktree_reachable t u \<Longrightarrow> worktree_reachable s t \<Longrightarrow> worktree_reachable s u"
  by (induction rule: worktree_reachable.induct) (auto intro: worktree_reachable.step)

lemma worktree_reachable_one: "worktree_step s t \<Longrightarrow> worktree_reachable s t"
  by (blast intro: worktree_reachable.intros)

section \<open>Every operation is made of steps\<close>

text \<open>The closures that \<^verbatim>\<open>MountAccess\<close> and the sweep hand to \<^verbatim>\<open>holdset.Update\<close>.\<close>

datatype mount_op =
    OpAdmit worktree holder
  | OpRelease string
  | OpClose
  | OpSweep "holder list"
  | OpRetain string bool

fun mount_op_change :: "time \<Rightarrow> mount_op \<Rightarrow> worktree option \<Rightarrow> hold_state \<Rightarrow> (bool \<times> hold_state) result" where
  "mount_op_change now (OpAdmit captured h) obj s = snd (mount_admit_change now captured h obj s)"
| "mount_op_change now (OpRelease key) obj s = snd (release_change key obj s)"
| "mount_op_change now OpClose obj s = snd (close_change obj s)"
| "mount_op_change now (OpSweep candidates) obj s = snd (sweep_change candidates obj s)"
| "mount_op_change now (OpRetain key kept) obj s = snd (retain_change now key kept obj s)"

lemma Remove_step:
  assumes "State_Remove k s = (s', removed)"
  shows "worktree_reachable s s'" and "\<not> removed \<Longrightarrow> s' = s"
proof -
  have "\<not> removed \<Longrightarrow> s' = s"
    using assms by (cases s) (auto simp: State_Remove_def Let_def drop_key_length_neq dest!: drop_key_absent)
  then show "\<not> removed \<Longrightarrow> s' = s" .
  with assms show "worktree_reachable s s'"
    by (cases removed)
      (auto intro!: worktree_reachable_one worktree_step.hold hold_step.remove worktree_reachable.refl)
qed

lemma Admit_step: "State_Admit now c Conflicts s = (r, s', True) \<Longrightarrow> worktree_reachable s s'"
  by (intro worktree_reachable_one worktree_step.hold hold_step.admit)

lemma sweep_remove_steps:
  "sweep_remove hs s = (removed, s') \<Longrightarrow> worktree_reachable s s' \<and> (removed = [] \<longrightarrow> s' = s)"
proof (induction hs arbitrary: s removed s')
  case Nil
  then show ?case by (auto intro: worktree_reachable.refl)
next
  case (Cons h hs)
  obtain s1 gone where rm: "State_Remove (Key h) s = (s1, gone)" by fastforce
  obtain rest s2 where rest: "sweep_remove hs s1 = (rest, s2)" by fastforce
  from Cons.prems rm rest have eq: "s' = s2" "removed = (if gone then h # rest else rest)"
    by auto
  from Cons.IH [OF rest] Remove_step [OF rm] eq show ?case
    by (auto intro: worktree_reachable_trans)
qed

lemma mount_admit_steps:
  assumes "mount_admit_change now captured h obj s = (r, Inr (changed, s'))"
  shows "worktree_reachable s s' \<and> (\<not> changed \<longrightarrow> s' = s)"
proof (cases obj)
  case None
  with assms show ?thesis by (auto simp: mount_admit_change_def intro: worktree_reachable.refl)
next
  case (Some current)
  let ?closed = "hs_closed s \<or> o_deleting current \<noteq> None"
  let ?adm = "s\<lparr>hs_closed := ?closed\<rparr>"
  obtain r' t ch where ad: "State_Admit now h Conflicts ?adm = (r', t, ch)"
    by (cases "State_Admit now h Conflicts ?adm")
  show ?thesis
  proof (cases changed)
    case False
    with assms Some ad show ?thesis
      by (auto simp: mount_admit_change_def split: if_splits intro: worktree_reachable.refl)
  next
    case True
    with assms Some ad have t: "s' = s\<lparr>hs_holders := hs_holders t\<rparr>" "ch" "r = r'"
      by (auto simp: mount_admit_change_def split: if_splits)
    from ad \<open>ch\<close> have opened: "\<not> ?closed"
      by (cases rule: Admit_cases [of h ?adm now Conflicts]) auto
    then have "?adm = s" by (cases s) simp
    with ad \<open>ch\<close> have ad': "State_Admit now h Conflicts s = (r', t, True)" by simp
    moreover have "hs_closed t = hs_closed s" using Admit_closed_flag [OF ad'] .
    ultimately have "s' = t" using t by simp
    with ad' True show ?thesis by (auto intro: Admit_step)
  qed
qed

lemma mount_op_steps:
  "mount_op_change now op obj s = Inr (changed, s') \<Longrightarrow> worktree_reachable s s' \<and> (\<not> changed \<longrightarrow> s' = s)"
proof (cases op)
  case (OpAdmit captured h)
  assume "mount_op_change now op obj s = Inr (changed, s')"
  with OpAdmit show ?thesis
    using mount_admit_steps [of now captured h obj s] by (metis mount_op_change.simps(1) prod.collapse)
next
  case (OpRelease key)
  assume "mount_op_change now op obj s = Inr (changed, s')"
  with OpRelease have "State_Remove key s = (s', changed)"
    by (auto simp: release_change_def split: prod.splits)
  then show ?thesis using Remove_step by blast
next
  case OpClose
  assume "mount_op_change now op obj s = Inr (changed, s')"
  with OpClose show ?thesis
    by (auto simp: close_change_def split: if_splits
        intro!: worktree_reachable_one worktree_step.hold hold_step.close worktree_reachable.refl)
next
  case (OpSweep candidates)
  assume "mount_op_change now op obj s = Inr (changed, s')"
  with OpSweep show ?thesis
    using sweep_remove_steps [of candidates s] by (auto simp: sweep_change_def split: prod.splits)
next
  case (OpRetain key kept)
  assume "mount_op_change now op obj s = Inr (changed, s')"
  with OpRetain show ?thesis
    by (auto simp: retain_change_def split: option.splits prod.splits if_splits
        intro: worktree_reachable.refl Remove_step worktree_reachable_one worktree_step.downgrade)
qed

section \<open>Admission, Close and the fence against concurrent writers\<close>

lemma literal_annotations [simp]:
  "HoldersAnnotation \<noteq> legacyMountHoldersAnnotation" "HoldersAnnotation \<noteq> legacyMountsClosedAnnotation"
  by (simp_all add: HoldersAnnotation_def legacyMountHoldersAnnotation_def legacyMountsClosedAnnotation_def)

lemma Decode_value: "Decode tc a obj = Decode tc a obj'" if "annotation_value obj a = annotation_value obj' a"
  using that by (simp add: Decode_def)

lemma MountAccess_decodes: "time_codec_ok tc \<Longrightarrow> decodes_saved tc (MountAccess_Config now tc uid)"
  by (auto simp: decodes_saved_def MountAccess_Config_def worktree_Decode_def Decode_def
      unmarshal_marshal_state Let_def)

lemma MountAccess_store:
  assumes "optimistic_lock get patch" "time_codec_ok tc"
  shows "hold_store (AnnotationStore_Load get (MountAccess_Config now tc uid))
           (AnnotationStore_Save patch tc (MountAccess_Config now tc uid))"
  using assms by (intro AnnotationStore_is_hold_store MountAccess_decodes)

text \<open>What an admission decided at its linearization point.\<close>

lemma mount_admit_admitted:
  assumes "mount_admit_change now captured h obj s = (r, Inr (changed, s'))" "r_admitted r"
  shows "\<exists>current e. obj = Some current \<and> o_deleting current = None \<and>
     o_generation current = o_generation captured \<and> wt_claim current = wt_claim captured \<and>
     \<not> hs_closed s' \<and> State_Find (Key h) s' = Some e \<and> h_mode e = h_mode h"
proof -
  from assms obtain current where obj: "obj = Some current"
    and same: "o_generation current = o_generation captured" "wt_claim current = wt_claim captured"
    by (auto simp: mount_admit_change_def split: option.splits if_splits)
  let ?adm = "s\<lparr>hs_closed := hs_closed s \<or> o_deleting current \<noteq> None\<rparr>"
  obtain t ch where ad: "State_Admit now h Conflicts ?adm = (r, t, ch)"
    and s': "changed = ch" "s' = (if ch then s\<lparr>hs_holders := hs_holders t\<rparr> else s)"
    using assms(1) obj same by (auto simp: mount_admit_change_def split: prod.splits)
  from Admit_admitted [OF ad assms(2)] obtain e where
    t: "\<not> hs_closed t" "State_Find (Key h) t = Some e" "h_mode e = h_mode h" by blast
  from Admit_closed_flag [OF ad] t have opened: "\<not> hs_closed s" "o_deleting current = None" by auto
  have "hs_holders s' = hs_holders t" "\<not> hs_closed s'"
    using s' Admit_unchanged [of now h Conflicts ?adm r t] ad opened by auto
  with t obj same opened show ?thesis by (auto simp: State_Find_def)
qed

text \<open>Whether admission is impossible at an API state: no object, an unreadable one, or a fence.\<close>

definition fenced_at :: "('api, worktree) getter \<Rightarrow> time \<Rightarrow> time_codec \<Rightarrow> 'api \<Rightarrow> bool" where
  "fenced_at get now tc api = (case get api of Inl _ \<Rightarrow> True | Inr wt \<Rightarrow> MountsClosed now tc wt)"

lemma Admit_closed: "hs_closed s \<Longrightarrow> \<exists>r. State_Admit now c conflicts s = (r, s, False) \<and> \<not> r_admitted r"
  by (rule Admit_cases [of c s now conflicts]) auto

lemma mount_admit_fenced:
  assumes "\<And>wt. obj = Some wt \<Longrightarrow> o_deleting wt \<noteq> None \<or> hs_closed s"
  shows "\<exists>r. mount_admit_change now captured h obj s = (r, Inr (False, s)) \<and> \<not> r_admitted r"
proof (cases obj)
  case (Some current)
  with assms have "hs_closed (s\<lparr>hs_closed := hs_closed s \<or> o_deleting current \<noteq> None\<rparr>)" by auto
  from Admit_closed [OF this, of now h Conflicts] Some show ?thesis
    by (auto simp: mount_admit_change_def)
qed (simp add: mount_admit_change_def)

lemma fenced_attempt_result:
  assumes "fenced_at get now tc (env (2 * k) api)" "\<not> r_admitted r0"
    and "update_attempt env (MountAccess_Store get patch now tc uid) (mount_admit_change now captured h) k
           (api, st0, r0) = ((api', st', r), e)"
  shows "\<not> r_admitted r \<and> api' = env (2 * k) api"
proof (cases "st_load (MountAccess_Store get patch now tc uid) (env (2 * k) api)")
  case (Inl x)
  with assms show ?thesis by (auto simp: Let_def)
next
  case (Inr p)
  obtain obj s where p: "p = (obj, s)" by (cases p)
  have "o_deleting wt \<noteq> None \<or> hs_closed s" if "obj = Some wt" for wt
    using that Inr p assms(1)
    by (auto simp: MountAccess_Store_def AnnotationStore_Load_def MountAccess_Config_def fenced_at_def
        MountsClosed_def split: sum.splits if_splits)
  then obtain r1 where "mount_admit_change now captured h obj s = (r1, Inr (False, s))" "\<not> r_admitted r1"
    using mount_admit_fenced by blast
  with Inr p assms(3) show ?thesis by (simp add: Let_def)
qed

lemma fenced_retry:
  assumes env: "\<And>n a. fenced_at get now tc a \<Longrightarrow> fenced_at get now tc (env n a)"
  shows "fenced_at get now tc api \<Longrightarrow> \<not> r_admitted r0 \<Longrightarrow>
    retry_on_error steps (update_attempt env (MountAccess_Store get patch now tc uid)
      (mount_admit_change now captured h)) k lastErr (api, st0, r0) = ((api', st', r), e) \<Longrightarrow> \<not> r_admitted r"
proof (induction steps arbitrary: k lastErr api st0 r0)
  case 0
  then show ?case by simp
next
  case (Suc steps)
  obtain api1 st1 r1 e1 where a: "update_attempt env (MountAccess_Store get patch now tc uid)
      (mount_admit_change now captured h) k (api, st0, r0) = ((api1, st1, r1), e1)"
    by (metis prod.collapse)
  from env [OF Suc.prems(1)] have f: "fenced_at get now tc (env (2 * k) api)" .
  from fenced_attempt_result [OF f Suc.prems(2) a] f
  have r1: "\<not> r_admitted r1" and f1: "fenced_at get now tc api1" by auto
  from Suc.prems(3) a have
    "(e1 = None \<and> r = r1) \<or> (\<exists>x. e1 = Some x \<and> \<not> retriable x \<and> r = r1) \<or>
     (\<exists>x. e1 = Some x \<and> retry_on_error steps (update_attempt env (MountAccess_Store get patch now tc uid)
      (mount_admit_change now captured h)) (Suc k) (Some x) (api1, st1, r1) = ((api', st', r), e))"
    by (auto split: option.splits if_splits)
  with r1 Suc.IH [OF f1 r1] show ?case by blast
qed

section \<open>Reference blockers and ownership\<close>

lemma set_index_values: "set (index_values names ms) = set names \<union> {w. \<exists>m \<in> set ms. mt_worktree m = Some w}"
  by (induction names ms rule: index_values.induct) (auto split: option.splits)

lemma distinct_index_values: "distinct names \<Longrightarrow> distinct (index_values names ms)"
  by (induction names ms rule: index_values.induct) (auto split: option.splits)

lemma mounts_worktree_index: "mounts_worktree name w \<longleftrightarrow> name \<in> set (WorkspaceWorktreeIndexValues w)"
  by (auto simp: mounts_worktree_def WorkspaceWorktreeIndexValues_def set_index_values list_ex_iff)

section \<open>Legacy tokens\<close>

lemma import_token_wf: "hold_wf s \<Longrightarrow> hold_wf (import_token now created t s)"
  by (auto simp: import_token_def Let_def intro: hold_wf_Put)

lemma import_tokens_wf: "hold_wf s \<Longrightarrow> hold_wf (fold (import_token now created) ts s)"
  by (induction ts arbitrary: s) (auto intro: import_token_wf)

definition token_key :: "string \<times> bool \<Rightarrow> string" where
  "token_key t = Key (token_holder None (fst t))"

lemma Key_token_holder: "Key (token_holder created (fst t)) = token_key t"
  by (auto simp: token_key_def token_holder_def Key_def split: prod.splits)

lemma Find_import_token:
  assumes "hold_wf s"
  shows "State_Find k (import_token now created t s) =
    (case State_Find k s of
       Some e \<Rightarrow> Some e
     | None \<Rightarrow> if k = token_key t \<and> snd t \<and> h_uid (token_holder created (fst t)) \<noteq> []
               then Some ((token_holder created (fst t))\<lparr>h_since := put_since now (token_holder created (fst t)) s\<rparr>)
               else None)"
  using assms by (auto simp: import_token_def Let_def Key_token_holder Find_Put split: option.splits)

lemma put_since_fresh:
  "State_Find (Key h) s = None \<Longrightarrow> put_since now h s = (if h_since h = None then Some now else h_since h)"
  by (simp add: put_since_def Let_def)

lemma import_token_commute:
  assumes "hold_wf s" "token_key a \<noteq> token_key b"
  shows "import_token now created a (import_token now created b s) =
         import_token now created b (import_token now created a s)" (is "?l = ?r")
proof -
  have wf: "hold_wf ?l" "hold_wf ?r" using assms(1) by (auto intro: import_token_wf)
  have find: "State_Find k ?l = State_Find k ?r" for k
    using assms
    by (auto simp: Find_import_token import_token_wf put_since_fresh Key_token_holder split: option.splits)
  have closed: "hs_closed ?l = hs_closed ?r" by (simp add: import_token_def Let_def)
  have "set (hs_holders ?l) = set (hs_holders ?r)"
  proof (rule set_eqI)
    fix h
    show "h \<in> set (hs_holders ?l) \<longleftrightarrow> h \<in> set (hs_holders ?r)"
      using find [of "Key h"] Find_Some_iff [OF wf(1), of "Key h" h] Find_Some_iff [OF wf(2), of "Key h" h]
      by simp
  qed
  then have "hs_holders ?l = hs_holders ?r"
    using wf unfolding hold_wf_def by (intro sorted_map_inj_unique [of Key]) auto
  with closed show ?thesis by simp
qed

lemma fold_import_swap:
  assumes "hold_wf s" "token_key t \<notin> token_key ` set ts"
  shows "fold (import_token now created) ts (import_token now created t s) =
         import_token now created t (fold (import_token now created) ts s)"
  using assms
proof (induction ts arbitrary: s)
  case (Cons u us)
  then have "token_key u \<noteq> token_key t" by auto
  then have "fold (import_token now created) (u # us) (import_token now created t s) =
      fold (import_token now created) us (import_token now created t (import_token now created u s))"
    using import_token_commute [of s u t now created] Cons.prems(1) by simp
  also have "\<dots> = import_token now created t (fold (import_token now created) us (import_token now created u s))"
    using Cons by (intro Cons.IH) (auto intro: import_token_wf)
  finally show ?case by simp
qed simp

text \<open>The order in which the tokens are visited does not matter when they name distinct Workspaces.\<close>

lemma fold_import_perm:
  assumes "hold_wf s" "distinct (map token_key ts)" "distinct (map token_key us)" "set ts = set us"
  shows "fold (import_token now created) ts s = fold (import_token now created) us s"
  using assms
proof (induction ts arbitrary: us s)
  case (Cons t ts)
  then obtain ys zs where us: "us = ys @ t # zs" by (metis list.set_intros(1) split_list)
  with Cons.prems have t: "token_key t \<notin> token_key ` set (ys @ zs)" by auto
  have "fold (import_token now created) us s =
      fold (import_token now created) zs (import_token now created t (fold (import_token now created) ys s))"
    by (simp add: us)
  also have "import_token now created t (fold (import_token now created) ys s) =
      fold (import_token now created) ys (import_token now created t s)"
    using t by (intro fold_import_swap [OF Cons.prems(1), symmetric]) auto
  finally have "fold (import_token now created) us s =
      fold (import_token now created) (ys @ zs) (import_token now created t s)" by simp
  moreover have "fold (import_token now created) ts (import_token now created t s) =
      fold (import_token now created) (ys @ zs) (import_token now created t s)"
  proof (rule Cons.IH)
    have "set ts = set us - {t}" using Cons.prems(2,4) by auto
    moreover have "t \<notin> set (ys @ zs)" using t by auto
    ultimately show "set ts = set (ys @ zs)" using us by auto
  qed (use Cons.prems us in \<open>auto intro: import_token_wf\<close>)
  ultimately show ?case by simp
qed simp

section \<open>Properties\<close>

text \<open>C1: In every reachable Worktree hold set the holders are sorted by key, no key occurs twice, and
  at most one holder is a writer.\<close>

theorem worktree_at_most_one_writer:
  assumes "worktree_reachable empty_state s"
  shows "hold_wf s \<and>
    (\<forall>a \<in> set (hs_holders s). \<forall>b \<in> set (hs_holders s). h_mode a = Write \<longrightarrow> h_mode b = Write \<longrightarrow> a = b)"
proof -
  have "worktree_inv empty_state" by (simp add: worktree_inv_def one_writer_def)
  with assms have "worktree_inv s" by (rule worktree_reachable_inv)
  then show ?thesis by (simp add: worktree_inv_def one_writer_def)
qed

definition sample_writer :: holder where
  "sample_writer = \<lparr>h_kind = KindWorktreeExec, h_name = ''run'', h_uid = ''u1'', h_mode = Write, h_since = Some 7\<rparr>"

lemma sample_writer_admitted:
  "State_Admit 9 sample_writer Conflicts empty_state =
     (no_result\<lparr>r_admitted := True\<rparr>, \<lparr>hs_closed = False, hs_holders = [sample_writer]\<rparr>, True)"
  by (simp add: State_Admit_def State_Find_def Conflicts_def State_Put_def State_Remove_def put_since_def
      empty_state_def sample_writer_def Let_def)

lemma sample_writer_reachable:
  "worktree_reachable empty_state \<lparr>hs_closed = False, hs_holders = [sample_writer]\<rparr>"
  by (rule Admit_step [OF sample_writer_admitted])

theorem worktree_at_most_one_writer_witness:
  "hold_wf \<lparr>hs_closed = False, hs_holders = [sample_writer]\<rparr> \<and> h_mode sample_writer = Write"
  using worktree_at_most_one_writer [OF sample_writer_reachable] by (simp add: sample_writer_def)



text \<open>C16: An admission that MountAccess.Admit reports was decided on the live Worktree: whatever other
  controllers wrote meanwhile, when it returns the stored Worktree is not deleting, has the captured
  generation and volume claim, its hold set is open, and it records the holder with its mode.\<close>

theorem mount_admission_is_atomic:
  assumes lock: "optimistic_lock get patch" and tc: "time_codec_ok tc"
    and run: "MountAccess_Admit (Suc steps) env now (MountAccess_Store get patch now tc uid) getOwner captured h api
           = (api', r, None)"
    and adm: "r_admitted r"
  shows "\<exists>wt s e. get api' = Inr wt \<and> worktree_Decode now tc wt = Inr s \<and>
     o_deleting wt = None \<and> o_generation wt = o_generation captured \<and> wt_claim wt = wt_claim captured \<and>
     \<not> hs_closed s \<and> State_Find (Key h) s = Some e \<and> h_mode e = h_mode h"
proof -
  let ?cfg = "MountAccess_Config now tc uid"
  let ?load = "AnnotationStore_Load get ?cfg" and ?save = "AnnotationStore_Save patch tc ?cfg"
  note hs = MountAccess_store [OF lock tc, of now uid]
  obtain result where "Update (Suc steps) env \<lparr>st_load = ?load, st_save = ?save\<rparr>
      (mount_admit_change now captured h) no_result api = ((api', result, r), None)"
    using run adm
    by (auto simp: MountAccess_Admit_def MountAccess_Store_def split: sum.splits if_splits prod.splits)
  then obtain s obj st changed where ld: "?load s = Inr (obj, st)"
    and ch: "mount_admit_change now captured h obj st = (r, Inr (changed, result))"
    and wr: "if changed then ?save obj result s = (api', None) else api' = s"
    using hold_store.Update_linearized [OF hs, of steps] unfolding hold_store.linearized_def [OF hs]
    by (metis (no_types, lifting))
  from mount_admit_admitted [OF ch adm] obtain current e where cur: "obj = Some current"
    and ok: "o_deleting current = None" "o_generation current = o_generation captured"
      "wt_claim current = wt_claim captured" "\<not> hs_closed result"
      "State_Find (Key h) result = Some e" "h_mode e = h_mode h" by blast
  from ld cur have dec: "get s = Inr current" "worktree_Decode now tc current = Inr st"
    by (auto simp: AnnotationStore_Load_def MountAccess_Config_def split: sum.splits if_splits)
  show ?thesis
  proof (cases changed)
    case False
    with mount_admit_steps [OF ch] wr dec ok show ?thesis by auto
  next
    case True
    let ?after = "delete_annotations (as_legacy ?cfg) (Encode tc (as_annotation ?cfg) result current)"
    from True wr cur have "patch current ?after s = (api', None)" by (simp add: AnnotationStore_Save_def)
    from optimistic_lock_ok(2) [OF lock this] obtain v where "get api' = Inr (?after\<lparr>o_version := v\<rparr>)" by blast
    moreover have "worktree_Decode now tc (?after\<lparr>o_version := v\<rparr>) = Inr result"
      using MountAccess_decodes [OF tc, of now uid] by (simp add: decodes_saved_def MountAccess_Config_def)
    ultimately show ?thesis using ok by (auto simp: delete_annotations_def Encode_def)
  qed
qed

text \<open>A Worktree, its owner and a clock codec to run the operations on.\<close>

definition sample_codec :: time_codec where
  "sample_codec = \<lparr>tc_format = nat_digits, tc_parse = (\<lambda>s. Some (digits_value s))\<rparr>"

lemma sample_codec_ok: "time_codec_ok sample_codec"
  by (simp add: time_codec_ok_def sample_codec_def digits_value_nat_digits del: digits_value.simps)

definition sample_worktree :: worktree where
  "sample_worktree = \<lparr>o_namespace = ''ns'', o_name = ''wt'', o_uid = ''w1'', o_version = 4, o_generation = 2,
     o_annotations = Map.empty, o_labels = Map.empty, o_created = Some 1, o_deleting = None, o_finalizers = [],
     o_controller = None, wt_repository = ''repo'', wt_branch = [], wt_resetBranch = [], wt_ref = [], wt_detach = False,
     wt_orphan = False, wt_noCheckout = False, wt_lock = False, wt_storage = None, wt_claim = ''pvc'',
     wt_sourceClaim = [], wt_path = [], wt_jobName = [], wt_usedBy = [], wt_observed = 2, wt_conditions = Map.empty\<rparr>"

definition sample_owner :: kobj where
  "sample_owner = \<lparr>o_namespace = ''ns'', o_name = ''run'', o_uid = ''u1'', o_version = 1, o_generation = 1,
     o_annotations = Map.empty, o_labels = Map.empty, o_created = None, o_deleting = None, o_finalizers = [],
     o_controller = None\<rparr>"

lemma sample_admit:
  "MountAccess_Admit (Suc 0) (\<lambda>n a. a) 9 (MountAccess_Store mem_get mem_patch 9 sample_codec ''w1'')
     (\<lambda>a. Inr sample_owner) sample_worktree sample_writer (Some sample_worktree) =
   (Some ((delete_annotations [legacyMountHoldersAnnotation, legacyMountsClosedAnnotation]
             (Encode sample_codec HoldersAnnotation \<lparr>hs_closed = False, hs_holders = [sample_writer]\<rparr>
                sample_worktree))\<lparr>o_version := 5\<rparr>),
    no_result\<lparr>r_admitted := True\<rparr>, None)"
proof -
  have dec: "worktree_Decode 9 sample_codec sample_worktree = Inr empty_state"
    by (simp add: worktree_Decode_def Decode_def annotation_value_def sample_worktree_def)
  have ch: "mount_admit_change 9 sample_worktree sample_writer (Some sample_worktree) empty_state =
      (no_result\<lparr>r_admitted := True\<rparr>, Inr (True, \<lparr>hs_closed = False, hs_holders = [sample_writer]\<rparr>))"
    using sample_writer_admitted
    by (simp add: mount_admit_change_def sample_worktree_def empty_state_def)
  have "o_uid sample_worktree = ''w1''" "o_version sample_worktree = 4"
    "o_uid sample_owner = h_uid sample_writer" "o_deleting sample_owner = None"
    by (simp_all add: sample_worktree_def sample_owner_def sample_writer_def)
  with dec ch show ?thesis
    by (simp add: MountAccess_Admit_def Update_def MountAccess_Store_def AnnotationStore_Load_def
        AnnotationStore_Save_def mem_get_def mem_patch_def MountAccess_Config_def)
qed

theorem mount_admission_is_atomic_witness:
  "\<exists>api'. MountAccess_Admit (Suc 0) (\<lambda>n a. a) 9 (MountAccess_Store mem_get mem_patch 9 sample_codec ''w1'')
     (\<lambda>a. Inr sample_owner) sample_worktree sample_writer (Some sample_worktree) =
       (api', no_result\<lparr>r_admitted := True\<rparr>, None) \<and>
   (\<exists>wt s e. mem_get api' = Inr wt \<and> worktree_Decode 9 sample_codec wt = Inr s \<and> \<not> hs_closed s \<and>
      State_Find (Key sample_writer) s = Some e \<and> h_mode e = Write)"
proof -
  note ok = mount_admission_is_atomic [OF optimistic_lock_mem sample_codec_ok sample_admit]
  from ok have "\<exists>wt s e. mem_get (Some ((delete_annotations [legacyMountHoldersAnnotation, legacyMountsClosedAnnotation]
             (Encode sample_codec HoldersAnnotation \<lparr>hs_closed = False, hs_holders = [sample_writer]\<rparr>
                sample_worktree))\<lparr>o_version := 5\<rparr>)) = Inr wt \<and> worktree_Decode 9 sample_codec wt = Inr s \<and>
      \<not> hs_closed s \<and> State_Find (Key sample_writer) s = Some e \<and> h_mode e = Write"
    by (auto simp: sample_writer_def)
  with sample_admit show ?thesis by blast
qed

text \<open>The store contract holds for the Worktree store on an API object in memory.\<close>

interpretation worktree_store:
  hold_store "AnnotationStore_Load mem_get (MountAccess_Config now sample_codec uid)"
    "AnnotationStore_Save mem_patch sample_codec (MountAccess_Config now sample_codec uid)" for now uid
  by (rule MountAccess_store [OF optimistic_lock_mem sample_codec_ok])

text \<open>Once a Worktree is fenced (deleting, closed, unreadable or gone) and the other controllers
  keep it so, no call of MountAccess.Admit is ever admitted, with any number of retries and
  whatever holder asks.\<close>

theorem mount_fence_is_final:
  assumes "\<And>n a. fenced_at get now tc a \<Longrightarrow> fenced_at get now tc (env n a)"
    and "fenced_at get now tc api"
    and "MountAccess_Admit steps env now (MountAccess_Store get patch now tc uid) getOwner captured h api = (api', r, e)"
  shows "\<not> r_admitted r"
proof -
  have "\<not> r_admitted r1" if "Update steps env (MountAccess_Store get patch now tc uid)
      (mount_admit_change now captured h) no_result api = ((a1, s1, r1), e1)" for a1 s1 r1 e1
    using that fenced_retry [of get now tc env api no_result steps patch uid captured h 0 None empty_state]
      assms(1,2) by (simp add: Update_def)
  with assms(3) show ?thesis
    by (auto simp: MountAccess_Admit_def split: sum.splits if_splits prod.splits)
qed

theorem mount_fence_is_final_witness:
  "fenced_at mem_get 9 sample_codec (Some (sample_worktree\<lparr>o_deleting := Some 3\<rparr>)) \<and>
   \<not> r_admitted (fst (snd (MountAccess_Admit 4 (\<lambda>n a. a) 9 (MountAccess_Store mem_get mem_patch 9 sample_codec ''w1'')
        (\<lambda>a. Inr sample_owner) sample_worktree sample_writer (Some (sample_worktree\<lparr>o_deleting := Some 3\<rparr>)))))"
proof -
  let ?api = "Some (sample_worktree\<lparr>o_deleting := Some 3\<rparr>)"
  have f: "fenced_at mem_get 9 sample_codec ?api"
    by (simp add: fenced_at_def mem_get_def MountsClosed_def)
  obtain api' r e where run: "MountAccess_Admit 4 (\<lambda>n a. a) 9 (MountAccess_Store mem_get mem_patch 9 sample_codec ''w1'')
        (\<lambda>a. Inr sample_owner) sample_worktree sample_writer ?api = (api', r, e)"
    by (metis prod.collapse)
  from mount_fence_is_final [OF _ f run] f run show ?thesis by simp
qed

text \<open>Closing a Worktree returns exactly the holders of its stored hold set, and that set is closed
  when Close returns, whatever other controllers wrote meanwhile.\<close>

theorem mount_close_reports_remaining:
  assumes "optimistic_lock get patch" "time_codec_ok tc"
    and "MountAccess_Close (Suc steps) env (MountAccess_Store get patch now tc uid) api = (api', Inr hs)"
  shows "\<exists>wt s. get api' = Inr wt \<and> worktree_Decode now tc wt = Inr s \<and> hs_closed s \<and> hs_holders s = hs"
proof -
  note st = MountAccess_store [OF assms(1,2), of now uid]
  from assms(3) have "Close (Suc steps) env (MountAccess_Store get patch now tc uid) api = (api', Inr hs)"
    by (auto simp: MountAccess_Close_def split: prod.splits sum.splits)
  then obtain obj s where ld: "AnnotationStore_Load get (MountAccess_Config now tc uid) api' = Inr (obj, s)"
    and s: "hs_closed s" "hs_holders s = hs"
    using hold_store.Close_fences [OF st] unfolding MountAccess_Store_def by blast
  from s(1) have "s \<noteq> empty_state" by (auto simp: empty_state_def)
  with ld s show ?thesis
    by (auto simp: AnnotationStore_Load_def MountAccess_Config_def split: sum.splits if_splits)
qed

lemma sample_close:
  "MountAccess_Close (Suc 0) (\<lambda>n a. a) (MountAccess_Store mem_get mem_patch 9 sample_codec ''w1'') (Some sample_worktree) =
   (Some ((delete_annotations [legacyMountHoldersAnnotation, legacyMountsClosedAnnotation]
             (Encode sample_codec HoldersAnnotation \<lparr>hs_closed = True, hs_holders = []\<rparr> sample_worktree))
           \<lparr>o_version := 5\<rparr>), Inr [])"
proof -
  have dec: "worktree_Decode 9 sample_codec sample_worktree = Inr empty_state"
    by (simp add: worktree_Decode_def Decode_def annotation_value_def sample_worktree_def)
  have "o_uid sample_worktree = ''w1''" "o_version sample_worktree = 4"
    by (simp_all add: sample_worktree_def)
  with dec show ?thesis
    by (simp add: MountAccess_Close_def Close_def close_change_def Update_def MountAccess_Store_def
        AnnotationStore_Load_def AnnotationStore_Save_def mem_get_def mem_patch_def MountAccess_Config_def
        empty_state_def)
qed

theorem mount_close_reports_remaining_witness:
  "\<exists>api' wt s. MountAccess_Close (Suc 0) (\<lambda>n a. a) (MountAccess_Store mem_get mem_patch 9 sample_codec ''w1'')
       (Some sample_worktree) = (api', Inr []) \<and>
     mem_get api' = Inr wt \<and> worktree_Decode 9 sample_codec wt = Inr s \<and> hs_closed s"
  using mount_close_reports_remaining [OF optimistic_lock_mem sample_codec_ok sample_close] sample_close
  by blast

text \<open>C37: The reference blockers from the cache index and from the full Workspace list agree: the
  sorted names of the Workspaces that mount the Worktree and are not deleting past their runtime
  cleanup.\<close>

theorem reference_blockers_index_agrees:
  "ReferenceBlockers (Inr (filter (\<lambda>w. name \<in> set (WorkspaceWorktreeIndexValues w)) ws)) listNs name =
     ListReferenceBlockers (Inr ws) name \<and>
   set (referenceBlockers ws name) =
     {o_name w | w. w \<in> set ws \<and> (\<exists>m \<in> set (ws_mounts w). mt_worktree m = Some name) \<and>
        (o_deleting w = None \<or> WorkspaceCleanupFinalizer \<in> set (o_finalizers w))} \<and>
   sorted (referenceBlockers ws name)"
proof (intro conjI)
  have "filter (\<lambda>w. \<not> (o_deleting w \<noteq> None \<and> WorkspaceCleanupFinalizer \<notin> set (o_finalizers w)) \<and>
          mounts_worktree name w) (filter (\<lambda>w. name \<in> set (WorkspaceWorktreeIndexValues w)) ws) =
        filter (\<lambda>w. \<not> (o_deleting w \<noteq> None \<and> WorkspaceCleanupFinalizer \<notin> set (o_finalizers w)) \<and>
          mounts_worktree name w) ws"
    by (auto simp: mounts_worktree_index intro: filter_cong)
  then show "ReferenceBlockers (Inr (filter (\<lambda>w. name \<in> set (WorkspaceWorktreeIndexValues w)) ws)) listNs name =
     ListReferenceBlockers (Inr ws) name"
    by (simp add: ReferenceBlockers_def ListReferenceBlockers_def referenceBlockers_def)
  show "set (referenceBlockers ws name) =
     {o_name w | w. w \<in> set ws \<and> (\<exists>m \<in> set (ws_mounts w). mt_worktree m = Some name) \<and>
        (o_deleting w = None \<or> WorkspaceCleanupFinalizer \<in> set (o_finalizers w))}"
    by (auto simp: referenceBlockers_def mounts_worktree_def list_ex_iff)
  show "sorted (referenceBlockers ws name)" by (simp add: referenceBlockers_def)
qed

text \<open>A generated Worktree is owned by its Workspace incarnation and by no other Workspace: one that
  reuses the name with another UID, or lives in another namespace, does not own it. It also carries
  the deletion finalizer.\<close>

theorem generated_worktree_ownership:
  assumes "parseGroup workspacesGroupVersion = Some workspacesGroup"
  shows "(IsOwnedBy parseGroup (InitializeGenerated ws wt) other \<longleftrightarrow>
     o_uid ws \<noteq> [] \<and> o_uid other = o_uid ws \<and> o_name other = o_name ws \<and>
     o_namespace other = o_namespace wt) \<and>
     contains_finalizer (InitializeGenerated ws wt) DeletionFinalizer"
proof (rule conjI)
  have c: "o_controller (InitializeGenerated ws wt) = Some \<lparr>or_apiVersion = workspacesGroupVersion,
      or_kind = ''Workspace'', or_name = o_name ws, or_uid = o_uid ws\<rparr>"
    "o_namespace (InitializeGenerated ws wt) = o_namespace wt"
    by (simp_all add: InitializeGenerated_def add_finalizer_def)
  then have "WorkspaceOwner parseGroup (InitializeGenerated ws wt) = Some \<lparr>or_apiVersion = workspacesGroupVersion,
      or_kind = ''Workspace'', or_name = o_name ws, or_uid = o_uid ws\<rparr>"
    using assms by (simp add: WorkspaceOwner_def)
  with c show "IsOwnedBy parseGroup (InitializeGenerated ws wt) other \<longleftrightarrow>
     o_uid ws \<noteq> [] \<and> o_uid other = o_uid ws \<and> o_name other = o_name ws \<and> o_namespace other = o_namespace wt"
    by (auto simp: IsOwnedBy_def)
  show "contains_finalizer (InitializeGenerated ws wt) DeletionFinalizer"
    by (simp add: InitializeGenerated_def)
qed

definition sample_workspace :: workspace where
  "sample_workspace = \<lparr>o_namespace = ''ns'', o_name = ''ws'', o_uid = ''s1'', o_version = 1, o_generation = 1,
     o_annotations = Map.empty, o_labels = Map.empty, o_created = None, o_deleting = None, o_finalizers = [],
     o_controller = None, ws_mounts = [], ws_desired = ''Running'', ws_idleTimeout = None,
     ws_maxRunDuration = None, ws_deleteAfterSuspended = None, ws_retentionPolicy = [], ws_lifecycle = None,
     ws_lastExecutionCompletedAt = None, ws_admissionClosed = False, ws_lastActivityTime = None,
     ws_runningSince = None, ws_suspendedAt = None, ws_runtimePodName = [], ws_conditions = Map.empty\<rparr>"

theorem generated_worktree_ownership_witness:
  "IsOwnedBy (\<lambda>v. Some (fst (cut (CHR ''/'') v))) (InitializeGenerated sample_workspace sample_worktree) sample_workspace \<and>
   \<not> IsOwnedBy (\<lambda>v. Some (fst (cut (CHR ''/'') v))) (InitializeGenerated sample_workspace sample_worktree)
       (sample_workspace\<lparr>o_uid := ''s2''\<rparr>)"
proof -
  have "(\<lambda>v. Some (fst (cut (CHR ''/'') v))) workspacesGroupVersion = Some workspacesGroup"
    by (simp add: workspacesGroupVersion_def workspacesGroup_def)
  note own = generated_worktree_ownership [where parseGroup = "\<lambda>v. Some (fst (cut (CHR ''/'') v))",
      OF this, THEN conjunct1]
  show ?thesis unfolding own by (simp add: sample_workspace_def sample_worktree_def)
qed

text \<open>Reading the annotations of older releases does not depend on the order in which Go visits the
  token map, as long as the tokens name distinct Workspaces; the result is a well-formed hold set.\<close>

theorem legacy_decode_order_independent:
  assumes "hold_wf s" "distinct (map token_key ts)" "distinct (map token_key us)" "set us = set ts"
  shows "fold (import_token now created) us s = fold (import_token now created) ts s \<and>
     hold_wf (fold (import_token now created) ts s)"
  using assms by (auto intro: fold_import_perm import_tokens_wf)

theorem legacy_decode_order_independent_witness:
  "fold (import_token 9 (Some 1)) [(''u2/b'', True), (''u1/a'', True)] empty_state =
     fold (import_token 9 (Some 1)) [(''u1/a'', True), (''u2/b'', True)] empty_state"
proof -
  have d: "distinct (map token_key [(''u1/a'', True), (''u2/b'', True)])"
    "distinct (map token_key [(''u2/b'', True), (''u1/a'', True)])"
    by (simp_all add: token_key_def token_holder_def Key_def)
  have "set [(''u2/b'', True), (''u1/a'', True)] = set [(''u1/a'', True), (''u2/b'', True)]" by auto
  from legacy_decode_order_independent [OF hold_wf_empty d this] show ?thesis by blast
qed

end
