(* ===== verification/RepositoryAccess.thy ===== *)
theory RepositoryAccess
  imports WorktreeOwnership
begin

text \<open>
  Package \<^verbatim>\<open>internal/repositoryaccess\<close>: reservations of a Repository parent volume, kept as a hold
  set on a Lease (\<^verbatim>\<open>access.go\<close>), and the failures its consumers report (\<^verbatim>\<open>failure.go\<close>). Mounts and
  clones share the volume among their own kind, a writer is alone.
\<close>

section \<open>Data\<close>

record repository_status =
  rs_observed :: int
  rs_claim :: string
  rs_lastUpdated :: "time option"
  rs_conditions :: conditions
  rs_access :: "(string \<times> usage_reference list) option"

record submodules_spec =
  sb_recursive :: bool
  sb_failurePolicy :: string

record repository = kobj +
  rp_url :: string
  rp_ref :: string
  rp_credential :: "string option"
  rp_submodules :: "submodules_spec option"
  rp_class :: string
  rp_size :: int
  rp_status :: repository_status

datatype admission = NotReserved | Reserved | Admitted

definition repo_Write :: mode where "repo_Write = ''write''"
definition Mount :: mode where "Mount = ''mount''"
definition Clone :: mode where "Clone = ''clone''"

definition StateAnnotation :: string where
  "StateAnnotation = ''repositories.rc.ayaka.io/access''"

definition legacyRoles :: "string \<rightharpoonup> string" where
  "legacyRoles = map_of [(''workspace'', ''Workspace''), (''clone'', ''Worktree''),
     (''sync'', ''RepositorySync''), (''repository-exec'', ''RepositoryExec''), (''bootstrap'', ''Repository'')]"

definition repo_Conflicts :: conflicts where
  "repo_Conflicts existing candidate =
     filter (\<lambda>h. h_mode candidate = repo_Write \<or> h_mode h \<noteq> h_mode candidate) existing"

section \<open>Decoding\<close>

text \<open>
  The probe of \<^verbatim>\<open>Decode\<close>: the fields \<^verbatim>\<open>mode\<close> and \<^verbatim>\<open>holders\<close> of the document; the holders stay raw.
  \<open>None\<close> for the raw holders is an absent field.
\<close>

fun probe_fields :: "mode \<times> json option \<Rightarrow> (string \<times> json) list \<Rightarrow> (mode \<times> json option) result" where
  "probe_fields p [] = Inr p"
| "probe_fields (m, h) ((k, v) # ms) =
     (if to_lower k = ''mode'' then (case json_string m v of Inl e \<Rightarrow> Inl e | Inr m' \<Rightarrow> probe_fields (m', h) ms)
      else if to_lower k = ''holders'' then probe_fields (m, Some v) ms
      else probe_fields (m, h) ms)"

definition probe :: "annotation \<Rightarrow> (mode \<times> json option) result" where
  "probe a =
     (case a of
        Doc (JObj ms) \<Rightarrow> probe_fields ([], None) ms
      | Doc JNull \<Rightarrow> Inr ([], None)
      | _ \<Rightarrow> Inl json_error)"

definition legacy_role_holder :: "mode \<Rightarrow> time option \<Rightarrow> string \<Rightarrow> holder" where
  "legacy_role_holder m created token =
     (case cut (CHR ''/'') token of
        (role, rest) \<Rightarrow>
          (case cut (CHR ''/'') rest of
             (uid, name) \<Rightarrow>
               \<lparr>h_kind = (case legacyRoles role of None \<Rightarrow> role | Some k \<Rightarrow> k), h_name = name,
                h_uid = uid, h_mode = m, h_since = created\<rparr>))"

definition import_role :: "time \<Rightarrow> mode \<Rightarrow> time option \<Rightarrow> string \<times> bool \<Rightarrow> hold_state \<Rightarrow> hold_state" where
  "import_role now m created t s =
     (let h = legacy_role_holder m created (fst t)
      in if \<not> snd t \<or> h_uid h = [] then s else State_Put now h s)"

definition repo_Decode :: "time \<Rightarrow> time_codec \<Rightarrow> 'x kobj_scheme \<Rightarrow> hold_state result" where
  "repo_Decode now tc lease =
     (let value = annotation_value lease StateAnnotation
      in if value = Raw [] then Inr empty_state
         else (case probe value of
                 Inl e \<Rightarrow> Inl (EWrap ''decode Repository reservation'' e)
               | Inr (m, Some (JObj ms)) \<Rightarrow>
                   (case unmarshal_tokens [] ms of
                      Inl e \<Rightarrow> Inl (EWrap ''decode legacy Repository reservation'' e)
                    | Inr tokens \<Rightarrow> Inr (fold (import_role now m (o_created lease)) tokens empty_state))
               | Inr _ \<Rightarrow> Decode tc StateAnnotation lease))"

definition HeldBy :: "time \<Rightarrow> time_codec \<Rightarrow> 'x kobj_scheme \<Rightarrow> string \<Rightarrow> bool result" where
  "HeldBy now tc lease uid =
     (if uid = [] then Inr False
      else (case repo_Decode now tc lease of
              Inl e \<Rightarrow> Inl e
            | Inr current \<Rightarrow> Inr (list_ex (\<lambda>h. h_uid h = uid) (hs_holders current))))"

section \<open>The gate\<close>

definition leaseName :: "(string \<Rightarrow> string) \<Rightarrow> repository \<Rightarrow> string" where
  "leaseName sha10hex repository =
     ''rc-repository-'' @ sha10hex (o_uid repository @ ''/'' @ o_name repository)"

text \<open>\<open>blank\<close> is an empty Lease with the store's owner references.\<close>

definition Gate_Config :: "time \<Rightarrow> time_codec \<Rightarrow> (string \<Rightarrow> string) \<Rightarrow> lease \<Rightarrow> repository \<Rightarrow> lease lease_store" where
  "Gate_Config now tc sha10hex blank repository =
     \<lparr>ls_annotation = StateAnnotation, ls_decode = repo_Decode now tc,
      ls_new = blank\<lparr>o_name := leaseName sha10hex repository, o_namespace := o_namespace repository,
                     o_labels := [''repositories.rc.ayaka.io/access-gate'' \<mapsto> ''true'']\<rparr>\<rparr>"

definition Gate_Store ::
  "('api, lease) getter \<Rightarrow> ('api, lease) patcher \<Rightarrow> (lease \<Rightarrow> 'api \<Rightarrow> 'api \<times> err option) \<Rightarrow> time_codec \<Rightarrow>
   lease lease_store \<Rightarrow> ('api, lease) store" where
  "Gate_Store get update create tc cfg =
     \<lparr>st_load = LeaseStore_Load get cfg, st_save = LeaseStore_Save update create tc cfg\<rparr>"

definition sameState :: "repository_status \<Rightarrow> repository_status \<Rightarrow> bool" where
  "sameState left right = (left\<lparr>rs_access := None\<rparr> = right\<lparr>rs_access := None\<rparr>)"

text \<open>The consumers that are visible outside the hold set: Pods and clone PVCs of the namespace.\<close>

datatype pod_phase = PodPending | PodRunning | PodSucceeded | PodFailed | PodUnknown

record pod_view =
  pv_phase :: pod_phase
  pv_claims :: "string list"

record claim_view =
  cv_sourceKind :: "string option"
  cv_sourceName :: string
  cv_bound :: bool

definition pod_uses :: "string \<Rightarrow> pod_view \<Rightarrow> bool" where
  "pod_uses claim p = (pv_phase p \<noteq> PodSucceeded \<and> pv_phase p \<noteq> PodFailed \<and> claim \<in> set (pv_claims p))"

definition pending_clone :: "string \<Rightarrow> claim_view \<Rightarrow> bool" where
  "pending_clone claim c =
     (cv_sourceKind c = Some ''PersistentVolumeClaim'' \<and> cv_sourceName c = claim \<and> \<not> cv_bound c)"

definition consumersStopped ::
  "('api \<Rightarrow> pod_view list result) \<Rightarrow> ('api \<Rightarrow> claim_view list result) \<Rightarrow> repository \<Rightarrow> mode \<Rightarrow> 'api \<Rightarrow> bool result" where
  "consumersStopped listPods listClaims repository m api =
     (let claim = rs_claim (rp_status repository);
          podsOk = (if m = repo_Write \<or> m = Clone
                    then (case listPods api of Inl e \<Rightarrow> Inl e | Inr ps \<Rightarrow> Inr (\<not> list_ex (pod_uses claim) ps))
                    else Inr True)
      in case podsOk of
           Inl e \<Rightarrow> Inl e
         | Inr False \<Rightarrow> Inr False
         | Inr True \<Rightarrow>
             if m = repo_Write
             then (case listClaims api of
                     Inl e \<Rightarrow> Inl e | Inr cs \<Rightarrow> Inr (\<not> list_ex (pending_clone claim) cs))
             else Inr True)"

definition ConsumersStopped ::
  "('api \<Rightarrow> pod_view list result) \<Rightarrow> ('api \<Rightarrow> claim_view list result) \<Rightarrow> repository \<Rightarrow> 'api \<Rightarrow> bool result" where
  "ConsumersStopped listPods listClaims repository api =
     consumersStopped listPods listClaims repository repo_Write api"

text \<open>Whether the live Repository is no longer what the caller captured, or not ready when it must be.\<close>

definition repository_changed :: "repository \<Rightarrow> repository \<Rightarrow> bool \<Rightarrow> bool" where
  "repository_changed current captured ready =
     (o_uid current \<noteq> o_uid captured \<or> o_generation current \<noteq> o_generation captured \<or>
      \<not> sameState (rp_status current) (rp_status captured) \<or> o_deleting current \<noteq> None \<or>
      (ready \<and> (rs_observed (rp_status current) \<noteq> o_generation current \<or>
        (case rs_conditions (rp_status current) ''StorageReady'' of
           None \<Rightarrow> True
         | Some c \<Rightarrow> c_status c \<noteq> CTrue \<or> c_observed c \<noteq> o_generation current) \<or>
        rs_claim (rp_status current) = [])))"

definition Gate_Release ::
  "nat \<Rightarrow> (nat \<Rightarrow> 'api \<Rightarrow> 'api) \<Rightarrow> ('api, lease) store \<Rightarrow> string \<Rightarrow> 'api \<Rightarrow> 'api \<times> err option" where
  "Gate_Release steps env store key api = Release steps env store key api"

definition Gate_Acquire ::
  "nat \<Rightarrow> (nat \<Rightarrow> 'api \<Rightarrow> 'api) \<Rightarrow> time \<Rightarrow> ('api, lease) store \<Rightarrow> ('api \<Rightarrow> repository result) \<Rightarrow>
   ('api \<Rightarrow> pod_view list result) \<Rightarrow> ('api \<Rightarrow> claim_view list result) \<Rightarrow> repository \<Rightarrow> holder \<Rightarrow> bool \<Rightarrow> 'api \<Rightarrow>
   'api \<times> admission \<times> err option" where
  "Gate_Acquire steps env now store getRepo listPods listClaims repository h ready api =
     (case Acquire steps env now store h repo_Conflicts api of
        (api', Inl e) \<Rightarrow> (api', NotReserved, Some e)
      | (api', Inr r) \<Rightarrow>
          if \<not> r_admitted r then (api', NotReserved, None)
          else (case getRepo api' of
                  Inl e \<Rightarrow> (api', Reserved, Some e)
                | Inr current \<Rightarrow>
                    if repository_changed current repository ready
                    then (case Gate_Release steps (\<lambda>n. env (n + 2 * steps)) store (Key h) api' of (api'', e) \<Rightarrow> (api'', NotReserved, e))
                    else (case consumersStopped listPods listClaims repository (h_mode h) api' of
                            Inl e \<Rightarrow> (api', Reserved, Some e)
                          | Inr stopped \<Rightarrow> if stopped then (api', Admitted, None) else (api', Reserved, None))))"

definition Gate_ReleaseNamed ::
  "nat \<Rightarrow> (nat \<Rightarrow> 'api \<Rightarrow> 'api) \<Rightarrow> (repository \<Rightarrow> ('api, lease) store) \<Rightarrow> ('api \<Rightarrow> repository result) \<Rightarrow> string \<Rightarrow>
   'api \<Rightarrow> 'api \<times> err option" where
  "Gate_ReleaseNamed steps env stores getRepo key api =
     (case getRepo api of
        Inl e \<Rightarrow> (api, if err_is ENotFound e then None else Some e)
      | Inr current \<Rightarrow> Gate_Release steps env (stores current) key api)"

definition Gate_Busy :: "('api, lease) store \<Rightarrow> string \<Rightarrow> 'api \<Rightarrow> bool result" where
  "Gate_Busy store key api =
     (case st_load store api of
        Inl e \<Rightarrow> Inl e
      | Inr (_, current) \<Rightarrow> Inr (hs_holders current \<noteq> [] \<and> State_Find key current = None))"

section \<open>Failures\<close>

definition failedStorageReasons :: "string list" where
  "failedStorageReasons = [''SyncFailed'', ''BootstrapFailed'', ''BootstrapJobConflict'', ''CredentialNotFound'',
     ''VolumeClaimConflict'', ''StorageClassChangeUnsupported'', ''VolumeShrinkUnsupported'']"

definition Failure :: "repository \<Rightarrow> string option" where
  "Failure repository =
     (case rs_conditions (rp_status repository) ''StorageReady'' of
        None \<Rightarrow> None
      | Some c \<Rightarrow>
          if c_status c \<noteq> CFalse \<or> c_observed c \<noteq> o_generation repository \<or>
             rs_observed (rp_status repository) \<noteq> o_generation repository then None
          else if c_reason c \<notin> set failedStorageReasons then None
          else Some (''Repository '' @ o_name repository @ '' is not usable ('' @ c_reason c @ ''): '' @ c_message c))"

section \<open>The conflict policy\<close>

definition shared_mode :: "holder set \<Rightarrow> bool" where
  "shared_mode A \<longleftrightarrow> (\<forall>a \<in> A. \<forall>b \<in> A. a \<noteq> b \<longrightarrow> h_mode a = h_mode b \<and> h_mode a \<noteq> repo_Write)"

lemma repo_Conflicts_iff:
  "repo_Conflicts hs c = [] \<longleftrightarrow> hs = [] \<or> h_mode c \<noteq> repo_Write \<and> (\<forall>h \<in> set hs. h_mode h = h_mode c)"
  by (cases hs) (auto simp: repo_Conflicts_def filter_empty_conv)

interpretation repository_policy: conflicts_policy repo_Conflicts shared_mode
proof unfold_locales
  fix hs c t
  assume "shared_mode (set hs)" "repo_Conflicts hs c = []"
  moreover have "h_mode (c\<lparr>h_since := t\<rparr>) = h_mode c" by simp
  ultimately show "shared_mode (insert (c\<lparr>h_since := t\<rparr>) (set hs))"
    unfolding shared_mode_def repo_Conflicts_iff by (metis empty_iff empty_set insert_iff)
next
  fix hs c
  show "set (repo_Conflicts hs c) \<subseteq> set hs" by (auto simp: repo_Conflicts_def)
next
  fix A B
  assume "shared_mode B" "A \<subseteq> B"
  then show "shared_mode A" unfolding shared_mode_def by blast
qed (simp add: shared_mode_def)

section \<open>The Lease store\<close>

lemma probe_marshal:
  "probe (Doc (marshal_state tc s)) =
     Inr ([], if hs_holders s = [] then None else Some (JArr (map (marshal_holder tc) (hs_holders s))))"
  by (auto simp: probe_def marshal_state_def)

lemma Gate_decodes:
  "time_codec_ok tc \<Longrightarrow> lease_decodes_saved tc (Gate_Config now tc sha blank repository)"
  by (auto simp: lease_decodes_saved_def Gate_Config_def repo_Decode_def probe_marshal Decode_def
      unmarshal_marshal_state split: option.splits)

lemma Gate_store:
  assumes "optimistic_lock get update" "create_once get create" "time_codec_ok tc"
  shows "hold_store (LeaseStore_Load get (Gate_Config now tc sha blank repository))
           (LeaseStore_Save update create tc (Gate_Config now tc sha blank repository))"
  using assms by (intro LeaseStore_is_hold_store Gate_decodes)

definition mem_create ::
  "'x kobj_scheme \<Rightarrow> ('x kobj_scheme) option \<Rightarrow> ('x kobj_scheme) option \<times> err option" where
  "mem_create obj s =
     (case s of None \<Rightarrow> (Some (obj\<lparr>o_version := 1\<rparr>), None) | Some _ \<Rightarrow> (s, Some EAlreadyExists))"

lemma create_once_mem: "create_once mem_get mem_create"
  unfolding create_once_def
proof (intro conjI allI impI)
  fix obj s s'
  assume c: "mem_create obj s = (s', None)"
  then have "s = None" "s' = Some (obj\<lparr>o_uid := o_uid obj, o_version := 1\<rparr>)"
    by (auto simp: mem_create_def split: option.splits)
  then show "mem_get s = Inl ENotFound" "\<exists>u v. mem_get s' = Inr (obj\<lparr>o_uid := u, o_version := v\<rparr>)"
    by (simp add: mem_get_def) (intro exI [of _ "o_uid obj"] exI [of _ 1], simp add: mem_get_def \<open>s' = _\<close>)
next
  fix obj s s' e
  assume "mem_create obj s = (s', Some e)"
  then show "s' = s" by (auto simp: mem_create_def split: option.splits)
qed

interpretation repository_store:
  hold_store "LeaseStore_Load mem_get (Gate_Config now sample_codec sha blank repository)"
    "LeaseStore_Save mem_patch mem_create sample_codec (Gate_Config now sample_codec sha blank repository)"
  for now sha blank repository
  by (rule Gate_store [OF optimistic_lock_mem create_once_mem sample_codec_ok])

section \<open>Properties\<close>

text \<open>C23: In every reachable Repository reservation, any two different holders have the same mode and it
  is not the write mode: mounts never mix with clones and a writer is alone.\<close>

theorem repository_modes_never_mix:
  assumes "hold_reachable repo_Conflicts empty_state s"
    and "a \<in> set (hs_holders s)" "b \<in> set (hs_holders s)" "a \<noteq> b"
  shows "h_mode a = h_mode b \<and> h_mode a \<noteq> repo_Write"
proof -
  have "shared_mode (set (hs_holders s))"
    using assms(1) by (rule repository_policy.reachable_compatible) (simp add: shared_mode_def)
  with assms(2-4) show ?thesis unfolding shared_mode_def by blast
qed

definition sample_mount :: "string \<Rightarrow> holder" where
  "sample_mount uid = \<lparr>h_kind = ''Workspace'', h_name = ''ws'', h_uid = uid, h_mode = Mount, h_since = Some 7\<rparr>"

lemma sample_mounts_reachable:
  "hold_reachable repo_Conflicts empty_state
     \<lparr>hs_closed = False, hs_holders = [sample_mount ''u1'', sample_mount ''u2'']\<rparr>"
proof -
  let ?one = "\<lparr>hs_closed = False, hs_holders = [sample_mount ''u1'']\<rparr>"
  have "State_Admit 9 (sample_mount ''u1'') repo_Conflicts empty_state = (no_result\<lparr>r_admitted := True\<rparr>, ?one, True)"
    by (simp add: State_Admit_def State_Find_def repo_Conflicts_def State_Put_def State_Remove_def
        put_since_def empty_state_def sample_mount_def Let_def)
  moreover have "State_Admit 9 (sample_mount ''u2'') repo_Conflicts ?one =
      (no_result\<lparr>r_admitted := True\<rparr>, \<lparr>hs_closed = False, hs_holders = [sample_mount ''u1'', sample_mount ''u2'']\<rparr>, True)"
    by (simp add: State_Admit_def State_Find_def repo_Conflicts_def State_Put_def State_Remove_def
        put_since_def sample_mount_def Key_def Let_def Mount_def repo_Write_def less_eq_char_def)
  ultimately show ?thesis
    by (meson hold_reachable.intros hold_step.admit)
qed

theorem repository_modes_never_mix_witness:
  "h_mode (sample_mount ''u1'') = h_mode (sample_mount ''u2'') \<and> h_mode (sample_mount ''u1'') \<noteq> repo_Write"
  by (rule repository_modes_never_mix [OF sample_mounts_reachable]) (simp_all add: sample_mount_def)


definition sample_repository :: repository where
  "sample_repository = \<lparr>o_namespace = ''ns'', o_name = ''repo'', o_uid = ''r1'', o_version = 1, o_generation = 1,
     o_annotations = Map.empty, o_labels = Map.empty, o_created = None, o_deleting = None, o_finalizers = [],
     o_controller = None, rp_url = [], rp_ref = [], rp_credential = None, rp_submodules = None, rp_class = ''standard'', rp_size = 10,
     rp_status = \<lparr>rs_observed = 1, rs_claim = ''pvc'', rs_lastUpdated = None,
        rs_conditions = [''StorageReady'' \<mapsto> \<lparr>c_status = CTrue, c_observed = 1, c_reason = ''Ready'',
                         c_message = [], c_transition = None\<rparr>], rs_access = None\<rparr>\<rparr>"

definition sample_lease :: lease where
  "sample_lease = \<lparr>o_namespace = [], o_name = [], o_uid = [], o_version = 0, o_generation = 0,
     o_annotations = Map.empty, o_labels = Map.empty, o_created = None, o_deleting = None, o_finalizers = [],
     o_controller = None, le_holder = None\<rparr>"

abbreviation sample_gate :: "(lease option, lease) store" where
  "sample_gate \<equiv> Gate_Store mem_get mem_patch mem_create sample_codec
     (Gate_Config 9 sample_codec id sample_lease sample_repository)"

lemma sample_gate_acquire:
  "\<exists>api'. Gate_Acquire (Suc 0) (\<lambda>n a. a) 9 sample_gate (\<lambda>a. Inr sample_repository)
     (\<lambda>a. Inr [\<lparr>pv_phase = PodSucceeded, pv_claims = [''pvc'']\<rparr>]) (\<lambda>a. Inr []) sample_repository
     (sample_writer\<lparr>h_kind := ''RepositorySync''\<rparr>) True None = (api', Admitted, None)"
proof -
  have "\<exists>s. State_Admit 9 (sample_writer\<lparr>h_kind := ''RepositorySync''\<rparr>) repo_Conflicts empty_state =
      (no_result\<lparr>r_admitted := True\<rparr>, s, True)"
    by (simp add: State_Admit_def State_Find_def repo_Conflicts_def empty_state_def Let_def)
  then show ?thesis
    by (auto simp: Gate_Acquire_def Acquire_def acquire_change_def Update_def Gate_Store_def LeaseStore_Load_def
        LeaseStore_Save_def mem_get_def mem_create_def repository_changed_def sameState_def sample_repository_def
        consumersStopped_def pod_uses_def Let_def)
qed


text \<open>When the gate reserved the volume and then finds the Repository changed, it gives the reservation
  back: a NotReserved answer without error means the stored set does not hold the key.\<close>

theorem repository_refusal_releases:
  assumes lock: "optimistic_lock get update" "create_once get create" "time_codec_ok tc"
    and run: "Gate_Acquire (Suc steps) env now
        (Gate_Store get update create tc (Gate_Config now tc sha blank repository))
        getRepo listPods listClaims repository h ready api = (api', NotReserved, None)"
    and acq: "Acquire (Suc steps) env now (Gate_Store get update create tc (Gate_Config now tc sha blank repository))
        h repo_Conflicts api = (api1, Inr r)" "r_admitted r"
  shows "\<exists>obj s. LeaseStore_Load get (Gate_Config now tc sha blank repository) api' = Inr (obj, s) \<and>
     State_Find (Key h) s = None"
proof -
  let ?env = "\<lambda>n. env (n + 2 * Suc steps)"
  have "Release (Suc steps) ?env (Gate_Store get update create tc (Gate_Config now tc sha blank repository)) (Key h) api1
      = (api', None)"
    using run acq by (auto simp: Gate_Acquire_def Gate_Release_def split: prod.splits sum.splits if_splits)
  then show ?thesis
    unfolding Gate_Store_def using hold_store.Release_released [OF Gate_store [OF lock]] by blast
qed

theorem repository_refusal_releases_witness:
  "\<exists>api' obj s. LeaseStore_Load mem_get (Gate_Config 9 sample_codec id sample_lease sample_repository) api'
       = Inr (obj, s) \<and> State_Find (Key (sample_mount ''u1'')) s = None"
proof -
  let ?now = "sample_repository\<lparr>o_generation := 2\<rparr>"
  have ad: "\<exists>s. State_Admit 9 (sample_mount ''u1'') repo_Conflicts empty_state = (no_result\<lparr>r_admitted := True\<rparr>, s, True)"
    by (simp add: State_Admit_def State_Find_def repo_Conflicts_def empty_state_def Let_def)
  then obtain api1 where acq: "Acquire (Suc 0) (\<lambda>n a. a) 9 sample_gate (sample_mount ''u1'') repo_Conflicts None
      = (api1, Inr (no_result\<lparr>r_admitted := True\<rparr>))"
    by (auto simp: Acquire_def acquire_change_def Update_def Gate_Store_def LeaseStore_Load_def
        LeaseStore_Save_def mem_get_def mem_create_def)
  have ch: "repository_changed ?now sample_repository True"
    by (simp add: repository_changed_def sample_repository_def)
  obtain api' e where rel: "Release (Suc 0) (\<lambda>n a. a) sample_gate (Key (sample_mount ''u1'')) api1 = (api', e)"
    by (metis prod.collapse)
  have run: "Gate_Acquire (Suc 0) (\<lambda>n a. a) 9 sample_gate (\<lambda>a. Inr ?now) (\<lambda>a. Inr []) (\<lambda>a. Inr [])
      sample_repository (sample_mount ''u1'') True None = (api', NotReserved, e)"
    using acq ch rel by (simp add: Gate_Acquire_def Gate_Release_def)
  have "e = None"
  proof -
    obtain obj s where "api1 = Some obj"
        "ls_decode (Gate_Config 9 sample_codec id sample_lease sample_repository) obj = Inr s"
      using repository_store.Acquire_admitted [OF acq [unfolded Gate_Store_def]]
      by (auto simp: LeaseStore_Load_def mem_get_def empty_state_def State_Find_def split: option.splits sum.splits)
    then show ?thesis
      using rel by (auto simp: Release_def release_change_def Update_def Gate_Store_def LeaseStore_Save_def
          LeaseStore_Load_def Let_def mem_get_def mem_patch_def split: prod.splits option.splits if_splits)
  qed
  with run repository_refusal_releases [OF optimistic_lock_mem create_once_mem sample_codec_ok _ acq]
  show ?thesis by fastforce
qed

end
