(* ===== verification/WorkspaceAdmission.thy ===== *)
theory WorkspaceAdmission
  imports RC_Types
begin

text \<open>
  Package \<^verbatim>\<open>internal/workspaceadmission\<close>: command admission and automatic deletion are ordered by
  compare-and-swap on the Workspace object. The theory holds the gate's operations and the system
  of executions being admitted next to the retention controller's deletion, as a step relation
  whose steps are the API requests of both. It shows that an admitted execution is never lost to an
  accepted deletion.
\<close>

section \<open>The gate\<close>

definition Check :: "workspace \<Rightarrow> err option" where
  "Check ws = (if o_deleting ws \<noteq> None \<or> ws_admissionClosed ws
               then Some (EWrap (o_namespace ws @ ''/'' @ o_name ws) EClosed) else None)"

text \<open>
  A status write with the resourceVersion of \<open>before\<close>: the stored object, or an error. An installed
  CRD may drop a field it does not know, so a success promises only that the response is what is
  stored, that the object still is the same incarnation and that no fence appears by itself.
\<close>

type_synonym 'api status_write = "workspace \<Rightarrow> workspace \<Rightarrow> 'api \<Rightarrow> 'api \<times> workspace result"

definition status_cas :: "('api, workspace) getter \<Rightarrow> 'api status_write \<Rightarrow> bool" where
  "status_cas get write \<longleftrightarrow>
     (\<forall>before after s s' r. write before after s = (s', Inr r) \<longrightarrow>
        get s = Inr before \<and> get s' = Inr r \<and> o_uid r = o_uid before \<and> o_deleting r = o_deleting before \<and>
        (ws_admissionClosed r \<longrightarrow> ws_admissionClosed after)) \<and>
     (\<forall>before after s s' e. write before after s = (s', Inl e) \<longrightarrow> api_refused e \<longrightarrow> s' = s)"

text \<open>The checks of \<^verbatim>\<open>Admit\<close> between its read and its conditional update.\<close>

definition admit_check :: "workspace \<Rightarrow> workspace_exec \<Rightarrow> workspace \<Rightarrow> err option" where
  "admit_check expected process current =
     (if o_uid current \<noteq> o_uid expected then Some EOwnerChanged
      else if (case o_controller process of
                 None \<Rightarrow> False
               | Some owner \<Rightarrow> or_uid owner \<noteq> o_uid current \<or> or_kind owner \<noteq> ''Workspace'' \<or>
                   or_name owner \<noteq> o_name current \<or> or_apiVersion owner \<noteq> workspacesGroupVersion)
      then Some EOwnerChanged
      else Check current)"

text \<open>\<open>env n\<close> is what other clients do to the API before the \<open>n\<close>-th request of the operation.\<close>

definition Gate_Admit ::
  "(nat \<Rightarrow> 'api \<Rightarrow> 'api) \<Rightarrow> ('api, workspace) getter \<Rightarrow> 'api status_write \<Rightarrow> workspace \<Rightarrow> workspace_exec \<Rightarrow>
   'api \<Rightarrow> 'api \<times> err option" where
  "Gate_Admit env get write expected process api =
     (let api0 = env 0 api
      in case get api0 of
           Inl e \<Rightarrow> (api0, Some e)
         | Inr current \<Rightarrow>
             (case admit_check expected process current of
                Some e \<Rightarrow> (api0, Some e)
              | None \<Rightarrow>
                  (case write current current (env 1 api0) of
                     (api2, Inl e) \<Rightarrow> (api2, Some (EWrap ''admit Workspace execution'' e))
                   | (api2, Inr _) \<Rightarrow> (api2, None))))"

text \<open>
  Decoding a response into the request's object: a field that the response omits (false with
  \<^verbatim>\<open>omitempty\<close>) keeps the value it had in memory.
\<close>

definition decode_into :: "workspace \<Rightarrow> workspace \<Rightarrow> workspace" where
  "decode_into request response =
     response\<lparr>ws_admissionClosed := ws_admissionClosed response \<or> ws_admissionClosed request\<rparr>"

text \<open>\<^verbatim>\<open>Close\<close> also returns the caller's object, which it changes in place.\<close>

definition close_fence ::
  "(nat \<Rightarrow> 'api \<Rightarrow> 'api) \<Rightarrow> 'api status_write \<Rightarrow> workspace \<Rightarrow> 'api \<Rightarrow> 'api \<times> workspace \<times> err option" where
  "close_fence env write ws api =
     (if ws_admissionClosed ws then (api, ws, None)
      else let ws' = ws\<lparr>ws_admissionClosed := True\<rparr>
           in case write ws ws' (env 0 api) of
                (api1, Inl e) \<Rightarrow> (api1, ws', Some (EWrap ''close Workspace execution admission'' e))
              | (api1, Inr r) \<Rightarrow> (api1, decode_into ws' r, None))"

definition Gate_Close ::
  "(nat \<Rightarrow> 'api \<Rightarrow> 'api) \<Rightarrow> ('api, workspace) getter \<Rightarrow> 'api status_write \<Rightarrow> workspace \<Rightarrow> 'api \<Rightarrow>
   'api \<times> workspace \<times> err option" where
  "Gate_Close env get write ws api =
     (case close_fence env write ws api of
        (api1, ws', Some e) \<Rightarrow> (api1, ws', Some e)
      | (api1, ws', None) \<Rightarrow>
          let api2 = env 1 api1
          in case get api2 of
               Inl e \<Rightarrow> (api2, ws', Some e)
             | Inr confirmed \<Rightarrow>
                 (api2, ws',
                  if \<not> ws_admissionClosed confirmed \<or> o_uid confirmed \<noteq> o_uid ws' \<or> o_version confirmed \<noteq> o_version ws'
                  then Some (EMsg ''workspace execution fence was not persisted'') else None))"

definition Gate_Reopen ::
  "(nat \<Rightarrow> 'api \<Rightarrow> 'api) \<Rightarrow> ('api, workspace) getter \<Rightarrow> 'api status_write \<Rightarrow> workspace \<Rightarrow> 'api \<Rightarrow>
   'api \<times> err option" where
  "Gate_Reopen env get write expected api =
     (let api0 = env 0 api
      in case get api0 of
           Inl e \<Rightarrow> (api0, if err_is ENotFound e then None else Some e)
         | Inr current \<Rightarrow>
             if o_uid current \<noteq> o_uid expected \<or> o_deleting current \<noteq> None \<or> \<not> ws_admissionClosed current
             then (api0, None)
             else (case write current (current\<lparr>ws_admissionClosed := False\<rparr>) (env 1 api0) of
                     (api2, Inl e) \<Rightarrow> (api2, Some (EWrap ''reopen Workspace execution admission'' e))
                   | (api2, Inr _) \<Rightarrow> (api2, None)))"

section \<open>Admission next to deletion\<close>

text \<open>
  The requests of the executions' controllers, of the retention controller and of every other
  writer of the Workspace, one at a time. \<open>as_live\<close> are the persisted, nonterminal executions,
  \<open>as_running\<close> those that were admitted and may have a runtime, \<open>as_reads\<close> the object an admission
  read and has not yet written back, \<open>as_del\<close> where the deletion stands. One incarnation of the
  Workspace is followed; the UID checks of the gate keep the others away.
\<close>

datatype del_phase = DIdle | DClosed workspace | DScanned workspace | DDone

record adm_sys =
  as_ws :: "workspace option"
  as_live :: "string set"
  as_running :: "string set"
  as_reads :: "string \<rightharpoonup> workspace"
  as_del :: del_phase

inductive adm_step :: "workspace \<Rightarrow> (string \<Rightarrow> workspace_exec) \<Rightarrow> adm_sys \<Rightarrow> adm_sys \<Rightarrow> bool"
  for expected :: workspace and proc :: "string \<Rightarrow> workspace_exec" where
  persist: "adm_step expected proc s (s\<lparr>as_live := insert x (as_live s)\<rparr>)"
| terminate: "adm_step expected proc s
    (s\<lparr>as_live := as_live s - {x}, as_running := as_running s - {x}, as_reads := (as_reads s)(x := None)\<rparr>)"
| admit_read: "as_ws s = Some w \<Longrightarrow> x \<in> as_live s \<Longrightarrow> admit_check expected (proc x) w = None \<Longrightarrow>
    adm_step expected proc s (s\<lparr>as_reads := (as_reads s)(x \<mapsto> w)\<rparr>)"
| admit_write: "as_reads s x = Some w \<Longrightarrow> as_ws s = Some w' \<Longrightarrow> o_version w' = o_version w \<Longrightarrow> o_version w \<le> v \<Longrightarrow>
    adm_step expected proc s
      (s\<lparr>as_ws := Some (w'\<lparr>o_version := v\<rparr>), as_running := insert x (as_running s), as_reads := (as_reads s)(x := None)\<rparr>)"
| admit_fail: "adm_step expected proc s (s\<lparr>as_reads := (as_reads s)(x := None)\<rparr>)"
| other_write: "as_ws s = Some w \<Longrightarrow> o_version w < o_version w' \<Longrightarrow>
    (o_deleting w \<noteq> None \<longrightarrow> o_deleting w' \<noteq> None) \<Longrightarrow>
    adm_step expected proc s (s\<lparr>as_ws := Some w'\<rparr>)"
| close_confirm: "as_del s = DIdle \<Longrightarrow> as_ws s = Some w \<Longrightarrow> ws_admissionClosed w \<Longrightarrow>
    adm_step expected proc s (s\<lparr>as_del := DClosed w\<rparr>)"
| scan: "as_del s = DClosed w \<Longrightarrow> as_live s = {} \<Longrightarrow>
    adm_step expected proc s (s\<lparr>as_del := DScanned w\<rparr>)"
| delete_mark: "as_del s = DScanned w \<Longrightarrow> as_ws s = Some w' \<Longrightarrow> o_version w' = o_version w \<Longrightarrow> o_version w' < v \<Longrightarrow>
    adm_step expected proc s (s\<lparr>as_ws := Some (w'\<lparr>o_deleting := Some t, o_version := v\<rparr>), as_del := DDone\<rparr>)"
| delete_gone: "as_del s = DScanned w \<Longrightarrow> as_ws s = Some w' \<Longrightarrow> o_version w' = o_version w \<Longrightarrow>
    adm_step expected proc s (s\<lparr>as_ws := None, as_del := DDone\<rparr>)"
| give_up: "as_del s \<noteq> DDone \<Longrightarrow> adm_step expected proc s (s\<lparr>as_del := DIdle\<rparr>)"
| vanish: "as_ws s = Some w \<Longrightarrow> o_deleting w \<noteq> None \<Longrightarrow> adm_step expected proc s (s\<lparr>as_ws := None\<rparr>)"

inductive adm_reachable :: "workspace \<Rightarrow> (string \<Rightarrow> workspace_exec) \<Rightarrow> adm_sys \<Rightarrow> bool"
  for expected :: workspace and proc :: "string \<Rightarrow> workspace_exec" where
  adm_init: "adm_reachable expected proc
     \<lparr>as_ws = Some w, as_live = {}, as_running = {}, as_reads = Map.empty, as_del = DIdle\<rparr>"
| adm_more: "adm_reachable expected proc s \<Longrightarrow> adm_step expected proc s t \<Longrightarrow> adm_reachable expected proc t"

section \<open>Invariant\<close>

text \<open>A snapshot taken earlier: not newer than the stored object, and equal to it at the same version.\<close>

definition snapshot :: "workspace option \<Rightarrow> workspace \<Rightarrow> bool" where
  "snapshot cur r \<longleftrightarrow> (\<forall>w. cur = Some w \<longrightarrow> o_version r \<le> o_version w \<and> (o_version r = o_version w \<longrightarrow> r = w))"

definition reads_ok :: "adm_sys \<Rightarrow> bool" where
  "reads_ok s \<longleftrightarrow> (\<forall>x r. as_reads s x = Some r \<longrightarrow> snapshot (as_ws s) r \<and> Check r = None \<and> x \<in> as_live s)"

definition del_ok :: "adm_sys \<Rightarrow> bool" where
  "del_ok s \<longleftrightarrow> (case as_del s of
      DIdle \<Rightarrow> True
    | DClosed c \<Rightarrow> snapshot (as_ws s) c \<and> ws_admissionClosed c
    | DScanned c \<Rightarrow> snapshot (as_ws s) c \<and> ws_admissionClosed c \<and>
        (\<forall>w. as_ws s = Some w \<longrightarrow> o_version w = o_version c \<longrightarrow> as_running s = {})
    | DDone \<Rightarrow> as_running s = {} \<and> (\<forall>w. as_ws s = Some w \<longrightarrow> o_deleting w \<noteq> None))"

definition adm_inv :: "adm_sys \<Rightarrow> bool" where
  "adm_inv s \<longleftrightarrow> reads_ok s \<and> del_ok s \<and> as_running s \<subseteq> as_live s"

lemma Check_None: "Check w = None \<longleftrightarrow> o_deleting w = None \<and> \<not> ws_admissionClosed w"
  by (auto simp: Check_def)

lemma admit_check_None:
  "admit_check expected process w = None \<Longrightarrow> o_uid w = o_uid expected \<and> Check w = None"
  by (auto simp: admit_check_def split: if_splits option.splits)

lemma snapshot_current [simp]: "snapshot (Some w) w"
  by (simp add: snapshot_def)

lemma snapshot_None [simp]: "snapshot None w"
  by (simp add: snapshot_def)

lemma snapshot_newer: "snapshot (Some w) r \<Longrightarrow> o_version w < o_version w' \<Longrightarrow> snapshot (Some w') r"
  by (auto simp: snapshot_def)

lemma snapshot_same: "snapshot (Some w) r \<Longrightarrow> o_version w = o_version r \<Longrightarrow> w = r"
  by (auto simp: snapshot_def)

lemma snapshot_bump:
  assumes "snapshot (Some w) r" "o_version w \<le> v"
  shows "snapshot (Some (w\<lparr>o_version := v\<rparr>)) r"
proof (cases "v = o_version w")
  case True
  have "w\<lparr>o_version := o_version w\<rparr> = w" by (cases w) simp
  with assms(1) show ?thesis by (simp only: True)
next
  case False
  with assms(2) have "o_version w < o_version (w\<lparr>o_version := v\<rparr>)" by simp
  with assms(1) show ?thesis by (rule snapshot_newer)
qed

lemma admit_write_inv:
  assumes inv: "adm_inv s" and rd: "as_reads s x = Some w" and cur: "as_ws s = Some w'"
    and same: "o_version w' = o_version w" and v: "o_version w \<le> v"
  shows "adm_inv (s\<lparr>as_ws := Some (w'\<lparr>o_version := v\<rparr>), as_running := insert x (as_running s),
           as_reads := (as_reads s)(x := None)\<rparr>)" (is "adm_inv ?t")
proof -
  from inv have r: "reads_ok s" and d: "del_ok s" and run: "as_running s \<subseteq> as_live s"
    by (auto simp: adm_inv_def)
  from r rd cur have "snapshot (Some w') w" and ck: "Check w = None" and live: "x \<in> as_live s"
    unfolding reads_ok_def by auto
  with same have [simp]: "w' = w" using snapshot_same by blast
  have bump: "\<And>c. snapshot (as_ws s) c \<Longrightarrow> snapshot (Some (w\<lparr>o_version := v\<rparr>)) c"
    using cur v by (auto intro: snapshot_bump)
  have "reads_ok ?t"
    using r bump by (auto simp: reads_ok_def)
  moreover have "del_ok ?t"
  proof (cases "as_del s")
    case (DScanned c)
    with d have c: "snapshot (Some w) c" "ws_admissionClosed c"
      using cur by (auto simp: del_ok_def)
    have "o_version c \<noteq> v"
      using c ck v by (auto simp: snapshot_def Check_None)
    with DScanned c bump cur show ?thesis by (auto simp: del_ok_def)
  qed (use d bump cur ck in \<open>auto simp: del_ok_def Check_None\<close>)
  ultimately show ?thesis using run live by (auto simp: adm_inv_def)
qed

lemma adm_step_inv: "adm_step expected proc s t \<Longrightarrow> adm_inv s \<Longrightarrow> adm_inv t"
proof (induction rule: adm_step.induct)
  case (persist s x)
  then show ?case
    by (cases "as_del s") (auto simp: adm_inv_def reads_ok_def del_ok_def)
next
  case (terminate s x)
  then show ?case
    by (cases "as_del s") (auto simp: adm_inv_def reads_ok_def del_ok_def)
next
  case (admit_read s w x)
  then show ?case
    by (cases "as_del s") (auto simp: adm_inv_def reads_ok_def del_ok_def dest: admit_check_None)
next
  case (admit_write s x w w' v)
  then show ?case using admit_write_inv by blast
next
  case (admit_fail s x)
  then show ?case
    by (cases "as_del s") (auto simp: adm_inv_def reads_ok_def del_ok_def)
next
  case (other_write s w w')
  then have keep: "\<And>c. snapshot (as_ws s) c \<Longrightarrow> snapshot (Some w') c \<and> o_version w' \<noteq> o_version c"
    by (auto simp: snapshot_def)
  with other_write show ?case
    by (cases "as_del s") (auto simp: adm_inv_def reads_ok_def del_ok_def)
next
  case (close_confirm s w)
  then show ?case
    by (cases "as_del s") (auto simp: adm_inv_def reads_ok_def del_ok_def)
next
  case (scan s w)
  then show ?case
    by (cases "as_del s") (auto simp: adm_inv_def reads_ok_def del_ok_def)
next
  case (delete_mark s w w' v t)
  then have keep: "\<And>c. snapshot (as_ws s) c \<Longrightarrow> snapshot (Some (w'\<lparr>o_deleting := Some t, o_version := v\<rparr>)) c"
    by (auto simp: snapshot_def)
  with delete_mark show ?case
    by (cases "as_del s") (auto simp: adm_inv_def reads_ok_def del_ok_def)
next
  case (delete_gone s w w')
  then show ?case
    by (cases "as_del s") (auto simp: adm_inv_def reads_ok_def del_ok_def)
next
  case (give_up s)
  then show ?case
    by (cases "as_del s") (auto simp: adm_inv_def reads_ok_def del_ok_def)
next
  case (vanish s w)
  then show ?case
    by (cases "as_del s") (auto simp: adm_inv_def reads_ok_def del_ok_def)
qed

lemma adm_reachable_inv: "adm_reachable expected proc s \<Longrightarrow> adm_inv s"
proof (induction rule: adm_reachable.induct)
  case (adm_init w)
  then show ?case by (simp add: adm_inv_def reads_ok_def del_ok_def)
next
  case (adm_more s t)
  then show ?case by (blast intro: adm_step_inv)
qed

section \<open>Properties\<close>


definition sample_ws :: workspace where
  "sample_ws = \<lparr>o_namespace = ''ns'', o_name = ''ws'', o_uid = ''s1'', o_version = 1, o_generation = 1,
     o_annotations = Map.empty, o_labels = Map.empty, o_created = None, o_deleting = None, o_finalizers = [],
     o_controller = None, ws_mounts = [], ws_desired = ''Running'', ws_idleTimeout = None,
     ws_maxRunDuration = None, ws_deleteAfterSuspended = None, ws_retentionPolicy = [], ws_lifecycle = None,
     ws_lastExecutionCompletedAt = None, ws_admissionClosed = False, ws_lastActivityTime = None,
     ws_runningSince = None, ws_suspendedAt = None, ws_runtimePodName = [], ws_conditions = Map.empty\<rparr>"

lemma sample_deletion:
  "\<exists>s. adm_reachable sample_ws proc s \<and> as_del s = DDone"
proof -
  let ?s0 = "\<lparr>as_ws = Some sample_ws, as_live = {}, as_running = {}, as_reads = Map.empty, as_del = DIdle\<rparr>"
  let ?c = "sample_ws\<lparr>o_version := 2, ws_admissionClosed := True\<rparr>"
  let ?s1 = "?s0\<lparr>as_ws := Some ?c\<rparr>"
  let ?s2 = "?s1\<lparr>as_del := DClosed ?c\<rparr>"
  let ?s3 = "?s2\<lparr>as_del := DScanned ?c\<rparr>"
  let ?s4 = "?s3\<lparr>as_ws := None, as_del := DDone\<rparr>"
  have r0: "adm_reachable sample_ws proc ?s0" by (rule adm_init)
  have r1: "adm_reachable sample_ws proc ?s1"
    by (rule adm_more [OF r0], rule other_write) (auto simp: sample_ws_def)
  have r2: "adm_reachable sample_ws proc ?s2" by (rule adm_more [OF r1], rule close_confirm) auto
  have r3: "adm_reachable sample_ws proc ?s3" by (rule adm_more [OF r2], rule scan) auto
  have r4: "adm_reachable sample_ws proc ?s4" by (rule adm_more [OF r3], rule delete_gone) auto
  show ?thesis by (rule exI, rule conjI, rule r4) simp
qed


text \<open>When \<^verbatim>\<open>Admit\<close> succeeds, the Workspace it wrote was, at the moment of the write and against any
  concurrent writers, the expected incarnation, owner of the execution, open and not being deleted;
  when the write is refused, nothing changed.\<close>

theorem gate_admit_linearized:
  assumes cas: "status_cas get write"
    and run: "Gate_Admit env get write expected process api = (api', e)"
  shows "(e = None \<longrightarrow> (\<exists>current. get (env 1 (env 0 api)) = Inr current \<and> get (env 0 api) = Inr current \<and>
       o_uid current = o_uid expected \<and> o_deleting current = None \<and> \<not> ws_admissionClosed current \<and>
       (\<forall>owner. o_controller process = Some owner \<longrightarrow> or_uid owner = o_uid current \<and> or_name owner = o_name current) \<and>
       (\<exists>stored. get api' = Inr stored \<and> o_uid stored = o_uid expected \<and> \<not> ws_admissionClosed stored))) \<and>
     (\<forall>e'. e = Some (EWrap ''admit Workspace execution'' e') \<longrightarrow> api_refused e' \<longrightarrow>
        api' = env 0 api \<or> api' = env 1 (env 0 api))"
proof (cases "get (env 0 api)")
  case (Inl e0)
  with run show ?thesis by (auto simp: Gate_Admit_def)
next
  case (Inr current)
  show ?thesis
  proof (cases "admit_check expected process current")
    case (Some e0)
    with run Inr show ?thesis by (auto simp: Gate_Admit_def)
  next
    case None
    obtain a r where w: "write current current (env 1 (env 0 api)) = (a, r)" by fastforce
    from None have ok: "o_uid current = o_uid expected" "o_deleting current = None" "\<not> ws_admissionClosed current"
      by (auto dest!: admit_check_None simp: Check_None)
    from None have own: "\<forall>owner. o_controller process = Some owner \<longrightarrow>
        or_uid owner = o_uid current \<and> or_name owner = o_name current"
      by (auto simp: admit_check_def split: if_splits)
    show ?thesis
    proof (cases r)
      case (Inl e0)
      with run w None \<open>get (env 0 api) = Inr current\<close> have "e = Some (EWrap ''admit Workspace execution'' e0)" "api' = a"
        by (auto simp: Gate_Admit_def)
      moreover have "api_refused e0 \<Longrightarrow> a = env 1 (env 0 api)"
        using cas w Inl unfolding status_cas_def by blast
      ultimately show ?thesis by simp
    next
      case (Inr stored)
      with run w None \<open>get (env 0 api) = Inr current\<close> have "e = None" "api' = a"
        by (auto simp: Gate_Admit_def)
      moreover have "get (env 1 (env 0 api)) = Inr current" "get a = Inr stored" "o_uid stored = o_uid current"
          "\<not> ws_admissionClosed stored"
        using cas w Inr ok unfolding status_cas_def by blast+
      ultimately show ?thesis using ok own \<open>get (env 0 api) = Inr current\<close> by auto
    qed
  qed
qed

definition mem_status_write :: "workspace option status_write" where
  "mem_status_write before after s =
     (case s of
        None \<Rightarrow> (s, Inl ENotFound)
      | Some obj \<Rightarrow>
          if obj = before
          then let r = after\<lparr>o_uid := o_uid obj, o_deleting := o_deleting obj, o_version := Suc (o_version obj)\<rparr>
               in (Some r, Inr r)
          else (s, Inl EConflict))"

lemma status_cas_mem: "status_cas mem_get mem_status_write"
  by (auto simp: status_cas_def mem_get_def mem_status_write_def Let_def split: option.splits if_splits)

definition sample_exec :: workspace_exec where
  "sample_exec = \<lparr>o_namespace = ''ns'', o_name = ''run'', o_uid = ''e1'', o_version = 1, o_generation = 1,
     o_annotations = Map.empty, o_labels = Map.empty, o_created = None, o_deleting = None, o_finalizers = [],
     o_controller = Some \<lparr>or_apiVersion = workspacesGroupVersion, or_kind = ''Workspace'', or_name = ''ws'', or_uid = ''s1''\<rparr>,
     we_targetKind = ''Workspace'', we_targetName = ''ws'', we_desired = ''Running'', we_phase = PhasePending,
     we_completedAt = None\<rparr>"

theorem gate_admit_linearized_witness:
  "snd (Gate_Admit (\<lambda>n a. a) mem_get mem_status_write sample_ws sample_exec (Some sample_ws)) = None \<and>
   (\<exists>current. mem_get (Some sample_ws) = Inr current \<and> \<not> ws_admissionClosed current)"
proof -
  obtain a where "Gate_Admit (\<lambda>n a. a) mem_get mem_status_write sample_ws sample_exec (Some sample_ws) = (a, None)"
    by (simp add: Gate_Admit_def mem_get_def mem_status_write_def admit_check_def Check_def sample_ws_def sample_exec_def Let_def)
  with gate_admit_linearized [OF status_cas_mem this] show ?thesis by auto
qed

end
