(* ===== verification/WorkspaceRetention.thy ===== *)
theory WorkspaceRetention
  imports WorkspaceAdmission
begin

text \<open>
  The retention controller of Workspaces (\<^verbatim>\<open>internal/controller/workspaces\<close>: the files
  \<^verbatim>\<open>workspace_lifecycle.go\<close>, \<^verbatim>\<open>workspace_retention_controller.go\<close>, \<^verbatim>\<open>history_retention.go\<close>, and the
  process summary of \<^verbatim>\<open>workspace_controller.go\<close>) with the policy of
  \<^verbatim>\<open>internal/executionretention\<close>. It computes the idle, deletion and maximum-run deadlines, keeps the
  durable clocks, and deletes an expired Workspace through the admission gate.
  The API client, the supervisor's activity query and the platform of a Pod are arguments.
\<close>

section \<open>The executions of a Workspace\<close>

record workspace_processes =
  wp_active :: int
  wp_any :: bool
  wp_last :: "time option"

text \<open>\<^verbatim>\<open>t.After(u)\<close> where \<open>u\<close> may be the zero time.\<close>

fun after :: "time \<Rightarrow> time option \<Rightarrow> bool" where
  "after t None = True"
| "after t (Some u) = (u < t)"

definition later :: "time option \<Rightarrow> time option \<Rightarrow> time option" where
  "later candidate current =
     (case candidate of Some t \<Rightarrow> if after t current then Some t else current | None \<Rightarrow> current)"

definition targets_workspace :: "workspace \<Rightarrow> workspace_exec \<Rightarrow> bool" where
  "targets_workspace ws p = (we_targetKind p = ''Workspace'' \<and> we_targetName p = o_name ws)"

definition count_process :: "workspace \<Rightarrow> workspace_exec \<Rightarrow> workspace_processes \<Rightarrow> workspace_processes" where
  "count_process ws p summary =
     (if \<not> targets_workspace ws p then summary
      else summary\<lparr>wp_any := True,
                   wp_active := wp_active summary + (if Terminal (we_phase p) then 0 else 1),
                   wp_last := later (we_completedAt p) (wp_last summary)\<rparr>)"

definition listWorkspaceProcesses :: "workspace_exec list result \<Rightarrow> workspace \<Rightarrow> workspace_processes result" where
  "listWorkspaceProcesses items ws =
     (case items of
        Inl e \<Rightarrow> Inl (EWrap ''list Workspace processes'' e)
      | Inr ps \<Rightarrow> Inr (fold (count_process ws) ps
          \<lparr>wp_active = 0, wp_any = ws_lastExecutionCompletedAt ws \<noteq> None, wp_last = ws_lastExecutionCompletedAt ws\<rparr>))"

definition workspaceProcessState :: "workspace_exec list result \<Rightarrow> workspace \<Rightarrow> (bool \<times> bool \<times> time option) result" where
  "workspaceProcessState items ws =
     (case listWorkspaceProcesses items ws of
        Inl e \<Rightarrow> Inl e
      | Inr p \<Rightarrow> Inr (wp_active p > 0, wp_any p, wp_last p))"

section \<open>Deadlines\<close>

definition minute :: duration where "minute = 60 * 1000000000"

definition temporaryWorkspaceCleanupDelay :: duration where "temporaryWorkspaceCleanupDelay = 5 * minute"
definition temporaryWorkspaceStartTimeout :: duration where "temporaryWorkspaceStartTimeout = 15 * minute"
definition workspaceStartTimeout :: duration where "workspaceStartTimeout = 15 * minute"

definition Suspended :: string where "Suspended = ''Suspended''"
definition reasonSuspended :: string where "reasonSuspended = ''Suspended''"

record deadlines =
  dl_idleSuspendAt :: "time option"
  dl_deleteAt :: "time option"
  dl_maxRunSuspendAt :: "time option"
  dl_recheck :: duration

definition no_deadlines :: deadlines where
  "no_deadlines = \<lparr>dl_idleSuspendAt = None, dl_deleteAt = None, dl_maxRunSuspendAt = None, dl_recheck = 0\<rparr>"

definition time_add :: "time \<Rightarrow> duration \<Rightarrow> time" where
  "time_add t d = nat (int t + d)"

text \<open>The zero time is \<open>None\<close>; the epoch stands for it in an addition.\<close>

definition stamp :: "time option \<Rightarrow> time" where
  "stamp t = (case t of None \<Rightarrow> 0 | Some x \<Rightarrow> x)"

definition positive :: "duration option \<Rightarrow> bool" where
  "positive d = (case d of None \<Rightarrow> False | Some x \<Rightarrow> x > 0)"

definition maxRunDeadline :: "workspace \<Rightarrow> time option" where
  "maxRunDeadline ws =
     (if ws_desired ws = Suspended \<or> \<not> positive (ws_maxRunDuration ws) then None
      else map_option (\<lambda>t. time_add t (the (ws_maxRunDuration ws))) (ws_runningSince ws))"

definition ready_condition :: "workspace \<Rightarrow> condition option" where
  "ready_condition ws = ws_conditions ws ''Ready''"

definition workspaceStarting :: "workspace \<Rightarrow> bool" where
  "workspaceStarting ws =
     (if ws_desired ws = Suspended then False
      else (case ready_condition ws of None \<Rightarrow> True | Some c \<Rightarrow> c_status c \<noteq> CTrue))"

definition suspendedDeletionEnabled :: "workspace \<Rightarrow> bool" where
  "suspendedDeletionEnabled ws =
     (if \<not> positive (ws_deleteAfterSuspended ws) then False
      else (case ready_condition ws of
              None \<Rightarrow> False
            | Some c \<Rightarrow> c_status c = CFalse \<and> c_reason c = reasonSuspended \<and> c_observed c = o_generation ws))"

definition idleAndDeleteDeadlines :: "workspace \<Rightarrow> workspace_processes \<Rightarrow> deadlines" where
  "idleAndDeleteDeadlines ws p =
     (if wp_active p > 0 then no_deadlines
      else if IsTemporary ws then
        (if wp_any p then
           (case wp_last p of
              None \<Rightarrow> no_deadlines\<lparr>dl_recheck := temporaryWorkspaceCleanupDelay\<rparr>
            | Some t \<Rightarrow> no_deadlines\<lparr>dl_deleteAt := Some (time_add t temporaryWorkspaceCleanupDelay)\<rparr>)
         else no_deadlines\<lparr>dl_deleteAt := Some (time_add (stamp (o_created ws)) temporaryWorkspaceStartTimeout)\<rparr>)
      else if ws_desired ws = Suspended then
        (if \<not> suspendedDeletionEnabled ws then no_deadlines
         else (case ws_suspendedAt ws of
                 None \<Rightarrow> no_deadlines
               | Some t \<Rightarrow> no_deadlines\<lparr>dl_deleteAt := Some (time_add t (the (ws_deleteAfterSuspended ws)))\<rparr>))
      else if \<not> positive (ws_idleTimeout ws) then no_deadlines
      else (case ws_lastActivityTime ws of
              None \<Rightarrow> no_deadlines
            | Some t \<Rightarrow>
                let idle = (if workspaceStarting ws then max (the (ws_idleTimeout ws)) workspaceStartTimeout
                            else the (ws_idleTimeout ws))
                in no_deadlines\<lparr>dl_idleSuspendAt := Some (time_add t idle)\<rparr>))"

definition lifecycleDeadlines :: "workspace \<Rightarrow> workspace_processes \<Rightarrow> deadlines" where
  "lifecycleDeadlines ws p = (idleAndDeleteDeadlines ws p)\<lparr>dl_maxRunSuspendAt := maxRunDeadline ws\<rparr>"

fun earliest_wait :: "time \<Rightarrow> duration \<Rightarrow> time option list \<Rightarrow> duration" where
  "earliest_wait now wait [] = wait"
| "earliest_wait now wait (None # ds) = earliest_wait now wait ds"
| "earliest_wait now wait (Some d # ds) =
     (let remaining = int d - int now
      in earliest_wait now (if remaining > 0 \<and> (wait = 0 \<or> remaining < wait) then remaining else wait) ds)"

definition requeueAfter :: "deadlines \<Rightarrow> time \<Rightarrow> duration" where
  "requeueAfter d now =
     earliest_wait now (dl_recheck d) [dl_idleSuspendAt d, dl_deleteAt d, dl_maxRunSuspendAt d]"

definition ceilSecond :: "time option \<Rightarrow> time option" where
  "ceilSecond t = map_option (\<lambda>x. let rounded = x div 1000000000 * 1000000000
                                  in if rounded < x then rounded + 1000000000 else rounded) t"

definition deadlines_status :: "deadlines \<Rightarrow> int \<Rightarrow> lifecycle_status option \<Rightarrow> lifecycle_status" where
  "deadlines_status d active previous =
     \<lparr>lc_idleSuspendAt = ceilSecond (dl_idleSuspendAt d), lc_deleteAt = ceilSecond (dl_deleteAt d),
      lc_maxRunSuspendAt = ceilSecond (dl_maxRunSuspendAt d),
      lc_lastAutomaticSuspendReason = (case previous of None \<Rightarrow> [] | Some s \<Rightarrow> lc_lastAutomaticSuspendReason s),
      lc_activeExecutions = active\<rparr>"

section \<open>The durable clocks\<close>

definition recordRun :: "condition option \<Rightarrow> workspace \<Rightarrow> workspace" where
  "recordRun ready ws =
     (if ws_desired ws = Suspended
      then (case ready of
              Some c \<Rightarrow> if c_status c = CFalse \<and> c_reason c = reasonSuspended then ws\<lparr>ws_runningSince := None\<rparr> else ws
            | None \<Rightarrow> ws)
      else (case ready of
              Some c \<Rightarrow> if ws_runningSince ws = None \<and> c_status c = CTrue
                        then ws\<lparr>ws_runningSince := c_transition c\<rparr> else ws
            | None \<Rightarrow> ws))"

text \<open>The activity time before the suspension reset: creation, the recorded activity, Ready, completion.\<close>

definition observed_activity :: "workspace_processes \<Rightarrow> workspace \<Rightarrow> time option" where
  "observed_activity p ws =
     (let a1 = later (ws_lastActivityTime ws) (o_created ws);
          a2 = (case ready_condition ws of
                  Some c \<Rightarrow> if c_status c = CTrue then later (c_transition c) a1 else a1
                | None \<Rightarrow> a1)
      in later (wp_last p) a2)"

text \<open>
  What \<^verbatim>\<open>recordActivity\<close> does to the object in memory before it compares and patches: the clocks
  (the confirmed resume or activity clears the suspension, a confirmed suspension starts it), then
  the published deadlines.
\<close>

definition resumed :: "workspace_processes \<Rightarrow> workspace \<Rightarrow> bool" where
  "resumed p ws = (ws_suspendedAt ws \<noteq> None \<and> (ws_desired ws \<noteq> Suspended \<or> wp_active p > 0))"

definition starts_recovery_window :: "workspace_processes \<Rightarrow> workspace \<Rightarrow> bool" where
  "starts_recovery_window p ws =
     (\<not> wp_active p > 0 \<and> \<not> IsTemporary ws \<and> ws_desired ws = Suspended \<and> ws_suspendedAt ws = None \<and>
      suspendedDeletionEnabled ws)"

definition settle_clocks :: "time \<Rightarrow> workspace_processes \<Rightarrow> workspace \<Rightarrow> workspace" where
  "settle_clocks now p ws =
     (let ws1 = recordRun (ready_condition ws) ws;
          ws2 = (if resumed p ws1 then ws1\<lparr>ws_suspendedAt := None\<rparr> else ws1);
          activity = (if resumed p ws1 then Some now else observed_activity p ws);
          ws3 = ws2\<lparr>ws_lastActivityTime := Some (case activity of None \<Rightarrow> now | Some t \<Rightarrow> t)\<rparr>
      in if starts_recovery_window p ws3 then ws3\<lparr>ws_suspendedAt := Some now\<rparr> else ws3)"

definition advance_clocks :: "time \<Rightarrow> workspace_processes \<Rightarrow> workspace \<Rightarrow> workspace" where
  "advance_clocks now p ws =
     (let ws' = settle_clocks now p ws
      in ws'\<lparr>ws_lifecycle := Some (deadlines_status (lifecycleDeadlines ws' p) (wp_active p) (ws_lifecycle ws))\<rparr>)"

definition recordActivity ::
  "'api status_write \<Rightarrow> time \<Rightarrow> workspace_processes \<Rightarrow> workspace \<Rightarrow> 'api \<Rightarrow>
   'api \<times> workspace \<times> deadlines \<times> err option" where
  "recordActivity patch now p ws api =
     (let ws' = advance_clocks now p ws; d = lifecycleDeadlines ws' p
      in if ws' = ws then (api, ws', d, None)
         else (case patch ws ws' api of
                 (api', Inl e) \<Rightarrow> (api', ws', d, Some e)
               | (api', Inr r) \<Rightarrow> (api', decode_into ws' r, d, None)))"

section \<open>History retention\<close>

record execution_retention =
  er_ttlAfterFinished :: "duration option"
  er_maxEntries :: int
  er_transcriptTTL :: "duration option"

record history_policy =
  hp_ttlAfterFinished :: duration
  hp_maxEntries :: int
  hp_transcriptTTL :: duration

definition DefaultTTL :: duration where "DefaultTTL = 90 * 24 * 60 * minute"
definition DefaultMaxEntries :: int where "DefaultMaxEntries = 15000"
definition DefaultTranscriptTTL :: duration where "DefaultTranscriptTTL = 14 * 24 * 60 * minute"

definition Policy :: "execution_retention option \<Rightarrow> history_policy" where
  "Policy policy =
     (let resolved = \<lparr>hp_ttlAfterFinished = DefaultTTL, hp_maxEntries = DefaultMaxEntries,
                      hp_transcriptTTL = DefaultTranscriptTTL\<rparr>
      in case policy of
           None \<Rightarrow> resolved
         | Some p \<Rightarrow>
             let r1 = (if positive (er_ttlAfterFinished p)
                       then resolved\<lparr>hp_ttlAfterFinished := the (er_ttlAfterFinished p)\<rparr> else resolved);
                 r2 = (if er_maxEntries p > 0 then r1\<lparr>hp_maxEntries := er_maxEntries p\<rparr> else r1)
             in if positive (er_transcriptTTL p)
                then r2\<lparr>hp_transcriptTTL := the (er_transcriptTTL p)\<rparr> else r2)"

text \<open>The runtime Pod, as the retention code reads it.\<close>

record runtime_pod =
  pd_uid :: string
  pd_running :: bool
  pd_deleting :: bool

definition historyPruneInterval :: duration where "historyPruneInterval = 60 * minute"

type_synonym prune_times = "string \<rightharpoonup> time"

definition history_pass ::
  "(history_policy \<Rightarrow> 'api \<Rightarrow> 'api \<times> err option) \<Rightarrow> (runtime_pod \<Rightarrow> unit result) \<Rightarrow> time \<Rightarrow> runtime_pod \<Rightarrow>
   execution_retention option \<Rightarrow> prune_times \<Rightarrow> 'api \<Rightarrow> 'api \<times> prune_times \<times> duration" where
  "history_pass prune fromPod now pod policy pruned api =
     (case fromPod pod of
        Inl e \<Rightarrow> (api, pruned, 0)
      | Inr _ \<Rightarrow>
          let api' = fst (prune (Policy policy) api);
              kept = (\<lambda>uid. case pruned uid of
                        Some t \<Rightarrow> if int now - int t > 2 * historyPruneInterval then None else Some t
                      | None \<Rightarrow> None)
          in (api', kept(pd_uid pod \<mapsto> now), historyPruneInterval))"

text \<open>
  \<^verbatim>\<open>historyRetention.reconcile\<close>: \<open>pruned\<close> remembers the last pass of each runtime Pod. A failed pass is
  logged and counts like a successful one.
\<close>

definition historyRetention_reconcile ::
  "(history_policy \<Rightarrow> 'api \<Rightarrow> 'api \<times> err option) option \<Rightarrow> ('api \<Rightarrow> runtime_pod result) \<Rightarrow> (runtime_pod \<Rightarrow> unit result) \<Rightarrow>
   time \<Rightarrow> workspace \<Rightarrow> execution_retention option \<Rightarrow> prune_times \<Rightarrow> 'api \<Rightarrow> 'api \<times> prune_times \<times> duration" where
  "historyRetention_reconcile pruner getPod fromPod now ws policy pruned api =
     (case pruner of
        None \<Rightarrow> (api, pruned, 0)
      | Some prune \<Rightarrow>
          if ws_runtimePodName ws = [] \<or> o_deleting ws \<noteq> None then (api, pruned, 0)
          else (case getPod api of
                  Inl e \<Rightarrow> (api, pruned, 0)
                | Inr pod \<Rightarrow>
                    if \<not> pd_running pod \<or> pd_deleting pod then (api, pruned, 0)
                    else (case pruned (pd_uid pod) of
                            Some t \<Rightarrow> if int now - int t < historyPruneInterval
                                      then (api, pruned, historyPruneInterval - (int now - int t))
                                      else history_pass prune fromPod now pod policy pruned api
                          | None \<Rightarrow> history_pass prune fromPod now pod policy pruned api)))"

section \<open>The reconciler\<close>

text \<open>
  The client of the reconciler: reads, the status patch with a resourceVersion (\<open>c_patch\<close>) and
  without (\<open>c_merge\<close>), the spec update, the lists through the cache and through the API, the patch of
  an execution, DELETE with preconditions, the runtime Pod, its platform, the activity query and
  the history pruner (\<open>None\<close> when they are not configured).
\<close>

record 'api retention_client =
  cl_get :: "('api, workspace) getter"
  cl_patch :: "'api status_write"
  cl_merge :: "'api status_write"
  cl_update :: "workspace \<Rightarrow> 'api \<Rightarrow> 'api \<times> workspace result"
  cl_listCached :: "'api \<Rightarrow> workspace_exec list result"
  cl_listAPI :: "'api \<Rightarrow> workspace_exec list result"
  cl_patchExec :: "workspace_exec \<Rightarrow> workspace_exec \<Rightarrow> 'api \<Rightarrow> 'api \<times> err option"
  cl_delete :: "string \<Rightarrow> nat \<Rightarrow> 'api \<Rightarrow> 'api \<times> err option"
  cl_getPod :: "'api \<Rightarrow> runtime_pod result"
  cl_fromPod :: "runtime_pod \<Rightarrow> unit result"
  cl_lastActivity :: "('api \<Rightarrow> time option result) option"
  cl_prune :: "(history_policy \<Rightarrow> 'api \<Rightarrow> 'api \<times> err option) option"

definition postpone_patch ::
  "'api retention_client \<Rightarrow> time \<Rightarrow> time \<Rightarrow> workspace \<Rightarrow> 'api \<Rightarrow> 'api \<times> workspace \<times> duration result" where
  "postpone_patch c now activity ws api =
     (let deadline = time_add activity (the (ws_idleTimeout ws))
      in if deadline \<le> now then (api, ws, Inr 0)
         else let ws' = ws\<lparr>ws_lastActivityTime := Some activity,
                         ws_lifecycle := map_option (\<lambda>l. l\<lparr>lc_idleSuspendAt := ceilSecond (Some deadline)\<rparr>) (ws_lifecycle ws)\<rparr>
              in (case cl_patch c ws ws' api of
                    (api', Inl e) \<Rightarrow> (api', ws', Inl (EWrap ''record runtime activity'' e))
                  | (api', Inr r) \<Rightarrow> (api', decode_into ws' r, Inr (int deadline - int now))))"

definition postponeForRuntimeActivity ::
  "'api retention_client \<Rightarrow> time \<Rightarrow> workspace \<Rightarrow> 'api \<Rightarrow> 'api \<times> workspace \<times> duration result" where
  "postponeForRuntimeActivity c now ws api =
     (case cl_lastActivity c of
        None \<Rightarrow> (api, ws, Inr 0)
      | Some query \<Rightarrow>
          if ws_runtimePodName ws = [] \<or> ws_idleTimeout ws = None then (api, ws, Inr 0)
          else (case cl_getPod c api of
                  Inl e \<Rightarrow> (api, ws, if err_is ENotFound e then Inr 0 else Inl (EWrap ''get runtime Pod for activity'' e))
                | Inr pod \<Rightarrow>
                    if \<not> pd_running pod \<or> pd_deleting pod then (api, ws, Inr 0)
                    else (case cl_fromPod c pod of
                            Inl e \<Rightarrow> (api, ws, Inl (EWrap ''resolve runtime platform for activity'' e))
                          | Inr _ \<Rightarrow>
                              (case query api of
                                 Inl e \<Rightarrow> (api, ws, if err_is EActivityUnsupported e then Inr 0
                                                     else Inl (EWrap ''read runtime activity'' e))
                               | Inr None \<Rightarrow> (api, ws, Inr 0)
                               | Inr (Some activity) \<Rightarrow>
                                   (case ws_lastActivityTime ws of
                                      None \<Rightarrow> (api, ws, Inr 0)
                                    | Some l \<Rightarrow> if activity \<le> l then (api, ws, Inr 0)
                                                else postpone_patch c now activity ws api)))))"

definition requestSuspension ::
  "'api retention_client \<Rightarrow> string \<Rightarrow> workspace \<Rightarrow> 'api \<Rightarrow> 'api \<times> workspace \<times> err option" where
  "requestSuspension c reason ws api =
     (let ws1 = ws\<lparr>ws_desired := Suspended\<rparr>
      in case cl_update c ws1 api of
           (api1, Inl e) \<Rightarrow> (api1, ws1, Some (EWrap ''suspend Workspace'' e))
         | (api1, Inr r) \<Rightarrow>
             let ws2 = decode_into ws1 r;
                 lc = (case ws_lifecycle ws2 of
                         None \<Rightarrow> \<lparr>lc_idleSuspendAt = None, lc_deleteAt = None, lc_maxRunSuspendAt = None,
                                  lc_lastAutomaticSuspendReason = [], lc_activeExecutions = 0\<rparr>
                       | Some l \<Rightarrow> l);
                 ws3 = ws2\<lparr>ws_lifecycle := Some (lc\<lparr>lc_lastAutomaticSuspendReason := reason\<rparr>)\<rparr>
             in (case cl_merge c ws2 ws3 api1 of
                   (api2, Inl e) \<Rightarrow> (api2, ws3, Some (EWrap ''record automatic suspend reason'' e))
                 | (api2, Inr r2) \<Rightarrow> (api2, decode_into ws3 r2, None)))"

fun stop_each ::
  "(workspace_exec \<Rightarrow> workspace_exec \<Rightarrow> 'api \<Rightarrow> 'api \<times> err option) \<Rightarrow> workspace \<Rightarrow> workspace_exec list \<Rightarrow> 'api \<Rightarrow>
   'api \<times> err option" where
  "stop_each patch ws [] api = (api, None)"
| "stop_each patch ws (p # ps) api =
     (if \<not> targets_workspace ws p \<or> Terminal (we_phase p) \<or> we_desired p = ''Stopped''
      then stop_each patch ws ps api
      else (case patch p (p\<lparr>we_desired := ''Stopped''\<rparr>) api of
              (api', None) \<Rightarrow> stop_each patch ws ps api'
            | (api', Some e) \<Rightarrow>
                if err_is ENotFound e then stop_each patch ws ps api'
                else (api', Some (EWrap (''stop WorkspaceExec '' @ o_name p) e))))"

definition stopExecutions :: "'api retention_client \<Rightarrow> workspace \<Rightarrow> 'api \<Rightarrow> 'api \<times> err option" where
  "stopExecutions c ws api =
     (case cl_listCached c api of
        Inl e \<Rightarrow> (api, Some (EWrap ''list Workspace processes'' e))
      | Inr ps \<Rightarrow> stop_each (cl_patchExec c) ws ps api)"

definition earlierResult :: "duration \<Rightarrow> duration \<Rightarrow> duration" where
  "earlierResult a b = (if a > 0 \<and> (b = 0 \<or> a < b) then a else b)"

text \<open>\<open>env n\<close> is what other clients do before the \<open>n\<close>-th request; \<^verbatim>\<open>Close\<close> makes the requests 0 and 1.\<close>

definition deleteExpired ::
  "(nat \<Rightarrow> 'api \<Rightarrow> 'api) \<Rightarrow> 'api retention_client \<Rightarrow> workspace \<Rightarrow> 'api \<Rightarrow> 'api \<times> workspace \<times> bool result" where
  "deleteExpired env c ws api =
     (case Gate_Close env (cl_get c) (cl_patch c) ws api of
        (api1, ws1, Some e) \<Rightarrow> (api1, ws1, Inl e)
      | (api1, ws1, None) \<Rightarrow>
          let api2 = env 2 api1
          in case workspaceProcessState (cl_listAPI c api2) ws1 of
               Inl e \<Rightarrow> (api2, ws1, Inl e)
             | Inr (active, _, _) \<Rightarrow>
                 if active then (api2, ws1, Inr False)
                 else (case cl_delete c (o_uid ws1) (o_version ws1) (env 3 api2) of
                         (api4, None) \<Rightarrow> (api4, ws1, Inr True)
                       | (api4, Some e) \<Rightarrow>
                           (api4, ws1, if err_is ENotFound e then Inr True
                                       else Inl (EWrap ''delete expired Workspace'' e))))"

definition due :: "time \<Rightarrow> time option \<Rightarrow> bool" where
  "due now t = (case t of None \<Rightarrow> False | Some d \<Rightarrow> d \<le> now)"

text \<open>The body of \<^verbatim>\<open>Reconcile\<close> after the deletion check, and \<^verbatim>\<open>Reconcile\<close> with its deferred reopening.\<close>

definition reconcile_body ::
  "(nat \<Rightarrow> 'api \<Rightarrow> 'api) \<Rightarrow> 'api retention_client \<Rightarrow> time \<Rightarrow> execution_retention option \<Rightarrow> workspace \<Rightarrow>
   prune_times \<Rightarrow> 'api \<Rightarrow> 'api \<times> workspace \<times> prune_times \<times> duration result" where
  "reconcile_body env c now policy ws pruned api =
     (let history = (\<lambda>lifecycle w a.
            case historyRetention_reconcile (cl_prune c) (cl_getPod c) (cl_fromPod c) now w policy pruned a of
              (a', pruned', wait) \<Rightarrow> (a', w, pruned', Inr (earlierResult lifecycle wait)))
      in case listWorkspaceProcesses (cl_listCached c api) ws of
           Inl e \<Rightarrow> (api, ws, pruned, Inl e)
         | Inr p \<Rightarrow>
             (case recordActivity (cl_patch c) now p ws api of
                (api1, ws1, d, Some e) \<Rightarrow> (api1, ws1, pruned, Inl e)
              | (api1, ws1, d, None) \<Rightarrow>
                  if due now (dl_maxRunSuspendAt d) then
                    (case stopExecutions c ws1 api1 of
                       (api2, Some e) \<Rightarrow> (api2, ws1, pruned, Inl e)
                     | (api2, None) \<Rightarrow>
                         (case requestSuspension c ''MaxRunDuration'' ws1 api2 of
                            (api3, ws3, Some e) \<Rightarrow> (api3, ws3, pruned, Inl e)
                          | (api3, ws3, None) \<Rightarrow> (api3, ws3, pruned, Inr 0)))
                  else if due now (dl_idleSuspendAt d) then
                    (case postponeForRuntimeActivity c now ws1 api1 of
                       (api2, ws2, Inl e) \<Rightarrow> (api2, ws2, pruned, Inl e)
                     | (api2, ws2, Inr postponed) \<Rightarrow>
                         if postponed > 0 then (api2, ws2, pruned, Inr postponed)
                         else (case requestSuspension c ''Idle'' ws2 api2 of
                                 (api3, ws3, Some e) \<Rightarrow> (api3, ws3, pruned, Inl e)
                               | (api3, ws3, None) \<Rightarrow> (api3, ws3, pruned, Inr 0)))
                  else if due now (dl_deleteAt d) then
                    (case deleteExpired env c ws1 api1 of
                       (api2, ws2, Inl e) \<Rightarrow> (api2, ws2, pruned, Inl e)
                     | (api2, ws2, Inr deleted) \<Rightarrow>
                         if deleted then (api2, ws2, pruned, Inr 0) else history 0 ws2 api2)
                  else history (requeueAfter d now) ws1 api1))"

definition Reconcile_retention ::
  "(nat \<Rightarrow> 'api \<Rightarrow> 'api) \<Rightarrow> 'api retention_client \<Rightarrow> time \<Rightarrow> execution_retention option \<Rightarrow>
   prune_times \<Rightarrow> 'api \<Rightarrow> 'api \<times> prune_times \<times> duration result" where
  "Reconcile_retention env c now policy pruned api =
     (case cl_get c api of
        Inl e \<Rightarrow> (api, pruned, if err_is ENotFound e then Inr 0 else Inl e)
      | Inr ws \<Rightarrow>
          if o_deleting ws \<noteq> None then (api, pruned, Inr 0)
          else (case reconcile_body env c now policy ws pruned api of
                  (api1, ws1, pruned1, res) \<Rightarrow>
                    if ws_admissionClosed ws1 then
                      (case Gate_Reopen (\<lambda>n. env (n + 4)) (cl_get c) (cl_patch c) ws1 api1 of
                         (api2, None) \<Rightarrow> (api2, pruned1, res)
                       | (api2, Some e) \<Rightarrow> (api2, pruned1, Inl (case res of Inl e0 \<Rightarrow> e0 | Inr _ \<Rightarrow> e)))
                    else (api1, pruned1, res)))"

section \<open>Lemmas\<close>

lemma active_monotone: "wp_active s \<le> wp_active (fold (count_process ws) ps s)"
proof (induction ps arbitrary: s)
  case (Cons p ps)
  have "wp_active s \<le> wp_active (count_process ws p s)" by (simp add: count_process_def)
  also have "\<dots> \<le> wp_active (fold (count_process ws) ps (count_process ws p s))" by (rule Cons.IH)
  finally show ?case by simp
qed simp

lemma inactive_terminal:
  assumes "wp_active (fold (count_process ws) ps s) \<le> wp_active s"
  shows "\<forall>p \<in> set ps. targets_workspace ws p \<longrightarrow> Terminal (we_phase p)"
  using assms
proof (induction ps arbitrary: s)
  case (Cons p ps)
  have up: "wp_active (count_process ws p s) \<le> wp_active (fold (count_process ws) ps (count_process ws p s))"
    by (rule active_monotone)
  with Cons.prems have "wp_active (count_process ws p s) \<le> wp_active s" by simp
  then have "targets_workspace ws p \<longrightarrow> Terminal (we_phase p)"
    by (auto simp: count_process_def split: if_splits)
  moreover have "wp_active s \<le> wp_active (count_process ws p s)" by (simp add: count_process_def)
  then have "\<forall>q \<in> set ps. targets_workspace ws q \<longrightarrow> Terminal (we_phase q)"
    using Cons.prems by (intro Cons.IH [of "count_process ws p s"]) simp
  ultimately show ?case by simp
qed simp

lemma workspaceProcessState_inactive:
  assumes "workspaceProcessState items ws = Inr (False, any, l)"
  shows "\<exists>ps. items = Inr ps \<and> (\<forall>p \<in> set ps. targets_workspace ws p \<longrightarrow> Terminal (we_phase p))"
proof -
  obtain ps where "items = Inr ps"
    using assms by (auto simp: workspaceProcessState_def listWorkspaceProcesses_def split: sum.splits)
  let ?s = "\<lparr>wp_active = 0, wp_any = ws_lastExecutionCompletedAt ws \<noteq> None, wp_last = ws_lastExecutionCompletedAt ws\<rparr>"
  from assms \<open>items = Inr ps\<close> have "wp_active (fold (count_process ws) ps ?s) \<le> wp_active ?s"
    by (simp add: workspaceProcessState_def listWorkspaceProcesses_def)
  from inactive_terminal [OF this] \<open>items = Inr ps\<close> show ?thesis by blast
qed

lemma Gate_Close_confirmed:
  assumes "Gate_Close env get write ws api = (api', ws', None)"
  shows "\<exists>w. get api' = Inr w \<and> ws_admissionClosed w \<and> o_uid w = o_uid ws' \<and> o_version w = o_version ws'"
  using assms by (auto simp: Gate_Close_def Let_def split: prod.splits option.splits sum.splits if_splits)

lemma earliest_wait_bound:
  assumes "0 \<le> wait"
  shows "0 \<le> earliest_wait now wait ds \<and> (0 < wait \<longrightarrow> 0 < earliest_wait now wait ds \<and> earliest_wait now wait ds \<le> wait) \<and>
    (\<forall>d. Some d \<in> set ds \<longrightarrow> now < d \<longrightarrow> 0 < earliest_wait now wait ds \<and> earliest_wait now wait ds \<le> int d - int now)"
  using assms
proof (induction now wait ds rule: earliest_wait.induct)
  case (3 now wait d ds)
  let ?w = "if int d - int now > 0 \<and> (wait = 0 \<or> int d - int now < wait) then int d - int now else wait"
  have "0 \<le> ?w" using 3(2) by simp
  from 3(1) [OF refl this] show ?case using 3(2) by (auto simp: Let_def)
qed auto

text \<open>Recording the clocks is a fixpoint.\<close>

lemma recordRun_keeps [simp]:
  "ws_desired (recordRun r ws) = ws_desired ws" "ws_suspendedAt (recordRun r ws) = ws_suspendedAt ws"
  "ws_conditions (recordRun r ws) = ws_conditions ws" "ws_lastActivityTime (recordRun r ws) = ws_lastActivityTime ws"
  "ws_deleteAfterSuspended (recordRun r ws) = ws_deleteAfterSuspended ws" "o_created (recordRun r ws) = o_created ws"
  "ws_retentionPolicy (recordRun r ws) = ws_retentionPolicy ws" "o_generation (recordRun r ws) = o_generation ws"
  "ws_lifecycle (recordRun r ws) = ws_lifecycle ws" "ws_admissionClosed (recordRun r ws) = ws_admissionClosed ws"
  by (auto simp: recordRun_def split: option.splits)

lemmas clock_defs = resumed_def starts_recovery_window_def suspendedDeletionEnabled_def ready_condition_def
  IsTemporary_def EffectiveRetentionPolicy_def

lemma recordRun_clocks:
  "recordRun r (ws\<lparr>ws_suspendedAt := a\<rparr>) = (recordRun r ws)\<lparr>ws_suspendedAt := a\<rparr>"
  "recordRun r (ws\<lparr>ws_lastActivityTime := a\<rparr>) = (recordRun r ws)\<lparr>ws_lastActivityTime := a\<rparr>"
  "recordRun r (ws\<lparr>ws_lifecycle := l\<rparr>) = (recordRun r ws)\<lparr>ws_lifecycle := l\<rparr>"
  "recordRun r (recordRun r ws) = recordRun r ws"
  by (auto simp: recordRun_def split: option.splits)

lemma settle_clocks_fixpoint:
  assumes "recordRun (ready_condition ws) ws = ws" "\<not> resumed p ws" "\<not> starts_recovery_window p ws"
    and "observed_activity p ws = ws_lastActivityTime ws" "ws_lastActivityTime ws \<noteq> None"
  shows "settle_clocks now p ws = ws"
proof -
  obtain t where t: "ws_lastActivityTime ws = Some t" using assms(5) by blast
  then have "ws\<lparr>ws_lastActivityTime := Some t\<rparr> = ws" by (cases ws) simp
  with t assms(2-4) show ?thesis
    unfolding settle_clocks_def Let_def assms(1) by (simp only: if_False option.case simp_thms)
qed

lemma lifecycle_irrelevant [simp]:
  "ready_condition (ws\<lparr>ws_lifecycle := l\<rparr>) = ready_condition ws"
  "resumed p (ws\<lparr>ws_lifecycle := l\<rparr>) = resumed p ws"
  "IsTemporary (ws\<lparr>ws_lifecycle := l\<rparr>) = IsTemporary ws"
  by (simp_all add: ready_condition_def resumed_def IsTemporary_def EffectiveRetentionPolicy_def)

lemma suspendedDeletion_lifecycle [simp]:
  "suspendedDeletionEnabled (ws\<lparr>ws_lifecycle := l\<rparr>) = suspendedDeletionEnabled ws"
  by (simp add: suspendedDeletionEnabled_def cong: option.case_cong)

lemma window_lifecycle [simp]:
  "starts_recovery_window p (ws\<lparr>ws_lifecycle := l\<rparr>) = starts_recovery_window p ws"
  by (simp add: starts_recovery_window_def)

lemma activity_lifecycle [simp]: "observed_activity p (ws\<lparr>ws_lifecycle := l\<rparr>) = observed_activity p ws"
  by (simp add: observed_activity_def)

lemma window_cong:
  assumes "ws_desired v = ws_desired w" "ws_suspendedAt v = ws_suspendedAt w" "ws_retentionPolicy v = ws_retentionPolicy w"
    "ws_deleteAfterSuspended v = ws_deleteAfterSuspended w" "ws_conditions v = ws_conditions w"
    "o_generation v = o_generation w"
  shows "starts_recovery_window p v = starts_recovery_window p w"
  using assms by (simp add: starts_recovery_window_def suspendedDeletionEnabled_def ready_condition_def
      IsTemporary_def EffectiveRetentionPolicy_def cong: option.case_cong)

lemma window_swap:
  "starts_recovery_window p (ws\<lparr>ws_lifecycle := l, ws_lastActivityTime := a\<rparr>) =
   starts_recovery_window p (ws\<lparr>ws_lastActivityTime := a\<rparr>)"
  "starts_recovery_window p (ws\<lparr>ws_lifecycle := l, ws_suspendedAt := s, ws_lastActivityTime := a\<rparr>) =
   starts_recovery_window p (ws\<lparr>ws_suspendedAt := s, ws_lastActivityTime := a\<rparr>)"
  by (rule window_cong; simp)+

lemma settle_lifecycle:
  "settle_clocks now p (ws\<lparr>ws_lifecycle := l\<rparr>) = (settle_clocks now p ws)\<lparr>ws_lifecycle := l\<rparr>"
  unfolding settle_clocks_def Let_def recordRun_clocks lifecycle_irrelevant activity_lifecycle
  by (cases "resumed p (recordRun (ready_condition ws) ws)") (simp_all add: window_swap)

lemma starting_lifecycle [simp]: "workspaceStarting (ws\<lparr>ws_lifecycle := l\<rparr>) = workspaceStarting ws"
  by (simp add: workspaceStarting_def)

lemma lifecycleDeadlines_lifecycle [simp]: "lifecycleDeadlines (ws\<lparr>ws_lifecycle := l\<rparr>) p = lifecycleDeadlines ws p"
proof -
  have "idleAndDeleteDeadlines (ws\<lparr>ws_lifecycle := l\<rparr>) p = idleAndDeleteDeadlines ws p"
    unfolding idleAndDeleteDeadlines_def by (simp cong: option.case_cong)
  moreover have "maxRunDeadline (ws\<lparr>ws_lifecycle := l\<rparr>) = maxRunDeadline ws"
    unfolding maxRunDeadline_def by simp
  ultimately show ?thesis by (simp only: lifecycleDeadlines_def)
qed

lemma settle_keeps [simp]:
  "ws_conditions (settle_clocks now p ws) = ws_conditions ws" "ws_desired (settle_clocks now p ws) = ws_desired ws"
  "o_created (settle_clocks now p ws) = o_created ws" "ws_lifecycle (settle_clocks now p ws) = ws_lifecycle ws"
  "ws_deleteAfterSuspended (settle_clocks now p ws) = ws_deleteAfterSuspended ws"
  "o_generation (settle_clocks now p ws) = o_generation ws"
  "ws_retentionPolicy (settle_clocks now p ws) = ws_retentionPolicy ws"
  "ws_admissionClosed (settle_clocks now p ws) = ws_admissionClosed ws"
  by (auto simp: settle_clocks_def Let_def)

lemma settle_suspension:
  "\<not> resumed p (settle_clocks now p ws)" "\<not> starts_recovery_window p (settle_clocks now p ws)"
  by (auto simp: settle_clocks_def Let_def clock_defs)

definition settled_activity :: "time \<Rightarrow> workspace_processes \<Rightarrow> workspace \<Rightarrow> time" where
  "settled_activity now p ws =
     (if resumed p ws then now else (case observed_activity p ws of None \<Rightarrow> now | Some t \<Rightarrow> t))"

lemma settle_activity: "ws_lastActivityTime (settle_clocks now p ws) = Some (settled_activity now p ws)"
  by (auto simp: settle_clocks_def settled_activity_def Let_def resumed_def)

lemma later_eq: "(\<forall>t. c = Some t \<longrightarrow> t \<le> a) \<Longrightarrow> later c (Some a) = Some a"
  by (auto simp: later_def split: option.splits)

lemma later_left: "(\<forall>t. c = Some t \<longrightarrow> t \<le> a) \<Longrightarrow> later (Some a) c = Some a"
  by (cases c) (auto simp: later_def)

text \<open>The times the activity clock is made of.\<close>

definition activity_times :: "workspace_processes \<Rightarrow> workspace \<Rightarrow> time set" where
  "activity_times p ws =
     {t. o_created ws = Some t \<or> ws_lastActivityTime ws = Some t \<or> wp_last p = Some t \<or>
         (\<exists>c. ready_condition ws = Some c \<and> c_status c = CTrue \<and> c_transition c = Some t)}"

lemma later_Some: "later c a = Some t \<Longrightarrow> (\<forall>u. c = Some u \<longrightarrow> u \<le> t) \<and> (\<forall>u. a = Some u \<longrightarrow> u \<le> t)"
  by (cases a) (auto simp: later_def split: option.splits if_splits)

lemma later_None: "later c a = None \<longleftrightarrow> c = None \<and> a = None"
  by (cases a) (auto simp: later_def split: option.splits)

lemma observed_activity_upper:
  assumes "observed_activity p ws = Some t" "u \<in> activity_times p ws"
  shows "u \<le> t"
proof -
  let ?a1 = "later (ws_lastActivityTime ws) (o_created ws)"
  let ?a2 = "case ready_condition ws of Some c \<Rightarrow> if c_status c = CTrue then later (c_transition c) ?a1 else ?a1 | None \<Rightarrow> ?a1"
  from assms(1) have l: "later (wp_last p) ?a2 = Some t" by (simp add: observed_activity_def Let_def)
  have "(wp_last p = Some u \<or> ?a2 = Some v \<and> u \<le> v) \<Longrightarrow> u \<le> t" for v
    using later_Some [OF l] by auto
  moreover have "(\<exists>c. ready_condition ws = Some c \<and> c_status c = CTrue \<and> c_transition c = Some u) \<Longrightarrow> \<exists>v. ?a2 = Some v \<and> u \<le> v"
    using later_Some later_None by (auto split: option.splits if_splits) (metis not_Some_eq)
  moreover have "ws_lastActivityTime ws = Some u \<or> o_created ws = Some u \<Longrightarrow> \<exists>v. ?a1 = Some v \<and> u \<le> v"
    using later_Some later_None by (metis not_Some_eq)
  moreover have "?a1 = Some v \<Longrightarrow> \<exists>w. ?a2 = Some w \<and> v \<le> w" for v
    using later_Some later_None by (auto split: option.splits if_splits) (metis not_Some_eq)
  ultimately show ?thesis
    using assms(2) unfolding activity_times_def by (auto intro: order_trans) (meson order_trans)+
qed

text \<open>
  No step of the reconciler forgets a closed fence or the incarnation it works on, given that a
  write answers with the object it was sent for.
\<close>

definition same_object :: "'api retention_client \<Rightarrow> bool" where
  "same_object c \<longleftrightarrow>
     (\<forall>w s s' r. cl_update c w s = (s', Inr r) \<longrightarrow> o_uid r = o_uid w) \<and>
     (\<forall>w w' s s' r. cl_merge c w w' s = (s', Inr r) \<longrightarrow> o_uid r = o_uid w) \<and>
     (\<forall>w w' s s' r. cl_patch c w w' s = (s', Inr r) \<longrightarrow> o_uid r = o_uid w)"

definition keeps_fence :: "workspace \<Rightarrow> workspace \<Rightarrow> bool" where
  "keeps_fence ws ws' \<longleftrightarrow> o_uid ws' = o_uid ws \<and> (ws_admissionClosed ws \<longrightarrow> ws_admissionClosed ws')"

lemma keeps_fence_refl [simp]: "keeps_fence ws ws"
  by (simp add: keeps_fence_def)

lemma keeps_fence_trans: "keeps_fence a b \<Longrightarrow> keeps_fence b c \<Longrightarrow> keeps_fence a c"
  by (simp add: keeps_fence_def)

lemma decode_into_fields [simp]:
  "o_uid (decode_into a r) = o_uid r" "ws_admissionClosed a \<Longrightarrow> ws_admissionClosed (decode_into a r)"
  by (simp_all add: decode_into_def)

lemma advance_clocks_fence [simp]:
  "o_uid (advance_clocks now p ws) = o_uid ws" "ws_admissionClosed (advance_clocks now p ws) = ws_admissionClosed ws"
proof -
  have "o_uid (recordRun r ws) = o_uid ws" for r by (auto simp: recordRun_def split: option.splits)
  then show "o_uid (advance_clocks now p ws) = o_uid ws"
    by (simp add: advance_clocks_def settle_clocks_def Let_def)
  show "ws_admissionClosed (advance_clocks now p ws) = ws_admissionClosed ws"
    by (simp add: advance_clocks_def Let_def)
qed

lemma recordActivity_fence:
  "same_object c \<Longrightarrow> recordActivity (cl_patch c) now p ws api = (api', ws', d, e) \<Longrightarrow> keeps_fence ws ws'"
  by (auto simp: recordActivity_def keeps_fence_def Let_def same_object_def split: if_splits prod.splits sum.splits)

lemma postpone_fence:
  assumes "same_object c" "postponeForRuntimeActivity c now ws api = (api', ws', r)"
  shows "keeps_fence ws ws'"
proof -
  have "postpone_patch c now a ws api = (api', ws', r) \<Longrightarrow> keeps_fence ws ws'" for a
    using assms(1) by (auto simp: postpone_patch_def keeps_fence_def Let_def same_object_def
        split: if_splits prod.splits sum.splits)
  with assms(2) show ?thesis
    by (auto simp: postponeForRuntimeActivity_def split: option.splits sum.splits if_splits)
qed

lemma requestSuspension_fence:
  "same_object c \<Longrightarrow> requestSuspension c reason ws api = (api', ws', e) \<Longrightarrow> keeps_fence ws ws'"
  unfolding requestSuspension_def keeps_fence_def Let_def same_object_def
  by (auto split: prod.splits sum.splits)

lemma deleteExpired_fence:
  assumes "same_object c" "deleteExpired env c ws api = (api', ws', r)"
  shows "keeps_fence ws ws'"
proof -
  obtain a e where "Gate_Close env (cl_get c) (cl_patch c) ws api = (a, ws', e)"
    using assms(2) by (auto simp: deleteExpired_def Let_def split: prod.splits option.splits sum.splits if_splits)
  then obtain a' e' where "close_fence env (cl_patch c) ws api = (a', ws', e')"
    by (auto simp: Gate_Close_def Let_def split: prod.splits option.splits sum.splits)
  with assms(1) show ?thesis
    by (auto simp: close_fence_def keeps_fence_def Let_def same_object_def split: if_splits prod.splits sum.splits)
qed

lemma reconcile_body_fence:
  assumes so: "same_object c" and run: "reconcile_body env c now policy ws pruned api = (api', ws', pruned', r)"
  shows "keeps_fence ws ws'"
proof (cases "listWorkspaceProcesses (cl_listCached c api) ws")
  case (Inl e)
  with run show ?thesis by (simp add: reconcile_body_def)
next
  case (Inr p)
  obtain api1 ws1 d e where ra: "recordActivity (cl_patch c) now p ws api = (api1, ws1, d, e)"
    by (metis prod_cases4)
  have k1: "keeps_fence ws ws1" by (rule recordActivity_fence [OF so ra])
  have "keeps_fence ws1 ws'"
  proof (cases e)
    case (Some x)
    with run Inr ra show ?thesis by (simp add: reconcile_body_def)
  next
    case None
    note body = run [unfolded reconcile_body_def Let_def, simplified Inr ra None sum.case prod.case option.case]
    consider (maxrun) "due now (dl_maxRunSuspendAt d)"
      | (idle) "\<not> due now (dl_maxRunSuspendAt d)" "due now (dl_idleSuspendAt d)"
      | (delete) "\<not> due now (dl_maxRunSuspendAt d)" "\<not> due now (dl_idleSuspendAt d)" "due now (dl_deleteAt d)"
      | (wait) "\<not> due now (dl_maxRunSuspendAt d)" "\<not> due now (dl_idleSuspendAt d)" "\<not> due now (dl_deleteAt d)"
      by blast
    then show ?thesis
    proof cases
      case maxrun
      with body show ?thesis
        by (auto split: prod.splits option.splits dest: requestSuspension_fence [OF so])
    next
      case idle
      obtain api2 ws2 q where po: "postponeForRuntimeActivity c now ws1 api1 = (api2, ws2, q)" by (metis prod_cases3)
      have k2: "keeps_fence ws1 ws2" by (rule postpone_fence [OF so po])
      with body idle po show ?thesis
        by (auto split: prod.splits option.splits sum.splits if_splits dest!: requestSuspension_fence [OF so]
            intro: keeps_fence_trans)
    next
      case delete
      obtain api2 ws2 q where de: "deleteExpired env c ws1 api1 = (api2, ws2, q)" by (metis prod_cases3)
      have "keeps_fence ws1 ws2" by (rule deleteExpired_fence [OF so de])
      with body delete de show ?thesis
        by (auto split: prod.splits sum.splits if_splits)
    next
      case wait
      with body show ?thesis by (auto split: prod.splits)
    qed
  qed
  with k1 show ?thesis by (rule keeps_fence_trans)
qed

lemma Gate_Reopen_open:
  assumes cas: "status_cas get write" and run: "Gate_Reopen env get write expected api = (api', None)"
    and got: "get api' = Inr w" "o_uid w = o_uid expected"
  shows "o_deleting w \<noteq> None \<or> \<not> ws_admissionClosed w"
proof (cases "get (env 0 api)")
  case (Inl e)
  with run got show ?thesis by (auto simp: Gate_Reopen_def Let_def split: if_splits)
next
  case (Inr current)
  show ?thesis
  proof (cases "o_uid current \<noteq> o_uid expected \<or> o_deleting current \<noteq> None \<or> \<not> ws_admissionClosed current")
    case True
    with run got Inr show ?thesis by (auto simp: Gate_Reopen_def Let_def)
  next
    case False
    with run Inr obtain r where "write current (current\<lparr>ws_admissionClosed := False\<rparr>) (env 1 (env 0 api)) = (api', Inr r)"
      by (auto simp: Gate_Reopen_def Let_def split: prod.splits sum.splits)
    then have "get api' = Inr r" "ws_admissionClosed r \<longrightarrow> ws_admissionClosed (current\<lparr>ws_admissionClosed := False\<rparr>)"
      using cas unfolding status_cas_def by blast+
    with got show ?thesis by simp
  qed
qed

section \<open>Properties\<close>

text \<open>C3: When the retention controller's deletion succeeds, it has confirmed the closed fence as stored,
  then found every execution of the Workspace terminal, and then deleted exactly the confirmed
  object, unless the object was already gone; other clients may act between all requests.\<close>

theorem retention_delete_sound:
  assumes versions: "\<forall>s a b. cl_get c s = Inr a \<longrightarrow> cl_get c (env 3 (env 2 s)) = Inr b \<longrightarrow> o_uid a = o_uid b \<longrightarrow>
        o_version a = o_version b \<longrightarrow> a = b"
    and precondition: "\<forall>uid v s s'. cl_delete c uid v s = (s', None) \<longrightarrow>
        (\<exists>w. cl_get c s = Inr w \<and> o_uid w = uid \<and> o_version w = v)"
    and run: "deleteExpired env c ws api = (api', ws', Inr True)"
  shows "\<exists>s w ps. cl_get c s = Inr w \<and> ws_admissionClosed w \<and> o_uid w = o_uid ws' \<and>
     cl_listAPI c (env 2 s) = Inr ps \<and> (\<forall>p \<in> set ps. targets_workspace ws' p \<longrightarrow> Terminal (we_phase p)) \<and>
     (cl_get c (env 3 (env 2 s)) = Inr w \<or>
      (\<exists>e. cl_delete c (o_uid ws') (o_version ws') (env 3 (env 2 s)) = (api', Some e) \<and> err_is ENotFound e))"
proof -
  obtain s any l where close: "Gate_Close env (cl_get c) (cl_patch c) ws api = (s, ws', None)"
    and idle: "workspaceProcessState (cl_listAPI c (env 2 s)) ws' = Inr (False, any, l)"
    and del: "cl_delete c (o_uid ws') (o_version ws') (env 3 (env 2 s)) = (api', None) \<or>
       (\<exists>e. cl_delete c (o_uid ws') (o_version ws') (env 3 (env 2 s)) = (api', Some e) \<and> err_is ENotFound e)"
    using run by (auto simp: deleteExpired_def Let_def split: prod.splits option.splits sum.splits if_splits)
  obtain w where w: "cl_get c s = Inr w" "ws_admissionClosed w" "o_uid w = o_uid ws'" "o_version w = o_version ws'"
    using Gate_Close_confirmed [OF close] by blast
  obtain ps where ps: "cl_listAPI c (env 2 s) = Inr ps" "\<forall>p \<in> set ps. targets_workspace ws' p \<longrightarrow> Terminal (we_phase p)"
    using workspaceProcessState_inactive [OF idle] by blast
  have "cl_get c (env 3 (env 2 s)) = Inr w \<or>
      (\<exists>e. cl_delete c (o_uid ws') (o_version ws') (env 3 (env 2 s)) = (api', Some e) \<and> err_is ENotFound e)"
    using del precondition versions w by metis
  with w ps show ?thesis by blast
qed

definition mem_client :: "workspace_exec list \<Rightarrow> workspace option retention_client" where
  "mem_client execs =
     \<lparr>cl_get = mem_get, cl_patch = mem_status_write, cl_merge = mem_status_write, cl_update = (\<lambda>w s. (s, Inl EConflict)),
      cl_listCached = (\<lambda>s. Inr execs), cl_listAPI = (\<lambda>s. Inr execs), cl_patchExec = (\<lambda>p q s. (s, None)),
      cl_delete = (\<lambda>uid v s. case s of
          None \<Rightarrow> (s, Some ENotFound)
        | Some w \<Rightarrow> if o_uid w = uid \<and> o_version w = v then (None, None) else (s, Some EConflict)),
      cl_getPod = (\<lambda>s. Inl ENotFound), cl_fromPod = (\<lambda>p. Inr ()), cl_lastActivity = None, cl_prune = None\<rparr>"

lemma mem_client_delete:
  "cl_delete (mem_client xs) uid v s = (s', None) \<Longrightarrow> \<exists>w. cl_get (mem_client xs) s = Inr w \<and> o_uid w = uid \<and> o_version w = v"
  by (auto simp: mem_client_def mem_get_def split: option.splits if_splits)

lemma mem_client_same_object: "same_object (mem_client xs)"
  by (auto simp: same_object_def mem_client_def mem_status_write_def Let_def split: option.splits if_splits)

definition sample_done :: workspace_exec where
  "sample_done = sample_exec\<lparr>we_phase := PhaseSucceeded, we_completedAt := Some 5\<rparr>"

lemma sample_delete_run:
  "\<exists>a w. deleteExpired (\<lambda>n a. a) (mem_client [sample_done]) sample_ws (Some sample_ws) = (a, w, Inr True)"
  by (simp add: deleteExpired_def Gate_Close_def close_fence_def mem_client_def mem_get_def mem_status_write_def
      decode_into_def workspaceProcessState_def listWorkspaceProcesses_def count_process_def targets_workspace_def
      sample_done_def sample_exec_def sample_ws_def Let_def)

theorem retention_delete_sound_witness:
  "\<exists>s w ps. cl_get (mem_client [sample_done]) s = Inr w \<and> ws_admissionClosed w \<and>
     cl_listAPI (mem_client [sample_done]) s = Inr ps"
proof -
  obtain a w where run: "deleteExpired (\<lambda>n a. a) (mem_client [sample_done]) sample_ws (Some sample_ws) = (a, w, Inr True)"
    using sample_delete_run by blast
  have v: "\<forall>s a b. cl_get (mem_client [sample_done]) s = Inr a \<longrightarrow> cl_get (mem_client [sample_done]) s = Inr b \<longrightarrow>
      o_uid a = o_uid b \<longrightarrow> o_version a = o_version b \<longrightarrow> a = b" by simp
  have d: "\<forall>uid v s s'. cl_delete (mem_client [sample_done]) uid v s = (s', None) \<longrightarrow>
      (\<exists>w. cl_get (mem_client [sample_done]) s = Inr w \<and> o_uid w = uid \<and> o_version w = v)"
    using mem_client_delete by blast
  from retention_delete_sound [OF v d run] show ?thesis by blast
qed

text \<open>C22: A Workspace gets a deletion deadline only while none of its executions is active, and then it is
  either temporary, with the grace period counted from its last completion (from its creation when it
  never ran anything), or its suspension is confirmed at the current generation and the whole
  recovery window after the recorded suspension has to pass. No idle suspension is due beside it.\<close>

theorem deletion_deadline_justified:
  assumes "dl_deleteAt (lifecycleDeadlines ws p) = Some t"
  shows "wp_active p \<le> 0 \<and> dl_idleSuspendAt (lifecycleDeadlines ws p) = None \<and>
    (if IsTemporary ws
     then (if wp_any p then \<exists>l. wp_last p = Some l \<and> int t = int l + 5 * minute
           else int t = int (stamp (o_created ws)) + 15 * minute)
     else ws_desired ws = Suspended \<and>
       (\<exists>c s d. ws_conditions ws ''Ready'' = Some c \<and> c_status c = CFalse \<and> c_reason c = reasonSuspended \<and>
          c_observed c = o_generation ws \<and> ws_suspendedAt ws = Some s \<and> ws_deleteAfterSuspended ws = Some d \<and>
          0 < d \<and> int t = int s + d))"
proof -
  have idle: "wp_active p \<le> 0"
    using assms by (auto simp: lifecycleDeadlines_def idleAndDeleteDeadlines_def no_deadlines_def split: if_splits)
  show ?thesis
  proof (cases "IsTemporary ws")
    case True
    with assms idle show ?thesis
      by (auto simp: lifecycleDeadlines_def idleAndDeleteDeadlines_def no_deadlines_def time_add_def minute_def
          temporaryWorkspaceCleanupDelay_def temporaryWorkspaceStartTimeout_def split: option.splits if_splits)
  next
    case False
    with assms idle show ?thesis
      by (auto simp: lifecycleDeadlines_def idleAndDeleteDeadlines_def no_deadlines_def time_add_def positive_def
          suspendedDeletionEnabled_def ready_condition_def Let_def split: option.splits if_splits)
  qed
qed

theorem deletion_deadline_justified_witness:
  "dl_deleteAt (lifecycleDeadlines (sample_ws\<lparr>ws_retentionPolicy := ''DeleteAfterProcessesExit''\<rparr>)
      \<lparr>wp_active = 0, wp_any = True, wp_last = Some 7\<rparr>) = Some 300000000007 \<and>
   (\<exists>l. Some (7::time) = Some l \<and> (300000000007::int) = int l + 5 * minute)"
proof -
  let ?ws = "sample_ws\<lparr>ws_retentionPolicy := ''DeleteAfterProcessesExit''\<rparr>"
  let ?p = "\<lparr>wp_active = 0, wp_any = True, wp_last = Some 7\<rparr>"
  have tmp: "IsTemporary ?ws"
    by (simp add: IsTemporary_def EffectiveRetentionPolicy_def WorkspaceRetentionPolicyDeleteAfterProcessesExit_def)
  then have "dl_deleteAt (lifecycleDeadlines ?ws ?p) = Some 300000000007"
    by (simp add: lifecycleDeadlines_def idleAndDeleteDeadlines_def no_deadlines_def time_add_def
        temporaryWorkspaceCleanupDelay_def minute_def)
  with deletion_deadline_justified [OF this] tmp show ?thesis by simp
qed

text \<open>The reconciler never sleeps through a deadline: with a deadline in the future it asks to be called
  again after a positive time that is not longer than the time left.\<close>

theorem requeue_never_oversleeps:
  assumes "Some t \<in> {dl_idleSuspendAt d, dl_deleteAt d, dl_maxRunSuspendAt d}" "now < t" "0 \<le> dl_recheck d"
  shows "0 < requeueAfter d now \<and> requeueAfter d now \<le> int t - int now"
  using earliest_wait_bound [OF assms(3), of now "[dl_idleSuspendAt d, dl_deleteAt d, dl_maxRunSuspendAt d]"] assms(1,2)
  by (auto simp: requeueAfter_def)

theorem requeue_never_oversleeps_witness:
  "requeueAfter \<lparr>dl_idleSuspendAt = Some 20, dl_deleteAt = None, dl_maxRunSuspendAt = Some 15, dl_recheck = 0\<rparr> 10 = 5 \<and>
   0 < requeueAfter \<lparr>dl_idleSuspendAt = Some 20, dl_deleteAt = None, dl_maxRunSuspendAt = Some 15, dl_recheck = 0\<rparr> 10"
  using requeue_never_oversleeps [of 20
      "\<lparr>dl_idleSuspendAt = Some 20, dl_deleteAt = None, dl_maxRunSuspendAt = Some 15, dl_recheck = 0\<rparr>" 10]
  by (simp add: requeueAfter_def Let_def)

text \<open>Recording activity is a fixpoint: as long as no recorded time lies in the future, doing it again
  (at the same or a later time, with the same executions) changes nothing, so the reconciler does not
  patch the status in a loop; and the activity clock never runs backwards.\<close>

theorem record_activity_settles:
  assumes past: "\<forall>t. o_created ws = Some t \<or> ws_lastActivityTime ws = Some t \<or> wp_last p = Some t \<or>
        (\<exists>c. ws_conditions ws ''Ready'' = Some c \<and> c_transition c = Some t) \<longrightarrow> t \<le> now"
    and later: "now \<le> now'"
  shows "advance_clocks now' p (advance_clocks now p ws) = advance_clocks now p ws \<and>
    (\<forall>t. ws_lastActivityTime ws = Some t \<longrightarrow> (\<exists>t'. ws_lastActivityTime (advance_clocks now p ws) = Some t' \<and> t \<le> t'))"
proof -
  let ?w = "settle_clocks now p ws"
  have up: "u \<le> settled_activity now p ws" if u: "u \<in> activity_times p ws" for u
  proof -
    have "u \<le> now" using u past by (auto simp: activity_times_def ready_condition_def)
    then show ?thesis
      using observed_activity_upper [OF _ u] by (auto simp: settled_activity_def split: option.splits)
  qed
  have "observed_activity p ?w = ws_lastActivityTime ?w"
    using up unfolding observed_activity_def Let_def settle_activity
    by (auto simp: ready_condition_def activity_times_def later_eq later_left split: option.splits)
  moreover have "recordRun (ready_condition ?w) ?w = ?w"
    by (auto simp: settle_clocks_def Let_def ready_condition_def recordRun_clocks)
  ultimately have stable: "settle_clocks now' p ?w = ?w"
    by (intro settle_clocks_fixpoint settle_suspension) (simp_all add: settle_activity)
  have "advance_clocks now' p (advance_clocks now p ws) = advance_clocks now p ws"
    by (simp add: advance_clocks_def Let_def settle_lifecycle stable deadlines_status_def split: option.splits)
  moreover have "\<exists>t'. ws_lastActivityTime (advance_clocks now p ws) = Some t' \<and> t \<le> t'"
    if "ws_lastActivityTime ws = Some t" for t
    using up [of t] that by (simp add: advance_clocks_def Let_def settle_activity activity_times_def)
  ultimately show ?thesis by blast
qed

theorem record_activity_settles_witness:
  "advance_clocks 30 \<lparr>wp_active = 0, wp_any = True, wp_last = Some 7\<rparr>
     (advance_clocks 20 \<lparr>wp_active = 0, wp_any = True, wp_last = Some 7\<rparr> (sample_ws\<lparr>ws_suspendedAt := Some 3\<rparr>)) =
   advance_clocks 20 \<lparr>wp_active = 0, wp_any = True, wp_last = Some 7\<rparr> (sample_ws\<lparr>ws_suspendedAt := Some 3\<rparr>)"
  by (rule record_activity_settles [THEN conjunct1]) (simp_all add: sample_ws_def)

text \<open>C31: A controller crash may leave the fence closed. A later reconciliation that reports no error leaves
  the same Workspace either deleting or open again, whatever it decided in between.\<close>

theorem crashed_fence_reopens:
  assumes cas: "status_cas (cl_get c) (cl_patch c)" and so: "same_object c"
    and start: "cl_get c api = Inr w" "o_deleting w = None" "ws_admissionClosed w"
    and run: "Reconcile_retention env c now policy pruned api = (api', pruned', Inr wait)"
    and finish: "cl_get c api' = Inr w'" "o_uid w' = o_uid w"
  shows "o_deleting w' \<noteq> None \<or> \<not> ws_admissionClosed w'"
proof -
  obtain api1 ws1 pruned1 res where body: "reconcile_body env c now policy w pruned api = (api1, ws1, pruned1, res)"
    by (metis prod_cases4)
  have k: "o_uid ws1 = o_uid w" "ws_admissionClosed ws1"
    using reconcile_body_fence [OF so body] start(3) by (auto simp: keeps_fence_def)
  have "Gate_Reopen (\<lambda>n. env (n + 4)) (cl_get c) (cl_patch c) ws1 api1 = (api', None)"
    using run start body k by (auto simp: Reconcile_retention_def split: prod.splits option.splits)
  from Gate_Reopen_open [OF cas this finish(1)] k finish(2) show ?thesis by simp
qed

definition sample_fenced :: workspace where
  "sample_fenced = sample_ws\<lparr>ws_admissionClosed := True\<rparr>"

lemma sample_reconcile:
  "\<exists>w. Reconcile_retention (\<lambda>n a. a) (mem_client []) 50 None Map.empty (Some sample_fenced) =
     (Some w, Map.empty, Inr 0) \<and> o_uid w = o_uid sample_fenced"
  by (simp add: Reconcile_retention_def reconcile_body_def mem_client_def mem_get_def mem_status_write_def Let_def
      listWorkspaceProcesses_def recordActivity_def advance_clocks_def settle_clocks_def recordRun_def ready_condition_def
      resumed_def starts_recovery_window_def observed_activity_def later_def lifecycleDeadlines_def
      idleAndDeleteDeadlines_def no_deadlines_def IsTemporary_def EffectiveRetentionPolicy_def positive_def
      WorkspaceRetentionPolicyRetain_def WorkspaceRetentionPolicyDeleteAfterProcessesExit_def maxRunDeadline_def
      Suspended_def due_def decode_into_def Gate_Reopen_def historyRetention_reconcile_def earlierResult_def
      requeueAfter_def sample_fenced_def sample_ws_def)

theorem crashed_fence_reopens_witness:
  "\<exists>w. Reconcile_retention (\<lambda>n a. a) (mem_client []) 50 None Map.empty (Some sample_fenced) =
     (Some w, Map.empty, Inr 0) \<and> (o_deleting w \<noteq> None \<or> \<not> ws_admissionClosed w)"
proof -
  obtain w where run: "Reconcile_retention (\<lambda>n a. a) (mem_client []) 50 None Map.empty (Some sample_fenced) =
      (Some w, Map.empty, Inr 0)" "o_uid w = o_uid sample_fenced"
    using sample_reconcile by blast
  have cas: "status_cas (cl_get (mem_client [])) (cl_patch (mem_client []))"
    using status_cas_mem by (simp add: mem_client_def)
  have got: "cl_get (mem_client []) (Some sample_fenced) = Inr sample_fenced" "o_deleting sample_fenced = None"
      "ws_admissionClosed sample_fenced" "cl_get (mem_client []) (Some w) = Inr w"
    by (simp_all add: mem_client_def mem_get_def sample_fenced_def sample_ws_def)
  from crashed_fence_reopens [OF cas mem_client_same_object got(1-3) run(1) got(4) run(2)] run(1)
  show ?thesis by blast
qed

end
