(* ===== verification/WorktreeStorage.thy ===== *)
theory WorktreeStorage
  imports RC_Types
begin

text \<open>
  Package \<^verbatim>\<open>internal/worktreestorage\<close>: the plan for a child volume (\<^verbatim>\<open>plan.go\<close>) and the source recorded
  in a committed child (\<^verbatim>\<open>source.go\<close>). A \<^verbatim>\<open>resource.Quantity\<close> is the exact integer it denotes in the
  smallest unit; a missing map entry is the zero quantity. The user-facing messages are left out: a
  plan error is its stable reason.
\<close>

section \<open>Volume claims\<close>

record data_source =
  ds_kind :: string
  ds_name :: string
  ds_apiGroup :: "string option"
  ds_namespace :: "string option"

record pvc = kobj +
  pvc_phase :: string
  pvc_request :: int
  pvc_capacity :: int
  pvc_class :: "string option"
  pvc_volumeMode :: "string option"
  pvc_accessModes :: "string list"
  pvc_dataSource :: "data_source option"
  pvc_dataSourceRef :: "data_source option"

section \<open>Planning a clone\<close>

datatype plan_reason = SourceNotReady | SizeTooSmall | StorageInvalid

definition Retryable :: "plan_reason \<Rightarrow> bool" where
  "Retryable r = (r = SourceNotReady)"

record plan =
  pl_class :: string
  pl_size :: int
  pl_accessModes :: "string list"

definition ReadWriteOnce :: string where "ReadWriteOnce = ''ReadWriteOnce''"
definition ReadWriteMany :: string where "ReadWriteMany = ''ReadWriteMany''"
definition ReadOnlyMany :: string where "ReadOnlyMany = ''ReadOnlyMany''"
definition ReadWriteOncePod :: string where "ReadWriteOncePod = ''ReadWriteOncePod''"

text \<open>The loop of \<^verbatim>\<open>validateAccessModes\<close>: whether a writable mode was seen, or an unknown mode.\<close>

fun scan_modes :: "bool \<Rightarrow> string list \<Rightarrow> plan_reason + bool" where
  "scan_modes writable [] = Inr writable"
| "scan_modes writable (m # ms) =
     (if m = ReadWriteOnce \<or> m = ReadWriteMany \<or> m = ReadWriteOncePod then scan_modes True ms
      else if m = ReadOnlyMany then scan_modes writable ms
      else Inl StorageInvalid)"

definition validateAccessModes :: "string list \<Rightarrow> plan_reason option" where
  "validateAccessModes modes =
     (case scan_modes False modes of
        Inl r \<Rightarrow> Some r
      | Inr writable \<Rightarrow>
          if \<not> writable then Some StorageInvalid
          else if ReadWriteOncePod \<in> set modes \<and> length modes > 1 then Some StorageInvalid
          else None)"

text \<open>The explicit overrides, checked against the source's minimum.\<close>

definition apply_override :: "int \<Rightarrow> plan \<Rightarrow> storage_spec option \<Rightarrow> plan_reason + plan" where
  "apply_override minimum p override =
     (case override of
        None \<Rightarrow> Inr p
      | Some ov \<Rightarrow>
          let p1 = (if sp_class ov \<noteq> [] then p\<lparr>pl_class := sp_class ov\<rparr> else p);
              p3 = (\<lambda>q. if sp_accessModes ov \<noteq> [] then q\<lparr>pl_accessModes := sp_accessModes ov\<rparr> else q)
          in case sp_size ov of
               None \<Rightarrow> Inr (p3 p1)
             | Some n \<Rightarrow> if n < minimum then Inl SizeTooSmall else Inr (p3 (p1\<lparr>pl_size := n\<rparr>)))"

definition source_minimum :: "pvc \<Rightarrow> int" where
  "source_minimum src = (if pvc_capacity src > pvc_request src then pvc_capacity src else pvc_request src)"

definition default_plan :: "pvc \<Rightarrow> int \<Rightarrow> plan" where
  "default_plan src repositorySize =
     \<lparr>pl_class = the (pvc_class src),
      pl_size = (if repositorySize > source_minimum src then repositorySize else source_minimum src),
      pl_accessModes = pvc_accessModes src\<rparr>"

definition PlanClone :: "pvc option \<Rightarrow> int \<Rightarrow> storage_spec option \<Rightarrow> plan_reason + plan" where
  "PlanClone source repositorySize override =
     (case source of
        None \<Rightarrow> Inl SourceNotReady
      | Some src \<Rightarrow>
          if pvc_phase src \<noteq> ''Bound'' \<or> o_deleting src \<noteq> None then Inl SourceNotReady
          else if pvc_request src \<le> 0 \<or> pvc_capacity src \<le> 0 then Inl SourceNotReady
          else if pvc_class src = None \<or> pvc_class src = Some [] then Inl StorageInvalid
          else if pvc_volumeMode src \<noteq> None \<and> pvc_volumeMode src \<noteq> Some ''Filesystem'' then Inl StorageInvalid
          else (case apply_override (source_minimum src) (default_plan src repositorySize) override of
                  Inl r \<Rightarrow> Inl r
                | Inr p \<Rightarrow> (case validateAccessModes (pl_accessModes p) of Some r \<Rightarrow> Inl r | None \<Rightarrow> Inr p)))"

section \<open>The source of a clone\<close>

definition cloneSourceKind :: string where "cloneSourceKind = ''PersistentVolumeClaim''"

definition bad_source :: "data_source \<Rightarrow> bool" where
  "bad_source s = (ds_kind s \<noteq> cloneSourceKind \<or> ds_name s = [] \<or> (ds_apiGroup s \<noteq> None \<and> ds_apiGroup s \<noteq> Some []))"

definition CloneSourceName :: "pvc \<Rightarrow> string result" where
  "CloneSourceName claim =
     (case (case pvc_dataSource claim of
              None \<Rightarrow> Inr []
            | Some s \<Rightarrow> if bad_source s then Inl (EMsg ''child PVC dataSource must reference a core PersistentVolumeClaim'')
                        else Inr (ds_name s)) of
        Inl e \<Rightarrow> Inl e
      | Inr name \<Rightarrow>
          (case (case pvc_dataSourceRef claim of
                   None \<Rightarrow> Inr name
                 | Some s \<Rightarrow>
                     if bad_source s then Inl (EMsg ''child PVC dataSourceRef must reference a core PersistentVolumeClaim'')
                     else if ds_namespace s \<noteq> None \<and> ds_namespace s \<noteq> Some [] \<and> ds_namespace s \<noteq> Some (o_namespace claim)
                     then Inl (EMsg ''child PVC dataSourceRef must reference its own namespace'')
                     else if name \<noteq> [] \<and> name \<noteq> ds_name s
                     then Inl (EMsg ''child PVC dataSource and dataSourceRef reference different source claims'')
                     else Inr (ds_name s)) of
             Inl e \<Rightarrow> Inl e
           | Inr name' \<Rightarrow>
               if name' = [] then Inl (EMsg ''child PVC must record its clone source in dataSource or dataSourceRef'')
               else Inr name'))"

section \<open>Lemmas\<close>

lemma mode_names [simp]:
  "ReadWriteOnce \<noteq> ReadOnlyMany" "ReadWriteMany \<noteq> ReadOnlyMany" "ReadWriteOncePod \<noteq> ReadOnlyMany"
  "ReadWriteOnce \<noteq> ReadWriteOncePod" "ReadWriteOncePod \<noteq> ReadWriteOnce"
  by (simp_all add: ReadWriteOnce_def ReadWriteMany_def ReadOnlyMany_def ReadWriteOncePod_def)

abbreviation writable_mode :: "string \<Rightarrow> bool" where
  "writable_mode m \<equiv> m \<in> {ReadWriteOnce, ReadWriteMany, ReadWriteOncePod}"

lemma scan_modes_iff:
  "scan_modes w ms = Inr w' \<longleftrightarrow>
     (\<forall>m \<in> set ms. writable_mode m \<or> m = ReadOnlyMany) \<and> w' = (w \<or> (\<exists>m \<in> set ms. writable_mode m))"
  by (induction w ms rule: scan_modes.induct) auto

lemma scan_modes_error: "scan_modes w ms = Inl r \<Longrightarrow> r = StorageInvalid"
  by (induction w ms rule: scan_modes.induct) (auto split: if_splits)

text \<open>What Kubernetes and a Git checkout ask of the access modes of a volume.\<close>

definition usable_modes :: "string list \<Rightarrow> bool" where
  "usable_modes ms \<longleftrightarrow> (\<forall>m \<in> set ms. writable_mode m \<or> m = ReadOnlyMany) \<and> (\<exists>m \<in> set ms. writable_mode m) \<and>
     (ReadWriteOncePod \<in> set ms \<longrightarrow> ms = [ReadWriteOncePod])"

lemma single_mode: "m \<in> set ms \<Longrightarrow> length ms \<le> 1 \<longleftrightarrow> ms = [m]"
  by (cases ms) auto

lemma validateAccessModes_iff: "validateAccessModes ms = None \<longleftrightarrow> usable_modes ms"
proof (cases "scan_modes False ms")
  case (Inl r)
  then have "\<not> (\<forall>m \<in> set ms. writable_mode m \<or> m = ReadOnlyMany)"
    using scan_modes_iff [of False ms] by (metis Inl_Inr_False)
  then have "\<not> usable_modes ms" by (simp only: usable_modes_def simp_thms)
  with Inl show ?thesis by (simp add: validateAccessModes_def)
next
  case (Inr w)
  then have "(\<forall>m \<in> set ms. writable_mode m \<or> m = ReadOnlyMany)" "w = (\<exists>m \<in> set ms. writable_mode m)"
    by (simp_all add: scan_modes_iff del: insert_iff)
  with Inr show ?thesis
    using single_mode [of ReadWriteOncePod ms]
    by (auto simp: validateAccessModes_def usable_modes_def not_less simp del: insert_iff)
qed

lemma validateAccessModes_reason: "validateAccessModes ms = Some r \<Longrightarrow> r = StorageInvalid"
  by (auto simp: validateAccessModes_def split: sum.splits if_splits dest: scan_modes_error)

text \<open>The source a plan may be made from, and the floor it sets.\<close>

definition source_ready :: "pvc option \<Rightarrow> bool" where
  "source_ready source = (case source of None \<Rightarrow> False
     | Some s \<Rightarrow> pvc_phase s = ''Bound'' \<and> o_deleting s = None \<and> 0 < pvc_request s \<and> 0 < pvc_capacity s)"

lemma source_minimum_max: "source_minimum s = max (pvc_request s) (pvc_capacity s)"
  by (simp add: source_minimum_def max_def)

lemma default_plan_max: "pl_size (default_plan s n) = max (source_minimum s) n"
  by (simp add: default_plan_def max_def)

definition usable_source :: "pvc \<Rightarrow> bool" where
  "usable_source s \<longleftrightarrow> pvc_class s \<notin> {None, Some []} \<and> pvc_volumeMode s \<in> {None, Some ''Filesystem''}"

lemma PlanClone_cases:
  "PlanClone source n ov =
     (if \<not> source_ready source then Inl SourceNotReady
      else if \<not> usable_source (the source) then Inl StorageInvalid
      else (case apply_override (source_minimum (the source)) (default_plan (the source) n) ov of
              Inl r \<Rightarrow> Inl r
            | Inr p \<Rightarrow> if usable_modes (pl_accessModes p) then Inr p else Inl StorageInvalid))"
proof -
  have v: "(case validateAccessModes ms of Some r \<Rightarrow> Inl r | None \<Rightarrow> Inr p) =
      (if usable_modes ms then Inr p else Inl StorageInvalid)" for ms and p :: plan
    using validateAccessModes_iff [of ms] validateAccessModes_reason [of ms] by (auto split: option.splits)
  show ?thesis
    unfolding PlanClone_def v
    by (cases source) (auto simp: source_ready_def usable_source_def not_le not_less)
qed

lemma apply_override_Inl: "apply_override m p ov = Inl r \<longleftrightarrow>
    r = SizeTooSmall \<and> (\<exists>x n. ov = Some x \<and> sp_size x = Some n \<and> n < m)"
  by (auto simp: apply_override_def Let_def split: option.splits)

lemma apply_override_Inr:
  assumes "apply_override m p ov = Inr q"
  shows "case ov of None \<Rightarrow> q = p
    | Some x \<Rightarrow> pl_class q = (if sp_class x = [] then pl_class p else sp_class x) \<and>
        pl_accessModes q = (if sp_accessModes x = [] then pl_accessModes p else sp_accessModes x) \<and>
        (case sp_size x of None \<Rightarrow> pl_size q = pl_size p | Some n \<Rightarrow> pl_size q = n \<and> m \<le> n)"
  using assms by (auto simp: apply_override_def Let_def split: option.splits if_splits)

section \<open>Properties\<close>

text \<open>C24: An accepted clone plan comes from a bound, live Filesystem source and always holds it: its size is
  at least the source's request and capacity, exactly the explicit size when one is given and
  otherwise the larger of the source and the Repository's desired size; its class and access modes are
  the override's when given and the source's otherwise, and a Git checkout can be written under those
  modes.\<close>

theorem plan_clone_sound:
  assumes "PlanClone source repositorySize override = Inr p"
  shows "\<exists>s. source = Some s \<and> source_ready source \<and> pvc_volumeMode s \<in> {None, Some ''Filesystem''} \<and>
     pvc_request s \<le> pl_size p \<and> pvc_capacity s \<le> pl_size p \<and> pl_class p \<noteq> [] \<and>
     usable_modes (pl_accessModes p) \<and>
     pl_size p = (case Option.bind override sp_size of
        None \<Rightarrow> max (max (pvc_request s) (pvc_capacity s)) repositorySize | Some n \<Rightarrow> n) \<and>
     Some (pl_class p) = (case override of Some x \<Rightarrow> if sp_class x = [] then pvc_class s else Some (sp_class x)
        | None \<Rightarrow> pvc_class s) \<and>
     pl_accessModes p = (case override of Some x \<Rightarrow> if sp_accessModes x = [] then pvc_accessModes s else sp_accessModes x
        | None \<Rightarrow> pvc_accessModes s)"
proof -
  from assms have ready: "source_ready source" and us: "usable_source (the source)" and modes: "usable_modes (pl_accessModes p)"
    and ov: "apply_override (source_minimum (the source)) (default_plan (the source) repositorySize) override = Inr p"
    by (auto simp: PlanClone_cases split: if_splits sum.splits)
  then obtain s where s: "source = Some s" by (auto simp: source_ready_def split: option.splits)
  from us s obtain k where k: "pvc_class s = Some k" "k \<noteq> []" by (auto simp: usable_source_def)
  have d: "pl_class (default_plan s repositorySize) = k" "pl_accessModes (default_plan s repositorySize) = pvc_accessModes s"
    using k by (simp_all add: default_plan_def)
  have "pl_class p \<noteq> [] \<and> pvc_request s \<le> pl_size p \<and> pvc_capacity s \<le> pl_size p \<and>
     pl_size p = (case Option.bind override sp_size of
        None \<Rightarrow> max (max (pvc_request s) (pvc_capacity s)) repositorySize | Some n \<Rightarrow> n) \<and>
     Some (pl_class p) = (case override of Some x \<Rightarrow> if sp_class x = [] then pvc_class s else Some (sp_class x)
        | None \<Rightarrow> pvc_class s) \<and>
     pl_accessModes p = (case override of Some x \<Rightarrow> if sp_accessModes x = [] then pvc_accessModes s else sp_accessModes x
        | None \<Rightarrow> pvc_accessModes s)"
    using apply_override_Inr [OF ov] s k d
    by (cases override) (auto simp: default_plan_max source_minimum_max split: option.splits)
  with s ready us modes show ?thesis by (simp add: usable_source_def)
qed

definition sample_pvc :: pvc where
  "sample_pvc = \<lparr>o_namespace = ''ns'', o_name = ''pvc'', o_uid = ''p1'', o_version = 1, o_generation = 1,
     o_annotations = Map.empty, o_labels = Map.empty, o_created = None, o_deleting = None, o_finalizers = [],
     o_controller = None, pvc_phase = ''Bound'', pvc_request = 10, pvc_capacity = 12, pvc_class = Some ''fast'',
     pvc_volumeMode = None, pvc_accessModes = [ReadWriteOnce], pvc_dataSource = None, pvc_dataSourceRef = None\<rparr>"

theorem plan_clone_sound_witness:
  "PlanClone (Some sample_pvc) 11 None = Inr \<lparr>pl_class = ''fast'', pl_size = 12, pl_accessModes = [ReadWriteOnce]\<rparr> \<and>
   source_ready (Some sample_pvc) \<and> usable_modes [ReadWriteOnce]"
proof -
  have "PlanClone (Some sample_pvc) 11 None = Inr \<lparr>pl_class = ''fast'', pl_size = 12, pl_accessModes = [ReadWriteOnce]\<rparr>"
    by (simp add: PlanClone_def sample_pvc_def apply_override_def default_plan_def source_minimum_def
        validateAccessModes_def ReadWriteOnce_def ReadWriteOncePod_def)
  with plan_clone_sound [OF this] show ?thesis by auto
qed

text \<open>Every refusal of a clone plan has the right reason. It is retryable exactly when the source is
  missing, unbound, deleting or without a positive request and capacity; it is too small exactly when
  the source is otherwise usable and the explicit size is below its request or capacity; and it is invalid
  exactly when the source is ready and its class, its volume mode or the planned access modes are
  unusable.\<close>

theorem plan_clone_refusals:
  "(PlanClone source repositorySize override = Inl SourceNotReady) = (\<not> source_ready source) \<and>
   (PlanClone source repositorySize override = Inl SizeTooSmall) =
     (source_ready source \<and> usable_source (the source) \<and>
      (\<exists>x n. override = Some x \<and> sp_size x = Some n \<and> n < max (pvc_request (the source)) (pvc_capacity (the source)))) \<and>
   (PlanClone source repositorySize override = Inl StorageInvalid) =
     (source_ready source \<and>
      (usable_source (the source) = False \<or>
       (\<exists>p. apply_override (source_minimum (the source)) (default_plan (the source) repositorySize) override = Inr p \<and>
          \<not> usable_modes (pl_accessModes p))))"
proof (cases "source_ready source \<and> usable_source (the source)")
  case False
  then show ?thesis unfolding PlanClone_cases by auto
next
  case True
  then show ?thesis
  proof (cases "apply_override (source_minimum (the source)) (default_plan (the source) repositorySize) override")
    case (Inl r)
    with True show ?thesis
      using apply_override_Inl [THEN iffD1, OF Inl] by (simp add: PlanClone_cases source_minimum_max)
  next
    case (Inr p)
    then have "\<not> (\<exists>x n. override = Some x \<and> sp_size x = Some n \<and> n < source_minimum (the source))"
      by (metis Inl_Inr_False apply_override_Inl)
    with True Inr show ?thesis by (simp add: PlanClone_cases source_minimum_max)
  qed
qed

text \<open>The source recovered from a committed child volume is named by the child's own references: every
  reference present is a core volume claim of that name in the child's namespace, and at least one
  is present. Conversely consistent references always give the name.\<close>

theorem clone_source_consistent:
  "CloneSourceName claim = Inr name \<longleftrightarrow>
     name \<noteq> [] \<and> (pvc_dataSource claim \<noteq> None \<or> pvc_dataSourceRef claim \<noteq> None) \<and>
     (\<forall>s. pvc_dataSource claim = Some s \<longrightarrow> \<not> bad_source s \<and> ds_name s = name) \<and>
     (\<forall>s. pvc_dataSourceRef claim = Some s \<longrightarrow> \<not> bad_source s \<and> ds_name s = name \<and>
        ds_namespace s \<in> {None, Some [], Some (o_namespace claim)})"
  by (cases "pvc_dataSource claim"; cases "pvc_dataSourceRef claim")
     (auto simp: CloneSourceName_def bad_source_def split: if_splits)

theorem clone_source_consistent_witness:
  "CloneSourceName (sample_pvc\<lparr>pvc_dataSource := Some \<lparr>ds_kind = cloneSourceKind, ds_name = ''src'', ds_apiGroup = None,
      ds_namespace = None\<rparr>\<rparr>) = Inr ''src''"
  by (subst clone_source_consistent) (simp add: bad_source_def sample_pvc_def)

end
