(* ===== verification/VolumeClaim.thy ===== *)
theory VolumeClaim
  imports WorktreeStorage
begin

text \<open>
  Package \<^verbatim>\<open>internal/volumeclaim\<close>: the names of the volumes that rc resources allocate and the owner
  check before a volume is used. \<open>sha\<close> is the hexadecimal SHA-256 digest. The theory shows that
  names fit the Kubernetes limit and never mix two roles, resources or revisions, and that a resolved
  volume is never one that belongs to another owner.
\<close>

section \<open>Names\<close>

type_synonym role = string

definition Role_Repository :: role where "Role_Repository = ''repository''"
definition Role_Worktree :: role where "Role_Worktree = ''worktree''"
definition WorkspaceHome :: role where "WorkspaceHome = ''workspace''"
definition EnvironmentCurrent :: role where "EnvironmentCurrent = ''environment-current''"
definition EnvironmentDraft :: role where "EnvironmentDraft = ''environment-draft''"

definition full_name :: "role \<Rightarrow> string \<Rightarrow> int \<Rightarrow> string" where
  "full_name role name revision =
     (if role = EnvironmentCurrent then ''environment-'' @ name @ ''-current-'' @ int_digits revision
      else if role = EnvironmentDraft then ''environment-'' @ name @ ''-draft-'' @ int_digits revision
      else if role = WorkspaceHome then ''workspace-'' @ name @ ''-home''
      else role @ ''-'' @ name)"

definition Name :: "(string \<Rightarrow> string) \<Rightarrow> role \<Rightarrow> string \<Rightarrow> int \<Rightarrow> string" where
  "Name sha role name revision =
     (let full = full_name role name revision
      in if length full \<le> 253 then full
         else let digest = take 16 (sha full)
              in trim_right (\<lambda>c. c = CHR ''-'' \<or> c = CHR ''.'') (take (253 - length digest - 1) full) @ ''-'' @ digest)"

definition legacyName :: "role \<Rightarrow> string \<Rightarrow> int \<Rightarrow> string" where
  "legacyName role name revision =
     (if role = EnvironmentCurrent then name @ ''-current-'' @ int_digits revision
      else if role = EnvironmentDraft then name @ ''-draft-'' @ int_digits revision
      else name)"

section \<open>Ownership\<close>

text \<open>
  \<^verbatim>\<open>CheckOwner\<close>: the owner is given by its name and UID; the conflict carries the description of the
  actual owner.
\<close>

record claim_owner =
  ow_namespace :: string
  ow_name :: string
  ow_uid :: string

definition CheckOwner :: "pvc \<Rightarrow> claim_owner \<Rightarrow> err option" where
  "CheckOwner claim owner =
     (if ow_uid owner \<noteq> [] \<and> is_controlled_by claim (ow_uid owner) \<and> o_deleting claim = None then None
      else let actual = (case o_controller claim of
                           None \<Rightarrow> ''no controller owner''
                         | Some r \<Rightarrow> or_kind r @ '' '' @ or_name r @ '' (UID '' @ or_uid r @ '')'');
               actual' = (if o_deleting claim \<noteq> None then actual @ ''; PVC is terminating'' else actual)
           in Some (EClaimConflict actual'))"

fun IsConflict :: "err \<Rightarrow> bool" where
  "IsConflict (EClaimConflict m) = True"
| "IsConflict (EWrap m e) = IsConflict e"
| "IsConflict e = False"

text \<open>\<open>get name\<close> reads a claim of the owner's namespace. The results carry the claim that was read beside the error.\<close>

definition lookup :: "(string \<Rightarrow> pvc result) \<Rightarrow> claim_owner \<Rightarrow> string \<Rightarrow> pvc option \<times> err option" where
  "lookup get owner name =
     (case get name of
        Inl e \<Rightarrow> (None, if err_is ENotFound e then None else Some e)
      | Inr claim \<Rightarrow> (Some claim, CheckOwner claim owner))"

definition Resolve ::
  "(string \<Rightarrow> string) \<Rightarrow> (string \<Rightarrow> pvc result) \<Rightarrow> claim_owner \<Rightarrow> role \<Rightarrow> int \<Rightarrow> string \<Rightarrow>
   string \<times> pvc option \<times> err option" where
  "Resolve sha get owner role revision recorded =
     (if recorded \<noteq> [] then (recorded, lookup get owner recorded)
      else let typed = (\<lambda>_ :: unit. let name = Name sha role (ow_name owner) revision in (name, lookup get owner name))
           in case get (legacyName role (ow_name owner) revision) of
                Inr legacy \<Rightarrow>
                  if ow_uid owner \<noteq> [] \<and> is_controlled_by legacy (ow_uid owner)
                  then (o_name legacy, Some legacy, CheckOwner legacy owner)
                  else typed ()
              | Inl e \<Rightarrow> if \<not> err_is ENotFound e then ([], None, Some e) else typed ())"

definition Preflight :: "(string \<Rightarrow> string) \<Rightarrow> (string \<Rightarrow> pvc result) \<Rightarrow> claim_owner \<Rightarrow> role \<Rightarrow> int \<Rightarrow> err option" where
  "Preflight sha get owner role revision =
     (case snd (lookup get owner (Name sha role (ow_name owner) revision)) of
        Some e \<Rightarrow> Some (EWrap (''PVC preflight for '' @ ow_namespace owner @ ''/'' @ ow_name owner) e)
      | None \<Rightarrow> None)"

section \<open>Lemmas\<close>

definition roles :: "role set" where
  "roles = {Role_Repository, Role_Worktree, WorkspaceHome, EnvironmentCurrent, EnvironmentDraft}"

lemmas role_defs = Role_Repository_def Role_Worktree_def WorkspaceHome_def EnvironmentCurrent_def EnvironmentDraft_def

lemma int_digits_no_dash: "0 \<le> v \<Longrightarrow> CHR ''-'' \<notin> set (int_digits v)"
  by (simp add: int_digits_def nat_digits_no_dash)

text \<open>The last dash of an Environment volume's name separates the revision.\<close>

lemma split_last_dash:
  assumes "a @ CHR ''-'' # x = b @ CHR ''-'' # y" "CHR ''-'' \<notin> set x" "CHR ''-'' \<notin> set y"
  shows "a = b \<and> x = y"
proof -
  from assms(1) have "rev x @ CHR ''-'' # rev a = rev y @ CHR ''-'' # rev b"
    by (metis append.assoc append_Cons append_Nil rev.simps(2) rev_append)
  moreover have "takeWhile (\<lambda>c. c \<noteq> CHR ''-'') (rev z @ CHR ''-'' # r) = rev z" if "CHR ''-'' \<notin> set z" for z r
    using that by (subst takeWhile_append2) auto
  ultimately have "rev x = rev y" using assms(2,3) by metis
  with assms(1) show ?thesis by simp
qed

lemma environment_name_inj:
  assumes eq: "a @ s @ CHR ''-'' # int_digits v = b @ t @ CHR ''-'' # int_digits w" and "0 \<le> v" "0 \<le> w"
    and s: "s \<in> {''-current'', ''-draft''}" "t \<in> {''-current'', ''-draft''}"
  shows "a = b \<and> s = t \<and> v = w"
proof -
  have "a @ s = b @ t \<and> int_digits v = int_digits w"
    using split_last_dash [of "a @ s" "int_digits v" "b @ t" "int_digits w"] assms int_digits_no_dash by simp
  moreover from this have "last (butlast (a @ s)) = last (butlast (b @ t))" by simp
  then have "s = t" using s by (auto simp: butlast_append)
  ultimately show ?thesis by (auto dest: int_digits_inj)
qed

lemma full_name_inj:
  assumes "r \<in> roles" "r' \<in> roles" "0 \<le> v" "0 \<le> v'" and eq: "full_name r n v = full_name r' n' v'"
  shows "r = r' \<and> n = n' \<and> (r \<in> {EnvironmentCurrent, EnvironmentDraft} \<longrightarrow> v = v')"
proof -
  have env: "\<lbrakk>n @ s @ CHR ''-'' # int_digits v = n' @ t @ CHR ''-'' # int_digits v';
      s \<in> {''-current'', ''-draft''}; t \<in> {''-current'', ''-draft''}\<rbrakk> \<Longrightarrow> n = n' \<and> s = t \<and> v = v'" for s t
    using environment_name_inj assms(3,4) by blast
  note pairs = env [of "''-current''" "''-current''"] env [of "''-draft''" "''-draft''"]
    env [of "''-current''" "''-draft''"] env [of "''-draft''" "''-current''"]
  show ?thesis
  proof (cases "r \<in> {EnvironmentCurrent, EnvironmentDraft} \<and> r' \<in> {EnvironmentCurrent, EnvironmentDraft}")
    case True
    with eq pairs show ?thesis
      by (elim conjE insertE emptyE) (simp_all add: full_name_def role_defs)
  next
    case False
    with assms(1,2) eq show ?thesis
      unfolding roles_def by (elim insertE emptyE) (simp_all add: full_name_def role_defs)
  qed
qed

lemma Name_long:
  assumes "253 < length (full_name r n v)" "length (sha (full_name r n v)) \<ge> 16"
  shows "drop (length (Name sha r n v) - 16) (Name sha r n v) = take 16 (sha (full_name r n v))"
  using assms by (simp add: Name_def Let_def)

section \<open>Properties\<close>

text \<open>A volume name is never longer than the 253 bytes Kubernetes allows, whatever the resource name.\<close>

theorem volume_name_fits: "length (Name sha role name revision) \<le> 253"
proof (cases "length (full_name role name revision) \<le> 253")
  case True
  then show ?thesis by (simp add: Name_def Let_def)
next
  case False
  let ?d = "take 16 (sha (full_name role name revision))"
  have "length (trim_right (\<lambda>c. c = CHR ''-'' \<or> c = CHR ''.'') (take (253 - length ?d - 1) (full_name role name revision)))
      \<le> 253 - length ?d - 1"
    by (rule order_trans [OF length_trim_right]) simp
  with False show ?thesis by (simp add: Name_def Let_def)
qed

text \<open>Two volumes share a name only when they are the same volume: the same role, the same resource name
  and, for Environments, the same revision. Shortened names keep this as long as the digests of the
  two full names differ.\<close>

theorem volume_name_separates:
  assumes roles: "r \<in> roles" "r' \<in> roles" "0 \<le> v" "0 \<le> v'"
    and sha: "length (sha (full_name r n v)) \<ge> 16" "length (sha (full_name r' n' v')) \<ge> 16"
      "take 16 (sha (full_name r n v)) = take 16 (sha (full_name r' n' v')) \<longrightarrow> full_name r n v = full_name r' n' v'"
    and same: "length (full_name r n v) \<le> 253 \<longleftrightarrow> length (full_name r' n' v') \<le> 253"
    and eq: "Name sha r n v = Name sha r' n' v'"
  shows "r = r' \<and> n = n' \<and> (r \<in> {EnvironmentCurrent, EnvironmentDraft} \<longrightarrow> v = v')"
proof -
  have "full_name r n v = full_name r' n' v'"
  proof (cases "length (full_name r n v) \<le> 253")
    case True
    with same eq show ?thesis by (simp add: Name_def Let_def)
  next
    case False
    with same have long: "253 < length (full_name r n v)" "253 < length (full_name r' n' v')" by auto
    have "take 16 (sha (full_name r n v)) = take 16 (sha (full_name r' n' v'))"
      using Name_long [of r n v sha, OF long(1) sha(1)] Name_long [of r' n' v' sha, OF long(2) sha(2)] eq by simp
    with sha(3) show ?thesis by blast
  qed
  with full_name_inj [OF roles] show ?thesis by blast
qed

theorem volume_name_separates_witness:
  "Name (\<lambda>s. s @ s) Role_Worktree ''demo'' 0 \<noteq> Name (\<lambda>s. s @ s) WorkspaceHome ''demo'' 0"
proof
  assume eq: "Name (\<lambda>s. s @ s) Role_Worktree ''demo'' 0 = Name (\<lambda>s. s @ s) WorkspaceHome ''demo'' 0"
  have "Role_Worktree = WorkspaceHome"
    by (rule volume_name_separates [where sha = "\<lambda>s. s @ s", OF _ _ _ _ _ _ _ _ eq, THEN conjunct1])
      (simp_all add: roles_def full_name_def role_defs)
  then show False by (simp add: role_defs)
qed

text \<open>C34: Resolving a resource's volume never adopts another's: a claim that is returned without an error is
  the one stored under the returned name, is controlled by the owner's own UID and is not being
  deleted; a recorded name is never replaced; no claim without an error means that none exists
  under the returned name.\<close>

theorem resolve_never_adopts:
  assumes names: "\<forall>n c. get n = Inr c \<longrightarrow> o_name c = n"
    and run: "Resolve sha get owner role revision recorded = (name, claim, None)"
  shows "(case claim of
       Some c \<Rightarrow> get name = Inr c \<and> ow_uid owner \<noteq> [] \<and> is_controlled_by c (ow_uid owner) \<and> o_deleting c = None
     | None \<Rightarrow> \<exists>e. get name = Inl e \<and> err_is ENotFound e) \<and>
     (recorded \<noteq> [] \<longrightarrow> name = recorded) \<and>
     (recorded = [] \<longrightarrow> name \<in> {legacyName role (ow_name owner) revision, Name sha role (ow_name owner) revision})"
proof -
  have lk: "case c of
       Some c' \<Rightarrow> get n = Inr c' \<and> ow_uid owner \<noteq> [] \<and> is_controlled_by c' (ow_uid owner) \<and> o_deleting c' = None
     | None \<Rightarrow> \<exists>e. get n = Inl e \<and> err_is ENotFound e" if "lookup get owner n = (c, None)" for n c
    using that by (auto simp: lookup_def CheckOwner_def Let_def split: sum.splits if_splits option.splits)
  show ?thesis
  proof (cases "recorded = []")
    case False
    with run lk show ?thesis by (auto simp: Resolve_def)
  next
    case True
    show ?thesis
    proof (cases "get (legacyName role (ow_name owner) revision)")
      case (Inl e)
      with run lk True show ?thesis by (auto simp: Resolve_def Let_def split: if_splits)
    next
      case (Inr legacy)
      with names have "o_name legacy = legacyName role (ow_name owner) revision" by blast
      show ?thesis
      proof (cases "ow_uid owner \<noteq> [] \<and> is_controlled_by legacy (ow_uid owner)")
        case True
        with run Inr \<open>recorded = []\<close> \<open>o_name legacy = _\<close> show ?thesis
          by (auto simp: Resolve_def Let_def CheckOwner_def split: if_splits)
      next
        case False
        with run Inr \<open>recorded = []\<close> have "name = Name sha role (ow_name owner) revision" "lookup get owner name = (claim, None)"
          by (auto simp: Resolve_def Let_def)
        with lk \<open>recorded = []\<close> show ?thesis by blast
      qed
    qed
  qed
qed

definition sample_claim_owner :: claim_owner where
  "sample_claim_owner = \<lparr>ow_namespace = ''ns'', ow_name = ''pvc'', ow_uid = ''u1''\<rparr>"

definition sample_claim :: pvc where
  "sample_claim = sample_pvc\<lparr>o_controller := Some \<lparr>or_apiVersion = ''v1'', or_kind = ''Worktree'', or_name = ''pvc'', or_uid = ''u1''\<rparr>\<rparr>"

definition sample_claims :: "string \<Rightarrow> pvc result" where
  "sample_claims n = (if n = ''pvc'' then Inr sample_claim else Inl ENotFound)"

theorem resolve_never_adopts_witness:
  "Resolve id sample_claims sample_claim_owner Role_Worktree 0 [] = (''pvc'', Some sample_claim, None) \<and>
   is_controlled_by sample_claim ''u1''"
proof -
  have run: "Resolve id sample_claims sample_claim_owner Role_Worktree 0 [] = (''pvc'', Some sample_claim, None)"
    by (simp add: Resolve_def Let_def legacyName_def role_defs sample_claims_def sample_claim_owner_def sample_claim_def
        sample_pvc_def is_controlled_by_def CheckOwner_def)
  have "\<forall>n c. sample_claims n = Inr c \<longrightarrow> o_name c = n"
    by (simp add: sample_claims_def sample_claim_def sample_pvc_def)
  from resolve_never_adopts [OF this run] run show ?thesis by (simp add: sample_claim_owner_def)
qed

end
