(* ===== verification/RepositoryNames.thy ===== *)
theory RepositoryNames
  imports Kube
begin

text \<open>
  \<^verbatim>\<open>internal/repositories/naming.go\<close> and \<^verbatim>\<open>selector.go\<close>: Kubernetes names derived from Git remotes and
  branches, and the resolution of what a user types to a Repository. Inputs are ASCII (other bytes
  are kept by \<^verbatim>\<open>ToLower\<close> and count as separators). Arguments stand for SHA-256 in hexadecimal (\<open>sha\<close>),
  for the random suffixes of \<^verbatim>\<open>utilrand\<close> (\<open>rnd\<close>, by call), for \<^verbatim>\<open>validation.IsDNS1123Subdomain\<close>
  (\<open>valid\<close>) and for host and path of \<^verbatim>\<open>url.Parse\<close> (\<open>urlParse\<close>, None on an error).
\<close>

section \<open>Names\<close>

definition alnum :: "char \<Rightarrow> bool" where
  "alnum c = ((CHR ''a'' \<le> c \<and> c \<le> CHR ''z'') \<or> (CHR ''0'' \<le> c \<and> c \<le> CHR ''9''))"

text \<open>The loop of both normalizers; the flag is \<^verbatim>\<open>previousDash\<close>.\<close>

fun slug :: "bool \<Rightarrow> string \<Rightarrow> string" where
  "slug dash [] = []"
| "slug dash (c # cs) =
     (if alnum c then c # slug False cs
      else if \<not> dash then CHR ''-'' # slug True cs
      else slug dash cs)"

abbreviation is_dash :: "char \<Rightarrow> bool" where
  "is_dash c \<equiv> c = CHR ''-''"

definition shorten :: "(string \<Rightarrow> string) \<Rightarrow> string \<Rightarrow> string \<Rightarrow> string" where
  "shorten sha value name =
     (if length name > 253
      then let digest = take 12 (sha value)
           in trim is_dash (take (253 - length digest - 1) name) @ ''-'' @ digest
      else name)"

definition normalizeRepositoryName :: "(string \<Rightarrow> bool) \<Rightarrow> (string \<Rightarrow> string) \<Rightarrow> string \<Rightarrow> string" where
  "normalizeRepositoryName valid sha value =
     (let name = shorten sha value (trim is_dash (slug False (to_lower value)))
      in if valid name then name else ''repository-'' @ take 12 (sha value))"

definition normalizeWorktreeName ::
  "(string \<Rightarrow> bool) \<Rightarrow> (string \<Rightarrow> string) \<Rightarrow> (nat \<Rightarrow> string) \<Rightarrow> string \<Rightarrow> string" where
  "normalizeWorktreeName valid sha rnd value =
     (let name0 = trim is_dash (slug False (to_lower value));
          name1 = (if name0 = [] then ''worktree-'' @ rnd 1 else name0);
          name = shorten sha value name1
      in if valid name then name else ''worktree-'' @ rnd 2)"

definition WorktreeName ::
  "(string \<Rightarrow> bool) \<Rightarrow> (string \<Rightarrow> string) \<Rightarrow> (nat \<Rightarrow> string) \<Rightarrow> string \<Rightarrow> string \<Rightarrow> string \<Rightarrow> bool \<Rightarrow> bool \<Rightarrow> string" where
  "WorktreeName valid sha rnd repositoryName branch ref detach orphan =
     normalizeWorktreeName valid sha rnd
       (if branch \<noteq> [] then repositoryName @ ''--'' @ branch
        else if ref \<noteq> [] then repositoryName @ ''--'' @ ref
        else if detach then repositoryName @ ''--detached-'' @ rnd 0
        else if orphan then repositoryName @ ''--orphan-'' @ rnd 0
        else repositoryName @ ''--worktree-'' @ rnd 0)"

section \<open>Selectors\<close>

record repository_selector =
  rs_host :: string
  rs_path :: string
  rs_hasHost :: bool

definition is_space :: "char \<Rightarrow> bool" where
  "is_space c = (c = CHR '' '' \<or> (9 \<le> (of_char c :: nat) \<and> (of_char c :: nat) \<le> 13))"

definition normalizeRepositoryPath :: "string \<Rightarrow> string" where
  "normalizeRepositoryPath path =
     trim_suffix ''.git'' (trim_suffix ''/'' (trim (\<lambda>c. c = CHR ''/'') path))"

definition parseRepositorySelector :: "(string \<Rightarrow> (string \<times> string) option) \<Rightarrow> string \<Rightarrow> repository_selector result" where
  "parseRepositorySelector urlParse input0 =
     (let input = trim is_space input0
      in if has_prefix ''git@'' input then
           (let (host, path) = cut (CHR '':'') (drop 4 input)
            in if host = [] \<or> path = [] then Inl (EMsg (''invalid Git SSH selector '' @ input))
               else Inr \<lparr>rs_host = to_lower host, rs_path = normalizeRepositoryPath path, rs_hasHost = True\<rparr>)
         else if contains ''://'' input then
           (case urlParse input of
              None \<Rightarrow> Inl (EMsg (''invalid Git URL selector '' @ input))
            | Some (host, path) \<Rightarrow>
                if host = [] \<or> path = [] then Inl (EMsg (''invalid Git URL selector '' @ input))
                else Inr \<lparr>rs_host = to_lower host, rs_path = normalizeRepositoryPath path, rs_hasHost = True\<rparr>)
         else
           (let parts = split_on (CHR ''/'') (trim (\<lambda>c. c = CHR ''/'') input)
            in if length parts \<ge> 2 \<and> (CHR ''.'' \<in> set (hd parts) \<or> CHR '':'' \<in> set (hd parts) \<or> hd parts = ''localhost'')
               then Inr \<lparr>rs_host = to_lower (hd parts), rs_path = normalizeRepositoryPath (join ''/'' (tl parts)), rs_hasHost = True\<rparr>
               else Inr \<lparr>rs_host = [], rs_path = normalizeRepositoryPath input, rs_hasHost = False\<rparr>))"

definition RepositoryName ::
  "(string \<Rightarrow> bool) \<Rightarrow> (string \<Rightarrow> string) \<Rightarrow> (string \<Rightarrow> (string \<times> string) option) \<Rightarrow> string \<Rightarrow> string result" where
  "RepositoryName valid sha urlParse remoteURL =
     (case parseRepositorySelector urlParse remoteURL of
        Inl e \<Rightarrow> Inl (EWrap (''invalid Git URL '' @ remoteURL) e)
      | Inr s \<Rightarrow>
          if \<not> rs_hasHost s \<or> rs_host s = [] \<or> rs_path s = []
          then Inl (EMsg ''repository URL must include a host and path'')
          else Inr (normalizeRepositoryName valid sha (rs_host s @ ''/'' @ rs_path s)))"

record repository_view =
  rv_name :: string
  rv_url :: string

definition selector_matches ::
  "(string \<Rightarrow> (string \<times> string) option) \<Rightarrow> repository_selector \<Rightarrow> repository_view \<Rightarrow> bool" where
  "selector_matches urlParse selector candidate =
     (case parseRepositorySelector urlParse (rv_url candidate) of
        Inl e \<Rightarrow> False
      | Inr c \<Rightarrow> if rs_host selector \<noteq> [] then rs_host c = rs_host selector \<and> rs_path c = rs_path selector
                 else rs_path c = rs_path selector)"

definition ResolveRepository ::
  "(string \<Rightarrow> bool) \<Rightarrow> (string \<Rightarrow> (string \<times> string) option) \<Rightarrow> (string \<Rightarrow> repository_view result) \<Rightarrow>
   repository_view list result \<Rightarrow> string \<Rightarrow> repository_view result" where
  "ResolveRepository valid urlParse get listed input0 =
     (let input = trim is_space input0;
          byName = (if valid input then get input else Inl ENotFound)
      in if input = [] then Inl (EMsg ''repository selector must not be empty'')
         else (case byName of
                 Inr r \<Rightarrow> Inr r
               | Inl e \<Rightarrow>
                   if \<not> err_is ENotFound e then Inl (EWrap (''get Repository '' @ input) e)
                   else (case parseRepositorySelector urlParse input of
                           Inl e' \<Rightarrow> Inl e'
                         | Inr selector \<Rightarrow>
                             (case listed of
                                Inl e' \<Rightarrow> Inl (EWrap ''list Repositories'' e')
                              | Inr items \<Rightarrow>
                                  (case filter (selector_matches urlParse selector) items of
                                     [m] \<Rightarrow> Inr m
                                   | [] \<Rightarrow> Inl (EMsg ''repository was not found'')
                                   | ms \<Rightarrow> Inl (EMsg (''repository selector is ambiguous; matches '' @
                                       join '', '' (sort (map rv_name ms)))))))))"

section \<open>DNS names\<close>

text \<open>The documented syntax of a DNS-1123 subdomain: at most 253 bytes, labels separated by dots.\<close>

definition dns_label :: "string \<Rightarrow> bool" where
  "dns_label s \<longleftrightarrow> s \<noteq> [] \<and> (\<forall>c \<in> set s. alnum c \<or> is_dash c) \<and> alnum (hd s) \<and> alnum (last s)"

definition dns1123 :: "string \<Rightarrow> bool" where
  "dns1123 s \<longleftrightarrow> length s \<le> 253 \<and> list_all dns_label (split_on (CHR ''.'') s)"

lemma alnum_not_special [simp]: "\<not> alnum (CHR ''-'')" "\<not> alnum (CHR ''.'')"
  by (simp_all add: alnum_def)

lemma split_on_absent: "c \<notin> set s \<Longrightarrow> split_on c s = [s]"
  by (induction s) auto

lemma dns_label_dns1123: "dns_label s \<Longrightarrow> length s \<le> 253 \<Longrightarrow> dns1123 s"
proof -
  assume s: "dns_label s" "length s \<le> 253"
  then have "CHR ''.'' \<notin> set s" by (auto simp: dns_label_def)
  with s show ?thesis by (simp add: dns1123_def split_on_absent)
qed

lemma slug_chars: "c \<in> set (slug d s) \<Longrightarrow> alnum c \<or> is_dash c"
  by (induction d s rule: slug.induct) (auto split: if_splits)

lemma slug_alnum: "c \<in> set s \<Longrightarrow> alnum c \<Longrightarrow> c \<in> set (slug d s)"
  by (induction d s rule: slug.induct) auto

lemma trim_slug_label:
  assumes "\<forall>c \<in> set s. alnum c \<or> is_dash c" "trim is_dash s \<noteq> []"
  shows "dns_label (trim is_dash s)"
proof -
  have "\<forall>c \<in> set (trim is_dash s). alnum c \<or> is_dash c" using assms(1) set_trim [of is_dash s] by blast
  moreover have "hd (trim is_dash s) \<in> set (trim is_dash s)" "last (trim is_dash s) \<in> set (trim is_dash s)"
    using assms(2) by auto
  ultimately show ?thesis using assms(2) trim_hd [OF assms(2)] trim_last [OF assms(2)] unfolding dns_label_def by blast
qed

lemma dropWhile_id: "s = [] \<or> \<not> P (hd s) \<Longrightarrow> dropWhile P s = s"
  by (cases s) auto

lemma trim_nonempty: "s \<noteq> [] \<Longrightarrow> \<not> P (hd s) \<Longrightarrow> trim P s \<noteq> []"
proof -
  assume s: "s \<noteq> []" "\<not> P (hd s)"
  then have "hd s \<in> set (rev s)" by simp
  with s have "dropWhile P (rev s) \<noteq> []" by (metis dropWhile_eq_Nil_conv)
  with s show ?thesis by (simp add: trim_def trim_right_def dropWhile_id)
qed

lemma trim_empty: "trim P s = [] \<Longrightarrow> \<forall>x \<in> set s. P x"
proof -
  assume "trim P s = []"
  then have "\<forall>x \<in> set (dropWhile P s). P x" unfolding trim_def trim_right_def by simp
  moreover have "\<forall>x \<in> set (takeWhile P s). P x" by (auto dest: set_takeWhileD)
  ultimately show ?thesis by (metis Un_iff set_append takeWhile_dropWhile_id)
qed

definition hex_digest :: "(string \<Rightarrow> string) \<Rightarrow> bool" where
  "hex_digest sha \<longleftrightarrow> (\<forall>s. length (sha s) = 64 \<and> (\<forall>c \<in> set (sha s). alnum c))"

lemma hex_take: "hex_digest sha \<Longrightarrow> length (take 12 (sha s)) = 12 \<and> (\<forall>c \<in> set (take 12 (sha s)). alnum c)"
  unfolding hex_digest_def by (auto dest: in_set_takeD)

lemma dns_label_append:
  assumes "dns_label a" "dns_label b"
  shows "dns_label (a @ ''-'' @ b)"
  using assms by (auto simp: dns_label_def)

lemma alnum_label: "s \<noteq> [] \<Longrightarrow> \<forall>c \<in> set s. alnum c \<Longrightarrow> dns_label s"
  by (simp add: dns_label_def)

lemma hex_label: "hex_digest sha \<Longrightarrow> dns_label (take 12 (sha s))"
  using hex_take [of sha s] by (intro alnum_label) auto

lemma shorten_label:
  assumes sha: "hex_digest sha" and name: "dns_label name"
  shows "dns_label (shorten sha value name) \<and> length (shorten sha value name) \<le> 253"
proof (cases "length name > 253")
  case False
  with name show ?thesis by (simp add: shorten_def)
next
  case True
  let ?d = "take 12 (sha value)"
  let ?t = "trim is_dash (take 240 name)"
  have l: "length ?d = 12" using hex_take [OF sha] by blast
  have "take 240 name \<noteq> []" "hd (take 240 name) = hd name" using name by (auto simp: dns_label_def hd_take)
  then have ne: "?t \<noteq> []" using name by (intro trim_nonempty) (auto simp: dns_label_def)
  have "\<forall>c \<in> set (take 240 name). alnum c \<or> is_dash c" using name by (auto simp: dns_label_def dest: in_set_takeD)
  from trim_slug_label [OF this ne] have "dns_label (?t @ ''-'' @ ?d)"
    using hex_label [OF sha] by (rule dns_label_append)
  moreover have "length ?t \<le> 240" by (rule order_trans [OF length_trim]) simp
  ultimately show ?thesis using True l by (simp add: shorten_def Let_def)
qed

lemma readable_name:
  assumes sha: "hex_digest sha" and ex: "\<exists>c \<in> set (to_lower value). alnum c"
  shows "trim is_dash (slug False (to_lower value)) \<noteq> [] \<and>
    dns1123 (shorten sha value (trim is_dash (slug False (to_lower value))))"
proof -
  let ?n = "trim is_dash (slug False (to_lower value))"
  obtain c where c: "c \<in> set (slug False (to_lower value))" "alnum c" using ex slug_alnum by blast
  have "\<not> is_dash c" using c(2) alnum_not_special(1) by blast
  then have ne: "?n \<noteq> []" using c(1) trim_empty [of is_dash "slug False (to_lower value)"] by blast
  with slug_chars have "dns_label ?n" by (intro trim_slug_label) blast+
  with shorten_label [OF sha this] have "dns1123 (shorten sha value ?n)" by (intro dns_label_dns1123) auto
  with ne show ?thesis by blast
qed

text \<open>The three ways to write a remote.\<close>

lemma trim_id: "s \<noteq> [] \<Longrightarrow> \<not> P (hd s) \<Longrightarrow> \<not> P (last s) \<Longrightarrow> trim P s = s"
proof -
  assume s: "s \<noteq> []" "\<not> P (hd s)" "\<not> P (last s)"
  have "dropWhile P s = s" using s by (simp add: dropWhile_id)
  moreover have "dropWhile P (rev s) = rev s" using s by (intro dropWhile_id) (simp add: hd_rev)
  ultimately show ?thesis by (simp add: trim_def trim_right_def)
qed

lemma trim_suffix_append [simp]: "trim_suffix p (s @ p) = s"
  by (simp add: trim_suffix_def has_suffix_def)

lemma trim_suffix_absent: "\<not> has_suffix p s \<Longrightarrow> trim_suffix p s = s"
  by (simp add: trim_suffix_def)

lemma split_on_append: "c \<notin> set a \<Longrightarrow> split_on c (a @ c # b) = a # split_on c b"
  by (induction a) auto

lemma has_prefix_set: "has_prefix p s \<Longrightarrow> set p \<subseteq> set s"
  by (induction p s rule: has_prefix.induct) auto

lemma contains_set: "contains sub s \<Longrightarrow> set sub \<subseteq> set s"
proof (induction sub s rule: contains.induct)
  case (2 sub c cs)
  then show ?case using has_prefix_set [of sub "c # cs"] by auto
qed simp

section \<open>Properties\<close>


definition sample_sha :: "string \<Rightarrow> string" where
  "sample_sha s = replicate 64 (CHR ''0'')"

lemma hex_digest_sample: "hex_digest sample_sha"
  by (simp add: hex_digest_def sample_sha_def alnum_def)


text \<open>Every generated Worktree name is a DNS-1123 subdomain too, for any branch, reference and mode, when
  the random suffix is a short alphanumeric string; given a branch, the name is built from the
  repository and the branch alone, without randomness.\<close>

theorem worktree_names_valid:
  assumes valid: "\<forall>s. valid s \<longleftrightarrow> dns1123 s" and sha: "hex_digest sha"
    and rnd: "\<forall>n. rnd n \<noteq> [] \<and> length (rnd n) \<le> 6 \<and> (\<forall>c \<in> set (rnd n). alnum c)"
  shows "dns1123 (WorktreeName valid sha rnd repositoryName branch ref detach orphan) \<and>
    (branch \<noteq> [] \<and> (\<exists>c \<in> set (to_lower (repositoryName @ ''--'' @ branch)). alnum c) \<longrightarrow>
       WorktreeName valid sha rnd repositoryName branch ref detach orphan =
         shorten sha (repositoryName @ ''--'' @ branch) (trim is_dash (slug False (to_lower (repositoryName @ ''--'' @ branch)))))"
proof -
  have suffix: "dns_label (''worktree'' @ ''-'' @ rnd n)" for n
    using rnd by (intro dns_label_append alnum_label) (simp_all add: alnum_def)
  have len: "length (''worktree-'' @ rnd n) \<le> 253" for n
    using rnd [THEN spec, of n] by simp
  have fallback: "dns1123 (''worktree-'' @ rnd n)" for n
    using suffix [of n] len [of n] by (intro dns_label_dns1123) simp_all
  have any: "dns1123 (normalizeWorktreeName valid sha rnd v)" for v
    using valid fallback [of 2] by (simp add: normalizeWorktreeName_def Let_def)
  have "normalizeWorktreeName valid sha rnd v = shorten sha v (trim is_dash (slug False (to_lower v)))"
    if "\<exists>c \<in> set (to_lower v). alnum c" for v
    using readable_name [OF sha that] valid by (simp add: normalizeWorktreeName_def Let_def)
  with any show ?thesis unfolding WorktreeName_def by (simp del: Un_iff bex_Un)
qed

theorem worktree_names_valid_witness:
  "dns1123 (WorktreeName dns1123 sample_sha (\<lambda>n. ''abc123'') ''repo'' ''Feature/X'' [] False False)"
  by (rule worktree_names_valid [OF _ hex_digest_sample, THEN conjunct1]) (simp_all add: alnum_def)

text \<open>What a user types resolves to at most one Repository: the one of exactly that name when it exists,
  and otherwise the only one whose remote has the selected path, on the selected host when one is
  given. With several matches nothing is chosen.\<close>

theorem resolve_repository_unique:
  assumes "ResolveRepository valid urlParse get listed input = Inr r"
  shows "(valid (trim is_space input) \<and> get (trim is_space input) = Inr r) \<or>
    (\<exists>items selector. listed = Inr items \<and> parseRepositorySelector urlParse (trim is_space input) = Inr selector \<and>
       filter (selector_matches urlParse selector) items = [r] \<and>
       (\<exists>c. parseRepositorySelector urlParse (rv_url r) = Inr c \<and> rs_path c = rs_path selector \<and>
          (rs_host selector = [] \<or> rs_host c = rs_host selector)))"
proof -
  have m: "\<exists>c. parseRepositorySelector urlParse (rv_url r) = Inr c \<and> rs_path c = rs_path selector \<and>
      (rs_host selector = [] \<or> rs_host c = rs_host selector)"
    if "filter (selector_matches urlParse selector) items = [r]" for selector items
  proof -
    have "selector_matches urlParse selector r" using that by (metis Cons_eq_filterD)
    then show ?thesis by (auto simp: selector_matches_def split: sum.splits if_splits)
  qed
  show ?thesis
  proof (cases "valid (trim is_space input) \<and> (\<exists>x. get (trim is_space input) = Inr x)")
    case True
    with assms show ?thesis by (auto simp: ResolveRepository_def Let_def split: if_splits)
  next
    case False
    with assms obtain items selector where "listed = Inr items"
        "parseRepositorySelector urlParse (trim is_space input) = Inr selector"
        "filter (selector_matches urlParse selector) items = [r]"
      by (auto simp: ResolveRepository_def Let_def split: if_splits sum.splits list.splits)
    with m show ?thesis by blast
  qed
qed

definition sample_repositories :: "repository_view list" where
  "sample_repositories = [\<lparr>rv_name = ''a'', rv_url = ''git@host.io:org/a.git''\<rparr>,
     \<lparr>rv_name = ''b'', rv_url = ''git@host.io:org/b.git''\<rparr>]"

lemma sample_resolve:
  "ResolveRepository (\<lambda>s. False) (\<lambda>s. None) (\<lambda>n. Inl ENotFound) (Inr sample_repositories) ''host.io/org/b'' =
     Inr \<lparr>rv_name = ''b'', rv_url = ''git@host.io:org/b.git''\<rparr>"
  by code_simp

theorem resolve_repository_unique_witness:
  "\<exists>selector. filter (selector_matches (\<lambda>s. None) selector) sample_repositories
     = [\<lparr>rv_name = ''b'', rv_url = ''git@host.io:org/b.git''\<rparr>]"
  using resolve_repository_unique [OF sample_resolve] by auto

text \<open>The scp-like form \<^verbatim>\<open>git@host:path.git\<close> and the short form \<^verbatim>\<open>host/path\<close> of a remote are the same
  selector, so both find the same Repository.\<close>

theorem selector_forms_agree:
  assumes host: "host \<noteq> []" "CHR ''.'' \<in> set host" "\<forall>c \<in> set host. c \<notin> {CHR ''/'', CHR '':'', CHR ''@''} \<and> \<not> is_space c"
    and path: "path \<noteq> []" "\<forall>c \<in> set path. c \<noteq> CHR '':'' \<and> \<not> is_space c" "hd path \<noteq> CHR ''/''" "last path \<noteq> CHR ''/''"
      "\<not> has_suffix ''.git'' path"
  shows "parseRepositorySelector urlParse (''git@'' @ host @ '':'' @ path @ ''.git'') =
         parseRepositorySelector urlParse (host @ ''/'' @ path) \<and>
     parseRepositorySelector urlParse (host @ ''/'' @ path) =
         Inr \<lparr>rs_host = to_lower host, rs_path = path, rs_hasHost = True\<rparr>"
proof -
  let ?ssh = "''git@'' @ host @ '':'' @ path @ ''.git''" and ?short = "host @ ''/'' @ path"
  have lp: "last path \<in> set path" and hh: "hd host \<in> set host" using host(1) path(1) by auto
  have plain: "trim_suffix ''/'' path = path"
    using path(1,4) by (intro trim_suffix_absent) (auto simp: has_suffix_iff)
  have np: "normalizeRepositoryPath path = path"
    using path plain trim_id [of path "\<lambda>c. c = CHR ''/''"] by (simp add: normalizeRepositoryPath_def trim_suffix_absent)
  have "trim_suffix ''/'' (path @ ''.git'') = path @ ''.git''"
    by (intro trim_suffix_absent) (auto simp: has_suffix_def)
  moreover have "trim (\<lambda>c. c = CHR ''/'') (path @ ''.git'') = path @ ''.git''"
    using path by (intro trim_id) auto
  ultimately have npg: "normalizeRepositoryPath (path @ ''.git'') = path"
    by (simp add: normalizeRepositoryPath_def)
  have "trim is_space ?ssh = ?ssh" by (intro trim_id) (auto simp: is_space_def)
  moreover have "cut (CHR '':'') (host @ '':'' @ path @ ''.git'') = (host, path @ ''.git'')"
    using cut_append [of "CHR '':''" host "path @ ''.git''"] host(3) by auto
  ultimately have ssh: "parseRepositorySelector urlParse ?ssh = Inr \<lparr>rs_host = to_lower host, rs_path = path, rs_hasHost = True\<rparr>"
    using host(1) by (simp add: parseRepositorySelector_def npg)
  have t1: "trim is_space ?short = ?short"
    using host path lp hh by (intro trim_id) auto
  have t2: "trim (\<lambda>c. c = CHR ''/'') ?short = ?short"
    using host path hh by (intro trim_id) auto
  have no: "CHR '':'' \<notin> set ?short" using host(3) path(2) by auto
  then have c: "\<not> contains ''://'' ?short" using contains_set [of "''://''" ?short] by auto
  have pre: "\<not> has_prefix ''git@'' ?short"
    using host(1,3) by (cases host; cases "tl host"; cases "tl (tl host)"; cases "tl (tl (tl host))") auto
  have "split_on (CHR ''/'') ?short = host # split_on (CHR ''/'') path"
    using split_on_append [of "CHR ''/''" host path] host(3) by auto
  moreover have "length (split_on (CHR ''/'') path) \<ge> 1" by (simp add: Suc_le_eq)
  ultimately have "parseRepositorySelector urlParse ?short = Inr \<lparr>rs_host = to_lower host, rs_path = path, rs_hasHost = True\<rparr>"
    using host(2) t1 t2 c pre by (simp add: parseRepositorySelector_def Let_def join_split_on np)
  with ssh show ?thesis by simp
qed

theorem selector_forms_agree_witness:
  "parseRepositorySelector (\<lambda>s. None) ''git@github.com:org/repo.git'' =
   parseRepositorySelector (\<lambda>s. None) ''github.com/org/repo''"
  using selector_forms_agree [of "''github.com''" "''org/repo''" "\<lambda>s. None"]
  by (simp add: is_space_def has_suffix_def)

end
