(* ===== verification/SupervisorProcess.thy ===== *)
theory SupervisorProcess
  imports Kube
begin

text \<open>
  One process of rc-kube's supervisor (\<^verbatim>\<open>internal/rckube/supervisor.go\<close>): its durable transcript, its
  attached clients and its standard input. An operation is what the code does while it holds
  \<^verbatim>\<open>process.mu\<close>; \<^verbatim>\<open>processOutput.Write\<close> is called by one goroutine, so its blocking sends to lossless
  clients are part of the same step, and a lossless client's buffer is the channel with the pending
  send. A client carries what its stream has already written to the connection.
\<close>

section \<open>State\<close>

type_synonym bytes = string

text \<open>\<^verbatim>\<open>processruntime.State\<close>.\<close>

record pstate =
  ps_id :: string
  ps_uid :: string
  ps_phase :: string
  ps_pid :: int
  ps_exitCode :: "int option"
  ps_reason :: string
  ps_attachedClients :: int
  ps_transcriptTruncated :: bool

definition phaseStarting :: string where "phaseStarting = ''Starting''"
definition phaseRunning :: string where "phaseRunning = ''Running''"
definition phaseExited :: string where "phaseExited = ''Exited''"
definition phaseStopped :: string where "phaseStopped = ''Stopped''"

text \<open>
  \<^verbatim>\<open>attachClient\<close>. \<open>ac_serial\<close> is the identity of the pointer, \<open>ac_buffer\<close> the data channel,
  \<open>ac_output\<close> what \<^verbatim>\<open>stream\<close> wrote to the client.
\<close>

record attach_client =
  ac_serial :: nat
  ac_output :: bytes
  ac_buffer :: "bytes list"
  ac_lossless :: bool
  ac_closeInputOnEOF :: bool

text \<open>
  \<^verbatim>\<open>supervisedProcess\<close>: the clients in the order a range over the map visits them, the transcript
  file with whether it is open here and whether it was removed from disk, the number of clients ever
  allocated.
\<close>

record sprocess =
  pr_state :: pstate
  pr_terminal :: bool
  pr_hasInput :: bool
  pr_inputClosed :: bool
  pr_stopRequested :: bool
  pr_clients :: "(string \<times> attach_client) list"
  pr_clientSizes :: "string \<rightharpoonup> nat \<times> nat"
  pr_nextClient :: nat
  pr_allocated :: nat
  pr_foreground :: string
  pr_transcript :: bytes
  pr_transcriptOpen :: bool
  pr_transcriptRemoved :: bool
  pr_max :: int
  pr_len :: int
  pr_truncated :: bool
  pr_completedAt :: "time option"
  pr_startedAt :: "time option"

definition live_phase :: "string \<Rightarrow> bool" where
  "live_phase ph = (ph = phaseRunning \<or> ph = phaseStarting)"

definition count_clients :: "sprocess \<Rightarrow> sprocess" where
  "count_clients p = p\<lparr>pr_state := (pr_state p)\<lparr>ps_attachedClients := int (length (pr_clients p))\<rparr>\<rparr>"

definition removeClientLocked :: "string \<Rightarrow> nat \<Rightarrow> sprocess \<Rightarrow> sprocess" where
  "removeClientLocked cid serial p =
     (case map_of (pr_clients p) cid of
        None \<Rightarrow> p
      | Some c \<Rightarrow>
          if ac_serial c \<noteq> serial then p
          else count_clients (p\<lparr>pr_clients := filter (\<lambda>x. fst x \<noteq> cid) (pr_clients p),
                                pr_clientSizes := (pr_clientSizes p)(cid := None),
                                pr_foreground := (if pr_foreground p = cid then [] else pr_foreground p)\<rparr>))"

section \<open>Output\<close>

definition notice :: bytes where
  "notice = [CHR 0x0A] @ ''[rc-kube transcript truncated]'' @ [CHR 0x0A]"

text \<open>
  \<open>wr\<close> is a write to the transcript file: the bytes that were written and an error.
  \<open>record_output\<close> is the transcript part of \<^verbatim>\<open>distribute\<close>.
\<close>

type_synonym file_write = "bytes \<Rightarrow> nat \<times> err option"

definition bounded_part :: "bytes \<Rightarrow> sprocess \<Rightarrow> bytes" where
  "bounded_part data p =
     (if pr_max p > 0
      then (let remaining = pr_max p - pr_len p
            in if remaining < int (length data) then take (nat (if remaining < 0 then 0 else remaining)) data else data)
      else data)"

definition record_output :: "file_write \<Rightarrow> bytes \<Rightarrow> sprocess \<Rightarrow> sprocess \<times> err option" where
  "record_output wr data p =
     (if pr_truncated p then (p, None)
      else
        (let toWrite = bounded_part data p;
             (p1, e1) = (if toWrite \<noteq> []
                         then (case wr toWrite of
                                 (n, e) \<Rightarrow> (p\<lparr>pr_transcript := pr_transcript p @ take n toWrite, pr_len := pr_len p + int n\<rparr>, e))
                         else (p, None))
         in case e1 of
              Some e \<Rightarrow> (p1, Some e)
            | None \<Rightarrow>
                if pr_max p > 0 \<and> length toWrite < length data then
                  (case wr notice of
                     (n, Some e) \<Rightarrow> (p1\<lparr>pr_transcript := pr_transcript p1 @ take n notice\<rparr>, Some e)
                   | (n, None) \<Rightarrow>
                       (p1\<lparr>pr_transcript := pr_transcript p1 @ take n notice, pr_truncated := True,
                           pr_state := (pr_state p1)\<lparr>ps_transcriptTruncated := True\<rparr>\<rparr>, None))
                else (p1, None)))"

definition channel_size :: nat where "channel_size = 128"

text \<open>The loop of \<^verbatim>\<open>distribute\<close> over the clients: a client that drops output loses its place when its channel is full.\<close>

fun offer :: "bytes \<Rightarrow> (string \<times> attach_client) list \<Rightarrow> sprocess \<Rightarrow> sprocess" where
  "offer data [] p = p"
| "offer data ((cid, c) # cs) p =
     (if ac_lossless c then offer data cs p
      else if length (ac_buffer c) < channel_size
      then offer data cs (p\<lparr>pr_clients := map (\<lambda>(i, x). if i = cid then (i, x\<lparr>ac_buffer := ac_buffer x @ [data]\<rparr>) else (i, x)) (pr_clients p)\<rparr>)
      else offer data cs (removeClientLocked cid (ac_serial c) p))"

definition distribute :: "file_write \<Rightarrow> bytes \<Rightarrow> sprocess \<Rightarrow> sprocess \<times> string list \<times> err option" where
  "distribute wr data p =
     (case record_output wr data p of
        (p1, Some e) \<Rightarrow> (p1, [], Some e)
      | (p1, None) \<Rightarrow> (offer data (pr_clients p1) p1, map fst (filter (\<lambda>x. ac_lossless (snd x)) (pr_clients p1)), None))"

definition processOutput_Write :: "file_write \<Rightarrow> bytes \<Rightarrow> sprocess \<Rightarrow> sprocess \<times> nat \<times> err option" where
  "processOutput_Write wr data p =
     (case distribute wr data p of
        (p1, _, Some e) \<Rightarrow> (p1, 0, Some e)
      | (p1, lossless, None) \<Rightarrow>
          (p1\<lparr>pr_clients := map (\<lambda>(i, x). if i \<in> set lossless then (i, x\<lparr>ac_buffer := ac_buffer x @ [data]\<rparr>) else (i, x)) (pr_clients p1)\<rparr>,
           length data, None))"

section \<open>Replay and attach\<close>

definition readWholeTranscriptLocked :: "sprocess \<Rightarrow> bytes result" where
  "readWholeTranscriptLocked p =
     (if \<not> pr_transcriptOpen p \<and> pr_transcriptRemoved p
      then Inl (EWrap ''read persisted process transcript'' ENotFound) else Inr (pr_transcript p))"

definition readTranscriptLocked :: "sprocess \<Rightarrow> bytes result" where
  "readTranscriptLocked p =
     (case readWholeTranscriptLocked p of
        Inl e \<Rightarrow> Inl e
      | Inr data \<Rightarrow> if \<not> pr_truncated p \<or> int (length data) \<le> pr_len p then Inr data
                    else Inr (take (nat (pr_len p)) data))"

record attach_options =
  ao_rows :: nat
  ao_columns :: nat
  ao_lossless :: bool
  ao_closeInputOnEOF :: bool

text \<open>The session: the client it registered (None for a finished process) and the replay.\<close>

record attach_session =
  se_client :: "(string \<times> nat) option"
  se_replay :: bytes

definition first_id :: "string \<Rightarrow> sprocess \<Rightarrow> string" where
  "first_id cid p = (if cid = [] then ''client-'' @ nat_digits (pr_nextClient p) else cid)"

text \<open>
  \<^verbatim>\<open>openAttach\<close> on the process; \<open>resize columns rows\<close> is the PTY's resize. The stream of the new
  session writes the replay before anything else, so it is the client's first output.
\<close>

definition register_client :: "string \<Rightarrow> bytes \<Rightarrow> attach_options \<Rightarrow> sprocess \<Rightarrow> sprocess" where
  "register_client cid replay opts p =
     p\<lparr>pr_clients := pr_clients p @ [(cid, \<lparr>ac_serial = pr_allocated p, ac_output = replay, ac_buffer = [],
         ac_lossless = ao_lossless opts, ac_closeInputOnEOF = ao_closeInputOnEOF opts\<rparr>)],
       pr_allocated := Suc (pr_allocated p),
       pr_foreground := (if pr_foreground p = [] then cid else pr_foreground p)\<rparr>"

definition openAttach ::
  "(nat \<Rightarrow> nat \<Rightarrow> err option) \<Rightarrow> string \<Rightarrow> attach_options \<Rightarrow> sprocess \<Rightarrow> sprocess \<times> (attach_session \<times> pstate) result" where
  "openAttach resize cid0 opts p =
     (case readTranscriptLocked p of
        Inl e \<Rightarrow> (p, Inl e)
      | Inr replay \<Rightarrow>
          if \<not> live_phase (ps_phase (pr_state p))
          then (p, Inr (\<lparr>se_client = None, se_replay = replay\<rparr>, pr_state p))
          else
            (let cid = first_id cid0 p;
                 p0 = (if cid0 = [] then p\<lparr>pr_nextClient := Suc (pr_nextClient p)\<rparr> else p)
             in if map_of (pr_clients p0) cid \<noteq> None
                then (p0, Inl (EMsg ''attach client ID is already connected''))
                else
                  (let p1 = register_client cid replay opts p0;
                       sized = (ao_rows opts > 0 \<and> ao_columns opts > 0);
                       p2 = (if sized then p1\<lparr>pr_clientSizes := (pr_clientSizes p1)(cid \<mapsto> (ao_rows opts, ao_columns opts))\<rparr> else p1);
                       failed = (if sized \<and> pr_foreground p2 = cid \<and> pr_terminal p2
                                 then resize (ao_columns opts) (ao_rows opts) else None)
                   in case failed of
                        Some e \<Rightarrow> (removeClientLocked cid (pr_allocated p0) p2, Inl (EWrap ''set initial PTY size'' e))
                      | None \<Rightarrow>
                          (let p3 = count_clients p2
                           in (p3, Inr (\<lparr>se_client = Some (cid, pr_allocated p0), se_replay = replay\<rparr>,
                                (pr_state p)\<lparr>ps_attachedClients := ps_attachedClients (pr_state p3)\<rparr>))))))"

text \<open>One turn of \<^verbatim>\<open>stream\<close>: it takes a chunk from the channel and writes it to the connection.\<close>

definition stream_take :: "string \<Rightarrow> sprocess \<Rightarrow> sprocess" where
  "stream_take cid p =
     p\<lparr>pr_clients := map (\<lambda>(i, x). if i = cid
          then (i, case ac_buffer x of [] \<Rightarrow> x | d # ds \<Rightarrow> x\<lparr>ac_output := ac_output x @ d, ac_buffer := ds\<rparr>)
          else (i, x)) (pr_clients p)\<rparr>"

section \<open>Input, size and exit\<close>

text \<open>\<open>close\<close> is the error of closing the pipe.\<close>

definition closeInputLocked :: "err option \<Rightarrow> sprocess \<Rightarrow> sprocess \<times> err option" where
  "closeInputLocked close p =
     (if pr_inputClosed p \<or> \<not> pr_hasInput p then (p, None) else (p\<lparr>pr_inputClosed := True\<rparr>, close))"

definition closeInput :: "err option \<Rightarrow> sprocess \<Rightarrow> sprocess \<times> err option" where
  "closeInput close p =
     (if pr_terminal p then (p, Some (EMsg ''process owns a terminal; its input cannot be closed''))
      else closeInputLocked close p)"

text \<open>\<^verbatim>\<open>foregroundWriter.Write\<close>: the writing client becomes the foreground and its size is applied.\<close>

definition foreground_write :: "string \<Rightarrow> sprocess \<Rightarrow> sprocess \<times> (nat \<times> nat) option" where
  "foreground_write cid p =
     (p\<lparr>pr_foreground := cid\<rparr>,
      if pr_terminal p then (case pr_clientSizes p cid of Some (rows, cols) \<Rightarrow> Some (cols, rows) | None \<Rightarrow> None) else None)"

definition Resize :: "(nat \<Rightarrow> nat \<Rightarrow> err option) \<Rightarrow> string \<Rightarrow> nat \<Rightarrow> nat \<Rightarrow> sprocess \<Rightarrow> sprocess \<times> err option" where
  "Resize resize cid rows columns p =
     (if \<not> pr_terminal p then (p, Some (EMsg ''process does not own a PTY''))
      else if cid \<noteq> [] then
        (let p1 = p\<lparr>pr_clientSizes := (pr_clientSizes p)(cid \<mapsto> (rows, columns)),
                    pr_foreground := (if pr_foreground p = [] then cid else pr_foreground p)\<rparr>
         in if pr_foreground p1 \<noteq> cid then (p1, None) else (p1, resize columns rows))
      else (p, resize columns rows))"

text \<open>\<^verbatim>\<open>wait\<close> after the native process ended, with its error and exit code.\<close>

definition wait_done :: "time \<Rightarrow> string option \<Rightarrow> int \<Rightarrow> sprocess \<Rightarrow> sprocess" where
  "wait_done now waitErr exitCode p =
     (let st = (pr_state p)\<lparr>ps_exitCode := Some exitCode\<rparr>;
          st' = (if pr_stopRequested p then st\<lparr>ps_phase := phaseStopped, ps_reason := phaseStopped\<rparr>
                 else st\<lparr>ps_phase := phaseExited,
                         ps_reason := (case waitErr of Some m \<Rightarrow> m | None \<Rightarrow> ps_reason st)\<rparr>)
      in p\<lparr>pr_state := st', pr_transcriptOpen := False, pr_completedAt := Some now\<rparr>)"

section \<open>Runs\<close>

text \<open>
  Everything that happens to a live process, in the order in which the lock is taken. The writes go
  to a healthy disk: \<open>full_write\<close>.
\<close>

definition full_write :: file_write where
  "full_write data = (length data, None)"

datatype pevent =
    EvWrite bytes
  | EvTake string
  | EvLeave string nat
  | EvAttach string attach_options
  | EvInput string
  | EvCloseInput
  | EvResize string nat nat

fun proc_event :: "(nat \<Rightarrow> nat \<Rightarrow> err option) \<Rightarrow> pevent \<Rightarrow> sprocess \<Rightarrow> sprocess" where
  "proc_event resize (EvWrite d) p = fst (processOutput_Write full_write d p)"
| "proc_event resize (EvTake cid) p = stream_take cid p"
| "proc_event resize (EvLeave cid s) p = removeClientLocked cid s p"
| "proc_event resize (EvAttach cid opts) p = fst (openAttach resize cid opts p)"
| "proc_event resize (EvInput cid) p = fst (foreground_write cid p)"
| "proc_event resize EvCloseInput p = fst (closeInput None p)"
| "proc_event resize (EvResize cid rows cols) p = fst (Resize resize cid rows cols p)"

definition proc_run :: "(nat \<Rightarrow> nat \<Rightarrow> err option) \<Rightarrow> pevent list \<Rightarrow> sprocess \<Rightarrow> sprocess" where
  "proc_run resize evs p = fold (proc_event resize) evs p"

fun written :: "pevent list \<Rightarrow> bytes" where
  "written [] = []"
| "written (EvWrite d # evs) = d @ written evs"
| "written (_ # evs) = written evs"

lemma written_append: "written (xs @ ys) = written xs @ written ys"
  by (induction xs rule: written.induct) auto

subsection \<open>The transcript\<close>

text \<open>
  The part of the output that fits the limit after \<open>pre\<close>, and what the transcript fields have to
  say after the output \<open>out\<close>.
\<close>

definition room :: "int \<Rightarrow> bytes \<Rightarrow> nat" where
  "room limit pre = nat (limit - int (length pre))"

definition recorded :: "int \<Rightarrow> bytes \<Rightarrow> bytes \<Rightarrow> bytes" where
  "recorded limit pre out = (if limit > 0 then take (room limit pre) out else out)"

definition overflows :: "int \<Rightarrow> bytes \<Rightarrow> bytes \<Rightarrow> bool" where
  "overflows limit pre out \<longleftrightarrow> limit > 0 \<and> room limit pre < length out"

definition transcript_ok :: "bytes \<Rightarrow> bytes \<Rightarrow> sprocess \<Rightarrow> bool" where
  "transcript_ok pre out p \<longleftrightarrow>
     pr_len p = int (length pre) + int (length (recorded (pr_max p) pre out)) \<and>
     pr_truncated p = overflows (pr_max p) pre out \<and>
     ps_transcriptTruncated (pr_state p) = pr_truncated p \<and>
     pr_transcript p = pre @ recorded (pr_max p) pre out @ (if pr_truncated p then notice else []) \<and>
     pr_transcriptOpen p"

lemma record_output_fields:
  "record_output wr d p = (p', e) \<Longrightarrow> pr_clients p' = pr_clients p \<and> pr_allocated p' = pr_allocated p \<and>
     pr_max p' = pr_max p \<and> ps_attachedClients (pr_state p') = ps_attachedClients (pr_state p)"
  by (auto simp: record_output_def Let_def split: if_splits prod.splits option.splits)

lemma bounded_part_recorded:
  assumes ok: "transcript_ok pre out p" and nt: "\<not> pr_truncated p"
  shows "recorded (pr_max p) pre (out @ d) = recorded (pr_max p) pre out @ bounded_part d p"
    and "pr_max p > 0 \<and> length (bounded_part d p) < length d \<longleftrightarrow> overflows (pr_max p) pre (out @ d)"
proof -
  have all: "recorded (pr_max p) pre out = out"
    using ok nt by (auto simp: transcript_ok_def overflows_def recorded_def)
  then have len: "pr_len p = int (length pre) + int (length out)"
    using ok by (simp add: transcript_ok_def)
  have fits: "pr_max p > 0 \<Longrightarrow> length out \<le> room (pr_max p) pre"
    using ok nt by (auto simp: transcript_ok_def overflows_def)
  have fits2: "pr_max p > 0 \<Longrightarrow> out = [] \<or> int (length pre) + int (length out) \<le> pr_max p"
    using fits by (cases out) (auto simp: room_def le_nat_iff)
  show "recorded (pr_max p) pre (out @ d) = recorded (pr_max p) pre out @ bounded_part d p"
    unfolding all using fits by (auto simp: recorded_def bounded_part_def Let_def len room_def nat_diff_distrib' le_nat_iff nat_int_add)
  show "pr_max p > 0 \<and> length (bounded_part d p) < length d \<longleftrightarrow> overflows (pr_max p) pre (out @ d)"
    using fits2 by (auto simp: overflows_def bounded_part_def Let_def len room_def)
qed

lemma record_output_full:
  assumes "\<not> pr_truncated p"
  shows "record_output full_write d p =
    (let p1 = p\<lparr>pr_transcript := pr_transcript p @ bounded_part d p, pr_len := pr_len p + int (length (bounded_part d p))\<rparr>
     in if pr_max p > 0 \<and> length (bounded_part d p) < length d
        then (p1\<lparr>pr_transcript := pr_transcript p1 @ notice, pr_truncated := True,
                 pr_state := (pr_state p1)\<lparr>ps_transcriptTruncated := True\<rparr>\<rparr>, None)
        else (p1, None))"
  using assms by (cases "bounded_part d p = []") (simp_all add: record_output_def full_write_def Let_def)

lemma record_output_ok:
  assumes ok: "transcript_ok pre out p"
  obtains p' where "record_output full_write d p = (p', None)" "transcript_ok pre (out @ d) p'"
proof (cases "pr_truncated p")
  case True
  then have "recorded (pr_max p) pre (out @ d) = recorded (pr_max p) pre out" "overflows (pr_max p) pre (out @ d)"
    using ok by (auto simp: transcript_ok_def overflows_def recorded_def)
  with True ok have "transcript_ok pre (out @ d) p" by (simp add: transcript_ok_def)
  moreover have "record_output full_write d p = (p, None)" using True by (simp add: record_output_def)
  ultimately show ?thesis using that by blast
next
  case False
  note b = bounded_part_recorded [OF ok False, of d]
  obtain p' where r: "record_output full_write d p = (p', None)"
    using record_output_full [OF False, of d] by (auto simp: Let_def split: if_splits)
  moreover have "transcript_ok pre (out @ d) p'"
    using r False ok b unfolding record_output_full [OF False, of d]
    by (auto simp: Let_def transcript_ok_def split: if_splits)
  ultimately show ?thesis using that by blast
qed

subsection \<open>The clients\<close>

text \<open>Distinct IDs, fresh identities, the published count, and no overfull channel.\<close>

definition clients_ok :: "sprocess \<Rightarrow> bool" where
  "clients_ok p \<longleftrightarrow>
     distinct (map fst (pr_clients p)) \<and> distinct (map (ac_serial \<circ> snd) (pr_clients p)) \<and>
     (\<forall>(i, c) \<in> set (pr_clients p). ac_serial c < pr_allocated p) \<and>
     ps_attachedClients (pr_state p) = int (length (pr_clients p)) \<and>
     (\<forall>(i, c) \<in> set (pr_clients p). \<not> ac_lossless c \<longrightarrow> length (ac_buffer c) \<le> channel_size)"

lemma removeClientLocked_fields [simp]:
  "pr_allocated (removeClientLocked cid s p) = pr_allocated p" "pr_max (removeClientLocked cid s p) = pr_max p"
  "pr_len (removeClientLocked cid s p) = pr_len p" "pr_truncated (removeClientLocked cid s p) = pr_truncated p"
  "pr_transcript (removeClientLocked cid s p) = pr_transcript p"
  "pr_transcriptOpen (removeClientLocked cid s p) = pr_transcriptOpen p"
  "ps_transcriptTruncated (pr_state (removeClientLocked cid s p)) = ps_transcriptTruncated (pr_state p)"
  "ps_phase (pr_state (removeClientLocked cid s p)) = ps_phase (pr_state p)"
  by (auto simp: removeClientLocked_def count_clients_def split: option.splits)

lemma removeClientLocked_clients:
  assumes "distinct (map fst (pr_clients p))"
  shows "pr_clients (removeClientLocked cid s p) = filter (\<lambda>(i, c). \<not> (i = cid \<and> ac_serial c = s)) (pr_clients p)"
proof (cases "map_of (pr_clients p) cid")
  case None
  then have "\<forall>(i, c) \<in> set (pr_clients p). i \<noteq> cid" by (force simp: map_of_eq_None_iff)
  then have "filter (\<lambda>(i, c). \<not> (i = cid \<and> ac_serial c = s)) (pr_clients p) = pr_clients p"
    by (intro filter_True) auto
  with None show ?thesis by (simp add: removeClientLocked_def)
next
  case (Some c)
  then have only: "\<And>x. (cid, x) \<in> set (pr_clients p) \<Longrightarrow> x = c"
    using assms by (metis map_of_eq_Some_iff option.inject)
  show ?thesis
  proof (cases "ac_serial c = s")
    case True
    have "(fst x \<noteq> cid) = (case x of (i, y) \<Rightarrow> \<not> (i = cid \<and> ac_serial y = s))" if "x \<in> set (pr_clients p)" for x
    proof (cases x)
      case (Pair i y)
      with that only [of y] True show ?thesis by auto
    qed
    with Some True show ?thesis
      by (simp add: removeClientLocked_def count_clients_def cong: filter_cong)
  next
    case False
    then have "filter (\<lambda>(i, c). \<not> (i = cid \<and> ac_serial c = s)) (pr_clients p) = pr_clients p"
      using only by (intro filter_True) auto
    with False Some show ?thesis by (simp add: removeClientLocked_def)
  qed
qed

text \<open>A step on the clients that keeps their IDs and identities, possibly dropping some.\<close>

definition upd_clients :: "(string \<Rightarrow> attach_client \<Rightarrow> attach_client) \<Rightarrow> (string \<times> attach_client) list \<Rightarrow> (string \<times> attach_client) list" where
  "upd_clients f cs = map (\<lambda>(i, c). (i, f i c)) cs"

lemma map_if_upd: "map (\<lambda>(i, x). if P i then (i, g x) else (i, x)) cs = upd_clients (\<lambda>i x. if P i then g x else x) cs"
  by (induction cs) (auto simp: upd_clients_def)

lemma upd_clients_keys [simp]: "map fst (upd_clients f cs) = map fst cs"
  by (induction cs) (auto simp: upd_clients_def)

lemma upd_clients_length [simp]: "length (upd_clients f cs) = length cs"
  by (simp add: upd_clients_def)

lemma set_upd_clients: "set (upd_clients f cs) = (\<lambda>(i, c). (i, f i c)) ` set cs"
  by (simp add: upd_clients_def)

lemma upd_clients_serials: "(\<And>i c. ac_serial (f i c) = ac_serial c) \<Longrightarrow>
    map (ac_serial \<circ> snd) (upd_clients f cs) = map (ac_serial \<circ> snd) cs"
  by (induction cs) (auto simp: upd_clients_def)

lemma removeClientLocked_ok:
  assumes ok: "clients_ok p"
  shows "clients_ok (removeClientLocked cid s p)"
proof -
  let ?q = "removeClientLocked cid s p"
  have c: "pr_clients ?q = filter (\<lambda>(i, c). \<not> (i = cid \<and> ac_serial c = s)) (pr_clients p)"
    using ok by (intro removeClientLocked_clients) (simp add: clients_ok_def)
  have "ps_attachedClients (pr_state ?q) = int (length (pr_clients ?q))"
    using ok by (auto simp: clients_ok_def removeClientLocked_def count_clients_def split: option.splits)
  then show ?thesis
    using ok unfolding clients_ok_def c by (auto simp: distinct_map_filter)
qed

text \<open>The offer loop drops full channels and appends to the others.\<close>

definition offered :: "bytes \<Rightarrow> (string \<times> attach_client) list \<Rightarrow> (string \<times> attach_client) list" where
  "offered d cs = map (\<lambda>(i, c). (i, if ac_lossless c then c else c\<lparr>ac_buffer := ac_buffer c @ [d]\<rparr>))
     (filter (\<lambda>(i, c). ac_lossless c \<or> length (ac_buffer c) < channel_size) cs)"

lemma offered_keys: "fst ` set (offered d cs) \<subseteq> fst ` set cs"
  by (force simp: offered_def)

lemma offered_distinct: "distinct (map fst cs) \<Longrightarrow> distinct (map fst (offered d cs))"
  by (induction cs) (use offered_keys in \<open>force simp: offered_def\<close>)+

definition same_transcript :: "sprocess \<Rightarrow> sprocess \<Rightarrow> bool" where
  "same_transcript p q \<longleftrightarrow> pr_max q = pr_max p \<and> pr_len q = pr_len p \<and> pr_truncated q = pr_truncated p \<and>
     pr_transcript q = pr_transcript p \<and> pr_transcriptOpen q = pr_transcriptOpen p \<and>
     ps_transcriptTruncated (pr_state q) = ps_transcriptTruncated (pr_state p) \<and>
     ps_phase (pr_state q) = ps_phase (pr_state p)"

lemma same_transcript_refl [simp]: "same_transcript p p"
  by (simp add: same_transcript_def)

lemma same_transcript_trans: "same_transcript a b \<Longrightarrow> same_transcript b c \<Longrightarrow> same_transcript a c"
  by (simp add: same_transcript_def)

lemma same_transcript_ok: "same_transcript p q \<Longrightarrow> transcript_ok pre out p \<Longrightarrow> transcript_ok pre out q"
  by (simp add: same_transcript_def transcript_ok_def)

lemma offer_clients:
  assumes "pr_clients p = offered d done @ cs" "distinct (map fst (done @ cs))"
    and "ps_attachedClients (pr_state p) = int (length (pr_clients p))"
  shows "pr_clients (offer d cs p) = offered d (done @ cs) \<and> same_transcript p (offer d cs p) \<and>
    pr_allocated (offer d cs p) = pr_allocated p \<and>
    ps_attachedClients (pr_state (offer d cs p)) = int (length (offered d (done @ cs)))"
  using assms
proof (induction cs arbitrary: p "done")
  case Nil
  then show ?case by simp
next
  case (Cons x cs)
  obtain cid c where x: "x = (cid, c)" by (cases x)
  have notin: "cid \<notin> fst ` set (offered d done)" "cid \<notin> fst ` set cs"
    using Cons.prems(2) x offered_keys [of d "done"] by auto
  have split: "offered d (done @ (cid, c) # cs) = offered d ((done @ [(cid, c)]) @ cs)" by simp
  consider (lossless) "ac_lossless c" | (room) "\<not> ac_lossless c" "length (ac_buffer c) < channel_size"
    | (full) "\<not> ac_lossless c" "\<not> length (ac_buffer c) < channel_size" by blast
  then show ?case
  proof cases
    case lossless
    have "pr_clients p = offered d (done @ [(cid, c)]) @ cs" using lossless Cons.prems(1) x by (simp add: offered_def)
    from Cons.IH [OF this] Cons.prems(2,3) lossless show ?thesis by (simp add: x)
  next
    case room
    let ?q = "p\<lparr>pr_clients := map (\<lambda>(i, x). if i = cid then (i, x\<lparr>ac_buffer := ac_buffer x @ [d]\<rparr>) else (i, x)) (pr_clients p)\<rparr>"
    have id: "\<And>xs. cid \<notin> fst ` set xs \<Longrightarrow>
        map (\<lambda>(i, x). if i = cid then (i, x\<lparr>ac_buffer := ac_buffer x @ [d]\<rparr>) else (i, x)) xs = xs"
      by (rule map_idI) force
    have "pr_clients ?q = offered d (done @ [(cid, c)]) @ cs"
      using room Cons.prems(1) x id [OF notin(1)] id [OF notin(2)] by (simp add: offered_def)
    from Cons.IH [OF this] Cons.prems(2,3) room show ?thesis
      by (simp add: x same_transcript_def)
  next
    case full
    let ?q = "removeClientLocked cid (ac_serial c) p"
    have dist: "distinct (map fst (pr_clients p))"
    proof -
      have "fst ` set (offered d done) \<inter> fst ` set ((cid, c) # cs) = {}"
        using Cons.prems(2) x offered_keys [of d "done"] by (simp add: disjoint_iff) blast
      moreover have "distinct (map fst done)" "distinct (map fst ((cid, c) # cs))"
        using Cons.prems(2) x by simp_all
      ultimately show ?thesis
        using offered_distinct [of "done" d] unfolding Cons.prems(1) x by simp
    qed
    have keep: "filter (\<lambda>(i, y). \<not> (i = cid \<and> ac_serial y = ac_serial c)) xs = xs" if "cid \<notin> fst ` set xs" for xs
      using that by (intro filter_True) force
    have "offered d (done @ [(cid, c)]) = offered d done" using full by (simp add: offered_def)
    then have "pr_clients ?q = offered d (done @ [(cid, c)]) @ cs"
      unfolding removeClientLocked_clients [OF dist] Cons.prems(1) x filter_append
      using keep [OF notin(1)] keep [OF notin(2)] by simp
    moreover have "ps_attachedClients (pr_state ?q) = int (length (pr_clients ?q))"
      using Cons.prems(3) by (auto simp: removeClientLocked_def count_clients_def split: option.splits)
    ultimately show ?thesis
      using Cons.IH [of ?q "done @ [(cid, c)]"] Cons.prems(2) full by (simp add: x same_transcript_def)
  qed
qed

text \<open>What a write leaves of the clients: everyone with room gets the data.\<close>

definition keeps_up :: "string \<times> attach_client \<Rightarrow> bool" where
  "keeps_up x = (ac_lossless (snd x) \<or> length (ac_buffer (snd x)) < channel_size)"

definition receive :: "bytes \<Rightarrow> string \<times> attach_client \<Rightarrow> string \<times> attach_client" where
  "receive d x = (fst x, (snd x)\<lparr>ac_buffer := ac_buffer (snd x) @ [d]\<rparr>)"

lemma receive_simps [simp]:
  "fst (receive d x) = fst x" "ac_serial (snd (receive d x)) = ac_serial (snd x)"
  "ac_lossless (snd (receive d x)) = ac_lossless (snd x)" "ac_output (snd (receive d x)) = ac_output (snd x)"
  "ac_buffer (snd (receive d x)) = ac_buffer (snd x) @ [d]"
  by (simp_all add: receive_def)

lemma offered_alt:
  "offered d cs = map (\<lambda>x. (fst x, if ac_lossless (snd x) then snd x else (snd x)\<lparr>ac_buffer := ac_buffer (snd x) @ [d]\<rparr>))
     (filter keeps_up cs)"
proof -
  have "(\<lambda>(i, c). ac_lossless c \<or> length (ac_buffer c) < channel_size) = keeps_up"
    by (auto simp: fun_eq_iff keeps_up_def)
  then show ?thesis by (simp add: offered_def case_prod_unfold)
qed

lemma offered_receive:
  assumes "distinct (map fst cs)"
  shows "map (\<lambda>(i, x). if i \<in> set (map fst (filter (\<lambda>x. ac_lossless (snd x)) cs)) then (i, x\<lparr>ac_buffer := ac_buffer x @ [d]\<rparr>) else (i, x))
      (offered d cs) = map (receive d) (filter keeps_up cs)"
proof -
  define L where "L = set (map fst (filter (\<lambda>x. ac_lossless (snd x)) cs))"
  have mem: "fst x \<in> L \<longleftrightarrow> ac_lossless (snd x)" if "x \<in> set cs" for x
    using assms that unfolding L_def by (auto simp: distinct_map inj_on_def)
  show ?thesis
    unfolding L_def [symmetric] offered_alt map_map
  proof (rule map_cong [OF refl])
    fix x assume "x \<in> set (filter keeps_up cs)"
    then have "fst x \<in> L \<longleftrightarrow> ac_lossless (snd x)" using mem by simp
    then show "((\<lambda>(i, x). if i \<in> L then (i, x\<lparr>ac_buffer := ac_buffer x @ [d]\<rparr>) else (i, x)) \<circ>
        (\<lambda>x. (fst x, if ac_lossless (snd x) then snd x else (snd x)\<lparr>ac_buffer := ac_buffer (snd x) @ [d]\<rparr>))) x = receive d x"
      by (cases "ac_lossless (snd x)") (simp_all add: receive_def case_prod_unfold)
  qed
qed

lemma write_step:
  assumes tr: "transcript_ok pre out p" and ok: "clients_ok p"
  shows "transcript_ok pre (out @ d) (fst (processOutput_Write full_write d p)) \<and>
    pr_clients (fst (processOutput_Write full_write d p)) = map (receive d) (filter keeps_up (pr_clients p)) \<and>
    pr_allocated (fst (processOutput_Write full_write d p)) = pr_allocated p \<and>
    ps_attachedClients (pr_state (fst (processOutput_Write full_write d p))) = int (length (filter keeps_up (pr_clients p)))"
proof -
  obtain p1 where r: "record_output full_write d p = (p1, None)" and t1: "transcript_ok pre (out @ d) p1"
    using record_output_ok [OF tr] by blast
  note f = record_output_fields [OF r]
  have dist: "distinct (map fst (pr_clients p))" using ok by (simp add: clients_ok_def)
  let ?q = "offer d (pr_clients p1) p1"
  have o: "pr_clients ?q = offered d (pr_clients p) \<and> same_transcript p1 ?q \<and> pr_allocated ?q = pr_allocated p \<and>
      ps_attachedClients (pr_state ?q) = int (length (offered d (pr_clients p)))"
    using offer_clients [of p1 d "[]" "pr_clients p1"] f dist ok by (simp add: clients_ok_def offered_def)
  have "fst (processOutput_Write full_write d p) =
      ?q\<lparr>pr_clients := map (\<lambda>(i, x). if i \<in> set (map fst (filter (\<lambda>x. ac_lossless (snd x)) (pr_clients p)))
        then (i, x\<lparr>ac_buffer := ac_buffer x @ [d]\<rparr>) else (i, x)) (pr_clients ?q)\<rparr>"
    using r f by (simp add: processOutput_Write_def distribute_def)
  then have w: "fst (processOutput_Write full_write d p) = ?q\<lparr>pr_clients := map (receive d) (filter keeps_up (pr_clients p))\<rparr>"
    using o offered_receive [OF dist] by metis
  have "length (offered d (pr_clients p)) = length (filter keeps_up (pr_clients p))"
    by (simp add: offered_alt)
  moreover have "transcript_ok pre (out @ d) ?q" using o t1 same_transcript_ok by blast
  ultimately show ?thesis unfolding w using o by (simp add: transcript_ok_def)
qed

lemma distinct_map_filter_map:
  assumes "distinct (map f cs)" "\<And>x. f (g x) = f x"
  shows "distinct (map f (map g (filter P cs)))"
proof -
  have "map f (map g (filter P cs)) = map f (filter P cs)" using assms(2) by simp
  moreover have "distinct (map f (filter P cs))" using assms(1) by (rule distinct_map_filter)
  ultimately show ?thesis by (simp only:)
qed

lemma write_clients_ok:
  assumes tr: "transcript_ok pre out p" and ok: "clients_ok p"
  shows "clients_ok (fst (processOutput_Write full_write d p))"
proof -
  note w = write_step [OF tr ok, of d]
  have c: "distinct (map fst (pr_clients p))" "distinct (map (ac_serial \<circ> snd) (pr_clients p))"
      "\<forall>x \<in> set (pr_clients p). ac_serial (snd x) < pr_allocated p"
      "\<forall>x \<in> set (pr_clients p). \<not> ac_lossless (snd x) \<longrightarrow> length (ac_buffer (snd x)) \<le> channel_size"
    using ok by (auto simp: clients_ok_def)
  have "distinct (map fst (map (receive d) (filter keeps_up (pr_clients p))))"
    by (rule distinct_map_filter_map [OF c(1)]) simp
  moreover have "distinct (map (ac_serial \<circ> snd) (map (receive d) (filter keeps_up (pr_clients p))))"
    by (rule distinct_map_filter_map [OF c(2)]) simp
  moreover have "\<forall>x \<in> set (map (receive d) (filter keeps_up (pr_clients p))). ac_serial (snd x) < pr_allocated p \<and>
      (\<not> ac_lossless (snd x) \<longrightarrow> length (ac_buffer (snd x)) \<le> channel_size)"
    using c(3) by (auto simp: keeps_up_def)
  ultimately show ?thesis
    using w unfolding clients_ok_def by (simp add: case_prod_unfold)
qed

text \<open>The other events leave the transcript alone.\<close>

lemma stream_take_upd:
  "pr_clients (stream_take cid p) = map (\<lambda>x. if fst x = cid
     then (fst x, case ac_buffer (snd x) of [] \<Rightarrow> snd x | d # ds \<Rightarrow> (snd x)\<lparr>ac_output := ac_output (snd x) @ d, ac_buffer := ds\<rparr>)
     else x) (pr_clients p)"
  by (simp add: stream_take_def case_prod_unfold cong: if_cong)

lemma other_events_transcript:
  "same_transcript p (stream_take cid p)" "same_transcript p (removeClientLocked cid s p)"
  "same_transcript p (fst (foreground_write cid p))" "same_transcript p (fst (closeInput e p))"
  "same_transcript p (fst (Resize resize cid rows cols p))"
  by (auto simp: same_transcript_def stream_take_def foreground_write_def closeInput_def closeInputLocked_def
      Resize_def Let_def)

lemma register_transcript: "same_transcript p (register_client cid r opts p)"
  by (simp add: same_transcript_def register_client_def)

lemma count_transcript [simp]: "same_transcript p (count_clients q) = same_transcript p q"
  by (simp add: same_transcript_def count_clients_def)

lemma openAttach_transcript: "same_transcript p (fst (openAttach resize cid opts p))"
proof -
  have "same_transcript p (p\<lparr>pr_nextClient := n\<rparr>)" "same_transcript p q \<Longrightarrow> same_transcript p (q\<lparr>pr_clientSizes := z\<rparr>)" for n q z
    by (simp_all add: same_transcript_def)
  moreover have "same_transcript p q \<Longrightarrow> same_transcript p (register_client c r opts q)"
      "same_transcript p q \<Longrightarrow> same_transcript p (removeClientLocked c s q)" for q c r s
    using register_transcript other_events_transcript(2) same_transcript_trans by blast+
  ultimately show ?thesis
    by (auto simp: openAttach_def Let_def split: sum.splits option.splits)
qed

text \<open>The clients after an attach: unchanged, or one more with a fresh identity and the replay.\<close>

lemma register_clients_ok:
  assumes ok: "clients_ok p" and fresh: "map_of (pr_clients p) cid = None"
  shows "clients_ok (count_clients ((register_client cid r opts p)\<lparr>pr_clientSizes := z\<rparr>))"
proof -
  have "cid \<notin> fst ` set (pr_clients p)" using fresh by (simp add: map_of_eq_None_iff)
  moreover have "pr_allocated p \<notin> (ac_serial \<circ> snd) ` set (pr_clients p)" using ok by (auto simp: clients_ok_def)
  ultimately show ?thesis
    using ok by (auto simp: clients_ok_def register_client_def count_clients_def)
qed

lemma next_client_ok [simp]: "clients_ok (p\<lparr>pr_nextClient := n\<rparr>) = clients_ok p"
  by (simp add: clients_ok_def)

lemma remove_registered:
  assumes ok: "clients_ok p" and fresh: "map_of (pr_clients p) cid = None"
  shows "pr_clients (removeClientLocked cid (pr_allocated p) ((register_client cid r opts p)\<lparr>pr_clientSizes := z\<rparr>)) = pr_clients p"
    and "clients_ok (removeClientLocked cid (pr_allocated p) ((register_client cid r opts p)\<lparr>pr_clientSizes := z\<rparr>))"
proof -
  let ?q = "(register_client cid r opts p)\<lparr>pr_clientSizes := z\<rparr>"
  let ?r = "removeClientLocked cid (pr_allocated p) ?q"
  have notin: "cid \<notin> fst ` set (pr_clients p)" using fresh by (simp add: map_of_eq_None_iff)
  then have m: "map_of (pr_clients ?q) cid = Some \<lparr>ac_serial = pr_allocated p, ac_output = r, ac_buffer = [],
      ac_lossless = ao_lossless opts, ac_closeInputOnEOF = ao_closeInputOnEOF opts\<rparr>"
    using fresh by (simp add: register_client_def map_add_def)
  have keep: "filter (\<lambda>x. fst x \<noteq> cid) (pr_clients p) = pr_clients p" using notin by (intro filter_True) force
  show c: "pr_clients ?r = pr_clients p"
    using m keep by (simp add: removeClientLocked_def count_clients_def register_client_def)
  have "ps_attachedClients (pr_state ?r) = int (length (pr_clients p))" "pr_allocated ?r = Suc (pr_allocated p)"
    using m keep by (simp_all add: removeClientLocked_def count_clients_def register_client_def)
  with ok c show "clients_ok ?r" by (auto simp: clients_ok_def)
qed

lemma openAttach_cases:
  assumes ok: "clients_ok p" and run: "openAttach resize cid opts p = (q, res)"
  shows "clients_ok q \<and> pr_allocated p \<le> pr_allocated q \<and>
    (pr_clients q = pr_clients p \<or>
     (\<exists>i replay. pr_clients q = pr_clients p @ [(i, \<lparr>ac_serial = pr_allocated p, ac_output = replay, ac_buffer = [],
         ac_lossless = ao_lossless opts, ac_closeInputOnEOF = ao_closeInputOnEOF opts\<rparr>)])) \<and>
    (\<forall>se st i s. res = Inr (se, st) \<longrightarrow> se_client se = Some (i, s) \<longrightarrow>
       s = pr_allocated p \<and> s < pr_allocated q \<and> readTranscriptLocked p = Inr (se_replay se) \<and>
       ps_transcriptTruncated st = ps_transcriptTruncated (pr_state p) \<and>
       (\<exists>c. (i, c) \<in> set (pr_clients q) \<and> ac_serial c = s \<and> ac_output c = se_replay se \<and> ac_buffer c = [] \<and>
          ac_lossless c = ao_lossless opts))"
proof (cases "\<exists>replay. readTranscriptLocked p = Inr replay \<and> live_phase (ps_phase (pr_state p)) \<and>
    map_of (pr_clients p) (first_id cid p) = None")
  case False
  with run ok show ?thesis
    by (auto simp: openAttach_def Let_def split: sum.splits if_splits)
next
  case True
  then obtain replay where rd: "readTranscriptLocked p = Inr replay" "live_phase (ps_phase (pr_state p))"
    and fresh: "map_of (pr_clients p) (first_id cid p) = None" by blast
  define p0 where "p0 = (if cid = [] then p\<lparr>pr_nextClient := Suc (pr_nextClient p)\<rparr> else p)"
  have p0: "clients_ok p0" "pr_clients p0 = pr_clients p" "pr_allocated p0 = pr_allocated p" "pr_state p0 = pr_state p"
    using ok by (simp_all add: p0_def)
  define i where "i = first_id cid p"
  have fresh0: "map_of (pr_clients p0) i = None" using fresh p0 by (simp add: i_def)
  define p1 where "p1 = register_client i replay opts p0"
  define sized where "sized = (ao_rows opts > 0 \<and> ao_columns opts > 0)"
  define z where "z = (if sized then (pr_clientSizes p1)(i \<mapsto> (ao_rows opts, ao_columns opts)) else pr_clientSizes p1)"
  define p2 where "p2 = p1\<lparr>pr_clientSizes := z\<rparr>"
  define failed where "failed = (if sized \<and> pr_foreground p2 = i \<and> pr_terminal p2 then resize (ao_columns opts) (ao_rows opts) else None)"
  have p2_alt: "p2 = (if sized then p1\<lparr>pr_clientSizes := (pr_clientSizes p1)(i \<mapsto> (ao_rows opts, ao_columns opts))\<rparr> else p1)"
    by (simp add: p2_def z_def)
  have run': "(q, res) = (case failed of
      Some e \<Rightarrow> (removeClientLocked i (pr_allocated p0) p2, Inl (EWrap ''set initial PTY size'' e))
    | None \<Rightarrow> (count_clients p2, Inr (\<lparr>se_client = Some (i, pr_allocated p0), se_replay = replay\<rparr>,
        (pr_state p)\<lparr>ps_attachedClients := ps_attachedClients (pr_state (count_clients p2))\<rparr>)))"
    using run [symmetric] rd fresh0
    unfolding openAttach_def Let_def failed_def p2_alt p1_def p0_def i_def sized_def by simp
  have c2: "pr_clients p2 = pr_clients p @ [(i, \<lparr>ac_serial = pr_allocated p, ac_output = replay, ac_buffer = [],
         ac_lossless = ao_lossless opts, ac_closeInputOnEOF = ao_closeInputOnEOF opts\<rparr>)]"
      "pr_allocated p2 = Suc (pr_allocated p)"
    using p0 by (simp_all add: p2_def p1_def register_client_def)
  show ?thesis
  proof (cases failed)
    case (Some e)
    with run' have q: "q = removeClientLocked i (pr_allocated p0) p2" "res = Inl (EWrap ''set initial PTY size'' e)" by simp_all
    have "pr_clients q = pr_clients p" "clients_ok q"
      using remove_registered [OF p0(1) fresh0, where r = replay and opts = opts and z = z] p0 unfolding q(1) p2_def p1_def by simp_all
    moreover have "pr_allocated p \<le> pr_allocated q" unfolding q(1) using c2 by simp
    ultimately show ?thesis using q(2) by simp
  next
    case None
    with run' have q: "q = count_clients p2" "res = Inr (\<lparr>se_client = Some (i, pr_allocated p0), se_replay = replay\<rparr>,
        (pr_state p)\<lparr>ps_attachedClients := ps_attachedClients (pr_state (count_clients p2))\<rparr>)" by simp_all
    have "clients_ok q"
      using register_clients_ok [OF p0(1) fresh0, where r = replay and opts = opts and z = z] unfolding q(1) p2_def p1_def .
    moreover have cl: "pr_clients q = pr_clients p @ [(i, \<lparr>ac_serial = pr_allocated p, ac_output = replay, ac_buffer = [],
         ac_lossless = ao_lossless opts, ac_closeInputOnEOF = ao_closeInputOnEOF opts\<rparr>)]"
        "pr_allocated q = Suc (pr_allocated p)"
      using c2 by (simp_all add: q(1) count_clients_def)
    moreover have "(i, \<lparr>ac_serial = pr_allocated p, ac_output = replay, ac_buffer = [],
         ac_lossless = ao_lossless opts, ac_closeInputOnEOF = ao_closeInputOnEOF opts\<rparr>) \<in> set (pr_clients q)"
      unfolding cl(1) by simp
    ultimately show ?thesis
      unfolding q(2) using rd(1) p0(3)
      by (intro conjI allI impI) (fastforce+)
  qed
qed

text \<open>A map on the clients that keeps IDs, identities and short channels.\<close>

lemma map_clients_ok:
  assumes ok: "clients_ok p" and cs: "pr_clients q = map f (pr_clients p)"
    and st: "pr_state q = pr_state p" "pr_allocated q = pr_allocated p"
    and f: "\<And>x. fst (f x) = fst x \<and> ac_serial (snd (f x)) = ac_serial (snd x) \<and> ac_lossless (snd (f x)) = ac_lossless (snd x) \<and>
      length (ac_buffer (snd (f x))) \<le> length (ac_buffer (snd x))"
  shows "clients_ok q"
proof -
  have "map fst (map f (pr_clients p)) = map fst (pr_clients p)"
    "map (ac_serial \<circ> snd) (map f (pr_clients p)) = map (ac_serial \<circ> snd) (pr_clients p)"
    using f by simp_all
  moreover have "ac_serial (snd (f y)) < pr_allocated p \<and>
      (\<not> ac_lossless (snd (f y)) \<longrightarrow> length (ac_buffer (snd (f y))) \<le> channel_size)" if "y \<in> set (pr_clients p)" for y
    using ok that f [of y] unfolding clients_ok_def case_prod_unfold by (metis order_trans)
  ultimately show ?thesis
    using ok unfolding clients_ok_def cs st case_prod_unfold by (simp del: map_map map_eq_conv)
qed

lemma proc_event_ok:
  assumes tr: "transcript_ok pre out p" and ok: "clients_ok p"
  shows "transcript_ok pre (out @ written [ev]) (proc_event resize ev p) \<and> clients_ok (proc_event resize ev p) \<and>
    pr_allocated p \<le> pr_allocated (proc_event resize ev p)"
proof (cases ev)
  case (EvWrite d)
  with write_step [OF tr ok, of d] write_clients_ok [OF tr ok, of d] show ?thesis by simp
next
  case (EvTake cid)
  have "clients_ok (stream_take cid p)"
    by (rule map_clients_ok [OF ok stream_take_upd]) (auto simp: stream_take_def split: list.splits)
  with EvTake tr same_transcript_ok [OF other_events_transcript(1)] show ?thesis by (simp add: stream_take_def)
next
  case (EvLeave cid s)
  with tr ok same_transcript_ok [OF other_events_transcript(2)] removeClientLocked_ok show ?thesis by simp
next
  case (EvAttach cid opts)
  obtain q res where "openAttach resize cid opts p = (q, res)" by fastforce
  with EvAttach tr openAttach_cases [OF ok this] same_transcript_ok [OF openAttach_transcript, of pre out p resize cid opts]
  show ?thesis by simp
next
  case (EvInput cid)
  with tr ok same_transcript_ok [OF other_events_transcript(3)] show ?thesis
    by (simp add: foreground_write_def clients_ok_def)
next
  case EvCloseInput
  with tr ok same_transcript_ok [OF other_events_transcript(4)] show ?thesis
    by (simp add: closeInput_def closeInputLocked_def clients_ok_def)
next
  case (EvResize cid rows cols)
  with tr ok same_transcript_ok [OF other_events_transcript(5)] show ?thesis
    by (simp add: Resize_def clients_ok_def Let_def)
qed

lemma proc_run_ok:
  assumes "transcript_ok pre out p" "clients_ok p"
  shows "transcript_ok pre (out @ written evs) (proc_run resize evs p) \<and> clients_ok (proc_run resize evs p)"
  using assms
proof (induction evs arbitrary: p out)
  case Nil
  then show ?case by (simp add: proc_run_def)
next
  case (Cons ev evs)
  note step = proc_event_ok [OF Cons.prems, of ev resize]
  have "written (ev # evs) = written [ev] @ written evs" using written_append [of "[ev]" evs] by simp
  with Cons.IH [of "out @ written [ev]" "proc_event resize ev p"] step show ?case by (simp add: proc_run_def)
qed

lemma record_output_max: "pr_max (fst (record_output wr d p)) = pr_max p"
  using record_output_fields [of wr d p] by (cases "record_output wr d p") auto

lemma proc_event_max:
  assumes "transcript_ok pre out p" "clients_ok p"
  shows "pr_max (proc_event resize ev p) = pr_max p"
proof (cases ev)
  case (EvWrite d)
  obtain p1 where r: "record_output full_write d p = (p1, None)" using record_output_ok [OF assms(1)] by blast
  note f = record_output_fields [OF r]
  have "same_transcript p1 (offer d (pr_clients p1) p1)"
    using offer_clients [of p1 d "[]" "pr_clients p1"] f assms(2) by (simp add: clients_ok_def offered_def)
  with EvWrite r f show ?thesis
    by (simp add: processOutput_Write_def distribute_def same_transcript_def)
next
  case (EvAttach cid opts)
  with openAttach_transcript [of p resize cid opts] show ?thesis by (simp add: same_transcript_def)
qed (use other_events_transcript in \<open>auto simp: same_transcript_def\<close>)

lemma proc_run_max:
  "transcript_ok pre out p \<Longrightarrow> clients_ok p \<Longrightarrow> pr_max (proc_run resize evs p) = pr_max p"
proof (induction evs arbitrary: p out)
  case (Cons ev evs)
  note step = proc_event_ok [OF Cons.prems, of ev resize]
  have "pr_max (proc_run resize evs (proc_event resize ev p)) = pr_max (proc_event resize ev p)"
    using step by (intro Cons.IH) auto
  with proc_event_max [OF Cons.prems, of resize ev] show ?case by (simp add: proc_run_def)
qed (simp add: proc_run_def)

text \<open>What one client has seen and will see of its channel.\<close>

definition sees :: "nat \<Rightarrow> bytes \<Rightarrow> sprocess \<Rightarrow> bool" where
  "sees s W p \<longleftrightarrow> (\<forall>x \<in> set (pr_clients p). ac_serial (snd x) = s \<longrightarrow> ac_output (snd x) @ concat (ac_buffer (snd x)) = W)"

definition attached :: "nat \<Rightarrow> sprocess \<Rightarrow> bool" where
  "attached s p \<longleftrightarrow> (\<exists>x \<in> set (pr_clients p). ac_serial (snd x) = s \<and> ac_lossless (snd x))"

lemma proc_event_sees:
  assumes tr: "transcript_ok pre out p" and ok: "clients_ok p" and s: "s < pr_allocated p" and sees: "sees s W p"
  shows "sees s (W @ written [ev]) (proc_event resize ev p)"
proof (cases ev)
  case (EvWrite d)
  with write_step [OF tr ok, of d] sees show ?thesis by (auto simp: sees_def)
next
  case (EvTake cid)
  with sees show ?thesis by (auto simp: sees_def stream_take_upd split: list.splits)
next
  case (EvLeave cid s')
  have "set (pr_clients (removeClientLocked cid s' p)) \<subseteq> set (pr_clients p)"
    using ok by (subst removeClientLocked_clients) (auto simp: clients_ok_def)
  with EvLeave sees show ?thesis by (auto simp: sees_def)
next
  case (EvAttach cid opts)
  obtain q res where "openAttach resize cid opts p = (q, res)" by fastforce
  with EvAttach openAttach_cases [OF ok this] sees s show ?thesis by (auto simp: sees_def)
qed (use sees in \<open>auto simp: sees_def foreground_write_def closeInput_def closeInputLocked_def Resize_def Let_def\<close>)

lemma proc_event_attached:
  assumes tr: "transcript_ok pre out p" and ok: "clients_ok p" and at: "attached s p" and ev: "\<forall>cid. ev \<noteq> EvLeave cid s"
  shows "attached s (proc_event resize ev p)"
proof (cases ev)
  case (EvWrite d)
  obtain x where x: "x \<in> set (pr_clients p)" "ac_serial (snd x) = s" "ac_lossless (snd x)"
    using at by (auto simp: attached_def)
  then have "receive d x \<in> set (pr_clients (proc_event resize ev p))"
    using EvWrite write_step [OF tr ok, of d] by (simp add: keeps_up_def)
  with x show ?thesis unfolding attached_def by (intro bexI [of _ "receive d x"]) simp_all
next
  case (EvTake cid)
  obtain x where x: "x \<in> set (pr_clients p)" "ac_serial (snd x) = s" "ac_lossless (snd x)"
    using at by (auto simp: attached_def)
  show ?thesis unfolding EvTake proc_event.simps attached_def stream_take_upd
    by (rule bexI [OF _ imageI [OF x(1), unfolded set_map [symmetric]]]) (use x in \<open>auto split: list.splits\<close>)
next
  case (EvLeave cid s')
  with ev have "s' \<noteq> s" by auto
  moreover obtain x where x: "x \<in> set (pr_clients p)" "ac_serial (snd x) = s" "ac_lossless (snd x)"
    using at by (auto simp: attached_def)
  ultimately have "x \<in> set (pr_clients (removeClientLocked cid s' p))"
    using ok by (subst removeClientLocked_clients) (auto simp: clients_ok_def)
  with EvLeave x show ?thesis by (auto simp: attached_def)
next
  case (EvAttach cid opts)
  obtain q res where "openAttach resize cid opts p = (q, res)" by fastforce
  with EvAttach openAttach_cases [OF ok this] at show ?thesis by (auto simp: attached_def)
qed (use at in \<open>auto simp: attached_def foreground_write_def closeInput_def closeInputLocked_def Resize_def Let_def\<close>)

lemma proc_run_sees:
  assumes "transcript_ok pre out p" "clients_ok p" "s < pr_allocated p" "sees s W p"
  shows "sees s (W @ written evs) (proc_run resize evs p) \<and>
    ((\<forall>cid. EvLeave cid s \<notin> set evs) \<and> attached s p \<longrightarrow> attached s (proc_run resize evs p))"
  using assms
proof (induction evs arbitrary: p out W)
  case Nil
  then show ?case by (simp add: proc_run_def)
next
  case (Cons ev evs)
  note ok = proc_event_ok [OF Cons.prems(1,2), of ev resize] and se = proc_event_sees [OF Cons.prems, of ev resize]
  have "written (ev # evs) = written [ev] @ written evs" using written_append [of "[ev]" evs] by simp
  moreover have "(\<forall>cid. EvLeave cid s \<notin> set (ev # evs)) \<and> attached s p \<Longrightarrow> attached s (proc_event resize ev p)"
    using proc_event_attached [OF Cons.prems(1,2), of s ev resize] by (metis list.set_intros(1))
  ultimately show ?case
    using Cons.IH [of "out @ written [ev]" "proc_event resize ev p" "W @ written [ev]"] ok se Cons.prems(3)
    by (auto simp: proc_run_def)
qed

section \<open>Properties\<close>


definition sample_process :: sprocess where
  "sample_process = \<lparr>pr_state = \<lparr>ps_id = ''p'', ps_uid = ''u'', ps_phase = phaseRunning, ps_pid = 7, ps_exitCode = None,
       ps_reason = [], ps_attachedClients = 0, ps_transcriptTruncated = False\<rparr>,
     pr_terminal = False, pr_hasInput = True, pr_inputClosed = False, pr_stopRequested = False, pr_clients = [],
     pr_clientSizes = Map.empty, pr_nextClient = 0, pr_allocated = 0, pr_foreground = [], pr_transcript = [],
     pr_transcriptOpen = True, pr_transcriptRemoved = False, pr_max = 4, pr_len = 0, pr_truncated = False,
     pr_completedAt = None, pr_startedAt = None\<rparr>"

lemma sample_process_ok: "transcript_ok [] [] sample_process" "clients_ok sample_process"
  by (simp_all add: transcript_ok_def clients_ok_def sample_process_def recorded_def overflows_def)


text \<open>C17: A client that attaches sees the process output without gaps or repetitions: what its connection has
  received, followed by what waits in its channel, is the replay of the recorded output followed by
  everything written since, for as long as it stays attached. A lossless client stays attached until it
  leaves by itself. The state returned with the attach says exactly whether the replay is complete.\<close>

theorem attach_sees_all_output:
  assumes start: "transcript_ok [] [] p" "clients_ok p"
    and attach: "openAttach resize cid opts (proc_run resize evs p) = (q, Inr (se, st))" "se_client se = Some (i, s)"
    and stays: "\<forall>c. EvLeave c s \<notin> set evs'"
  shows "(\<forall>x \<in> set (pr_clients (proc_run resize evs' q)). ac_serial (snd x) = s \<longrightarrow>
       ac_output (snd x) @ concat (ac_buffer (snd x)) = recorded (pr_max p) [] (written evs) @ written evs') \<and>
    (ao_lossless opts \<longrightarrow> (\<exists>x \<in> set (pr_clients (proc_run resize evs' q)). ac_serial (snd x) = s)) \<and>
    (\<not> ps_transcriptTruncated st \<longleftrightarrow> recorded (pr_max p) [] (written evs) = written evs)"
proof -
  let ?r = "proc_run resize evs p"
  have ok: "transcript_ok [] (written evs) ?r" "clients_ok ?r" using proc_run_ok [OF start, of evs resize] by simp_all
  have max: "pr_max ?r = pr_max p" by (rule proc_run_max [OF start])
  have rd: "readTranscriptLocked ?r = Inr (recorded (pr_max p) [] (written evs))"
    using ok max by (auto simp: readTranscriptLocked_def readWholeTranscriptLocked_def transcript_ok_def)
  note c = openAttach_cases [OF ok(2) attach(1)]
  then obtain x where x: "x \<in> set (pr_clients q)" "ac_serial (snd x) = s" "ac_output (snd x) = se_replay se" "ac_buffer (snd x) = []"
      "ac_lossless (snd x) = ao_lossless opts" and s: "s < pr_allocated q" and replay: "se_replay se = recorded (pr_max p) [] (written evs)"
    and st: "ps_transcriptTruncated st = ps_transcriptTruncated (pr_state ?r)"
    using attach(2) rd by fastforce
  have okq: "transcript_ok [] (written evs) q" "clients_ok q"
    using same_transcript_ok [OF openAttach_transcript ok(1), of resize cid opts] attach(1) c by simp_all
  have "sees s (se_replay se) q"
    using x(1-4) okq(2) unfolding sees_def
    by (auto simp: clients_ok_def distinct_map inj_on_def)
  from proc_run_sees [OF okq s this, of evs' resize] stays x
  have "sees s (se_replay se @ written evs') (proc_run resize evs' q)"
    "ao_lossless opts \<longrightarrow> attached s (proc_run resize evs' q)"
    by (auto simp: attached_def)
  moreover have "\<not> ps_transcriptTruncated st \<longleftrightarrow> recorded (pr_max p) [] (written evs) = written evs"
    using ok(1) max st by (auto simp: transcript_ok_def overflows_def recorded_def)
  ultimately show ?thesis using replay by (auto simp: sees_def attached_def)
qed

definition lossless_options :: attach_options where
  "lossless_options = \<lparr>ao_rows = 0, ao_columns = 0, ao_lossless = True, ao_closeInputOnEOF = False\<rparr>"

lemma nat_digits_0: "nat_digits 0 = ''0''"
  by code_simp

lemma sample_attach:
  "\<exists>q se st. openAttach (\<lambda>c r. None) [] lossless_options (proc_run (\<lambda>c r. None) [EvWrite ''abc''] sample_process) =
     (q, Inr (se, st)) \<and> se_client se = Some (''client-0'', 0)"
  by (simp add: openAttach_def proc_run_def processOutput_Write_def distribute_def record_output_def full_write_def
      bounded_part_def sample_process_def readTranscriptLocked_def readWholeTranscriptLocked_def live_phase_def
      first_id_def nat_digits_0 lossless_options_def register_client_def count_clients_def Let_def)

theorem attach_sees_all_output_witness:
  "\<exists>q se st. openAttach (\<lambda>c r. None) [] lossless_options (proc_run (\<lambda>c r. None) [EvWrite ''abc''] sample_process) =
     (q, Inr (se, st)) \<and>
     (\<exists>x \<in> set (pr_clients (proc_run (\<lambda>c r. None) [EvWrite ''def'', EvTake ''client-0''] q)).
        ac_output (snd x) @ concat (ac_buffer (snd x)) = ''abcdef'')"
proof -
  obtain q se st where a: "openAttach (\<lambda>c r. None) [] lossless_options (proc_run (\<lambda>c r. None) [EvWrite ''abc''] sample_process) =
     (q, Inr (se, st))" "se_client se = Some (''client-0'', 0)" using sample_attach by blast
  have "\<forall>c. EvLeave c 0 \<notin> set [EvWrite ''def'', EvTake ''client-0'']" by simp
  from attach_sees_all_output [OF sample_process_ok a this] a(1) show ?thesis
    by (auto simp: lossless_options_def recorded_def room_def sample_process_def)
qed

text \<open>The supervisor's bookkeeping of attached clients is consistent through any events: client IDs are
  unique, the published number of attached clients is the number of clients, and no client that may
  drop output ever holds more than one full channel of it, so a stuck client costs bounded memory.\<close>

theorem attached_clients_consistent:
  assumes "transcript_ok pre out p" "clients_ok p"
  shows "distinct (map fst (pr_clients (proc_run resize evs p))) \<and>
    ps_attachedClients (pr_state (proc_run resize evs p)) = int (length (pr_clients (proc_run resize evs p))) \<and>
    (\<forall>x \<in> set (pr_clients (proc_run resize evs p)). \<not> ac_lossless (snd x) \<longrightarrow> length (ac_buffer (snd x)) \<le> 128)"
  using proc_run_ok [OF assms, of evs resize] by (auto simp: clients_ok_def channel_size_def)

theorem attached_clients_consistent_witness:
  "ps_attachedClients (pr_state (proc_run (\<lambda>c r. None) [EvAttach [] lossless_options, EvWrite ''x''] sample_process)) =
   int (length (pr_clients (proc_run (\<lambda>c r. None) [EvAttach [] lossless_options, EvWrite ''x''] sample_process)))"
  using attached_clients_consistent [OF sample_process_ok] by blast

end
