(* ===== verification/SupervisorHistory.thy ===== *)
theory SupervisorHistory
  imports SupervisorProcess WorkspaceRetention
begin

text \<open>
  The durable process records of rc-kube (\<^verbatim>\<open>internal/rckube/history.go\<close>): recovery after a restart,
  inspection, listing and pruning; the transcript scope (\<^verbatim>\<open>transcript_scope.go\<close>) and the run history of
  resident services (\<^verbatim>\<open>services.go\<close>). The state directory holds one directory per process ID with
  the owner's UID, the record and the transcript; \<open>io\<close> gives the error of removing or writing below a
  directory, None when the disk is healthy.
\<close>

section \<open>State directory\<close>

record history_entry =
  he_state :: pstate
  he_command :: "string list"
  he_workingDirectory :: string
  he_tty :: bool
  he_startedAt :: "time option"
  he_completedAt :: "time option"

text \<open>The contents of a record file: a decodable entry or text that does not decode.\<close>

datatype record_file = Entry history_entry | Garbled

record process_dir =
  dd_owner :: "string option"
  dd_record :: "record_file option"
  dd_transcript :: "bytes option"

type_synonym state_dir = "(string \<times> process_dir) list"

text \<open>A process the supervisor owns, with what its record needs.\<close>

record owned_process =
  op_proc :: sprocess
  op_command :: "string list"
  op_workingDirectory :: string
  op_tty :: bool
  op_runtimeDir :: string
  op_credentialLinks :: "string list"
  op_agentCredentialLink :: string

definition phaseLost :: string where "phaseLost = ''Lost''"
definition reasonSupervisorRestarted :: string where "reasonSupervisorRestarted = ''SupervisorRestarted''"

definition historyTerminal :: "string \<Rightarrow> bool" where
  "historyTerminal phase = (phase = phaseExited \<or> phase = phaseStopped \<or> phase = phaseLost)"

definition live_entry :: "owned_process \<Rightarrow> history_entry" where
  "live_entry o' = \<lparr>he_state = pr_state (op_proc o'), he_command = op_command o', he_workingDirectory = op_workingDirectory o',
     he_tty = op_tty o', he_startedAt = pr_startedAt (op_proc o'), he_completedAt = pr_completedAt (op_proc o')\<rparr>"

abbreviation he_id :: "history_entry \<Rightarrow> string" where "he_id e \<equiv> ps_id (he_state e)"
abbreviation he_phase :: "history_entry \<Rightarrow> string" where "he_phase e \<equiv> ps_phase (he_state e)"

text \<open>\<^verbatim>\<open>writeRecord\<close>: the process directory has to exist; the rename replaces the record at once.\<close>

definition set_dir :: "string \<Rightarrow> (process_dir \<Rightarrow> process_dir) \<Rightarrow> state_dir \<Rightarrow> state_dir" where
  "set_dir pid f dirs = map (\<lambda>(i, d). if i = pid then (i, f d) else (i, d)) dirs"

definition writeRecord :: "(string \<Rightarrow> err option) \<Rightarrow> history_entry \<Rightarrow> state_dir \<Rightarrow> state_dir \<times> err option" where
  "writeRecord io entry dirs =
     (case io (he_id entry) of
        Some e \<Rightarrow> (dirs, Some (EWrap ''write process record'' e))
      | None \<Rightarrow>
          if map_of dirs (he_id entry) = None then (dirs, Some (EWrap ''write process record'' ENotFound))
          else (set_dir (he_id entry) (\<lambda>d. d\<lparr>dd_record := Some (Entry entry)\<rparr>) dirs, None))"

definition recordLocked :: "(string \<Rightarrow> err option) \<Rightarrow> owned_process \<Rightarrow> state_dir \<Rightarrow> state_dir \<times> err option" where
  "recordLocked io o' dirs =
     (let entry = live_entry o'
      in writeRecord io (entry\<lparr>he_state := (he_state entry)\<lparr>ps_attachedClients := 0\<rparr>\<rparr>) dirs)"

definition readRecord :: "process_dir \<Rightarrow> history_entry option result" where
  "readRecord d = (case dd_record d of
     None \<Rightarrow> Inr None | Some Garbled \<Rightarrow> Inl (EMsg ''decode process record'') | Some (Entry e) \<Rightarrow> Inr (Some e))"

fun readRecords :: "state_dir \<Rightarrow> history_entry list result" where
  "readRecords [] = Inr []"
| "readRecords ((i, d) # dirs) =
     (case readRecord d of
        Inl e \<Rightarrow> Inl e
      | Inr found \<Rightarrow>
          (case readRecords dirs of
             Inl e \<Rightarrow> Inl e
           | Inr rs \<Rightarrow> Inr (case found of Some r \<Rightarrow> r # rs | None \<Rightarrow> rs)))"

section \<open>Recovery and inspection\<close>

definition lost :: "time \<Rightarrow> history_entry \<Rightarrow> history_entry" where
  "lost now r = r\<lparr>he_state := (he_state r)\<lparr>ps_phase := phaseLost, ps_reason := reasonSupervisorRestarted, ps_pid := 0\<rparr>,
                  he_completedAt := Some now\<rparr>"

fun mark_lost :: "(string \<Rightarrow> err option) \<Rightarrow> time \<Rightarrow> history_entry list \<Rightarrow> state_dir \<Rightarrow> state_dir \<times> err option" where
  "mark_lost io now [] dirs = (dirs, None)"
| "mark_lost io now (r # rs) dirs =
     (if historyTerminal (he_phase r) then mark_lost io now rs dirs
      else (case writeRecord io (lost now r) dirs of
              (dirs', Some e) \<Rightarrow> (dirs', Some e)
            | (dirs', None) \<Rightarrow> mark_lost io now rs dirs'))"

definition RecoverHistory :: "(string \<Rightarrow> err option) \<Rightarrow> time \<Rightarrow> state_dir \<Rightarrow> state_dir \<times> err option" where
  "RecoverHistory io now dirs =
     (case readRecords dirs of Inl e \<Rightarrow> (dirs, Some e) | Inr rs \<Rightarrow> mark_lost io now rs dirs)"

text \<open>\<open>unsafe_segment\<close> is the test that an ID is not one path segment (\<^verbatim>\<open>filepath.Base(id) != id\<close>, dot or dot-dot).\<close>

definition unsafe_segment :: "string \<Rightarrow> bool" where
  "unsafe_segment s = (s = [] \<or> (CHR ''/'' \<in> set s \<and> s \<noteq> ''/'') \<or> s = ''.'' \<or> s = ''..'')"

definition inspectRecord :: "string \<Rightarrow> state_dir \<Rightarrow> pstate result" where
  "inspectRecord pid dirs =
     (if unsafe_segment pid then Inl EProcessNotFound
      else (case map_of dirs pid of
              None \<Rightarrow> Inl EProcessNotFound
            | Some d \<Rightarrow>
                (case readRecord d of
                   Inl e \<Rightarrow> Inl e
                 | Inr None \<Rightarrow> Inl EProcessNotFound
                 | Inr (Some r) \<Rightarrow>
                     if he_phase r \<noteq> phaseExited \<and> he_phase r \<noteq> phaseStopped then Inl EProcessNotFound
                     else Inr (he_state r))))"

type_synonym processes = "(string \<times> owned_process) list"

definition Inspect :: "processes \<Rightarrow> state_dir \<Rightarrow> string \<Rightarrow> pstate result" where
  "Inspect ps dirs pid = (case map_of ps pid of Some o' \<Rightarrow> Inr (pr_state (op_proc o')) | None \<Rightarrow> inspectRecord pid dirs)"

section \<open>Listing and pruning\<close>

text \<open>\<^verbatim>\<open>compareTimes\<close> orders nil before every time.\<close>

definition compareTimes :: "time option \<Rightarrow> time option \<Rightarrow> int" where
  "compareTimes l r = (case (l, r) of
      (None, None) \<Rightarrow> 0 | (None, Some _) \<Rightarrow> -1 | (Some _, None) \<Rightarrow> 1
    | (Some a, Some b) \<Rightarrow> if a < b then -1 else if b < a then 1 else 0)"

definition list_before :: "history_entry \<Rightarrow> history_entry \<Rightarrow> bool" where
  "list_before l r =
     (let order = compareTimes (he_startedAt r) (he_startedAt l)
      in if order \<noteq> 0 then order < 0 else he_id l \<le> he_id r)"

fun insert_by :: "('a \<Rightarrow> 'a \<Rightarrow> bool) \<Rightarrow> 'a \<Rightarrow> 'a list \<Rightarrow> 'a list" where
  "insert_by le x [] = [x]"
| "insert_by le x (y # ys) = (if le x y then x # y # ys else y # insert_by le x ys)"

definition sort_by :: "('a \<Rightarrow> 'a \<Rightarrow> bool) \<Rightarrow> 'a list \<Rightarrow> 'a list" where
  "sort_by le xs = foldr (insert_by le) xs []"

text \<open>A live process replaces the record of its ID at the index the directory scan gave it.\<close>

definition overlay :: "string \<times> owned_process \<Rightarrow> history_entry list \<Rightarrow> history_entry list" where
  "overlay x rs =
     (if fst x \<in> set (map he_id rs)
      then map (\<lambda>r. if he_id r = fst x then live_entry (snd x) else r) rs
      else rs @ [live_entry (snd x)])"

definition List_history :: "processes \<Rightarrow> state_dir \<Rightarrow> history_entry list result" where
  "List_history ps dirs =
     (case readRecords dirs of Inl e \<Rightarrow> Inl e | Inr rs \<Rightarrow> Inr (sort_by list_before (fold overlay ps rs)))"

definition prunable :: "(string \<Rightarrow> bool) option \<Rightarrow> processes \<Rightarrow> history_entry \<Rightarrow> bool" where
  "prunable matches ps r =
     (if \<not> historyTerminal (he_phase r) \<or> he_completedAt r = None \<or> (case matches of Some m \<Rightarrow> \<not> m (he_id r) | None \<Rightarrow> False)
      then False
      else (case map_of ps (he_id r) of Some o' \<Rightarrow> historyTerminal (ps_phase (pr_state (op_proc o'))) | None \<Rightarrow> True))"

definition newer :: "history_entry \<Rightarrow> history_entry \<Rightarrow> bool" where
  "newer l r = (compareTimes (he_completedAt r) (he_completedAt l) \<le> 0)"

fun prune_each ::
  "(string \<Rightarrow> err option) \<Rightarrow> history_policy \<Rightarrow> time \<Rightarrow> nat \<Rightarrow> history_entry list \<Rightarrow> state_dir \<Rightarrow> processes \<Rightarrow> nat \<Rightarrow>
   state_dir \<times> processes \<times> nat \<times> err option" where
  "prune_each io policy now index [] dirs ps removed = (dirs, ps, removed, None)"
| "prune_each io policy now index (r # rs) dirs ps removed =
     (let age = int now - int (stamp (he_completedAt r));
          expired = (hp_ttlAfterFinished policy > 0 \<and> age > hp_ttlAfterFinished policy);
          overflow = (hp_maxEntries policy > 0 \<and> int index \<ge> hp_maxEntries policy)
      in if expired \<or> overflow then
           (case io (he_id r) of
              Some e \<Rightarrow> (dirs, ps, removed, Some (EWrap ''remove process history'' e))
            | None \<Rightarrow> prune_each io policy now (Suc index) rs (filter (\<lambda>x. fst x \<noteq> he_id r) dirs)
                        (filter (\<lambda>x. fst x \<noteq> he_id r) ps) (Suc removed))
         else if hp_transcriptTTL policy > 0 \<and> age > hp_transcriptTTL policy then
           (case io (he_id r) of
              Some e \<Rightarrow> if err_is ENotFound e then prune_each io policy now (Suc index) rs dirs ps removed
                        else (dirs, ps, removed, Some (EWrap ''remove process transcript'' e))
            | None \<Rightarrow> prune_each io policy now (Suc index) rs (set_dir (he_id r) (\<lambda>d. d\<lparr>dd_transcript := None\<rparr>) dirs) ps removed)
         else prune_each io policy now (Suc index) rs dirs ps removed)"

definition pruneHistory ::
  "(string \<Rightarrow> err option) \<Rightarrow> history_policy \<Rightarrow> time \<Rightarrow> (string \<Rightarrow> bool) option \<Rightarrow> state_dir \<Rightarrow> processes \<Rightarrow>
   state_dir \<times> processes \<times> nat \<times> err option" where
  "pruneHistory io policy now matches dirs ps =
     (if hp_ttlAfterFinished policy \<le> 0 \<and> hp_maxEntries policy \<le> 0 \<and> hp_transcriptTTL policy \<le> 0 then (dirs, ps, 0, None)
      else (case readRecords dirs of
              Inl e \<Rightarrow> (dirs, ps, 0, Some e)
            | Inr rs \<Rightarrow> prune_each io policy now 0 (sort_by newer (filter (prunable matches ps) rs)) dirs ps 0))"

section \<open>Service runs and the transcript scope\<close>

definition serviceIDPrefix :: string where "serviceIDPrefix = ''service_''"
definition serviceRunHistory :: int where "serviceRunHistory = 5"

definition service_run_id :: "(time \<Rightarrow> string) \<Rightarrow> string \<Rightarrow> time \<Rightarrow> string" where
  "service_run_id format name now = serviceIDPrefix @ name @ ''_'' @ format now"

definition pruneServiceRuns ::
  "(string \<Rightarrow> err option) \<Rightarrow> time \<Rightarrow> string \<Rightarrow> state_dir \<Rightarrow> processes \<Rightarrow> state_dir \<times> processes" where
  "pruneServiceRuns io now name dirs ps =
     (let prefix = serviceIDPrefix @ name @ ''_'';
          policy = \<lparr>hp_ttlAfterFinished = 0, hp_maxEntries = serviceRunHistory, hp_transcriptTTL = 0\<rparr>
      in case pruneHistory io policy now (Some (has_prefix prefix)) dirs ps of (dirs', ps', _, _) \<Rightarrow> (dirs', ps'))"

text \<open>\<^verbatim>\<open>PrepareTranscriptScope\<close>: \<open>marker\<close> is the content of the scope file (empty when absent).\<close>

fun remove_inherited :: "(string \<Rightarrow> err option) \<Rightarrow> state_dir \<Rightarrow> state_dir \<times> err option" where
  "remove_inherited io [] = ([], None)"
| "remove_inherited io ((i, d) # dirs) =
     (case io i of
        Some e \<Rightarrow> ((i, d) # dirs, Some (EWrap ''remove inherited transcript'' e))
      | None \<Rightarrow> (case remove_inherited io dirs of
                   (dirs', e) \<Rightarrow> ((i, d\<lparr>dd_transcript := None, dd_record := None\<rparr>) # dirs', e)))"

definition PrepareTranscriptScope ::
  "(string \<Rightarrow> err option) \<Rightarrow> string \<Rightarrow> string \<Rightarrow> state_dir \<Rightarrow> string \<times> state_dir \<times> err option" where
  "PrepareTranscriptScope io scope marker dirs =
     (if scope = [] \<or> marker = scope then (marker, dirs, None)
      else if marker \<noteq> [] then
        (case remove_inherited io dirs of
           (dirs', Some e) \<Rightarrow> (marker, dirs', Some e)
         | (dirs', None) \<Rightarrow> (scope, dirs', None))
      else (scope, dirs, None))"

section \<open>Lemmas\<close>

text \<open>A healthy disk, and state directories as the supervisor writes them.\<close>

definition healthy :: "string \<Rightarrow> err option" where
  "healthy pid = None"

definition dirs_ok :: "state_dir \<Rightarrow> bool" where
  "dirs_ok dirs \<longleftrightarrow> distinct (map fst dirs) \<and>
     (\<forall>(i, d) \<in> set dirs. dd_record d \<noteq> Some Garbled \<and> (\<forall>r. dd_record d = Some (Entry r) \<longrightarrow> he_id r = i))"

fun dir_entry :: "string \<times> process_dir \<Rightarrow> history_entry list" where
  "dir_entry (i, d) = (case dd_record d of Some (Entry r) \<Rightarrow> [r] | _ \<Rightarrow> [])"

definition entries :: "state_dir \<Rightarrow> history_entry list" where
  "entries dirs = concat (map dir_entry dirs)"

lemma entries_simps [simp]: "entries [] = []" "entries (x # dirs) = dir_entry x @ entries dirs"
  by (simp_all add: entries_def)

lemma dirs_ok_Cons: "dirs_ok ((i, d) # dirs) \<longleftrightarrow> i \<notin> fst ` set dirs \<and> dd_record d \<noteq> Some Garbled \<and>
    (\<forall>r. dd_record d = Some (Entry r) \<longrightarrow> he_id r = i) \<and> dirs_ok dirs"
  by (auto simp: dirs_ok_def)

lemma readRecords_entries: "dirs_ok dirs \<Longrightarrow> readRecords dirs = Inr (entries dirs)"
proof (induction dirs)
  case (Cons x dirs)
  obtain i d where x: "x = (i, d)" by (cases x)
  with Cons have "readRecords dirs = Inr (entries dirs)" "dd_record d \<noteq> Some Garbled" by (simp_all add: dirs_ok_Cons)
  then show ?case
    by (auto simp: x readRecord_def split: option.splits record_file.splits)
qed simp

lemma dir_entry_mem: "r \<in> set (dir_entry x) \<longleftrightarrow> dd_record (snd x) = Some (Entry r)"
  by (cases x) (auto split: option.splits record_file.splits)

lemma set_entries: "r \<in> set (entries dirs) \<longleftrightarrow> (\<exists>i d. (i, d) \<in> set dirs \<and> dd_record d = Some (Entry r))"
  by (force simp: entries_def dir_entry_mem)

lemma entries_id: "dirs_ok dirs \<Longrightarrow> r \<in> set (entries dirs) \<Longrightarrow> he_id r \<in> fst ` set dirs"
  by (force simp: set_entries dirs_ok_def)

lemma entries_record:
  assumes ok: "dirs_ok dirs" and "(he_id r, d) \<in> set dirs" "r \<in> set (entries dirs)"
  shows "dd_record d = Some (Entry r)"
proof -
  obtain i d' where i: "(i, d') \<in> set dirs" "dd_record d' = Some (Entry r)" using assms(3) by (auto simp: set_entries)
  with ok have "i = he_id r" by (fastforce simp: dirs_ok_def)
  with i assms(2) ok have "d' = d" by (auto simp: dirs_ok_def dest: eq_key_imp_eq_value)
  with i show ?thesis by simp
qed

lemma distinct_entries: "dirs_ok dirs \<Longrightarrow> distinct (map he_id (entries dirs))"
proof (induction dirs)
  case (Cons x dirs)
  obtain i d where x: "x = (i, d)" by (cases x)
  with Cons entries_id [of dirs] show ?case
    by (auto simp: dirs_ok_Cons split: option.splits record_file.splits)
qed simp

subsection \<open>Recovery\<close>

definition recover_entry :: "time \<Rightarrow> history_entry \<Rightarrow> history_entry" where
  "recover_entry now r = (if historyTerminal (he_phase r) then r else lost now r)"

fun recover_file :: "time \<Rightarrow> record_file \<Rightarrow> record_file" where
  "recover_file now (Entry r) = Entry (recover_entry now r)"
| "recover_file now Garbled = Garbled"

definition recover_dir :: "time \<Rightarrow> string \<times> process_dir \<Rightarrow> string \<times> process_dir" where
  "recover_dir now x = (fst x, (snd x)\<lparr>dd_record := map_option (recover_file now) (dd_record (snd x))\<rparr>)"

lemma lost_fields [simp]: "he_id (lost now r) = he_id r" "he_phase (lost now r) = phaseLost"
  by (simp_all add: lost_def)

lemma phaseLost_terminal [simp]: "historyTerminal phaseLost"
  by (simp add: historyTerminal_def)

lemma set_dir_absent: "i \<notin> fst ` set dirs \<Longrightarrow> set_dir i f dirs = dirs"
  unfolding set_dir_def by (rule map_idI) force

lemma set_dir_append: "set_dir i f (xs @ ys) = set_dir i f xs @ set_dir i f ys"
  by (simp add: set_dir_def)

lemma recover_dir_fst [simp]: "fst (recover_dir now x) = fst x"
  by (simp add: recover_dir_def)

lemma mark_lost_recovers:
  assumes "dirs_ok todo" "fst ` set done \<inter> fst ` set todo = {}"
  shows "mark_lost healthy now (entries todo) (done @ todo) = (done @ map (recover_dir now) todo, None)"
  using assms
proof (induction todo arbitrary: "done")
  case (Cons x todo)
  obtain i d where x: "x = (i, d)" by (cases x)
  have ok: "i \<notin> fst ` set todo" "dirs_ok todo" "dd_record d \<noteq> Some Garbled"
      "\<And>r. dd_record d = Some (Entry r) \<Longrightarrow> he_id r = i"
    using Cons.prems(1) by (auto simp: x dirs_ok_Cons)
  have i: "i \<notin> fst ` set done" using Cons.prems(2) x by auto
  have IH: "mark_lost healthy now (entries todo) ((done @ [y]) @ todo) = ((done @ [y]) @ map (recover_dir now) todo, None)"
    if "fst y = i" for y
    using that ok(1,2) Cons.prems(2) x by (intro Cons.IH) auto
  show ?case
  proof (cases "dd_record d")
    case None
    then have "recover_dir now (i, d) = (i, d)" by (cases d) (simp add: recover_dir_def)
    with None IH [of "(i, d)"] show ?thesis by (simp add: x)
  next
    case (Some f)
    with ok(3) obtain r where r: "dd_record d = Some (Entry r)" by (cases f) auto
    have hid: "he_id r = i" by (rule ok(4) [OF r])
    show ?thesis
    proof (cases "historyTerminal (he_phase r)")
      case True
      then have "recover_dir now (i, d) = (i, d)" using r by (cases d) (simp add: recover_dir_def recover_entry_def)
      with True r IH [of "(i, d)"] show ?thesis by (simp add: x)
    next
      case False
      have m: "map_of (done @ (i, d) # todo) i \<noteq> None"
        by (simp add: map_of_eq_None_iff del: map_of_append map_of.simps)
      have rd: "recover_dir now (i, d) = (i, d\<lparr>dd_record := Some (Entry (lost now r))\<rparr>)"
        using r False by (simp add: recover_dir_def recover_entry_def)
      have "writeRecord healthy (lost now r) (done @ (i, d) # todo) = (done @ recover_dir now (i, d) # todo, None)"
        using m hid set_dir_absent [OF i] set_dir_absent [OF ok(1)] rd
        by (simp add: writeRecord_def healthy_def set_dir_append) (simp add: set_dir_def)
      with False r IH [of "recover_dir now (i, d)"] show ?thesis by (simp add: x)
    qed
  qed
qed simp

lemma RecoverHistory_ok: "dirs_ok dirs \<Longrightarrow> RecoverHistory healthy now dirs = (map (recover_dir now) dirs, None)"
  using mark_lost_recovers [of dirs "[]" now] by (simp add: RecoverHistory_def readRecords_entries)

lemma recover_dirs_ok: "dirs_ok dirs \<Longrightarrow> dirs_ok (map (recover_dir now) dirs)"
proof (induction dirs)
  case (Cons x dirs)
  obtain i d where x: "x = (i, d)" by (cases x)
  have keep: "he_id (recover_entry now r) = he_id r" for r by (simp add: recover_entry_def)
  have "i \<notin> fst ` set (map (recover_dir now) dirs)" using Cons.prems by (auto simp: x dirs_ok_Cons rev_image_eqI)
  moreover have "dirs_ok (map (recover_dir now) dirs)" using Cons by (simp add: x dirs_ok_Cons)
  moreover have "dd_record (snd (recover_dir now (i, d))) \<noteq> Some Garbled \<and>
      (\<forall>r. dd_record (snd (recover_dir now (i, d))) = Some (Entry r) \<longrightarrow> he_id r = i)"
  proof (cases "dd_record d")
    case (Some f)
    with Cons.prems obtain r where "f = Entry r" "he_id r = i" by (cases f) (auto simp: x dirs_ok_Cons)
    with Some keep show ?thesis by (auto simp: recover_dir_def)
  qed (simp add: recover_dir_def)
  ultimately show ?case
    using dirs_ok_Cons [of i "snd (recover_dir now (i, d))" "map (recover_dir now) dirs"]
    by (simp add: x) (metis prod.collapse recover_dir_fst fst_conv)
qed (simp add: dirs_ok_def)

subsection \<open>Sorting\<close>

lemma set_insert_by [simp]: "set (insert_by le x ys) = insert x (set ys)"
  by (induction ys) auto

lemma set_sort_by [simp]: "set (sort_by le xs) = set xs"
  by (induction xs) (auto simp: sort_by_def)

lemma distinct_map_insert_by: "distinct (map f (insert_by le x ys)) \<longleftrightarrow> f x \<notin> f ` set ys \<and> distinct (map f ys)"
  by (induction ys) auto

lemma distinct_map_sort_by: "distinct (map f (sort_by le xs)) \<longleftrightarrow> distinct (map f xs)"
proof -
  have "set (foldr (insert_by le) xs []) = set xs" for xs by (induction xs) auto
  then show ?thesis
    unfolding sort_by_def by (induction xs) (auto simp: distinct_map_insert_by)
qed

lemma sorted_insert_by:
  assumes "\<And>a b. le a b \<or> le b a" "\<And>a b c. le a b \<Longrightarrow> le b c \<Longrightarrow> le a c" "sorted_wrt le ys"
  shows "sorted_wrt le (insert_by le x ys)"
  using assms(3)
proof (induction ys)
  case (Cons y ys)
  then show ?case using assms(1,2) by (auto; meson)
qed simp

lemma sorted_sort_by:
  assumes "\<And>a b. le a b \<or> le b a" "\<And>a b c. le a b \<Longrightarrow> le b c \<Longrightarrow> le a c"
  shows "sorted_wrt le (sort_by le xs)"
  unfolding sort_by_def
proof (induction xs)
  case (Cons x xs)
  then show ?case using sorted_insert_by [of le, OF assms] by simp
qed simp

text \<open>The order of completion times as a key.\<close>

fun time_key :: "time option \<Rightarrow> nat" where
  "time_key None = 0"
| "time_key (Some t) = Suc t"

lemma compareTimes_key: "compareTimes l r = (if time_key l < time_key r then -1 else if time_key r < time_key l then 1 else 0)"
  by (cases l; cases r) (auto simp: compareTimes_def)

lemma newer_key: "newer l r \<longleftrightarrow> time_key (he_completedAt r) \<le> time_key (he_completedAt l)"
  by (auto simp: newer_def compareTimes_key)

lemma sorted_newer: "sorted_wrt newer (sort_by newer xs)"
  by (rule sorted_sort_by) (auto simp: newer_key)

lemma list_before_key: "list_before l r \<longleftrightarrow> time_key (he_startedAt r) < time_key (he_startedAt l) \<or>
    (time_key (he_startedAt r) = time_key (he_startedAt l) \<and> he_id l \<le> he_id r)"
  by (auto simp: list_before_def compareTimes_key Let_def)

lemma sorted_list_before: "sorted_wrt list_before (sort_by list_before xs)"
  by (rule sorted_sort_by) (auto simp: list_before_key)

subsection \<open>Pruning\<close>

definition entry_age :: "time \<Rightarrow> history_entry \<Rightarrow> int" where
  "entry_age now r = int now - int (stamp (he_completedAt r))"

definition gone :: "history_policy \<Rightarrow> time \<Rightarrow> nat \<Rightarrow> history_entry \<Rightarrow> bool" where
  "gone policy now k r \<longleftrightarrow> (hp_ttlAfterFinished policy > 0 \<and> entry_age now r > hp_ttlAfterFinished policy) \<or>
     (hp_maxEntries policy > 0 \<and> int k \<ge> hp_maxEntries policy)"

definition gone_ids :: "history_policy \<Rightarrow> time \<Rightarrow> nat \<Rightarrow> history_entry list \<Rightarrow> string set" where
  "gone_ids policy now k rs = {he_id (rs ! j) | j. j < length rs \<and> gone policy now (k + j) (rs ! j)}"

lemma gone_ids_Cons:
  "gone_ids policy now k (r # rs) = (if gone policy now k r then {he_id r} else {}) \<union> gone_ids policy now (Suc k) rs"
proof (intro set_eqI iffI)
  fix x assume "x \<in> gone_ids policy now k (r # rs)"
  then obtain j where "x = he_id ((r # rs) ! j)" "j < length (r # rs)" "gone policy now (k + j) ((r # rs) ! j)"
    by (auto simp: gone_ids_def)
  then show "x \<in> (if gone policy now k r then {he_id r} else {}) \<union> gone_ids policy now (Suc k) rs"
    by (cases j) (auto simp: gone_ids_def)
next
  fix x assume "x \<in> (if gone policy now k r then {he_id r} else {}) \<union> gone_ids policy now (Suc k) rs"
  then consider (head) "x = he_id r" "gone policy now k r"
    | (tail) j where "x = he_id (rs ! j)" "j < length rs" "gone policy now (Suc k + j) (rs ! j)"
    by (auto simp: gone_ids_def split: if_splits)
  then show "x \<in> gone_ids policy now k (r # rs)"
  proof cases
    case head
    then show ?thesis unfolding gone_ids_def by (intro CollectI exI [of _ 0]) simp
  next
    case tail
    then show ?thesis unfolding gone_ids_def by (intro CollectI exI [of _ "Suc j"]) simp
  qed
qed

text \<open>What pruning leaves of the directories: a kept directory keeps owner and record.\<close>

definition kept_from :: "string set \<Rightarrow> state_dir \<Rightarrow> state_dir \<Rightarrow> bool" where
  "kept_from G dirs dirs' \<longleftrightarrow> map fst dirs' = filter (\<lambda>i. i \<notin> G) (map fst dirs) \<and>
     (\<forall>(i, d') \<in> set dirs'. \<exists>d. (i, d) \<in> set dirs \<and> dd_record d' = dd_record d \<and> dd_owner d' = dd_owner d)"

lemma kept_from_refl [simp]: "kept_from {} dirs dirs"
  by (auto simp: kept_from_def)

lemma kept_from_trans:
  assumes "kept_from A x y" "kept_from B y z"
  shows "kept_from (A \<union> B) x z"
proof -
  have "map fst z = filter (\<lambda>i. i \<notin> A \<union> B) (map fst x)"
    using assms by (simp add: kept_from_def conj_commute cong: filter_cong)
  with assms show ?thesis unfolding kept_from_def by (auto; fastforce)
qed

lemma kept_from_remove: "kept_from {i} dirs (filter (\<lambda>x. fst x \<noteq> i) dirs)"
  by (auto simp: kept_from_def filter_map comp_def)

lemma kept_from_set_dir:
  "(\<And>d. dd_record (f d) = dd_record d \<and> dd_owner (f d) = dd_owner d) \<Longrightarrow> kept_from {} dirs (set_dir i f dirs)"
  unfolding kept_from_def set_dir_def by (auto simp: case_prod_unfold comp_def)

lemma prune_each_kept:
  "\<exists>dirs' ps' n. prune_each healthy policy now k rs dirs ps removed = (dirs', ps', n, None) \<and>
     kept_from (gone_ids policy now k rs) dirs dirs'"
proof (induction rs arbitrary: k dirs ps removed)
  case Nil
  then show ?case by (simp add: gone_ids_def)
next
  case (Cons r rs)
  show ?case
  proof (cases "gone policy now k r")
    case True
    obtain dirs' ps' n where p: "prune_each healthy policy now (Suc k) rs (filter (\<lambda>x. fst x \<noteq> he_id r) dirs)
        (filter (\<lambda>x. fst x \<noteq> he_id r) ps) (Suc removed) = (dirs', ps', n, None)"
      "kept_from (gone_ids policy now (Suc k) rs) (filter (\<lambda>x. fst x \<noteq> he_id r) dirs) dirs'"
      using Cons.IH by blast
    have "prune_each healthy policy now k (r # rs) dirs ps removed = (dirs', ps', n, None)"
      using True p(1) by (simp add: gone_def entry_age_def healthy_def Let_def)
    with True kept_from_trans [OF kept_from_remove p(2)] show ?thesis by (auto simp: gone_ids_Cons)
  next
    case False
    let ?d = "if hp_transcriptTTL policy > 0 \<and> entry_age now r > hp_transcriptTTL policy
      then set_dir (he_id r) (\<lambda>d. d\<lparr>dd_transcript := None\<rparr>) dirs else dirs"
    obtain dirs' ps' n where p: "prune_each healthy policy now (Suc k) rs ?d ps removed = (dirs', ps', n, None)"
      "kept_from (gone_ids policy now (Suc k) rs) ?d dirs'"
      using Cons.IH by blast
    have "prune_each healthy policy now k (r # rs) dirs ps removed = (dirs', ps', n, None)"
      using False p(1) by (auto simp: gone_def entry_age_def healthy_def Let_def split: if_splits)
    moreover have "kept_from {} dirs ?d" by (auto intro: kept_from_set_dir)
    ultimately show ?thesis using False kept_from_trans [OF _ p(2), of "{}" dirs] by (auto simp: gone_ids_Cons)
  qed
qed

section \<open>Properties\<close>

text \<open>After a restart, recovery leaves no record that claims to be running: every unfinished record becomes
  Lost with the restart as its reason, finished records and all owner identities and transcripts stay
  as they were, and a second recovery changes nothing.\<close>

theorem recovery_settles_records:
  assumes ok: "dirs_ok dirs"
  shows "\<exists>dirs'. RecoverHistory healthy now dirs = (dirs', None) \<and>
    map fst dirs' = map fst dirs \<and> map (dd_owner \<circ> snd) dirs' = map (dd_owner \<circ> snd) dirs \<and>
    map (dd_transcript \<circ> snd) dirs' = map (dd_transcript \<circ> snd) dirs \<and>
    entries dirs' = map (\<lambda>r. if historyTerminal (he_phase r) then r else lost now r) (entries dirs) \<and>
    (\<forall>r \<in> set (entries dirs'). historyTerminal (he_phase r)) \<and>
    RecoverHistory healthy now' dirs' = (dirs', None)"
proof -
  let ?d = "map (recover_dir now) dirs"
  have run: "RecoverHistory healthy now dirs = (?d, None)" by (rule RecoverHistory_ok [OF ok])
  have e: "entries ?d = map (recover_entry now) (entries dirs)"
  proof (induction dirs)
    case (Cons x dirs)
    have "dir_entry (recover_dir now x) = map (recover_entry now) (dir_entry x)"
      by (cases x) (auto simp: recover_dir_def split: option.splits record_file.splits)
    with Cons show ?case by simp
  qed simp
  have t: "historyTerminal (he_phase (recover_entry now r))" for r by (simp add: recover_entry_def)
  have again: "recover_dir now' (recover_dir now x) = recover_dir now x" for x
  proof -
    have "recover_file now' (recover_file now f) = recover_file now f" for f
      by (cases f) (auto simp: recover_entry_def)
    then show ?thesis by (cases x) (simp add: recover_dir_def option.map_comp comp_def)
  qed
  have "RecoverHistory healthy now' ?d = (?d, None)"
    using RecoverHistory_ok [OF recover_dirs_ok [OF ok], of now' now] by (simp add: again comp_def)
  moreover have "map (dd_owner \<circ> snd) ?d = map (dd_owner \<circ> snd) dirs"
    "map (dd_transcript \<circ> snd) ?d = map (dd_transcript \<circ> snd) dirs" by (simp_all add: recover_dir_def)
  moreover have "map (recover_entry now) (entries dirs) =
      map (\<lambda>r. if historyTerminal (he_phase r) then r else lost now r) (entries dirs)"
    by (simp add: recover_entry_def)
  moreover have "\<forall>r \<in> set (entries ?d). historyTerminal (he_phase r)" unfolding e using t by simp
  ultimately show ?thesis using run e by (intro exI [of _ ?d] conjI) (simp_all only: map_map comp_def recover_dir_fst)
qed

definition sample_entry :: "string \<Rightarrow> string \<Rightarrow> time \<Rightarrow> history_entry" where
  "sample_entry i ph t = \<lparr>he_state = \<lparr>ps_id = i, ps_uid = i, ps_phase = ph, ps_pid = 1, ps_exitCode = None, ps_reason = [],
      ps_attachedClients = 0, ps_transcriptTruncated = False\<rparr>, he_command = [''sh''], he_workingDirectory = [], he_tty = False,
      he_startedAt = Some t, he_completedAt = Some t\<rparr>"

definition sample_dirs :: state_dir where
  "sample_dirs = [(''a'', \<lparr>dd_owner = Some ''a'', dd_record = Some (Entry (sample_entry ''a'' phaseRunning 1)), dd_transcript = Some []\<rparr>),
     (''b'', \<lparr>dd_owner = Some ''b'', dd_record = Some (Entry (sample_entry ''b'' phaseExited 2)), dd_transcript = None\<rparr>),
     (''c'', \<lparr>dd_owner = Some ''c'', dd_record = Some (Entry (sample_entry ''c'' phaseExited 3)), dd_transcript = None\<rparr>)]"

lemma sample_dirs_ok: "dirs_ok sample_dirs"
  by (simp add: dirs_ok_def sample_dirs_def sample_entry_def)

theorem recovery_settles_records_witness:
  "\<exists>dirs'. RecoverHistory healthy 9 sample_dirs = (dirs', None) \<and> (\<forall>r \<in> set (entries dirs'). historyTerminal (he_phase r))"
  using recovery_settles_records [OF sample_dirs_ok] by blast



definition owned_ok :: "processes \<Rightarrow> bool" where
  "owned_ok ps \<longleftrightarrow> distinct (map fst ps) \<and> (\<forall>(i, o') \<in> set ps. ps_id (pr_state (op_proc o')) = i)"

lemma overlay_ok:
  assumes "distinct (map he_id rs)" "he_id (live_entry o') = i"
  shows "distinct (map he_id (overlay (i, o') rs)) \<and>
    set (overlay (i, o') rs) = {r \<in> set rs. he_id r \<noteq> i} \<union> {live_entry o'}"
proof (cases "i \<in> he_id ` set rs")
  case True
  have "map he_id (map (\<lambda>r. if he_id r = i then live_entry o' else r) rs) = map he_id rs" using assms(2) by simp
  moreover have o: "overlay (i, o') rs = map (\<lambda>r. if he_id r = i then live_entry o' else r) rs"
    using True by (simp add: overlay_def)
  ultimately have "distinct (map he_id (overlay (i, o') rs))" using assms(1) by (simp only:)
  then show ?thesis using True unfolding o by auto
next
  case False
  then have "overlay (i, o') rs = rs @ [live_entry o']" "{r \<in> set rs. he_id r \<noteq> i} = set rs"
    by (auto simp: overlay_def rev_image_eqI)
  with False assms show ?thesis by simp
qed

lemma fold_overlay_ok:
  assumes "distinct (map he_id rs)" "owned_ok ps"
  shows "distinct (map he_id (fold overlay ps rs)) \<and>
    set (fold overlay ps rs) = {r \<in> set rs. he_id r \<notin> fst ` set ps} \<union> {live_entry o' | i o'. (i, o') \<in> set ps}"
  using assms
proof (induction ps arbitrary: rs)
  case (Cons x ps)
  obtain i o' where x: "x = (i, o')" by (cases x)
  have own: "he_id (live_entry o') = i" "i \<notin> fst ` set ps" "owned_ok ps"
    using Cons.prems(2) by (auto simp: x owned_ok_def live_entry_def)
  note o = overlay_ok [OF Cons.prems(1) own(1)]
  from Cons.IH [of "overlay (i, o') rs"] o own show ?case by (auto simp: x)
qed simp

text \<open>A listing shows every process once, newest start first: the live state of each process the supervisor
  owns, and the record of every other one.\<close>

theorem listing_is_complete:
  assumes ok: "dirs_ok dirs" "owned_ok ps"
  shows "\<exists>L. List_history ps dirs = Inr L \<and> distinct (map he_id L) \<and> sorted_wrt list_before L \<and>
    set L = {r \<in> set (entries dirs). he_id r \<notin> fst ` set ps} \<union> {live_entry o' | i o'. (i, o') \<in> set ps}"
  using fold_overlay_ok [OF distinct_entries [OF ok(1)] ok(2)]
  by (simp add: List_history_def readRecords_entries [OF ok(1)] distinct_map_sort_by sorted_list_before)

theorem listing_is_complete_witness:
  "\<exists>L. List_history [(''a'', \<lparr>op_proc = sample_process\<lparr>pr_state := (pr_state sample_process)\<lparr>ps_id := ''a''\<rparr>\<rparr>,
        op_command = [], op_workingDirectory = [], op_tty = False,
        op_runtimeDir = [], op_credentialLinks = [], op_agentCredentialLink = []\<rparr>)] sample_dirs = Inr L \<and> distinct (map he_id L)"
proof -
  let ?ps = "[(''a'', \<lparr>op_proc = sample_process\<lparr>pr_state := (pr_state sample_process)\<lparr>ps_id := ''a''\<rparr>\<rparr>,
      op_command = [], op_workingDirectory = [], op_tty = False,
        op_runtimeDir = [], op_credentialLinks = [], op_agentCredentialLink = []\<rparr>)]"
  have "owned_ok ?ps" by (simp add: owned_ok_def)
  from listing_is_complete [OF sample_dirs_ok this] show ?thesis by blast
qed

lemma remove_inherited_healthy:
  "remove_inherited healthy dirs = (map (\<lambda>(i, d). (i, d\<lparr>dd_transcript := None, dd_record := None\<rparr>)) dirs, None)"
  by (induction dirs) (auto simp: healthy_def)

text \<open>Cloning an environment's volume into another target never leaks its history: with a foreign scope
  marker every inherited record and transcript is removed before the new scope is published; the
  same scope, or a volume from before scopes, keeps its history; owner identities always survive.\<close>

theorem transcript_scope_isolates:
  assumes "scope \<noteq> []"
  shows "\<exists>dirs'. PrepareTranscriptScope healthy scope marker dirs = (scope, dirs', None) \<and>
    map fst dirs' = map fst dirs \<and> map (dd_owner \<circ> snd) dirs' = map (dd_owner \<circ> snd) dirs \<and>
    (if marker = [] \<or> marker = scope then dirs' = dirs
     else \<forall>x \<in> set dirs'. dd_record (snd x) = None \<and> dd_transcript (snd x) = None)"
  using assms by (auto simp: PrepareTranscriptScope_def remove_inherited_healthy case_prod_unfold)

theorem transcript_scope_isolates_witness:
  "\<exists>dirs'. PrepareTranscriptScope healthy ''ws/1'' ''env/1'' sample_dirs = (''ws/1'', dirs', None) \<and>
    (\<forall>x \<in> set dirs'. dd_record (snd x) = None)"
proof -
  have "(''ws/1'' :: string) \<noteq> []" by simp
  from transcript_scope_isolates [OF this, of "''env/1''" sample_dirs] show ?thesis by auto
qed

lemma service_prefix_iff:
  assumes "CHR ''_'' \<notin> set a" "CHR ''_'' \<notin> set b"
  shows "has_prefix (serviceIDPrefix @ a @ ''_'') (service_run_id fmt b t) \<longleftrightarrow> a = b"
proof
  assume "has_prefix (serviceIDPrefix @ a @ ''_'') (service_run_id fmt b t)"
  then obtain r where "a @ CHR ''_'' # r = b @ CHR ''_'' # fmt t"
    by (auto simp: has_prefix_iff service_run_id_def)
  moreover have "takeWhile (\<lambda>c. c \<noteq> CHR ''_'') (z @ CHR ''_'' # y) = z" if "CHR ''_'' \<notin> set z" for z y
    using that by (subst takeWhile_append2) auto
  ultimately show "a = b" using assms by metis
qed (auto simp: has_prefix_iff service_run_id_def)

lemma pruneHistory_removes:
  assumes ok: "dirs_ok dirs" and run: "pruneHistory healthy policy now matches dirs ps = (dirs', ps', n, e)"
    and i: "i \<in> fst ` set dirs" "i \<notin> fst ` set dirs'"
  shows "\<exists>r \<in> set (entries dirs). he_id r = i \<and> prunable matches ps r"
proof -
  let ?L = "sort_by newer (filter (prunable matches ps) (entries dirs))"
  have "kept_from (gone_ids policy now 0 ?L) dirs dirs' \<or> dirs' = dirs"
    using run prune_each_kept [of policy now 0 ?L dirs ps 0]
    by (auto simp: pruneHistory_def readRecords_entries [OF ok] split: if_splits)
  with i have "i \<in> gone_ids policy now 0 ?L"
    by (auto simp: kept_from_def) (metis (mono_tags, lifting) fst_conv image_eqI list.set_map mem_Collect_eq set_filter)
  then obtain j where "j < length ?L" "he_id (?L ! j) = i" by (auto simp: gone_ids_def)
  then show ?thesis using nth_mem [of j ?L] by auto
qed

text \<open>Pruning the runs of one resident service touches only runs of that service: what it removes has an ID
  made from that service's name, which no run of another service (names have no underscore) and
  no Kubernetes object name can have.\<close>

theorem service_pruning_is_local:
  assumes ok: "dirs_ok dirs" and run: "pruneServiceRuns healthy now name dirs ps = (dirs', ps')"
    and names: "CHR ''_'' \<notin> set name" "CHR ''_'' \<notin> set other" "CHR ''_'' \<notin> set exec"
    and there: "{service_run_id fmt other t, exec} \<subseteq> fst ` set dirs" and other: "other \<noteq> name"
  shows "{service_run_id fmt other t, exec} \<subseteq> fst ` set dirs'"
proof -
  let ?pre = "serviceIDPrefix @ name @ ''_''"
  obtain n e where p: "pruneHistory healthy \<lparr>hp_ttlAfterFinished = 0, hp_maxEntries = serviceRunHistory, hp_transcriptTTL = 0\<rparr>
      now (Some (has_prefix ?pre)) dirs ps = (dirs', ps', n, e)"
    using run by (auto simp: pruneServiceRuns_def Let_def split: prod.splits)
  have hit: "has_prefix ?pre i" if "i \<in> fst ` set dirs" "i \<notin> fst ` set dirs'" for i
    using pruneHistory_removes [OF ok p that] by (auto simp: prunable_def split: if_splits)
  have "\<not> has_prefix ?pre (service_run_id fmt other t)"
    using service_prefix_iff [OF names(1,2)] other by auto
  moreover have "\<not> has_prefix ?pre exec"
    using names(3) by (auto simp: has_prefix_iff)
  ultimately show ?thesis using there hit by blast
qed

theorem service_pruning_is_local_witness:
  "\<exists>dirs' ps'. pruneServiceRuns healthy 9 ''a'' [(''service_b_1'', \<lparr>dd_owner = None, dd_record = None, dd_transcript = None\<rparr>),
      (''run'', \<lparr>dd_owner = None, dd_record = None, dd_transcript = None\<rparr>)] [] = (dirs', ps') \<and>
    {''service_b_1'', ''run''} \<subseteq> fst ` set dirs'"
proof -
  let ?d = "[(''service_b_1'', \<lparr>dd_owner = None, dd_record = None, dd_transcript = None\<rparr>),
      (''run'', \<lparr>dd_owner = None, dd_record = None, dd_transcript = None\<rparr>)]"
  obtain dirs' ps' where run: "pruneServiceRuns healthy 9 ''a'' ?d [] = (dirs', ps')" by fastforce
  have ok: "dirs_ok ?d" by (simp add: dirs_ok_def)
  have sid: "service_run_id (\<lambda>t. ''1'') ''b'' 0 = ''service_b_1''" by (simp add: service_run_id_def serviceIDPrefix_def)
  have "{service_run_id (\<lambda>t. ''1'') ''b'' 0, ''run''} \<subseteq> fst ` set dirs'"
    by (rule service_pruning_is_local [OF ok run]) (simp_all add: sid)
  with run sid show ?thesis by auto
qed

end
