(* ===== verification/InputFrames.thy ===== *)
theory InputFrames
  imports RC_Prelude "HOL-Library.Word"
begin

unbundle bit_operations_syntax

text \<open>
  The framing of an attach client's input (\<^verbatim>\<open>internal/rckube/input_frames.go\<close>): a 4-byte big-endian
  length and that many bytes, length zero for the end of input. The writer is driven by what its
  source's \<^verbatim>\<open>Read\<close> returns, the reader by the buffer sizes of its caller and by how much of the
  connection each \<^verbatim>\<open>Read\<close> delivers.
\<close>

section \<open>Writer\<close>

type_synonym byte = "8 word"

definition maxInputFrame :: nat where "maxInputFrame = 32768"

text \<open>\<^verbatim>\<open>binary.BigEndian.PutUint32\<close> and \<^verbatim>\<open>Uint32\<close>.\<close>

definition PutUint32 :: "32 word \<Rightarrow> byte list" where
  "PutUint32 w = [ucast (drop_bit 24 w), ucast (drop_bit 16 w), ucast (drop_bit 8 w), ucast w]"

fun Uint32 :: "byte list \<Rightarrow> 32 word" where
  "Uint32 [a, b, c, d] = push_bit 24 (ucast a) OR push_bit 16 (ucast b) OR push_bit 8 (ucast c) OR ucast d"
| "Uint32 _ = 0"

text \<open>What one \<^verbatim>\<open>Read\<close> of the source returns: some bytes, and end of file or another error with them.\<close>

datatype read_status = More | Eof | Failed err

definition frame :: "byte list \<Rightarrow> byte list" where
  "frame chunk = PutUint32 (of_nat (length chunk)) @ chunk"

text \<open>\<^verbatim>\<open>writeInputFrames\<close>; \<open>wr k\<close> is the error of the \<open>k\<close>-th write to the connection. None: it waits for more input.\<close>

fun writeInputFrames :: "(nat \<Rightarrow> err option) \<Rightarrow> nat \<Rightarrow> (byte list \<times> read_status) list \<Rightarrow> byte list \<times> (err option) option" where
  "writeInputFrames wr k [] = ([], None)"
| "writeInputFrames wr k ((chunk, st) # reads) =
     (case (if chunk \<noteq> [] then (case wr k of Some e \<Rightarrow> Inl e | None \<Rightarrow> Inr (frame chunk, Suc k)) else Inr ([], k)) of
        Inl e \<Rightarrow> ([], Some (Some e))
      | Inr (sent, k') \<Rightarrow>
          (case st of
             Eof \<Rightarrow> (case wr k' of Some e \<Rightarrow> (sent, Some (Some e)) | None \<Rightarrow> (sent @ PutUint32 0, Some None))
           | Failed e \<Rightarrow> (sent, Some (Some e))
           | More \<Rightarrow> (case writeInputFrames wr k' reads of (rest, r) \<Rightarrow> (sent @ rest, r))))"

section \<open>Reader\<close>

record frame_reader =
  fr_conn :: "byte list"
  fr_remaining :: "32 word"
  fr_ended :: bool

datatype read_error = EndOfInput | UnexpectedEOF | FrameTooLarge

text \<open>
  The data part of \<^verbatim>\<open>Read\<close>: \<open>n\<close> is the length of the caller's buffer, \<open>got\<close> how many bytes the
  connection is ready to deliver. A connection without bytes left is closed.
\<close>

definition read_data :: "nat \<Rightarrow> nat \<Rightarrow> frame_reader \<Rightarrow> frame_reader \<times> byte list \<times> read_error option" where
  "read_data n got fr =
     (let len = (if (of_nat n :: 32 word) > fr_remaining fr then unat (fr_remaining fr) else n);
          data = take (min len got) (fr_conn fr);
          fr' = fr\<lparr>fr_conn := drop (length data) (fr_conn fr), fr_remaining := fr_remaining fr - of_nat (length data)\<rparr>
      in (fr', data, if fr_conn fr = [] then Some UnexpectedEOF else None))"

definition frame_Read :: "nat \<Rightarrow> nat \<Rightarrow> frame_reader \<Rightarrow> frame_reader \<times> byte list \<times> read_error option" where
  "frame_Read n got fr =
     (if fr_ended fr then (fr, [], Some EndOfInput)
      else if fr_remaining fr = 0 then
        (if length (fr_conn fr) < 4 then (fr\<lparr>fr_conn := []\<rparr>, [], Some UnexpectedEOF)
         else let fr1 = fr\<lparr>fr_conn := drop 4 (fr_conn fr), fr_remaining := Uint32 (take 4 (fr_conn fr))\<rparr>
              in if fr_remaining fr1 = 0 then (fr1\<lparr>fr_ended := True\<rparr>, [], Some EndOfInput)
                 else if fr_remaining fr1 > of_nat maxInputFrame then (fr1, [], Some FrameTooLarge)
                 else read_data n got fr1)
      else read_data n got fr)"

text \<open>Reading until an error, as \<^verbatim>\<open>io.Copy\<close> does: the data and the error that ended it. \<open>sizes k\<close> gives buffer and delivery of the \<open>k\<close>-th call.\<close>

fun read_all :: "nat \<Rightarrow> (nat \<Rightarrow> nat \<times> nat) \<Rightarrow> nat \<Rightarrow> frame_reader \<Rightarrow> (byte list \<times> read_error) option" where
  "read_all 0 sizes k fr = None"
| "read_all (Suc fuel) sizes k fr =
     (case frame_Read (fst (sizes k)) (snd (sizes k)) fr of
        (fr', data, Some e) \<Rightarrow> Some (data, e)
      | (fr', data, None) \<Rightarrow>
          (case read_all fuel sizes (Suc k) fr' of None \<Rightarrow> None | Some (rest, e) \<Rightarrow> Some (data @ rest, e)))"

section \<open>Lemmas\<close>

lemma Uint32_PutUint32: "Uint32 (PutUint32 w) = w"
proof (rule bit_word_eqI)
  fix n assume n: "n < LENGTH(32)"
  then consider "n < 8" | "8 \<le> n" "n < 16" | "16 \<le> n" "n < 24" | "24 \<le> n" "n < 32" by force
  then show "bit (Uint32 (PutUint32 w)) n = bit w n"
    unfolding PutUint32_def Uint32.simps by cases (auto simp: bit_simps)
qed

lemma length_PutUint32 [simp]: "length (PutUint32 w) = 4"
  by (simp add: PutUint32_def)

text \<open>What the reader has to deliver from a connection when \<open>r\<close> bytes of the current frame are left.\<close>

function deliver :: "nat \<Rightarrow> byte list \<Rightarrow> byte list \<times> read_error" where
  "deliver r w =
     (if r > 0 then
        (if length w < r then (w, UnexpectedEOF) else (case deliver 0 (drop r w) of (p, e) \<Rightarrow> (take r w @ p, e)))
      else if length w < 4 then ([], UnexpectedEOF)
      else let n = unat (Uint32 (take 4 w))
           in if n = 0 then ([], EndOfInput)
              else if n > maxInputFrame then ([], FrameTooLarge)
              else deliver n (drop 4 w))"
  by pat_completeness auto
termination
  by (relation "measure (\<lambda>(r, w). length w)") auto

declare deliver.simps [simp del]

lemma deliver_part:
  assumes "0 < k" "k \<le> r" "k \<le> length w"
  shows "deliver r w = (take k w @ fst (deliver (r - k) (drop k w)), snd (deliver (r - k) (drop k w)))"
proof (cases "r = k")
  case True
  with assms show ?thesis by (subst deliver.simps) (simp add: case_prod_unfold)
next
  case False
  with assms show ?thesis
    by (subst (1 2 3) deliver.simps)
      (auto simp: case_prod_unfold take_add [symmetric] add.commute simp del: take_append dest: less_imp_le_nat)
qed

lemma unat_small: "m < 2 ^ 32 \<Longrightarrow> unat (of_nat m :: 32 word) = m"
  by (simp add: unsigned_of_nat take_bit_nat_eq_self)

lemma unat_bound: "unat (w :: 32 word) < 2 ^ 32"
  using unsigned_less [of w] by simp

lemma deliver_frame:
  assumes "0 < length c" "length c \<le> maxInputFrame"
  shows "deliver 0 (frame c @ w) = (c @ fst (deliver 0 w), snd (deliver 0 w))"
proof -
  have n: "unat (Uint32 (take 4 (frame c @ w))) = length c"
    using assms(2) by (simp add: frame_def Uint32_PutUint32 maxInputFrame_def unat_small)
  have "deliver 0 (frame c @ w) = deliver (length c) (c @ w)"
    using assms n by (subst deliver.simps) (simp add: frame_def Let_def)
  also have "\<dots> = (c @ fst (deliver 0 w), snd (deliver 0 w))"
    using assms(1) deliver_part [of "length c" "length c" "c @ w"] by simp
  finally show ?thesis .
qed

lemma deliver_end: "deliver 0 (PutUint32 0 @ w) = ([], EndOfInput)"
  by (subst deliver.simps) (simp add: Uint32_PutUint32 Let_def)

text \<open>One \<^verbatim>\<open>Read\<close> against the specification.\<close>

lemma take_length_self: "take (length (take n xs)) xs = take n xs"
  by (simp add: min_def)

lemma read_data_deliver:
  assumes n: "0 < n" "n < 2 ^ 32" "0 < got" and r: "0 < fr_remaining fr"
    and run: "read_data n got fr = (fr', data, e)"
  shows "(e = None \<longrightarrow> fr_ended fr' = fr_ended fr \<and> length (fr_conn fr') < length (fr_conn fr) \<and>
       deliver (unat (fr_remaining fr)) (fr_conn fr) =
         (data @ fst (deliver (unat (fr_remaining fr')) (fr_conn fr')), snd (deliver (unat (fr_remaining fr')) (fr_conn fr')))) \<and>
     (\<forall>x. e = Some x \<longrightarrow> deliver (unat (fr_remaining fr)) (fr_conn fr) = (data, x))"
proof -
  let ?r = "unat (fr_remaining fr)"
  let ?len = "if (of_nat n :: 32 word) > fr_remaining fr then ?r else n"
  let ?k = "length (take (min ?len got) (fr_conn fr))"
  have r0: "0 < ?r" using r by (simp add: unat_gt_0 word_gt_0)
  have len: "?len = min n ?r"
    using n(2) by (auto simp: word_less_nat_alt unat_small min_def not_less)
  have k: "?k = min (min (min n ?r) got) (length (fr_conn fr))" unfolding len by simp
  have res: "fr' = fr\<lparr>fr_conn := drop ?k (fr_conn fr), fr_remaining := fr_remaining fr - of_nat ?k\<rparr>"
      "data = take (min ?len got) (fr_conn fr)" "e = (if fr_conn fr = [] then Some UnexpectedEOF else None)"
    using run unfolding read_data_def Let_def by auto
  show ?thesis
  proof (cases "fr_conn fr = []")
    case True
    with res r0 show ?thesis by (subst (4) deliver.simps) simp
  next
    case False
    have k0: "0 < ?k" "?k \<le> ?r" "?k \<le> length (fr_conn fr)" using k n r0 False by auto
    have rem: "unat (fr_remaining fr') = ?r - ?k"
    proof -
      have "?k < 2 ^ 32" using k0(2) unat_bound [of "fr_remaining fr"] by linarith
      then have "unat (of_nat ?k :: 32 word) = ?k" by (rule unat_small)
      then show ?thesis using k0(2) res(1) by (simp add: unat_sub word_le_nat_alt)
    qed
    have data: "data = take ?k (fr_conn fr)"
      using res(2) take_length_self [of "min ?len got" "fr_conn fr"] by (simp only:)
    show ?thesis
      using deliver_part [OF k0] False k0 res(1,3) rem data by simp
  qed
qed

lemma frame_Read_deliver:
  assumes n: "0 < n" "n < 2 ^ 32" "0 < got" and live: "\<not> fr_ended fr"
    and run: "frame_Read n got fr = (fr', data, e)"
  shows "(e = None \<longrightarrow> \<not> fr_ended fr' \<and> length (fr_conn fr') < length (fr_conn fr) \<and>
       deliver (unat (fr_remaining fr)) (fr_conn fr) =
         (data @ fst (deliver (unat (fr_remaining fr')) (fr_conn fr')), snd (deliver (unat (fr_remaining fr')) (fr_conn fr')))) \<and>
     (\<forall>x. e = Some x \<longrightarrow> deliver (unat (fr_remaining fr)) (fr_conn fr) = (data, x))"
proof (cases "fr_remaining fr = 0")
  case False
  then have r: "0 < fr_remaining fr" by (simp add: word_gt_0)
  from read_data_deliver [OF n r, of fr' data e] run False live show ?thesis by (simp add: frame_Read_def)
next
  case True
  show ?thesis
  proof (cases "length (fr_conn fr) < 4")
    case short: True
    with run live True show ?thesis by (subst (4) deliver.simps) (auto simp: frame_Read_def)
  next
    case False
    let ?fr1 = "fr\<lparr>fr_conn := drop 4 (fr_conn fr), fr_remaining := Uint32 (take 4 (fr_conn fr))\<rparr>"
    let ?n = "Uint32 (take 4 (fr_conn fr))"
    consider (stop) "?n = 0" | (large) "?n \<noteq> 0" "?n > of_nat maxInputFrame" | (data) "?n \<noteq> 0" "\<not> ?n > of_nat maxInputFrame" by blast
    then show ?thesis
    proof cases
      case stop
      with run live True False show ?thesis by (subst (4) deliver.simps) (auto simp: frame_Read_def Let_def)
    next
      case large
      then have "unat ?n > maxInputFrame" by (simp add: word_less_nat_alt unat_small maxInputFrame_def)
      with large run live True False show ?thesis
        by (subst (4) deliver.simps) (auto simp: frame_Read_def Let_def unat_eq_zero)
    next
      case data
      then have m: "\<not> unat ?n > maxInputFrame" "unat ?n \<noteq> 0"
        by (simp_all add: word_less_nat_alt unat_small maxInputFrame_def unat_eq_zero)
      have r: "0 < fr_remaining ?fr1" using data(1) by (simp add: word_gt_0)
      have rd: "read_data n got ?fr1 = (fr', data, e)"
        using run live True False data by (simp add: frame_Read_def Let_def)
      have "deliver (unat (fr_remaining fr)) (fr_conn fr) = deliver (unat ?n) (drop 4 (fr_conn fr))"
        using True False m by (subst deliver.simps) (simp add: Let_def)
      with read_data_deliver [OF n r rd] live False show ?thesis by auto
    qed
  qed
qed

lemma read_all_deliver:
  assumes sizes: "\<forall>k. 0 < fst (sizes k) \<and> fst (sizes k) < 2 ^ 32 \<and> 0 < snd (sizes k)"
    and fuel: "length (fr_conn fr) < fuel" and live: "\<not> fr_ended fr"
  shows "read_all fuel sizes k fr = Some (deliver (unat (fr_remaining fr)) (fr_conn fr))"
  using fuel live
proof (induction fuel arbitrary: k fr)
  case (Suc fuel)
  obtain fr' data e where run: "frame_Read (fst (sizes k)) (snd (sizes k)) fr = (fr', data, e)" by (metis prod_cases3)
  note d = frame_Read_deliver [OF _ _ _ Suc.prems(2) run] and s = sizes [rule_format, of k]
  show ?case
  proof (cases e)
    case None
    with d s Suc.prems(1) have "read_all fuel sizes (Suc k) fr' = Some (deliver (unat (fr_remaining fr')) (fr_conn fr'))"
      by (intro Suc.IH) auto
    with run None d s show ?thesis by (auto simp: case_prod_unfold)
  next
    case (Some x)
    with run d s show ?thesis by simp
  qed
qed simp

text \<open>The bytes on the wire for a source that ends.\<close>

fun payload :: "(byte list \<times> read_status) list \<Rightarrow> byte list" where
  "payload [] = []"
| "payload ((chunk, More) # reads) = chunk @ payload reads"
| "payload ((chunk, st) # reads) = chunk"

lemma deliver_written:
  assumes "writeInputFrames (\<lambda>k. None) k reads = (wire, r)" "\<forall>x \<in> set reads. length (fst x) \<le> maxInputFrame"
  shows "deliver 0 (wire @ w) = (if r = Some None then (payload reads, EndOfInput)
     else (payload reads @ fst (deliver 0 w), snd (deliver 0 w)))"
  using assms
proof (induction reads arbitrary: k wire r)
  case (Cons x reads)
  obtain chunk st where x: "x = (chunk, st)" by (cases x)
  have fr: "deliver 0 ((if chunk \<noteq> [] then frame chunk else []) @ v) = (chunk @ fst (deliver 0 v), snd (deliver 0 v))" for v
    using Cons.prems(2) deliver_frame [of chunk v] by (auto simp: x)
  show ?case
  proof (cases st)
    case More
    obtain wire' where w: "writeInputFrames (\<lambda>k. None) (if chunk \<noteq> [] then Suc k else k) reads = (wire', r)"
        "wire = (if chunk \<noteq> [] then frame chunk else []) @ wire'"
      using Cons.prems(1) More by (auto simp: x split: prod.splits if_splits)
    have IH: "deliver 0 (wire' @ w) = (if r = Some None then (payload reads, EndOfInput)
        else (payload reads @ fst (deliver 0 w), snd (deliver 0 w)))"
      using Cons.prems(2) by (intro Cons.IH [OF w(1)]) simp
    have "deliver 0 (wire @ w) = (chunk @ fst (deliver 0 (wire' @ w)), snd (deliver 0 (wire' @ w)))"
      using fr [of "wire' @ w"] unfolding w(2) append_assoc .
    then show ?thesis unfolding IH x More payload.simps by simp
  next
    case Eof
    have w: "r = Some None" "wire = (if chunk \<noteq> [] then frame chunk else []) @ PutUint32 0"
      using Cons.prems(1) Eof by (auto simp: x split: if_splits)
    have "deliver 0 (wire @ w) = (chunk @ fst (deliver 0 (PutUint32 0 @ w)), snd (deliver 0 (PutUint32 0 @ w)))"
      using fr [of "PutUint32 0 @ w"] unfolding w(2) append_assoc .
    then show ?thesis unfolding deliver_end w(1) x Eof payload.simps by simp
  next
    case (Failed e)
    have w: "r = Some (Some e)" "wire = (if chunk \<noteq> [] then frame chunk else [])"
      using Cons.prems(1) Failed by (auto simp: x split: if_splits)
    then show ?thesis using fr [of w] unfolding x Failed payload.simps w by simp
  qed
qed simp

section \<open>Properties\<close>



end
