(* ===== verification/Filepath.thy ===== *)
theory Filepath
  imports RC_Prelude
begin

text \<open>
  The functions of Go's \<^verbatim>\<open>path/filepath\<close> on Unix that the supervisor uses on its paths: \<^verbatim>\<open>Clean\<close>,
  \<^verbatim>\<open>Join\<close>, \<^verbatim>\<open>Dir\<close>, \<^verbatim>\<open>Base\<close>, \<^verbatim>\<open>IsAbs\<close> and \<^verbatim>\<open>Rel\<close>. They are lexical; \<open>segs\<close> gives the elements of the
  cleaned path.
\<close>

section \<open>Definitions\<close>

definition is_abs :: "string \<Rightarrow> bool" where
  "is_abs p = has_prefix ''/'' p"

text \<open>One element of a path, on the stack of the elements before it.\<close>

definition clean_step :: "bool \<Rightarrow> string \<Rightarrow> string list \<Rightarrow> string list" where
  "clean_step rooted s st =
     (if s = [] \<or> s = ''.'' then st
      else if s = ''..'' then
        (case st of
           [] \<Rightarrow> if rooted then [] else [''..'']
         | t # ts \<Rightarrow> if t = ''..'' then ''..'' # st else ts)
      else s # st)"

definition segs :: "string \<Rightarrow> string list" where
  "segs p = rev (fold (clean_step (is_abs p)) (split_on (CHR ''/'') p) [])"

definition Clean :: "string \<Rightarrow> string" where
  "Clean p = (let s = join ''/'' (segs p) in if is_abs p then ''/'' @ s else if s = [] then ''.'' else s)"

definition Join :: "string list \<Rightarrow> string" where
  "Join ps = (case dropWhile (\<lambda>p. p = []) ps of [] \<Rightarrow> [] | q # qs \<Rightarrow> Clean (join ''/'' (q # qs)))"

definition Dir :: "string \<Rightarrow> string" where
  "Dir p = Clean (rev (dropWhile (\<lambda>c. c \<noteq> CHR ''/'') (rev p)))"

definition Base :: "string \<Rightarrow> string" where
  "Base p =
     (if p = [] then ''.''
      else (let b = rev (takeWhile (\<lambda>c. c \<noteq> CHR ''/'') (rev (trim_right (\<lambda>c. c = CHR ''/'') p)))
            in if b = [] then ''/'' else b))"

text \<open>The elements of both paths after the ones they share.\<close>

fun strip_common :: "'a list \<Rightarrow> 'a list \<Rightarrow> 'a list \<times> 'a list" where
  "strip_common (b # bs) (t # ts) = (if b = t then strip_common bs ts else (b # bs, t # ts))"
| "strip_common bs ts = (bs, ts)"

definition Rel :: "string \<Rightarrow> string \<Rightarrow> string result" where
  "Rel base targ =
     (if Clean base = Clean targ then Inr ''.''
      else if is_abs base \<noteq> is_abs targ then Inl (EMsg ''Rel: can't make target relative to base'')
      else (case strip_common (segs base) (segs targ) of
              (bs, ts) \<Rightarrow>
                if ''..'' \<in> set bs then Inl (EMsg ''Rel: can't make target relative to base'')
                else Inr (join ''/'' (map (\<lambda>_. ''..'') bs @ ts))))"

section \<open>Elements of clean paths\<close>

definition plain :: "string \<Rightarrow> bool" where
  "plain s = (s \<noteq> [] \<and> s \<noteq> ''.'' \<and> s \<noteq> ''..'' \<and> CHR ''/'' \<notin> set s)"

lemma split_on_clean: "s \<in> set (split_on c p) \<Longrightarrow> c \<notin> set s"
proof (induction p arbitrary: s)
  case Nil
  then show ?case by simp
next
  case (Cons x xs)
  obtain y ys where y: "split_on c xs = y # ys" by (metis split_on_nonempty neq_Nil_conv)
  with Cons show ?case by (auto split: if_splits)
qed

lemma split_on_no_sep: "c \<notin> set p \<Longrightarrow> split_on c p = [p]"
  by (induction p) auto

lemma split_on_sep: "split_on c (a @ c # b) = split_on c a @ split_on c b"
proof (induction a)
  case Nil
  then show ?case by simp
next
  case (Cons x xs)
  obtain y ys where "split_on c xs = y # ys" by (metis split_on_nonempty neq_Nil_conv)
  with Cons show ?case by auto
qed

lemma split_on_join:
  assumes "xs \<noteq> []" "\<And>s. s \<in> set xs \<Longrightarrow> c \<notin> set s"
  shows "split_on c (join [c] xs) = xs"
  using assms
proof (induction "[c]" xs rule: join.induct)
  case (3 x y ys)
  then show ?case using split_on_sep [of c x "join [c] (y # ys)"]
    by (simp add: split_on_no_sep)
qed (auto simp: split_on_no_sep)

lemma clean_step_plain:
  assumes "\<forall>s \<in> set st. plain s" "CHR ''/'' \<notin> set s"
  shows "\<forall>t \<in> set (clean_step True s st). plain t"
  using assms by (cases st) (simp_all add: clean_step_def plain_def)

lemma fold_clean_plain:
  assumes "\<forall>s \<in> set st. plain s" "\<forall>s \<in> set xs. CHR ''/'' \<notin> set s"
  shows "\<forall>t \<in> set (fold (clean_step True) xs st). plain t"
  using assms
proof (induction xs arbitrary: st)
  case (Cons x xs)
  then show ?case using clean_step_plain [of st x] by simp
qed simp

lemma fold_clean_id:
  assumes "\<forall>s \<in> set xs. plain s"
  shows "fold (clean_step r) xs st = rev xs @ st"
  using assms by (induction xs arbitrary: st) (simp_all add: clean_step_def plain_def)

lemma segs_plain: "is_abs p \<Longrightarrow> \<forall>s \<in> set (segs p). plain s"
  unfolding segs_def using fold_clean_plain [of "[]" "split_on (CHR ''/'') p"] split_on_clean by auto

lemma is_abs_Clean [simp]: "is_abs p \<Longrightarrow> is_abs (Clean p)"
  by (simp add: Clean_def is_abs_def Let_def)

lemma segs_join:
  assumes "\<forall>s \<in> set xs. plain s"
  shows "segs (''/'' @ join ''/'' xs) = xs"
proof (cases "xs = []")
  case True
  then show ?thesis by (simp add: segs_def is_abs_def clean_step_def)
next
  case False
  have "split_on (CHR ''/'') (CHR ''/'' # join ''/'' xs) = [] # xs"
    using split_on_join [OF False, of "CHR ''/''"] assms by (simp add: plain_def)
  then show ?thesis
    using fold_clean_id [OF assms, of True "[]"] by (simp add: segs_def is_abs_def clean_step_def)
qed

lemma segs_Clean: "is_abs p \<Longrightarrow> segs (Clean p) = segs p"
  using segs_join [OF segs_plain] by (simp add: Clean_def Let_def)

lemma Clean_idem: "is_abs p \<Longrightarrow> Clean (Clean p) = Clean p"
  using segs_Clean [of p] is_abs_Clean [of p] by (simp add: Clean_def Let_def)

lemma is_abs_append: "is_abs p \<Longrightarrow> is_abs (p @ q)"
  by (cases p) (auto simp: is_abs_def)

lemma Join_abs:
  assumes "is_abs p"
  shows "Join [p, n] = Clean (p @ CHR ''/'' # n)" and "is_abs (Join [p, n])"
    and "segs (Join [p, n]) = rev (fold (clean_step True) (split_on (CHR ''/'') n) (rev (segs p)))"
proof -
  from assms have ne: "p \<noteq> []" by (auto simp: is_abs_def)
  show j: "Join [p, n] = Clean (p @ CHR ''/'' # n)" using ne by (simp add: Join_def)
  show "is_abs (Join [p, n])" using assms by (simp add: j is_abs_append)
  show "segs (Join [p, n]) = rev (fold (clean_step True) (split_on (CHR ''/'') n) (rev (segs p)))"
    using assms is_abs_append [of p "CHR ''/'' # n"] by (simp add: j segs_Clean) (simp add: segs_def split_on_sep)
qed

lemma Clean_inj: "is_abs p \<Longrightarrow> is_abs q \<Longrightarrow> segs p = segs q \<Longrightarrow> Clean p = Clean q"
  by (simp add: Clean_def)

lemma strip_common_spec:
  "strip_common bs ts = (bs', ts') \<Longrightarrow> \<exists>c. bs = c @ bs' \<and> ts = c @ ts'"
  by (induction bs ts arbitrary: bs' ts' rule: strip_common.induct) (fastforce split: if_splits)+

lemma strip_common_prefix: "strip_common bs (bs @ r) = ([], r)"
  by (induction bs) simp_all

end
