(* ===== verification/CredentialAliases.thy ===== *)
theory CredentialAliases
  imports Filepath
begin

text \<open>
  The credentials the supervisor projects for a process (\<^verbatim>\<open>internal/rckube/supervisor.go\<close>): the private
  files of the process, and the symbolic links (aliases) to credential directories, credential files,
  SSH config fragments and the agent's credential, shared between processes and counted by owner.
  The file system is a parameter: its type \<open>'f\<close> and the operations \<open>os_ops\<close>, which may fail in any
  way. Maps the code ranges over are association lists in the order of the iteration.
\<close>

section \<open>The file system\<close>

datatype walk_entry = WError err | WDir | WFile "bool result"

text \<open>
  \<open>os_lstat\<close> tells whether the path is a symbolic link; \<open>os_append\<close> opens with \<^verbatim>\<open>O_APPEND\<close>, writes and
  syncs; \<open>os_walk\<close> gives what \<^verbatim>\<open>fs.WalkDir\<close> visits, a file with the result of \<^verbatim>\<open>Info\<close> (is it regular).
\<close>

record 'f os_ops =
  os_mkdirAll :: "string \<Rightarrow> 'f \<Rightarrow> 'f \<times> err option"
  os_lstat :: "string \<Rightarrow> 'f \<Rightarrow> bool result"
  os_readlink :: "string \<Rightarrow> 'f \<Rightarrow> string result"
  os_readFile :: "string \<Rightarrow> 'f \<Rightarrow> string result"
  os_writeFile :: "string \<Rightarrow> string \<Rightarrow> 'f \<Rightarrow> 'f \<times> err option"
  os_append :: "string \<Rightarrow> string \<Rightarrow> 'f \<Rightarrow> 'f \<times> err option"
  os_remove :: "string \<Rightarrow> 'f \<Rightarrow> 'f \<times> err option"
  os_removeAll :: "string \<Rightarrow> 'f \<Rightarrow> 'f \<times> err option"
  os_symlink :: "string \<Rightarrow> string \<Rightarrow> 'f \<Rightarrow> 'f \<times> err option"
  os_openRoot :: "string \<Rightarrow> 'f \<Rightarrow> err option"
  os_rootMkdirAll :: "string \<Rightarrow> string \<Rightarrow> 'f \<Rightarrow> 'f \<times> err option"
  os_rootWriteFile :: "string \<Rightarrow> string \<Rightarrow> string \<Rightarrow> 'f \<Rightarrow> 'f \<times> err option"
  os_walk :: "string \<Rightarrow> 'f \<Rightarrow> (string \<times> walk_entry) list"

text \<open>Sequencing: the next operation runs when there is no error yet; an error can be wrapped.\<close>

definition and_then :: "'s \<times> err option \<Rightarrow> ('s \<Rightarrow> 's \<times> err option) \<Rightarrow> 's \<times> err option" where
  "and_then r k = (case r of (s, Some e) \<Rightarrow> (s, Some e) | (s, None) \<Rightarrow> k s)"

definition wrapping :: "string \<Rightarrow> 's \<times> err option \<Rightarrow> 's \<times> err option" where
  "wrapping m r = (case r of (s, e) \<Rightarrow> (s, map_option (EWrap m) e))"

section \<open>Aliases\<close>

record credentialAlias =
  al_target :: string
  al_owners :: "string set"

type_synonym aliases = "string \<rightharpoonup> credentialAlias"

record 'f alias_state =
  as_fs :: 'f
  as_aliases :: aliases

definition claimCredentialAliasLocked ::
  "'f os_ops \<Rightarrow> string \<Rightarrow> string \<Rightarrow> string \<Rightarrow> ('f \<Rightarrow> 'f \<times> err option) \<Rightarrow> 'f alias_state \<Rightarrow> 'f alias_state \<times> err option" where
  "claimCredentialAliasLocked os pid link target prepare s =
     (case as_aliases s link of
        Some a \<Rightarrow> (s\<lparr>as_aliases := (as_aliases s)(link \<mapsto> a\<lparr>al_owners := insert pid (al_owners a)\<rparr>)\<rparr>, None)
      | None \<Rightarrow>
          (let cleared =
                 (case os_lstat os link (as_fs s) of
                    Inr symlink \<Rightarrow>
                      if \<not> symlink
                      then (as_fs s, Some (EMsg (''credential projection target '' @ link @ '' already exists and is not a symbolic link'')))
                      else os_remove os link (as_fs s)
                  | Inl e \<Rightarrow> if err_is ENotFound e then (as_fs s, None) else (as_fs s, Some e));
               prepared = and_then cleared prepare
           in case prepared of
                (f, Some e) \<Rightarrow> (s\<lparr>as_fs := f\<rparr>, Some e)
              | (f, None) \<Rightarrow>
                  (case os_symlink os target link f of
                     (f', Some e) \<Rightarrow> (s\<lparr>as_fs := fst (os_removeAll os target f')\<rparr>, Some e)
                   | (f', None) \<Rightarrow>
                       (s\<lparr>as_fs := f', as_aliases := (as_aliases s)(link \<mapsto> \<lparr>al_target = target, al_owners = {pid}\<rparr>)\<rparr>, None))))"

definition release_alias :: "'f os_ops \<Rightarrow> string \<Rightarrow> string \<Rightarrow> 'f alias_state \<Rightarrow> 'f alias_state" where
  "release_alias os pid link s =
     (case as_aliases s link of
        None \<Rightarrow> s
      | Some a \<Rightarrow>
          (let owners = al_owners a - {pid}
           in if owners \<noteq> {} then s\<lparr>as_aliases := (as_aliases s)(link \<mapsto> a\<lparr>al_owners := owners\<rparr>)\<rparr>
              else (let f = (if os_readlink os link (as_fs s) = Inr (al_target a)
                             then fst (os_remove os link (as_fs s)) else as_fs s)
                    in s\<lparr>as_fs := fst (os_removeAll os (al_target a) f), as_aliases := (as_aliases s)(link := None)\<rparr>)))"

definition releaseCredentialAliasesLocked ::
  "'f os_ops \<Rightarrow> string \<Rightarrow> string list \<Rightarrow> string \<Rightarrow> 'f alias_state \<Rightarrow> 'f alias_state" where
  "releaseCredentialAliasesLocked os pid credentialLinks agentLink s =
     fold (release_alias os pid) (credentialLinks @ (if agentLink \<noteq> [] then [agentLink] else [])) s"

section \<open>Process files\<close>

definition safeChildPath :: "string \<Rightarrow> string \<Rightarrow> string result" where
  "safeChildPath parent name =
     (let path = Join [parent, name]
      in case Rel parent path of
           Inl e \<Rightarrow> Inl (EMsg (''credential path '' @ name @ '' escapes process directory''))
         | Inr relative \<Rightarrow>
             if relative = ''..'' \<or> is_abs relative \<or> has_prefix ''../'' relative
             then Inl (EMsg (''credential path '' @ name @ '' escapes process directory''))
             else Inr path)"

text \<open>\<^verbatim>\<open>filepath.Localize\<close> on Unix: a valid slash-separated path without a NUL byte.\<close>

definition Localize :: "string \<Rightarrow> string result" where
  "Localize name =
     (if (name = ''.'' \<or> (\<forall>s \<in> set (split_on (CHR ''/'') name). plain s)) \<and> CHR 0x00 \<notin> set name
      then Inr name else Inl (EMsg ''invalid path''))"

fun write_each :: "'f os_ops \<Rightarrow> string \<Rightarrow> (string \<times> string) list \<Rightarrow> 'f \<Rightarrow> 'f \<times> err option" where
  "write_each os dir [] f = (f, None)"
| "write_each os dir ((name, data) # files) f =
     (case Localize name of
        Inl e \<Rightarrow> (f, Some (EWrap (''credential path '' @ name @ '' must be a portable relative path'') e))
      | Inr local \<Rightarrow>
          and_then (wrapping ''create credential directory'' (os_rootMkdirAll os dir (Dir local) f)) (\<lambda>f.
          and_then (wrapping ''write credential file'' (os_rootWriteFile os dir local data f)) (\<lambda>f.
          write_each os dir files f)))"

definition writeCredentialFiles :: "'f os_ops \<Rightarrow> string \<Rightarrow> (string \<times> string) list \<Rightarrow> 'f \<Rightarrow> 'f \<times> err option" where
  "writeCredentialFiles os dir files f =
     (case os_openRoot os dir f of
        Some e \<Rightarrow> (f, Some (EWrap ''open process credential root'' e))
      | None \<Rightarrow> write_each os dir files f)"

fun copy_each :: "'f os_ops \<Rightarrow> string \<Rightarrow> string \<Rightarrow> (string \<times> walk_entry) list \<Rightarrow> 'f \<Rightarrow> 'f \<times> err option" where
  "copy_each os target source [] f = (f, None)"
| "copy_each os target source ((name, entry) # es) f =
     (case entry of
        WError e \<Rightarrow> (f, Some e)
      | _ \<Rightarrow>
          (case safeChildPath target name of
             Inl e \<Rightarrow> (f, Some e)
           | Inr destination \<Rightarrow>
               and_then
                 (case entry of
                    WError e \<Rightarrow> (f, Some e)
                  | WDir \<Rightarrow> wrapping ''create private credential directory'' (os_mkdirAll os destination f)
                  | WFile (Inl e) \<Rightarrow> (f, Some (EWrap ''inspect credential file'' e))
                  | WFile (Inr regular) \<Rightarrow>
                      if \<not> regular then (f, Some (EMsg (''credential path '' @ name @ '' is not a regular file'')))
                      else (case os_readFile os (Join [source, name]) f of
                              Inl e \<Rightarrow> (f, Some (EWrap ''read credential file'' e))
                            | Inr data \<Rightarrow> wrapping ''write private credential file'' (os_writeFile os destination data f)))
                 (\<lambda>f. copy_each os target source es f)))"

definition copyCredentialDirectory :: "'f os_ops \<Rightarrow> string \<Rightarrow> string \<Rightarrow> 'f \<Rightarrow> 'f \<times> err option" where
  "copyCredentialDirectory os target source f = copy_each os target source (os_walk os source f) f"

section \<open>Projections\<close>

text \<open>
  The loops that claim one alias per item: the links claimed so far, and the error that ended the
  loop.
\<close>

fun claim_each ::
  "('a \<Rightarrow> 's \<Rightarrow> 's \<times> string result) \<Rightarrow> 'a list \<Rightarrow> string list \<Rightarrow> 's \<Rightarrow> 's \<times> string list \<times> err option" where
  "claim_each step [] links s = (s, links, None)"
| "claim_each step (x # xs) links s =
     (case step x s of
        (s', Inl e) \<Rightarrow> (s', links, Some e)
      | (s', Inr link) \<Rightarrow> claim_each step xs (links @ [link]) s')"

definition claimed_link :: "string \<Rightarrow> string \<Rightarrow> 's \<times> err option \<Rightarrow> 's \<times> string result" where
  "claimed_link m link r = (case r of (s, Some e) \<Rightarrow> (s, Inl (EWrap m e)) | (s, None) \<Rightarrow> (s, Inr link))"

definition mkdir_in :: "'f os_ops \<Rightarrow> string \<Rightarrow> 'f alias_state \<Rightarrow> 'f alias_state \<times> err option" where
  "mkdir_in os dir s = (case os_mkdirAll os dir (as_fs s) of (f, e) \<Rightarrow> (s\<lparr>as_fs := f\<rparr>, e))"

subsection \<open>Credential directories\<close>

definition credential_names :: "(string \<times> string) list \<Rightarrow> string list" where
  "credential_names files =
     remdups (concat (map (\<lambda>(n, _). case split_on (CHR ''/'') n of
        p0 # p1 # _ \<Rightarrow> (if p0 = ''credentials'' then [p1] else []) | _ \<Rightarrow> []) files))"

definition project_directory ::
  "'f os_ops \<Rightarrow> string \<Rightarrow> string \<Rightarrow> string \<Rightarrow> string \<Rightarrow> 'f alias_state \<Rightarrow> 'f alias_state \<times> string result" where
  "project_directory os pid dir root name s =
     (case safeChildPath dir (Join [''credentials'', name]) of
        Inl e \<Rightarrow> (s, Inl e)
      | Inr source \<Rightarrow>
          (case safeChildPath root name of
             Inl e \<Rightarrow> (s, Inl e)
           | Inr link \<Rightarrow>
               (let target = Join [Dir root, ''credential-sets'', name]
                in claimed_link ''project generic credential directory'' link
                     (claimCredentialAliasLocked os pid link target
                        (\<lambda>f. and_then (os_removeAll os target f) (\<lambda>f.
                             case copyCredentialDirectory os target source f of
                               (f', Some e) \<Rightarrow> (fst (os_removeAll os target f'), Some e)
                             | (f', None) \<Rightarrow> (f', None))) s))))"

definition prepareCredentialAliases ::
  "'f os_ops \<Rightarrow> string \<Rightarrow> string \<Rightarrow> string \<Rightarrow> (string \<times> string) list \<Rightarrow> 'f alias_state \<Rightarrow>
   'f alias_state \<times> string list result" where
  "prepareCredentialAliases os pid dir root files s =
     (if root = [] then (s, Inr [])
      else (case mkdir_in os root s of
              (s1, Some e) \<Rightarrow> (s1, Inl (EWrap ''create generic credentials root'' e))
            | (s1, None) \<Rightarrow>
                (case claim_each (project_directory os pid dir root) (credential_names files) [] s1 of
                   (s2, _, Some e) \<Rightarrow> (s2, Inl e)
                 | (s2, links, None) \<Rightarrow> (s2, Inr links))))"

subsection \<open>Credential files\<close>

text \<open>The deferred release of \<^verbatim>\<open>prepareCredentialMounts\<close> and \<^verbatim>\<open>prepareSSHConfig\<close>.\<close>

definition release_unless_completed ::
  "'f os_ops \<Rightarrow> string \<Rightarrow> 'f alias_state \<times> string list \<times> err option \<Rightarrow> 'f alias_state \<times> string list result" where
  "release_unless_completed os pid r =
     (case r of
        (s, links, Some e) \<Rightarrow> (releaseCredentialAliasesLocked os pid links [] s, Inl e)
      | (s, links, None) \<Rightarrow> (s, Inr links))"

text \<open>\<open>sha\<close> is the hexadecimal form of the first ten bytes of the SHA-256 sum.\<close>

definition copy_file :: "'f os_ops \<Rightarrow> string \<Rightarrow> string \<Rightarrow> 'f \<Rightarrow> 'f \<times> err option" where
  "copy_file os source target f =
     (case os_readFile os source f of
        Inl e \<Rightarrow> (f, Some e)
      | Inr data \<Rightarrow> and_then (os_mkdirAll os (Dir target) f) (os_writeFile os target data))"

definition not_clean_absolute :: "string \<Rightarrow> bool" where
  "not_clean_absolute p = (\<not> is_abs p \<or> Clean p \<noteq> p \<or> p = ''/'')"

definition project_mount ::
  "'f os_ops \<Rightarrow> (string \<Rightarrow> string) \<Rightarrow> string \<Rightarrow> string \<Rightarrow> string \<times> string \<Rightarrow> 'f alias_state \<Rightarrow> 'f alias_state \<times> string result" where
  "project_mount os sha pid dir mount s =
     (case mount of (mountSource, mountTarget) \<Rightarrow>
        (case safeChildPath dir mountSource of
           Inl e \<Rightarrow> (s, Inl (EWrap ''resolve credential mount source'' e))
         | Inr source \<Rightarrow>
             if not_clean_absolute mountTarget
             then (s, Inl (EMsg (''credential mount target '' @ mountTarget @ '' must be a clean absolute file path'')))
             else
               (case mkdir_in os (Dir mountTarget) s of
                  (s1, Some e) \<Rightarrow> (s1, Inl (EWrap ''create credential mount directory'' e))
                | (s1, None) \<Rightarrow>
                    (case safeChildPath (Join [Dir dir, ''credential-mounts'', sha mountTarget]) (Base mountTarget) of
                       Inl e \<Rightarrow> (s1, Inl e)
                     | Inr target \<Rightarrow>
                         claimed_link (''project credential file to '' @ mountTarget) mountTarget
                           (claimCredentialAliasLocked os pid mountTarget target (copy_file os source target) s1)))))"

definition prepareCredentialMounts ::
  "'f os_ops \<Rightarrow> (string \<Rightarrow> string) \<Rightarrow> string \<Rightarrow> string \<Rightarrow> (string \<times> string) list \<Rightarrow> 'f alias_state \<Rightarrow>
   'f alias_state \<times> string list result" where
  "prepareCredentialMounts os sha pid dir mounts s =
     release_unless_completed os pid (claim_each (project_mount os sha pid dir) mounts [] s)"

subsection \<open>SSH configuration\<close>

definition sshIdentityFilePlaceholder :: string where "sshIdentityFilePlaceholder = ''${identityFile}''"
definition sshKnownHostsFilePlaceholder :: string where "sshKnownHostsFilePlaceholder = ''${knownHostsFile}''"

definition newline :: string where "newline = [CHR 0x0A]"

definition managed_block :: "string \<Rightarrow> string" where
  "managed_block pattern = ''# rc: managed SSH Credential fragments'' @ newline @ ''Host *'' @ newline @ ''  Include '' @ pattern @ newline"

definition ensureSSHConfigInclude :: "'f os_ops \<Rightarrow> string \<Rightarrow> string \<Rightarrow> 'f \<Rightarrow> 'f \<times> err option" where
  "ensureSSHConfigInclude os configPath pattern f =
     and_then (os_mkdirAll os (Dir configPath) f) (\<lambda>f.
       case (case os_readFile os configPath f of
               Inr data \<Rightarrow> Inr data
             | Inl e \<Rightarrow> if err_is ENotFound e then Inr [] else Inl e) of
         Inl e \<Rightarrow> (f, Some e)
       | Inr data \<Rightarrow>
           if contains (managed_block pattern) data then (f, None)
           else (let prefix = (if data \<noteq> [] \<and> last data \<noteq> CHR 0x0A then newline else [])
                 in os_append os configPath (prefix @ managed_block pattern) f))"

definition fragment_content :: "string \<Rightarrow> string \<Rightarrow> string \<Rightarrow> string" where
  "fragment_content root name text =
     (let content = replace_all sshKnownHostsFilePlaceholder (Join [root, name, ''known_hosts''])
                      (replace_all sshIdentityFilePlaceholder (Join [root, name, ''id'']) text)
      in if has_suffix newline content then content else content @ newline)"

definition project_fragment ::
  "'f os_ops \<Rightarrow> (string \<Rightarrow> string) \<Rightarrow> string \<Rightarrow> string \<Rightarrow> string \<Rightarrow> string \<Rightarrow> (string \<times> string) list \<Rightarrow> string \<Rightarrow>
   'f alias_state \<Rightarrow> 'f alias_state \<times> string result" where
  "project_fragment os sha pid dir root fragmentDirectory fragments name s =
     (if Base name \<noteq> name \<or> name = ''.'' \<or> name = ''..''
      then (s, Inl (EMsg (''SSH config fragment name '' @ name @ '' must be one safe path segment'')))
      else
        (let content = fragment_content root name (case map_of fragments name of Some t \<Rightarrow> t | None \<Rightarrow> []);
             link = Join [fragmentDirectory, ''rc-'' @ name @ ''.conf''];
             targetDirectory = Join [Dir dir, ''ssh-config-fragments'', sha link];
             target = Join [targetDirectory, Base link]
         in claimed_link (''project SSH config fragment '' @ name) link
              (claimCredentialAliasLocked os pid link target
                 (\<lambda>f. and_then (os_mkdirAll os targetDirectory f) (os_writeFile os target content)) s)))"

definition prepareSSHConfig ::
  "'f os_ops \<Rightarrow> (string \<Rightarrow> string) \<Rightarrow> string \<Rightarrow> string \<Rightarrow> string \<Rightarrow> string \<Rightarrow> (string \<times> string) list \<Rightarrow>
   'f alias_state \<Rightarrow> 'f alias_state \<times> string list result" where
  "prepareSSHConfig os sha pid dir root configPath fragments s =
     (if fragments = [] then (s, Inr [])
      else if root = [] then (s, Inl (EMsg ''SSH config fragments require a credentials root''))
      else if not_clean_absolute configPath
      then (s, Inl (EMsg (''SSH config path '' @ configPath @ '' must be a clean absolute file path'')))
      else
        (let fragmentDirectory = configPath @ ''.d''
         in case ensureSSHConfigInclude os configPath (Join [fragmentDirectory, ''*.conf'']) (as_fs s) of
              (f, Some e) \<Rightarrow> (s\<lparr>as_fs := f\<rparr>, Inl (EWrap ''ensure managed SSH config include'' e))
            | (f, None) \<Rightarrow>
                (case mkdir_in os fragmentDirectory (s\<lparr>as_fs := f\<rparr>) of
                   (s1, Some e) \<Rightarrow> (s1, Inl (EWrap ''create managed SSH config fragment directory'' e))
                 | (s1, None) \<Rightarrow>
                     release_unless_completed os pid
                       (claim_each (project_fragment os sha pid dir root fragmentDirectory fragments)
                          (sort (map fst fragments)) [] s1))))"

subsection \<open>The agent's credential\<close>

definition prepareAgentHome ::
  "'f os_ops \<Rightarrow> (string \<Rightarrow> string) \<Rightarrow> string \<Rightarrow> string \<Rightarrow> string \<Rightarrow> (string \<times> string) list \<Rightarrow> 'f alias_state \<Rightarrow>
   'f alias_state \<times> string result" where
  "prepareAgentHome os sha pid dir agentHome files s =
     (if agentHome = [] then (s, Inr [])
      else (case mkdir_in os agentHome s of
              (s1, Some e) \<Rightarrow> (s1, Inl (EWrap ''create Agent home'' e))
            | (s1, None) \<Rightarrow>
                if map_of files ''agent/auth.json'' = None then (s1, Inr [])
                else
                  (let source = Join [dir, ''agent'', ''auth.json''];
                       link = Join [agentHome, ''auth.json''];
                       target = Join [Dir dir, ''agent-credentials'', sha agentHome, ''auth.json'']
                   in claimed_link ''project Agent credential'' link
                        (claimCredentialAliasLocked os pid link target (copy_file os source target) s1))))"

section \<open>Ownership\<close>

text \<open>
  The aliases as the other processes see them: \<open>pid\<close> removed from every owner set, an alias without
  another owner gone. A start and the release of its links may only change what \<open>pid\<close> owns.
\<close>

definition without :: "string \<Rightarrow> aliases \<Rightarrow> aliases" where
  "without pid A = (\<lambda>l. case A l of
     None \<Rightarrow> None
   | Some a \<Rightarrow> if al_owners a - {pid} = {} then None else Some (a\<lparr>al_owners := al_owners a - {pid}\<rparr>))"

definition owned :: "string \<Rightarrow> aliases \<Rightarrow> string set" where
  "owned pid A = {l. \<exists>a. A l = Some a \<and> pid \<in> al_owners a}"

definition alias_wf :: "aliases \<Rightarrow> bool" where
  "alias_wf A = (\<forall>l a. A l = Some a \<longrightarrow> al_owners a \<noteq> {})"

lemma without_unowned: "alias_wf A \<Longrightarrow> owned pid A = {} \<Longrightarrow> without pid A = A"
  by (rule ext) (auto simp: without_def owned_def alias_wf_def split: option.splits)

lemma alias_wf_without: "alias_wf (without pid A)"
  by (auto simp: alias_wf_def without_def split: option.splits if_splits)

lemma owned_without: "owned pid (without pid A) = {}"
  by (auto simp: owned_def without_def split: option.splits if_splits)

lemma owned_other_without: "q \<noteq> pid \<Longrightarrow> owned q (without pid A) = owned q A"
  by (fastforce simp: owned_def without_def split: option.splits if_splits)

text \<open>One claim and one release, on the registry.\<close>

lemma claim_cases:
  assumes "claimCredentialAliasLocked os pid link target prepare s = (s', e)"
  obtains "e = None" "\<exists>a. as_aliases s link = Some a \<and> as_aliases s' = (as_aliases s)(link \<mapsto> a\<lparr>al_owners := insert pid (al_owners a)\<rparr>)"
  | "e = None" "as_aliases s link = None" "as_aliases s' = (as_aliases s)(link \<mapsto> \<lparr>al_target = target, al_owners = {pid}\<rparr>)"
  | x where "e = Some x" "as_aliases s' = as_aliases s"
  using assms unfolding claimCredentialAliasLocked_def Let_def
  by (cases e) (auto split: option.splits prod.splits)

lemma claim_without:
  "without pid (as_aliases (fst (claimCredentialAliasLocked os pid link target prepare s))) = without pid (as_aliases s)"
proof -
  obtain s' e where c: "claimCredentialAliasLocked os pid link target prepare s = (s', e)" by fastforce
  from c show ?thesis
    by (cases rule: claim_cases) (auto simp: c without_def fun_eq_iff)
qed

lemma claim_owned:
  assumes "claimCredentialAliasLocked os pid link target prepare s = (s', None)"
  shows "owned pid (as_aliases s') = insert link (owned pid (as_aliases s))"
  using assms by (cases rule: claim_cases) (auto simp: owned_def)

lemma claim_failed:
  assumes "claimCredentialAliasLocked os pid link target prepare s = (s', Some e)"
  shows "as_aliases s' = as_aliases s"
  using assms by (cases rule: claim_cases) auto

lemma claim_wf:
  assumes "alias_wf (as_aliases s)"
  shows "alias_wf (as_aliases (fst (claimCredentialAliasLocked os pid link target prepare s)))"
proof -
  obtain s' e where c: "claimCredentialAliasLocked os pid link target prepare s = (s', e)" by fastforce
  from c show ?thesis
    using assms by (cases rule: claim_cases) (auto simp: c alias_wf_def split: if_splits)
qed

lemma release_alias_aliases:
  "as_aliases (release_alias os pid link s) = (\<lambda>l. if l = link then without pid (as_aliases s) l else as_aliases s l)"
  by (rule ext) (auto simp: release_alias_def without_def Let_def split: option.splits)

lemma release_aliases:
  "as_aliases (fold (release_alias os pid) links s) =
     (\<lambda>l. if l \<in> set links then without pid (as_aliases s) l else as_aliases s l)"
proof (induction links arbitrary: s)
  case (Cons l ls)
  have "without pid (as_aliases (release_alias os pid l s)) = without pid (as_aliases s)"
    by (auto simp: release_alias_aliases fun_eq_iff) (auto simp: without_def split: option.splits)
  with Cons show ?case by (auto simp: release_alias_aliases fun_eq_iff)
qed simp

lemma without_idem: "without pid (without pid A) = without pid A"
  by (rule without_unowned [OF alias_wf_without owned_without])

definition forget :: "string \<Rightarrow> string set \<Rightarrow> aliases \<Rightarrow> aliases" where
  "forget pid L A = (\<lambda>l. if l \<in> L then without pid A l else A l)"

abbreviation released_links :: "string list \<Rightarrow> string \<Rightarrow> string list" where
  "released_links links al \<equiv> links @ (if al \<noteq> [] then [al] else [])"

lemma release_forget:
  "as_aliases (releaseCredentialAliasesLocked os pid links al s) = forget pid (set (released_links links al)) (as_aliases s)"
  unfolding releaseCredentialAliasesLocked_def forget_def by (rule release_aliases)

lemma without_forget [simp]: "without pid (forget pid L A) = without pid A"
  by (rule ext) (auto simp: forget_def without_def split: option.splits)

lemma owned_forget [simp]: "owned pid (forget pid L A) = owned pid A - L"
  using owned_without [of pid A] by (auto simp: forget_def owned_def split: if_splits)

lemma alias_wf_forget: "alias_wf A \<Longrightarrow> alias_wf (forget pid L A)"
  using alias_wf_without [of pid A] by (auto simp: forget_def alias_wf_def split: if_splits)

lemma forget_all: "alias_wf A \<Longrightarrow> owned pid A \<subseteq> L \<Longrightarrow> forget pid L A = without pid A"
  using without_unowned [of "forget pid L A" pid] alias_wf_forget [of A pid L] by simp

lemma release_without:
  "without pid (as_aliases (releaseCredentialAliasesLocked os pid links al s)) = without pid (as_aliases s)"
  unfolding release_forget by (rule without_forget)

lemma release_owned:
  "owned pid (as_aliases (releaseCredentialAliasesLocked os pid links al s)) =
     owned pid (as_aliases s) - set (released_links links al)"
  unfolding release_forget by (rule owned_forget)

lemma release_wf:
  "alias_wf (as_aliases s) \<Longrightarrow> alias_wf (as_aliases (releaseCredentialAliasesLocked os pid links al s))"
  unfolding release_forget by (rule alias_wf_forget)

text \<open>
  The interface of a projection loop: a step leaves the other processes' view alone, owns at most
  the link it reports and owns nothing more when it fails. The loop then keeps the same contract.
\<close>

locale alias_claims =
  fixes pid :: string
    and step :: "'a \<Rightarrow> 'f alias_state \<Rightarrow> 'f alias_state \<times> string result"
  assumes step_without: "without pid (as_aliases (fst (step x s))) = without pid (as_aliases s)"
    and step_wf: "alias_wf (as_aliases s) \<Longrightarrow> alias_wf (as_aliases (fst (step x s)))"
    and step_owned: "step x s = (s', Inr l) \<Longrightarrow> owned pid (as_aliases s') \<subseteq> insert l (owned pid (as_aliases s))"
    and step_failed: "step x s = (s', Inl e) \<Longrightarrow> as_aliases s' = as_aliases s"
begin

lemma loop_without:
  "without pid (as_aliases (fst (claim_each step xs links s))) = without pid (as_aliases s)"
proof (induction xs arbitrary: links s)
  case (Cons x xs)
  obtain s' r where r: "step x s = (s', r)" by fastforce
  with step_without [of x s] Cons show ?case by (cases r) (simp_all add: r)
qed simp

lemma loop_wf:
  "alias_wf (as_aliases s) \<Longrightarrow> alias_wf (as_aliases (fst (claim_each step xs links s)))"
proof (induction xs arbitrary: links s)
  case (Cons x xs)
  obtain s' r where r: "step x s = (s', r)" by fastforce
  with step_wf [of s x] Cons show ?case by (cases r) (simp_all add: r)
qed simp

lemma loop_owned:
  "claim_each step xs links s = (s', links', e) \<Longrightarrow>
     owned pid (as_aliases s') \<subseteq> set links' \<union> owned pid (as_aliases s) \<and> set links \<subseteq> set links'"
proof (induction xs arbitrary: links s)
  case (Cons x xs)
  obtain s1 r where r: "step x s = (s1, r)" by fastforce
  show ?case
  proof (cases r)
    case (Inl e')
    with Cons.prems r have "s' = s1" "links' = links" by auto
    with step_failed [of x s s1 e'] r Inl show ?thesis by auto
  next
    case (Inr l)
    with r Cons.prems have "claim_each step xs (links @ [l]) s1 = (s', links', e)" by simp
    from Cons.IH [OF this] step_owned [of x s s1 l] r Inr show ?thesis by auto
  qed
qed auto

text \<open>With the deferred release an error leaves \<open>pid\<close> no more than it had.\<close>

lemma released_loop:
  assumes "release_unless_completed os pid (claim_each step xs [] s) = (s', r)"
  shows "without pid (as_aliases s') = without pid (as_aliases s)"
    and "r = Inr links \<Longrightarrow> owned pid (as_aliases s') \<subseteq> set links \<union> owned pid (as_aliases s)"
    and "r = Inl e \<Longrightarrow> owned pid (as_aliases s') \<subseteq> owned pid (as_aliases s)"
proof -
  obtain s1 ls x where c: "claim_each step xs [] s = (s1, ls, x)" using prod_cases3 by blast
  note o = loop_owned [OF c] and w = loop_without [of xs "[]" s, unfolded c, simplified]
  from assms c show "without pid (as_aliases s') = without pid (as_aliases s)"
    using w by (auto simp: release_unless_completed_def release_without split: option.splits)
  from assms c o show "r = Inr links \<Longrightarrow> owned pid (as_aliases s') \<subseteq> set links \<union> owned pid (as_aliases s)"
    by (auto simp: release_unless_completed_def split: option.splits)
  from assms c o show "r = Inl e \<Longrightarrow> owned pid (as_aliases s') \<subseteq> owned pid (as_aliases s)"
    by (auto simp: release_unless_completed_def release_owned split: option.splits)
qed

lemma released_wf:
  assumes "alias_wf (as_aliases s)"
  shows "alias_wf (as_aliases (fst (release_unless_completed os pid (claim_each step xs [] s))))"
  using loop_wf [OF assms, of xs "[]"]
  by (auto simp: release_unless_completed_def release_wf split: prod.splits option.splits)

end

text \<open>A single claim keeps the contract, whatever it prepares.\<close>

lemma claimed_link_contract:
  fixes s s1 :: "'f alias_state"
  assumes r: "claimed_link m link (claimCredentialAliasLocked os pid link target prepare s1) = (s', r)"
    and s1: "as_aliases s1 = as_aliases s"
  shows "without pid (as_aliases s') = without pid (as_aliases s)"
    and "alias_wf (as_aliases s) \<Longrightarrow> alias_wf (as_aliases s')"
    and "r = Inr l \<Longrightarrow> l = link \<and> owned pid (as_aliases s') = insert l (owned pid (as_aliases s))"
    and "r = Inl e \<Longrightarrow> as_aliases s' = as_aliases s"
proof -
  obtain s2 x where c: "claimCredentialAliasLocked os pid link target prepare s1 = (s2, x)" by fastforce
  with r have s2: "s' = s2" by (auto simp: claimed_link_def split: option.splits)
  show "without pid (as_aliases s') = without pid (as_aliases s)"
    using claim_without [of pid os link target prepare s1] c s2 s1 by simp
  show "alias_wf (as_aliases s) \<Longrightarrow> alias_wf (as_aliases s')"
    using claim_wf [of s1 os pid link target prepare] c s2 s1 by simp
  show "r = Inr l \<Longrightarrow> l = link \<and> owned pid (as_aliases s') = insert l (owned pid (as_aliases s))"
    using r c s2 s1 claim_owned [of os pid link target prepare s1 s2] by (auto simp: claimed_link_def split: option.splits)
  show "r = Inl e \<Longrightarrow> as_aliases s' = as_aliases s"
    using r c s2 s1 claim_failed [of os pid link target prepare s1 s2] by (auto simp: claimed_link_def split: option.splits)
qed

lemma mkdir_in_aliases: "mkdir_in os dir s = (s', e) \<Longrightarrow> as_aliases s' = as_aliases s"
  by (auto simp: mkdir_in_def split: prod.splits)

text \<open>
  A step that either fails without touching the registry or ends in one claim satisfies the laws of
  \<open>alias_claims\<close>.
\<close>

definition claim_shaped :: "string \<Rightarrow> ('a \<Rightarrow> 'f alias_state \<Rightarrow> 'f alias_state \<times> string result) \<Rightarrow> bool" where
  "claim_shaped pid step = (\<forall>x s.
     (\<exists>s' e. step x s = (s', Inl e) \<and> as_aliases s' = as_aliases s) \<or>
     (\<exists>s1 os m link target prepare. as_aliases s1 = as_aliases s \<and>
        step x s = claimed_link m link (claimCredentialAliasLocked os pid link target prepare s1)))"

lemma claim_shaped_claims:
  assumes "claim_shaped pid step"
  shows "alias_claims pid step"
proof
  fix x s s' l e
  consider (fails) s1 e1 where "step x s = (s1, Inl e1)" "as_aliases s1 = as_aliases s"
    | (claims) s1 os m link target prepare where "as_aliases s1 = as_aliases s"
        "step x s = claimed_link m link (claimCredentialAliasLocked os pid link target prepare s1)"
    using assms unfolding claim_shaped_def by blast
  note shape = this
  show "without pid (as_aliases (fst (step x s))) = without pid (as_aliases s)"
    using shape by cases (auto simp: claimed_link_contract(1) [OF prod.collapse [symmetric]])
  show "alias_wf (as_aliases s) \<Longrightarrow> alias_wf (as_aliases (fst (step x s)))"
    using shape by cases (auto simp: claimed_link_contract(2) [OF prod.collapse [symmetric]])
  show "step x s = (s', Inr l) \<Longrightarrow> owned pid (as_aliases s') \<subseteq> insert l (owned pid (as_aliases s))"
    using shape by cases (use claimed_link_contract(3) [OF trans [OF sym]] in \<open>simp, fastforce\<close>)
  show "step x s = (s', Inl e) \<Longrightarrow> as_aliases s' = as_aliases s"
    using shape by cases (use claimed_link_contract(4) [OF trans [OF sym]] in \<open>simp, blast\<close>)
qed

lemma project_directory_shape: "claim_shaped pid (project_directory os pid dir root)"
  unfolding claim_shaped_def project_directory_def Let_def
  by (auto split: sum.splits) blast

lemma project_mount_shape: "claim_shaped pid (project_mount os sha pid dir)"
  unfolding claim_shaped_def project_mount_def
  by (auto split: sum.splits prod.splits option.splits dest: mkdir_in_aliases) (blast dest: mkdir_in_aliases)

lemma project_fragment_shape: "claim_shaped pid (project_fragment os sha pid dir root fd fragments)"
  unfolding claim_shaped_def project_fragment_def Let_def by auto blast

interpretation directories: alias_claims pid "project_directory os pid dir root" for os pid dir root
  by (rule claim_shaped_claims [OF project_directory_shape])

interpretation mounts: alias_claims pid "project_mount os sha pid dir" for os sha pid dir
  by (rule claim_shaped_claims [OF project_mount_shape])

interpretation fragments: alias_claims pid "project_fragment os sha pid dir root fd frs" for os sha pid dir root fd frs
  by (rule claim_shaped_claims [OF project_fragment_shape])

subsection \<open>The four projections\<close>

text \<open>
  What \<^verbatim>\<open>prepareCredentials\<close> relies on: the view of the others does not change, and the process owns
  no link that the projection did not return.
\<close>

definition projection_ok :: "string \<Rightarrow> 'f alias_state \<Rightarrow> 'f alias_state \<Rightarrow> string set \<Rightarrow> bool" where
  "projection_ok pid s s' links =
     (without pid (as_aliases s') = without pid (as_aliases s) \<and>
      (alias_wf (as_aliases s) \<longrightarrow> alias_wf (as_aliases s')) \<and>
      owned pid (as_aliases s') \<subseteq> links \<union> owned pid (as_aliases s))"

lemma projection_okI:
  assumes "without pid (as_aliases s') = without pid (as_aliases s)"
    and "alias_wf (as_aliases s) \<Longrightarrow> alias_wf (as_aliases s')"
    and "owned pid (as_aliases s') \<subseteq> links \<union> owned pid (as_aliases s)"
  shows "projection_ok pid s s' links"
  using assms by (simp add: projection_ok_def)

lemma projection_ok_same: "as_aliases s' = as_aliases s \<Longrightarrow> projection_ok pid s s' links"
  by (simp add: projection_ok_def)

lemma projection_ok_trans:
  "projection_ok pid s s' K \<Longrightarrow> projection_ok pid s' s'' L \<Longrightarrow> projection_ok pid s s'' (K \<union> L)"
  by (auto simp: projection_ok_def)

lemma projection_ok_mono: "projection_ok pid s s' K \<Longrightarrow> K \<subseteq> L \<Longrightarrow> projection_ok pid s s' L"
  by (auto simp: projection_ok_def)

lemma claim_each_single:
  assumes "length xs \<le> Suc 0" "claim_each step xs [] s = (s', links, Some e)"
  shows "links = []"
  using assms by (cases xs) (auto split: prod.splits sum.splits)

definition projected_links :: "string list result \<Rightarrow> string set" where
  "projected_links r = (case r of Inr links \<Rightarrow> set links | Inl _ \<Rightarrow> {})"

lemma aliases_projection:
  assumes r: "prepareCredentialAliases os pid dir root files s = (s', r)"
    and safe: "root = [] \<or> length (credential_names files) \<le> Suc 0 \<or> (\<exists>links. r = Inr links)"
  shows "projection_ok pid s s' (projected_links r)"
proof (cases "root = []")
  case True
  with r show ?thesis by (auto simp: prepareCredentialAliases_def intro: projection_ok_same)
next
  case False
  obtain s1 m where m: "mkdir_in os root s = (s1, m)" by fastforce
  note a1 = mkdir_in_aliases [OF m]
  obtain s2 links x where c: "claim_each (project_directory os pid dir root) (credential_names files) [] s1 = (s2, links, x)"
    using prod_cases3 by blast
  show ?thesis
  proof (cases m)
    case (Some e)
    with r m False a1 show ?thesis by (auto simp: prepareCredentialAliases_def intro: projection_ok_same)
  next
    case None
    with r m c False have s': "s' = s2" and r': "r = (case x of Some e \<Rightarrow> Inl e | None \<Rightarrow> Inr links)"
      by (auto simp: prepareCredentialAliases_def split: option.splits)
    have "x = None \<or> links = []"
      using safe False r' claim_each_single [of "credential_names files" "project_directory os pid dir root" s1 s2 links] c
      by (cases x) auto
    then show ?thesis
      using directories.loop_owned [OF c] directories.loop_without [of pid os dir root "credential_names files" "[]" s1]
        directories.loop_wf [of s1 os pid dir root "credential_names files" "[]"] c a1 s' r'
      by (auto simp: projected_links_def intro!: projection_okI split: option.splits)
  qed
qed

lemma mounts_projection:
  assumes r: "prepareCredentialMounts os sha pid dir mts s = (s', r)"
  shows "projection_ok pid s s' (projected_links r)"
  using mounts.released_loop [OF r [unfolded prepareCredentialMounts_def]]
    mounts.released_wf [of s os pid os sha dir mts] r
  by (cases r) (auto simp: projected_links_def prepareCredentialMounts_def intro!: projection_okI)

lemma ssh_projection:
  assumes r: "prepareSSHConfig os sha pid dir root configPath frs s = (s', r)"
  shows "projection_ok pid s s' (projected_links r)"
proof -
  let ?fd = "configPath @ ''.d''"
  have same: "as_aliases s' = as_aliases s \<or>
      (\<exists>s1 xs. as_aliases s1 = as_aliases s \<and>
         release_unless_completed os pid (claim_each (project_fragment os sha pid dir root ?fd frs) xs [] s1) = (s', r))"
    using r unfolding prepareSSHConfig_def Let_def
    by (fastforce split: if_splits prod.splits option.splits dest: mkdir_in_aliases)
  then show ?thesis
  proof
    assume "as_aliases s' = as_aliases s"
    then show ?thesis by (rule projection_ok_same)
  next
    assume "\<exists>s1 xs. as_aliases s1 = as_aliases s \<and>
         release_unless_completed os pid (claim_each (project_fragment os sha pid dir root ?fd frs) xs [] s1) = (s', r)"
    then obtain s1 xs where s1: "as_aliases s1 = as_aliases s"
      and c: "release_unless_completed os pid (claim_each (project_fragment os sha pid dir root ?fd frs) xs [] s1) = (s', r)"
      by blast
    from fragments.released_loop [OF c] fragments.released_wf [of s1 os pid os sha dir root ?fd frs xs] s1 c show ?thesis
      by (cases r) (auto simp: projected_links_def intro!: projection_okI)
  qed
qed

lemma Join_nonempty: "p \<noteq> [] \<Longrightarrow> Join (p # ps) \<noteq> []"
  by (simp add: Join_def Clean_def Let_def)

lemma agent_projection:
  assumes r: "prepareAgentHome os sha pid dir home files s = (s', r)"
  shows "projection_ok pid s s' (case r of Inr l \<Rightarrow> if l = [] then {} else {l} | Inl _ \<Rightarrow> {})"
proof -
  let ?link = "Join [home, ''auth.json'']"
  let ?target = "Join [Dir dir, ''agent-credentials'', sha home, ''auth.json'']"
  obtain s1 m where m: "mkdir_in os home s = (s1, m)" by fastforce
  note a1 = mkdir_in_aliases [OF m]
  consider "as_aliases s' = as_aliases s"
    | "home \<noteq> []" "claimed_link ''project Agent credential'' ?link
         (claimCredentialAliasLocked os pid ?link ?target (copy_file os (Join [dir, ''agent'', ''auth.json'']) ?target) s1) = (s', r)"
    using r m a1 unfolding prepareAgentHome_def Let_def by (auto split: if_splits option.splits)
  then show ?thesis
  proof cases
    case 1
    then show ?thesis by (rule projection_ok_same)
  next
    case 2
    from claimed_link_contract [OF 2(2) a1] Join_nonempty [OF 2(1)] show ?thesis
      by (cases r) (auto intro!: projection_okI)
  qed
qed

section \<open>Containment\<close>

definition escaping :: "string \<Rightarrow> bool" where
  "escaping rel = (rel = ''..'' \<or> is_abs rel \<or> has_prefix ''../'' rel)"

lemma join_Cons: "join sep (x # xs) = x @ (if xs = [] then [] else sep @ join sep xs)"
  by (cases xs) auto

lemma join_plain_not_escaping:
  assumes "plain t"
  shows "\<not> escaping (join ''/'' (t # ts))"
proof -
  obtain a t' where t: "t = a # t'" using assms by (auto simp: plain_def neq_Nil_conv)
  show ?thesis
    using assms unfolding t join_Cons escaping_def is_abs_def plain_def
    by (cases t'; cases "tl t'") (auto split: if_splits)
qed

lemma join_dotdot_escaping: "escaping (join ''/'' (''..'' # xs))"
  by (auto simp: escaping_def join_Cons)

lemma Rel_child:
  assumes "is_abs parent" "is_abs path"
  shows "(\<exists>rel. Rel parent path = Inr rel \<and> \<not> escaping rel) \<longleftrightarrow> (\<exists>rest. segs path = segs parent @ rest)"
proof (cases "Clean parent = Clean path")
  case True
  with assms have "segs path = segs parent" by (metis segs_Clean)
  with True show ?thesis by (auto simp: Rel_def escaping_def is_abs_def)
next
  case False
  obtain bs ts where st: "strip_common (segs parent) (segs path) = (bs, ts)" by fastforce
  then obtain c where c: "segs parent = c @ bs" "segs path = c @ ts" using strip_common_spec by blast
  have plain: "\<forall>s \<in> set bs. plain s" "\<forall>s \<in> set ts. plain s"
    using segs_plain assms c by (metis Un_iff set_append)+
  then have "''..'' \<notin> set bs" by (auto simp: plain_def)
  with st False assms have rel: "Rel parent path = Inr (join ''/'' (map (\<lambda>_. ''..'') bs @ ts))"
    by (simp add: Rel_def)
  show ?thesis
  proof (cases bs)
    case Nil
    with c False assms have "ts \<noteq> []" by (metis Clean_inj append_Nil2)
    with Nil rel plain c show ?thesis by (cases ts) (auto simp: join_plain_not_escaping)
  next
    case (Cons b bs')
    then have "\<nexists>rest. segs path = segs parent @ rest" using st strip_common_prefix [of "segs parent"] by auto
    with Cons rel show ?thesis by (auto simp: join_dotdot_escaping)
  qed
qed

text \<open>\<^verbatim>\<open>safeChildPath\<close> accepts a name exactly when the cleaned join of an absolute directory and the
  name lies in that directory or below it: the elements of the result start with those of the
  directory, and none of the others is a dot-dot. A credential name can therefore never make the
  supervisor write outside the directory it is meant for, and no name that stays inside is refused.\<close>

theorem safe_child_path_contained:
  assumes "is_abs parent"
  shows "safeChildPath parent name = Inr path \<longleftrightarrow>
           path = Join [parent, name] \<and> (\<exists>rest. segs path = segs parent @ rest \<and> (\<forall>s \<in> set rest. plain s))"
proof -
  let ?path = "Join [parent, name]"
  have abs: "is_abs ?path" using assms by (rule Join_abs(2))
  have "safeChildPath parent name = Inr path \<longleftrightarrow> path = ?path \<and> (\<exists>rel. Rel parent ?path = Inr rel \<and> \<not> escaping rel)"
    by (auto simp: safeChildPath_def escaping_def Let_def split: sum.splits)
  also have "\<dots> \<longleftrightarrow> path = ?path \<and> (\<exists>rest. segs path = segs parent @ rest)"
    using Rel_child [OF assms abs] by auto
  also have "\<dots> \<longleftrightarrow> path = ?path \<and> (\<exists>rest. segs path = segs parent @ rest \<and> (\<forall>s \<in> set rest. plain s))"
    using segs_plain [OF abs] by (metis Un_iff set_append)
  finally show ?thesis .
qed

theorem safe_child_path_contained_witness:
  "is_abs ''/run/p'' \<and> safeChildPath ''/run/p'' ''a/../b'' = Inr ''/run/p/b'' \<and> segs ''/run/p/b'' = segs ''/run/p'' @ [''b''] \<and>
   safeChildPath ''/run/p'' ''../q'' \<noteq> Inr ''/run/q''"
proof -
  have a: "is_abs ''/run/p''" by code_simp
  have "Join [''/run/p'', ''a/../b''] = ''/run/p/b''" "segs ''/run/p/b'' = segs ''/run/p'' @ [''b'']" "plain ''b''"
    "segs ''/run/q'' = [''run'', ''q'']" "segs ''/run/p'' = [''run'', ''p'']" by code_simp+
  with safe_child_path_contained [OF a, of "''a/../b''" "''/run/p/b''"]
    safe_child_path_contained [OF a, of "''../q''" "''/run/q''"] a
  show ?thesis by auto
qed

end
