(* ===== verification/ProcessStart.thy ===== *)
theory ProcessStart
  imports CredentialAliases SupervisorHistory
begin

text \<open>
  Starting a process (\<^verbatim>\<open>Supervisor.start\<close> in \<^verbatim>\<open>internal/rckube/supervisor.go\<close> and \<^verbatim>\<open>process_start.go\<close>): the
  checks, the persistent ownership of the process ID, the preparation of the transcript, credentials
  and command, the launch, and what a failure or a cancellation undoes; the exit and the stop of a
  process; the environment of a process; resident services (\<^verbatim>\<open>services.go\<close>, \<^verbatim>\<open>execution/service.go\<close>).
  The state directory is the \<open>state_dir\<close> of the history, on a volume of its own; the temporary and home
  files are the file system of \<open>os_ops\<close>. The paths are those of Unix. Everything runs under
  \<^verbatim>\<open>supervisor.mu\<close>, so one call is one step.
\<close>

section \<open>Requests and environments\<close>

record start_request =
  rq_id :: string
  rq_uid :: string
  rq_command :: "string list"
  rq_workingDirectory :: string
  rq_defaultDirectory :: string
  rq_tty :: bool
  rq_stdin :: bool
  rq_environment :: "(string \<times> string) list"
  rq_agent :: "(string \<times> string) option"
  rq_exposeCredentials :: bool
  rq_credentialFiles :: "(string \<times> string) list"
  rq_credentialMounts :: "(string \<times> string) list"
  rq_sshConfigFragments :: "(string \<times> string) list"

text \<open>\<^verbatim>\<open>mergedEnvironment\<close>: \<open>environ\<close> is \<^verbatim>\<open>os.Environ()\<close>, \<open>windows\<close> the test of \<^verbatim>\<open>runtime.GOOS\<close>.\<close>

definition env_key :: "bool \<Rightarrow> string \<Rightarrow> string" where
  "env_key windows name = (if windows then to_upper name else name)"

definition put :: "'k \<Rightarrow> 'v \<Rightarrow> ('k \<times> 'v) list \<Rightarrow> ('k \<times> 'v) list" where
  "put k v xs = (k, v) # filter (\<lambda>x. fst x \<noteq> k) xs"

fun inherit_environ :: "bool \<Rightarrow> string list \<Rightarrow> (string \<times> string) list \<Rightarrow> (string \<times> string) list" where
  "inherit_environ windows [] values = values"
| "inherit_environ windows (entry # rest) values =
     inherit_environ windows rest
       (if CHR ''='' \<in> set entry
        then (let (name, v) = cut (CHR ''='') entry in put (env_key windows name) v values)
        else values)"

fun apply_overrides ::
  "bool \<Rightarrow> (string \<times> string) list \<Rightarrow> (string \<times> string) list \<Rightarrow> (string \<times> string) list \<Rightarrow> (string \<times> string) list result" where
  "apply_overrides windows [] seen values = Inr values"
| "apply_overrides windows ((originalName, v) # ovs) seen values =
     (let name = env_key windows originalName
      in case map_of seen name of
           Some previous \<Rightarrow> Inl (EMsg (''environment variables '' @ previous @ '' and '' @ originalName @ '' differ only by case''))
         | None \<Rightarrow> apply_overrides windows ovs ((name, originalName) # seen) (put name v values))"

definition mergedEnvironment :: "bool \<Rightarrow> string list \<Rightarrow> (string \<times> string) list \<Rightarrow> string list result" where
  "mergedEnvironment windows environ overrides =
     (case apply_overrides windows (sort_key fst overrides) [] (inherit_environ windows environ []) of
        Inl e \<Rightarrow> Inl e
      | Inr values \<Rightarrow> Inr (map (\<lambda>(name, v). name @ ''='' @ v) (sort_key fst values)))"

section \<open>The supervisor\<close>

record 'f supervisor =
  su_creds :: "'f alias_state"
  su_dirs :: state_dir
  su_processes :: processes
  su_lastActivity :: int

record sup_config =
  sc_homeDir :: string
  sc_workspaceDir :: string
  sc_runtimeRoot :: string
  sc_maxLog :: int
  sc_environ :: "string list"

definition Touch :: "int \<Rightarrow> 'f supervisor \<Rightarrow> 'f supervisor" where
  "Touch now s = (if su_lastActivity s \<ge> now then s else s\<lparr>su_lastActivity := now\<rparr>)"

definition LastActivity :: "'f supervisor \<Rightarrow> int option" where
  "LastActivity s = (if su_lastActivity s = 0 then None else Some (su_lastActivity s))"

record command =
  cmd_args :: "string list"
  cmd_dir :: string
  cmd_env :: "string list"

text \<open>
  What one start meets outside: \<open>wd_ctx n\<close> is \<^verbatim>\<open>ctx.Err()\<close> at the \<open>n\<close>-th check, \<open>wd_native\<close> is
  \<^verbatim>\<open>osprocess.Start\<close> (the process ID and whether it owns a terminal), the others are the errors of
  the named operation on the state directory and the transcript.
\<close>

record 'f world =
  wd_os :: "'f os_ops"
  wd_sha :: "string \<Rightarrow> string"
  wd_ctx :: "nat \<Rightarrow> err option"
  wd_now :: time
  wd_nowNano :: int
  wd_stateMkdir :: "err option"
  wd_ownerRead :: "err option"
  wd_ownerWrite :: "err option"
  wd_ownerRemove :: "err option"
  wd_transcriptMkdir :: "err option"
  wd_transcriptOpen :: "err option"
  wd_transcriptStat :: "err option"
  wd_transcriptWrite :: file_write
  wd_transcriptSync :: "err option"
  wd_transcriptClose :: "err option"
  wd_inputClose :: "err option"
  wd_record :: "string \<Rightarrow> err option"
  wd_message :: "err \<Rightarrow> string"
  wd_native :: "command \<Rightarrow> bool \<Rightarrow> (int \<times> bool) result"

definition make_dir :: "string \<Rightarrow> state_dir \<Rightarrow> state_dir" where
  "make_dir pid dirs =
     (if map_of dirs pid = None then dirs @ [(pid, \<lparr>dd_owner = None, dd_record = None, dd_transcript = None\<rparr>)] else dirs)"

definition owner_of :: "string \<Rightarrow> state_dir \<Rightarrow> string option" where
  "owner_of pid dirs = (case map_of dirs pid of Some d \<Rightarrow> dd_owner d | None \<Rightarrow> None)"

definition join_errs :: "err option list \<Rightarrow> err option" where
  "join_errs es = (let found = concat (map (\<lambda>e. case e of Some x \<Rightarrow> [x] | None \<Rightarrow> []) es)
                   in if found = [] then None else Some (EJoin found))"

definition zero_pstate :: pstate where
  "zero_pstate = \<lparr>ps_id = [], ps_uid = [], ps_phase = [], ps_pid = 0, ps_exitCode = None, ps_reason = [],
     ps_attachedClients = 0, ps_transcriptTruncated = False\<rparr>"

definition starting_process :: "int \<Rightarrow> start_request \<Rightarrow> owned_process" where
  "starting_process maxLog req =
     \<lparr>op_proc = \<lparr>pr_state = zero_pstate\<lparr>ps_id := rq_id req, ps_uid := rq_uid req, ps_phase := phaseStarting\<rparr>,
        pr_terminal = False, pr_hasInput = False, pr_inputClosed = False, pr_stopRequested = False,
        pr_clients = [], pr_clientSizes = Map.empty, pr_nextClient = 0, pr_allocated = 0, pr_foreground = [],
        pr_transcript = [], pr_transcriptOpen = False, pr_transcriptRemoved = False, pr_max = maxLog, pr_len = 0,
        pr_truncated = False, pr_completedAt = None, pr_startedAt = None\<rparr>,
      op_command = rq_command req, op_workingDirectory = rq_workingDirectory req, op_tty = rq_tty req,
      op_runtimeDir = [], op_credentialLinks = [], op_agentCredentialLink = []\<rparr>"

text \<open>The state of one attempt: the supervisor and the process that is being started.\<close>

type_synonym 'f attempt = "'f supervisor \<times> owned_process"

abbreviation upd_proc :: "(sprocess \<Rightarrow> sprocess) \<Rightarrow> owned_process \<Rightarrow> owned_process" where
  "upd_proc f o' \<equiv> o'\<lparr>op_proc := f (op_proc o')\<rparr>"

section \<open>Preparation\<close>

definition on_fs :: "('f \<Rightarrow> 'f \<times> err option) \<Rightarrow> 'f supervisor \<Rightarrow> 'f supervisor \<times> err option" where
  "on_fs op s = (case op (as_fs (su_creds s)) of (f, e) \<Rightarrow> (s\<lparr>su_creds := (su_creds s)\<lparr>as_fs := f\<rparr>\<rparr>, e))"

definition on_creds :: "('f alias_state \<Rightarrow> 'f alias_state \<times> 'r) \<Rightarrow> 'f supervisor \<Rightarrow> 'f supervisor \<times> 'r" where
  "on_creds op s = (case op (su_creds s) of (c, r) \<Rightarrow> (s\<lparr>su_creds := c\<rparr>, r))"

definition openTranscript ::
  "sup_config \<Rightarrow> 'f world \<Rightarrow> start_request \<Rightarrow> 'f attempt \<Rightarrow> 'f attempt \<times> err option" where
  "openTranscript cfg w req a =
     (case a of (s, o') \<Rightarrow>
        (case wd_ctx w 2 of
           Some e \<Rightarrow> ((s, o'), Some e)
         | None \<Rightarrow>
             (let dir = Join [sc_runtimeRoot cfg, ''processes'', rq_id req];
                  o1 = o'\<lparr>op_runtimeDir := dir\<rparr>
              in case on_fs (os_mkdirAll (wd_os w) dir) s of
                   (s1, Some e) \<Rightarrow> ((s1, o1), Some (EWrap ''create temporary process runtime directory'' e))
                 | (s1, None) \<Rightarrow>
                     (case wd_transcriptMkdir w of
                        Some e \<Rightarrow> ((s1, o1), Some (EWrap ''create transcript directory'' e))
                      | None \<Rightarrow>
                          (case wd_transcriptOpen w of
                             Some e \<Rightarrow> ((s1, o1), Some (EWrap ''open process transcript'' e))
                           | None \<Rightarrow>
                               (let s2 = s1\<lparr>su_dirs := set_dir (rq_id req)
                                      (\<lambda>d. d\<lparr>dd_transcript := Some (case dd_transcript d of Some t \<Rightarrow> t | None \<Rightarrow> [])\<rparr>) (su_dirs s1)\<rparr>;
                                    content = (case map_of (su_dirs s2) (rq_id req) of
                                                 Some d \<Rightarrow> (case dd_transcript d of Some t \<Rightarrow> t | None \<Rightarrow> []) | None \<Rightarrow> []);
                                    o2 = upd_proc (\<lambda>p. p\<lparr>pr_transcript := content, pr_transcriptOpen := True\<rparr>) o1
                                in ((s2, o2), wd_ctx w 3)))))))"

record process_credentials =
  pc_root :: string
  pc_sshConfigLinks :: "string list"
  pc_agentHome :: string

text \<open>Checks \<^verbatim>\<open>ctx.Err()\<close> before an operation.\<close>

definition checked :: "err option \<Rightarrow> ('s \<Rightarrow> 's \<times> 'r result) \<Rightarrow> 's \<Rightarrow> 's \<times> 'r result" where
  "checked c k s = (case c of Some e \<Rightarrow> (s, Inl e) | None \<Rightarrow> k s)"

definition bind_result :: "'s \<times> 'a result \<Rightarrow> ('a \<Rightarrow> 's \<Rightarrow> 's \<times> 'b result) \<Rightarrow> 's \<times> 'b result" where
  "bind_result r k = (case r of (s, Inl e) \<Rightarrow> (s, Inl e) | (s, Inr x) \<Rightarrow> k x s)"

definition on_attempt :: "('f alias_state \<Rightarrow> 'f alias_state \<times> 'r) \<Rightarrow> 'f attempt \<Rightarrow> 'f attempt \<times> 'r" where
  "on_attempt op a = (case on_creds op (fst a) of (s, r) \<Rightarrow> ((s, snd a), r))"

definition add_links :: "string list \<Rightarrow> 'f attempt \<Rightarrow> 'f attempt" where
  "add_links links a = (fst a, (snd a)\<lparr>op_credentialLinks := op_credentialLinks (snd a) @ links\<rparr>)"

definition credentials_root :: "sup_config \<Rightarrow> start_request \<Rightarrow> string" where
  "credentials_root cfg req =
     (if rq_exposeCredentials req \<or> rq_sshConfigFragments req \<noteq> [] then Join [sc_runtimeRoot cfg, ''credentials''] else [])"

definition ssh_config_path :: "sup_config \<Rightarrow> start_request \<Rightarrow> string" where
  "ssh_config_path cfg req =
     (if rq_sshConfigFragments req \<noteq> [] \<and> sc_homeDir cfg \<noteq> [] then Join [sc_homeDir cfg, ''.ssh'', ''config''] else [])"

definition agent_home :: "sup_config \<Rightarrow> start_request \<Rightarrow> string" where
  "agent_home cfg req =
     (case rq_agent req of
        None \<Rightarrow> []
      | Some (type, credential) \<Rightarrow>
          if type \<noteq> [] \<and> sc_homeDir cfg \<noteq> []
          then Join [sc_homeDir cfg, ''.rc'', ''agents'', type, if credential = [] then ''default'' else credential]
          else [])"

definition write_files :: "'f os_ops \<Rightarrow> string \<Rightarrow> (string \<times> string) list \<Rightarrow> 'f alias_state \<Rightarrow> 'f alias_state \<times> unit result" where
  "write_files os dir files c =
     (case writeCredentialFiles os dir files (as_fs c) of
        (f, Some e) \<Rightarrow> (c\<lparr>as_fs := f\<rparr>, Inl e) | (f, None) \<Rightarrow> (c\<lparr>as_fs := f\<rparr>, Inr ()))"

definition prepareCredentials ::
  "sup_config \<Rightarrow> 'f world \<Rightarrow> start_request \<Rightarrow> 'f attempt \<Rightarrow> 'f attempt \<times> process_credentials result" where
  "prepareCredentials cfg w req a =
     (let os = wd_os w; pid = rq_id req; dir = op_runtimeDir (snd a); files = rq_credentialFiles req;
          root = credentials_root cfg req
      in bind_result (checked (wd_ctx w 4) (on_attempt (write_files os dir files)) a) (\<lambda>_ a.
         bind_result (checked (wd_ctx w 5) (on_attempt (prepareCredentialAliases os pid dir root files)) a) (\<lambda>links a.
         bind_result (checked (wd_ctx w 6) (on_attempt (prepareCredentialMounts os (wd_sha w) pid dir (rq_credentialMounts req)))
                        (add_links links a)) (\<lambda>links a.
         bind_result (checked (wd_ctx w 7) (on_attempt (prepareSSHConfig os (wd_sha w) pid dir root (ssh_config_path cfg req)
                        (rq_sshConfigFragments req))) (add_links links a)) (\<lambda>sshLinks a.
         bind_result (checked (wd_ctx w 8) (on_attempt (prepareAgentHome os (wd_sha w) pid dir (agent_home cfg req) files))
                        (add_links sshLinks a)) (\<lambda>agentLink a.
         ((fst a, (snd a)\<lparr>op_agentCredentialLink := agentLink\<rparr>),
          Inr \<lparr>pc_root = root, pc_sshConfigLinks = sshLinks, pc_agentHome = agent_home cfg req\<rparr>)))))))"

definition set_default :: "string \<Rightarrow> string \<Rightarrow> (string \<times> string) list \<Rightarrow> (string \<times> string) list" where
  "set_default k v env = (if map_of env k = None then env @ [(k, v)] else env)"

definition process_environment :: "start_request \<Rightarrow> process_credentials \<Rightarrow> (string \<times> string) list" where
  "process_environment req pc =
     (let env0 = rq_environment req;
          home = pc_agentHome pc;
          env1 = (if home \<noteq> [] then set_default ''RC_AGENT_HOME'' home env0 else env0);
          env2 = (if home \<noteq> [] \<and> (case rq_agent req of Some (type, _) \<Rightarrow> type = ''codex'' | None \<Rightarrow> False)
                  then set_default ''CODEX_HOME'' home env1 else env1);
          env3 = (if rq_exposeCredentials req then set_default ''RC_CREDENTIALS_DIR'' (pc_root pc) env2 else env2)
      in if rq_tty req then set_default ''TERM'' ''xterm-256color'' env3 else env3)"

definition command_dir :: "sup_config \<Rightarrow> start_request \<Rightarrow> string" where
  "command_dir cfg req =
     (if rq_workingDirectory req \<noteq> [] then rq_workingDirectory req
      else if rq_defaultDirectory req = ''home'' then sc_homeDir cfg
      else if rq_defaultDirectory req = ''workspace'' then sc_workspaceDir cfg
      else [])"

definition prepareCommand ::
  "sup_config \<Rightarrow> 'f world \<Rightarrow> start_request \<Rightarrow> process_credentials \<Rightarrow> 'f attempt \<Rightarrow> 'f attempt \<times> command result" where
  "prepareCommand cfg w req pc a =
     (case wd_ctx w 9 of
        Some e \<Rightarrow> (a, Inl e)
      | None \<Rightarrow>
          (case mergedEnvironment False (sc_environ cfg) (process_environment req pc) of
             Inl e \<Rightarrow> (a, Inl e)
           | Inr env \<Rightarrow>
               (case wd_transcriptStat w of
                  Some e \<Rightarrow> (a, Inl (EWrap ''stat process transcript'' e))
                | None \<Rightarrow>
                    ((fst a, upd_proc (\<lambda>p. p\<lparr>pr_len := int (length (pr_transcript p))\<rparr>) (snd a)),
                     Inr \<lparr>cmd_args = rq_command req, cmd_dir = command_dir cfg req, cmd_env = env\<rparr>))))"

definition prepare ::
  "sup_config \<Rightarrow> 'f world \<Rightarrow> start_request \<Rightarrow> 'f attempt \<Rightarrow> 'f attempt \<times> command result" where
  "prepare cfg w req a =
     (case openTranscript cfg w req a of
        (a1, Some e) \<Rightarrow> (a1, Inl e)
      | (a1, None) \<Rightarrow> bind_result (prepareCredentials cfg w req a1) (prepareCommand cfg w req))"

section \<open>Launch and failure\<close>

definition releaseResourcesLocked :: "'f world \<Rightarrow> 'f attempt \<Rightarrow> 'f attempt \<times> err option" where
  "releaseResourcesLocked w a =
     (case a of (s, o') \<Rightarrow>
        (let os = wd_os w;
             s1 = s\<lparr>su_creds := releaseCredentialAliasesLocked os (ps_id (pr_state (op_proc o'))) (op_credentialLinks o')
                      (op_agentCredentialLink o') (su_creds s)\<rparr>;
             closeErr = (if pr_transcriptOpen (op_proc o') then wd_transcriptClose w else None);
             o1 = upd_proc (\<lambda>p. p\<lparr>pr_transcriptOpen := False\<rparr>) o';
             (s2, removeErr) = (if op_runtimeDir o' = [] then (s1, None) else on_fs (os_removeAll os (op_runtimeDir o')) s1)
         in ((s2, o1), join_errs [closeErr, removeErr])))"

text \<open>\<^verbatim>\<open>rollbackLocked\<close> also removes the owner file.\<close>

definition rollbackLocked :: "'f world \<Rightarrow> 'f attempt \<Rightarrow> 'f attempt \<times> err option" where
  "rollbackLocked w a =
     (case releaseResourcesLocked w a of
        ((s, o'), cleanupErr) \<Rightarrow>
          (case wd_ownerRemove w of
             Some e \<Rightarrow> ((s, o'), join_errs [cleanupErr, Some e])
           | None \<Rightarrow>
               ((s\<lparr>su_dirs := set_dir (ps_id (pr_state (op_proc o'))) (\<lambda>d. d\<lparr>dd_owner := None\<rparr>) (su_dirs s)\<rparr>, o'),
                join_errs [cleanupErr])))"

text \<open>The transcript file of a process follows what the process wrote.\<close>

definition save_transcript :: "owned_process \<Rightarrow> 'f supervisor \<Rightarrow> 'f supervisor" where
  "save_transcript o' s =
     s\<lparr>su_dirs := set_dir (ps_id (pr_state (op_proc o'))) (\<lambda>d. d\<lparr>dd_transcript := Some (pr_transcript (op_proc o'))\<rparr>) (su_dirs s)\<rparr>"

definition keep_record :: "'f world \<Rightarrow> owned_process \<Rightarrow> 'f supervisor \<Rightarrow> 'f supervisor" where
  "keep_record w o' s = s\<lparr>su_dirs := fst (recordLocked (wd_record w) o' (su_dirs s))\<rparr>"

definition own_process :: "owned_process \<Rightarrow> 'f supervisor \<Rightarrow> 'f supervisor" where
  "own_process o' s = s\<lparr>su_processes := su_processes s @ [(ps_id (pr_state (op_proc o')), o')]\<rparr>"

definition recordCommandStartFailureLocked ::
  "'f world \<Rightarrow> err \<Rightarrow> int \<Rightarrow> 'f attempt \<Rightarrow> 'f attempt \<times> pstate result" where
  "recordCommandStartFailureLocked w startErr exitCode a =
     (case a of (s, o') \<Rightarrow>
        (let message = ''rc-kube: command could not start: '' @ wd_message w startErr @ newline
         in case processOutput_Write (wd_transcriptWrite w) message (op_proc o') of
              (p1, _, writeErr) \<Rightarrow>
                (let o1 = o'\<lparr>op_proc := p1\<rparr>; s1 = save_transcript o1 s
                 in case writeErr of
                      Some e \<Rightarrow> ((s1, o1), Inl (EWrap ''record command start failure'' e))
                    | None \<Rightarrow>
                        (case wd_transcriptSync w of
                           Some e \<Rightarrow> ((s1, o1), Inl (EWrap ''sync command start failure'' e))
                         | None \<Rightarrow>
                             (case wd_transcriptClose w of
                                Some e \<Rightarrow> ((s1, o1), Inl (EWrap ''close command start failure transcript'' e))
                              | None \<Rightarrow>
                                  (let o2 = upd_proc (\<lambda>p. p\<lparr>pr_transcriptOpen := False,
                                         pr_state := (pr_state p)\<lparr>ps_phase := phaseExited, ps_exitCode := Some exitCode,
                                           ps_reason := wd_message w startErr\<rparr>,
                                         pr_startedAt := Some (wd_now w), pr_completedAt := Some (wd_now w)\<rparr>) o1
                                   in ((own_process o2 (keep_record w o2 s1), o2), Inr (pr_state (op_proc o2)))))))))"

definition commandStartFailureExitCode :: "err \<Rightarrow> int option" where
  "commandStartFailureExitCode e =
     (if err_is EExecNotFound e \<or> err_is ENotFound e then Some 127
      else if err_is EPermission e \<or> err_is EInvalidExecutable e then Some 126
      else None)"

definition failLocked :: "'f world \<Rightarrow> err \<Rightarrow> int \<Rightarrow> 'f attempt \<Rightarrow> 'f supervisor \<times> pstate \<times> err option" where
  "failLocked w cause exitCode a =
     (if \<not> pr_transcriptOpen (op_proc (snd a)) \<or> err_is ECanceled cause \<or> err_is EDeadlineExceeded cause
      then (case rollbackLocked w a of ((s, _), e) \<Rightarrow> (s, zero_pstate, join_errs [Some cause, e]))
      else (case recordCommandStartFailureLocked w cause exitCode a of
              (a1, Inl err) \<Rightarrow> (case rollbackLocked w a1 of ((s, _), e) \<Rightarrow> (s, zero_pstate, join_errs [Some cause, Some err, e]))
            | (a1, Inr state) \<Rightarrow> (case releaseResourcesLocked w a1 of ((s, _), e) \<Rightarrow> (s, state, e))))"

text \<open>The last component of a start is the command that was launched, if any.\<close>

definition launchLocked ::
  "'f world \<Rightarrow> start_request \<Rightarrow> command \<Rightarrow> 'f attempt \<Rightarrow> ('f supervisor \<times> pstate \<times> err option) \<times> command option" where
  "launchLocked w req cmd a =
     (case wd_ctx w 10 of
        Some e \<Rightarrow> (failLocked w e 125 a, None)
      | None \<Rightarrow>
          (case wd_native w cmd (rq_tty req) of
             Inl e \<Rightarrow>
               (failLocked w (EWrap ''start native process'' e)
                  (case commandStartFailureExitCode e of Some code \<Rightarrow> code | None \<Rightarrow> 125) a, None)
           | Inr (pid, terminal) \<Rightarrow>
               (let (s, o') = a;
                    p0 = (op_proc o')\<lparr>pr_hasInput := True\<rparr>;
                    p1 = (if \<not> rq_tty req \<and> \<not> rq_stdin req then fst (closeInputLocked (wd_inputClose w) p0) else p0);
                    p2 = p1\<lparr>pr_terminal := terminal,
                            pr_state := (pr_state p1)\<lparr>ps_phase := phaseRunning, ps_pid := pid\<rparr>,
                            pr_startedAt := Some (wd_now w)\<rparr>;
                    o1 = o'\<lparr>op_proc := p2\<rparr>
                in ((own_process o1 (keep_record w o1 s), pr_state p2, None), Some cmd))))"

definition runLocked ::
  "sup_config \<Rightarrow> 'f world \<Rightarrow> start_request \<Rightarrow> 'f attempt \<Rightarrow> ('f supervisor \<times> pstate \<times> err option) \<times> command option" where
  "runLocked cfg w req a =
     (case prepare cfg w req a of
        (a1, Inl e) \<Rightarrow> (failLocked w e 125 a1, None)
      | (a1, Inr cmd) \<Rightarrow> launchLocked w req cmd a1)"

definition bad_request :: "start_request \<Rightarrow> string option" where
  "bad_request req =
     (if rq_id req = [] \<or> rq_uid req = [] then Some ''process ID and UID are required''
      else if Base (rq_id req) \<noteq> rq_id req \<or> rq_id req = ''.'' \<or> rq_id req = ''..''
      then Some ''process ID must be one safe path segment''
      else if rq_command req = [] \<or> hd (rq_command req) = [] then Some ''process command is required''
      else None)"

definition start ::
  "sup_config \<Rightarrow> 'f world \<Rightarrow> start_request \<Rightarrow> bool \<Rightarrow> 'f supervisor \<Rightarrow> ('f supervisor \<times> pstate \<times> err option) \<times> command option" where
  "start cfg w req activity s0 =
     (case wd_ctx w 0 of
        Some e \<Rightarrow> ((s0, zero_pstate, Some e), None)
      | None \<Rightarrow>
          (case bad_request req of
             Some m \<Rightarrow> ((s0, zero_pstate, Some (EMsg m)), None)
           | None \<Rightarrow>
               (let s = (if activity then Touch (wd_nowNano w) s0 else s0)
                in case wd_ctx w 1 of
                     Some e \<Rightarrow> ((s, zero_pstate, Some e), None)
                   | None \<Rightarrow>
                       (case map_of (su_processes s) (rq_id req) of
                          Some existing \<Rightarrow>
                            if ps_uid (pr_state (op_proc existing)) \<noteq> rq_uid req
                            then ((s, zero_pstate, Some EProcessConflict), None)
                            else ((s, pr_state (op_proc existing), None), None)
                        | None \<Rightarrow>
                            (case wd_stateMkdir w of
                               Some e \<Rightarrow> ((s, zero_pstate, Some (EWrap ''create persistent process state directory'' e)), None)
                             | None \<Rightarrow>
                                 (let s1 = s\<lparr>su_dirs := make_dir (rq_id req) (su_dirs s)\<rparr>
                                  in case wd_ownerRead w of
                                       Some e \<Rightarrow> ((s1, zero_pstate, Some (EWrap ''read persistent process ownership'' e)), None)
                                     | None \<Rightarrow>
                                         (case owner_of (rq_id req) (su_dirs s1) of
                                            Some ownerUID \<Rightarrow>
                                              ((s1, zero_pstate, Some (if ownerUID \<noteq> rq_uid req then EProcessConflict else EProcessNotFound)), None)
                                          | None \<Rightarrow>
                                              (case wd_ownerWrite w of
                                                 Some e \<Rightarrow> ((s1, zero_pstate, Some (EWrap ''record persistent process ownership'' e)), None)
                                               | None \<Rightarrow>
                                                   runLocked cfg w req
                                                     (s1\<lparr>su_dirs := set_dir (rq_id req) (\<lambda>d. d\<lparr>dd_owner := Some (rq_uid req)\<rparr>) (su_dirs s1)\<rparr>,
                                                      starting_process (sc_maxLog cfg) req)))))))))"

section \<open>Exit and stop\<close>

definition cleanupCredentials :: "'f os_ops \<Rightarrow> owned_process \<Rightarrow> 'f supervisor \<Rightarrow> 'f supervisor" where
  "cleanupCredentials os o' s =
     (let s1 = s\<lparr>su_creds := releaseCredentialAliasesLocked os (ps_id (pr_state (op_proc o'))) (op_credentialLinks o')
                    (op_agentCredentialLink o') (su_creds s)\<rparr>
      in if op_runtimeDir o' = [] then s1 else fst (on_fs (os_removeAll os (op_runtimeDir o')) s1))"

definition set_process :: "owned_process \<Rightarrow> 'f supervisor \<Rightarrow> 'f supervisor" where
  "set_process o' s =
     s\<lparr>su_processes := map (\<lambda>(i, x). if i = ps_id (pr_state (op_proc o')) then (i, o') else (i, x)) (su_processes s)\<rparr>"

text \<open>\<^verbatim>\<open>wait\<close>, once the native process ended with the given error and exit code.\<close>

definition wait_process :: "'f world \<Rightarrow> string option \<Rightarrow> int \<Rightarrow> string \<Rightarrow> 'f supervisor \<Rightarrow> 'f supervisor" where
  "wait_process w waitErr exitCode pid s =
     (case map_of (su_processes s) pid of
        None \<Rightarrow> s
      | Some o' \<Rightarrow>
          (let s1 = cleanupCredentials (wd_os w) o' s;
               o1 = upd_proc (wait_done (wd_now w) waitErr exitCode) o'
           in keep_record w o1 (set_process o1 (save_transcript o1 s1))))"

text \<open>
  \<^verbatim>\<open>Stop\<close>: \<open>native_stop force\<close> signals the process tree (an error that says it is gone is
  \<open>benign\<close>), \<open>in_time\<close> tells whether it exits within the grace period and \<open>until_exit\<close> is what happens
  until its \<^verbatim>\<open>exit\<close> channel is closed.
\<close>

definition Stop ::
  "(bool \<Rightarrow> err option) \<Rightarrow> (err \<Rightarrow> bool) \<Rightarrow> bool \<Rightarrow> ('f supervisor \<Rightarrow> 'f supervisor) \<Rightarrow> string \<Rightarrow> 'f supervisor \<Rightarrow>
   'f supervisor \<times> pstate result" where
  "Stop native_stop benign in_time until_exit pid s =
     (let failed = (\<lambda>e. case e of Some x \<Rightarrow> \<not> benign x | None \<Rightarrow> False)
      in case map_of (su_processes s) pid of
           None \<Rightarrow> (s, Inl EProcessNotFound)
         | Some o' \<Rightarrow>
             if \<not> live_phase (ps_phase (pr_state (op_proc o'))) then (s, Inr (pr_state (op_proc o')))
             else
               (let s1 = set_process (upd_proc (\<lambda>p. p\<lparr>pr_stopRequested := True\<rparr>) o') s
                in if failed (native_stop False)
                   then (s1, Inl (EWrap ''request process tree stop'' (the (native_stop False))))
                   else if \<not> in_time \<and> failed (native_stop True)
                   then (s1, Inl (EWrap ''terminate process tree'' (the (native_stop True))))
                   else (let s2 = until_exit s1 in (s2, Inspect (su_processes s2) (su_dirs s2) pid))))"

section \<open>The merged environment\<close>

definition inherited :: "bool \<Rightarrow> string list \<Rightarrow> (string \<times> string) list" where
  "inherited windows environ =
     map (\<lambda>e. (env_key windows (fst (cut (CHR ''='') e)), snd (cut (CHR ''='') e))) (filter (\<lambda>e. CHR ''='' \<in> set e) environ)"

lemma map_of_put: "map_of (put k v xs) = (map_of xs)(k \<mapsto> v)"
proof (rule ext)
  fix x
  show "map_of (put k v xs) x = ((map_of xs)(k \<mapsto> v)) x"
    by (induction xs) (auto simp: put_def)
qed

lemma distinct_put: "distinct (map fst xs) \<Longrightarrow> distinct (map fst (put k v xs))"
  by (auto simp: put_def distinct_map_drop_key)

lemma inherit_environ_spec:
  "map_of (inherit_environ windows es vs) = map_of vs ++ map_of (rev (inherited windows es))"
proof (induction es arbitrary: vs)
  case (Cons e es)
  show ?case
    by (cases "CHR ''='' \<in> set e") (auto simp: Cons map_of_put inherited_def map_add_def fun_eq_iff split: option.splits prod.splits)
qed (simp add: inherited_def)

lemma inherit_environ_distinct:
  "distinct (map fst vs) \<Longrightarrow> distinct (map fst (inherit_environ windows es vs))"
  by (induction es arbitrary: vs) (auto simp: distinct_put split: prod.splits)

definition keyed :: "bool \<Rightarrow> (string \<times> string) list \<Rightarrow> (string \<times> string) list" where
  "keyed windows ovs = map (\<lambda>(n, v). (env_key windows n, v)) ovs"

lemma keyed_simps [simp]:
  "keyed windows [] = []"
  "keyed windows ((n, v) # ovs) = (env_key windows n, v) # keyed windows ovs"
  by (simp_all add: keyed_def)

lemma update_before_add: "k \<notin> fst ` set ks \<Longrightarrow> m(k \<mapsto> v) ++ map_of ks = m ++ (map_of ks)(k \<mapsto> v)"
  by (subst map_add_upd_left) (auto simp: dom_map_of_conv_image_fst)

lemma apply_overrides_spec:
  "apply_overrides windows ovs seen vs = r \<Longrightarrow>
   (case r of
      Inl _ \<Rightarrow> \<not> (distinct (map fst (keyed windows ovs)) \<and> fst ` set (keyed windows ovs) \<inter> fst ` set seen = {})
    | Inr vs' \<Rightarrow> distinct (map fst (keyed windows ovs)) \<and> fst ` set (keyed windows ovs) \<inter> fst ` set seen = {} \<and>
        map_of vs' = map_of vs ++ map_of (keyed windows ovs) \<and> (distinct (map fst vs) \<longrightarrow> distinct (map fst vs')))"
proof (induction ovs arbitrary: seen vs)
  case (Cons x ovs)
  obtain n v where x: "x = (n, v)" by fastforce
  let ?k = "env_key windows n"
  show ?case
  proof (cases "map_of seen ?k")
    case None
    with Cons.prems x have "apply_overrides windows ovs ((?k, n) # seen) (put ?k v vs) = r" by (simp add: Let_def)
    from Cons.IH [OF this] None show ?thesis
      by (auto simp: x map_of_put map_of_eq_None_iff distinct_put update_before_add simp del: fun_upd_apply split: sum.splits)
  next
    case (Some previous)
    then have "?k \<in> fst ` set seen" by (metis map_of_SomeD fst_conv imageI)
    with Some Cons.prems [symmetric] x show ?thesis by simp
  qed
qed auto

text \<open>The environment of a started process is exactly the inherited one overridden by the request: names are
  unique and sorted, a name the request sets has that value and every other name the last value
  inherited for it. It is refused exactly when two names of the request are the same variable on the
  platform, which on Windows ignores case.\<close>

theorem merged_environment_correct:
  "case mergedEnvironment windows environ overrides of
     Inl _ \<Rightarrow> \<not> distinct (map (env_key windows \<circ> fst) overrides)
   | Inr env \<Rightarrow>
       distinct (map (env_key windows \<circ> fst) overrides) \<and>
       (\<exists>vs. env = map (\<lambda>(name, v). name @ ''='' @ v) vs \<and> sorted (map fst vs) \<and> distinct (map fst vs) \<and>
          map_of vs = map_of (rev (inherited windows environ)) ++ map_of (keyed windows overrides))"
proof -
  let ?ovs = "sort_key fst overrides" and ?inh = "inherit_environ windows environ []"
  obtain r where r: "apply_overrides windows ?ovs [] ?inh = r" by blast
  note spec = apply_overrides_spec [OF r]
  have keys: "map fst (keyed windows ovs) = map (env_key windows \<circ> fst) ovs" for ovs
    by (auto simp: keyed_def)
  have dist: "distinct (map fst (keyed windows ?ovs)) \<longleftrightarrow> distinct (map (env_key windows \<circ> fst) overrides)"
    unfolding keys by (rule distinct_map_sort_key)
  show ?thesis
  proof (cases r)
    case (Inl e)
    with r spec dist show ?thesis by (simp add: mergedEnvironment_def)
  next
    case (Inr vs)
    let ?vs = "sort_key fst vs"
    have d: "distinct (map fst vs)" using spec Inr inherit_environ_distinct [of "[]" windows environ] by simp
    have "map_of ?vs = map_of vs" using d by (subst map_of_inject_set) simp_all
    moreover have "map_of (keyed windows ?ovs) = map_of (keyed windows overrides)"
      using spec Inr dist keys [of overrides] by (subst map_of_inject_set) (auto simp: keyed_def)
    ultimately have "map_of ?vs = map_of (rev (inherited windows environ)) ++ map_of (keyed windows overrides)"
      using spec Inr inherit_environ_spec [of windows environ "[]"] by simp
    then show ?thesis
      using r Inr spec dist d by (auto simp: mergedEnvironment_def intro!: exI [of _ ?vs])
  qed
qed

end
