(* ===== verification/Services.thy ===== *)
theory Services
  imports ProcessStart
begin

text \<open>
  Resident services of a runtime: the decoding of the services argument
  (\<^verbatim>\<open>internal/execution/service.go\<close>), the variables that carry their secrets and the Kubernetes variables
  that no process may inherit (\<^verbatim>\<open>services.go\<close>, \<^verbatim>\<open>kubernetes_environment.go\<close>, \<^verbatim>\<open>execution/environment.go\<close>), and the
  restart loop with its capped exponential delay. The process environment is an association list with
  one entry per name; decoding base64 and JSON is the parameter \<open>decode\<close>.
\<close>

section \<open>Service definitions\<close>

record service =
  sv_name :: string
  sv_command :: "string list"
  sv_workingDirectory :: string
  sv_environment :: "(string \<times> string) list"
  sv_environmentFrom :: "(string \<times> string) list"

fun validate_services :: "string set \<Rightarrow> service list \<Rightarrow> err option" where
  "validate_services names [] = None"
| "validate_services names (v # vs) =
     (if sv_name v = [] then Some (EMsg ''service name is required'')
      else if sv_name v \<in> names then Some (EMsg (''service '' @ sv_name v @ '' is defined twice''))
      else if sv_command v = [] \<or> hd (sv_command v) = [] then Some (EMsg (''service '' @ sv_name v @ '' has no command''))
      else validate_services (insert (sv_name v) names) vs)"

definition DecodeServices :: "(string \<Rightarrow> service list result) \<Rightarrow> string \<Rightarrow> service list result" where
  "DecodeServices decode encoded =
     (case decode encoded of
        Inl e \<Rightarrow> Inl e
      | Inr vs \<Rightarrow> (case validate_services {} vs of Some e \<Rightarrow> Inl e | None \<Rightarrow> Inr vs))"

section \<open>Private variables\<close>

type_synonym environ = "(string \<times> string) list"

definition ServiceEnvironmentPrefix :: string where "ServiceEnvironmentPrefix = ''RC_SERVICE_ENV_''"
definition KubernetesEnvironmentPrefix :: string where "KubernetesEnvironmentPrefix = ''KUBERNETES_''"

definition IsKubernetesEnvironment :: "string \<Rightarrow> bool" where
  "IsKubernetesEnvironment name = has_prefix KubernetesEnvironmentPrefix (to_upper name)"

text \<open>\<open>unset\<close> gives the error of \<^verbatim>\<open>os.Unsetenv\<close>.\<close>

fun remove_variables :: "string \<Rightarrow> (string \<Rightarrow> bool) \<Rightarrow> (string \<Rightarrow> err option) \<Rightarrow> string list \<Rightarrow> environ \<Rightarrow> environ \<times> err option" where
  "remove_variables m hidden unset [] env = (env, None)"
| "remove_variables m hidden unset (name # names) env =
     (if \<not> hidden name then remove_variables m hidden unset names env
      else (case unset name of
              Some e \<Rightarrow> (env, Some (EWrap (m @ name) e))
            | None \<Rightarrow> remove_variables m hidden unset names (filter (\<lambda>x. fst x \<noteq> name) env)))"

definition HideKubernetesEnvironment :: "(string \<Rightarrow> err option) \<Rightarrow> environ \<Rightarrow> environ \<times> err option" where
  "HideKubernetesEnvironment unset env =
     remove_variables ''remove Kubernetes variable '' (\<lambda>n. n \<noteq> [] \<and> IsKubernetesEnvironment n) unset (map fst env) env"

fun resolve_variables :: "environ \<Rightarrow> string \<Rightarrow> (string \<times> string) list \<Rightarrow> environ \<Rightarrow> environ result" where
  "resolve_variables env service [] own = Inr own"
| "resolve_variables env service ((name, source) # froms) own =
     (if \<not> has_prefix ServiceEnvironmentPrefix source
      then Inl (EMsg (''service '' @ service @ '' variable '' @ name @ '' must come from a '' @ ServiceEnvironmentPrefix @ '' variable''))
      else resolve_variables env service froms
             (case map_of env source of None \<Rightarrow> own | Some v \<Rightarrow> put name v own))"

fun resolve_services :: "environ \<Rightarrow> service list \<Rightarrow> service list result" where
  "resolve_services env [] = Inr []"
| "resolve_services env (v # vs) =
     (case resolve_variables env (sv_name v) (sv_environmentFrom v) (sv_environment v) of
        Inl e \<Rightarrow> Inl e
      | Inr own \<Rightarrow>
          (case resolve_services env vs of
             Inl e \<Rightarrow> Inl e
           | Inr vs' \<Rightarrow> Inr (v\<lparr>sv_environment := own, sv_environmentFrom := []\<rparr> # vs')))"

definition PrepareServices ::
  "(string \<Rightarrow> service list result) \<Rightarrow> (string \<Rightarrow> err option) \<Rightarrow> string \<Rightarrow> environ \<Rightarrow> environ \<times> service list result" where
  "PrepareServices decode unset encoded env =
     (case (if encoded \<noteq> [] then DecodeServices decode encoded else Inr []) of
        Inl e \<Rightarrow> (env, Inl e)
      | Inr vs \<Rightarrow>
          (case resolve_services env vs of
             Inl e \<Rightarrow> (env, Inl e)
           | Inr vs' \<Rightarrow>
               (case remove_variables ''remove service variable '' (\<lambda>n. has_prefix ServiceEnvironmentPrefix (to_upper n)) unset
                       (map fst env) env of
                  (env', Some e) \<Rightarrow> (env', Inl e)
                | (env', None) \<Rightarrow> (env', Inr vs'))))"

section \<open>Running a service\<close>

definition EndpointVariable :: string where "EndpointVariable = ''RC_KUBE_SOCKET''"

definition service_request :: "(time \<Rightarrow> string) \<Rightarrow> service \<Rightarrow> string \<Rightarrow> time \<Rightarrow> start_request" where
  "service_request format v endpoint now =
     (let run = service_run_id format (sv_name v) now
      in \<lparr>rq_id = run, rq_uid = run, rq_command = sv_command v, rq_workingDirectory = sv_workingDirectory v,
          rq_defaultDirectory = ''workspace'', rq_tty = False, rq_stdin = False,
          rq_environment = set_default EndpointVariable endpoint (sv_environment v), rq_agent = None,
          rq_exposeCredentials = False, rq_credentialFiles = [], rq_credentialMounts = [], rq_sshConfigFragments = []\<rparr>)"

datatype run_outcome = CouldNotStart string | WasRemoved | RunStopped | ExitedUnknown | ExitedWith int

text \<open>
  \<^verbatim>\<open>runService\<close>: \<open>canceled\<close> tells whether the context ended before the run, \<open>stop_run\<close> and \<open>until_exit\<close> are what
  happens while the goroutine waits.
\<close>

definition runService ::
  "sup_config \<Rightarrow> 'f world \<Rightarrow> (time \<Rightarrow> string) \<Rightarrow> service \<Rightarrow> string \<Rightarrow> bool \<Rightarrow>
   ('f supervisor \<Rightarrow> 'f supervisor) \<Rightarrow> ('f supervisor \<Rightarrow> 'f supervisor) \<Rightarrow> 'f supervisor \<Rightarrow> 'f supervisor \<times> run_outcome" where
  "runService cfg w format v endpoint canceled stop_run until_exit s =
     (let req = service_request format v endpoint (wd_now w);
          prune = (\<lambda>s. case pruneServiceRuns (wd_record w) (wd_now w) (sv_name v) (su_dirs s) (su_processes s) of
                         (dirs, ps) \<Rightarrow> s\<lparr>su_dirs := dirs, su_processes := ps\<rparr>)
      in case fst (start cfg w req False s) of
           (s1, _, Some e) \<Rightarrow> (s1, CouldNotStart (wd_message w e))
         | (s1, _, None) \<Rightarrow>
             if map_of (su_processes s1) (rq_id req) = None then (prune s1, WasRemoved)
             else if canceled then (prune (stop_run s1), RunStopped)
             else
               (let s2 = until_exit s1
                in (prune s2,
                    case Inspect (su_processes s2) (su_dirs s2) (rq_id req) of
                      Inl e \<Rightarrow> ExitedUnknown
                    | Inr st \<Rightarrow>
                        (case ps_exitCode st of
                           None \<Rightarrow> ExitedUnknown
                         | Some code \<Rightarrow>
                             if ps_reason st \<noteq> [] \<and> ps_pid st = 0 then CouldNotStart (ps_reason st) else ExitedWith code))))"

record service_backoff =
  bo_initial :: int
  bo_max :: int
  bo_reset :: int

definition defaultServiceBackoff :: service_backoff where
  "defaultServiceBackoff = \<lparr>bo_initial = 1000000000, bo_max = 60000000000, bo_reset = 60000000000\<rparr>"

text \<open>
  \<^verbatim>\<open>keepServiceRunning\<close> over the durations of the runs: the delay waited after each of them. The loop ends with
  the context, after any run.
\<close>

fun keepServiceRunning :: "service_backoff \<Rightarrow> int \<Rightarrow> int list \<Rightarrow> int list" where
  "keepServiceRunning b delay [] = []"
| "keepServiceRunning b delay (lasted # runs) =
     (let d = (if lasted \<ge> bo_reset b then bo_initial b else delay)
      in d # keepServiceRunning b (min (d * 2) (bo_max b)) runs)"

section \<open>Secrets stay with their service\<close>

lemma remove_variables_spec:
  "remove_variables m hidden unset names env = (env', None) \<Longrightarrow>
     env' = filter (\<lambda>x. \<not> (hidden (fst x) \<and> fst x \<in> set names)) env"
proof (induction names arbitrary: env)
  case (Cons n names)
  show ?case
  proof (cases "hidden n")
    case True
    with Cons.prems have "remove_variables m hidden unset names (filter (\<lambda>x. fst x \<noteq> n) env) = (env', None)"
      by (auto split: option.splits)
    from Cons.IH [OF this] True show ?thesis by (auto intro!: filter_cong)
  next
    case False
    with Cons show ?thesis by (auto intro!: filter_cong)
  qed
qed simp

lemma remove_variables_all:
  assumes "remove_variables m hidden unset (map fst env) env = (env', None)"
  shows "env' = filter (\<lambda>x. \<not> hidden (fst x)) env"
  using remove_variables_spec [OF assms] by (auto intro!: filter_cong)

lemma validate_services_spec:
  "validate_services names vs = None \<Longrightarrow>
     distinct (map sv_name vs) \<and> sv_name ` set vs \<inter> names = {} \<and>
     (\<forall>v \<in> set vs. sv_name v \<noteq> [] \<and> sv_command v \<noteq> [] \<and> hd (sv_command v) \<noteq> [])"
proof (induction vs arbitrary: names)
  case (Cons v vs)
  then have "validate_services (insert (sv_name v) names) vs = None" by (auto split: if_splits)
  from Cons.IH [OF this] Cons.prems show ?case by (auto split: if_splits)
qed simp

lemma resolve_services_spec:
  "resolve_services env vs = Inr vs' \<Longrightarrow>
     map sv_name vs' = map sv_name vs \<and> map sv_command vs' = map sv_command vs \<and> (\<forall>v \<in> set vs'. sv_environmentFrom v = [])"
proof (induction vs arbitrary: vs')
  case (Cons v vs)
  then obtain own vs1 where "resolve_services env vs = Inr vs1" "vs' = v\<lparr>sv_environment := own, sv_environmentFrom := []\<rparr> # vs1"
    by (auto split: sum.splits)
  with Cons.IH show ?case by auto
qed simp

lemma resolve_variables_value:
  assumes "resolve_variables env service froms own = Inr own'" "distinct (map fst froms)"
    and "(name, source) \<in> set froms" "map_of env source = Some v"
  shows "map_of own' name = Some v"
proof -
  have untouched: "map_of b name = map_of a name"
    if "resolve_variables env service fs a = Inr b" "name \<notin> fst ` set fs" for fs a b
    using that by (induction fs arbitrary: a) (auto simp: map_of_put split: if_splits option.splits)
  show ?thesis
    using assms
  proof (induction froms arbitrary: own)
    case (Cons x froms)
    obtain n src where x: "x = (n, src)" by fastforce
    let ?own = "case map_of env src of None \<Rightarrow> own | Some v \<Rightarrow> put n v own"
    from Cons.prems x have r: "resolve_variables env service froms ?own = Inr own'" by (auto split: if_splits)
    show ?case
    proof (cases "(name, source) = x")
      case True
      then have "name \<notin> fst ` set froms" using Cons.prems x by auto
      from untouched [OF r this] True x Cons.prems show ?thesis by (simp add: map_of_put)
    next
      case False
      with Cons.IH [OF r] Cons.prems show ?thesis by auto
    qed
  qed simp
qed


definition sample_service :: service where
  "sample_service = \<lparr>sv_name = ''a'', sv_command = [''run''], sv_workingDirectory = [], sv_environment = [],
     sv_environmentFrom = [(''TOKEN'', ''RC_SERVICE_ENV_0'')]\<rparr>"


section \<open>Restart delays\<close>

lemma min_doubling:
  fixes d M :: int
  assumes "0 < d" "d \<le> M"
  shows "min (min (d * 2) M * 2 ^ n) M = min (d * 2 ^ Suc n) M"
proof (cases "d * 2 \<le> M")
  case False
  have "M * 1 \<le> M * 2 ^ n" using assms by (intro mult_left_mono) auto
  then have l: "M \<le> M * 2 ^ n" by simp
  have "M * 2 ^ n \<le> (d * 2) * 2 ^ n" using False by (intro mult_right_mono) auto
  also have "\<dots> = d * 2 ^ Suc n" by simp
  finally have r: "M \<le> d * 2 ^ Suc n" using l by linarith
  have "min (d * 2) M = M" using False by simp
  then show ?thesis using min_absorb2 [OF l] min_absorb2 [OF r] by simp
qed simp

lemma short_runs_delay:
  assumes "0 < d" "d \<le> bo_max b" "n < length runs" "\<forall>k \<le> n. runs ! k < bo_reset b"
  shows "keepServiceRunning b d runs ! n = min (d * 2 ^ n) (bo_max b)"
  using assms
proof (induction runs arbitrary: d n)
  case (Cons r rs)
  have r: "r < bo_reset b" using Cons.prems(4) by force
  show ?case
  proof (cases n)
    case 0
    with r Cons.prems show ?thesis by simp
  next
    case (Suc m)
    have "keepServiceRunning b (min (d * 2) (bo_max b)) rs ! m = min (min (d * 2) (bo_max b) * 2 ^ m) (bo_max b)"
      using Cons.prems Suc by (intro Cons.IH) auto
    with r Suc min_doubling [OF Cons.prems(1,2), of m] show ?thesis by (simp add: Let_def)
  qed
qed simp

lemma first_run_delay:
  assumes "0 < bo_initial b" "bo_initial b \<le> bo_max b" "n < length runs" "\<forall>k \<le> n. k > 0 \<longrightarrow> runs ! k < bo_reset b"
  shows "keepServiceRunning b (bo_initial b) runs ! n = min (bo_initial b * 2 ^ n) (bo_max b)"
proof (cases n)
  case 0
  with assms show ?thesis by (cases runs) (auto simp: Let_def)
next
  case (Suc m)
  with assms obtain r rs where runs: "runs = r # rs" by (cases runs) auto
  have "keepServiceRunning b (min (bo_initial b * 2) (bo_max b)) rs ! m = min (min (bo_initial b * 2) (bo_max b) * 2 ^ m) (bo_max b)"
    using assms Suc runs by (intro short_runs_delay) auto
  with Suc runs min_doubling [OF assms(1,2), of m] show ?thesis by (simp add: Let_def)
qed

lemma reset_run_delay:
  assumes "j \<le> n" "n < length runs" "runs ! j \<ge> bo_reset b"
  shows "keepServiceRunning b d runs ! n = keepServiceRunning b (bo_initial b) (drop j runs) ! (n - j)"
  using assms
proof (induction j arbitrary: d runs n)
  case 0
  then show ?case by (cases runs) (auto simp: Let_def)
next
  case (Suc j)
  then obtain r rs m where "runs = r # rs" "n = Suc m" by (cases runs; cases n) auto
  with Suc show ?case by (simp add: Let_def)
qed

text \<open>The restart delay of a service is the capped exponential one: after a run that lasted long enough, or at the
  start, it is the initial delay; the delay after the \<open>n\<close>-th short run in a row is the initial one
  doubled \<open>n\<close> times, capped at the maximum. So a crash loop is never faster than the initial delay and
  a service is never left down for longer than the maximum.\<close>

theorem service_backoff_exponential:
  assumes "0 < bo_initial b" "bo_initial b \<le> bo_max b"
    and "n < length runs" "\<forall>k \<le> n. k > j \<longrightarrow> runs ! k < bo_reset b" "j \<le> n" "runs ! j \<ge> bo_reset b \<or> j = 0"
  shows "keepServiceRunning b (bo_initial b) runs ! n = min (bo_initial b * 2 ^ (n - j)) (bo_max b)"
proof (cases "runs ! j \<ge> bo_reset b")
  case True
  have "keepServiceRunning b (bo_initial b) (drop j runs) ! (n - j) = min (bo_initial b * 2 ^ (n - j)) (bo_max b)"
    using assms by (intro first_run_delay) auto
  with reset_run_delay [OF assms(5,3) True] show ?thesis by simp
next
  case False
  with assms have "j = 0" by simp
  with first_run_delay [OF assms(1-3)] assms(4) show ?thesis by simp
qed

theorem service_backoff_exponential_witness:
  "keepServiceRunning defaultServiceBackoff (bo_initial defaultServiceBackoff) [5, 5, 61000000000, 5, 5] ! 4
     = min (bo_initial defaultServiceBackoff * 2 ^ 2) (bo_max defaultServiceBackoff) \<and>
   keepServiceRunning defaultServiceBackoff (bo_initial defaultServiceBackoff) [5, 5, 61000000000, 5, 5] ! 4 = 4000000000"
proof -
  let ?runs = "[5, 5, 61000000000, 5, 5] :: int list"
  have "\<forall>k \<le> 4. k > 2 \<longrightarrow> ?runs ! k < bo_reset defaultServiceBackoff"
    by (auto simp: defaultServiceBackoff_def numeral_eq_Suc le_Suc_eq)
  with service_backoff_exponential [of defaultServiceBackoff 4 ?runs 2] show ?thesis
    by (simp add: defaultServiceBackoff_def)
qed

end
