(* ===== verification/StartSafety.thy ===== *)
theory StartSafety
  imports ProcessStart
begin

text \<open>
  What starting processes guarantees over any sequence of starts, exits and restarts of the
  supervisor: a process ID is launched at most once, and projected credentials are withdrawn with
  the processes that own them.
\<close>

section \<open>Frames\<close>

text \<open>Preparing credentials changes the credentials and the links of the process, nothing else.\<close>

definition only_creds :: "'f attempt \<Rightarrow> 'f attempt \<Rightarrow> bool" where
  "only_creds a a' = (su_dirs (fst a') = su_dirs (fst a) \<and> su_processes (fst a') = su_processes (fst a) \<and>
     op_proc (snd a') = op_proc (snd a))"

lemma only_creds_refl [simp]: "only_creds a a"
  by (simp add: only_creds_def)

lemma only_creds_trans: "only_creds a b \<Longrightarrow> only_creds b c \<Longrightarrow> only_creds a c"
  by (simp add: only_creds_def)

lemma only_creds_on_attempt [simp]: "only_creds a (fst (on_attempt op a))"
  by (simp add: only_creds_def on_attempt_def on_creds_def split: prod.splits)

lemma only_creds_checked [simp]: "(\<And>b. only_creds b (fst (k b))) \<Longrightarrow> only_creds a (fst (checked c k a))"
  by (simp add: checked_def split: option.splits)

lemma only_creds_bind:
  assumes "only_creds a (fst r)" "\<And>x b. only_creds b (fst (k x b))"
  shows "only_creds a (fst (bind_result r k))"
proof (cases r)
  case (Pair b x)
  with assms only_creds_trans [of a b] show ?thesis by (cases x) (simp_all add: bind_result_def)
qed

lemma only_creds_add_links: "only_creds (add_links ls a) b \<Longrightarrow> only_creds a b"
  by (simp add: only_creds_def add_links_def)

lemma only_creds_checked_links: "(\<And>b. only_creds b (fst (k b))) \<Longrightarrow> only_creds a (fst (checked c k (add_links ls a)))"
  by (rule only_creds_add_links [of ls]) simp

lemma prepareCredentials_only_creds: "only_creds a (fst (prepareCredentials cfg w req a))"
  unfolding prepareCredentials_def Let_def
  by (intro only_creds_bind only_creds_checked only_creds_checked_links only_creds_on_attempt) (simp add: only_creds_def)

lemma owner_of_set_dir:
  "owner_of i (set_dir pid f dirs) =
     (if i = pid then (case map_of dirs pid of Some d \<Rightarrow> dd_owner (f d) | None \<Rightarrow> None) else owner_of i dirs)"
  by (induction dirs) (auto simp: owner_of_def set_dir_def)

lemma owner_of_set_dir_same: "(\<And>d. dd_owner (f d) = dd_owner d) \<Longrightarrow> owner_of i (set_dir pid f dirs) = owner_of i dirs"
  by (auto simp: owner_of_set_dir) (auto simp: owner_of_def split: option.splits)

lemma writeRecord_owner [simp]: "owner_of i (fst (writeRecord io e dirs)) = owner_of i dirs"
  by (auto simp: writeRecord_def owner_of_set_dir_same split: option.splits)

lemma recordLocked_owner [simp]: "owner_of i (fst (recordLocked io o' dirs)) = owner_of i dirs"
  by (simp add: recordLocked_def Let_def)

lemma mark_lost_owner: "owner_of i (fst (mark_lost io now rs dirs)) = owner_of i dirs"
proof (induction rs arbitrary: dirs)
  case (Cons r rs)
  obtain d e where w: "writeRecord io (lost now r) dirs = (d, e)" by fastforce
  have "owner_of i d = owner_of i dirs" using writeRecord_owner [of i io "lost now r" dirs] w by simp
  with Cons w show ?case by (cases e) auto
qed simp

lemma RecoverHistory_owner: "owner_of i (fst (RecoverHistory io now dirs)) = owner_of i dirs"
  by (auto simp: RecoverHistory_def mark_lost_owner split: sum.splits)

lemma make_dir_owner [simp]: "owner_of i (make_dir pid dirs) = owner_of i dirs"
  by (auto simp: owner_of_def make_dir_def map_add_def map_of_append split: option.splits)

lemma make_dir_present: "map_of (make_dir pid dirs) pid \<noteq> None"
  by (auto simp: make_dir_def map_add_def split: option.splits)

lemma on_fs_keeps [simp]:
  "su_dirs (fst (on_fs op s)) = su_dirs s" "su_processes (fst (on_fs op s)) = su_processes s"
  by (simp_all add: on_fs_def split: prod.splits)

text \<open>What every part of a start keeps: the owners of all directories and the owned processes.\<close>

definition keeps :: "'f supervisor \<Rightarrow> 'f supervisor \<Rightarrow> bool" where
  "keeps s s' = ((\<forall>i. owner_of i (su_dirs s') = owner_of i (su_dirs s)) \<and> su_processes s' = su_processes s)"

lemma keeps_refl [simp]: "keeps s s"
  by (simp add: keeps_def)

lemma keeps_trans: "keeps a b \<Longrightarrow> keeps b c \<Longrightarrow> keeps a c"
  by (simp add: keeps_def)

lemma openTranscript_keeps:
  assumes "openTranscript cfg w req (s, o') = ((s', o''), e)"
  shows "keeps s s' \<and> pr_state (op_proc o'') = pr_state (op_proc o')"
proof -
  let ?m = "on_fs (os_mkdirAll (wd_os w) (Join [sc_runtimeRoot cfg, ''processes'', rq_id req])) s"
  have m: "su_dirs (fst ?m) = su_dirs s" "su_processes (fst ?m) = su_processes s" by simp_all
  from assms m show ?thesis
    unfolding openTranscript_def Let_def keeps_def
    by (cases ?m) (auto simp: owner_of_set_dir_same split: option.splits)
qed

lemma prepare_keeps:
  assumes "prepare cfg w req (s, o') = ((s', o''), r)"
  shows "keeps s s' \<and> pr_state (op_proc o'') = pr_state (op_proc o')"
proof -
  obtain s1 o1 e where t: "openTranscript cfg w req (s, o') = ((s1, o1), e)" by (metis surj_pair)
  note t' = openTranscript_keeps [OF t]
  have c: "only_creds (s1, o1) (fst (prepareCredentials cfg w req (s1, o1)))" by (rule prepareCredentials_only_creds)
  show ?thesis
  proof (cases e)
    case (Some x)
    with assms t t' show ?thesis by (simp add: prepare_def)
  next
    case None
    with assms t have "bind_result (prepareCredentials cfg w req (s1, o1)) (prepareCommand cfg w req) = ((s', o''), r)"
      by (simp add: prepare_def)
    then have "keeps s1 s' \<and> pr_state (op_proc o'') = pr_state (op_proc o1)"
      using c by (auto simp: bind_result_def prepareCommand_def only_creds_def keeps_def split: sum.splits prod.splits option.splits)
    with t' keeps_trans show ?thesis by metis
  qed
qed

lemma releaseResources_keeps:
  assumes "releaseResourcesLocked w (s, o') = ((s', o''), e)"
  shows "keeps s s' \<and> pr_state (op_proc o'') = pr_state (op_proc o')"
proof -
  let ?s1 = "s\<lparr>su_creds := releaseCredentialAliasesLocked (wd_os w) (ps_id (pr_state (op_proc o'))) (op_credentialLinks o')
      (op_agentCredentialLink o') (su_creds s)\<rparr>"
  have "keeps ?s1 (fst (on_fs (os_removeAll (wd_os w) (op_runtimeDir o')) ?s1))" by (simp add: keeps_def)
  moreover have "keeps s ?s1" by (simp add: keeps_def)
  ultimately show ?thesis
    using assms keeps_trans
    by (auto simp: releaseResourcesLocked_def Let_def split: if_splits prod.splits)
qed

lemma rollback_owners:
  assumes "rollbackLocked w (s, o') = ((s', o''), e)" "i \<noteq> ps_id (pr_state (op_proc o'))"
  shows "owner_of i (su_dirs s') = owner_of i (su_dirs s)"
proof -
  obtain s1 o1 c where r: "releaseResourcesLocked w (s, o') = ((s1, o1), c)" by (metis surj_pair)
  from releaseResources_keeps [OF r] assms r show ?thesis
    by (auto simp: rollbackLocked_def keeps_def owner_of_set_dir split: option.splits)
qed

lemma record_failure_owners:
  assumes "recordCommandStartFailureLocked w startErr code (s, o') = ((s', o''), r)"
  shows "owner_of i (su_dirs s') = owner_of i (su_dirs s)"
  using assms
  by (auto simp: recordCommandStartFailureLocked_def Let_def save_transcript_def keep_record_def own_process_def
      owner_of_set_dir_same split: prod.splits option.splits)

lemma write_keeps_id: "processOutput_Write wr d p = (p', x) \<Longrightarrow> ps_id (pr_state p') = ps_id (pr_state p)"
proof -
  have count: "ps_id (pr_state (removeClientLocked c n q)) = ps_id (pr_state q)" for c n q
    by (simp add: removeClientLocked_def count_clients_def split: option.splits)
  have offer: "ps_id (pr_state (offer d cs q)) = ps_id (pr_state q)" for cs q
    by (induction cs arbitrary: q) (auto simp: count split: prod.splits)
  have rec: "ps_id (pr_state (fst (record_output wr d q))) = ps_id (pr_state q)" for q
    by (auto simp: record_output_def Let_def split: prod.splits option.splits if_splits)
  show "processOutput_Write wr d p = (p', x) \<Longrightarrow> ps_id (pr_state p') = ps_id (pr_state p)"
    using rec [of p] offer
    by (auto simp: processOutput_Write_def distribute_def split: prod.splits option.splits)
qed

lemma record_failure_id:
  assumes "recordCommandStartFailureLocked w startErr code (s, o') = ((s', o''), r)"
  shows "ps_id (pr_state (op_proc o'')) = ps_id (pr_state (op_proc o'))"
  using assms write_keeps_id
  by (fastforce simp: recordCommandStartFailureLocked_def Let_def split: prod.splits option.splits)

lemma failLocked_owners:
  assumes "failLocked w cause code (s, o') = (s', st, e)" "i \<noteq> ps_id (pr_state (op_proc o'))"
  shows "owner_of i (su_dirs s') = owner_of i (su_dirs s)"
proof -
  obtain s1 o1 r where f: "recordCommandStartFailureLocked w cause code (s, o') = ((s1, o1), r)" by (metis surj_pair)
  obtain s2 o2 e2 where b: "rollbackLocked w (s1, o1) = ((s2, o2), e2)" by (metis surj_pair)
  obtain s3 o3 e3 where l: "releaseResourcesLocked w (s1, o1) = ((s3, o3), e3)" by (metis surj_pair)
  obtain s4 o4 e4 where b0: "rollbackLocked w (s, o') = ((s4, o4), e4)" by (metis surj_pair)
  have "owner_of i (su_dirs s1) = owner_of i (su_dirs s)" by (rule record_failure_owners [OF f])
  moreover have "owner_of i (su_dirs s2) = owner_of i (su_dirs s1)"
    using rollback_owners [OF b] record_failure_id [OF f] assms(2) by simp
  moreover have "owner_of i (su_dirs s3) = owner_of i (su_dirs s1)"
    using releaseResources_keeps [OF l] by (simp add: keeps_def)
  moreover have "owner_of i (su_dirs s4) = owner_of i (su_dirs s)"
    by (rule rollback_owners [OF b0 assms(2)])
  moreover have "s' \<in> {s2, s3, s4}"
    using assms(1) f b l b0 by (auto simp: failLocked_def split: if_splits sum.splits)
  ultimately show ?thesis by auto
qed

lemma launch_owners:
  assumes "launchLocked w req cmd (s, o') = ((s', st, e), l)" "ps_id (pr_state (op_proc o')) = rq_id req"
  shows "(i \<noteq> rq_id req \<longrightarrow> owner_of i (su_dirs s') = owner_of i (su_dirs s)) \<and>
         (l \<noteq> None \<longrightarrow> owner_of i (su_dirs s') = owner_of i (su_dirs s))"
proof (cases "l = None")
  case True
  then have "\<exists>c code. failLocked w c code (s, o') = (s', st, e)"
    using assms(1) by (auto simp: launchLocked_def Let_def split: option.splits sum.splits prod.splits)
  then show ?thesis using True assms(2) failLocked_owners by metis
next
  case False
  then show ?thesis
    using assms(1)
    by (auto simp: launchLocked_def Let_def own_process_def keep_record_def split: option.splits sum.splits prod.splits)
qed

lemma run_owners:
  assumes "runLocked cfg w req (s, o') = ((s', st, e), l)" "ps_id (pr_state (op_proc o')) = rq_id req"
  shows "(i \<noteq> rq_id req \<longrightarrow> owner_of i (su_dirs s') = owner_of i (su_dirs s)) \<and>
         (l \<noteq> None \<longrightarrow> owner_of i (su_dirs s') = owner_of i (su_dirs s))"
proof -
  obtain s1 o1 r where p: "prepare cfg w req (s, o') = ((s1, o1), r)" by (metis surj_pair)
  note k = prepare_keeps [OF p]
  show ?thesis
  proof (cases r)
    case (Inl x)
    with assms p have f: "failLocked w x 125 (s1, o1) = (s', st, e)" "l = None" by (auto simp: runLocked_def)
    from failLocked_owners [OF f(1), of i] f(2) k assms(2) show ?thesis by (simp add: keeps_def)
  next
    case (Inr cmd)
    with assms p have "launchLocked w req cmd (s1, o1) = ((s', st, e), l)" by (simp add: runLocked_def)
    from launch_owners [OF this, of i] k assms(2) show ?thesis by (simp add: keeps_def)
  qed
qed

text \<open>The effect of one start on the identities.\<close>

lemma start_owners:
  assumes st: "start cfg w req act s = ((s', pst, e), l)"
  shows "i \<noteq> rq_id req \<Longrightarrow> owner_of i (su_dirs s') = owner_of i (su_dirs s)"
    and "owner_of (rq_id req) (su_dirs s) = Some u \<Longrightarrow> l = None \<and> owner_of (rq_id req) (su_dirs s') = Some u"
    and "l \<noteq> None \<Longrightarrow> owner_of (rq_id req) (su_dirs s') = Some (rq_uid req)"
proof -
  let ?pid = "rq_id req"
  let ?s = "if act then Touch (wd_nowNano w) s else s"
  let ?s1 = "?s\<lparr>su_dirs := make_dir ?pid (su_dirs ?s)\<rparr>"
  let ?s2 = "?s1\<lparr>su_dirs := set_dir ?pid (\<lambda>d. d\<lparr>dd_owner := Some (rq_uid req)\<rparr>) (su_dirs ?s1)\<rparr>"
  have touch: "su_dirs ?s = su_dirs s" by (simp add: Touch_def)
  have early: "l = None \<and> (\<forall>i. owner_of i (su_dirs s') = owner_of i (su_dirs s)) \<or>
      owner_of ?pid (su_dirs s) = None \<and> runLocked cfg w req (?s2, starting_process (sc_maxLog cfg) req) = ((s', pst, e), l)"
    using st touch unfolding start_def Let_def by (auto split: option.splits if_splits simp: make_dir_owner)
  have run: "(i \<noteq> ?pid \<longrightarrow> owner_of i (su_dirs s') = owner_of i (su_dirs s)) \<and>
      (l \<noteq> None \<longrightarrow> owner_of ?pid (su_dirs s') = Some (rq_uid req))"
    if r: "runLocked cfg w req (?s2, starting_process (sc_maxLog cfg) req) = ((s', pst, e), l)" for i
  proof -
    have pid: "ps_id (pr_state (op_proc (starting_process (sc_maxLog cfg) req))) = ?pid"
      by (simp add: starting_process_def)
    have own: "owner_of ?pid (su_dirs ?s2) = Some (rq_uid req)"
      using make_dir_present [of ?pid "su_dirs s"] touch by (auto simp: owner_of_set_dir)
    have other: "i \<noteq> ?pid \<longrightarrow> owner_of i (su_dirs ?s2) = owner_of i (su_dirs s)"
      using touch by (simp add: owner_of_set_dir)
    from run_owners [OF r pid, of i] run_owners [OF r pid, of ?pid] own other show ?thesis by auto
  qed
  show "i \<noteq> ?pid \<Longrightarrow> owner_of i (su_dirs s') = owner_of i (su_dirs s)" using early run by blast
  show "owner_of ?pid (su_dirs s) = Some u \<Longrightarrow> l = None \<and> owner_of ?pid (su_dirs s') = Some u" using early by auto
  show "l \<noteq> None \<Longrightarrow> owner_of ?pid (su_dirs s') = Some (rq_uid req)" using early run by blast
qed

section \<open>Launched at most once\<close>

text \<open>
  The life of a supervisor and its state directory: start requests, process exits, stop requests and
  restarts, which lose everything but the directory and recover the history.
\<close>

datatype 'f sup_event =
    EvStart "'f world" start_request bool
  | EvExit "'f world" "string option" int string
  | EvStopRequest string
  | EvRestart "'f world" 'f

definition live_in :: "'f supervisor \<Rightarrow> string \<Rightarrow> bool" where
  "live_in s pid = (case map_of (su_processes s) pid of
     Some o' \<Rightarrow> live_phase (ps_phase (pr_state (op_proc o'))) | None \<Rightarrow> False)"

definition restarted :: "'f world \<Rightarrow> 'f \<Rightarrow> 'f supervisor \<Rightarrow> 'f supervisor" where
  "restarted w f s = \<lparr>su_creds = \<lparr>as_fs = f, as_aliases = Map.empty\<rparr>,
     su_dirs = fst (RecoverHistory (wd_record w) (wd_now w) (su_dirs s)), su_processes = [], su_lastActivity = 0\<rparr>"

fun sup_step :: "sup_config \<Rightarrow> 'f sup_event \<Rightarrow> 'f supervisor \<Rightarrow> 'f supervisor \<times> (string \<times> command) option" where
  "sup_step cfg (EvStart w req act) s =
     (case start cfg w req act s of ((s', _, _), l) \<Rightarrow> (s', map_option (Pair (rq_id req)) l))"
| "sup_step cfg (EvExit w waitErr code pid) s = (if live_in s pid then wait_process w waitErr code pid s else s, None)"
| "sup_step cfg (EvStopRequest pid) s = (fst (Stop (\<lambda>_. None) (\<lambda>_. True) True (\<lambda>s. s) pid s), None)"
| "sup_step cfg (EvRestart w f) s = (restarted w f s, None)"

fun launches :: "sup_config \<Rightarrow> 'f sup_event list \<Rightarrow> 'f supervisor \<Rightarrow> (string \<times> command) list" where
  "launches cfg [] s = []"
| "launches cfg (ev # evs) s =
     (case sup_step cfg ev s of
        (s', None) \<Rightarrow> launches cfg evs s'
      | (s', Some x) \<Rightarrow> x # launches cfg evs s')"

lemma cleanup_keeps: "keeps s (cleanupCredentials os o' s)"
  by (simp add: cleanupCredentials_def keeps_def Let_def)

lemma wait_process_owner: "owner_of i (su_dirs (wait_process w waitErr code pid s)) = owner_of i (su_dirs s)"
  using cleanup_keeps
  by (auto simp: wait_process_def Let_def keep_record_def set_process_def save_transcript_def owner_of_set_dir_same keeps_def
      split: option.splits)

lemma Stop_request_owner: "su_dirs (fst (Stop (\<lambda>_. None) (\<lambda>_. True) True (\<lambda>s. s) pid s)) = su_dirs s"
  by (simp add: Stop_def Let_def set_process_def split: option.splits)

lemma step_owner:
  assumes "sup_step cfg ev s = (s', l)"
  shows "owner_of i (su_dirs s) = Some u \<Longrightarrow> owner_of i (su_dirs s') = Some u \<and> (\<forall>c. l \<noteq> Some (i, c))"
    and "l = Some (j, c) \<Longrightarrow> owner_of j (su_dirs s') \<noteq> None"
proof -
  have both: "(owner_of i (su_dirs s) = Some u \<longrightarrow> owner_of i (su_dirs s') = Some u \<and> (\<forall>c. l \<noteq> Some (i, c))) \<and>
    (l = Some (j, c) \<longrightarrow> owner_of j (su_dirs s') \<noteq> None)"
  proof (cases ev)
    case (EvStart w req act)
    obtain s1 pst e l1 where st: "start cfg w req act s = ((s1, pst, e), l1)" by (metis surj_pair)
    with assms EvStart have "s' = s1" "l = map_option (Pair (rq_id req)) l1" by auto
    with start_owners [OF st] show ?thesis by (cases "i = rq_id req") auto
  next
    case (EvExit w waitErr code pid)
    with assms show ?thesis by (auto simp: wait_process_owner)
  next
    case (EvStopRequest pid)
    with assms show ?thesis by (auto simp: Stop_request_owner)
  next
    case (EvRestart w f)
    with assms show ?thesis by (auto simp: restarted_def RecoverHistory_owner)
  qed
  from both show "owner_of i (su_dirs s) = Some u \<Longrightarrow> owner_of i (su_dirs s') = Some u \<and> (\<forall>c. l \<noteq> Some (i, c))"
    and "l = Some (j, c) \<Longrightarrow> owner_of j (su_dirs s') \<noteq> None" by blast+
qed

lemma owned_not_launched:
  "owner_of i (su_dirs s) \<noteq> None \<Longrightarrow> i \<notin> fst ` set (launches cfg evs s)"
proof (induction evs arbitrary: s)
  case (Cons ev evs)
  obtain s' l where st: "sup_step cfg ev s = (s', l)" by fastforce
  from Cons.prems obtain u where u: "owner_of i (su_dirs s) = Some u" by blast
  note eff = step_owner(1) [OF st u]
  from Cons.IH [of s'] eff have "i \<notin> fst ` set (launches cfg evs s')" by simp
  with st eff show ?case by (cases l) auto
qed simp

text \<open>C15: A process ID is launched at most once: over any sequence of start requests, exits, stop requests
  and restarts of the supervisor, with any failures and cancellations in between and from any state
  of the directory, no two launched commands have the same ID, so neither a retried request nor a
  restarted supervisor runs a command again.\<close>

theorem start_launches_once: "distinct (map fst (launches cfg evs s))"
proof (induction evs arbitrary: s)
  case (Cons ev evs)
  obtain s' l where st: "sup_step cfg ev s = (s', l)" by fastforce
  show ?case
  proof (cases l)
    case None
    with st Cons show ?thesis by simp
  next
    case (Some x)
    obtain i c where x: "x = (i, c)" by fastforce
    with step_owner(2) [OF st] Some have "owner_of i (su_dirs s') \<noteq> None" by blast
    from owned_not_launched [OF this] st Some x Cons.IH [of s'] show ?thesis by auto
  qed
qed simp

section \<open>Credentials end with their processes\<close>

abbreviation aliases_of :: "'f supervisor \<Rightarrow> aliases" where
  "aliases_of s \<equiv> as_aliases (su_creds s)"

abbreviation process_links :: "owned_process \<Rightarrow> string set" where
  "process_links o' \<equiv> set (released_links (op_credentialLinks o') (op_agentCredentialLink o'))"

text \<open>
  The account of an attempt: the others' view is \<open>A\<close>, and the process owns no alias beyond the links it
  will release.
\<close>

definition accounted :: "string \<Rightarrow> aliases \<Rightarrow> 'f attempt \<Rightarrow> bool" where
  "accounted pid A a = (without pid (aliases_of (fst a)) = A \<and> alias_wf (aliases_of (fst a)) \<and>
     owned pid (aliases_of (fst a)) \<subseteq> process_links (snd a))"

lemma bind_result_rule:
  assumes "\<And>b e. r = (b, Inl e) \<Longrightarrow> P b" "\<And>b x. r = (b, Inr x) \<Longrightarrow> P (fst (k x b))"
  shows "P (fst (bind_result r k))"
  using assms by (auto simp: bind_result_def split: prod.splits sum.splits)

lemma on_attempt_step:
  assumes "checked c (on_attempt op) a = (a', r)"
  shows "snd a' = snd a \<and> (a' = a \<and> (\<exists>e. r = Inl e) \<or> op (su_creds (fst a)) = (su_creds (fst a'), r))"
  using assms by (auto simp: checked_def on_attempt_def on_creds_def split: option.splits prod.splits)

lemma accounted_projection:
  assumes acc: "accounted pid A a"
    and proj: "\<And>c c' r. op c = (c', r) \<Longrightarrow> projection_ok pid c c' (projected_links r)"
    and r: "checked cx (on_attempt op) a = (a', r)"
  shows "case r of Inl e \<Rightarrow> accounted pid A a' | Inr ls \<Rightarrow> accounted pid A (add_links ls a')"
proof -
  from on_attempt_step [OF r] have snd: "snd a' = snd a"
    and cases: "a' = a \<and> (\<exists>e. r = Inl e) \<or> op (su_creds (fst a)) = (su_creds (fst a'), r)" by auto
  from cases show ?thesis
  proof
    assume "op (su_creds (fst a)) = (su_creds (fst a'), r)"
    from proj [OF this] snd acc show ?thesis
      by (cases r) (auto simp: projection_ok_def accounted_def projected_links_def add_links_def)
  qed (use acc in auto)
qed

lemma accounted_write_files:
  assumes "accounted pid A a" "checked cx (on_attempt (write_files os dir files)) a = (a', r)"
  shows "accounted pid A a' \<and> snd a' = snd a"
proof -
  have "as_aliases c' = as_aliases c" if "write_files os dir files c = (c', r)" for c c'
    using that by (auto simp: write_files_def split: prod.splits option.splits)
  with on_attempt_step [OF assms(2)] assms(1) show ?thesis by (auto simp: accounted_def)
qed

lemma accounted_agent:
  assumes acc: "accounted pid A a" and none: "op_agentCredentialLink (snd a) = []"
    and r: "checked cx (on_attempt (prepareAgentHome os sha pid dir home files)) a = (a', r)"
  shows "case r of Inl e \<Rightarrow> accounted pid A a' | Inr l \<Rightarrow> accounted pid A (fst a', (snd a')\<lparr>op_agentCredentialLink := l\<rparr>)"
proof -
  from on_attempt_step [OF r] have snd: "snd a' = snd a"
    and cases: "a' = a \<and> (\<exists>e. r = Inl e) \<or> prepareAgentHome os sha pid dir home files (su_creds (fst a)) = (su_creds (fst a'), r)"
    by auto
  from cases show ?thesis
  proof
    assume "prepareAgentHome os sha pid dir home files (su_creds (fst a)) = (su_creds (fst a'), r)"
    from agent_projection [OF this] snd acc none show ?thesis
      by (cases r) (auto simp: projection_ok_def accounted_def split: if_splits)
  qed (use acc in auto)
qed

definition safe_request :: "sup_config \<Rightarrow> start_request \<Rightarrow> bool" where
  "safe_request cfg req = (credentials_root cfg req = [] \<or> length (credential_names (rq_credentialFiles req)) \<le> Suc 0)"

lemma add_links_agent [simp]: "op_agentCredentialLink (snd (add_links ls a)) = op_agentCredentialLink (snd a)"
  by (simp add: add_links_def)

text \<open>The three kinds of steps of \<^verbatim>\<open>prepareCredentials\<close>, as rules for the rest of the function.\<close>

lemma bind_write_files:
  assumes "accounted pid A a" "op_agentCredentialLink (snd a) = []"
    and "\<And>u b. accounted pid A b \<Longrightarrow> op_agentCredentialLink (snd b) = [] \<Longrightarrow> accounted pid A (fst (k u b))"
  shows "accounted pid A (fst (bind_result (checked cx (on_attempt (write_files os dir files)) a) k))"
  by (rule bind_result_rule) (use assms accounted_write_files [OF assms(1)] in \<open>fastforce+\<close>)

lemma bind_projection:
  assumes acc: "accounted pid A a" "op_agentCredentialLink (snd a) = []"
    and proj: "\<And>c c' r. op c = (c', r) \<Longrightarrow> projection_ok pid c c' (projected_links r)"
    and k: "\<And>ls b. accounted pid A (add_links ls b) \<Longrightarrow> op_agentCredentialLink (snd (add_links ls b)) = [] \<Longrightarrow>
              accounted pid A (fst (k ls b))"
  shows "accounted pid A (fst (bind_result (checked cx (on_attempt op) a) k))"
proof (rule bind_result_rule)
  fix b e assume "checked cx (on_attempt op) a = (b, Inl e)"
  from accounted_projection [OF acc(1) proj this] show "accounted pid A b" by simp
next
  fix b ls assume r: "checked cx (on_attempt op) a = (b, Inr ls)"
  from accounted_projection [OF acc(1) proj r] on_attempt_step [OF r] acc(2) show "accounted pid A (fst (k ls b))"
    by (intro k) simp_all
qed

lemma bind_agent:
  assumes acc: "accounted pid A a" "op_agentCredentialLink (snd a) = []"
  shows "accounted pid A (fst (bind_result (checked cx (on_attempt (prepareAgentHome os sha pid dir home files)) a)
           (\<lambda>l b. ((fst b, (snd b)\<lparr>op_agentCredentialLink := l\<rparr>), Inr x))))"
  by (rule bind_result_rule) (use accounted_agent [OF acc] in fastforce)+

lemma prepareCredentials_accounted:
  assumes acc: "accounted (rq_id req) A a" "op_agentCredentialLink (snd a) = []" and safe: "safe_request cfg req"
  shows "accounted (rq_id req) A (fst (prepareCredentials cfg w req a))"
  unfolding prepareCredentials_def Let_def
proof (rule bind_write_files [OF acc], rule bind_projection, assumption, assumption)
  fix c c' r
  assume "prepareCredentialAliases (wd_os w) (rq_id req) (op_runtimeDir (snd a)) (credentials_root cfg req)
    (rq_credentialFiles req) c = (c', r)"
  then show "projection_ok (rq_id req) c c' (projected_links r)"
    using safe unfolding safe_request_def by (blast intro: aliases_projection)
qed (intro bind_projection bind_agent mounts_projection ssh_projection; assumption)

lemma openTranscript_accounted:
  assumes "openTranscript cfg w req (s, o') = ((s', o''), e)"
  shows "aliases_of s' = aliases_of s" "op_credentialLinks o'' = op_credentialLinks o'"
    "op_agentCredentialLink o'' = op_agentCredentialLink o'"
  using assms
  by (auto simp: openTranscript_def Let_def on_fs_def split: option.splits prod.splits)

lemma prepareCommand_accounted:
  "accounted pid A a \<Longrightarrow> accounted pid A (fst (prepareCommand cfg w req pc a))"
  by (auto simp: prepareCommand_def accounted_def split: option.splits sum.splits)

lemma prepare_accounted:
  assumes acc: "accounted (rq_id req) A (s, o')" "op_agentCredentialLink o' = []" and safe: "safe_request cfg req"
  shows "accounted (rq_id req) A (fst (prepare cfg w req (s, o')))"
proof -
  obtain s1 o1 e where t: "openTranscript cfg w req (s, o') = ((s1, o1), e)" by (metis surj_pair)
  from openTranscript_accounted [OF t] acc have acc1: "accounted (rq_id req) A (s1, o1)" "op_agentCredentialLink (snd (s1, o1)) = []"
    by (simp_all add: accounted_def)
  note acc2 = prepareCredentials_accounted [OF acc1 safe, of w]
  have "accounted (rq_id req) A (fst (bind_result (prepareCredentials cfg w req (s1, o1)) (prepareCommand cfg w req)))"
    by (rule bind_result_rule) (use acc2 prepareCommand_accounted in \<open>fastforce+\<close>)
  with t acc1 show ?thesis by (cases e) (simp_all add: prepare_def)
qed

lemma on_fs_aliases [simp]: "aliases_of (fst (on_fs op s)) = aliases_of s"
  by (simp add: on_fs_def split: prod.splits)

text \<open>Releasing the resources of an accounted attempt gives the view of the others.\<close>

lemma release_accounted:
  assumes "accounted pid A (s, o')" "ps_id (pr_state (op_proc o')) = pid"
    and "releaseResourcesLocked w (s, o') = ((s', o''), e)"
  shows "aliases_of s' = A"
proof -
  have "forget pid (process_links o') (aliases_of s) = A"
    using assms(1) forget_all [of "aliases_of s" pid "process_links o'"] by (simp add: accounted_def)
  then have "as_aliases (releaseCredentialAliasesLocked (wd_os w) pid (op_credentialLinks o') (op_agentCredentialLink o') (su_creds s)) = A"
    by (simp only: release_forget)
  moreover have "aliases_of s' = as_aliases (releaseCredentialAliasesLocked (wd_os w) pid (op_credentialLinks o')
      (op_agentCredentialLink o') (su_creds s))"
    using assms(2,3) by (auto simp: releaseResourcesLocked_def Let_def on_fs_def split: if_splits prod.splits)
  ultimately show ?thesis by simp
qed

lemma rollback_accounted:
  assumes "accounted pid A (s, o')" "ps_id (pr_state (op_proc o')) = pid" "rollbackLocked w (s, o') = ((s', o''), e)"
  shows "aliases_of s' = A \<and> su_processes s' = su_processes s"
proof -
  obtain s1 o1 c where r: "releaseResourcesLocked w (s, o') = ((s1, o1), c)" by (metis surj_pair)
  from release_accounted [OF assms(1,2) r] releaseResources_keeps [OF r] assms(3) r show ?thesis
    by (auto simp: rollbackLocked_def keeps_def split: option.splits)
qed

lemma record_failure_accounted:
  assumes r: "recordCommandStartFailureLocked w startErr code (s, o') = ((s', o''), r)"
  shows "su_creds s' = su_creds s" "op_credentialLinks o'' = op_credentialLinks o'" "op_agentCredentialLink o'' = op_agentCredentialLink o'"
    and "case r of Inl e \<Rightarrow> su_processes s' = su_processes s
           | Inr st \<Rightarrow> su_processes s' = su_processes s @ [(ps_id (pr_state (op_proc o')), o'')] \<and> \<not> live_phase (ps_phase (pr_state (op_proc o'')))"
proof -
  have "su_creds s' = su_creds s \<and> op_credentialLinks o'' = op_credentialLinks o' \<and> op_agentCredentialLink o'' = op_agentCredentialLink o' \<and>
     (case r of Inl e \<Rightarrow> su_processes s' = su_processes s
           | Inr st \<Rightarrow> su_processes s' = su_processes s @ [(ps_id (pr_state (op_proc o'')), o'')] \<and> \<not> live_phase (ps_phase (pr_state (op_proc o''))))"
    using r
    by (auto simp: recordCommandStartFailureLocked_def Let_def save_transcript_def keep_record_def own_process_def live_phase_def
        phaseExited_def phaseRunning_def phaseStarting_def split: prod.splits option.splits)
  with record_failure_id [OF r] show "su_creds s' = su_creds s" "op_credentialLinks o'' = op_credentialLinks o'"
    "op_agentCredentialLink o'' = op_agentCredentialLink o'"
    "case r of Inl e \<Rightarrow> su_processes s' = su_processes s
           | Inr st \<Rightarrow> su_processes s' = su_processes s @ [(ps_id (pr_state (op_proc o')), o'')] \<and> \<not> live_phase (ps_phase (pr_state (op_proc o'')))"
    by (cases r; simp)+
qed

text \<open>After a failed start the aliases are the others' view, and the process, if it is kept, has ended.\<close>

definition ended_process :: "string \<Rightarrow> 'f supervisor \<Rightarrow> 'f supervisor \<Rightarrow> bool" where
  "ended_process pid s s' = (su_processes s' = su_processes s \<or>
     (\<exists>o'. su_processes s' = su_processes s @ [(pid, o')] \<and> ps_id (pr_state (op_proc o')) = pid \<and>
        \<not> live_phase (ps_phase (pr_state (op_proc o')))))"

lemma failLocked_accounted:
  assumes acc: "accounted pid A (s, o')" and pid: "ps_id (pr_state (op_proc o')) = pid"
    and f: "failLocked w cause code (s, o') = (s', st, e)"
  shows "aliases_of s' = A \<and> ended_process pid s s'"
proof -
  obtain s1 o1 r where rf: "recordCommandStartFailureLocked w cause code (s, o') = ((s1, o1), r)" by (metis surj_pair)
  obtain s2 o2 e2 where b: "rollbackLocked w (s1, o1) = ((s2, o2), e2)" by (metis surj_pair)
  obtain s3 o3 e3 where l: "releaseResourcesLocked w (s1, o1) = ((s3, o3), e3)" by (metis surj_pair)
  obtain s4 o4 e4 where b0: "rollbackLocked w (s, o') = ((s4, o4), e4)" by (metis surj_pair)
  note rec = record_failure_accounted [OF rf]
  have acc1: "accounted pid A (s1, o1)" using acc rec by (simp add: accounted_def)
  have pid1: "ps_id (pr_state (op_proc o1)) = pid" using record_failure_id [OF rf] pid by simp
  note r4 = rollback_accounted [OF acc pid b0] and r2 = rollback_accounted [OF acc1 pid1 b]
  note r3 = release_accounted [OF acc1 pid1 l] and k3 = releaseResources_keeps [OF l]
  show ?thesis
  proof (cases "\<not> pr_transcriptOpen (op_proc o') \<or> err_is ECanceled cause \<or> err_is EDeadlineExceeded cause")
    case True
    with f b0 r4 show ?thesis by (auto simp: failLocked_def ended_process_def)
  next
    case False
    with f rf b l r2 r3 k3 rec(4) pid pid1 show ?thesis
      by (cases r) (auto simp: failLocked_def ended_process_def keeps_def)
  qed
qed

subsection \<open>The invariant of the supervisor\<close>

definition links_of :: "'f supervisor \<Rightarrow> string \<Rightarrow> string set" where
  "links_of s pid = (case map_of (su_processes s) pid of Some o' \<Rightarrow> process_links o' | None \<Rightarrow> {})"

definition releasable :: "'f supervisor \<Rightarrow> string \<Rightarrow> string set" where
  "releasable s pid = (if live_in s pid then links_of s pid else {})"

definition credentials_inv :: "'f supervisor \<Rightarrow> bool" where
  "credentials_inv s = (alias_wf (aliases_of s) \<and> (\<forall>pid. owned pid (aliases_of s) \<subseteq> releasable s pid) \<and>
     (\<forall>x \<in> set (su_processes s). ps_id (pr_state (op_proc (snd x))) = fst x))"

lemma snoc_process:
  assumes "su_processes s' = su_processes s @ [(pid, o')]" "map_of (su_processes s) pid = None"
  shows "live_in s' q = (if q = pid then live_phase (ps_phase (pr_state (op_proc o'))) else live_in s q)"
    and "links_of s' q = (if q = pid then process_links o' else links_of s q)"
  using assms by (auto simp: live_in_def links_of_def map_add_def split: option.splits)

lemma unknown_process: "map_of (su_processes s) pid = None \<Longrightarrow> \<not> live_in s pid"
  by (simp add: live_in_def)

lemma inv_failed:
  assumes inv: "credentials_inv s" and none: "map_of (su_processes s) pid = None"
    and s': "aliases_of s' = aliases_of s" "ended_process pid s s'"
  shows "credentials_inv s'"
proof -
  have other: "releasable s' q = releasable s q" for q
  proof (cases "su_processes s' = su_processes s")
    case True
    then show ?thesis by (simp add: releasable_def live_in_def links_of_def)
  next
    case False
    with s'(2) obtain o' where o': "su_processes s' = su_processes s @ [(pid, o')]" "\<not> live_phase (ps_phase (pr_state (op_proc o')))"
      by (auto simp: ended_process_def)
    from snoc_process [OF o'(1) none, of q] o'(2) unknown_process [OF none] show ?thesis by (auto simp: releasable_def)
  qed
  show ?thesis
    using inv s' other by (auto simp: credentials_inv_def ended_process_def)
qed

lemma launch_accounted:
  assumes acc: "accounted (rq_id req) A (s, o')" and pid: "ps_id (pr_state (op_proc o')) = rq_id req"
    and l: "launchLocked w req cmd (s, o') = ((s', st, e), l)"
  shows "aliases_of s' = A \<and> ended_process (rq_id req) s s' \<or>
         aliases_of s' = aliases_of s \<and>
         (\<exists>o''. su_processes s' = su_processes s @ [(rq_id req, o'')] \<and> ps_id (pr_state (op_proc o'')) = rq_id req \<and>
            live_phase (ps_phase (pr_state (op_proc o''))) \<and> process_links o'' = process_links o')"
proof (cases "l = None")
  case True
  then have "\<exists>c code. failLocked w c code (s, o') = (s', st, e)"
    using l by (auto simp: launchLocked_def Let_def split: option.splits sum.splits prod.splits)
  with failLocked_accounted [OF acc pid] show ?thesis by blast
next
  case False
  with l pid show ?thesis
    by (auto simp: launchLocked_def Let_def own_process_def keep_record_def live_phase_def closeInputLocked_def
        split: option.splits sum.splits prod.splits if_splits)
qed

lemma inv_launched:
  assumes inv: "credentials_inv s" and none: "map_of (su_processes s) pid = None"
    and acc: "without pid (aliases_of s') = aliases_of s" "alias_wf (aliases_of s')" "owned pid (aliases_of s') \<subseteq> process_links o'"
    and ps: "su_processes s' = su_processes s @ [(pid, o')]" "ps_id (pr_state (op_proc o')) = pid"
      "live_phase (ps_phase (pr_state (op_proc o')))"
  shows "credentials_inv s'"
proof -
  have live: "releasable s' q = (if q = pid then process_links o' else releasable s q)" for q
    using snoc_process [OF ps(1) none, of q] ps(3) by (cases "q = pid") (simp_all add: releasable_def)
  have "owned q (aliases_of s') \<subseteq> releasable s' q" for q
  proof (cases "q = pid")
    case True
    with acc live show ?thesis by simp
  next
    case False
    then have "owned q (aliases_of s') = owned q (aliases_of s)" using owned_other_without [OF False, of "aliases_of s'"] acc by simp
    with False live inv show ?thesis by (auto simp: credentials_inv_def)
  qed
  with inv acc ps show ?thesis by (auto simp: credentials_inv_def)
qed

lemma run_inv:
  assumes inv: "credentials_inv s" and none: "map_of (su_processes s) (rq_id req) = None" and safe: "safe_request cfg req"
    and r: "runLocked cfg w req (s, starting_process m req) = ((s', st, e), l)"
  shows "credentials_inv s'"
proof -
  let ?pid = "rq_id req" and ?o = "starting_process m req"
  have unowned: "owned ?pid (aliases_of s) = {}"
    using inv unknown_process [OF none] by (metis credentials_inv_def releasable_def subset_empty)
  have "accounted ?pid (aliases_of s) (s, ?o)"
    using inv unowned without_unowned [of "aliases_of s" ?pid] by (simp add: accounted_def credentials_inv_def)
  from prepare_accounted [OF this _ safe, of w] obtain s1 o1 r1 where p: "prepare cfg w req (s, ?o) = ((s1, o1), r1)"
    and acc: "accounted ?pid (aliases_of s) (s1, o1)" by (metis (no_types, lifting) fst_conv prod.exhaust starting_process_def owned_process.select_convs(7))
  from prepare_keeps [OF p] have ps: "su_processes s1 = su_processes s" and pid: "ps_id (pr_state (op_proc o1)) = ?pid"
    by (auto simp: keeps_def starting_process_def)
  have ended: "ended_process ?pid s1 s' = ended_process ?pid s s'" by (simp add: ended_process_def ps)
  have "aliases_of s' = aliases_of s \<and> ended_process ?pid s s' \<or>
      aliases_of s' = aliases_of s1 \<and> (\<exists>o''. su_processes s' = su_processes s @ [(?pid, o'')] \<and> ps_id (pr_state (op_proc o'')) = ?pid \<and>
            live_phase (ps_phase (pr_state (op_proc o''))) \<and> process_links o'' = process_links o1)"
  proof (cases r1)
    case (Inl x)
    with r p have "failLocked w x 125 (s1, o1) = (s', st, e)" by (simp add: runLocked_def)
    from failLocked_accounted [OF acc pid this] ended show ?thesis by simp
  next
    case (Inr cmd)
    with r p have "launchLocked w req cmd (s1, o1) = ((s', st, e), l)" by (simp add: runLocked_def)
    from launch_accounted [OF acc pid this] ended ps show ?thesis by auto
  qed
  then show ?thesis
  proof
    assume "aliases_of s' = aliases_of s \<and> ended_process ?pid s s'"
    with inv_failed [OF inv none] show ?thesis by blast
  next
    assume "aliases_of s' = aliases_of s1 \<and> (\<exists>o''. su_processes s' = su_processes s @ [(?pid, o'')] \<and>
      ps_id (pr_state (op_proc o'')) = ?pid \<and> live_phase (ps_phase (pr_state (op_proc o''))) \<and> process_links o'' = process_links o1)"
    then obtain o'' where al: "aliases_of s' = aliases_of s1" and o'': "su_processes s' = su_processes s @ [(?pid, o'')]"
      "ps_id (pr_state (op_proc o'')) = ?pid" "live_phase (ps_phase (pr_state (op_proc o'')))" "process_links o'' = process_links o1"
      by blast
    have "owned ?pid (aliases_of s') \<subseteq> process_links o''" unfolding o''(4) al using acc by (simp add: accounted_def)
    with inv_launched [OF inv none _ _ _ o''(1-3)] acc al show ?thesis by (simp add: accounted_def)
  qed
qed

lemma inv_id: "credentials_inv s \<Longrightarrow> map_of (su_processes s) pid = Some o' \<Longrightarrow> ps_id (pr_state (op_proc o')) = pid"
  unfolding credentials_inv_def using map_of_SomeD by fastforce

lemma inv_cong:
  assumes "aliases_of s' = aliases_of s" "su_processes s' = su_processes s"
  shows "credentials_inv s' = credentials_inv s"
  using assms by (simp add: credentials_inv_def releasable_def live_in_def links_of_def)

lemma start_inv:
  assumes inv: "credentials_inv s" and safe: "safe_request cfg req"
    and st: "start cfg w req act s = ((s', pst, e), l)"
  shows "credentials_inv s'"
proof -
  let ?s = "if act then Touch (wd_nowNano w) s else s"
  let ?s1 = "?s\<lparr>su_dirs := make_dir (rq_id req) (su_dirs ?s)\<rparr>"
  let ?s2 = "?s1\<lparr>su_dirs := set_dir (rq_id req) (\<lambda>d. d\<lparr>dd_owner := Some (rq_uid req)\<rparr>) (su_dirs ?s1)\<rparr>"
  have touch: "su_creds ?s = su_creds s" "su_processes ?s = su_processes s" by (simp_all add: Touch_def)
  have early: "aliases_of s' = aliases_of s \<and> su_processes s' = su_processes s \<or>
      map_of (su_processes s) (rq_id req) = None \<and>
      runLocked cfg w req (?s2, starting_process (sc_maxLog cfg) req) = ((s', pst, e), l)"
    using st touch unfolding start_def Let_def by (auto split: option.splits if_splits)
  moreover have "credentials_inv ?s2" using inv inv_cong [of ?s2 s] touch by simp
  ultimately show ?thesis using inv inv_cong [of s' s] run_inv [OF _ _ safe, of ?s2 w] touch by auto
qed

lemma set_process_lookup:
  assumes "\<forall>x \<in> set (su_processes s). ps_id (pr_state (op_proc (snd x))) = fst x"
    and "map_of (su_processes s) pid = Some o'" "ps_id (pr_state (op_proc o1)) = pid"
  shows "map_of (su_processes (set_process o1 s)) q = (if q = pid then Some o1 else map_of (su_processes s) q)"
proof -
  have "map_of (map (\<lambda>(i, x). if i = pid then (i, o1) else (i, x)) xs) q =
      (if q = pid \<and> map_of xs pid \<noteq> None then Some o1 else map_of xs q)" for xs
    by (induction xs) auto
  with assms show ?thesis by (simp add: set_process_def)
qed

lemma set_process_ids:
  assumes "\<forall>x \<in> set (su_processes s). ps_id (pr_state (op_proc (snd x))) = fst x"
  shows "\<forall>x \<in> set (su_processes (set_process o1 s)). ps_id (pr_state (op_proc (snd x))) = fst x"
  using assms by (auto simp: set_process_def split: if_splits)

text \<open>Replacing a process: its links stay when it stays live, and its aliases are gone when it ends.\<close>

lemma inv_set_process:
  assumes inv: "credentials_inv s" and o': "map_of (su_processes s) pid = Some o'" and o1: "ps_id (pr_state (op_proc o1)) = pid"
    and s1: "su_processes s1 = su_processes (set_process o1 s)"
    and al: "aliases_of s1 = (if live_phase (ps_phase (pr_state (op_proc o1))) then aliases_of s else without pid (aliases_of s))"
    and live: "live_phase (ps_phase (pr_state (op_proc o1))) \<Longrightarrow> live_in s pid \<and> process_links o1 = process_links o'"
  shows "credentials_inv s1"
proof -
  have ids: "\<forall>x \<in> set (su_processes s). ps_id (pr_state (op_proc (snd x))) = fst x" using inv by (simp add: credentials_inv_def)
  note look = set_process_lookup [OF ids o' o1]
  have rel: "releasable s1 q = (if q \<noteq> pid then releasable s q
      else if live_phase (ps_phase (pr_state (op_proc o1))) then process_links o1 else {})" for q
    using look [of q] by (auto simp: releasable_def live_in_def links_of_def s1)
  have "owned q (aliases_of s1) \<subseteq> releasable s1 q" for q
  proof (cases "live_phase (ps_phase (pr_state (op_proc o1)))")
    case True
    with live have "releasable s pid = process_links o1" using o' by (auto simp: releasable_def links_of_def)
    with rel have "releasable s1 q = releasable s q" using True by simp
    with inv al True show ?thesis by (simp add: credentials_inv_def)
  next
    case False
    with inv al rel owned_without [of pid "aliases_of s"] owned_other_without [of q pid "aliases_of s"] show ?thesis
      by (auto simp: credentials_inv_def)
  qed
  moreover have "alias_wf (aliases_of s1)" using inv al alias_wf_without by (auto simp: credentials_inv_def)
  moreover have "\<forall>x \<in> set (su_processes s1). ps_id (pr_state (op_proc (snd x))) = fst x"
    unfolding s1 by (rule set_process_ids [OF ids])
  ultimately show ?thesis by (simp add: credentials_inv_def)
qed

lemma cleanup_aliases:
  "aliases_of (cleanupCredentials os o' s) = forget (ps_id (pr_state (op_proc o'))) (process_links o') (aliases_of s)"
proof -
  let ?c = "releaseCredentialAliasesLocked os (ps_id (pr_state (op_proc o'))) (op_credentialLinks o') (op_agentCredentialLink o') (su_creds s)"
  have "aliases_of (cleanupCredentials os o' s) = as_aliases ?c" by (simp add: cleanupCredentials_def Let_def)
  also have "\<dots> = forget (ps_id (pr_state (op_proc o'))) (process_links o') (aliases_of s)" by (rule release_forget)
  finally show ?thesis .
qed

lemma wait_process_fields:
  assumes "map_of (su_processes s) pid = Some o'"
  shows "aliases_of (wait_process w waitErr code pid s) = aliases_of (cleanupCredentials (wd_os w) o' s)"
    and "su_processes (wait_process w waitErr code pid s) =
           su_processes (set_process (upd_proc (wait_done (wd_now w) waitErr code) o') s)"
  using assms cleanup_keeps [of s "wd_os w" o']
  by (simp_all add: wait_process_def Let_def keep_record_def set_process_def save_transcript_def keeps_def)

lemma wait_inv:
  assumes inv: "credentials_inv s" and live: "live_in s pid"
  shows "credentials_inv (wait_process w waitErr code pid s)"
proof -
  from live obtain o' where o': "map_of (su_processes s) pid = Some o'" by (auto simp: live_in_def split: option.splits)
  then have pid: "ps_id (pr_state (op_proc o')) = pid" by (rule inv_id [OF inv])
  let ?o1 = "upd_proc (wait_done (wd_now w) waitErr code) o'"
  have gone: "ps_id (pr_state (op_proc ?o1)) = pid" "\<not> live_phase (ps_phase (pr_state (op_proc ?o1)))"
    using pid by (auto simp: wait_done_def Let_def live_phase_def phaseStopped_def phaseExited_def phaseRunning_def phaseStarting_def)
  have own: "owned pid (aliases_of s) \<subseteq> process_links o'"
  proof -
    have "releasable s pid = process_links o'" using live o' by (simp add: releasable_def links_of_def)
    moreover have "owned pid (aliases_of s) \<subseteq> releasable s pid" using inv by (simp add: credentials_inv_def)
    ultimately show ?thesis by simp
  qed
  have "aliases_of (wait_process w waitErr code pid s) = forget pid (process_links o') (aliases_of s)"
    unfolding wait_process_fields(1) [OF o'] cleanup_aliases pid ..
  also have "\<dots> = without pid (aliases_of s)" using forget_all [OF _ own] inv by (simp add: credentials_inv_def)
  finally have al: "aliases_of (wait_process w waitErr code pid s) = without pid (aliases_of s)" .
  note ps = wait_process_fields(2) [OF o', of w waitErr code]
  show ?thesis using inv_set_process [OF inv o' gone(1) ps] al gone(2) by simp
qed

lemma stop_inv:
  assumes inv: "credentials_inv s"
  shows "credentials_inv (fst (Stop (\<lambda>_. None) (\<lambda>_. True) True (\<lambda>s. s) pid s))"
proof (cases "map_of (su_processes s) pid")
  case None
  with inv show ?thesis by (simp add: Stop_def Let_def)
next
  case (Some o')
  let ?o1 = "upd_proc (\<lambda>p. p\<lparr>pr_stopRequested := True\<rparr>) o'"
  show ?thesis
  proof (cases "live_phase (ps_phase (pr_state (op_proc o')))")
    case False
    with Some inv show ?thesis by (simp add: Stop_def Let_def)
  next
    case True
    then have eq: "fst (Stop (\<lambda>_. None) (\<lambda>_. True) True (\<lambda>s. s) pid s) = set_process ?o1 s"
      using Some by (simp add: Stop_def Let_def)
    have pid: "ps_id (pr_state (op_proc ?o1)) = pid" using inv_id [OF inv Some] by simp
    have "aliases_of (set_process ?o1 s) = aliases_of s" by (simp add: set_process_def)
    with inv_set_process [OF inv Some pid refl] True Some show ?thesis by (simp add: eq live_in_def)
  qed
qed

fun safe_event :: "sup_config \<Rightarrow> 'f sup_event \<Rightarrow> bool" where
  "safe_event cfg (EvStart w req act) = safe_request cfg req"
| "safe_event cfg _ = True"

lemma step_inv:
  assumes "credentials_inv s" "safe_event cfg ev"
  shows "credentials_inv (fst (sup_step cfg ev s))"
proof (cases ev)
  case (EvStart w req act)
  with assms show ?thesis using start_inv by (fastforce split: prod.splits)
next
  case (EvRestart w f)
  then show ?thesis by (simp add: restarted_def credentials_inv_def alias_wf_def owned_def)
qed (use assms wait_inv stop_inv in auto)

definition sup_run :: "sup_config \<Rightarrow> 'f sup_event list \<Rightarrow> 'f supervisor \<Rightarrow> 'f supervisor" where
  "sup_run cfg evs s = fold (\<lambda>ev s. fst (sup_step cfg ev s)) evs s"

lemma run_events_inv:
  "credentials_inv s \<Longrightarrow> \<forall>ev \<in> set evs. safe_event cfg ev \<Longrightarrow> credentials_inv (sup_run cfg evs s)"
  by (induction evs arbitrary: s) (auto simp: sup_run_def step_inv)


section \<open>A file system in memory\<close>

datatype node = NDir | NFile string | NLink string

type_synonym mem_fs = "(string \<times> node) list"

definition below :: "string \<Rightarrow> string \<Rightarrow> bool" where
  "below dir p = (p = dir \<or> has_prefix (dir @ ''/'') p)"

definition mem_os :: "mem_fs os_ops" where
  "mem_os = \<lparr>
     os_mkdirAll = (\<lambda>p f. case map_of f p of Some (NFile _) \<Rightarrow> (f, Some EAlreadyExists) | _ \<Rightarrow> (put p NDir f, None)),
     os_lstat = (\<lambda>p f. case map_of f p of None \<Rightarrow> Inl ENotFound | Some (NLink _) \<Rightarrow> Inr True | Some _ \<Rightarrow> Inr False),
     os_readlink = (\<lambda>p f. case map_of f p of Some (NLink t) \<Rightarrow> Inr t | _ \<Rightarrow> Inl ENotFound),
     os_readFile = (\<lambda>p f. case map_of f p of Some (NFile d) \<Rightarrow> Inr d | _ \<Rightarrow> Inl ENotFound),
     os_writeFile = (\<lambda>p d f. (put p (NFile d) f, None)),
     os_append = (\<lambda>p d f. case map_of f p of Some (NFile d0) \<Rightarrow> (put p (NFile (d0 @ d)) f, None) | _ \<Rightarrow> (put p (NFile d) f, None)),
     os_remove = (\<lambda>p f. (filter (\<lambda>x. fst x \<noteq> p) f, None)),
     os_removeAll = (\<lambda>p f. (filter (\<lambda>x. \<not> below p (fst x)) f, None)),
     os_symlink = (\<lambda>t p f. if map_of f p \<noteq> None then (f, Some EAlreadyExists) else (put p (NLink t) f, None)),
     os_openRoot = (\<lambda>p f. if map_of f p = Some NDir then None else Some ENotFound),
     os_rootMkdirAll = (\<lambda>root p f. (put (Join [root, p]) NDir f, None)),
     os_rootWriteFile = (\<lambda>root p d f. (put (Join [root, p]) (NFile d) f, None)),
     os_walk = (\<lambda>p f. (''.'', WDir) # concat (map (\<lambda>(q, n). case n of
        NFile _ \<Rightarrow> if has_prefix (p @ ''/'') q then [(drop (Suc (length p)) q, WFile (Inr True))] else [] | _ \<Rightarrow> []) f))\<rparr>"

definition sample_world :: "mem_fs world" where
  "sample_world = \<lparr>wd_os = mem_os, wd_sha = (\<lambda>_. ''h''), wd_ctx = (\<lambda>_. None), wd_now = 7, wd_nowNano = 7,
     wd_stateMkdir = None, wd_ownerRead = None, wd_ownerWrite = None, wd_ownerRemove = None, wd_transcriptMkdir = None,
     wd_transcriptOpen = None, wd_transcriptStat = None, wd_transcriptWrite = full_write, wd_transcriptSync = None,
     wd_transcriptClose = None, wd_inputClose = None, wd_record = (\<lambda>_. None), wd_message = (\<lambda>_. ''failed''),
     wd_native = (\<lambda>_ _. Inr (42, False))\<rparr>"

definition sample_config :: sup_config where
  "sample_config = \<lparr>sc_homeDir = ''/h'', sc_workspaceDir = ''/w'', sc_runtimeRoot = ''/r'', sc_maxLog = 100, sc_environ = []\<rparr>"

definition sample_request :: "string \<Rightarrow> (string \<times> string) list \<Rightarrow> start_request" where
  "sample_request pid files = \<lparr>rq_id = pid, rq_uid = ''u'', rq_command = [''sh''], rq_workingDirectory = [], rq_defaultDirectory = [],
     rq_tty = False, rq_stdin = False, rq_environment = [], rq_agent = None, rq_exposeCredentials = True,
     rq_credentialFiles = files, rq_credentialMounts = [], rq_sshConfigFragments = []\<rparr>"

definition sample_supervisor :: "mem_fs \<Rightarrow> mem_fs supervisor" where
  "sample_supervisor f = \<lparr>su_creds = \<lparr>as_fs = f, as_aliases = Map.empty\<rparr>, su_dirs = [], su_processes = [], su_lastActivity = 0\<rparr>"

lemma sample_launch:
  "map fst (launches sample_config [EvStart sample_world (sample_request ''p'' [(''credentials/a/x'', ''s'')]) True]
     (sample_supervisor [])) = [''p'']"
  by code_simp


text \<open>A start that fails while it projects its second credential directory leaks the first: the supervisor
  has no live process, but the credential of the failed process stays projected under its link,
  owned by the failed process, and nothing ever releases it.\<close>

theorem failed_start_leaks_credential:
  "let s = fst (fst (start sample_config sample_world
       (sample_request ''p'' [(''credentials/a/x'', ''s''), (''credentials/b/x'', ''t'')]) True
       (sample_supervisor [(''/r/credentials/b'', NFile [])])))
   in aliases_of s ''/r/credentials/a'' = Some \<lparr>al_target = ''/r/credential-sets/a'', al_owners = {''p''}\<rparr> \<and>
      map_of (as_fs (su_creds s)) ''/r/credential-sets/a/x'' = Some (NFile ''s'') \<and>
      \<not> live_in s ''p'' \<and> links_of s ''p'' = {}"
  by code_simp

end
