(* ===== verification/Controller.thy ===== *)
theory Controller
  imports RepositoryAccess VolumeClaim
begin

text \<open>
  What the controllers share: a monad of API calls, and the helpers of client-go, apimachinery and
  controller-runtime that they use.
  A computation works on the API server's state and on a trace of its own calls. Every call first
  lets the other clients act and then records what it asked and what it was answered; the trace is a ghost
  and no definition reads its contents. Theorems about the order of calls are theorems about the trace.
\<close>

section \<open>Computations\<close>

type_synonym ('api, 'ev, 'a) ctl = "'api \<times> 'ev list \<Rightarrow> ('api \<times> 'ev list) \<times> 'a result"

definition ret :: "'a \<Rightarrow> ('api, 'ev, 'a) ctl" where
  "ret x w = (w, Inr x)"

definition raise :: "err \<Rightarrow> ('api, 'ev, 'a) ctl" where
  "raise e w = (w, Inl e)"

definition andThen :: "('api, 'ev, 'a) ctl \<Rightarrow> ('a \<Rightarrow> ('api, 'ev, 'b) ctl) \<Rightarrow> ('api, 'ev, 'b) ctl" where
  "andThen m f w = (case m w of (w', Inl e) \<Rightarrow> (w', Inl e) | (w', Inr x) \<Rightarrow> f x w')"

text \<open>The error as a value, for code that looks at it; \<^verbatim>\<open>fmt.Errorf("...: %w", err)\<close>.\<close>

definition attempt :: "('api, 'ev, 'a) ctl \<Rightarrow> ('api, 'ev, 'a result) ctl" where
  "attempt m w = (case m w of (w', r) \<Rightarrow> (w', Inr r))"

definition wrapped :: "string \<Rightarrow> ('api, 'ev, 'a) ctl \<Rightarrow> ('api, 'ev, 'a) ctl" where
  "wrapped msg m w = (case m w of (w', Inl e) \<Rightarrow> (w', Inl (EWrap msg e)) | (w', Inr x) \<Rightarrow> (w', Inr x))"

definition of_result :: "'a result \<Rightarrow> ('api, 'ev, 'a) ctl" where
  "of_result r w = (w, r)"

text \<open>
  One call: \<open>f\<close> runs with the actions of the other clients during this call, \<open>env (length log)\<close>, and its
  answer is recorded.
\<close>

type_synonym 'api others = "nat \<Rightarrow> nat \<Rightarrow> 'api \<Rightarrow> 'api"

definition call ::
  "'api others \<Rightarrow> ('a result \<Rightarrow> 'ev) \<Rightarrow> ((nat \<Rightarrow> 'api \<Rightarrow> 'api) \<Rightarrow> 'api \<Rightarrow> 'api \<times> 'a result) \<Rightarrow>
   ('api, 'ev, 'a) ctl" where
  "call env ev f w =
     (case f (env (length (snd w))) (fst w) of (api', r) \<Rightarrow> ((api', snd w @ [ev r]), r))"

definition reads :: "('api \<Rightarrow> 'a result) \<Rightarrow> (nat \<Rightarrow> 'api \<Rightarrow> 'api) \<Rightarrow> 'api \<Rightarrow> 'api \<times> 'a result" where
  "reads get e api = (let api' = e 0 api in (api', get api'))"

definition unit_result :: "err option \<Rightarrow> unit result" where
  "unit_result e = (case e of None \<Rightarrow> Inr () | Some x \<Rightarrow> Inl x)"

definition writes :: "('api \<Rightarrow> 'api \<times> err option) \<Rightarrow> (nat \<Rightarrow> 'api \<Rightarrow> 'api) \<Rightarrow> 'api \<Rightarrow> 'api \<times> unit result" where
  "writes put e api = (case put (e 0 api) of (api', r) \<Rightarrow> (api', unit_result r))"

text \<open>The wall clock at this moment of the run.\<close>

definition clock :: "(nat \<Rightarrow> 'a) \<Rightarrow> ('api, 'ev, 'a) ctl" where
  "clock clk w = (w, Inr (clk (length (snd w))))"

section \<open>Library helpers\<close>

text \<open>\<^verbatim>\<open>client.IgnoreNotFound\<close> on an operation without a result.\<close>

definition IgnoreNotFound :: "('api, 'ev, unit) ctl \<Rightarrow> ('api, 'ev, unit) ctl" where
  "IgnoreNotFound m w =
     (case m w of (w', Inl e) \<Rightarrow> (w', if err_is ENotFound e then Inr () else Inl e) | (w', Inr x) \<Rightarrow> (w', Inr x))"

text \<open>A read whose NotFound answer is a case of its own.\<close>

definition getOr :: "('api, 'ev, 'a) ctl \<Rightarrow> ('api, 'ev, 'b) ctl \<Rightarrow> ('a \<Rightarrow> ('api, 'ev, 'b) ctl) \<Rightarrow> ('api, 'ev, 'b) ctl" where
  "getOr m absent f =
     andThen (attempt m) (\<lambda>r. case r of
       Inl e \<Rightarrow> if err_is ENotFound e then absent else raise e
     | Inr x \<Rightarrow> f x)"

text \<open>\<^verbatim>\<open>retry.RetryOnConflict\<close> with \<open>steps\<close> attempts; \<^verbatim>\<open>retry.DefaultBackoff\<close> has four.\<close>

fun RetryOnConflict :: "nat \<Rightarrow> ('api, 'ev, unit) ctl \<Rightarrow> ('api, 'ev, unit) ctl" where
  "RetryOnConflict 0 m w = (w, Inr ())"
| "RetryOnConflict (Suc steps) m w =
     (case m w of
        (w', Inr x) \<Rightarrow> (w', Inr x)
      | (w', Inl e) \<Rightarrow> if err_is EConflict e \<and> steps > 0 then RetryOnConflict steps m w' else (w', Inl e))"

definition DefaultBackoff :: nat where
  "DefaultBackoff = 4"

text \<open>\<^verbatim>\<open>for\<close> loops over a slice: \<open>each\<close> runs the body on every element and ends with the first error.\<close>

fun each :: "('a \<Rightarrow> ('api, 'ev, unit) ctl) \<Rightarrow> 'a list \<Rightarrow> ('api, 'ev, unit) ctl" where
  "each f [] = ret ()"
| "each f (x # xs) = andThen (f x) (\<lambda>_. each f xs)"

text \<open>
  \<^verbatim>\<open>meta.SetStatusCondition\<close> and \<^verbatim>\<open>meta.RemoveStatusCondition\<close>: the transition time changes with the status
  only. Conditions are kept by type; the other types are untouched, so that two lists of conditions
  differ exactly when they differ at the type that was set.
\<close>

definition new_condition :: "cond_status \<Rightarrow> int \<Rightarrow> string \<Rightarrow> string \<Rightarrow> condition" where
  "new_condition status generation reason message =
     \<lparr>c_status = status, c_observed = generation, c_reason = reason, c_message = message, c_transition = None\<rparr>"

definition SetStatusCondition :: "time \<Rightarrow> string \<Rightarrow> condition \<Rightarrow> conditions \<Rightarrow> conditions" where
  "SetStatusCondition now typ c conds =
     conds(typ \<mapsto> c\<lparr>c_transition :=
       (case conds typ of
          None \<Rightarrow> Some now
        | Some old \<Rightarrow> if c_status old = c_status c then c_transition old else Some now)\<rparr>)"

definition RemoveStatusCondition :: "string \<Rightarrow> conditions \<Rightarrow> conditions" where
  "RemoveStatusCondition typ conds = conds(typ := None)"

text \<open>\<^verbatim>\<open>ctrl.Result\<close>: the delay after which the object is reconciled again; \<open>None\<close> is the zero result.\<close>

type_synonym ctrl_result = "duration option"

section \<open>Pods and Jobs\<close>

text \<open>
  The fields of a Pod that the controllers read. \<open>cs_exit\<close> is the exit code of the terminated state,
  \<open>cs_waiting\<close> whether the container waits, \<open>cs_lastExit\<close> the exit code of the last termination state,
  \<open>cs_message\<close> the termination message.
\<close>

record container_status =
  cs_name :: string
  cs_exit :: "int option"
  cs_waiting :: bool
  cs_lastExit :: "int option"
  cs_message :: string

record pod = kobj +
  pd_phase :: pod_phase
  pd_claims :: "string list"
  pd_os :: "string option"
  pd_conditions :: "(string \<times> cond_status) list"
  pd_initStatuses :: "container_status list"
  pd_statuses :: "container_status list"

record job_condition =
  jc_type :: string
  jc_status :: cond_status
  jc_message :: string
  jc_transition :: "time option"

text \<open>One key of a Secret, mounted read-only as one file.\<close>

record secret_mount =
  sm_volume :: string
  sm_secret :: string
  sm_key :: string
  sm_path :: string

record job = kobj +
  jb_backoffLimit :: int
  jb_ttl :: "int option"
  jb_podLabels :: "string \<rightharpoonup> string"
  jb_container :: string
  jb_image :: string
  jb_command :: "string list"
  jb_args :: "string list"
  jb_workingDir :: string
  jb_env :: "(string \<times> string) list"
  jb_volume :: string
  jb_mountPath :: string
  jb_claim :: string
  jb_secrets :: "secret_mount list"
  jb_conditions :: "job_condition list"
  jb_completed :: "time option"

definition blank_object :: "string \<Rightarrow> string \<Rightarrow> kobj" where
  "blank_object namespace name =
     \<lparr>o_namespace = namespace, o_name = name, o_uid = [], o_version = 0, o_generation = 0, o_annotations = Map.empty,
      o_labels = Map.empty, o_created = None, o_deleting = None, o_finalizers = [], o_controller = None\<rparr>"

definition podUsesPersistentVolumeClaim :: "pod \<Rightarrow> string \<Rightarrow> bool" where
  "podUsesPersistentVolumeClaim p claimName = list_ex (\<lambda>c. c = claimName) (pd_claims p)"

text \<open>The test that several loops over Pods share: not in a terminal phase, and using the volume.\<close>

definition running_consumer :: "string \<Rightarrow> pod \<Rightarrow> bool" where
  "running_consumer claimName p =
     (pd_phase p \<noteq> PodSucceeded \<and> pd_phase p \<noteq> PodFailed \<and> podUsesPersistentVolumeClaim p claimName)"

definition jobCondition :: "job \<Rightarrow> string \<Rightarrow> job_condition option" where
  "jobCondition j conditionType = find (\<lambda>c. jc_type c = conditionType) (jb_conditions j)"

definition pod_view_of :: "pod \<Rightarrow> pod_view" where
  "pod_view_of p = \<lparr>pv_phase = pd_phase p, pv_claims = pd_claims p\<rparr>"

definition claim_view_of :: "pvc \<Rightarrow> claim_view" where
  "claim_view_of c =
     \<lparr>cv_sourceKind = map_option ds_kind (pvc_dataSource c),
      cv_sourceName = (case pvc_dataSource c of None \<Rightarrow> [] | Some d \<Rightarrow> ds_name d),
      cv_bound = (pvc_phase c = ''Bound'')\<rparr>"

section \<open>Sweeping\<close>

text \<open>
  \<^verbatim>\<open>holdset.Sweep\<close> with a \<open>stale\<close> closure that makes calls of its own and keeps variables \<open>m\<close> between
  holders. The load and the compare-and-swap are calls too.
\<close>

fun stale_loop :: "('m \<Rightarrow> holder \<Rightarrow> ('api, 'ev, 'm \<times> bool) ctl) \<Rightarrow> 'm \<Rightarrow> holder list \<Rightarrow> ('api, 'ev, holder list) ctl" where
  "stale_loop stale m [] = ret []"
| "stale_loop stale m (h # hs) =
     andThen (stale m h) (\<lambda>(m', gone).
     andThen (stale_loop stale m' hs) (\<lambda>rest. ret (if gone then h # rest else rest)))"

definition remove_call ::
  "nat \<Rightarrow> ('api, 'o) store \<Rightarrow> holder list \<Rightarrow> (nat \<Rightarrow> 'api \<Rightarrow> 'api) \<Rightarrow> 'api \<Rightarrow> 'api \<times> holder list result" where
  "remove_call steps store candidates e api =
     (case Update steps e store (sweep_change candidates) [] api of
        ((api', _, removed), None) \<Rightarrow> (api', Inr removed)
      | ((api', _, _), Some x) \<Rightarrow> (api', Inl x))"

definition sweep_run ::
  "'api others \<Rightarrow> (hold_state result \<Rightarrow> 'ev) \<Rightarrow> (holder list \<Rightarrow> holder list result \<Rightarrow> 'ev) \<Rightarrow> ('api, 'o) store \<Rightarrow>
   ('m \<Rightarrow> holder \<Rightarrow> ('api, 'ev, 'm \<times> bool) ctl) \<Rightarrow> 'm \<Rightarrow> ('api, 'ev, holder list) ctl" where
  "sweep_run env loaded removedEv store stale m0 =
     andThen (call env loaded (reads (\<lambda>api. map_sum id snd (st_load store api)))) (\<lambda>current.
     if hs_holders current = [] then ret []
     else andThen (stale_loop stale m0 (hs_holders current)) (\<lambda>candidates.
     if candidates = [] then ret []
     else call env (removedEv candidates) (remove_call DefaultBackoff store candidates)))"

section \<open>Traces\<close>

text \<open>
  The calculus of traces. \<open>emits P m\<close>: whatever the server answers, the calls that \<open>m\<close> adds to the trace satisfy \<open>P\<close>.
  \<open>yields m w w' x\<close>: from \<open>w\<close> the computation ends without an error in \<open>w'\<close> with result \<open>x\<close>.
\<close>

definition emits :: "('ev \<Rightarrow> bool) \<Rightarrow> ('api, 'ev, 'a) ctl \<Rightarrow> bool" where
  "emits P m \<longleftrightarrow> (\<forall>w. \<exists>evs. snd (fst (m w)) = snd w @ evs \<and> list_all P evs)"

named_theorems emits_intros "rules that follow the structure of a computation"

lemma emitsD: "emits P m \<Longrightarrow> m w = (w', r) \<Longrightarrow> \<exists>evs. snd w' = snd w @ evs \<and> list_all P evs"
  unfolding emits_def by (metis fst_conv)

lemma emitsI: "(\<And>w w' r. m w = (w', r) \<Longrightarrow> \<exists>evs. snd w' = snd w @ evs \<and> list_all P evs) \<Longrightarrow> emits P m"
  unfolding emits_def by (metis prod.collapse)

lemma emits_ret [emits_intros]: "emits P (ret x)"
  by (simp add: emits_def ret_def)

lemma emits_raise [emits_intros]: "emits P (raise e)"
  by (simp add: emits_def raise_def)

lemma emits_of_result [emits_intros]: "emits P (of_result r)"
  by (simp add: emits_def of_result_def)

lemma emits_clock [emits_intros]: "emits P (clock clk)"
  by (simp add: emits_def clock_def)

lemma emits_andThen [emits_intros]:
  assumes "emits P m" and "\<And>x. emits P (f x)"
  shows "emits P (andThen m f)"
proof (rule emitsI)
  fix w w' r assume run: "andThen m f w = (w', r)"
  obtain w1 r1 where m: "m w = (w1, r1)" by (cases "m w")
  from emitsD [OF assms(1) m] obtain evs1 where 1: "snd w1 = snd w @ evs1" "list_all P evs1" by blast
  show "\<exists>evs. snd w' = snd w @ evs \<and> list_all P evs"
  proof (cases r1)
    case (Inl e)
    with run m 1 show ?thesis by (auto simp: andThen_def)
  next
    case (Inr x)
    with run m have "f x w1 = (w', r)" by (simp add: andThen_def)
    from emitsD [OF assms(2) this] obtain evs2 where "snd w' = snd w1 @ evs2" "list_all P evs2" by blast
    with 1 show ?thesis by (auto intro: exI [of _ "evs1 @ evs2"])
  qed
qed

lemma emits_attempt [emits_intros]: "emits P m \<Longrightarrow> emits P (attempt m)"
  by (rule emitsI) (auto simp: attempt_def split: prod.splits dest!: emitsD)

lemma emits_wrapped [emits_intros]: "emits P m \<Longrightarrow> emits P (wrapped msg m)"
  by (rule emitsI) (auto simp: wrapped_def split: prod.splits sum.splits dest!: emitsD)

lemma emits_IgnoreNotFound [emits_intros]: "emits P m \<Longrightarrow> emits P (IgnoreNotFound m)"
  by (rule emitsI) (auto simp: IgnoreNotFound_def split: prod.splits sum.splits dest!: emitsD)

lemma emits_call [emits_intros]: "(\<And>r. P (ev r)) \<Longrightarrow> emits P (call env ev f)"
  by (simp add: emits_def call_def split: prod.splits)

lemma emits_if [emits_intros]: "(b \<Longrightarrow> emits P m) \<Longrightarrow> (\<not> b \<Longrightarrow> emits P n) \<Longrightarrow> emits P (if b then m else n)"
  by simp

lemma emits_option [emits_intros]:
  "(x = None \<Longrightarrow> emits P m) \<Longrightarrow> (\<And>y. x = Some y \<Longrightarrow> emits P (f y)) \<Longrightarrow> emits P (case x of None \<Rightarrow> m | Some y \<Rightarrow> f y)"
  by (cases x) simp_all

lemma emits_sum [emits_intros]:
  "(\<And>e. x = Inl e \<Longrightarrow> emits P (f e)) \<Longrightarrow> (\<And>y. x = Inr y \<Longrightarrow> emits P (g y)) \<Longrightarrow>
   emits P (case x of Inl e \<Rightarrow> f e | Inr y \<Rightarrow> g y)"
  by (cases x) simp_all

lemma emits_prod [emits_intros]: "(\<And>a b. x = (a, b) \<Longrightarrow> emits P (f a b)) \<Longrightarrow> emits P (case x of (a, b) \<Rightarrow> f a b)"
  by (cases x) simp

lemma emits_getOr [emits_intros]:
  "emits P m \<Longrightarrow> emits P absent \<Longrightarrow> (\<And>x. emits P (f x)) \<Longrightarrow> emits P (getOr m absent f)"
  unfolding getOr_def by (intro emits_intros)

lemma emits_RetryOnConflict [emits_intros]:
  assumes "emits P m"
  shows "emits P (RetryOnConflict steps m)"
proof (induction steps)
  case 0
  then show ?case by (simp add: emits_def)
next
  case (Suc steps)
  show ?case
  proof (rule emitsI)
    fix w w' r assume run: "RetryOnConflict (Suc steps) m w = (w', r)"
    obtain w1 r1 where m: "m w = (w1, r1)" by (cases "m w")
    from emitsD [OF assms m] obtain evs1 where 1: "snd w1 = snd w @ evs1" "list_all P evs1" by blast
    have "(w' = w1) \<or> RetryOnConflict steps m w1 = (w', r)"
      using run m by (auto split: sum.splits if_splits)
    then show "\<exists>evs. snd w' = snd w @ evs \<and> list_all P evs"
    proof
      assume "RetryOnConflict steps m w1 = (w', r)"
      from emitsD [OF Suc.IH this] obtain evs2 where "snd w' = snd w1 @ evs2" "list_all P evs2" by blast
      with 1 show ?thesis by (auto intro: exI [of _ "evs1 @ evs2"])
    qed (use 1 in blast)
  qed
qed

lemma emits_each [emits_intros]: "(\<And>x. emits P (f x)) \<Longrightarrow> emits P (each f xs)"
  by (induction xs) (auto intro!: emits_intros)

lemma emits_stale_loop [emits_intros]: "(\<And>m h. emits P (stale m h)) \<Longrightarrow> emits P (stale_loop stale m hs)"
proof (induction hs arbitrary: m)
  case (Cons h hs)
  then show ?case by (auto intro!: emits_intros)
qed (auto intro!: emits_intros)

lemma emits_sweep_run [emits_intros]:
  assumes "\<And>r. P (loaded r)" "\<And>c r. P (removedEv c r)" "\<And>m h. emits P (stale m h)"
  shows "emits P (sweep_run env loaded removedEv store stale m0)"
  unfolding sweep_run_def by (intro emits_intros assms)

lemma emits_mono: "emits P m \<Longrightarrow> (\<And>e. P e \<Longrightarrow> Q e) \<Longrightarrow> emits Q m"
  unfolding emits_def by (metis list.pred_mono_strong)

lemma andThen_InrE:
  assumes "andThen m f w = (w', Inr y)"
  obtains w1 x where "m w = (w1, Inr x)" "f x w1 = (w', Inr y)"
  using assms by (auto simp: andThen_def split: prod.splits sum.splits)

lemma andThen_cases:
  assumes "andThen m f w = (w', r)"
  obtains (fails) e where "m w = (w', Inl e)" "r = Inl e"
    | (goes) w1 x where "m w = (w1, Inr x)" "f x w1 = (w', r)"
  using assms by (auto simp: andThen_def split: prod.splits sum.splits)

lemma call_trace: "call env ev f w = (w', r) \<Longrightarrow> snd w' = snd w @ [ev r]"
  by (auto simp: call_def split: prod.splits)

text \<open>A status condition that is set keeps its transition time unless its status changes.\<close>

lemma SetStatusCondition_same_status:
  assumes "conds typ = Some old" "c_status old = c_status c"
  shows "\<exists>new. SetStatusCondition now typ c conds typ = Some new \<and> c_transition new = c_transition old"
  using assms by (auto simp: SetStatusCondition_def)

lemma SetStatusCondition_other [simp]: "t \<noteq> typ \<Longrightarrow> SetStatusCondition now typ c conds t = conds t"
  by (simp add: SetStatusCondition_def)

section \<open>Assertions about traces\<close>

text \<open>
  \<open>runs P m Q\<close>: from a trace that satisfies \<open>P\<close>, the run of \<open>m\<close> ends with a result and a trace that satisfy \<open>Q\<close>.
  \<open>before E Q tr\<close>: at every event of class \<open>E\<close>, the trace up to it satisfies \<open>Q\<close>. \<open>lasting Q\<close>: what happened stays true.
\<close>

definition runs :: "('ev list \<Rightarrow> bool) \<Rightarrow> ('api, 'ev, 'a) ctl \<Rightarrow> ('a result \<Rightarrow> 'ev list \<Rightarrow> bool) \<Rightarrow> bool" where
  "runs P m Q \<longleftrightarrow> (\<forall>w. P (snd w) \<longrightarrow> Q (snd (m w)) (snd (fst (m w))))"

definition before :: "('ev \<Rightarrow> bool) \<Rightarrow> ('ev list \<Rightarrow> bool) \<Rightarrow> 'ev list \<Rightarrow> bool" where
  "before E Q tr \<longleftrightarrow> (\<forall>i < length tr. E (tr ! i) \<longrightarrow> Q (take i tr))"

definition lasting :: "('ev list \<Rightarrow> bool) \<Rightarrow> bool" where
  "lasting Q \<longleftrightarrow> (\<forall>t u. Q t \<longrightarrow> Q (t @ u))"

lemma runsD: "runs P m Q \<Longrightarrow> P (snd w) \<Longrightarrow> m w = (w', r) \<Longrightarrow> Q r (snd w')"
  unfolding runs_def by (metis fst_conv snd_conv)

lemma runsI: "(\<And>w w' r. P (snd w) \<Longrightarrow> m w = (w', r) \<Longrightarrow> Q r (snd w')) \<Longrightarrow> runs P m Q"
  unfolding runs_def by (metis prod.collapse)

lemma lastingD: "lasting Q \<Longrightarrow> Q t \<Longrightarrow> Q (t @ u)"
  by (simp add: lasting_def)

lemma lasting_conj: "lasting P \<Longrightarrow> lasting Q \<Longrightarrow> lasting (\<lambda>t. P t \<and> Q t)"
  by (simp add: lasting_def)

lemma lasting_const: "lasting (\<lambda>t. B)"
  by (simp add: lasting_def)

lemma lasting_mem: "lasting (\<lambda>t. e \<in> set t)"
  by (simp add: lasting_def)

lemma lasting_ex_mem: "lasting (\<lambda>t. \<exists>e \<in> set t. B e)"
  by (auto simp: lasting_def)

lemma runs_post: "runs P m Q \<Longrightarrow> (\<And>r t. Q r t \<Longrightarrow> R r t) \<Longrightarrow> runs P m R"
  by (simp add: runs_def)

lemma runs_pre: "runs P m Q \<Longrightarrow> (\<And>t. P' t \<Longrightarrow> P t) \<Longrightarrow> runs P' m Q"
  by (simp add: runs_def)

lemma runs_andThen:
  assumes "runs P m (\<lambda>r t. case r of Inl e \<Rightarrow> R (Inl e) t | Inr x \<Rightarrow> S x t)" and "\<And>x. runs (S x) (f x) R"
  shows "runs P (andThen m f) R"
proof (rule runsI)
  fix w w' r assume P: "P (snd w)" and run: "andThen m f w = (w', r)"
  from run show "R r (snd w')"
  proof (cases rule: andThen_cases)
    case (fails e)
    with runsD [OF assms(1) P fails(1)] show ?thesis by simp
  next
    case (goes w1 x)
    from runsD [OF assms(1) P goes(1)] have "S x (snd w1)" by simp
    from runsD [OF assms(2) this goes(2)] show ?thesis .
  qed
qed

lemma runs_ret: "(\<And>t. P t \<Longrightarrow> Q (Inr x) t) \<Longrightarrow> runs P (ret x) Q"
  by (simp add: runs_def ret_def)

lemma runs_raise: "(\<And>t. P t \<Longrightarrow> Q (Inl e) t) \<Longrightarrow> runs P (raise e) Q"
  by (simp add: runs_def raise_def)

lemma runs_clock: "(\<And>t x. P t \<Longrightarrow> Q (Inr x) t) \<Longrightarrow> runs P (clock c) Q"
  by (simp add: runs_def clock_def)

lemma runs_clock_at: "(\<And>t. P t \<Longrightarrow> Q (Inr (clk (length t))) t) \<Longrightarrow> runs P (clock clk) Q"
  by (simp add: runs_def clock_def)

lemma runs_of_result: "(\<And>t. P t \<Longrightarrow> Q r t) \<Longrightarrow> runs P (of_result r) Q"
  by (simp add: runs_def of_result_def)

lemma runs_call: "(\<And>t r. P t \<Longrightarrow> Q r (t @ [ev r])) \<Longrightarrow> runs P (call env ev f) Q"
  by (rule runsI) (metis call_trace)

lemma runs_attempt: "runs P m (\<lambda>r. Q (Inr r)) \<Longrightarrow> runs P (attempt m) Q"
  by (rule runsI) (auto simp: attempt_def split: prod.splits dest: runsD)

lemma runs_wrapped:
  "runs P m (\<lambda>r. case r of Inl e \<Rightarrow> Q (Inl (EWrap msg e)) | Inr x \<Rightarrow> Q (Inr x)) \<Longrightarrow> runs P (wrapped msg m) Q"
proof (rule runsI)
  fix w w' r
  assume spec: "runs P m (\<lambda>r. case r of Inl e \<Rightarrow> Q (Inl (EWrap msg e)) | Inr x \<Rightarrow> Q (Inr x))"
    and P: "P (snd w)" and run: "wrapped msg m w = (w', r)"
  obtain w1 r1 where m: "m w = (w1, r1)" by (cases "m w")
  from runsD [OF spec P m] run m show "Q r (snd w')"
    by (cases r1) (auto simp: wrapped_def)
qed

lemma runs_IgnoreNotFound:
  "runs P m (\<lambda>r. case r of Inl e \<Rightarrow> Q (if err_is ENotFound e then Inr () else Inl e) | Inr x \<Rightarrow> Q (Inr x)) \<Longrightarrow>
   runs P (IgnoreNotFound m) Q"
proof (rule runsI)
  fix w w' r
  assume spec: "runs P m (\<lambda>r. case r of Inl e \<Rightarrow> Q (if err_is ENotFound e then Inr () else Inl e) | Inr x \<Rightarrow> Q (Inr x))"
    and P: "P (snd w)" and run: "IgnoreNotFound m w = (w', r)"
  obtain w1 r1 where m: "m w = (w1, r1)" by (cases "m w")
  from runsD [OF spec P m] run m show "Q r (snd w')"
    by (cases r1) (auto simp: IgnoreNotFound_def)
qed

text \<open>Everything a computation does keeps \<open>before E Q\<close> when it makes no call of class \<open>E\<close>, and all that lasts.\<close>

lemma before_append:
  assumes "before E Q t" and evs: "list_all (\<lambda>e. \<not> E e) evs"
  shows "before E Q (t @ evs)"
  unfolding before_def
proof (intro allI impI)
  fix i assume i: "i < length (t @ evs)" and e: "E ((t @ evs) ! i)"
  have "i < length t"
  proof (rule ccontr)
    assume "\<not> i < length t"
    with i e have "E (evs ! (i - length t))" "i - length t < length evs" by (auto simp: nth_append)
    with evs show False by (simp add: list_all_length)
  qed
  with assms(1) e show "Q (take i (t @ evs))" by (simp add: before_def nth_append)
qed

lemma before_snoc: "before E Q t \<Longrightarrow> Q t \<Longrightarrow> before E Q (t @ [e])"
  by (auto simp: before_def nth_append less_Suc_eq)

lemma before_split:
  assumes "before E Q tr" "tr = pre @ e # post" "E e"
  shows "Q pre"
  using assms unfolding before_def by (metis append_eq_conv_conj length_append less_add_same_cancel1 length_greater_0_conv
    list.distinct(1) nth_append_length)

lemma runs_emits:
  assumes "emits P m" "lasting F" "\<And>e. P e \<Longrightarrow> \<not> E e"
  shows "runs (\<lambda>t. before E Q t \<and> F t) m (\<lambda>_ t. before E Q t \<and> F t)"
proof (rule runsI)
  fix w w' r assume *: "before E Q (snd w) \<and> F (snd w)" "m w = (w', r)"
  from emitsD [OF assms(1) *(2)] obtain evs where evs: "snd w' = snd w @ evs" "list_all P evs" by blast
  from evs(2) have "list_all (\<lambda>e. \<not> E e) evs" using assms(3) by (metis list.pred_mono_strong)
  with * evs(1) show "before E Q (snd w') \<and> F (snd w')"
    using assms(2) by (simp add: before_append lastingD)
qed

lemma runs_conj: "runs P m Q \<Longrightarrow> runs P' m Q' \<Longrightarrow> runs (\<lambda>t. P t \<and> P' t) m (\<lambda>r t. Q r t \<and> Q' r t)"
  by (simp add: runs_def)

lemma runs_fact: "(B \<Longrightarrow> runs P m Q) \<Longrightarrow> runs (\<lambda>t. P t \<and> B) m Q"
  by (auto simp: runs_def)

lemma runs_true: "runs P m (\<lambda>_ _. True)"
  by (simp add: runs_def)

lemma runs_lasting:
  assumes "emits P m" "lasting F"
  shows "runs F m (\<lambda>_. F)"
proof (rule runsI)
  fix w w' r assume "F (snd w)" "m w = (w', r)"
  with emitsD [OF assms(1)] show "F (snd w')" using assms(2) by (metis lastingD)
qed

lemma emits_any: "emits P m \<Longrightarrow> emits (\<lambda>_. True) m"
  by (erule emits_mono) simp

lemma runs_quiet:
  assumes "emits P m" "\<And>e. P e \<Longrightarrow> \<not> E e"
  shows "runs (before E Q) m (\<lambda>_. before E Q)"
  using runs_emits [OF assms(1) lasting_const [of True] assms(2)] by simp

lemma emits_from_start: "emits P m \<Longrightarrow> list_all P (snd (fst (m (api, []))))"
  unfolding emits_def by (metis append_Nil snd_conv)

text \<open>\<open>keeps I m\<close>: the computation preserves an assertion about the trace, whether it fails or not.\<close>

definition keeps :: "('ev list \<Rightarrow> bool) \<Rightarrow> ('api, 'ev, 'a) ctl \<Rightarrow> bool" where
  "keeps I m \<longleftrightarrow> runs I m (\<lambda>_. I)"

named_theorems keeps_intros "rules that follow the structure of a computation"

lemma keeps_runs: "keeps I m \<Longrightarrow> runs I m (\<lambda>r t. case r of Inl e \<Rightarrow> I t | Inr x \<Rightarrow> I t)"
  unfolding keeps_def by (erule runs_post) (auto split: sum.splits)

lemma keeps_andThen [keeps_intros]: "keeps I m \<Longrightarrow> (\<And>x. keeps I (f x)) \<Longrightarrow> keeps I (andThen m f)"
  unfolding keeps_def by (rule runs_andThen [where S = "\<lambda>_. I"]) (erule runs_post, auto split: sum.splits)

lemma keeps_simple [keeps_intros]: "keeps I (ret x)" "keeps I (raise e)" "keeps I (clock c)" "keeps I (of_result r)"
  by (simp_all add: keeps_def runs_def ret_def raise_def clock_def of_result_def)

lemma keeps_wrapped [keeps_intros]: "keeps I m \<Longrightarrow> keeps I (wrapped msg m)"
  unfolding keeps_def by (rule runs_wrapped) (erule runs_post, auto split: sum.splits)

lemma keeps_attempt [keeps_intros]: "keeps I m \<Longrightarrow> keeps I (attempt m)"
  unfolding keeps_def by (rule runs_attempt)

lemma keeps_branches [keeps_intros]:
  "(b \<Longrightarrow> keeps I m) \<Longrightarrow> (\<not> b \<Longrightarrow> keeps I n) \<Longrightarrow> keeps I (if b then m else n)"
  "(x = None \<Longrightarrow> keeps I m) \<Longrightarrow> (\<And>y. x = Some y \<Longrightarrow> keeps I (f y)) \<Longrightarrow> keeps I (case x of None \<Rightarrow> m | Some y \<Rightarrow> f y)"
  "(\<And>e. s = Inl e \<Longrightarrow> keeps I (g e)) \<Longrightarrow> (\<And>y. s = Inr y \<Longrightarrow> keeps I (h y)) \<Longrightarrow> keeps I (case s of Inl e \<Rightarrow> g e | Inr y \<Rightarrow> h y)"
  "(\<And>a c. p = (a, c) \<Longrightarrow> keeps I (u a c)) \<Longrightarrow> keeps I (case p of (a, c) \<Rightarrow> u a c)"
  by (auto split: option.splits sum.splits prod.splits)

lemma keeps_quiet: "emits P m \<Longrightarrow> (\<And>e. P e \<Longrightarrow> \<not> E e) \<Longrightarrow> keeps (before E Q) m"
  unfolding keeps_def by (rule runs_quiet)

lemma keeps_from_start: "keeps (before E Q) m \<Longrightarrow> before E Q (snd (fst (m (api, []))))"
  unfolding keeps_def runs_def by (metis before_def less_zeroE list.size(3) snd_conv)

lemma runs_getOr:
  assumes "runs P m (\<lambda>r t. case r of Inl e \<Rightarrow> if err_is ENotFound e then A t else R (Inl e) t | Inr x \<Rightarrow> S x t)"
    and "runs A absent R" and "\<And>x. runs (S x) (f x) R"
  shows "runs P (getOr m absent f) R"
proof (rule runsI)
  fix w w' r assume P: "P (snd w)" and run: "getOr m absent f w = (w', r)"
  obtain w1 r1 where m: "m w = (w1, r1)" by (cases "m w")
  note post = runsD [OF assms(1) P m]
  show "R r (snd w')"
  proof (cases r1)
    case (Inl e)
    with post run m show ?thesis
      by (cases "err_is ENotFound e") (auto simp: getOr_def andThen_def attempt_def raise_def dest: runsD [OF assms(2)])
  next
    case (Inr x)
    with post run m show ?thesis
      by (auto simp: getOr_def andThen_def attempt_def dest: runsD [OF assms(3)])
  qed
qed

lemma runs_allowed:
  assumes "emits P m" "lasting Q"
  shows "runs (\<lambda>t. before E Q t \<and> Q t) m (\<lambda>_ t. before E Q t)"
proof -
  have grow: "before E Q t \<Longrightarrow> Q t \<Longrightarrow> before E Q (t @ evs)" for t evs
  proof (induction evs rule: rev_induct)
    case (snoc e evs)
    then have "before E Q (t @ evs)" by simp
    then have "before E Q ((t @ evs) @ [e])" by (rule before_snoc) (rule lastingD [OF assms(2) snoc.prems(2)])
    then show ?case by simp
  qed simp
  show ?thesis
  proof (rule runsI)
    fix w w' r assume "before E Q (snd w) \<and> Q (snd w)" "m w = (w', r)"
    with emitsD [OF assms(1)] grow show "before E Q (snd w')" by metis
  qed
qed

lemma keeps_getOr [keeps_intros]:
  "keeps I m \<Longrightarrow> keeps I absent \<Longrightarrow> (\<And>x. keeps I (f x)) \<Longrightarrow> keeps I (getOr m absent f)"
  unfolding getOr_def by (intro keeps_intros)

lemma lasting_pre: "lasting (\<lambda>t. \<exists>pre rest. t = pre @ e # rest \<and> Q pre)"
  unfolding lasting_def by (metis append_Cons append_assoc)

lemma runs_RetryOnConflict:
  assumes "runs I m (\<lambda>r t. case r of Inl e \<Rightarrow> I t | Inr x \<Rightarrow> R t)" "steps > 0"
  shows "runs I (RetryOnConflict steps m) (\<lambda>r t. case r of Inl e \<Rightarrow> I t | Inr x \<Rightarrow> R t)"
  using assms(2)
proof (induction steps)
  case (Suc steps)
  show ?case
  proof (rule runsI)
    fix w w' r assume I: "I (snd w)" and run: "RetryOnConflict (Suc steps) m w = (w', r)"
    obtain w1 r1 where m: "m w = (w1, r1)" by (cases "m w")
    note post = runsD [OF assms(1) I m]
    show "case r of Inl e \<Rightarrow> I (snd w') | Inr x \<Rightarrow> R (snd w')"
    proof (cases r1)
      case (Inl e)
      show ?thesis
      proof (cases "err_is EConflict e \<and> steps > 0")
        case True
        with run m Inl have "RetryOnConflict steps m w1 = (w', r)" by simp
        with Suc.IH True post Inl show ?thesis by (auto dest!: runsD)
      next
        case False
        with run m Inl post show ?thesis by auto
      qed
    next
      case (Inr x)
      with run m post show ?thesis by auto
    qed
  qed
qed simp

text \<open>\<open>since t0 Q\<close>: what happened after \<open>t0\<close> satisfies \<open>Q\<close>.\<close>

definition since :: "'ev list \<Rightarrow> ('ev list \<Rightarrow> bool) \<Rightarrow> 'ev list \<Rightarrow> bool" where
  "since t0 Q t \<longleftrightarrow> (\<exists>evs. t = t0 @ evs \<and> Q evs)"

lemma sinceI: "Q evs \<Longrightarrow> since t0 Q (t0 @ evs)"
  by (auto simp: since_def)

lemma since_append [simp]: "since t0 Q (t0 @ evs) \<longleftrightarrow> Q evs"
  by (simp add: since_def)

lemma since_conj: "since t0 A t \<Longrightarrow> since t0 B t \<Longrightarrow> since t0 (\<lambda>evs. A evs \<and> B evs) t"
  by (auto simp: since_def)

lemma since_snoc: "since t0 (\<lambda>_. True) t \<Longrightarrow> Q [e] \<Longrightarrow> (\<And>evs. Q [e] \<Longrightarrow> Q (evs @ [e])) \<Longrightarrow> since t0 Q (t @ [e])"
  by (auto simp: since_def)

lemma runs_since: "emits P m \<Longrightarrow> runs (\<lambda>t. t = t0) m (\<lambda>_. since t0 (list_all P))"
  by (rule runsI) (auto dest!: emitsD simp: since_def)

lemma runs_branch: "(b \<Longrightarrow> runs P m Q) \<Longrightarrow> (\<not> b \<Longrightarrow> runs P n Q) \<Longrightarrow> runs P (if b then m else n) Q"
  by simp

text \<open>The events of a computation are allowed as long as they keep the evidence.\<close>

lemma runs_guarded:
  assumes "emits P m" and "\<And>t e. Q t \<Longrightarrow> P e \<Longrightarrow> Q (t @ [e])"
  shows "runs (\<lambda>t. before E Q t \<and> Q t) m (\<lambda>_ t. before E Q t \<and> Q t)"
proof -
  have grow: "before E Q (t @ evs) \<and> Q (t @ evs)" if "before E Q t" "Q t" "list_all P evs" for t evs
    using that
  proof (induction evs rule: rev_induct)
    case (snoc e evs)
    then have IH: "before E Q (t @ evs)" "Q (t @ evs)" by simp_all
    have "P e" using snoc.prems(3) by simp
    with IH before_snoc [OF IH] assms(2) [OF IH(2)] show ?case by simp
  qed simp
  show ?thesis
  proof (rule runsI)
    fix w w' r assume *: "before E Q (snd w) \<and> Q (snd w)" "m w = (w', r)"
    from emitsD [OF assms(1) *(2)] obtain evs where "snd w' = snd w @ evs" "list_all P evs" by blast
    with grow * show "before E Q (snd w') \<and> Q (snd w')" by simp
  qed
qed

lemma runs_by_events:
  assumes "emits P m" "lasting F" and "\<And>t e. F t \<Longrightarrow> P e \<Longrightarrow> E e \<Longrightarrow> Q t"
  shows "runs (\<lambda>t. before E Q t \<and> F t) m (\<lambda>_ t. before E Q t \<and> F t)"
proof -
  have grow: "before E Q (t @ evs)" if "before E Q t" "F t" "list_all P evs" for t evs
    using that
  proof (induction evs rule: rev_induct)
    case (snoc e evs)
    then have IH: "before E Q (t @ evs)" "F (t @ evs)" "P e" using assms(2) by (simp_all add: lastingD)
    show ?case
    proof (cases "E e")
      case True
      with IH assms(3) before_snoc [of E Q "t @ evs" e] show ?thesis by simp
    next
      case False
      with IH(1) before_append [of E Q "t @ evs" "[e]"] show ?thesis by simp
    qed
  qed simp
  show ?thesis
  proof (rule runsI)
    fix w w' r assume *: "before E Q (snd w) \<and> F (snd w)" "m w = (w', r)"
    from emitsD [OF assms(1) *(2)] obtain evs where "snd w' = snd w @ evs" "list_all P evs" by blast
    with grow * assms(2) show "before E Q (snd w') \<and> F (snd w')" by (simp add: lastingD)
  qed
qed

lemma runs_from_start: "runs (\<lambda>t. t = []) m Q \<Longrightarrow> Q (snd (m (api, []))) (snd (fst (m (api, []))))"
  by (simp add: runs_def)

lemma runs_each_start: "(\<And>t0. P t0 \<Longrightarrow> runs (\<lambda>t. t = t0) m Q) \<Longrightarrow> runs P m Q"
  by (simp add: runs_def)

lemma before_none: "list_all (\<lambda>e. \<not> E e) t \<Longrightarrow> before E Q t"
  by (simp add: before_def list_all_length)

section \<open>Justified calls\<close>

text \<open>
  \<open>justified J tr\<close>: every call of the trace has its reasons, \<open>J e t\<close>, in the trace \<open>t\<close> before it. \<open>secures J F m G\<close>: where \<open>F\<close> holds,
  \<open>m\<close> makes only justified calls, and its result satisfies \<open>G\<close>.
\<close>

definition justified :: "('ev \<Rightarrow> 'ev list \<Rightarrow> bool) \<Rightarrow> 'ev list \<Rightarrow> bool" where
  "justified J tr \<longleftrightarrow> (\<forall>i < length tr. J (tr ! i) (take i tr))"

definition secures ::
  "('ev \<Rightarrow> 'ev list \<Rightarrow> bool) \<Rightarrow> ('ev list \<Rightarrow> bool) \<Rightarrow> ('api, 'ev, 'a) ctl \<Rightarrow> ('a \<Rightarrow> 'ev list \<Rightarrow> bool) \<Rightarrow> bool" where
  "secures J F m G \<longleftrightarrow>
     runs (\<lambda>t. justified J t \<and> F t) m (\<lambda>r t. justified J t \<and> (case r of Inl _ \<Rightarrow> True | Inr x \<Rightarrow> G x t))"

named_theorems lasting_intros "assertions that stay true"

lemma lasting_ex: "(\<And>x. lasting (Q x)) \<Longrightarrow> lasting (\<lambda>t. \<exists>x. Q x t)"
  unfolding lasting_def by blast

lemma lasting_disj: "lasting P \<Longrightarrow> lasting Q \<Longrightarrow> lasting (\<lambda>t. P t \<or> Q t)"
  by (auto simp: lasting_def)

lemmas [lasting_intros] = lasting_conj lasting_const lasting_mem lasting_ex_mem lasting_ex lasting_disj

lemma justified_Nil [simp]: "justified J []"
  by (simp add: justified_def)

lemma justified_snoc [simp]: "justified J (t @ [e]) \<longleftrightarrow> justified J t \<and> J e t"
  by (auto simp: justified_def nth_append less_Suc_eq)

lemma justified_split: "justified J (pre @ e # post) \<Longrightarrow> J e pre"
  unfolding justified_def by (drule spec [of _ "length pre"]) simp

lemma justified_append:
  assumes "justified J t" "F t" "lasting F" "list_all (\<lambda>e. \<forall>t. F t \<longrightarrow> J e t) evs"
  shows "justified J (t @ evs)"
  using assms(4)
proof (induction evs rule: rev_induct)
  case (snoc e evs)
  then have "justified J (t @ evs)" "J e (t @ evs)" using lastingD [OF assms(3,2)] by simp_all
  then show ?case by (simp flip: append_assoc)
qed (use assms(1) in simp)

lemma secures_quiet:
  assumes "emits (\<lambda>e. \<forall>t. F t \<longrightarrow> J e t) m" "lasting F"
  shows "secures J F m (\<lambda>_. F)"
  unfolding secures_def
proof (rule runsI)
  fix w w' r assume *: "justified J (snd w) \<and> F (snd w)" "m w = (w', r)"
  from emitsD [OF assms(1) *(2)] obtain evs where "snd w' = snd w @ evs" "list_all (\<lambda>e. \<forall>t. F t \<longrightarrow> J e t) evs" by blast
  with justified_append [OF _ _ assms(2)] * lastingD [OF assms(2)]
  show "justified J (snd w') \<and> (case r of Inl _ \<Rightarrow> True | Inr x \<Rightarrow> F (snd w'))" by (auto split: sum.splits)
qed

lemma secures_pre: "secures J F m G \<Longrightarrow> (\<And>t. F' t \<Longrightarrow> F t) \<Longrightarrow> secures J F' m G"
  unfolding secures_def by (erule runs_pre) simp

lemma secures_post: "secures J F m G \<Longrightarrow> (\<And>x t. G x t \<Longrightarrow> H x t) \<Longrightarrow> secures J F m H"
  unfolding secures_def by (erule runs_post) (auto split: sum.splits)

lemma secures_quiet_call:
  "emits (\<lambda>e. \<forall>t. F t \<longrightarrow> J e t) m \<Longrightarrow> lasting F \<Longrightarrow> (\<And>t. F t \<Longrightarrow> H t) \<Longrightarrow> secures J F m (\<lambda>_. H)"
  by (rule secures_post [OF secures_quiet])

lemma secures_andThen:
  assumes "secures J F m G" "\<And>x. secures J (G x) (f x) H"
  shows "secures J F (andThen m f) H"
  unfolding secures_def
proof (rule runs_andThen [where S = "\<lambda>x t. justified J t \<and> G x t"])
  show "runs (\<lambda>t. justified J t \<and> F t) m (\<lambda>r t. case r of
      Inl e \<Rightarrow> justified J t \<and> (case Inl e of Inl _ \<Rightarrow> True | Inr x \<Rightarrow> H x t) | Inr x \<Rightarrow> justified J t \<and> G x t)"
    by (rule runs_post [OF assms(1) [unfolded secures_def]]) (auto split: sum.splits)
qed (rule assms(2) [unfolded secures_def])

lemma secures_simple:
  "(\<And>t. F t \<Longrightarrow> G x t) \<Longrightarrow> secures J F (ret x) G"
  "secures J F (raise e) G"
  "(\<And>t x. F t \<Longrightarrow> G' x t) \<Longrightarrow> secures J F (clock c) G'"
  "(\<And>t y. F t \<Longrightarrow> r = Inr y \<Longrightarrow> G'' y t) \<Longrightarrow> secures J F (of_result r) G''"
  unfolding secures_def
  by (auto intro!: runs_ret runs_raise runs_clock runs_of_result split: sum.splits)

lemma secures_call:
  "(\<And>t r. F t \<Longrightarrow> J (ev r) t) \<Longrightarrow> (\<And>t x. F t \<Longrightarrow> G x (t @ [ev (Inr x)])) \<Longrightarrow> secures J F (call env ev f) G"
  unfolding secures_def by (rule runs_call) (auto split: sum.splits)

lemma secures_attempt_call:
  "(\<And>t r. F t \<Longrightarrow> J (ev r) t) \<Longrightarrow> (\<And>t r. F t \<Longrightarrow> G r (t @ [ev r])) \<Longrightarrow> secures J F (attempt (call env ev f)) G"
  unfolding secures_def by (intro runs_attempt runs_call) (auto split: sum.splits)

lemma secures_wrapped: "secures J F m G \<Longrightarrow> secures J F (wrapped msg m) G"
  unfolding secures_def by (rule runs_wrapped) (erule runs_post, auto split: sum.splits)

lemma secures_getOr_call:
  assumes "\<And>t r. F t \<Longrightarrow> J (ev r) t" "\<And>x. secures J (\<lambda>t. \<exists>u. F u \<and> t = u @ [ev (Inr x)]) (f x) H"
    and "secures J (\<lambda>t. \<exists>u e. F u \<and> err_is ENotFound e \<and> t = u @ [ev (Inl e)]) absent H"
  shows "secures J F (getOr (call env ev g) absent f) H"
  unfolding secures_def
proof (rule runs_getOr [where A = "\<lambda>t. justified J t \<and> (\<exists>u e. F u \<and> err_is ENotFound e \<and> t = u @ [ev (Inl e)])"
      and S = "\<lambda>x t. justified J t \<and> (\<exists>u. F u \<and> t = u @ [ev (Inr x)])"])
  show "runs (\<lambda>t. justified J t \<and> F t) (call env ev g)
     (\<lambda>r t. case r of
        Inl e \<Rightarrow> if err_is ENotFound e then justified J t \<and> (\<exists>u e. F u \<and> err_is ENotFound e \<and> t = u @ [ev (Inl e)])
                 else justified J t \<and> (case Inl e of Inl _ \<Rightarrow> True | Inr x \<Rightarrow> H x t)
      | Inr x \<Rightarrow> justified J t \<and> (\<exists>u. F u \<and> t = u @ [ev (Inr x)]))"
    by (rule runs_call) (auto simp: assms(1) split: sum.splits)
qed (use assms(2,3) in \<open>simp_all add: secures_def\<close>)

lemma secures_if: "(b \<Longrightarrow> secures J F m G) \<Longrightarrow> (\<not> b \<Longrightarrow> secures J F n G) \<Longrightarrow> secures J F (if b then m else n) G"
  by simp

lemma secures_cases:
  "(x = None \<Longrightarrow> secures J F m G) \<Longrightarrow> (\<And>y. x = Some y \<Longrightarrow> secures J F (f y) G) \<Longrightarrow>
   secures J F (case x of None \<Rightarrow> m | Some y \<Rightarrow> f y) G"
  "(\<And>e. s = Inl e \<Longrightarrow> secures J F (g e) G) \<Longrightarrow> (\<And>y. s = Inr y \<Longrightarrow> secures J F (h y) G) \<Longrightarrow>
   secures J F (case s of Inl e \<Rightarrow> g e | Inr y \<Rightarrow> h y) G"
  "(\<And>a c. p = (a, c) \<Longrightarrow> secures J F (u a c) G) \<Longrightarrow> secures J F (case p of (a, c) \<Rightarrow> u a c) G"
  by (auto split: option.splits sum.splits prod.splits)

lemma secures_absurd: "(\<And>t. \<not> F t) \<Longrightarrow> secures J F m G"
  by (simp add: secures_def runs_def)

lemma secures_from_start: "secures J (\<lambda>_. True) m G \<Longrightarrow> justified J (snd (fst (m (api, []))))"
  unfolding secures_def runs_def by (metis justified_Nil snd_conv)

end
