(* ===== verification/WorktreeController.thy ===== *)
theory WorktreeController
  imports Controller Filepath
begin

text \<open>
  The Worktree controller: \<^verbatim>\<open>internal/controller/repositories/worktree_controller.go\<close>, \<^verbatim>\<open>worktree_cleanup.go\<close>,
  \<^verbatim>\<open>holders.go\<close>, \<^verbatim>\<open>usage_status.go\<close>, \<^verbatim>\<open>worktree_watch.go\<close> and \<^verbatim>\<open>internal/worktreebootstrap\<close>. One definition per
  function; a reconcile is a computation over API calls (theory Controller). Log messages are left out.
\<close>

section \<open>Clients and calls\<close>

record worktree_exec = kobj +
  wx_worktree :: string
  wx_command :: "string list"
  wx_jobName :: string
  wx_completedAt :: "time option"
  wx_conditions :: conditions

text \<open>
  The client of the repository controllers. \<open>read\<close> functions bypass the informer cache, \<open>cached\<close> ones go
  through it (the cache is part of the server state \<open>'api\<close>); \<open>patch\<close> carries a resourceVersion, \<open>merge\<close> does
  not. Calls that decode the server's answer into their argument return it.
\<close>

record 'api kclient =
  k_env :: "'api others"
  k_clock :: "nat \<Rightarrow> time"
  k_codec :: time_codec
  k_sha :: "string \<Rightarrow> string"
  k_image :: string
  k_blankLease :: "repository \<Rightarrow> lease"
  k_readWorktree :: "string \<Rightarrow> string \<Rightarrow> 'api \<Rightarrow> worktree result"
  k_cachedWorktree :: "string \<Rightarrow> string \<Rightarrow> 'api \<Rightarrow> worktree result"
  k_patchWorktree :: "worktree \<Rightarrow> worktree \<Rightarrow> 'api \<Rightarrow> 'api \<times> err option"
  k_mergeWorktree :: "worktree \<Rightarrow> worktree \<Rightarrow> 'api \<Rightarrow> 'api \<times> worktree result"
  k_patchWorktreeStatus :: "worktree \<Rightarrow> worktree \<Rightarrow> 'api \<Rightarrow> 'api \<times> err option"
  k_mergeWorktreeStatus :: "worktree \<Rightarrow> worktree \<Rightarrow> 'api \<Rightarrow> 'api \<times> err option"
  k_readOwner :: "string \<Rightarrow> string \<Rightarrow> string \<Rightarrow> 'api \<Rightarrow> string result"
  k_readWorkspace :: "string \<Rightarrow> string \<Rightarrow> 'api \<Rightarrow> workspace result"
  k_readWorktreeExec :: "string \<Rightarrow> string \<Rightarrow> 'api \<Rightarrow> worktree_exec result"
  k_indexedWorkspaces :: "string \<Rightarrow> string \<Rightarrow> 'api \<Rightarrow> workspace list result"
  k_listWorkspaces :: "string \<Rightarrow> 'api \<Rightarrow> workspace list result"
  k_readLease :: "string \<Rightarrow> string \<Rightarrow> 'api \<Rightarrow> lease result"
  k_updateLease :: "lease \<Rightarrow> lease \<Rightarrow> 'api \<Rightarrow> 'api \<times> err option"
  k_createLease :: "lease \<Rightarrow> 'api \<Rightarrow> 'api \<times> err option"
  k_deleteLease :: "bool \<Rightarrow> lease \<Rightarrow> 'api \<Rightarrow> 'api \<times> err option"
  k_readPods :: "string \<Rightarrow> 'api \<Rightarrow> pod list result"
  k_cachedPods :: "string \<Rightarrow> 'api \<Rightarrow> pod list result"
  k_mergePod :: "pod \<Rightarrow> pod \<Rightarrow> 'api \<Rightarrow> 'api \<times> err option"
  k_readClaim :: "string \<Rightarrow> string \<Rightarrow> 'api \<Rightarrow> pvc result"
  k_readClaims :: "string \<Rightarrow> 'api \<Rightarrow> pvc list result"
  k_createClaim :: "pvc \<Rightarrow> 'api \<Rightarrow> 'api \<times> pvc result"
  k_patchClaim :: "pvc \<Rightarrow> pvc \<Rightarrow> 'api \<Rightarrow> 'api \<times> err option"
  k_readRepository :: "string \<Rightarrow> string \<Rightarrow> 'api \<Rightarrow> repository result"
  k_cachedRepository :: "string \<Rightarrow> string \<Rightarrow> 'api \<Rightarrow> repository result"
  k_cachedJob :: "string \<Rightarrow> string \<Rightarrow> 'api \<Rightarrow> job result"
  k_createJob :: "job \<Rightarrow> 'api \<Rightarrow> 'api \<times> err option"

text \<open>The calls of a run with their answers.\<close>

datatype wt_event =
    ReadWorktree "worktree result"
  | ReadOwner holder "string result"
  | ReadWorkspace "workspace result"
  | ReadWorktreeExec "worktree_exec result"
  | ReadLease "lease result"
  | ReadPods "pod list result"
  | ReadClaim string "pvc result"
  | ResolveClaim "(string \<times> pvc option \<times> err option) result"
  | ReadRepository "repository result"
  | ReadJob "job result"
  | ReadReferences "string list result"
  | ReadConsumers "bool result"
  | LoadHolders "hold_state result"
  | ImportWriter holder "(bool \<times> bool) result"
  | RemoveHolders "holder list" "holder list result"
  | CloseFence "holder list result"
  | ReserveClone repository "admission result"
  | DropReservation "unit result"
  | DeleteLease lease "unit result"
  | AddFinalizer worktree "worktree result"
  | RemoveFinalizer worktree "unit result"
  | WriteStatus worktree worktree "unit result"
  | CreateClaim pvc "pvc result"
  | PatchClaim pvc "unit result"
  | LabelPod pod "unit result"
  | CreateJob job "unit result"

type_synonym ('api, 'a) wctl = "('api, wt_event, 'a) ctl"

abbreviation read_call :: "'api kclient \<Rightarrow> ('a result \<Rightarrow> wt_event) \<Rightarrow> ('api \<Rightarrow> 'a result) \<Rightarrow> ('api, 'a) wctl" where
  "read_call k ev get \<equiv> call (k_env k) ev (reads get)"

abbreviation write_call :: "'api kclient \<Rightarrow> (unit result \<Rightarrow> wt_event) \<Rightarrow> ('api \<Rightarrow> 'api \<times> err option) \<Rightarrow> ('api, unit) wctl" where
  "write_call k ev put \<equiv> call (k_env k) ev (writes put)"

definition k_sha10 :: "'api kclient \<Rightarrow> string \<Rightarrow> string" where
  "k_sha10 k s = take 20 (k_sha k s)"

section \<open>Constants\<close>

definition worktreeBootstrapJobSuffix :: string where "worktreeBootstrapJobSuffix = ''-bootstrap''"
definition worktreeBootstrapJobTTL :: int where "worktreeBootstrapJobTTL = 3 * 24 * 60 * 60"
definition worktreeRepositoryLabel :: string where "worktreeRepositoryLabel = ''rc.ayaka.io/worktree-repository''"
definition worktreeUIDLabel :: string where "worktreeUIDLabel = ''repositories.rc.ayaka.io/worktree-uid''"
definition worktreePathAnnotation :: string where "worktreePathAnnotation = ''repositories.rc.ayaka.io/worktree-path''"
definition worktreeManagedByLabel :: string where "worktreeManagedByLabel = ''app.kubernetes.io/managed-by''"
definition worktreeManagedByValue :: string where "worktreeManagedByValue = ''rc''"
definition worktreeRequeueDelay :: duration where "worktreeRequeueDelay = 2 * 10 ^ 9"
definition workerVolumeName :: string where "workerVolumeName = ''repository''"
definition workerMountPath :: string where "workerMountPath = ''/repository''"
definition runtimeWorkspaceLabel :: string where "runtimeWorkspaceLabel = ''workspaces.rc.ayaka.io/workspace''"
definition repositoriesGroup :: string where "repositoriesGroup = ''repositories.rc.ayaka.io''"
definition repositoriesGroupVersion :: string where "repositoriesGroupVersion = ''repositories.rc.ayaka.io/v1alpha1''"

definition ConditionReady :: string where "ConditionReady = ''Ready''"
definition ConditionVolumeReady :: string where "ConditionVolumeReady = ''VolumeReady''"
definition ConditionDeletionBlocked :: string where "ConditionDeletionBlocked = ''DeletionBlocked''"
definition ConditionInUse :: string where "ConditionInUse = ''InUse''"

definition WaitingForMounts :: string where "WaitingForMounts = ''WaitingForMounts''"
definition WaitingForWriter :: string where "WaitingForWriter = ''WaitingForWriter''"
definition WaitingForPods :: string where "WaitingForPods = ''WaitingForPods''"
definition WaitingForVolume :: string where "WaitingForVolume = ''WaitingForVolume''"
definition ReasonVolumeClaimLost :: string where "ReasonVolumeClaimLost = ''VolumeClaimLost''"
definition ReasonVolumeClaimConflict :: string where "ReasonVolumeClaimConflict = ''VolumeClaimConflict''"
definition FailedReason :: string where "FailedReason = ''RepositoryFailed''"

section \<open>Bootstrap modes\<close>

definition EagerLabel :: string where "EagerLabel = ''workspaces.rc.ayaka.io/eager-bootstrap''"

definition VolumeRootMountPath :: "string \<Rightarrow> string" where
  "VolumeRootMountPath name = Join [''/mnt/rc/worktrees'', name]"

definition NativeWorktreeMountPath :: "string \<Rightarrow> string" where
  "NativeWorktreeMountPath name = Join [VolumeRootMountPath name, ''worktree'', name]"

definition Deferred :: "worktree \<Rightarrow> bool" where
  "Deferred worktree =
     (label_value worktree GeneratedForLabel \<noteq> [] \<and> label_value worktree EagerLabel \<noteq> ''true'' \<and>
      wt_branch worktree \<noteq> [] \<and> wt_resetBranch worktree = [] \<and> wt_ref worktree = [] \<and> \<not> wt_detach worktree \<and>
      \<not> wt_orphan worktree \<and> \<not> wt_noCheckout worktree \<and> \<not> wt_lock worktree)"

definition ContainerName :: "(string \<Rightarrow> string) \<Rightarrow> string \<Rightarrow> string \<Rightarrow> string \<Rightarrow> string" where
  "ContainerName sha namespace name uid =
     (let identity = (if uid = [] then namespace @ ''/'' @ name else uid)
      in ''rc-worktree-'' @ take 12 (sha identity))"

text \<open>\<^verbatim>\<open>%q\<close> on a Kubernetes name, which needs no escapes.\<close>

definition quote_mark :: string where "quote_mark = [CHR 0x22]"

section \<open>Holders\<close>

definition worktree_store :: "'api kclient \<Rightarrow> time \<Rightarrow> worktree \<Rightarrow> ('api, worktree) store" where
  "worktree_store k now worktree =
     MountAccess_Store (k_readWorktree k (o_namespace worktree) (o_name worktree)) (k_patchWorktree k) now (k_codec k)
       (o_uid worktree)"

text \<open>The kinds that \<^verbatim>\<open>holderOwner\<close> can look up.\<close>

definition holderOwner :: "string \<Rightarrow> bool" where
  "holderOwner kind =
     (kind \<in> set [KindWorkspace, KindWorktreeExec, ''Worktree'', ''RepositorySync'', ''RepositoryExec'', ''Repository''])"

definition holderOwnerGone :: "'api kclient \<Rightarrow> string \<Rightarrow> holder \<Rightarrow> ('api, bool) wctl" where
  "holderOwnerGone k namespace h =
     (if \<not> holderOwner (h_kind h) \<or> h_uid h = [] then ret False
      else getOr (read_call k (ReadOwner h) (k_readOwner k (h_kind h) namespace (h_name h)))
             (ret True) (\<lambda>uid. ret (uid \<noteq> h_uid h)))"

definition claimInUse :: "'api kclient \<Rightarrow> string \<Rightarrow> string \<Rightarrow> ('api, bool) wctl" where
  "claimInUse k namespace claimName =
     (if claimName = [] then ret False
      else andThen (wrapped ''list Pods before sweeping holders'' (read_call k ReadPods (k_readPods k namespace)))
             (\<lambda>pods. ret (list_ex (running_consumer claimName) pods)))"

definition legacyWriterWanted :: "'api kclient \<Rightarrow> worktree \<Rightarrow> holder \<Rightarrow> ('api, bool) wctl" where
  "legacyWriterWanted k worktree h =
     (if h_kind h = KindWorkspace
      then getOr (read_call k ReadWorkspace (k_readWorkspace k (o_namespace worktree) (h_name h))) (ret False) (\<lambda>workspace.
             ret (o_uid workspace = h_uid h \<and>
                  list_ex (\<lambda>m. mt_worktree m = Some (o_name worktree) \<and> \<not> mt_readOnly m) (ws_mounts workspace)))
      else if h_kind h = KindWorktreeExec
      then getOr (read_call k ReadWorktreeExec (k_readWorktreeExec k (o_namespace worktree) (h_name h))) (ret False) (\<lambda>exec.
             ret (o_uid exec = h_uid h \<and> wx_worktree exec = o_name worktree \<and>
                  (case wx_conditions exec ''Succeeded'' of None \<Rightarrow> True | Some c \<Rightarrow> c_status c = CUnknown)))
      else ret False)"

text \<open>The closure of \<^verbatim>\<open>importLegacyWriter\<close>; its captured variables are \<open>imported\<close> and \<open>held\<close>.\<close>

definition import_change :: "time \<Rightarrow> holder \<Rightarrow> (worktree, bool \<times> bool) change" where
  "import_change now h obj s =
     (if obj = None then ((False, False), Inr (False, s))
      else if (case State_Find (Key h) s of None \<Rightarrow> False | Some e \<Rightarrow> h_mode e = Write)
      then ((False, True), Inr (False, s))
      else if Conflicts (drop_key Key (Key h) (hs_holders s)) h \<noteq> [] then ((False, False), Inr (False, s))
      else ((True, True), Inr (True, State_Put now h s)))"

definition import_call ::
  "nat \<Rightarrow> ('api, worktree) store \<Rightarrow> time \<Rightarrow> holder \<Rightarrow> (nat \<Rightarrow> 'api \<Rightarrow> 'api) \<Rightarrow> 'api \<Rightarrow> 'api \<times> (bool \<times> bool) result" where
  "import_call steps store now h e api =
     (case Update steps e store (import_change now h) (False, False) api of
        ((api', _, out), None) \<Rightarrow> (api', Inr out)
      | ((api', _, _), Some x) \<Rightarrow> (api', Inl x))"

definition legacy_holder :: "owner_ref \<Rightarrow> lease \<Rightarrow> holder" where
  "legacy_holder reference lease =
     \<lparr>h_kind = or_kind reference, h_name = or_name reference, h_uid = or_uid reference, h_mode = Write,
      h_since = o_created lease\<rparr>"

definition read_legacy :: "'api kclient \<Rightarrow> worktree \<Rightarrow> ('api, legacy_writer option) wctl" where
  "read_legacy k worktree =
     andThen (attempt (read_call k ReadLease
                (k_readLease k (o_namespace worktree) (LegacyWriteLeaseName (k_sha10 k) worktree))))
       (\<lambda>r. of_result (LegacyWriterOf r))"

definition record_legacy :: "'api kclient \<Rightarrow> worktree \<Rightarrow> lease \<Rightarrow> holder \<Rightarrow> ('api, bool) wctl" where
  "record_legacy k worktree lease h =
     andThen (legacyWriterWanted k worktree h) (\<lambda>wanted.
     if \<not> wanted then ret False
     else andThen (clock (k_clock k)) (\<lambda>now.
          andThen (wrapped ''import legacy Worktree writer''
             (call (k_env k) (ImportWriter h) (import_call DefaultBackoff (worktree_store k now worktree) now h))) (\<lambda>(imported, held).
          if \<not> held then ret False
          else andThen (attempt (write_call k (DeleteLease lease) (k_deleteLease k True lease))) (\<lambda>deleted.
               case deleted of
                 Inr _ \<Rightarrow> ret imported
               | Inl e \<Rightarrow>
                   if err_is ENotFound e \<or> err_is EConflict e then ret imported
                   else raise (EWrap ''delete imported legacy Worktree write Lease'' e)))))"

definition importLegacyWriter :: "'api kclient \<Rightarrow> worktree \<Rightarrow> ('api, bool) wctl" where
  "importLegacyWriter k worktree =
     andThen (read_legacy k worktree) (\<lambda>found.
     case found of
       None \<Rightarrow> ret False
     | Some legacy \<Rightarrow>
         if lw_deletion legacy \<or> lw_holder legacy = [] then ret False
         else (case o_controller (lw_lease legacy) of
                 None \<Rightarrow> ret False
               | Some reference \<Rightarrow>
                   if or_uid reference \<noteq> lw_holder legacy then ret False
                   else record_legacy k worktree (lw_lease legacy) (legacy_holder reference (lw_lease legacy))))"

text \<open>The closures of the two sweeps: the consumer check runs once, at the first holder whose owner is gone.\<close>

definition worktree_stale :: "'api kclient \<Rightarrow> worktree \<Rightarrow> bool option \<Rightarrow> holder \<Rightarrow> ('api, bool option \<times> bool) wctl" where
  "worktree_stale k worktree inUse h =
     andThen (holderOwnerGone k (o_namespace worktree) h) (\<lambda>gone.
     if \<not> gone then ret (inUse, False)
     else (case inUse of
             Some used \<Rightarrow> ret (Some used, \<not> used)
           | None \<Rightarrow> andThen (claimInUse k (o_namespace worktree) (wt_claim worktree)) (\<lambda>used. ret (Some used, \<not> used))))"

definition sweepWorktreeHolders :: "'api kclient \<Rightarrow> worktree \<Rightarrow> ('api, bool) wctl" where
  "sweepWorktreeHolders k worktree =
     andThen (clock (k_clock k)) (\<lambda>now.
     andThen (of_result (worktree_Decode now (k_codec k) worktree)) (\<lambda>state.
     if hs_holders state = [] then ret False
     else andThen (wrapped ''sweep Worktree holders''
            (sweep_run (k_env k) LoadHolders RemoveHolders (worktree_store k now worktree) (worktree_stale k worktree) None))
          (\<lambda>removed. ret (removed \<noteq> []))))"

definition gate_store :: "'api kclient \<Rightarrow> time \<Rightarrow> repository \<Rightarrow> ('api, lease) store" where
  "gate_store k now repository =
     Gate_Store (k_readLease k (o_namespace repository) (leaseName (k_sha10 k) repository)) (k_updateLease k)
       (k_createLease k) (k_codec k) (Gate_Config now (k_codec k) (k_sha10 k) (k_blankLease k repository) repository)"

definition list_pod_views :: "'api kclient \<Rightarrow> string \<Rightarrow> 'api \<Rightarrow> pod_view list result" where
  "list_pod_views k namespace api = map_sum id (map pod_view_of) (k_readPods k namespace api)"

definition list_claim_views :: "'api kclient \<Rightarrow> string \<Rightarrow> 'api \<Rightarrow> claim_view list result" where
  "list_claim_views k namespace api = map_sum id (map claim_view_of) (k_readClaims k namespace api)"

definition repository_stale :: "'api kclient \<Rightarrow> repository \<Rightarrow> bool option \<Rightarrow> holder \<Rightarrow> ('api, bool option \<times> bool) wctl" where
  "repository_stale k repository stopped h =
     andThen (holderOwnerGone k (o_namespace repository) h) (\<lambda>gone.
     if \<not> gone then ret (stopped, False)
     else (case stopped of
             Some b \<Rightarrow> ret (Some b, b)
           | None \<Rightarrow> andThen (read_call k ReadConsumers
                       (ConsumersStopped (list_pod_views k (o_namespace repository)) (list_claim_views k (o_namespace repository))
                          repository)) (\<lambda>b. ret (Some b, b))))"

definition sweepRepositoryHolders :: "'api kclient \<Rightarrow> repository \<Rightarrow> ('api, unit) wctl" where
  "sweepRepositoryHolders k repository =
     andThen (clock (k_clock k)) (\<lambda>now.
     andThen (wrapped ''sweep Repository holders''
        (sweep_run (k_env k) LoadHolders RemoveHolders (gate_store k now repository) (repository_stale k repository) None))
       (\<lambda>removed. ret ()))"

definition reconcileWorktreeHolders :: "'api kclient \<Rightarrow> worktree \<Rightarrow> ('api, bool) wctl" where
  "reconcileWorktreeHolders k worktree =
     andThen (importLegacyWriter k worktree) (\<lambda>imported.
     andThen (sweepWorktreeHolders k worktree) (\<lambda>swept. ret (imported \<or> swept)))"

section \<open>Cleanup\<close>

record cleanup_wait =
  cw_reason :: string
  cw_message :: string

definition holderWait :: "holder list \<Rightarrow> cleanup_wait option" where
  "holderWait remaining =
     (if remaining = [] then None
      else let name = (\<lambda>h. h_kind h @ ''/'' @ h_name h);
               writers = map name (filter (\<lambda>h. h_mode h = Write) remaining);
               readers = map name (filter (\<lambda>h. h_mode h \<noteq> Write) remaining)
           in if writers \<noteq> []
              then Some \<lparr>cw_reason = WaitingForWriter,
                         cw_message = ''Waiting for writers to release the Worktree: '' @ join '', '' writers\<rparr>
              else Some \<lparr>cw_reason = WaitingForMounts,
                         cw_message = ''Waiting for admitted Workspace mounts to be released: '' @ join '', '' readers\<rparr>)"

definition cleanupReferenceBlockers :: "'api kclient \<Rightarrow> worktree \<Rightarrow> ('api, string list) wctl" where
  "cleanupReferenceBlockers k worktree =
     (if o_deleting worktree = None then ret []
      else read_call k ReadReferences
             (\<lambda>api. ReferenceBlockers (k_indexedWorkspaces k (o_namespace worktree) (o_name worktree) api)
                (k_listWorkspaces k (o_namespace worktree) api) (o_name worktree)))"

definition cleanupReferenceWait :: "'api kclient \<Rightarrow> worktree \<Rightarrow> ('api, cleanup_wait option) wctl" where
  "cleanupReferenceWait k worktree =
     andThen (cleanupReferenceBlockers k worktree) (\<lambda>blockers.
     ret (if blockers = [] then None
          else Some \<lparr>cw_reason = WaitingForMounts,
                     cw_message = ''Waiting for Workspaces that mount this Worktree: '' @ join '', '' blockers\<rparr>))"

text \<open>
  \<^verbatim>\<open>volumeclaim.Resolve\<close> as one call of at most two reads: the legacy name first, the typed or
  recorded name after the other clients had another chance to act.
\<close>

definition resolve_call ::
  "'api kclient \<Rightarrow> worktree \<Rightarrow> (nat \<Rightarrow> 'api \<Rightarrow> 'api) \<Rightarrow> 'api \<Rightarrow> 'api \<times> (string \<times> pvc option \<times> err option) result" where
  "resolve_call k worktree e api =
     (let api0 = e 0 api; api1 = e 1 api0;
          get = (\<lambda>name. k_readClaim k (o_namespace worktree) name
                   (if wt_claim worktree = [] \<and> name = legacyName Role_Worktree (o_name worktree) 0 then api0 else api1));
          owner = \<lparr>ow_namespace = o_namespace worktree, ow_name = o_name worktree, ow_uid = o_uid worktree\<rparr>
      in (api1, Inr (Resolve (k_sha k) get owner Role_Worktree 0 (wt_claim worktree))))"

definition resolve_claim :: "'api kclient \<Rightarrow> worktree \<Rightarrow> ('api, string \<times> pvc option \<times> err option) wctl" where
  "resolve_claim k worktree = call (k_env k) ResolveClaim (resolve_call k worktree)"

definition delete_old_fence :: "'api kclient \<Rightarrow> legacy_writer \<Rightarrow> ('api, unit) wctl" where
  "delete_old_fence k legacy =
     wrapped ''delete legacy Worktree deletion Lease''
       (IgnoreNotFound (write_call k (DeleteLease (lw_lease legacy)) (k_deleteLease k False (lw_lease legacy))))"

definition cleanup_consumers :: "'api kclient \<Rightarrow> worktree \<Rightarrow> ('api, string \<times> cleanup_wait option) wctl" where
  "cleanup_consumers k worktree =
     andThen (resolve_claim k worktree) (\<lambda>(claimName, _, resolveErr).
     if resolveErr \<noteq> None \<and> claimName = [] then raise (the resolveErr)
     else andThen (read_call k ReadPods (k_readPods k (o_namespace worktree))) (\<lambda>pods.
          let consumers = map o_name (filter (running_consumer claimName) pods)
          in if consumers \<noteq> []
             then ret ([], Some \<lparr>cw_reason = WaitingForPods,
                                cw_message = ''Waiting for Pods using the Worktree volume to stop: '' @ join '', '' (sort consumers)\<rparr>)
             else ret (claimName, None)))"

definition cleanup_legacy :: "'api kclient \<Rightarrow> worktree \<Rightarrow> ('api, string \<times> cleanup_wait option) wctl" where
  "cleanup_legacy k worktree =
     andThen (wrapped ''check legacy Worktree write Lease'' (read_legacy k worktree)) (\<lambda>found.
     case found of
       None \<Rightarrow> cleanup_consumers k worktree
     | Some legacy \<Rightarrow>
         if \<not> lw_deletion legacy
         then ret ([], Some \<lparr>cw_reason = WaitingForWriter,
                 cw_message = ''Waiting for writer '' @ quote_mark @ lw_name legacy @ quote_mark @ '' to release legacy write Lease '' @
                   o_name (lw_lease legacy)\<rparr>)
         else andThen (delete_old_fence k legacy) (\<lambda>_. cleanup_consumers k worktree))"

definition cleanup_references :: "'api kclient \<Rightarrow> worktree \<Rightarrow> ('api, string \<times> cleanup_wait option) wctl" where
  "cleanup_references k worktree =
     andThen (cleanupReferenceWait k worktree) (\<lambda>referenced.
     case referenced of Some wait \<Rightarrow> ret ([], Some wait) | None \<Rightarrow> cleanup_legacy k worktree)"

definition prepareWorktreeCleanup :: "'api kclient \<Rightarrow> worktree \<Rightarrow> ('api, string \<times> cleanup_wait option) wctl" where
  "prepareWorktreeCleanup k worktree =
     andThen (clock (k_clock k)) (\<lambda>now.
     andThen (call (k_env k) CloseFence (\<lambda>e. MountAccess_Close DefaultBackoff e (worktree_store k now worktree))) (\<lambda>remaining.
     case holderWait remaining of Some wait \<Rightarrow> ret ([], Some wait) | None \<Rightarrow> cleanup_references k worktree))"

section \<open>Status\<close>

definition read_again :: "'api kclient \<Rightarrow> worktree \<Rightarrow> ('api, worktree) wctl" where
  "read_again k worktree = read_call k ReadWorktree (k_readWorktree k (o_namespace worktree) (o_name worktree))"

definition cached_again :: "'api kclient \<Rightarrow> worktree \<Rightarrow> ('api, worktree) wctl" where
  "cached_again k worktree = read_call k ReadWorktree (k_cachedWorktree k (o_namespace worktree) (o_name worktree))"

definition blocked_conditions :: "time \<Rightarrow> worktree \<Rightarrow> cleanup_wait option \<Rightarrow> conditions" where
  "blocked_conditions now current wait =
     (case wait of
        None \<Rightarrow> RemoveStatusCondition ConditionDeletionBlocked (wt_conditions current)
      | Some w \<Rightarrow> SetStatusCondition now ConditionDeletionBlocked
                    (new_condition CTrue (o_generation current) (cw_reason w) (cw_message w)) (wt_conditions current))"

definition setDeletionBlocked :: "'api kclient \<Rightarrow> worktree \<Rightarrow> cleanup_wait option \<Rightarrow> ('api, unit) wctl" where
  "setDeletionBlocked k worktree wait =
     RetryOnConflict DefaultBackoff
       (getOr (read_again k worktree) (ret ()) (\<lambda>current.
        if o_uid current \<noteq> o_uid worktree \<or> o_deleting current = None then ret ()
        else andThen (clock (k_clock k)) (\<lambda>now.
             let conds = blocked_conditions now current wait; after = current\<lparr>wt_conditions := conds\<rparr>
             in if conds ConditionDeletionBlocked = wt_conditions current ConditionDeletionBlocked then ret ()
                else IgnoreNotFound (write_call k (WriteStatus current after) (k_patchWorktreeStatus k current after)))))"

definition deletion_status :: "time \<Rightarrow> string \<Rightarrow> string \<Rightarrow> worktree \<Rightarrow> worktree" where
  "deletion_status now reason message current =
     (let c = new_condition CFalse (o_generation current) reason message
      in current\<lparr>wt_observed := o_generation current,
           wt_conditions := SetStatusCondition now ConditionVolumeReady c
              (SetStatusCondition now ConditionReady c (wt_conditions current))\<rparr>)"

definition setStorageDeletionStatus :: "'api kclient \<Rightarrow> worktree \<Rightarrow> string \<Rightarrow> string \<Rightarrow> ('api, unit) wctl" where
  "setStorageDeletionStatus k worktree reason message =
     RetryOnConflict DefaultBackoff
       (getOr (read_again k worktree) (ret ()) (\<lambda>current.
        andThen (clock (k_clock k)) (\<lambda>now.
        let after = deletion_status now reason message current
        in if wt_conditions after ConditionReady = wt_conditions current ConditionReady \<and>
              wt_conditions after ConditionVolumeReady = wt_conditions current ConditionVolumeReady
           then ret ()
           else write_call k (WriteStatus current after) (k_patchWorktreeStatus k current after))))"

definition worktreePath :: "worktree \<Rightarrow> string" where
  "worktreePath worktree = (if wt_path worktree \<noteq> [] then wt_path worktree else workerMountPath)"

definition worktreeBootstrapJobName :: "(string \<Rightarrow> string) \<Rightarrow> worktree \<Rightarrow> string" where
  "worktreeBootstrapJobName sha worktree =
     (let name = o_name worktree @ worktreeBootstrapJobSuffix
      in if length name \<le> 63 then name
         else let digest = take 10 (sha (o_name worktree))
              in take (63 - length worktreeBootstrapJobSuffix - length digest - 1) (o_name worktree) @ ''-'' @ digest @
                 worktreeBootstrapJobSuffix)"

definition volume_ready_status :: "time \<Rightarrow> string \<Rightarrow> string \<Rightarrow> string \<Rightarrow> worktree \<Rightarrow> worktree" where
  "volume_ready_status now claimName sourceClaimName path current =
     current\<lparr>wt_observed := o_generation current, wt_sourceClaim := sourceClaimName, wt_claim := claimName,
       wt_path := path,
       wt_conditions := SetStatusCondition now ConditionVolumeReady
         (new_condition CTrue (o_generation current) ''VolumeReady'' ''Child volume is bound and ready to mount'')
         (wt_conditions current)\<rparr>"

definition setWorktreeVolumeReady :: "'api kclient \<Rightarrow> worktree \<Rightarrow> string \<Rightarrow> string \<Rightarrow> string \<Rightarrow> ('api, unit) wctl" where
  "setWorktreeVolumeReady k worktree claimName sourceClaimName path =
     RetryOnConflict DefaultBackoff
       (getOr (cached_again k worktree) (ret ()) (\<lambda>current.
        andThen (clock (k_clock k)) (\<lambda>now.
        let after = volume_ready_status now claimName sourceClaimName path current
        in if wt_observed after = wt_observed current \<and> wt_sourceClaim after = wt_sourceClaim current \<and>
              wt_claim after = wt_claim current \<and> wt_path after = wt_path current \<and>
              wt_conditions after ConditionVolumeReady = wt_conditions current ConditionVolumeReady
           then ret ()
           else wrapped ''patch Worktree volume-ready status''
                  (write_call k (WriteStatus current after) (k_mergeWorktreeStatus k current after)))))"

definition storage_failure :: "string \<Rightarrow> bool" where
  "storage_failure reason = (reason = ReasonVolumeClaimLost \<or> reason = ReasonVolumeClaimConflict)"

definition worktree_status ::
  "(string \<Rightarrow> string) \<Rightarrow> time \<Rightarrow> cond_status \<Rightarrow> string \<Rightarrow> string \<Rightarrow> string \<Rightarrow> string \<Rightarrow> string \<Rightarrow> worktree \<Rightarrow> worktree" where
  "worktree_status sha now status reason message claimName sourceClaimName path current =
     (let withdrawn = (if storage_failure reason
                       then SetStatusCondition now ConditionVolumeReady
                              (new_condition CFalse (o_generation current) reason message) (wt_conditions current)
                       else wt_conditions current);
          jobName = (if claimName = [] \<or> Deferred current then []
                     else if wt_jobName current = [] \<or> status \<noteq> CTrue then worktreeBootstrapJobName sha current
                     else wt_jobName current)
      in current\<lparr>wt_observed := o_generation current, wt_sourceClaim := sourceClaimName,
           wt_claim := (if claimName \<noteq> [] then claimName else wt_claim current), wt_path := path, wt_jobName := jobName,
           wt_conditions := SetStatusCondition now ConditionReady
              (new_condition status (o_generation current) reason message) withdrawn\<rparr>)"

definition setWorktreeStatus ::
  "'api kclient \<Rightarrow> worktree \<Rightarrow> cond_status \<Rightarrow> string \<Rightarrow> string \<Rightarrow> string \<Rightarrow> string \<Rightarrow> string \<Rightarrow> ('api, unit) wctl" where
  "setWorktreeStatus k worktree status reason message claimName sourceClaimName path =
     RetryOnConflict DefaultBackoff
       (getOr (cached_again k worktree) (ret ()) (\<lambda>current.
        andThen (clock (k_clock k)) (\<lambda>now.
        let after = worktree_status (k_sha k) now status reason message claimName sourceClaimName path current
        in if wt_observed after = wt_observed current \<and> wt_sourceClaim after = wt_sourceClaim current \<and>
              wt_claim after = wt_claim current \<and> wt_path after = wt_path current \<and>
              wt_jobName after = wt_jobName current \<and>
              wt_conditions after ConditionReady = wt_conditions current ConditionReady \<and>
              wt_conditions after ConditionVolumeReady = wt_conditions current ConditionVolumeReady
           then ret ()
           else wrapped ''patch Worktree status''
                  (write_call k (WriteStatus current after) (k_mergeWorktreeStatus k current after)))))"

section \<open>Usage\<close>

definition usageReferences :: "holder list \<Rightarrow> usage_reference list" where
  "usageReferences holders =
     map (\<lambda>h. \<lparr>ur_kind = h_kind h, ur_name = h_name h, ur_uid = h_uid h, ur_mode = h_mode h, ur_since = h_since h\<rparr>) holders"

fun usage_reason :: "string \<Rightarrow> holder list \<Rightarrow> string" where
  "usage_reason reason [] = reason"
| "usage_reason reason (h # hs) =
     usage_reason (if h_kind h = KindWorkspace then ''MountedByWorkspace''
                   else if reason = [] \<and> h_kind h = KindWorktreeExec then ''WriterExec'' else reason) hs"

definition worktreeInUse :: "holder list \<Rightarrow> string list \<Rightarrow> cond_status \<times> string \<times> string" where
  "worktreeInUse holders consumers =
     (if holders \<noteq> []
      then let reason = usage_reason [] holders
           in (CTrue, if reason = [] then ''MountedByWorkspace'' else reason,
               ''Used by '' @ join '', '' (map (\<lambda>h. h_kind h @ ''/'' @ h_name h @ '' ('' @ h_mode h @ '')'') holders))
      else if consumers \<noteq> [] then (CTrue, ''PodConsumer'', ''Pods use the volume: '' @ join '', '' consumers)
      else (CFalse, ''Idle'', ''Nothing uses the Worktree''))"

definition usage_status :: "time \<Rightarrow> holder list \<Rightarrow> string list \<Rightarrow> worktree \<Rightarrow> worktree" where
  "usage_status now holders consumers current =
     (case worktreeInUse holders consumers of
        (status, reason, message) \<Rightarrow>
          current\<lparr>wt_usedBy := usageReferences holders,
            wt_conditions := SetStatusCondition now ConditionInUse
              (new_condition status (o_generation current) reason message) (wt_conditions current)\<rparr>)"

definition usage_consumers :: "'api kclient \<Rightarrow> worktree \<Rightarrow> hold_state \<Rightarrow> ('api, string list) wctl" where
  "usage_consumers k current state =
     (if hs_holders state = [] \<and> wt_claim current \<noteq> []
      then andThen (wrapped ''list Pods using the Worktree volume''
                      (read_call k ReadPods (k_cachedPods k (o_namespace current))))
             (\<lambda>pods. ret (map o_name (filter (running_consumer (wt_claim current)) pods)))
      else ret [])"

definition publishUsage :: "'api kclient \<Rightarrow> string \<Rightarrow> string \<Rightarrow> ('api, unit) wctl" where
  "publishUsage k namespace name =
     RetryOnConflict DefaultBackoff
       (getOr (read_call k ReadWorktree (k_readWorktree k namespace name)) (ret ()) (\<lambda>current.
        andThen (clock (k_clock k)) (\<lambda>now.
        andThen (of_result (worktree_Decode now (k_codec k) current)) (\<lambda>state.
        andThen (usage_consumers k current state) (\<lambda>consumers.
        let after = usage_status now (hs_holders state) consumers current
        in if wt_usedBy after = wt_usedBy current \<and>
              wt_conditions after ConditionInUse = wt_conditions current ConditionInUse
           then ret ()
           else IgnoreNotFound (write_call k (WriteStatus current after) (k_patchWorktreeStatus k current after)))))))"

section \<open>Reservations and deletion\<close>

definition cloneHolder :: "worktree \<Rightarrow> holder" where
  "cloneHolder worktree = HolderFor ''Worktree'' worktree Clone"

definition releaseClone :: "'api kclient \<Rightarrow> worktree \<Rightarrow> ('api, unit) wctl" where
  "releaseClone k worktree =
     andThen (clock (k_clock k)) (\<lambda>now.
     call (k_env k) DropReservation (\<lambda>e api.
       case Gate_ReleaseNamed DefaultBackoff (\<lambda>n. e (Suc n)) (gate_store k now)
              (k_readRepository k (o_namespace worktree) (wt_repository worktree)) (Key (cloneHolder worktree)) (e 0 api) of
         (api', r) \<Rightarrow> (api', unit_result r)))"

definition release_protection :: "'api kclient \<Rightarrow> pvc \<Rightarrow> ('api, unit) wctl" where
  "release_protection k claim =
     write_call k (PatchClaim claim) (ReleaseVolumeProtection (k_patchClaim k) claim)"

definition reconcileStorageDeletion :: "'api kclient \<Rightarrow> worktree \<Rightarrow> ('api, ctrl_result) wctl" where
  "reconcileStorageDeletion k worktree =
     andThen (prepareWorktreeCleanup k worktree) (\<lambda>(claimName, wait).
     if wait \<noteq> None
     then andThen (setStorageDeletionStatus k worktree ''VolumeDeleting''
                     ''Storage deletion requested; waiting for mounts, writers and Pods to stop'')
            (\<lambda>_. ret (Some worktreeRequeueDelay))
     else getOr (read_call k (ReadClaim claimName) (k_readClaim k (o_namespace worktree) claimName))
            (andThen (releaseClone k worktree) (\<lambda>_.
             andThen (setStorageDeletionStatus k worktree ''VolumeDeleted''
                        ''Storage was explicitly deleted; this Worktree will not recreate a checkout'') (\<lambda>_. ret None)))
            (\<lambda>claim.
             if \<not> is_controlled_by claim (o_uid worktree) \<or> o_deleting claim = None
             then andThen (setStorageDeletionStatus k worktree ''VolumeDeletionFenced''
                             ''Storage admission is permanently closed; inspect the Worktree before replacing it'') (\<lambda>_. ret None)
             else andThen (setStorageDeletionStatus k worktree ''VolumeDeleting''
                             ''Storage deletion requested; waiting for PVC cleanup'') (\<lambda>_.
                  andThen (release_protection k claim) (\<lambda>_. ret (Some worktreeRequeueDelay)))))"

definition remove_deletion_finalizer :: "'api kclient \<Rightarrow> worktree \<Rightarrow> ('api, unit) wctl" where
  "remove_deletion_finalizer k worktree =
     wrapped ''remove Worktree deletion finalizer''
       (RetryOnConflict DefaultBackoff
          (getOr (read_again k worktree) (ret ()) (\<lambda>current.
           IgnoreNotFound (write_call k (RemoveFinalizer current)
             (k_patchWorktree k current (remove_finalizer DeletionFinalizer current))))))"

definition finish_deletion :: "'api kclient \<Rightarrow> worktree \<Rightarrow> ('api, ctrl_result) wctl" where
  "finish_deletion k worktree =
     andThen (if wt_conditions worktree ConditionDeletionBlocked \<noteq> None then setDeletionBlocked k worktree None else ret ()) (\<lambda>_.
     andThen (releaseClone k worktree) (\<lambda>_.
     andThen (remove_deletion_finalizer k worktree) (\<lambda>_. ret None)))"

definition volume_wait :: "string \<Rightarrow> pvc \<Rightarrow> cleanup_wait" where
  "volume_wait what claim =
     \<lparr>cw_reason = WaitingForVolume, cw_message = ''Waiting for PersistentVolumeClaim '' @ o_name claim @ what\<rparr>"

definition delete_claim :: "'api kclient \<Rightarrow> worktree \<Rightarrow> pvc \<Rightarrow> ('api, ctrl_result) wctl" where
  "delete_claim k worktree claim =
     (if \<not> is_controlled_by claim (o_uid worktree) then finish_deletion k worktree
      else if o_deleting claim = None \<and> pvc_phase claim \<noteq> ''Bound''
      then andThen (setDeletionBlocked k worktree (Some (volume_wait '' to finish provisioning'' claim)))
             (\<lambda>_. ret (Some worktreeRequeueDelay))
      else andThen (release_protection k claim) (\<lambda>_.
           if o_deleting claim \<noteq> None
           then andThen (setDeletionBlocked k worktree (Some (volume_wait '' to be deleted'' claim)))
                  (\<lambda>_. ret (Some worktreeRequeueDelay))
           else finish_deletion k worktree))"

definition reconcileDelete :: "'api kclient \<Rightarrow> worktree \<Rightarrow> ('api, ctrl_result) wctl" where
  "reconcileDelete k worktree =
     (if \<not> contains_finalizer worktree DeletionFinalizer then ret None
      else andThen (prepareWorktreeCleanup k worktree) (\<lambda>(claimName, wait).
           if wait \<noteq> None
           then andThen (setDeletionBlocked k worktree wait) (\<lambda>_. ret (Some worktreeRequeueDelay))
           else getOr (read_call k (ReadClaim claimName) (k_readClaim k (o_namespace worktree) claimName))
                  (finish_deletion k worktree) (delete_claim k worktree)))"

section \<open>The child volume and the bootstrap Job\<close>

text \<open>\<^verbatim>\<open>controllerutil.SetControllerReference\<close> on an object that is being created.\<close>

definition SetControllerReference :: "string \<Rightarrow> string \<Rightarrow> 'y kobj_scheme \<Rightarrow> 'x kobj_scheme \<Rightarrow> 'x kobj_scheme result" where
  "SetControllerReference apiVersion kind owner obj =
     (case o_controller obj of
        Some r \<Rightarrow> if or_uid r \<noteq> o_uid owner then Inl (EMsg ''object is already owned by another controller'') else Inr obj
      | None \<Rightarrow> Inr (obj\<lparr>o_controller := Some \<lparr>or_apiVersion = apiVersion, or_kind = kind, or_name = o_name owner,
                                              or_uid = o_uid owner\<rparr>\<rparr>))"

definition worktreeVolumeClaim :: "worktree \<Rightarrow> string \<Rightarrow> string \<Rightarrow> plan \<Rightarrow> pvc" where
  "worktreeVolumeClaim worktree claimName sourceClaimName plan =
     kobj.extend
       ((blank_object (o_namespace worktree) claimName)\<lparr>
          o_finalizers := [VolumeProtectionFinalizer],
          o_labels := [worktreeManagedByLabel \<mapsto> worktreeManagedByValue, worktreeRepositoryLabel \<mapsto> wt_repository worktree]\<rparr>)
       (pvc.fields [] (pl_size plan) 0 (Some (pl_class plan)) (Some ''Filesystem'') (pl_accessModes plan)
          (Some \<lparr>ds_kind = ''PersistentVolumeClaim'', ds_name = sourceClaimName, ds_apiGroup = None, ds_namespace = None\<rparr>) None)"

definition worktreeClaimMatches :: "pvc \<Rightarrow> storage_spec option \<Rightarrow> bool" where
  "worktreeClaimMatches claim override =
     (if pvc_volumeMode claim \<noteq> None \<and> pvc_volumeMode claim \<noteq> Some ''Filesystem'' then False
      else (case override of
              None \<Rightarrow> True
            | Some ov \<Rightarrow>
                if sp_class ov \<noteq> [] \<and> pvc_class claim \<noteq> Some (sp_class ov) then False
                else if sp_accessModes ov \<noteq> [] \<and> pvc_accessModes claim \<noteq> sp_accessModes ov then False
                else (case sp_size ov of None \<Rightarrow> True | Some n \<Rightarrow> pvc_request claim \<ge> n)))"

definition worktreeCheckoutArgs :: "worktree \<Rightarrow> string list" where
  "worktreeCheckoutArgs worktree =
     [''checkout''] @
     (if wt_branch worktree \<noteq> [] then [''-b'', wt_branch worktree] else []) @
     (if wt_resetBranch worktree \<noteq> [] then [''-B'', wt_resetBranch worktree] else []) @
     (if wt_detach worktree then [''--detach''] else []) @
     (if wt_orphan worktree then [''--orphan'', o_name worktree] else []) @
     (if wt_branch worktree = [] \<and> wt_resetBranch worktree = [] \<and> \<not> wt_detach worktree \<and> \<not> wt_orphan worktree \<and>
         wt_ref worktree = [] then [''-b'', o_name worktree] else []) @
     (if wt_ref worktree \<noteq> [] then [wt_ref worktree] else [])"

definition worktreeBootstrapScript :: string where
  "worktreeBootstrapScript = concat (map (\<lambda>l. l @ [CHR 0x0A])
     [[],
      ''git config --global --add safe.directory '' @ quote_mark @ ''$PWD'' @ quote_mark,
      ''no_checkout='' @ quote_mark @ ''$1'' @ quote_mark,
      ''shift'',
      ''git -C '' @ quote_mark @ ''$PWD'' @ quote_mark @
        '' -c checkout.workers=8 -c checkout.thresholdForParallelism=100 '' @ quote_mark @ ''$@'' @ quote_mark,
      ''if [ '' @ quote_mark @ ''$no_checkout'' @ quote_mark @ '' = '' @ quote_mark @ ''true'' @ quote_mark @ '' ]; then'',
      ''  git -C '' @ quote_mark @ ''$PWD'' @ quote_mark @ '' read-tree --empty'',
      ''  git -C '' @ quote_mark @ ''$PWD'' @ quote_mark @ '' clean -ffdx'',
      ''fi'',
      ''git -C '' @ quote_mark @ ''$PWD'' @ quote_mark @ '' rev-parse --verify HEAD || git -C '' @ quote_mark @ ''$PWD'' @
        quote_mark @ '' symbolic-ref --quiet HEAD''])"

text \<open>The security contexts of the Pod and of its container are fixed and left out.\<close>

definition worktreeBootstrapJob :: "(string \<Rightarrow> string) \<Rightarrow> worktree \<Rightarrow> string \<Rightarrow> string \<Rightarrow> job" where
  "worktreeBootstrapJob sha worktree claimName runnerImage =
     kobj.extend
       ((blank_object (o_namespace worktree) (worktreeBootstrapJobName sha worktree))\<lparr>
          o_annotations := [worktreePathAnnotation \<mapsto> Raw workerMountPath],
          o_labels := [worktreeManagedByLabel \<mapsto> worktreeManagedByValue, worktreeRepositoryLabel \<mapsto> wt_repository worktree,
                       worktreeUIDLabel \<mapsto> o_uid worktree]\<rparr>)
       (job.fields 0 (Some worktreeBootstrapJobTTL) [worktreeUIDLabel \<mapsto> o_uid worktree] ''bootstrap'' runnerImage [''sh'']
          ([''-ceu'', worktreeBootstrapScript, ''worktree-bootstrap'', if wt_noCheckout worktree then ''true'' else ''false''] @
             worktreeCheckoutArgs worktree)
          (VolumeRootMountPath (o_name worktree)) [(''HOME'', ''/tmp'')] workerVolumeName
          (VolumeRootMountPath (o_name worktree)) claimName [] [] None)"

definition label_pod :: "'api kclient \<Rightarrow> worktree \<Rightarrow> string \<Rightarrow> pod \<Rightarrow> ('api, unit) wctl" where
  "label_pod k worktree claimName p =
     (if \<not> podUsesPersistentVolumeClaim p claimName then ret ()
      else if label_value p worktreeUIDLabel \<noteq> [] then ret ()
      else wrapped (''label Worktree workload Pod '' @ quote_mark @ o_name p @ quote_mark)
             (write_call k (LabelPod p) (k_mergePod k p (p\<lparr>o_labels := (o_labels p)(worktreeUIDLabel \<mapsto> o_uid worktree)\<rparr>))))"

definition labelWorktreePods :: "'api kclient \<Rightarrow> worktree \<Rightarrow> string \<Rightarrow> ('api, unit) wctl" where
  "labelWorktreePods k worktree claimName =
     (if o_uid worktree = [] then ret ()
      else andThen (wrapped ''list Worktree workload Pods'' (read_call k ReadPods (k_cachedPods k (o_namespace worktree))))
             (each (label_pod k worktree claimName)))"

section \<open>Deferred bootstrap\<close>

text \<open>
  The Pod loop of \<^verbatim>\<open>reconcileWorkspaceBootstrap\<close>: the message of an early return, or the variables
  \<open>failedMessage\<close> and \<open>initializing\<close> after the loop.
\<close>

type_synonym boot_state = "string \<times> bool"

fun scan_statuses :: "string \<Rightarrow> boot_state \<Rightarrow> container_status list \<Rightarrow> string + boot_state" where
  "scan_statuses containerName st [] = Inr st"
| "scan_statuses containerName (failed, initializing) (c # cs) =
     (if cs_name c \<noteq> containerName then scan_statuses containerName (failed, initializing) cs
      else (case (if cs_exit c = None \<and> cs_waiting c then cs_lastExit c else cs_exit c) of
              Some code \<Rightarrow>
                if code = 0 then Inl ''Workspace runtime initialized the isolated Git checkout''
                else scan_statuses containerName
                       (''Workspace bootstrap init container exited with code '' @ int_digits code, initializing) cs
            | None \<Rightarrow> scan_statuses containerName (failed, True) cs))"

definition windows_owner :: "string \<Rightarrow> pod \<Rightarrow> bool" where
  "windows_owner generated p =
     (generated \<noteq> [] \<and> pd_os p = Some ''windows'' \<and> label_value p runtimeWorkspaceLabel = generated)"

fun scan_pods :: "string \<Rightarrow> string \<Rightarrow> string \<Rightarrow> boot_state \<Rightarrow> pod list \<Rightarrow> string + boot_state" where
  "scan_pods claimName containerName generated st [] = Inr st"
| "scan_pods claimName containerName generated (failed, initializing) (p # ps) =
     (if \<not> podUsesPersistentVolumeClaim p claimName
      then scan_pods claimName containerName generated (failed, initializing) ps
      else if windows_owner generated p \<and> (''Ready'', CTrue) \<in> set (pd_conditions p) \<and> pd_phase p = PodRunning
      then Inl ''Windows Workspace initialized the isolated Git checkout''
      else (case scan_statuses containerName (failed, initializing \<or> windows_owner generated p) (pd_initStatuses p) of
              Inl message \<Rightarrow> Inl message
            | Inr st \<Rightarrow> scan_pods claimName containerName generated st ps))"

definition reconcileWorkspaceBootstrap :: "'api kclient \<Rightarrow> worktree \<Rightarrow> string \<Rightarrow> string \<Rightarrow> string \<Rightarrow> ('api, unit) wctl" where
  "reconcileWorkspaceBootstrap k worktree claimName sourceClaimName path =
     (let set = (\<lambda>status reason message. setWorktreeStatus k worktree status reason message claimName sourceClaimName path)
      in if (case wt_conditions worktree ConditionReady of None \<Rightarrow> False | Some c \<Rightarrow> c_status c = CTrue)
         then set CTrue ''WorktreeReady'' ''Child volume and isolated Git checkout are ready''
         else andThen (wrapped ''list Pods while observing Workspace Worktree initialization''
                         (read_call k ReadPods (k_cachedPods k (o_namespace worktree)))) (\<lambda>pods.
              case scan_pods claimName (ContainerName (k_sha k) (o_namespace worktree) (o_name worktree) (o_uid worktree))
                     (label_value worktree GeneratedForLabel) ([], False) pods of
                Inl message \<Rightarrow> set CTrue ''WorktreeReady'' message
              | Inr (failed, initializing) \<Rightarrow>
                  if failed \<noteq> [] then set CFalse ''BootstrapFailed'' failed
                  else if initializing then set CFalse ''Initializing'' ''Workspace bootstrap init container is running''
                  else set CFalse ''WaitingForWorkspace''
                         ''Child volume is waiting for a Workspace runtime to initialize its Git branch''))"

section \<open>Reconcile\<close>

definition plan_reason_text :: "plan_reason \<Rightarrow> string" where
  "plan_reason_text r =
     (case r of SourceNotReady \<Rightarrow> ''CloneSourceNotReady'' | SizeTooSmall \<Rightarrow> ''CloneSizeTooSmall''
      | StorageInvalid \<Rightarrow> ''CloneStorageInvalid'')"

definition reserve_clone :: "'api kclient \<Rightarrow> worktree \<Rightarrow> repository \<Rightarrow> ('api, admission) wctl" where
  "reserve_clone k worktree repository =
     andThen (clock (k_clock k)) (\<lambda>now.
     call (k_env k) (ReserveClone repository) (\<lambda>e api.
       case Gate_Acquire DefaultBackoff e now (gate_store k now repository)
              (k_readRepository k (o_namespace repository) (o_name repository)) (list_pod_views k (o_namespace repository))
              (list_claim_views k (o_namespace repository)) repository (cloneHolder worktree) True api of
         (api', admission, None) \<Rightarrow> (api', Inr admission)
       | (api', _, Some x) \<Rightarrow> (api', Inl x)))"

text \<open>
  The part of \<^verbatim>\<open>reconcileWorktree\<close> that creates the child volume: \<open>Inl\<close> is an early return, \<open>Inr\<close> the
  created claim. The messages of a rejected plan are left out, its reason is kept.
\<close>

definition stop_with :: "ctrl_result \<Rightarrow> ('api, unit) wctl \<Rightarrow> ('api, ctrl_result + pvc) wctl" where
  "stop_with result m = andThen m (\<lambda>_. ret (Inl result))"

definition plan_child :: "'api kclient \<Rightarrow> worktree \<Rightarrow> string \<Rightarrow> repository \<Rightarrow> pvc option \<Rightarrow> ('api, ctrl_result + pvc) wctl" where
  "plan_child k worktree claimName repository source =
     (case PlanClone source (rp_size repository) (wt_storage worktree) of
        Inl reason \<Rightarrow>
          andThen (releaseClone k worktree) (\<lambda>_.
          stop_with (if Retryable reason then Some worktreeRequeueDelay else None)
            (setWorktreeStatus k worktree (if Retryable reason then CUnknown else CFalse)
               (plan_reason_text reason) [] [] (rs_claim (rp_status repository)) (worktreePath worktree)))
      | Inr plan \<Rightarrow>
          andThen (wrapped ''set Worktree owner on PersistentVolumeClaim''
            (of_result (SetControllerReference repositoriesGroupVersion ''Worktree'' worktree
               (worktreeVolumeClaim worktree claimName (o_name (the source)) plan)))) (\<lambda>child.
          andThen (wrapped ''create Worktree PersistentVolumeClaim''
            (call (k_env k) (CreateClaim child) (\<lambda>e api. k_createClaim k child (e 0 api)))) (\<lambda>created.
          ret (Inr created))))"

definition admit_child :: "'api kclient \<Rightarrow> worktree \<Rightarrow> string \<Rightarrow> repository \<Rightarrow> ('api, ctrl_result + pvc) wctl" where
  "admit_child k worktree claimName repository =
     (let source_name = rs_claim (rp_status repository); path = worktreePath worktree
      in case Failure repository of
           Some message \<Rightarrow>
             andThen (releaseClone k worktree) (\<lambda>_.
             stop_with None (setWorktreeStatus k worktree CFalse FailedReason message [] source_name path))
         | None \<Rightarrow>
             andThen (reserve_clone k worktree repository) (\<lambda>admission.
             if admission \<noteq> Admitted
             then stop_with (Some worktreeRequeueDelay) (setWorktreeStatus k worktree CUnknown ''RepositoryNotReady''
                    ''Repository is busy or not ready for cloning'' [] source_name path)
             else andThen (wrapped ''get clone source PVC''
                    (getOr (read_call k (ReadClaim source_name) (k_readClaim k (o_namespace worktree) source_name))
                       (ret None) (\<lambda>c. ret (Some c)))) (plan_child k worktree claimName repository)))"

definition create_child :: "'api kclient \<Rightarrow> worktree \<Rightarrow> string \<Rightarrow> ('api, ctrl_result + pvc) wctl" where
  "create_child k worktree claimName =
     (if wt_claim worktree \<noteq> []
      then andThen (releaseClone k worktree) (\<lambda>_.
           stop_with None (setWorktreeStatus k worktree CFalse ReasonVolumeClaimLost
             ''Previously created child PVC is missing; restore the child or recreate the Worktree explicitly''
             (wt_claim worktree) (wt_sourceClaim worktree) (worktreePath worktree)))
      else andThen (attempt (read_call k ReadRepository (k_cachedRepository k (o_namespace worktree) (wt_repository worktree)))) (\<lambda>found.
           case found of
             Inl e \<Rightarrow>
               if err_is ENotFound e
               then stop_with None (setWorktreeStatus k worktree CFalse ''RepositoryNotFound''
                      ''Referenced Repository does not exist'' [] [] (worktreePath worktree))
               else raise (EWrap ''get Repository'' e)
           | Inr repository \<Rightarrow> admit_child k worktree claimName repository))"

definition job_true :: "job \<Rightarrow> string \<Rightarrow> job_condition option" where
  "job_true j conditionType =
     (case jobCondition j conditionType of
        None \<Rightarrow> None
      | Some c \<Rightarrow> if jc_status c = CTrue then Some c else None)"

definition reconcileBootstrapJob :: "'api kclient \<Rightarrow> worktree \<Rightarrow> string \<Rightarrow> string \<Rightarrow> ('api, ctrl_result) wctl" where
  "reconcileBootstrapJob k worktree claimName sourceClaimName =
     (let path = worktreePath worktree;
          set = (\<lambda>status reason message p. andThen (setWorktreeStatus k worktree status reason message claimName sourceClaimName p) (\<lambda>_. ret None))
      in andThen (attempt (read_call k ReadJob (k_cachedJob k (o_namespace worktree) (worktreeBootstrapJobName (k_sha k) worktree)))) (\<lambda>found.
         case found of
           Inl e \<Rightarrow>
             if err_is ENotFound e
             then andThen (wrapped ''set Worktree owner on bootstrap Job''
                    (of_result (SetControllerReference repositoriesGroupVersion ''Worktree'' worktree
                       (worktreeBootstrapJob (k_sha k) worktree claimName (k_image k))))) (\<lambda>j.
                  andThen (wrapped ''create Worktree bootstrap Job'' (write_call k (CreateJob j) (k_createJob k j))) (\<lambda>_.
                  set CFalse ''Initializing'' ''Worktree bootstrap Job is running'' workerMountPath))
             else raise (EWrap ''get Worktree bootstrap Job'' e)
         | Inr j \<Rightarrow>
             if \<not> is_controlled_by j (o_uid worktree)
             then set CFalse ''BootstrapJobConflict'' ''A bootstrap Job with the expected name is not owned by this Worktree'' path
             else let initialized = (case annotation_value j worktreePathAnnotation of Raw p \<Rightarrow> (if p \<noteq> [] then p else path) | Doc _ \<Rightarrow> path)
                  in (case job_true j ''Failed'' of
                        Some c \<Rightarrow>
                          set CFalse ''BootstrapFailed''
                            (if jc_message c = [] then ''Worktree bootstrap Job failed'' else jc_message c) initialized
                      | None \<Rightarrow>
                          if job_true j ''Complete'' \<noteq> None
                          then set CTrue ''WorktreeReady'' ''Child volume and isolated Git checkout are ready'' initialized
                          else set CFalse ''Initializing'' ''Worktree bootstrap Job is running'' initialized)))"

text \<open>\<^verbatim>\<open>err.Error()\<close> of the errors whose text the model keeps.\<close>

definition err_message :: "err \<Rightarrow> string" where
  "err_message e = (case e of EMsg m \<Rightarrow> m | EClaimConflict m \<Rightarrow> m | _ \<Rightarrow> [])"

definition already_ready :: "worktree \<Rightarrow> bool" where
  "already_ready worktree =
     (case wt_conditions worktree ConditionReady of
        None \<Rightarrow> False
      | Some ready \<Rightarrow> c_status ready = CTrue \<and> c_observed ready = o_generation worktree \<and>
                      wt_observed worktree = o_generation worktree)"

text \<open>
  The part of \<^verbatim>\<open>reconcileWorktree\<close> after the child volume is known. The protecting patch carries the claim's
  resourceVersion and changes its finalizers only, so the claim's other fields are still those that were read.
\<close>

definition reconcile_child :: "'api kclient \<Rightarrow> worktree \<Rightarrow> pvc \<Rightarrow> ('api, ctrl_result) wctl" where
  "reconcile_child k worktree claim =
     (let path = worktreePath worktree;
          set = (\<lambda>status reason message source.
                   andThen (setWorktreeStatus k worktree status reason message (o_name claim) source path) (\<lambda>_. ret None))
      in case CloneSourceName claim of
           Inl e \<Rightarrow> set CFalse ''VolumeClaimSpecChanged'' (err_message e) []
         | Inr sourceClaimName \<Rightarrow>
             andThen (write_call k (PatchClaim claim) (EnsureVolumeProtection (k_patchClaim k) claim)) (\<lambda>_.
             if \<not> worktreeClaimMatches claim (wt_storage worktree)
             then set CFalse ''VolumeClaimSpecChanged'' ''Changing the Worktree child volume specification is not supported'' sourceClaimName
             else if pvc_phase claim \<noteq> ''Bound''
             then set CFalse ''Provisioning'' ''Child volume is provisioning'' sourceClaimName
             else andThen (releaseClone k worktree) (\<lambda>_.
                  andThen (setWorktreeVolumeReady k worktree (o_name claim) sourceClaimName path) (\<lambda>_.
                  andThen (labelWorktreePods k worktree (o_name claim)) (\<lambda>_.
                  if already_ready worktree then ret None
                  else if Deferred worktree
                  then andThen (attempt (read_call k ReadJob
                                  (k_cachedJob k (o_namespace worktree) (worktreeBootstrapJobName (k_sha k) worktree)))) (\<lambda>legacy.
                       case legacy of
                         Inl e \<Rightarrow>
                           if err_is ENotFound e
                           then andThen (reconcileWorkspaceBootstrap k worktree (o_name claim) sourceClaimName path) (\<lambda>_. ret None)
                           else raise (EWrap ''get legacy generated Worktree bootstrap Job'' e)
                       | Inr _ \<Rightarrow> reconcileBootstrapJob k worktree (o_name claim) sourceClaimName)
                  else reconcileBootstrapJob k worktree (o_name claim) sourceClaimName)))))"

definition storage_deleted :: "time \<Rightarrow> time_codec \<Rightarrow> worktree \<Rightarrow> pvc option \<Rightarrow> bool" where
  "storage_deleted now tc worktree claim =
     (MountsClosed now tc worktree \<or> (claim = None \<and> wt_claim worktree \<noteq> []) \<or>
      (case claim of None \<Rightarrow> False | Some c \<Rightarrow> is_controlled_by c (o_uid worktree) \<and> o_deleting c \<noteq> None))"

definition reconcile_live :: "'api kclient \<Rightarrow> worktree \<Rightarrow> ('api, ctrl_result) wctl" where
  "reconcile_live k worktree =
     andThen (resolve_claim k worktree) (\<lambda>(claimName, claim, err).
     andThen (clock (k_clock k)) (\<lambda>now.
     case err of
       Some e \<Rightarrow>
         if \<not> IsConflict e then raise (EWrap ''get Worktree PersistentVolumeClaim'' e)
         else if storage_deleted now (k_codec k) worktree claim then reconcileStorageDeletion k worktree
         else andThen (setWorktreeStatus k worktree CFalse ReasonVolumeClaimConflict (err_message e) (wt_claim worktree)
                         (wt_sourceClaim worktree) (worktreePath worktree)) (\<lambda>_. ret None)
     | None \<Rightarrow>
         if storage_deleted now (k_codec k) worktree claim then reconcileStorageDeletion k worktree
         else (case claim of
                 Some c \<Rightarrow> reconcile_child k worktree c
               | None \<Rightarrow>
                   andThen (create_child k worktree claimName) (\<lambda>made.
                   case made of Inl result \<Rightarrow> ret result | Inr c \<Rightarrow> reconcile_child k worktree c))))"

definition ensure_finalizer :: "'api kclient \<Rightarrow> worktree \<Rightarrow> ('api, worktree) wctl" where
  "ensure_finalizer k worktree =
     (if contains_finalizer worktree DeletionFinalizer then ret worktree
      else wrapped ''add Worktree deletion finalizer''
             (call (k_env k) (AddFinalizer worktree)
                (\<lambda>e api. k_mergeWorktree k worktree (add_finalizer DeletionFinalizer worktree) (e 0 api))))"

definition reconcile_settled :: "'api kclient \<Rightarrow> worktree \<Rightarrow> ('api, ctrl_result) wctl" where
  "reconcile_settled k worktree =
     (if o_deleting worktree \<noteq> None then reconcileDelete k worktree
      else andThen (ensure_finalizer k worktree) (reconcile_live k))"

definition reconcileWorktree :: "'api kclient \<Rightarrow> string \<Rightarrow> string \<Rightarrow> ('api, ctrl_result) wctl" where
  "reconcileWorktree k namespace name =
     (let read = read_call k ReadWorktree (k_readWorktree k namespace name)
      in getOr read (ret None) (\<lambda>worktree.
         andThen (reconcileWorktreeHolders k worktree) (\<lambda>changed.
         if changed then getOr read (ret None) (reconcile_settled k)
         else reconcile_settled k worktree)))"

definition Reconcile_worktree :: "'api kclient \<Rightarrow> string \<Rightarrow> string \<Rightarrow> ('api, ctrl_result) wctl" where
  "Reconcile_worktree k namespace name =
     andThen (reconcileWorktree k namespace name) (\<lambda>result.
     andThen (publishUsage k namespace name) (\<lambda>_. ret result))"

section \<open>Watches\<close>

text \<open>Which Worktrees an event of another object enqueues; a failed list enqueues nothing.\<close>

definition worktreesForWorkspace :: "workspace \<Rightarrow> (string \<times> string) list" where
  "worktreesForWorkspace workspace =
     map (\<lambda>name. (o_namespace workspace, name)) (sort (remdups (List.map_filter mt_worktree (ws_mounts workspace))))"

definition worktreeForExec :: "worktree_exec \<Rightarrow> (string \<times> string) list" where
  "worktreeForExec exec = (if wx_worktree exec = [] then [] else [(o_namespace exec, wx_worktree exec)])"

definition worktreesForRepository :: "worktree list result \<Rightarrow> (string \<times> string) list" where
  "worktreesForRepository listed =
     (case listed of Inl _ \<Rightarrow> [] | Inr ws \<Rightarrow> map (\<lambda>w. (o_namespace w, o_name w)) ws)"

definition worktreesForClaim ::
  "(string \<Rightarrow> string option) \<Rightarrow> (string \<Rightarrow> worktree list result) \<Rightarrow> pvc \<Rightarrow> (string \<times> string) list" where
  "worktreesForClaim parseGroup byRepository claim =
     (case o_controller claim of
        None \<Rightarrow> []
      | Some owner \<Rightarrow>
          if parseGroup (or_apiVersion owner) \<noteq> Some repositoriesGroup then []
          else if or_kind owner = ''Worktree'' then [(o_namespace claim, or_name owner)]
          else if or_kind owner = ''Repository'' then worktreesForRepository (byRepository (or_name owner))
          else [])"

definition worktreesForPod :: "worktree list result \<Rightarrow> pod \<Rightarrow> (string \<times> string) list" where
  "worktreesForPod listed p =
     (case listed of
        Inl _ \<Rightarrow> []
      | Inr ws \<Rightarrow> map (\<lambda>w. (o_namespace w, o_name w))
                    (filter (\<lambda>w. wt_claim w \<noteq> [] \<and> podUsesPersistentVolumeClaim p (wt_claim w)) ws))"

end
