(* ===== verification/WorktreeSafety.thy ===== *)
theory WorktreeSafety
  imports WorktreeController
begin

text \<open>
  What the Worktree controller guarantees, for every server, every answer and every interleaving with other
  clients: theorems about the calls of a run (theory Controller).
\<close>

section \<open>The calls of each operation\<close>

text \<open>\<open>emits P\<close> for every operation, from \<open>P\<close> of the calls it makes.\<close>

lemma emits_read_again [emits_intros]: "(\<And>r. P (ReadWorktree r)) \<Longrightarrow> emits P (read_again k wt)"
  unfolding read_again_def by (intro emits_intros)

lemma emits_cached_again [emits_intros]: "(\<And>r. P (ReadWorktree r)) \<Longrightarrow> emits P (cached_again k wt)"
  unfolding cached_again_def by (intro emits_intros)

lemma emits_setDeletionBlocked [emits_intros]:
  assumes "\<And>r. P (ReadWorktree r)"
    "\<And>now cur r. P (WriteStatus cur (cur\<lparr>wt_conditions := blocked_conditions now cur wait\<rparr>) r)"
  shows "emits P (setDeletionBlocked k wt wait)"
  unfolding setDeletionBlocked_def Let_def by (intro emits_intros assms)

lemma emits_setStorageDeletionStatus [emits_intros]:
  assumes "\<And>r. P (ReadWorktree r)" "\<And>now cur r. P (WriteStatus cur (deletion_status now reason message cur) r)"
  shows "emits P (setStorageDeletionStatus k wt reason message)"
  unfolding setStorageDeletionStatus_def Let_def by (intro emits_intros assms)

lemma emits_setWorktreeVolumeReady [emits_intros]:
  assumes "\<And>r. P (ReadWorktree r)" "\<And>now cur r. P (WriteStatus cur (volume_ready_status now c s p cur) r)"
  shows "emits P (setWorktreeVolumeReady k wt c s p)"
  unfolding setWorktreeVolumeReady_def Let_def by (intro emits_intros assms)

lemma emits_setWorktreeStatus:
  assumes "\<And>r. P (ReadWorktree r)"
    "\<And>now cur r. P (WriteStatus cur (worktree_status (k_sha k) now status reason message c s p cur) r)"
  shows "emits P (setWorktreeStatus k wt status reason message c s p)"
  unfolding setWorktreeStatus_def Let_def by (intro emits_intros assms)

lemma emits_publishUsage [emits_intros]:
  assumes "\<And>r. P (ReadWorktree r)" "\<And>r. P (ReadPods r)"
    "\<And>now hs cs cur r. P (WriteStatus cur (usage_status now hs cs cur) r)"
  shows "emits P (publishUsage k namespace name)"
  unfolding publishUsage_def usage_consumers_def Let_def by (intro emits_intros assms)

lemma emits_releaseClone [emits_intros]: "(\<And>r. P (DropReservation r)) \<Longrightarrow> emits P (releaseClone k wt)"
  unfolding releaseClone_def by (intro emits_intros)

lemma emits_release_protection [emits_intros]: "(\<And>c r. P (PatchClaim c r)) \<Longrightarrow> emits P (release_protection k c)"
  unfolding release_protection_def by (intro emits_intros)

lemma emits_read_legacy [emits_intros]: "(\<And>r. P (ReadLease r)) \<Longrightarrow> emits P (read_legacy k wt)"
  unfolding read_legacy_def by (intro emits_intros)

lemma emits_resolve_claim [emits_intros]: "(\<And>r. P (ResolveClaim r)) \<Longrightarrow> emits P (resolve_claim k wt)"
  unfolding resolve_claim_def by (intro emits_intros)

lemma emits_prepareWorktreeCleanup [emits_intros]:
  assumes "\<And>r. P (CloseFence r)" "\<And>r. P (ReadReferences r)" "\<And>r. P (ReadLease r)" "\<And>l r. P (DeleteLease l r)"
    "\<And>r. P (ResolveClaim r)" "\<And>r. P (ReadPods r)"
  shows "emits P (prepareWorktreeCleanup k wt)"
  unfolding prepareWorktreeCleanup_def cleanup_references_def cleanup_legacy_def cleanup_consumers_def cleanupReferenceWait_def cleanupReferenceBlockers_def
    delete_old_fence_def Let_def
  by (intro emits_intros assms)

lemma emits_holderOwnerGone [emits_intros]:
  "(\<And>r. P (ReadOwner h r)) \<Longrightarrow> emits P (holderOwnerGone k n h)"
  unfolding holderOwnerGone_def by (intro emits_intros)

lemma emits_claimInUse [emits_intros]: "(\<And>r. P (ReadPods r)) \<Longrightarrow> emits P (claimInUse k n c)"
  unfolding claimInUse_def by (intro emits_intros)

lemma emits_worktree_stale [emits_intros]:
  assumes "\<And>h r. P (ReadOwner h r)" "\<And>r. P (ReadPods r)"
  shows "emits P (worktree_stale k wt m h)"
  unfolding worktree_stale_def by (intro emits_intros assms)

lemma emits_sweepWorktreeHolders [emits_intros]:
  assumes "\<And>h r. P (ReadOwner h r)" "\<And>r. P (ReadPods r)" "\<And>r. P (LoadHolders r)" "\<And>c r. P (RemoveHolders c r)"
  shows "emits P (sweepWorktreeHolders k wt)"
  unfolding sweepWorktreeHolders_def by (intro emits_intros assms)

lemma emits_importLegacyWriter [emits_intros]:
  assumes "\<And>r. P (ReadLease r)" "\<And>r. P (ReadWorkspace r)" "\<And>r. P (ReadWorktreeExec r)" "\<And>h r. P (ImportWriter h r)"
    "\<And>l r. P (DeleteLease l r)"
  shows "emits P (importLegacyWriter k wt)"
  unfolding importLegacyWriter_def record_legacy_def legacyWriterWanted_def by (intro emits_intros assms)

lemma emits_reconcileWorktreeHolders [emits_intros]:
  assumes "\<And>r. P (ReadLease r)" "\<And>r. P (ReadWorkspace r)" "\<And>r. P (ReadWorktreeExec r)" "\<And>h r. P (ImportWriter h r)"
    "\<And>l r. P (DeleteLease l r)" "\<And>h r. P (ReadOwner h r)" "\<And>r. P (ReadPods r)" "\<And>r. P (LoadHolders r)"
    "\<And>c r. P (RemoveHolders c r)"
  shows "emits P (reconcileWorktreeHolders k wt)"
  unfolding reconcileWorktreeHolders_def by (intro emits_intros assms)

lemma emits_reconcileStorageDeletion [emits_intros]:
  assumes "emits P (prepareWorktreeCleanup k wt)" "\<And>n r. P (ReadClaim n r)" "\<And>r. P (DropReservation r)" "\<And>r. P (ReadWorktree r)"
    "\<And>c r. P (PatchClaim c r)"
    "\<And>now reason message cur r. reason \<noteq> ReasonVolumeClaimLost \<Longrightarrow> P (WriteStatus cur (deletion_status now reason message cur) r)"
  shows "emits P (reconcileStorageDeletion k wt)"
  unfolding reconcileStorageDeletion_def by (intro emits_intros assms) (simp_all add: ReasonVolumeClaimLost_def)

lemma emits_labelWorktreePods [emits_intros]:
  assumes "\<And>r. P (ReadPods r)" "\<And>p r. P (LabelPod p r)"
  shows "emits P (labelWorktreePods k wt c)"
  unfolding labelWorktreePods_def label_pod_def by (intro emits_intros assms)

lemma emits_reserve_clone [emits_intros]: "(\<And>r. P (ReserveClone repo r)) \<Longrightarrow> emits P (reserve_clone k wt repo)"
  unfolding reserve_clone_def by (intro emits_intros)

lemma emits_ensure_finalizer [emits_intros]: "(\<And>r. P (AddFinalizer wt r)) \<Longrightarrow> emits P (ensure_finalizer k wt)"
  unfolding ensure_finalizer_def by (intro emits_intros)

definition status_events :: "(wt_event \<Rightarrow> bool) \<Rightarrow> bool" where
  "status_events P \<longleftrightarrow> (\<forall>r. P (ReadWorktree r)) \<and>
     (\<forall>sha now status reason message c s p cur r. reason \<noteq> ReasonVolumeClaimLost \<longrightarrow>
        P (WriteStatus cur (worktree_status sha now status reason message c s p cur) r))"

lemma emits_status [emits_intros]:
  "status_events P \<Longrightarrow> reason \<noteq> ReasonVolumeClaimLost \<Longrightarrow> emits P (setWorktreeStatus k wt status reason message c s p)"
  by (intro emits_setWorktreeStatus) (simp_all add: status_events_def)

lemmas reason_simps = ReasonVolumeClaimLost_def ReasonVolumeClaimConflict_def FailedReason_def plan_reason_text_def

lemma emits_reconcileWorkspaceBootstrap [emits_intros]:
  assumes "\<And>r. P (ReadPods r)" "status_events P"
  shows "emits P (reconcileWorkspaceBootstrap k wt c s p)"
  unfolding reconcileWorkspaceBootstrap_def Let_def by (intro emits_intros assms) (simp_all add: reason_simps)

lemma emits_reconcileBootstrapJob [emits_intros]:
  assumes "\<And>r. P (ReadJob r)" "\<And>j r. P (CreateJob j r)" "status_events P"
  shows "emits P (reconcileBootstrapJob k wt c s)"
  unfolding reconcileBootstrapJob_def Let_def by (intro emits_intros assms) (simp_all add: reason_simps)

lemma emits_reconcile_child [emits_intros]:
  assumes "\<And>c r. P (PatchClaim c r)" "\<And>r. P (DropReservation r)" "\<And>r. P (ReadPods r)" "\<And>p r. P (LabelPod p r)"
    "\<And>r. P (ReadJob r)" "\<And>j r. P (CreateJob j r)" "status_events P"
    "\<And>now c s p cur r. P (WriteStatus cur (volume_ready_status now c s p cur) r)"
  shows "emits P (reconcile_child k wt claim)"
proof -
  have "\<And>r. P (ReadWorktree r)" using assms(7) by (simp add: status_events_def)
  then show ?thesis
    unfolding reconcile_child_def Let_def by (intro emits_intros assms) (simp_all add: reason_simps)
qed

lemma emits_create_child [emits_intros]:
  assumes "wt_claim wt = []" "\<And>r. P (ReadRepository r)" "\<And>r. P (DropReservation r)" "\<And>rp r. P (ReserveClone rp r)"
    "\<And>n r. P (ReadClaim n r)" "\<And>c r. P (CreateClaim c r)" "status_events P"
  shows "emits P (create_child k wt name)"
  unfolding create_child_def admit_child_def plan_child_def stop_with_def Let_def
  by (simp only: assms(1) simp_thms if_False, intro emits_intros assms) (auto simp: reason_simps split: plan_reason.splits)

lemma emits_finish_deletion [emits_intros]:
  assumes "\<And>r. P (ReadWorktree r)" "\<And>r. P (DropReservation r)" "\<And>c r. P (RemoveFinalizer c r)"
    "\<And>now cur wait r. P (WriteStatus cur (cur\<lparr>wt_conditions := blocked_conditions now cur wait\<rparr>) r)"
  shows "emits P (finish_deletion k wt)"
  unfolding finish_deletion_def remove_deletion_finalizer_def by (intro emits_intros assms)

lemma emits_reconcileDelete [emits_intros]:
  assumes "emits P (prepareWorktreeCleanup k wt)" "\<And>n r. P (ReadClaim n r)" "\<And>c r. P (PatchClaim c r)"
    "\<And>r. P (ReadWorktree r)" "\<And>r. P (DropReservation r)" "\<And>c r. P (RemoveFinalizer c r)"
    "\<And>now cur wait r. P (WriteStatus cur (cur\<lparr>wt_conditions := blocked_conditions now cur wait\<rparr>) r)"
  shows "emits P (reconcileDelete k wt)"
  unfolding reconcileDelete_def delete_claim_def by (intro emits_intros assms)

text \<open>The calls of \<open>reconcile_live\<close> apart from its early calls.\<close>

definition live_events :: "(wt_event \<Rightarrow> bool) \<Rightarrow> bool" where
  "live_events P \<longleftrightarrow> status_events P \<and> (\<forall>r. P (ResolveClaim r)) \<and> (\<forall>r. P (CloseFence r)) \<and> (\<forall>r. P (ReadReferences r)) \<and>
     (\<forall>r. P (ReadLease r)) \<and> (\<forall>l r. P (DeleteLease l r)) \<and> (\<forall>r. P (ReadPods r)) \<and> (\<forall>n r. P (ReadClaim n r)) \<and>
     (\<forall>r. P (DropReservation r)) \<and> (\<forall>c r. P (PatchClaim c r)) \<and> (\<forall>p r. P (LabelPod p r)) \<and> (\<forall>r. P (ReadJob r)) \<and>
     (\<forall>j r. P (CreateJob j r)) \<and> (\<forall>r. P (ReadRepository r)) \<and> (\<forall>rp r. P (ReserveClone rp r)) \<and>
     (\<forall>now c s p cur r. P (WriteStatus cur (volume_ready_status now c s p cur) r)) \<and>
     (\<forall>now reason message cur r. reason \<noteq> ReasonVolumeClaimLost \<longrightarrow>
        P (WriteStatus cur (deletion_status now reason message cur) r))"

lemma live_eventsD:
  assumes "live_events P"
  shows "status_events P" "P (ResolveClaim r1)" "P (CloseFence r2)" "P (ReadReferences r3)" "P (ReadLease r4)"
    "P (DeleteLease l r5)" "P (ReadPods r6)" "P (ReadClaim n r7)" "P (DropReservation r8)" "P (PatchClaim c r9)"
    "P (LabelPod p r10)" "P (ReadJob r11)" "P (CreateJob j r12)" "P (ReadRepository r13)" "P (ReserveClone rp r14)"
    "P (WriteStatus cur (volume_ready_status now cl s pa cur) r15)"
    "reason \<noteq> ReasonVolumeClaimLost \<Longrightarrow> P (WriteStatus cur (deletion_status now reason message cur) r16)"
    "P (ReadWorktree r17)"
  using assms by (simp_all add: live_events_def status_events_def)

lemma emits_reconcile_live [emits_intros]:
  assumes "live_events P" "\<And>c r. P (CreateClaim c r)"
  shows "emits P (reconcile_live k wt)"
  unfolding reconcile_live_def storage_deleted_def
  by (intro emits_intros live_eventsD [OF assms(1)] assms(2)) (auto simp: reason_simps)

lemma emits_reconcile_settled [emits_intros]:
  assumes "live_events P" "\<And>c r. P (CreateClaim c r)" "\<And>c r. P (RemoveFinalizer c r)" "\<And>wt r. P (AddFinalizer wt r)"
    "\<And>now cur wait r. P (WriteStatus cur (cur\<lparr>wt_conditions := blocked_conditions now cur wait\<rparr>) r)"
  shows "emits P (reconcile_settled k wt)"
  unfolding reconcile_settled_def by (intro emits_intros live_eventsD [OF assms(1)] assms)

lemma emits_reconcileWorktree [emits_intros]:
  assumes "live_events P" "\<And>c r. P (CreateClaim c r)" "\<And>c r. P (RemoveFinalizer c r)" "\<And>wt r. P (AddFinalizer wt r)"
    "\<And>now cur wait r. P (WriteStatus cur (cur\<lparr>wt_conditions := blocked_conditions now cur wait\<rparr>) r)"
    "\<And>r. P (ReadWorkspace r)" "\<And>r. P (ReadWorktreeExec r)" "\<And>h r. P (ImportWriter h r)" "\<And>h r. P (ReadOwner h r)"
    "\<And>r. P (LoadHolders r)" "\<And>c r. P (RemoveHolders c r)"
  shows "emits P (reconcileWorktree k namespace name)"
  unfolding reconcileWorktree_def Let_def by (intro emits_intros live_eventsD [OF assms(1)] assms)

section \<open>Deletion\<close>

text \<open>
  The evidence for the removal of the deletion finalizer. The Worktree was read while it was deleting; its fence was
  closed and no holder remained; no Workspace mounted it; no legacy writer Lease was left; no Pod used its
  volume; the volume was absent, foreign, or bound and not being deleted.
\<close>

definition is_removal :: "wt_event \<Rightarrow> bool" where
  "is_removal e = (case e of RemoveFinalizer _ _ \<Rightarrow> True | _ \<Rightarrow> False)"

definition no_legacy_writer :: "lease result \<Rightarrow> bool" where
  "no_legacy_writer lr =
     (case LegacyWriterOf lr of Inl _ \<Rightarrow> False | Inr None \<Rightarrow> True | Inr (Some l) \<Rightarrow> lw_deletion l)"

definition volume_settled :: "worktree \<Rightarrow> pvc result \<Rightarrow> bool" where
  "volume_settled wt rc =
     (case rc of
        Inl e \<Rightarrow> err_is ENotFound e
      | Inr c \<Rightarrow> \<not> is_controlled_by c (o_uid wt) \<or> (o_deleting c = None \<and> pvc_phase c = ''Bound''))"

definition drained :: "worktree \<Rightarrow> string \<Rightarrow> wt_event list \<Rightarrow> bool" where
  "drained wt name tr \<longleftrightarrow>
     (\<exists>pre lr del c e pods.
        tr = pre @ [CloseFence (Inr []), ReadReferences (Inr []), ReadLease lr] @ del @
               [ResolveClaim (Inr (name, c, e)), ReadPods (Inr pods)] \<and>
        ReadWorktree (Inr wt) \<in> set pre \<and> no_legacy_writer lr \<and> \<not> list_ex (running_consumer name) pods)"

definition settled :: "worktree \<Rightarrow> wt_event list \<Rightarrow> bool" where
  "settled wt tr \<longleftrightarrow>
     (\<exists>pre name rc rest. tr = pre @ [ReadClaim name rc] @ rest \<and> drained wt name pre \<and> volume_settled wt rc)"

definition cleanup_evidence :: "wt_event list \<Rightarrow> bool" where
  "cleanup_evidence tr \<longleftrightarrow>
     (\<exists>pre rest wt. tr = pre @ [DropReservation (Inr ())] @ rest \<and> settled wt pre \<and> o_deleting wt \<noteq> None \<and>
        contains_finalizer wt DeletionFinalizer)"

abbreviation removal_ok :: "wt_event list \<Rightarrow> bool" where
  "removal_ok \<equiv> before is_removal cleanup_evidence"

lemma lasting_settled: "lasting (settled wt)"
  unfolding lasting_def settled_def by fastforce

lemma lasting_cleanup_evidence: "lasting cleanup_evidence"
  unfolding lasting_def cleanup_evidence_def by fastforce

text \<open>The stages of the cleanup: after the fence and the references, after the Lease.\<close>

definition fenced_trace :: "worktree \<Rightarrow> wt_event list \<Rightarrow> bool" where
  "fenced_trace wt tr \<longleftrightarrow>
     (\<exists>pre. tr = pre @ [CloseFence (Inr []), ReadReferences (Inr [])] \<and> ReadWorktree (Inr wt) \<in> set pre)"

definition free_trace :: "worktree \<Rightarrow> wt_event list \<Rightarrow> bool" where
  "free_trace wt tr \<longleftrightarrow>
     (\<exists>pre lr del. tr = pre @ [ReadLease lr] @ del \<and> fenced_trace wt pre \<and> no_legacy_writer lr)"

lemma lasting_free_trace: "lasting (free_trace wt)"
  unfolding lasting_def free_trace_def by fastforce

lemma holderWait_None: "holderWait remaining = None \<longleftrightarrow> remaining = []"
  by (auto simp: holderWait_def Let_def)

text \<open>What the stages promise: when nothing is left to wait for, the volume's users are drained.\<close>

definition cleanup_post :: "worktree \<Rightarrow> (string \<times> cleanup_wait option) result \<Rightarrow> wt_event list \<Rightarrow> bool" where
  "cleanup_post wt r t = (case r of Inl e \<Rightarrow> True | Inr (name, wait) \<Rightarrow> wait = None \<longrightarrow> drained wt name t)"

lemma cleanup_post_waits [simp]:
  "cleanup_post wt (Inl e) t" "cleanup_post wt (Inr (name, Some wait)) t"
  "cleanup_post wt (Inr (name, None)) t = drained wt name t"
  by (simp_all add: cleanup_post_def)

lemma cleanup_consumers_trace: "runs (free_trace wt) (cleanup_consumers k wt) (cleanup_post wt)"
proof -
  have found: "drained wt name (t @ [ResolveClaim (Inr (name, c, e)), ReadPods (Inr pods)])"
    if "free_trace wt t" "filter (running_consumer name) pods = []" for t name c e pods
    using that unfolding drained_def free_trace_def fenced_trace_def list_ex_iff
    by (fastforce simp: filter_empty_conv)
  have pods: "runs (\<lambda>t. \<exists>pre. t = pre @ [ResolveClaim (Inr (name, c, e))] \<and> free_trace wt pre)
      (andThen (read_call k ReadPods (k_readPods k (o_namespace wt))) (\<lambda>pods.
         if filter (running_consumer name) pods \<noteq> [] then ret ([], Some (msg pods)) else ret (name, None))) (cleanup_post wt)" for name c e msg
    by (rule runs_andThen [where S = "\<lambda>pods t. \<exists>pre. t = pre @ [ResolveClaim (Inr (name, c, e)), ReadPods (Inr pods)] \<and> free_trace wt pre"])
       (auto intro!: runs_call runs_ret found split: sum.splits)
  show ?thesis
    unfolding cleanup_consumers_def resolve_claim_def Let_def
    by (rule runs_andThen [where S = "\<lambda>x t. \<exists>pre. t = pre @ [ResolveClaim (Inr x)] \<and> free_trace wt pre"])
       (auto intro!: runs_call runs_raise pods split: sum.splits prod.splits)
qed

lemma delete_old_fence_trace:
  "runs (free_trace wt) (andThen (delete_old_fence k l) (\<lambda>_. cleanup_consumers k wt)) (cleanup_post wt)"
proof (rule runs_andThen [OF _ cleanup_consumers_trace])
  have "emits (\<lambda>_. True) (delete_old_fence k l)" unfolding delete_old_fence_def by (intro emits_intros TrueI)
  from runs_lasting [OF this lasting_free_trace]
  show "runs (free_trace wt) (delete_old_fence k l)
      (\<lambda>r t. case r of Inl e \<Rightarrow> cleanup_post wt (Inl e) t | Inr _ \<Rightarrow> free_trace wt t)"
    by (rule runs_post) (auto split: sum.splits)
qed

lemma read_legacy_trace:
  "runs (fenced_trace wt) (read_legacy k wt)
     (\<lambda>r t. case r of Inl e \<Rightarrow> True | Inr x \<Rightarrow> \<exists>pre lr. t = pre @ [ReadLease lr] \<and> fenced_trace wt pre \<and> LegacyWriterOf lr = Inr x)"
  unfolding read_legacy_def
  by (rule runs_andThen [where S = "\<lambda>lr t. \<exists>pre. t = pre @ [ReadLease lr] \<and> fenced_trace wt pre"])
     (auto intro!: runs_attempt runs_call runs_of_result split: sum.splits)

lemma cleanup_legacy_trace: "runs (fenced_trace wt) (cleanup_legacy k wt) (cleanup_post wt)"
  unfolding cleanup_legacy_def
proof (rule runs_andThen [where S = "\<lambda>x t. \<exists>pre lr. t = pre @ [ReadLease lr] \<and> fenced_trace wt pre \<and> LegacyWriterOf lr = Inr x"])
  show "runs (fenced_trace wt) (wrapped ''check legacy Worktree write Lease'' (read_legacy k wt))
     (\<lambda>r t. case r of Inl e \<Rightarrow> cleanup_post wt (Inl e) t
        | Inr x \<Rightarrow> \<exists>pre lr. t = pre @ [ReadLease lr] \<and> fenced_trace wt pre \<and> LegacyWriterOf lr = Inr x)"
    by (rule runs_wrapped, rule runs_post [OF read_legacy_trace]) (auto split: sum.splits)
next
  fix x
  show "runs (\<lambda>t. \<exists>pre lr. t = pre @ [ReadLease lr] \<and> fenced_trace wt pre \<and> LegacyWriterOf lr = Inr x)
     (case x of None \<Rightarrow> cleanup_consumers k wt
       | Some legacy \<Rightarrow> if \<not> lw_deletion legacy
           then ret ([], Some \<lparr>cw_reason = WaitingForWriter,
                 cw_message = ''Waiting for writer '' @ quote_mark @ lw_name legacy @ quote_mark @ '' to release legacy write Lease '' @
                   o_name (lw_lease legacy)\<rparr>)
           else andThen (delete_old_fence k legacy) (\<lambda>_. cleanup_consumers k wt)) (cleanup_post wt)"
  proof (cases "case x of None \<Rightarrow> True | Some l \<Rightarrow> lw_deletion l")
    case True
    then show ?thesis
      by (cases x; simp; intro runs_pre [OF cleanup_consumers_trace] runs_pre [OF delete_old_fence_trace])
         (fastforce simp: free_trace_def no_legacy_writer_def)+
  qed (auto split: option.splits intro!: runs_ret)
qed

lemma cleanup_reference_wait_trace:
  assumes "o_deleting wt \<noteq> None"
  shows "runs (\<lambda>t. \<exists>pre. t = pre @ [CloseFence (Inr [])] \<and> ReadWorktree (Inr wt) \<in> set pre) (cleanupReferenceWait k wt)
           (\<lambda>r t. case r of Inl e \<Rightarrow> True | Inr x \<Rightarrow> x = None \<longrightarrow> fenced_trace wt t)"
  unfolding cleanupReferenceWait_def cleanupReferenceBlockers_def
  using assms
  by (auto intro!: runs_andThen [where S = "\<lambda>b t. b = [] \<longrightarrow> fenced_trace wt t"] runs_call runs_ret
    simp: fenced_trace_def split: sum.splits)

lemma cleanup_references_trace:
  assumes "o_deleting wt \<noteq> None"
  shows "runs (\<lambda>t. \<exists>pre. t = pre @ [CloseFence (Inr [])] \<and> ReadWorktree (Inr wt) \<in> set pre) (cleanup_references k wt)
           (cleanup_post wt)"
  unfolding cleanup_references_def
proof (rule runs_andThen [where S = "\<lambda>x t. x = None \<longrightarrow> fenced_trace wt t"])
  fix x :: "cleanup_wait option"
  show "runs (\<lambda>t. x = None \<longrightarrow> fenced_trace wt t) (case x of Some wait \<Rightarrow> ret ([], Some wait) | None \<Rightarrow> cleanup_legacy k wt)
     (cleanup_post wt)"
    by (cases x) (auto intro!: runs_ret cleanup_legacy_trace)
qed (rule runs_post [OF cleanup_reference_wait_trace [OF assms]], auto split: sum.splits)

lemma prepare_cleanup_trace:
  assumes "o_deleting wt \<noteq> None"
  shows "runs (\<lambda>t. ReadWorktree (Inr wt) \<in> set t) (prepareWorktreeCleanup k wt) (cleanup_post wt)"
  unfolding prepareWorktreeCleanup_def
proof (rule runs_andThen [where S = "\<lambda>_ t. ReadWorktree (Inr wt) \<in> set t"], rule runs_clock, simp,
    rule runs_andThen [where S = "\<lambda>remaining t. \<exists>pre. t = pre @ [CloseFence (Inr remaining)] \<and> ReadWorktree (Inr wt) \<in> set pre"])
  fix remaining
  show "runs (\<lambda>t. \<exists>pre. t = pre @ [CloseFence (Inr remaining)] \<and> ReadWorktree (Inr wt) \<in> set pre)
     (case holderWait remaining of Some wait \<Rightarrow> ret ([], Some wait) | None \<Rightarrow> cleanup_references k wt) (cleanup_post wt)"
  proof (cases "holderWait remaining")
    case None
    then have "remaining = []" by (simp add: holderWait_None)
    with None cleanup_references_trace [OF assms] show ?thesis by simp
  qed (auto intro!: runs_ret)
qed (rule runs_call, auto split: sum.splits)

lemma release_clone_evidence:
  assumes "o_deleting wt \<noteq> None" "contains_finalizer wt DeletionFinalizer"
  shows "runs (\<lambda>t. removal_ok t \<and> settled wt t) (releaseClone k wt)
     (\<lambda>r t. case r of Inl e \<Rightarrow> removal_ok t | Inr _ \<Rightarrow> removal_ok t \<and> cleanup_evidence t)"
proof -
  have evidence: "cleanup_evidence (t @ [DropReservation (Inr ())])" if "settled wt t" for t
    using that assms unfolding cleanup_evidence_def by fastforce
  have keep: "removal_ok (t @ [DropReservation r])" if "removal_ok t" for t r
    using that by (rule before_append) (simp add: is_removal_def)
  show ?thesis
    unfolding releaseClone_def
    by (rule runs_andThen [where S = "\<lambda>_ t. removal_ok t \<and> settled wt t"], rule runs_clock)
       (auto intro!: runs_call evidence keep split: sum.splits)
qed

lemma finish_deletion_ok:
  assumes "o_deleting wt \<noteq> None" "contains_finalizer wt DeletionFinalizer"
  shows "runs (\<lambda>t. removal_ok t \<and> settled wt t) (finish_deletion k wt) (\<lambda>_. removal_ok)"
proof -
  let ?unblock = "if wt_conditions wt ConditionDeletionBlocked \<noteq> None then setDeletionBlocked k wt None else ret ()"
  have "emits (\<lambda>_. True) (andThen (remove_deletion_finalizer k wt) (\<lambda>_. ret None))"
    unfolding remove_deletion_finalizer_def by (intro emits_intros TrueI)
  note removed = runs_allowed [OF this lasting_cleanup_evidence]
  have "emits (\<lambda>e. \<not> is_removal e) ?unblock" by (intro emits_intros) (simp_all add: is_removal_def)
  from runs_emits [OF this lasting_settled]
  have unblocked: "runs (\<lambda>t. removal_ok t \<and> settled wt t) ?unblock
     (\<lambda>r t. case r of Inl e \<Rightarrow> removal_ok t | Inr x \<Rightarrow> removal_ok t \<and> settled wt t)"
    by (rule runs_post) (auto split: sum.splits)
  show ?thesis
    unfolding finish_deletion_def
    by (rule runs_andThen [OF unblocked], rule runs_andThen [OF release_clone_evidence [OF assms]], rule removed)
qed

text \<open>A stage that makes no removal keeps \<open>removal_ok\<close>.\<close>

lemma removal_ok_quiet: "emits (\<lambda>e. \<not> is_removal e) m \<Longrightarrow> runs removal_ok m (\<lambda>_. removal_ok)"
  by (erule runs_quiet)

lemma removal_ok_snoc: "removal_ok t \<Longrightarrow> \<not> is_removal e \<Longrightarrow> removal_ok (t @ [e])"
  by (simp add: before_append)

lemma delete_claim_ok:
  assumes "o_deleting wt \<noteq> None" "contains_finalizer wt DeletionFinalizer"
  shows "runs (\<lambda>t. removal_ok t \<and> (\<exists>pre name. t = pre @ [ReadClaim name (Inr claim)] \<and> drained wt name pre))
     (delete_claim k wt claim) (\<lambda>_. removal_ok)" (is "runs ?P ?m ?R")
proof (cases "volume_settled wt (Inr claim)")
  case True
  then have settled: "settled wt t" if "?P t" for t
    using that unfolding settled_def by (metis append.right_neutral)
  note finish = runs_pre [OF finish_deletion_ok [OF assms, of k], of ?P]
  have "emits (\<lambda>e. \<not> is_removal e) (release_protection k claim)" by (intro emits_intros) (simp add: is_removal_def)
  note quiet = runs_emits [OF this lasting_settled, of is_removal]
  have "runs (\<lambda>t. removal_ok t \<and> settled wt t) (andThen (release_protection k claim) (\<lambda>_. finish_deletion k wt)) (\<lambda>_. removal_ok)"
    by (rule runs_andThen [OF _ finish_deletion_ok [OF assms]], rule runs_post [OF quiet]) (auto split: sum.splits)
  from runs_pre [OF this, of ?P] finish True settled show ?thesis
    by (auto simp: volume_settled_def delete_claim_def)
next
  case False
  then have "emits (\<lambda>e. \<not> is_removal e) ?m"
    by (auto simp: volume_settled_def delete_claim_def intro!: emits_intros) (simp_all add: is_removal_def)
  from runs_pre [OF removal_ok_quiet [OF this], of ?P] show ?thesis by simp
qed

lemma reconcileDelete_ok:
  assumes del: "o_deleting wt \<noteq> None"
  shows "runs (\<lambda>t. removal_ok t \<and> ReadWorktree (Inr wt) \<in> set t) (reconcileDelete k wt) (\<lambda>_. removal_ok)" (is "runs ?P _ _")
proof (cases "contains_finalizer wt DeletionFinalizer")
  case False
  then show ?thesis by (auto simp: reconcileDelete_def intro!: runs_ret)
next
  case True
  let ?S = "\<lambda>x t. removal_ok t \<and> cleanup_post wt (Inr x) t"
  have quiet: "emits (\<lambda>e. \<not> is_removal e) (prepareWorktreeCleanup k wt)"
    by (intro emits_intros) (simp_all add: is_removal_def)
  have prepare: "runs ?P (prepareWorktreeCleanup k wt) (\<lambda>r t. case r of Inl e \<Rightarrow> removal_ok t | Inr x \<Rightarrow> ?S x t)"
    by (rule runs_post [OF runs_conj [OF removal_ok_quiet [OF quiet] prepare_cleanup_trace [OF del]]]) (auto split: sum.splits)
  have absent: "settled wt (t @ [ReadClaim name (Inl e)])" if "drained wt name t" "err_is ENotFound e" for t name e
    using that unfolding settled_def volume_settled_def by fastforce
  have drain: "runs (\<lambda>t. removal_ok t \<and> drained wt name t)
      (getOr (read_call k (ReadClaim name) (k_readClaim k (o_namespace wt) name)) (finish_deletion k wt) (delete_claim k wt))
      (\<lambda>_. removal_ok)" for name
    by (rule runs_getOr [OF _ finish_deletion_ok [OF del True] delete_claim_ok [OF del True]])
       (auto intro!: runs_call absent removal_ok_snoc simp: is_removal_def split: sum.splits)
  have "emits (\<lambda>e. \<not> is_removal e) (andThen (setDeletionBlocked k wt w) (\<lambda>_. ret (Some worktreeRequeueDelay)))" for w
    by (intro emits_intros) (simp_all add: is_removal_def)
  note wait = removal_ok_quiet [OF this]
  have branch: "runs (?S x) (case x of (name, w) \<Rightarrow>
       if w \<noteq> None then andThen (setDeletionBlocked k wt w) (\<lambda>_. ret (Some worktreeRequeueDelay))
       else getOr (read_call k (ReadClaim name) (k_readClaim k (o_namespace wt) name)) (finish_deletion k wt) (delete_claim k wt))
     (\<lambda>_. removal_ok)" for x
    by (cases x; cases "snd x") (auto simp: drain wait)
  from True runs_andThen [OF prepare branch] show ?thesis by (simp only: reconcileDelete_def simp_thms if_False)
qed

lemma removal_free_live: "live_events (\<lambda>e. \<not> is_removal e)"
  by (simp add: live_events_def status_events_def is_removal_def)

lemma reconcile_settled_ok:
  "runs (\<lambda>t. removal_ok t \<and> ReadWorktree (Inr wt) \<in> set t) (reconcile_settled k wt) (\<lambda>_. removal_ok)"
proof (cases "o_deleting wt = None")
  case False
  with reconcileDelete_ok show ?thesis by (simp add: reconcile_settled_def)
next
  case True
  then have "emits (\<lambda>e. \<not> is_removal e) (reconcile_settled k wt)"
    by (simp add: reconcile_settled_def) (intro emits_intros removal_free_live, simp_all add: is_removal_def)
  from runs_pre [OF removal_ok_quiet [OF this], of "\<lambda>t. removal_ok t \<and> ReadWorktree (Inr wt) \<in> set t"] show ?thesis by simp
qed

lemma reconcileWorktree_removal_ok: "runs removal_ok (reconcileWorktree k namespace name) (\<lambda>_. removal_ok)"
proof -
  let ?S = "\<lambda>wt t. removal_ok t \<and> ReadWorktree (Inr wt) \<in> set t"
  have read: "runs removal_ok (read_call k ReadWorktree (k_readWorktree k namespace name))
      (\<lambda>r t. case r of Inl e \<Rightarrow> if err_is ENotFound e then removal_ok t else removal_ok t | Inr wt \<Rightarrow> ?S wt t)"
    by (auto intro!: runs_call removal_ok_snoc simp: is_removal_def split: sum.splits)
  have absent: "runs removal_ok (ret None) (\<lambda>_. removal_ok)" by (rule runs_ret)
  have "emits (\<lambda>e. \<not> is_removal e) (reconcileWorktreeHolders k wt)" for wt
    by (intro emits_intros) (simp_all add: is_removal_def)
  note quiet = runs_emits [OF this lasting_mem, of is_removal]
  have holders: "runs (?S wt) (reconcileWorktreeHolders k wt) (\<lambda>r t. case r of Inl e \<Rightarrow> removal_ok t | Inr _ \<Rightarrow> ?S wt t)" for wt
    by (rule runs_post [OF quiet]) (auto split: sum.splits)
  note again = runs_getOr [OF read absent reconcile_settled_ok [where k = k]]
  have branch: "runs (?S wt) (if changed then getOr (read_call k ReadWorktree (k_readWorktree k namespace name)) (ret None) (reconcile_settled k)
      else reconcile_settled k wt) (\<lambda>_. removal_ok)" for wt changed
    using runs_pre [OF again, of "?S wt"] reconcile_settled_ok [of wt k] by (cases changed) simp_all
  show ?thesis
    unfolding reconcileWorktree_def Let_def
    by (rule runs_getOr [OF read absent]) (rule runs_andThen [OF holders branch])
qed

text \<open>C4: 
  The Worktree controller removes the deletion finalizer only when nothing can still use the Worktree. In every
  reconcile, whatever the server answers and however other clients interleave, each removal comes after the mount
  fence was closed with no holder left, no Workspace mounted the Worktree, no legacy writer Lease existed, no
  Pod used the resolved volume, the volume was gone, foreign or settled, and the clone reservation was
  dropped, in this order, for a Worktree that was read as deleting.
\<close>

theorem deletion_waits_for_users:
  "before is_removal cleanup_evidence (snd (fst (Reconcile_worktree k namespace name (api, []))))"
proof -
  have "emits (\<lambda>e. \<not> is_removal e) (andThen (publishUsage k namespace name) (\<lambda>_. ret result))" for result
    by (intro emits_intros) (simp_all add: is_removal_def)
  note publish = removal_ok_quiet [OF this]
  have "runs removal_ok (Reconcile_worktree k namespace name) (\<lambda>_. removal_ok)"
    unfolding Reconcile_worktree_def
    by (rule runs_andThen [OF _ publish], rule runs_post [OF reconcileWorktree_removal_ok]) (auto split: sum.splits)
  moreover have "removal_ok []" by (simp add: before_def)
  ultimately show ?thesis by (simp add: runs_def)
qed

section \<open>Creation of the child volume\<close>

definition creates :: "pvc \<Rightarrow> wt_event \<Rightarrow> bool" where
  "creates child e = (case e of CreateClaim c _ \<Rightarrow> c = child | _ \<Rightarrow> False)"

definition is_create :: "wt_event \<Rightarrow> bool" where
  "is_create e = (case e of CreateClaim _ _ \<Rightarrow> True | _ \<Rightarrow> False)"

text \<open>The Worktree as the run last received it: read, or returned by the patch that added the finalizer.\<close>

definition received :: "worktree \<Rightarrow> wt_event list \<Rightarrow> bool" where
  "received wt tr \<longleftrightarrow> (\<exists>e \<in> set tr. e = ReadWorktree (Inr wt) \<or> (\<exists>w. e = AddFinalizer w (Inr wt)))"

definition owned_child :: "worktree \<Rightarrow> string \<Rightarrow> pvc \<Rightarrow> plan \<Rightarrow> pvc" where
  "owned_child wt name source plan =
     (worktreeVolumeClaim wt name (o_name source) plan)\<lparr>o_controller :=
        Some \<lparr>or_apiVersion = repositoriesGroupVersion, or_kind = ''Worktree'', or_name = o_name wt, or_uid = o_uid wt\<rparr>\<rparr>"

text \<open>
  The evidence for the creation of a child volume: the Worktree recorded no volume, the direct lookup found none, the
  clone was admitted, and then the source was read and planned from.
\<close>

definition creation_evidence :: "pvc \<Rightarrow> wt_event list \<Rightarrow> bool" where
  "creation_evidence child tr \<longleftrightarrow>
     (\<exists>pre wt name repo source plan.
        tr = pre @ [ResolveClaim (Inr (name, None, None)), ReadRepository (Inr repo), ReserveClone repo (Inr Admitted),
                    ReadClaim (rs_claim (rp_status repo)) (Inr source)] \<and>
        received wt pre \<and> \<not> list_ex is_create pre \<and> wt_claim wt = [] \<and>
        PlanClone (Some source) (rp_size repo) (wt_storage wt) = Inr plan \<and> child = owned_child wt name source plan)"

lemma owned_child_reference:
  "SetControllerReference repositoriesGroupVersion ''Worktree'' wt (worktreeVolumeClaim wt name (o_name source) plan) =
     Inr (owned_child wt name source plan)"
  by (simp add: SetControllerReference_def owned_child_def worktreeVolumeClaim_def blank_object_def kobj.defs pvc.defs)

abbreviation create_ok :: "pvc \<Rightarrow> wt_event list \<Rightarrow> bool" where
  "create_ok child \<equiv> before (creates child) (creation_evidence child)"

lemma creates_is_create: "\<not> is_create e \<Longrightarrow> \<not> creates child e"
  by (cases e) (simp_all add: is_create_def creates_def)

lemma create_ok_quiet: "emits (\<lambda>e. \<not> is_create e) m \<Longrightarrow> runs (create_ok child) m (\<lambda>_. create_ok child)"
  by (erule runs_quiet) (rule creates_is_create)

lemma create_ok_snoc: "create_ok child t \<Longrightarrow> \<not> is_create e \<Longrightarrow> create_ok child (t @ [e])"
  by (rule before_append) (simp_all add: creates_is_create)

lemma create_free_live: "live_events (\<lambda>e. \<not> is_create e)"
  by (simp add: live_events_def status_events_def is_create_def)

text \<open>The trace before the source is read, and before it is planned from.\<close>

definition looked_up :: "pvc \<Rightarrow> worktree \<Rightarrow> string \<Rightarrow> wt_event list \<Rightarrow> wt_event list \<Rightarrow> bool" where
  "looked_up child wt name evs tr \<longleftrightarrow>
     create_ok child tr \<and> (\<exists>pre. tr = pre @ [ResolveClaim (Inr (name, None, None))] @ evs \<and> received wt pre \<and> \<not> list_ex is_create pre)"

lemma looked_up_snoc:
  "looked_up child wt name evs t \<Longrightarrow> \<not> is_create e \<Longrightarrow> looked_up child wt name (evs @ [e]) (t @ [e])"
  unfolding looked_up_def by (auto simp: create_ok_snoc)

lemma looked_up_ok: "looked_up child wt name evs t \<Longrightarrow> create_ok child t"
  by (simp add: looked_up_def)

lemma plan_child_ok:
  assumes "wt_claim wt = []"
  shows "runs (\<lambda>t. case source of None \<Rightarrow> create_ok child t
            | Some c \<Rightarrow> looked_up child wt name [ReadRepository (Inr repo), ReserveClone repo (Inr Admitted),
                          ReadClaim (rs_claim (rp_status repo)) (Inr c)] t)
     (plan_child k wt name repo source) (\<lambda>_. create_ok child)" (is "runs ?P _ _")
proof (cases "PlanClone source (rp_size repo) (wt_storage wt)")
  case (Inl reason)
  have "emits (\<lambda>e. \<not> is_create e) (plan_child k wt name repo source)"
    unfolding plan_child_def stop_with_def Inl sum.case
    by (intro emits_intros) (auto simp: is_create_def status_events_def reason_simps split: plan_reason.splits)
  show ?thesis
    by (rule runs_pre [OF create_ok_quiet [OF \<open>emits _ _\<close>]]) (auto dest: looked_up_ok split: option.splits)
next
  case (Inr plan)
  then obtain c where c: "source = Some c" by (cases source) (auto simp: PlanClone_def)
  let ?made = "owned_child wt name c plan"
  have made: "create_ok child (t @ [CreateClaim ?made r])" if "?P t" for t r
  proof -
    from that c have "create_ok child t" by (simp add: looked_up_def)
    moreover from that c obtain pre where "t = pre @ [ResolveClaim (Inr (name, None, None)), ReadRepository (Inr repo),
        ReserveClone repo (Inr Admitted), ReadClaim (rs_claim (rp_status repo)) (Inr c)]"
      "received wt pre" "\<not> list_ex is_create pre" by (auto simp: looked_up_def)
    then have "creation_evidence ?made t"
      unfolding creation_evidence_def using c assms Inr
      by (intro exI [of _ pre] exI [of _ wt] exI [of _ name] exI [of _ repo] exI [of _ c] exI [of _ plan]) simp
    ultimately have "create_ok child t" "?made = child \<Longrightarrow> creation_evidence child t" by simp_all
    then show ?thesis
      by (cases "?made = child") (simp add: before_snoc, simp add: before_append creates_def)
  qed
  show ?thesis
    unfolding plan_child_def c Inr [unfolded c] sum.case option.sel owned_child_reference
    by (rule runs_andThen [where S = "\<lambda>x t. x = ?made \<and>
          looked_up child wt name [ReadRepository (Inr repo), ReserveClone repo (Inr Admitted), ReadClaim (rs_claim (rp_status repo)) (Inr c)] t"], intro runs_wrapped runs_of_result, simp,
        rule runs_andThen [where S = "\<lambda>_. create_ok child"], intro runs_wrapped runs_call)
       (auto intro!: runs_ret made [unfolded c] split: sum.splits)
qed

lemma admit_child_ok:
  assumes "wt_claim wt = []"
  shows "runs (looked_up child wt name [ReadRepository (Inr repo)]) (admit_child k wt name repo) (\<lambda>_. create_ok child)"
proof (cases "Failure repo")
  case (Some message)
  have "emits (\<lambda>e. \<not> is_create e) (admit_child k wt name repo)"
    unfolding admit_child_def stop_with_def Let_def Some option.case
    by (intro emits_intros) (auto simp: is_create_def status_events_def reason_simps)
  from runs_pre [OF create_ok_quiet [OF this] looked_up_ok] show ?thesis .
next
  case None
  let ?src = "rs_claim (rp_status repo)"
  let ?R = "[ReadRepository (Inr repo), ReserveClone repo (Inr Admitted)]"
  have reserve: "runs (looked_up child wt name [ReadRepository (Inr repo)]) (reserve_clone k wt repo)
      (\<lambda>r t. case r of Inl e \<Rightarrow> create_ok child t
         | Inr a \<Rightarrow> create_ok child t \<and> (a = Admitted \<longrightarrow> looked_up child wt name ?R t))"
    unfolding reserve_clone_def
    by (rule runs_andThen [where S = "\<lambda>_. looked_up child wt name [ReadRepository (Inr repo)]"], rule runs_clock, simp)
       (rule runs_call, auto dest: looked_up_snoc [where e = "ReserveClone repo x" for x] looked_up_ok simp: is_create_def create_ok_snoc
          split: sum.splits)
  have source: "runs (looked_up child wt name ?R)
      (wrapped ''get clone source PVC'' (getOr (read_call k (ReadClaim ?src) (k_readClaim k (o_namespace wt) ?src)) (ret None) (\<lambda>c. ret (Some c))))
      (\<lambda>r t. case r of Inl e \<Rightarrow> create_ok child t
         | Inr x \<Rightarrow> (case x of None \<Rightarrow> create_ok child t | Some c \<Rightarrow> looked_up child wt name (?R @ [ReadClaim ?src (Inr c)]) t))"
    by (rule runs_wrapped, rule runs_getOr [where A = "create_ok child" and S = "\<lambda>c. looked_up child wt name (?R @ [ReadClaim ?src (Inr c)])"])
       (auto intro!: runs_call runs_ret dest: looked_up_ok looked_up_snoc [where e = "ReadClaim ?src (Inr c)" for c]
          simp: is_create_def create_ok_snoc split: sum.splits)
  have status: "emits (\<lambda>e. \<not> is_create e) (stop_with r (setWorktreeStatus k wt s ''RepositoryNotReady'' m c p q))" for r s m c p q
    unfolding stop_with_def by (intro emits_intros) (auto simp: is_create_def status_events_def reason_simps)
  have planned: "runs (looked_up child wt name ?R)
      (andThen (wrapped ''get clone source PVC'' (getOr (read_call k (ReadClaim ?src) (k_readClaim k (o_namespace wt) ?src)) (ret None) (\<lambda>c. ret (Some c))))
         (plan_child k wt name repo)) (\<lambda>_. create_ok child)"
    by (rule runs_andThen [OF source], unfold append_Cons append_Nil, rule plan_child_ok [OF assms])
  show ?thesis
    unfolding admit_child_def Let_def None option.case
  proof (rule runs_andThen [OF reserve])
    fix a
    show "runs (\<lambda>t. create_ok child t \<and> (a = Admitted \<longrightarrow> looked_up child wt name ?R t))
      (if a \<noteq> Admitted
       then stop_with (Some worktreeRequeueDelay) (setWorktreeStatus k wt CUnknown ''RepositoryNotReady''
              ''Repository is busy or not ready for cloning'' [] ?src (worktreePath wt))
       else andThen (wrapped ''get clone source PVC'' (getOr (read_call k (ReadClaim ?src) (k_readClaim k (o_namespace wt) ?src)) (ret None) (\<lambda>c. ret (Some c))))
         (plan_child k wt name repo)) (\<lambda>_. create_ok child)"
      by (cases "a = Admitted") (auto intro: runs_pre [OF planned] runs_pre [OF create_ok_quiet [OF status]])
  qed
qed

lemma create_child_ok:
  assumes "wt_claim wt = []"
  shows "runs (looked_up child wt name []) (create_child k wt name) (\<lambda>_. create_ok child)"
proof -
  have status: "emits (\<lambda>e. \<not> is_create e) (stop_with r (setWorktreeStatus k wt s ''RepositoryNotFound'' m c p q))" for r s m c p q
    unfolding stop_with_def by (intro emits_intros) (auto simp: is_create_def status_events_def reason_simps)
  have found: "runs (\<lambda>t. create_ok child t \<and> (\<forall>repo. r = Inr repo \<longrightarrow> looked_up child wt name [ReadRepository r] t))
     (case r of
        Inl e \<Rightarrow> if err_is ENotFound e
          then stop_with None (setWorktreeStatus k wt CFalse ''RepositoryNotFound'' ''Referenced Repository does not exist'' [] [] (worktreePath wt))
          else raise (EWrap ''get Repository'' e)
      | Inr repository \<Rightarrow> admit_child k wt name repository) (\<lambda>_. create_ok child)" for r
    by (cases r) (auto intro: runs_pre [OF create_ok_quiet [OF status]] runs_pre [OF admit_child_ok [OF assms]] runs_raise)
  show ?thesis
    unfolding create_child_def assms
    by simp (rule runs_andThen [OF _ found], intro runs_attempt runs_call,
       auto dest: looked_up_ok looked_up_snoc [where e = "ReadRepository r" for r] simp: is_create_def create_ok_snoc)
qed

text \<open>From here on a run creates nothing more.\<close>

lemma reconcile_child_quiet: "emits (\<lambda>e. \<not> is_create e) (reconcile_child k wt claim)"
  by (intro emits_intros) (simp_all add: is_create_def status_events_def)

lemma reconcileStorageDeletion_quiet: "emits (\<lambda>e. \<not> is_create e) (reconcileStorageDeletion k wt)"
  by (intro emits_intros) (simp_all add: is_create_def)

definition fresh :: "pvc \<Rightarrow> worktree \<Rightarrow> wt_event list \<Rightarrow> bool" where
  "fresh child wt t \<longleftrightarrow> create_ok child t \<and> received wt t \<and> \<not> list_ex is_create t"

lemma reconcile_live_ok: "runs (fresh child wt) (reconcile_live k wt) (\<lambda>_. create_ok child)"
proof -
  let ?made = "\<lambda>name. andThen (create_child k wt name) (\<lambda>made. case made of Inl result \<Rightarrow> ret result | Inr c \<Rightarrow> reconcile_child k wt c)"
  have made: "runs (looked_up child wt name []) (?made name) (\<lambda>_. create_ok child)" if "wt_claim wt = []" for name
  proof (rule runs_andThen [where S = "\<lambda>_. create_ok child"])
    show "runs (looked_up child wt name []) (create_child k wt name)
      (\<lambda>r t. case r of Inl e \<Rightarrow> create_ok child t | Inr _ \<Rightarrow> create_ok child t)"
      by (rule runs_post [OF create_child_ok [OF that]]) (auto split: sum.splits)
    show "runs (create_ok child) (case made of Inl result \<Rightarrow> ret result | Inr c \<Rightarrow> reconcile_child k wt c) (\<lambda>_. create_ok child)" for made
      by (cases made) (auto intro: runs_ret create_ok_quiet [OF reconcile_child_quiet])
  qed
  have conflict: "emits (\<lambda>e. \<not> is_create e) (andThen (setWorktreeStatus k wt s ReasonVolumeClaimConflict m c p q) (\<lambda>_. ret None))"
    for s m c p q by (intro emits_intros) (auto simp: is_create_def status_events_def reason_simps)
  note quiet = create_ok_quiet [OF reconcile_child_quiet] create_ok_quiet [OF reconcileStorageDeletion_quiet] create_ok_quiet [OF conflict]
  let ?S = "\<lambda>x t. create_ok child t \<and> (snd x = (None, None) \<longrightarrow> looked_up child wt (fst x) [] t)"
  have resolve: "runs (fresh child wt) (resolve_claim k wt) (\<lambda>r t. case r of Inl e \<Rightarrow> create_ok child t | Inr x \<Rightarrow> ?S x t)"
    unfolding resolve_claim_def
    by (rule runs_call) (auto simp: fresh_def looked_up_def create_ok_snoc is_create_def split: sum.splits)
  have tail: "runs (?S (name, claim, err)) (case err of
       Some e \<Rightarrow> if \<not> IsConflict e then raise (EWrap ''get Worktree PersistentVolumeClaim'' e)
         else if storage_deleted now (k_codec k) wt claim then reconcileStorageDeletion k wt
         else andThen (setWorktreeStatus k wt CFalse ReasonVolumeClaimConflict (err_message e) (wt_claim wt) (wt_sourceClaim wt) (worktreePath wt)) (\<lambda>_. ret None)
     | None \<Rightarrow> if storage_deleted now (k_codec k) wt claim then reconcileStorageDeletion k wt
         else (case claim of Some c \<Rightarrow> reconcile_child k wt c | None \<Rightarrow> ?made name)) (\<lambda>_. create_ok child)" for name claim err now
  proof (cases "err = None \<and> claim = None \<and> \<not> storage_deleted now (k_codec k) wt claim")
    case True
    then have none: "err = None" "claim = None" "\<not> storage_deleted now (k_codec k) wt None" by auto
    then have "wt_claim wt = []" by (auto simp: storage_deleted_def)
    from runs_pre [OF made [OF this, of name], of "?S (name, claim, err)"] none show ?thesis by simp
  next
    case False
    then show ?thesis
      by (cases err; cases claim) (auto intro: runs_raise runs_pre [OF quiet(1)] runs_pre [OF quiet(2)] runs_pre [OF quiet(3)])
  qed
  show ?thesis
    unfolding reconcile_live_def
    by (rule runs_andThen [OF resolve], simp only: split_paired_all prod.case,
        rule runs_andThen [where S = "\<lambda>_. ?S x" for x, OF _ tail], rule runs_clock, simp)
qed

lemma fresh_quiet:
  assumes "emits (\<lambda>e. \<not> is_create e) m"
  shows "runs (fresh child wt) m (\<lambda>_. fresh child wt)"
proof (rule runsI)
  fix w w' r assume *: "fresh child wt (snd w)" "m w = (w', r)"
  from emitsD [OF assms *(2)] obtain evs where evs: "snd w' = snd w @ evs" "list_all (\<lambda>e. \<not> is_create e) evs" by blast
  from runsD [OF create_ok_quiet [OF assms] _ *(2)] *(1) have "create_ok child (snd w')" by (simp add: fresh_def)
  with * evs show "fresh child wt (snd w')"
    by (auto simp: fresh_def received_def list_all_iff list_ex_iff)
qed

lemma fresh_weaken: "fresh child wt t \<Longrightarrow> create_ok child t \<and> \<not> list_ex is_create t"
  by (simp add: fresh_def)

lemma reconcile_settled_create_ok: "runs (fresh child wt) (reconcile_settled k wt) (\<lambda>_. create_ok child)"
proof (cases "o_deleting wt = None")
  case False
  then have "emits (\<lambda>e. \<not> is_create e) (reconcile_settled k wt)"
    by (simp add: reconcile_settled_def) (intro emits_intros, simp_all add: is_create_def)
  from runs_pre [OF create_ok_quiet [OF this], of "fresh child wt"] show ?thesis by (simp add: fresh_def)
next
  case True
  have "runs (fresh child wt) (ensure_finalizer k wt) (\<lambda>r t. case r of Inl e \<Rightarrow> create_ok child t | Inr wt' \<Rightarrow> fresh child wt' t)"
    unfolding ensure_finalizer_def
    by (auto intro!: runs_ret runs_wrapped runs_call simp: fresh_def received_def create_ok_snoc is_create_def split: sum.splits)
  from runs_andThen [OF this reconcile_live_ok] True show ?thesis by (simp add: reconcile_settled_def)
qed

lemma reconcileWorktree_create_ok:
  "runs (\<lambda>t. create_ok child t \<and> \<not> list_ex is_create t) (reconcileWorktree k namespace name) (\<lambda>_. create_ok child)" (is "runs ?N _ _")
proof -
  have read: "runs ?N (read_call k ReadWorktree (k_readWorktree k namespace name))
      (\<lambda>r t. case r of Inl e \<Rightarrow> if err_is ENotFound e then create_ok child t else create_ok child t | Inr wt \<Rightarrow> fresh child wt t)"
    by (auto intro!: runs_call simp: fresh_def received_def create_ok_snoc is_create_def split: sum.splits)
  have absent: "runs (create_ok child) (ret None) (\<lambda>_. create_ok child)" by (rule runs_ret)
  have "emits (\<lambda>e. \<not> is_create e) (reconcileWorktreeHolders k wt)" for wt
    by (intro emits_intros) (simp_all add: is_create_def)
  note quiet = fresh_quiet [OF this]
  have holders: "runs (fresh child wt) (reconcileWorktreeHolders k wt)
      (\<lambda>r t. case r of Inl e \<Rightarrow> create_ok child t | Inr _ \<Rightarrow> fresh child wt t)" for wt
    by (rule runs_post [OF quiet]) (auto simp: fresh_def split: sum.splits)
  note again = runs_getOr [OF read absent reconcile_settled_create_ok [where k = k]]
  have branch: "runs (fresh child wt)
      (if changed then getOr (read_call k ReadWorktree (k_readWorktree k namespace name)) (ret None) (reconcile_settled k)
       else reconcile_settled k wt) (\<lambda>_. create_ok child)" for wt changed
    using runs_pre [OF again, of "fresh child wt"] reconcile_settled_create_ok [of child wt k]
    by (cases changed) (simp_all add: fresh_def)
  show ?thesis
    unfolding reconcileWorktree_def Let_def
    by (rule runs_getOr [OF read absent]) (rule runs_andThen [OF holders branch])
qed


section \<open>Lost volumes\<close>

text \<open>The reason that the Ready and VolumeReady conditions report.\<close>

definition reports :: "string \<Rightarrow> worktree \<Rightarrow> bool" where
  "reports reason wt \<longleftrightarrow>
     (case wt_conditions wt ConditionReady of None \<Rightarrow> False | Some c \<Rightarrow> c_reason c = reason) \<or>
     (case wt_conditions wt ConditionVolumeReady of None \<Rightarrow> False | Some c \<Rightarrow> c_reason c = reason)"

definition reports_loss_first :: "wt_event \<Rightarrow> bool" where
  "reports_loss_first e =
     (case e of WriteStatus old new _ \<Rightarrow> reports ReasonVolumeClaimLost new \<and> \<not> reports ReasonVolumeClaimLost old | _ \<Rightarrow> False)"

lemma loss_free_live: "live_events (\<lambda>e. \<not> reports_loss_first e)"
  by (auto simp: live_events_def status_events_def reports_loss_first_def reports_def worktree_status_def Let_def
    SetStatusCondition_def new_condition_def volume_ready_status_def deletion_status_def storage_failure_def
    ConditionReady_def ConditionVolumeReady_def reason_simps split: option.splits if_splits)

text \<open>C39: 
  A missing child volume is never reported as \<^verbatim>\<open>VolumeClaimLost\<close>. No reconcile writes a status whose Ready or
  VolumeReady condition newly has this reason, although \<^verbatim>\<open>setWorktreeStatus\<close> is called with it when a recorded claim is
  missing: the missing claim has already been taken for a deleted volume, whose mounts are closed for good.
\<close>

theorem lost_volume_never_reported:
  "list_all (\<lambda>e. \<not> reports_loss_first e) (snd (fst (Reconcile_worktree k namespace name (api, []))))"
proof -
  have "emits (\<lambda>e. \<not> reports_loss_first e) (Reconcile_worktree k namespace name)"
    unfolding Reconcile_worktree_def
    by (intro emits_intros loss_free_live)
       (auto simp: reports_loss_first_def reports_def blocked_conditions_def RemoveStatusCondition_def SetStatusCondition_def
          usage_status_def ConditionReady_def ConditionVolumeReady_def ConditionDeletionBlocked_def ConditionInUse_def new_condition_def
          split: option.splits prod.splits)
  then show ?thesis by (rule emits_from_start)
qed

end
