(* ===== verification/WorktreeHolders.thy ===== *)
theory WorktreeHolders
  imports WorktreeSafety
begin

text \<open>
  The repairs of the Worktree controller: sweeping holders whose owner is gone, importing the write Leases of older
  releases, the status it publishes, and the claims and Jobs it builds.
\<close>

section \<open>Sweeping\<close>

definition owner_gone :: "holder \<Rightarrow> string result \<Rightarrow> bool" where
  "owner_gone h a =
     (holderOwner (h_kind h) \<and> h_uid h \<noteq> [] \<and>
      (case a of Inl e \<Rightarrow> err_is ENotFound e | Inr uid \<Rightarrow> uid \<noteq> h_uid h))"

definition seen_gone :: "holder \<Rightarrow> wt_event list \<Rightarrow> bool" where
  "seen_gone h tr \<longleftrightarrow> (\<exists>a. ReadOwner h a \<in> set tr \<and> owner_gone h a)"

definition seen_idle :: "worktree \<Rightarrow> wt_event list \<Rightarrow> bool" where
  "seen_idle wt tr \<longleftrightarrow>
     wt_claim wt = [] \<or> (\<exists>pods. ReadPods (Inr pods) \<in> set tr \<and> \<not> list_ex (running_consumer (wt_claim wt)) pods)"

text \<open>The evidence for removing holders: every owner was seen gone and no Pod was seen using the volume.\<close>

definition sweep_evidence :: "holder list \<Rightarrow> wt_event list \<Rightarrow> bool" where
  "sweep_evidence hs tr \<longleftrightarrow>
     hs \<noteq> [] \<and> (\<exists>wt. ReadWorktree (Inr wt) \<in> set tr \<and> seen_idle wt tr \<and> (\<forall>h \<in> set hs. seen_gone h tr))"

definition removes :: "holder list \<Rightarrow> wt_event \<Rightarrow> bool" where
  "removes hs e = (case e of RemoveHolders c _ \<Rightarrow> c = hs | _ \<Rightarrow> False)"

definition is_sweep :: "wt_event \<Rightarrow> bool" where
  "is_sweep e = (case e of RemoveHolders _ _ \<Rightarrow> True | _ \<Rightarrow> False)"

abbreviation sweep_ok :: "holder list \<Rightarrow> wt_event list \<Rightarrow> bool" where
  "sweep_ok hs \<equiv> before (removes hs) (sweep_evidence hs)"

lemma removes_is_sweep: "\<not> is_sweep e \<Longrightarrow> \<not> removes hs e"
  by (cases e) (simp_all add: is_sweep_def removes_def)

lemma sweep_ok_quiet: "emits (\<lambda>e. \<not> is_sweep e) m \<Longrightarrow> runs (sweep_ok hs) m (\<lambda>_. sweep_ok hs)"
  by (erule runs_quiet) (rule removes_is_sweep)

lemma lasting_seen: "lasting (seen_gone h)" "lasting (seen_idle wt)"
  by (auto simp: lasting_def seen_gone_def seen_idle_def)

lemma seen_goneI: "owner_gone h a \<Longrightarrow> seen_gone h (t @ [ReadOwner h a])"
  by (auto simp: seen_gone_def)

lemma owner_gone_spec: "runs P (holderOwnerGone k n h) (\<lambda>r t. r = Inr True \<longrightarrow> seen_gone h t)"
proof (cases "holderOwner (h_kind h) \<and> h_uid h \<noteq> []")
  case True
  then have read: "runs P (read_call k (ReadOwner h) (k_readOwner k (h_kind h) n (h_name h)))
     (\<lambda>r t. case r of Inl e \<Rightarrow> if err_is ENotFound e then seen_gone h t else Inl e = Inr True \<longrightarrow> seen_gone h t
        | Inr uid \<Rightarrow> uid \<noteq> h_uid h \<longrightarrow> seen_gone h t)"
    by (intro runs_call) (auto intro!: seen_goneI simp: owner_gone_def split: sum.split)
  have "runs P (getOr (read_call k (ReadOwner h) (k_readOwner k (h_kind h) n (h_name h))) (ret True) (\<lambda>uid. ret (uid \<noteq> h_uid h)))
     (\<lambda>r t. r = Inr True \<longrightarrow> seen_gone h t)"
    by (rule runs_getOr [OF read]) (simp_all add: runs_ret)
  with True show ?thesis by (simp add: holderOwnerGone_def)
qed (auto simp: holderOwnerGone_def intro!: runs_ret)

lemma claim_in_use_spec: "runs P (claimInUse k n (wt_claim wt)) (\<lambda>r t. r = Inr False \<longrightarrow> seen_idle wt t)"
  unfolding claimInUse_def
  by (auto intro!: runs_ret runs_andThen [where S = "\<lambda>pods t. ReadPods (Inr pods) \<in> set t"] runs_wrapped runs_call
    simp: seen_idle_def split: sum.splits)

definition stale_inv :: "worktree \<Rightarrow> bool option \<Rightarrow> wt_event list \<Rightarrow> bool" where
  "stale_inv wt m t \<longleftrightarrow> m = Some False \<longrightarrow> seen_idle wt t"

lemma lasting_stale_inv: "lasting (stale_inv wt m)"
  using lasting_seen(2) by (auto simp: lasting_def stale_inv_def)

lemma stale_spec:
  "runs (stale_inv wt m) (worktree_stale k wt m h)
     (\<lambda>r t. case r of Inl e \<Rightarrow> True | Inr (m', gone) \<Rightarrow> stale_inv wt m' t \<and> (gone \<longrightarrow> seen_gone h t \<and> seen_idle wt t))"
proof -
  have "emits (\<lambda>_. True) (holderOwnerGone k n h)" for n by (intro emits_intros TrueI)
  note owner = runs_conj [OF runs_lasting [OF this lasting_stale_inv] owner_gone_spec [where P = "\<lambda>_. True"]]
  have "emits (\<lambda>_. True) (claimInUse k n (wt_claim wt))" for n by (intro emits_intros TrueI)
  note idle = runs_conj [OF runs_lasting [OF this lasting_seen(1) [of h]] claim_in_use_spec [where P = "\<lambda>_. True"]]
  show ?thesis
    unfolding worktree_stale_def
    by (rule runs_andThen [where S = "\<lambda>gone t. stale_inv wt m t \<and> (gone \<longrightarrow> seen_gone h t)"], rule runs_post [OF runs_pre [OF owner]])
       (auto intro!: runs_ret runs_andThen [where S = "\<lambda>used t. seen_gone h t \<and> (\<not> used \<longrightarrow> seen_idle wt t)"] runs_post [OF runs_pre [OF idle]]
          simp: stale_inv_def split: sum.splits option.splits)
qed

lemma stale_quiet: "emits (\<lambda>e. \<not> is_sweep e) (worktree_stale k wt m h)"
  by (intro emits_intros) (simp_all add: is_sweep_def)

text \<open>The evaluation of the holders, one after the other: what was seen for the first stays seen.\<close>

definition seen_stale :: "worktree \<Rightarrow> holder list \<Rightarrow> wt_event list \<Rightarrow> bool" where
  "seen_stale wt cs t \<longleftrightarrow> (\<forall>h \<in> set cs. seen_gone h t \<and> seen_idle wt t)"

lemma lasting_seen_stale: "lasting (seen_stale wt cs)"
  using lasting_seen by (auto simp: lasting_def seen_stale_def)

lemma stale_loop_spec:
  "runs (stale_inv wt m) (stale_loop (worktree_stale k wt) m hs) (\<lambda>r t. case r of Inl e \<Rightarrow> True | Inr cs \<Rightarrow> seen_stale wt cs t)"
proof (induction hs arbitrary: m)
  case Nil
  then show ?case by (auto intro!: runs_ret simp: seen_stale_def)
next
  case (Cons h hs)
  let ?F = "\<lambda>gone t. gone \<longrightarrow> seen_gone h t \<and> seen_idle wt t"
  have F: "lasting (?F gone)" for gone using lasting_seen by (auto simp: lasting_def)
  have "emits (\<lambda>_. True) (stale_loop (worktree_stale k wt) m' hs)" for m'
    by (intro emits_intros emits_any [OF stale_quiet])
  note rest = runs_conj [OF Cons.IH runs_lasting [OF this F]]
  have step: "runs (\<lambda>t. stale_inv wt m' t \<and> ?F gone t)
      (andThen (stale_loop (worktree_stale k wt) m' hs) (\<lambda>rest. ret (if gone then h # rest else rest)))
      (\<lambda>r t. case r of Inl e \<Rightarrow> True | Inr cs \<Rightarrow> seen_stale wt cs t)" for m' gone
    by (rule runs_andThen [where S = "\<lambda>cs t. seen_stale wt cs t \<and> ?F gone t"], rule runs_post [OF rest])
       (auto intro!: runs_ret simp: seen_stale_def split: sum.splits)
  show ?case
    unfolding stale_loop.simps
  proof (rule runs_andThen [where S = "\<lambda>x t. stale_inv wt (fst x) t \<and> ?F (snd x) t"])
    show "runs (stale_inv wt m) (worktree_stale k wt m h) (\<lambda>r t. case r of Inl e \<Rightarrow> (case Inl e of Inl e \<Rightarrow> True | Inr cs \<Rightarrow> seen_stale wt cs t)
        | Inr x \<Rightarrow> stale_inv wt (fst x) t \<and> ?F (snd x) t)"
      by (rule runs_post [OF stale_spec]) (auto split: sum.splits prod.splits)
  qed (simp add: split_beta step)
qed

lemma sweep_call_ok:
  assumes "cs \<noteq> []"
  shows "runs (\<lambda>t. sweep_ok hs t \<and> ReadWorktree (Inr wt) \<in> set t \<and> seen_stale wt cs t)
     (call env (RemoveHolders cs) f) (\<lambda>_. sweep_ok hs)"
proof (rule runs_call)
  fix t r assume *: "sweep_ok hs t \<and> ReadWorktree (Inr wt) \<in> set t \<and> seen_stale wt cs t"
  with assms have "sweep_evidence cs t"
    by (cases cs) (auto simp: sweep_evidence_def seen_stale_def)
  with * show "sweep_ok hs (t @ [RemoveHolders cs r])"
    by (cases "cs = hs") (simp add: before_snoc, simp add: before_append removes_def)
qed

lemma sweep_run_ok:
  "runs (\<lambda>t. sweep_ok hs t \<and> ReadWorktree (Inr wt) \<in> set t)
     (sweep_run (k_env k) LoadHolders RemoveHolders store (worktree_stale k wt) None) (\<lambda>_. sweep_ok hs)" (is "runs ?I _ _")
proof -
  have last: "lasting (\<lambda>t. ReadWorktree (Inr wt) \<in> set t)" by (rule lasting_mem)
  have loop_quiet: "emits (\<lambda>e. \<not> is_sweep e) (stale_loop (worktree_stale k wt) None xs)" for xs
    by (intro emits_intros stale_quiet)
  have quiet: "runs ?I (stale_loop (worktree_stale k wt) None xs) (\<lambda>_. ?I)" for xs
    by (rule runs_emits [OF loop_quiet last]) (rule removes_is_sweep)
  have start: "stale_inv wt None t" for t by (simp add: stale_inv_def)
  note loop = runs_conj [OF quiet stale_loop_spec [where m = None]]
  have load: "runs ?I (call (k_env k) LoadHolders f) (\<lambda>_. ?I)" for f :: "(nat \<Rightarrow> 'a \<Rightarrow> 'a) \<Rightarrow> 'a \<Rightarrow> 'a \<times> hold_state result"
    by (rule runs_emits [where P = "\<lambda>e. \<not> is_sweep e", OF _ last]) (auto intro!: emits_intros removes_is_sweep simp: is_sweep_def)
  have removal: "runs (\<lambda>t. ?I t \<and> seen_stale wt cs t)
      (if cs = [] then ret [] else call (k_env k) (RemoveHolders cs) (remove_call DefaultBackoff store cs)) (\<lambda>_. sweep_ok hs)" for cs
    by (cases "cs = []") (auto intro: runs_ret runs_pre [OF sweep_call_ok])
  show ?thesis
    unfolding sweep_run_def
    by (rule runs_andThen [where S = "\<lambda>_. ?I"], rule runs_post [OF load], auto split: sum.splits intro!: runs_ret
        runs_andThen [OF _ removal] runs_post [OF runs_pre [OF loop]] simp: start)
qed

lemma sweepWorktreeHolders_ok:
  "runs (\<lambda>t. sweep_ok hs t \<and> ReadWorktree (Inr wt) \<in> set t) (sweepWorktreeHolders k wt) (\<lambda>_. sweep_ok hs)" (is "runs ?I _ _")
  unfolding sweepWorktreeHolders_def
  by (rule runs_andThen [where S = "\<lambda>_. ?I"], rule runs_clock, simp,
      rule runs_andThen [where S = "\<lambda>_. ?I"], rule runs_of_result)
     (auto split: sum.splits intro!: runs_ret runs_andThen [where S = "\<lambda>_. sweep_ok hs"] runs_wrapped runs_post [OF sweep_run_ok])

lemma sweep_free_live: "live_events (\<lambda>e. \<not> is_sweep e)"
  by (simp add: live_events_def status_events_def is_sweep_def)

lemma reconcileWorktree_sweep_ok: "runs (sweep_ok hs) (reconcileWorktree k namespace name) (\<lambda>_. sweep_ok hs)"
proof -
  let ?I = "\<lambda>wt t. sweep_ok hs t \<and> ReadWorktree (Inr wt) \<in> set t"
  have read: "runs (sweep_ok hs) (read_call k ReadWorktree (k_readWorktree k namespace name))
      (\<lambda>r t. case r of Inl e \<Rightarrow> if err_is ENotFound e then sweep_ok hs t else sweep_ok hs t | Inr wt \<Rightarrow> ?I wt t)"
    by (auto intro!: runs_call before_append simp: removes_def split: sum.splits)
  have absent: "runs (sweep_ok hs) (ret None) (\<lambda>_. sweep_ok hs)" by (rule runs_ret)
  have "emits (\<lambda>e. \<not> is_sweep e) (importLegacyWriter k wt)" for wt by (intro emits_intros) (simp_all add: is_sweep_def)
  note import = runs_emits [OF this lasting_mem, OF removes_is_sweep]
  have holders: "runs (?I wt) (reconcileWorktreeHolders k wt) (\<lambda>r t. case r of Inl e \<Rightarrow> sweep_ok hs t | Inr _ \<Rightarrow> sweep_ok hs t)" for wt
    unfolding reconcileWorktreeHolders_def
    by (rule runs_andThen [where S = "\<lambda>_. ?I wt"], rule runs_post [OF import], auto split: sum.splits
        intro!: runs_andThen [where S = "\<lambda>_. sweep_ok hs"] runs_post [OF sweepWorktreeHolders_ok] runs_ret)
  have "emits (\<lambda>e. \<not> is_sweep e) (if changed then getOr (read_call k ReadWorktree (k_readWorktree k namespace name)) (ret None) (reconcile_settled k)
      else reconcile_settled k wt)" for wt changed
    by (intro emits_intros sweep_free_live) (simp_all add: is_sweep_def)
  note branch = sweep_ok_quiet [OF this]
  show ?thesis
    unfolding reconcileWorktree_def Let_def
    by (rule runs_getOr [OF read absent]) (rule runs_andThen [OF holders branch])
qed

text \<open>C28: 
  The Worktree controller sweeps a holder only when its owner is gone and its volume is idle: in every reconcile, before holders
  are removed the owner of each was looked up outside the cache and was absent or another object under the same name,
  and no Pod that still runs was listed with the Worktree's volume (or the Worktree has no volume yet).
\<close>

theorem sweep_removes_only_stale:
  "before (removes hs) (sweep_evidence hs) (snd (fst (Reconcile_worktree k namespace name (api, []))))"
proof -
  have "emits (\<lambda>e. \<not> is_sweep e) (andThen (publishUsage k namespace name) (\<lambda>_. ret result))" for result
    by (intro emits_intros) (simp_all add: is_sweep_def)
  note publish = sweep_ok_quiet [OF this]
  have "runs (sweep_ok hs) (Reconcile_worktree k namespace name) (\<lambda>_. sweep_ok hs)"
    unfolding Reconcile_worktree_def
    by (rule runs_andThen [OF _ publish], rule runs_post [OF reconcileWorktree_sweep_ok]) (auto split: sum.splits)
  moreover have "sweep_ok hs []" by (simp add: before_def)
  ultimately show ?thesis by (simp add: runs_def)
qed

section \<open>Legacy writers\<close>

lemma LegacyWriterOf_SomeD:
  assumes "LegacyWriterOf r = Inr (Some w)"
  shows "r = Inr (lw_lease w)" and "\<not> lw_deletion w \<Longrightarrow> lw_holder w \<noteq> [] \<Longrightarrow> le_holder (lw_lease w) = Some (lw_holder w)"
  using assms by (auto simp: LegacyWriterOf_def Let_def split: sum.splits option.splits if_splits)

text \<open>The Lease is the fence of the old deletion protocol, or its writer has been recorded in the hold set.\<close>

definition import_evidence :: "lease \<Rightarrow> wt_event list \<Rightarrow> bool" where
  "import_evidence l tr \<longleftrightarrow>
     (\<exists>w. LegacyWriterOf (Inr l) = Inr (Some w) \<and> lw_deletion w) \<or>
     (\<exists>reference imported. o_controller l = Some reference \<and> le_holder l = Some (or_uid reference) \<and>
        ImportWriter (legacy_holder reference l) (Inr (imported, True)) \<in> set tr)"

definition drops :: "lease \<Rightarrow> wt_event \<Rightarrow> bool" where
  "drops l e = (case e of DeleteLease l' _ \<Rightarrow> l' = l | _ \<Rightarrow> False)"

definition is_drop :: "wt_event \<Rightarrow> bool" where
  "is_drop e = (case e of DeleteLease _ _ \<Rightarrow> True | _ \<Rightarrow> False)"

abbreviation drop_ok :: "lease \<Rightarrow> wt_event list \<Rightarrow> bool" where
  "drop_ok l \<equiv> before (drops l) (import_evidence l)"

lemma drops_is_drop: "\<not> is_drop e \<Longrightarrow> \<not> drops l e"
  by (cases e) (simp_all add: is_drop_def drops_def)

lemma drop_ok_quiet: "emits (\<lambda>e. \<not> is_drop e) m \<Longrightarrow> runs (drop_ok l) m (\<lambda>_. drop_ok l)"
  by (erule runs_quiet) (rule drops_is_drop)

lemma drop_ok_delete:
  assumes "\<And>t. P t \<Longrightarrow> drop_ok l t \<and> import_evidence l' t"
  shows "runs P (call env (DeleteLease l') f) (\<lambda>_. drop_ok l)"
proof (rule runs_call)
  fix t r assume "P t"
  from assms [OF this] show "drop_ok l (t @ [DeleteLease l' r])"
    by (cases "l' = l") (simp add: before_snoc, simp add: before_append drops_def)
qed

lemma read_legacy_spec:
  "runs (drop_ok l) (read_legacy k wt)
     (\<lambda>r t. case r of Inl e \<Rightarrow> drop_ok l t | Inr x \<Rightarrow> drop_ok l t \<and> (\<forall>w. x = Some w \<longrightarrow> LegacyWriterOf (Inr (lw_lease w)) = Inr (Some w)))"
  unfolding read_legacy_def
  by (rule runs_andThen [where S = "\<lambda>_. drop_ok l"], intro runs_attempt runs_call)
     (auto intro!: runs_of_result before_append simp: drops_def split: sum.splits dest: LegacyWriterOf_SomeD(1))

lemma delete_old_fence_ok:
  assumes "lw_deletion w"
  shows "runs (\<lambda>t. drop_ok l t \<and> LegacyWriterOf (Inr (lw_lease w)) = Inr (Some w)) (delete_old_fence k w) (\<lambda>_. drop_ok l)"
proof -
  have "runs (\<lambda>t. drop_ok l t \<and> LegacyWriterOf (Inr (lw_lease w)) = Inr (Some w))
      (write_call k (DeleteLease (lw_lease w)) (k_deleteLease k False (lw_lease w))) (\<lambda>_. drop_ok l)"
    by (rule drop_ok_delete) (use assms in \<open>auto simp: import_evidence_def\<close>)
  then show ?thesis
    unfolding delete_old_fence_def by (intro runs_wrapped runs_IgnoreNotFound) (erule runs_post, auto split: sum.splits)
qed

lemma cleanup_ok: "runs (drop_ok l) (prepareWorktreeCleanup k wt) (\<lambda>_. drop_ok l)"
proof -
  have consumers: "runs (drop_ok l) (cleanup_consumers k wt) (\<lambda>_. drop_ok l)"
    unfolding cleanup_consumers_def Let_def by (intro drop_ok_quiet emits_intros) (simp_all add: is_drop_def)
  have wait: "emits (\<lambda>e. \<not> is_drop e) (cleanupReferenceWait k wt)"
    unfolding cleanupReferenceWait_def cleanupReferenceBlockers_def by (intro emits_intros) (simp_all add: is_drop_def)
  have legacy: "runs (drop_ok l) (cleanup_legacy k wt) (\<lambda>_. drop_ok l)"
    unfolding cleanup_legacy_def
    by (rule runs_andThen [where S = "\<lambda>x t. drop_ok l t \<and> (\<forall>w. x = Some w \<longrightarrow> LegacyWriterOf (Inr (lw_lease w)) = Inr (Some w))"],
        rule runs_wrapped, rule runs_post [OF read_legacy_spec])
       (auto split: sum.splits option.splits intro!: runs_ret runs_pre [OF consumers]
          runs_andThen [OF _ consumers] runs_post [OF delete_old_fence_ok])
  have references: "runs (drop_ok l) (cleanup_references k wt) (\<lambda>_. drop_ok l)"
    unfolding cleanup_references_def
    by (rule runs_andThen [where S = "\<lambda>_. drop_ok l"], rule runs_post [OF drop_ok_quiet [OF wait]])
       (auto split: sum.splits option.splits intro!: runs_ret legacy)
  show ?thesis
    unfolding prepareWorktreeCleanup_def
    by (rule runs_andThen [where S = "\<lambda>_. drop_ok l"], rule runs_clock, simp,
        rule runs_andThen [where S = "\<lambda>_. drop_ok l"], rule runs_call)
       (auto intro!: before_append runs_ret references simp: drops_def split: sum.splits option.splits)
qed

lemma record_legacy_ok:
  assumes "o_controller l' = Some ref" "le_holder l' = Some (or_uid ref)"
  shows "runs (drop_ok l) (record_legacy k wt l' (legacy_holder ref l')) (\<lambda>_. drop_ok l)"
proof -
  have wanted: "emits (\<lambda>e. \<not> is_drop e) (legacyWriterWanted k wt h)" for h
    unfolding legacyWriterWanted_def by (intro emits_intros) (simp_all add: is_drop_def)
  have delete: "runs (\<lambda>t. drop_ok l t \<and> import_evidence l' t)
      (andThen (attempt (write_call k (DeleteLease l') (k_deleteLease k True l'))) (\<lambda>deleted.
         case deleted of Inr _ \<Rightarrow> ret imported
         | Inl e \<Rightarrow> if err_is ENotFound e \<or> err_is EConflict e then ret imported
             else raise (EWrap ''delete imported legacy Worktree write Lease'' e))) (\<lambda>_. drop_ok l)" for imported
    by (rule runs_andThen [where S = "\<lambda>_. drop_ok l"], rule runs_attempt, rule runs_post [OF drop_ok_delete])
       (auto intro!: runs_ret runs_raise split: sum.splits)
  have import: "runs (drop_ok l) (call (k_env k) (ImportWriter (legacy_holder ref l')) f)
      (\<lambda>r t. case r of Inl e \<Rightarrow> drop_ok l t | Inr (imported, held) \<Rightarrow> drop_ok l t \<and> (held \<longrightarrow> import_evidence l' t))"
    for f :: "(nat \<Rightarrow> 'a \<Rightarrow> 'a) \<Rightarrow> 'a \<Rightarrow> 'a \<times> (bool \<times> bool) result"
    by (rule runs_call) (use assms in \<open>auto intro!: before_append simp: drops_def import_evidence_def split: sum.splits prod.splits\<close>)
  show ?thesis
    unfolding record_legacy_def
    by (rule runs_andThen [where S = "\<lambda>_. drop_ok l"], rule runs_post [OF drop_ok_quiet [OF wanted]], simp split: sum.splits,
        auto intro!: runs_ret runs_andThen [where S = "\<lambda>_. drop_ok l"] runs_clock
          runs_andThen [where S = "\<lambda>(imported, held) t. drop_ok l t \<and> (held \<longrightarrow> import_evidence l' t)"]
          runs_wrapped runs_post [OF import] runs_pre [OF delete] split: sum.splits prod.splits)
qed

lemma import_ok: "runs (drop_ok l) (importLegacyWriter k wt) (\<lambda>_. drop_ok l)"
  unfolding importLegacyWriter_def
proof (rule runs_andThen [where S = "\<lambda>x t. drop_ok l t \<and> (\<forall>w. x = Some w \<longrightarrow> LegacyWriterOf (Inr (lw_lease w)) = Inr (Some w))"],
    rule read_legacy_spec, rule runs_fact)
  fix x assume found: "\<forall>w. x = Some w \<longrightarrow> LegacyWriterOf (Inr (lw_lease w)) = Inr (Some w)"
  show "runs (drop_ok l) (case x of None \<Rightarrow> ret False
     | Some legacy \<Rightarrow>
         if lw_deletion legacy \<or> lw_holder legacy = [] then ret False
         else (case o_controller (lw_lease legacy) of
                 None \<Rightarrow> ret False
               | Some reference \<Rightarrow>
                   if or_uid reference \<noteq> lw_holder legacy then ret False
                   else record_legacy k wt (lw_lease legacy) (legacy_holder reference (lw_lease legacy)))) (\<lambda>_. drop_ok l)"
    using found by (auto split: option.splits intro!: runs_ret record_legacy_ok dest: LegacyWriterOf_SomeD(2))
qed

lemma drop_quiet_keeps: "emits (\<lambda>e. \<not> is_drop e) m \<Longrightarrow> keeps (drop_ok l) m"
  by (erule keeps_quiet) (rule drops_is_drop)

lemma drop_status_quiet: "emits (\<lambda>e. \<not> is_drop e) (setWorktreeStatus k wt status reason message c s p)"
  by (intro emits_setWorktreeStatus) (simp_all add: is_drop_def)

lemma drop_create_quiet: "emits (\<lambda>e. \<not> is_drop e) (create_child k wt name)"
  unfolding create_child_def admit_child_def plan_child_def stop_with_def Let_def
  by (intro emits_intros emits_setWorktreeStatus) (simp_all add: is_drop_def)

lemma reconcile_settled_drop_ok: "keeps (drop_ok l) (reconcile_settled k wt)"
proof -
  have cleanup: "keeps (drop_ok l) (prepareWorktreeCleanup k wt)" for wt using cleanup_ok by (simp add: keeps_def)
  have deletion: "keeps (drop_ok l) (reconcileStorageDeletion k wt)" for wt
    unfolding reconcileStorageDeletion_def
    by (intro keeps_intros cleanup drop_quiet_keeps emits_intros) (simp_all add: is_drop_def)
  have delete: "keeps (drop_ok l) (reconcileDelete k wt)" for wt
    unfolding reconcileDelete_def delete_claim_def
    by (intro keeps_intros cleanup drop_quiet_keeps emits_intros) (simp_all add: is_drop_def)
  have child: "emits (\<lambda>e. \<not> is_drop e) (reconcile_child k wt c)" for wt c
    by (intro emits_intros) (simp_all add: is_drop_def status_events_def)
  have live: "keeps (drop_ok l) (reconcile_live k wt)" for wt
    unfolding reconcile_live_def
    by (intro keeps_intros deletion drop_quiet_keeps drop_status_quiet drop_create_quiet child emits_resolve_claim)
       (simp add: is_drop_def)
  show ?thesis
    unfolding reconcile_settled_def
    by (intro keeps_intros delete live drop_quiet_keeps emits_intros) (simp add: is_drop_def)
qed

text \<open>
  A writer of an older release never becomes invisible. In every reconcile, a legacy write Lease is deleted only after its
  holder was recorded in the Worktree's hold set, by the same run, under the identity that the Lease names; the
  only other Leases that are deleted are the fences of the old deletion protocol, which grant nothing.
\<close>

theorem legacy_writer_recorded_first:
  "before (drops l) (import_evidence l) (snd (fst (Reconcile_worktree k namespace name (api, []))))"
proof (rule keeps_from_start)
  have import: "keeps (drop_ok l) (importLegacyWriter k wt)" for wt using import_ok by (simp add: keeps_def)
  have read: "emits (\<lambda>e. \<not> is_drop e) (read_call k ReadWorktree (k_readWorktree k namespace name))"
    by (intro emits_intros) (simp add: is_drop_def)
  have sweep: "emits (\<lambda>e. \<not> is_drop e) (sweepWorktreeHolders k wt)" for wt
    by (intro emits_intros) (simp_all add: is_drop_def)
  have publish: "emits (\<lambda>e. \<not> is_drop e) (publishUsage k namespace name)"
    by (intro emits_intros) (simp_all add: is_drop_def)
  show "keeps (drop_ok l) (Reconcile_worktree k namespace name)"
    unfolding Reconcile_worktree_def reconcileWorktree_def reconcileWorktreeHolders_def Let_def
    by (intro keeps_intros import reconcile_settled_drop_ok drop_quiet_keeps read sweep publish)
qed

text \<open>
  Recording a legacy writer keeps the mutual exclusion of a Worktree. The change that the controller makes to the hold set leaves it as it is or
  adds the writer; afterwards, when it reports the writer as held, the hold set names it as a writer, and a hold set
  with at most one writer still has at most one. The fence is not consulted and not changed.
\<close>

theorem legacy_import_keeps_one_writer:
  assumes "import_change now h obj s = ((imported, held), Inr (changed, s'))" "h_mode h = Write" "worktree_inv s"
  shows "worktree_inv s' \<and> hs_closed s' = hs_closed s \<and> (changed \<longrightarrow> worktree_step s s') \<and> (\<not> changed \<longrightarrow> s' = s) \<and> changed = imported \<and>
    (held \<longrightarrow> (\<exists>e. State_Find (Key h) s' = Some e \<and> h_mode e = Write)) \<and>
    (\<not> held \<longrightarrow> obj = None \<or> (\<exists>w \<in> set (hs_holders s). Key w \<noteq> Key h \<and> h_mode w = Write))"
proof (cases "changed")
  case True
  with assms(1) have free: "Conflicts (drop_key Key (Key h) (hs_holders s)) h = []" and s': "s' = State_Put now h s"
    and out: "imported" "held"
    by (auto simp: import_change_def split: if_splits)
  from free have step: "worktree_step s s'" unfolding s' by (rule worktree_step.recorded)
  from this assms(3) have "worktree_inv s'" by (rule worktree_step_inv)
  with step s' out True assms(2) show ?thesis by (simp add: Find_Put_same)
next
  case False
  with assms(1) have "s' = s" "\<not> imported" by (auto simp: import_change_def split: if_splits)
  with False assms show ?thesis
    by (auto simp: import_change_def Conflicts_iff split: if_splits option.splits)
qed

definition sample_legacy :: holder where
  "sample_legacy = \<lparr>h_kind = ''Workspace'', h_name = ''old'', h_uid = ''u9'', h_mode = Write, h_since = Some 3\<rparr>"

theorem legacy_import_keeps_one_writer_witness:
  "import_change 9 sample_legacy (Some sample_worktree) \<lparr>hs_closed = True, hs_holders = []\<rparr> =
     ((True, True), Inr (True, \<lparr>hs_closed = True, hs_holders = [sample_legacy]\<rparr>)) \<and>
   worktree_inv \<lparr>hs_closed = True, hs_holders = [sample_legacy]\<rparr>"
proof -
  have run: "import_change 9 sample_legacy (Some sample_worktree) \<lparr>hs_closed = True, hs_holders = []\<rparr> =
     ((True, True), Inr (True, \<lparr>hs_closed = True, hs_holders = [sample_legacy]\<rparr>))"
    by (simp add: import_change_def State_Find_def Conflicts_def State_Put_def put_since_def State_Remove_def sample_legacy_def)
  have "worktree_inv \<lparr>hs_closed = True, hs_holders = []\<rparr>"
    by (simp add: worktree_inv_def hold_wf_def one_writer_def)
  with legacy_import_keeps_one_writer [OF run] run show ?thesis by (simp add: sample_legacy_def)
qed

section \<open>Published status\<close>

lemma SetStatusCondition_twice:
  "SetStatusCondition now' typ c (SetStatusCondition now typ c conds) = SetStatusCondition now typ c conds"
  by (auto simp: SetStatusCondition_def fun_eq_iff)

lemma condition_types_distinct [simp]:
  "ConditionReady \<noteq> ConditionVolumeReady" "ConditionVolumeReady \<noteq> ConditionReady"
  by (simp_all add: ConditionReady_def ConditionVolumeReady_def)

lemma SetStatusCondition_absorb:
  assumes "typ \<noteq> typ'"
  shows "SetStatusCondition n2 typ c (SetStatusCondition n3 typ' c' (SetStatusCondition n1 typ c (SetStatusCondition n0 typ' c' conds))) =
    SetStatusCondition n1 typ c (SetStatusCondition n0 typ' c' conds)"
  using assms by (auto simp: SetStatusCondition_def fun_eq_iff)

lemma spec_of_status [simp]:
  "Deferred (cur\<lparr>wt_observed := x_wt_observed\<rparr>) = Deferred cur"
  "Deferred (cur\<lparr>wt_sourceClaim := x_wt_sourceClaim\<rparr>) = Deferred cur"
  "Deferred (cur\<lparr>wt_claim := x_wt_claim\<rparr>) = Deferred cur"
  "Deferred (cur\<lparr>wt_path := x_wt_path\<rparr>) = Deferred cur"
  "Deferred (cur\<lparr>wt_jobName := x_wt_jobName\<rparr>) = Deferred cur"
  "Deferred (cur\<lparr>wt_conditions := x_wt_conditions\<rparr>) = Deferred cur"
  "worktreeBootstrapJobName sha (cur\<lparr>wt_observed := x_wt_observed\<rparr>) = worktreeBootstrapJobName sha cur"
  "worktreeBootstrapJobName sha (cur\<lparr>wt_sourceClaim := x_wt_sourceClaim\<rparr>) = worktreeBootstrapJobName sha cur"
  "worktreeBootstrapJobName sha (cur\<lparr>wt_claim := x_wt_claim\<rparr>) = worktreeBootstrapJobName sha cur"
  "worktreeBootstrapJobName sha (cur\<lparr>wt_path := x_wt_path\<rparr>) = worktreeBootstrapJobName sha cur"
  "worktreeBootstrapJobName sha (cur\<lparr>wt_jobName := x_wt_jobName\<rparr>) = worktreeBootstrapJobName sha cur"
  "worktreeBootstrapJobName sha (cur\<lparr>wt_conditions := x_wt_conditions\<rparr>) = worktreeBootstrapJobName sha cur"
  by (simp_all add: Deferred_def label_value_def worktreeBootstrapJobName_def)

text \<open>
  Status publication settles. Every status that the Worktree controller computes is a fixed point: computed again from
  the published object with the same inputs, at any later time, it is the same status, so a reconcile that
  changes nothing writes nothing and does not trigger itself.
\<close>

theorem status_writes_settle:
  "worktree_status sha now' status reason message c s p (worktree_status sha now status reason message c s p cur) =
     worktree_status sha now status reason message c s p cur \<and>
   volume_ready_status now' c s p (volume_ready_status now c s p cur) = volume_ready_status now c s p cur \<and>
   deletion_status now' reason message (deletion_status now reason message cur) = deletion_status now reason message cur \<and>
   usage_status now' holders consumers (usage_status now holders consumers cur) = usage_status now holders consumers cur \<and>
   blocked_conditions now' (cur\<lparr>wt_conditions := blocked_conditions now cur wait\<rparr>) wait = blocked_conditions now cur wait"
proof -
  have 1: "worktree_status sha now' status reason message c s p (worktree_status sha now status reason message c s p cur) =
      worktree_status sha now status reason message c s p cur"
    by (cases "storage_failure reason"; cases "c = []"; cases "Deferred cur"; cases "wt_jobName cur = []"; cases "status = CTrue")
       (simp_all add: worktree_status_def Let_def SetStatusCondition_twice SetStatusCondition_absorb)
  have 2: "volume_ready_status now' c s p (volume_ready_status now c s p cur) = volume_ready_status now c s p cur"
    by (simp add: volume_ready_status_def SetStatusCondition_twice)
  have 3: "deletion_status now' reason message (deletion_status now reason message cur) = deletion_status now reason message cur"
    by (simp add: deletion_status_def Let_def SetStatusCondition_absorb)
  have 4: "usage_status now' holders consumers (usage_status now holders consumers cur) = usage_status now holders consumers cur"
    by (simp add: usage_status_def SetStatusCondition_twice split: prod.splits)
  have 5: "blocked_conditions now' (cur\<lparr>wt_conditions := blocked_conditions now cur wait\<rparr>) wait = blocked_conditions now cur wait"
    by (cases wait) (simp_all add: blocked_conditions_def RemoveStatusCondition_def SetStatusCondition_twice)
  from 1 2 3 4 5 show ?thesis by simp
qed

section \<open>The child and its Job\<close>

text \<open>
  A created child volume is recognised by every later reconcile. When a clone is planned, the claim that the controller creates names its source
  for recovery, satisfies the Worktree's own storage specification, passes the owner check of the Worktree,
  carries the protection finalizer and is no smaller than its source.
\<close>

theorem created_child_recovers:
  assumes "PlanClone (Some source) repositorySize (wt_storage wt) = Inr plan" "o_name source \<noteq> []" "o_uid wt \<noteq> []"
  shows "CloneSourceName (owned_child wt name source plan) = Inr (o_name source) \<and>
    worktreeClaimMatches (owned_child wt name source plan) (wt_storage wt) \<and>
    CheckOwner (owned_child wt name source plan) \<lparr>ow_namespace = o_namespace wt, ow_name = o_name wt, ow_uid = o_uid wt\<rparr> = None \<and>
    contains_finalizer (owned_child wt name source plan) VolumeProtectionFinalizer \<and>
    pvc_request (owned_child wt name source plan) \<ge> source_minimum source"
proof (intro conjI)
  note built = owned_child_def worktreeVolumeClaim_def blank_object_def kobj.defs pvc.defs
  from assms(1) have p: "apply_override (source_minimum source) (default_plan source repositorySize) (wt_storage wt) = Inr plan"
    by (auto simp: PlanClone_def split: if_splits sum.splits option.splits)
  show "CloneSourceName (owned_child wt name source plan) = Inr (o_name source)"
    using assms(2) by (simp add: CloneSourceName_def bad_source_def cloneSourceKind_def built)
  show "worktreeClaimMatches (owned_child wt name source plan) (wt_storage wt)"
    using p by (auto simp: worktreeClaimMatches_def apply_override_def built Let_def split: option.splits if_splits)
  show "CheckOwner (owned_child wt name source plan) \<lparr>ow_namespace = o_namespace wt, ow_name = o_name wt, ow_uid = o_uid wt\<rparr> = None"
    using assms(3) by (simp add: CheckOwner_def is_controlled_by_def built)
  show "contains_finalizer (owned_child wt name source plan) VolumeProtectionFinalizer"
    by (simp add: contains_finalizer_def built)
  show "pvc_request (owned_child wt name source plan) \<ge> source_minimum source"
    using p by (auto simp: apply_override_def default_plan_def built Let_def split: option.splits if_splits)
qed

theorem created_child_recovers_witness:
  "CloneSourceName (owned_child sample_worktree ''worktree-wt'' sample_pvc
      \<lparr>pl_class = ''fast'', pl_size = 12, pl_accessModes = [ReadWriteOnce]\<rparr>) = Inr ''pvc''"
proof -
  have "PlanClone (Some sample_pvc) 11 (wt_storage sample_worktree) =
      Inr \<lparr>pl_class = ''fast'', pl_size = 12, pl_accessModes = [ReadWriteOnce]\<rparr>" by code_simp
  from created_child_recovers [OF this] show ?thesis
    by (simp add: sample_worktree_def sample_pvc_def)
qed

text \<open> 
  The names of the bootstrap Job and of the init container fit a Kubernetes label, whatever the Worktree is called.
\<close>

theorem bootstrap_names_fit:
  "length (worktreeBootstrapJobName sha wt) \<le> 63 \<and> length (ContainerName sha namespace name uid) \<le> 63"
  by (auto simp: worktreeBootstrapJobName_def worktreeBootstrapJobSuffix_def ContainerName_def Let_def)

end
