(* ===== verification/OneShot.thy ===== *)
theory OneShot
  imports WorktreeController
begin

text \<open>
  Commands that run once in a Job (\<^verbatim>\<open>internal/controller/repositories/oneshot_job.go\<close>): what the controllers of
  WorktreeExec, RepositoryExec and RepositorySync share. The status adapter is a record of functions as in the
  code; a locale states the laws of its accessors and the facts about result recording are proved there once.
\<close>

section \<open>Clients and calls\<close>

record credential_key =
  ck_secret :: string
  ck_key :: string

datatype credential_spec =
    SSHPrivateKey credential_key credential_key
  | HTTPBasicAuth string credential_key
  | HTTPBearerToken credential_key
  | HTTPHeaders "(string \<times> credential_key) list"
  | OtherCredential

text \<open>
  The client of a one-shot controller, for requests of type \<open>'o\<close>. \<open>q_k\<close> is the client of the repository
  controllers; \<open>cached\<close>, \<open>read\<close>, \<open>patch\<close> and \<open>merge\<close> are as there. A deletion of a request carries its UID and
  resourceVersion, one of a Job or Pod is in the foreground.
\<close>

record ('api, 'o) oclient =
  q_k :: "'api kclient"
  q_cached :: "string \<Rightarrow> string \<Rightarrow> 'api \<Rightarrow> 'o result"
  q_read :: "string \<Rightarrow> string \<Rightarrow> 'api \<Rightarrow> 'o result"
  q_mergeStatus :: "'o \<Rightarrow> 'o \<Rightarrow> 'api \<Rightarrow> 'api \<times> err option"
  q_patchStatus :: "'o \<Rightarrow> 'o \<Rightarrow> 'api \<Rightarrow> 'api \<times> err option"
  q_patch :: "'o \<Rightarrow> 'o \<Rightarrow> 'api \<Rightarrow> 'api \<times> 'o result"
  q_update :: "'o \<Rightarrow> 'api \<Rightarrow> 'api \<times> 'o result"
  q_delete :: "'o \<Rightarrow> 'api \<Rightarrow> 'api \<times> err option"
  q_readJob :: "string \<Rightarrow> string \<Rightarrow> 'api \<Rightarrow> job result"
  q_listJobs :: "string \<Rightarrow> 'api \<Rightarrow> job list result"
  q_updateJob :: "job \<Rightarrow> 'api \<Rightarrow> 'api \<times> err option"
  q_deleteJob :: "job \<Rightarrow> 'api \<Rightarrow> 'api \<times> err option"
  q_jobPods :: "string \<Rightarrow> string \<Rightarrow> 'api \<Rightarrow> pod list result"
  q_readJobPods :: "string \<Rightarrow> string \<Rightarrow> 'api \<Rightarrow> pod list result"
  q_deletePod :: "pod \<Rightarrow> 'api \<Rightarrow> 'api \<times> err option"
  q_listLeases :: "string \<Rightarrow> string \<Rightarrow> 'api \<Rightarrow> lease list result"
  q_patchRepositoryStatus :: "repository \<Rightarrow> repository \<Rightarrow> 'api \<Rightarrow> 'api \<times> err option"
  q_readCredential :: "string \<Rightarrow> string \<Rightarrow> 'api \<Rightarrow> credential_spec result"
  q_updateClaim :: "pvc \<Rightarrow> 'api \<Rightarrow> 'api \<times> err option"

text \<open>The calls of a run with their answers; \<open>Inner\<close> are calls of the operations shared with the Worktree controller.\<close>

datatype 'o op_event =
    ReadRequest "'o result"
  | WriteRequest 'o 'o "unit result"
  | KeepRequest 'o "'o result"
  | FreeRequest 'o "'o result"
  | DeleteRequest 'o "unit result"
  | LookJob string "job result"
  | ListJobs "job list result"
  | MakeJob job "unit result"
  | UpdateJob job "unit result"
  | StopJob job "unit result"
  | JobPods string "pod list result"
  | StopPod pod "unit result"
  | TargetWorktree "worktree result"
  | AdmitWriter worktree "hold_result result"
  | ReleaseWriter "unit result"
  | ReleaseLeases "unit result"
  | TargetRepository "repository result"
  | AcquireGate repository holder "admission result"
  | ReleaseGate string "unit result"
  | GateBusy "bool result"
  | LoadGate "hold_state result"
  | WriteRepository repository repository "unit result"
  | LookCredential "credential_spec result"
  | LookClaim "(string \<times> pvc option \<times> err option) result"
  | MakeClaim pvc "unit result"
  | GrowClaim pvc "unit result"
  | Inner wt_event

abbreviation op_read :: "('api, 'o) oclient \<Rightarrow> ('a result \<Rightarrow> 'p op_event) \<Rightarrow> ('api \<Rightarrow> 'a result) \<Rightarrow> ('api, 'p op_event, 'a) ctl" where
  "op_read q ev get \<equiv> call (k_env (q_k q)) ev (reads get)"

abbreviation op_write ::
  "('api, 'o) oclient \<Rightarrow> (unit result \<Rightarrow> 'p op_event) \<Rightarrow> ('api \<Rightarrow> 'api \<times> err option) \<Rightarrow> ('api, 'p op_event, unit) ctl" where
  "op_write q ev put \<equiv> call (k_env (q_k q)) ev (writes put)"

abbreviation op_clock :: "('api, 'o) oclient \<Rightarrow> ('api, 'p op_event, time) ctl" where
  "op_clock q \<equiv> clock (k_clock (q_k q))"

text \<open>
  An operation of the Worktree controller inside a run of another one: the calls are appended to the run's
  trace, and the other clients and the clock go on from there.
\<close>

definition inner :: "('api kclient \<Rightarrow> ('api, 'a) wctl) \<Rightarrow> ('api, 'o) oclient \<Rightarrow> ('api, 'p op_event, 'a) ctl" where
  "inner f q w =
     (let n = length (snd w); k = q_k q
      in case f (k\<lparr>k_env := (\<lambda>i. k_env k (n + i)), k_clock := (\<lambda>i. k_clock k (n + i))\<rparr>) (fst w, []) of
           ((api', evs), r) \<Rightarrow> ((api', snd w @ map Inner evs), r))"

text \<open>\<^verbatim>\<open>err.Error()\<close>; the texts of API errors are not kept.\<close>

fun err_text :: "err \<Rightarrow> string" where
  "err_text (EMsg m) = m"
| "err_text (EClaimConflict m) = m"
| "err_text (EForbidden m) = m"
| "err_text (EInvalid m) = m"
| "err_text (ETerminating m) = m"
| "err_text (EWrap m e) = m @ '': '' @ err_text e"
| "err_text _ = []"

section \<open>The Job of a request\<close>

datatype one_shot_state = JobAbsent | JobPresent job | JobLost | JobConflict job

definition observeOneShotJob ::
  "('api, 'o) oclient \<Rightarrow> (string \<Rightarrow> string \<Rightarrow> 'api \<Rightarrow> job result) \<Rightarrow> 'x kobj_scheme \<Rightarrow> string \<Rightarrow>
   ('api, 'p op_event, one_shot_state) ctl" where
  "observeOneShotJob q get owner recordedJobName =
     (let jobName = (if recordedJobName = [] then o_name owner else recordedJobName)
      in andThen (attempt (op_read q (LookJob jobName) (get (o_namespace owner) jobName))) (\<lambda>found.
         case found of
           Inr j \<Rightarrow> ret (if is_controlled_by j (o_uid owner) then JobPresent j else JobConflict j)
         | Inl e \<Rightarrow>
             if \<not> err_is ENotFound e then raise (EWrap ''get command Job'' e)
             else ret (if recordedJobName \<noteq> [] then JobLost else JobAbsent)))"

definition finished_condition :: "job_condition \<Rightarrow> bool" where
  "finished_condition c = (jc_status c = CTrue \<and> (jc_type c = ''Complete'' \<or> jc_type c = ''Failed''))"

definition jobCompletionTime :: "job \<Rightarrow> time option" where
  "jobCompletionTime j =
     (case jb_completed j of
        Some t \<Rightarrow> Some t
      | None \<Rightarrow> (case find (\<lambda>c. finished_condition c \<and> jc_transition c \<noteq> None) (jb_conditions j) of
                  None \<Rightarrow> None
                | Some c \<Rightarrow> jc_transition c))"

definition terminalJobOutcome :: "job \<Rightarrow> (cond_status \<times> string \<times> string) option" where
  "terminalJobOutcome j =
     (case find finished_condition (jb_conditions j) of
        None \<Rightarrow> None
      | Some c \<Rightarrow>
          if jc_type c = ''Complete'' then Some (CTrue, ''CommandSucceeded'', ''Command completed successfully'')
          else Some (CFalse, ''CommandFailed'', if jc_message c = [] then ''Command failed'' else jc_message c))"

definition jobFinished :: "job \<Rightarrow> bool" where
  "jobFinished j = (terminalJobOutcome j \<noteq> None)"

section \<open>Recording a result\<close>

record 'o status_adapter =
  sa_status :: "'o \<Rightarrow> string \<times> conditions"
  sa_apply :: "'o \<Rightarrow> string \<Rightarrow> conditions \<Rightarrow> 'o"
  sa_completedAt :: "'o \<Rightarrow> time option"
  sa_setCompletedAt :: "'o \<Rightarrow> time option \<Rightarrow> 'o"
  sa_type :: string
  sa_kind :: string

definition terminal_condition :: "conditions \<Rightarrow> string \<Rightarrow> bool" where
  "terminal_condition conds typ = (case conds typ of None \<Rightarrow> False | Some c \<Rightarrow> c_status c \<noteq> CUnknown)"

text \<open>The object that \<^verbatim>\<open>setAt\<close> sends, and whether it sends it.\<close>

definition with_condition ::
  "'x kobj_scheme status_adapter \<Rightarrow> time \<Rightarrow> cond_status \<Rightarrow> string \<Rightarrow> string \<Rightarrow> string \<Rightarrow> 'x kobj_scheme \<Rightarrow> 'x kobj_scheme" where
  "with_condition a now status reason message jobName current =
     sa_apply a current jobName
       (SetStatusCondition now (sa_type a) (new_condition status (o_generation current) reason message) (snd (sa_status a current)))"

definition completion_changed :: "'o status_adapter \<Rightarrow> cond_status \<Rightarrow> 'o \<Rightarrow> bool" where
  "completion_changed a status applied = (status \<noteq> CUnknown \<and> sa_completedAt a applied = None)"

definition with_completion :: "'o status_adapter \<Rightarrow> time \<Rightarrow> cond_status \<Rightarrow> time option \<Rightarrow> 'o \<Rightarrow> 'o" where
  "with_completion a now status completed applied =
     (if completion_changed a status applied
      then sa_setCompletedAt a applied (Some (case completed of Some t \<Rightarrow> t | None \<Rightarrow> now))
      else applied)"

text \<open>One attempt of \<^verbatim>\<open>setAt\<close> on the copy that was read.\<close>

definition record_result ::
  "('api, 'x kobj_scheme) oclient \<Rightarrow> 'x kobj_scheme status_adapter \<Rightarrow> cond_status \<Rightarrow> string \<Rightarrow> string \<Rightarrow>
   string \<Rightarrow> time option \<Rightarrow> 'x kobj_scheme \<Rightarrow> ('api, 'x kobj_scheme op_event, unit) ctl" where
  "record_result q a status reason message jobName completed current =
     (if terminal_condition (snd (sa_status a current)) (sa_type a) then ret ()
      else andThen (op_clock q) (\<lambda>now.
           let applied = with_condition a now status reason message jobName current;
               after = with_completion a now status completed applied
           in if \<not> completion_changed a status applied \<and> fst (sa_status a current) = jobName \<and>
                 snd (sa_status a applied) (sa_type a) = snd (sa_status a current) (sa_type a)
              then ret ()
              else wrapped (''patch '' @ sa_kind a @ '' status'')
                     (op_write q (WriteRequest current after) (q_mergeStatus q current after))))"

definition setAt ::
  "('api, 'x kobj_scheme) oclient \<Rightarrow> 'x kobj_scheme status_adapter \<Rightarrow> string \<Rightarrow> string \<Rightarrow> cond_status \<Rightarrow> string \<Rightarrow> string \<Rightarrow>
   string \<Rightarrow> time option \<Rightarrow> ('api, 'x kobj_scheme op_event, unit) ctl" where
  "setAt q a namespace name status reason message jobName completed =
     RetryOnConflict DefaultBackoff
       (getOr (op_read q ReadRequest (q_cached q namespace name)) (ret ())
          (record_result q a status reason message jobName completed))"

definition set_status ::
  "('api, 'x kobj_scheme) oclient \<Rightarrow> 'x kobj_scheme status_adapter \<Rightarrow> string \<Rightarrow> string \<Rightarrow> cond_status \<Rightarrow> string \<Rightarrow> string \<Rightarrow>
   string \<Rightarrow> ('api, 'x kobj_scheme op_event, unit) ctl" where
  "set_status q a namespace name status reason message jobName =
     setAt q a namespace name status reason message jobName None"

definition backfillCompletedAt ::
  "('api, 'x kobj_scheme) oclient \<Rightarrow> 'x kobj_scheme status_adapter \<Rightarrow> string \<Rightarrow> string \<Rightarrow>
   ('api, 'x kobj_scheme op_event, unit) ctl" where
  "backfillCompletedAt q a namespace name =
     RetryOnConflict DefaultBackoff
       (getOr (op_read q ReadRequest (q_cached q namespace name)) (ret ()) (\<lambda>current.
        case snd (sa_status a current) (sa_type a) of
          None \<Rightarrow> ret ()
        | Some c \<Rightarrow>
            if c_status c = CUnknown \<or> sa_completedAt a current \<noteq> None then ret ()
            else let after = sa_setCompletedAt a current (c_transition c)
                 in wrapped (''backfill '' @ sa_kind a @ '' completion time'')
                      (op_write q (WriteRequest current after) (q_patchStatus q current after))))"

section \<open>The calls of the shared operations\<close>

lemma emits_inner [emits_intros]:
  assumes "\<And>k. emits (\<lambda>e. P (Inner e)) (f k)"
  shows "emits P (inner f q :: ('api, 'p op_event, 'a) ctl)"
proof (rule emitsI)
  fix w w' :: "'api \<times> 'p op_event list" and r :: "'a result" assume run: "inner f q w = (w', r)"
  let ?n = "length (snd w)"
  let ?k = "q_k q\<lparr>k_env := (\<lambda>i. k_env (q_k q) (?n + i)), k_clock := (\<lambda>i. k_clock (q_k q) (?n + i))\<rparr>"
  obtain api' evs r' where f: "f ?k (fst w, []) = ((api', evs), r')" by (metis prod.exhaust_sel)
  from emitsD [OF assms f] have "list_all (\<lambda>e. P (Inner e)) evs" by simp
  with run f show "\<exists>evs. snd w' = snd w @ evs \<and> list_all P evs"
    by (auto simp: inner_def Let_def list_all_iff)
qed

lemma emits_observeOneShotJob [emits_intros]:
  assumes "\<And>n r. P (LookJob n r)"
  shows "emits P (observeOneShotJob q get owner recorded)"
  unfolding observeOneShotJob_def Let_def by (intro emits_intros assms)

lemma jobFinished_iff: "jobFinished j \<longleftrightarrow> list_ex finished_condition (jb_conditions j)"
  by (auto simp: jobFinished_def terminalJobOutcome_def list_ex_iff find_None_iff find_Some_iff2 split: option.splits)
     (metis find_Some_iff nth_mem)

lemma terminalJobOutcome_status:
  "terminalJobOutcome j = Some (s, reason, message) \<Longrightarrow> s \<noteq> CUnknown \<and> reason \<noteq> [] \<and> message \<noteq> []"
  by (auto simp: terminalJobOutcome_def split: option.splits if_splits)

text \<open>
  The laws of an adapter's accessors, and what every write of a request's status keeps. \<open>result_kept\<close> is the
  contract of the API documentation: a terminal result is written once, together with its completion time, and
  a completion time that is there is never changed.
\<close>

definition result_kept :: "'x kobj_scheme status_adapter \<Rightarrow> 'x kobj_scheme \<Rightarrow> 'x kobj_scheme \<Rightarrow> bool" where
  "result_kept a cur after \<longleftrightarrow>
     o_uid after = o_uid cur \<and>
     (terminal_condition (snd (sa_status a cur)) (sa_type a) \<longrightarrow> sa_status a after = sa_status a cur) \<and>
     (sa_completedAt a cur \<noteq> None \<longrightarrow> sa_completedAt a after = sa_completedAt a cur) \<and>
     (terminal_condition (snd (sa_status a after)) (sa_type a) \<longrightarrow> \<not> terminal_condition (snd (sa_status a cur)) (sa_type a) \<longrightarrow>
        sa_completedAt a after \<noteq> None) \<and>
     (\<forall>t. t \<noteq> sa_type a \<longrightarrow> snd (sa_status a after) t = snd (sa_status a cur) t)"

definition keeps_result :: "'x kobj_scheme status_adapter \<Rightarrow> 'x kobj_scheme op_event \<Rightarrow> bool" where
  "keeps_result a e = (case e of WriteRequest cur after r \<Rightarrow> result_kept a cur after | _ \<Rightarrow> True)"

locale result_adapter =
  fixes a :: "'x kobj_scheme status_adapter"
  assumes status_apply: "sa_status a (sa_apply a obj j c) = (j, c)"
    and completed_apply: "sa_completedAt a (sa_apply a obj j c) = sa_completedAt a obj"
    and status_setCompleted: "sa_status a (sa_setCompletedAt a obj t) = sa_status a obj"
    and completed_setCompleted: "sa_completedAt a (sa_setCompletedAt a obj t) = t"
    and uid_apply: "o_uid (sa_apply a obj j c) = o_uid obj"
    and uid_setCompleted: "o_uid (sa_setCompletedAt a obj t) = o_uid obj"
begin

lemmas adapter_laws = status_apply completed_apply status_setCompleted completed_setCompleted uid_apply uid_setCompleted

lemma recorded_status:
  "sa_status a (with_completion a now status completed (with_condition a now status reason message jobName cur)) =
     (jobName, SetStatusCondition now (sa_type a) (new_condition status (o_generation cur) reason message) (snd (sa_status a cur)))"
  by (simp add: with_completion_def with_condition_def adapter_laws)

lemma recorded_completed:
  "sa_completedAt a (with_completion a now status completed (with_condition a now status reason message jobName cur)) =
     (if status \<noteq> CUnknown \<and> sa_completedAt a cur = None
      then Some (case completed of Some t \<Rightarrow> t | None \<Rightarrow> now) else sa_completedAt a cur)"
  by (simp add: with_completion_def with_condition_def completion_changed_def adapter_laws)

lemma recorded_uid:
  "o_uid (with_completion a now status completed (with_condition a now status reason message jobName cur)) = o_uid cur"
  by (simp add: with_completion_def with_condition_def adapter_laws)

lemma recorded_kept:
  assumes "\<not> terminal_condition (snd (sa_status a cur)) (sa_type a)"
  shows "result_kept a cur (with_completion a now status completed (with_condition a now status reason message jobName cur))"
  using assms unfolding result_kept_def recorded_status recorded_completed recorded_uid
  by (auto simp: terminal_condition_def SetStatusCondition_def new_condition_def)

lemma backfill_kept:
  assumes "snd (sa_status a cur) (sa_type a) = Some c" "c_status c \<noteq> CUnknown" "sa_completedAt a cur = None"
  shows "result_kept a cur (sa_setCompletedAt a cur (c_transition c))"
  using assms by (auto simp: result_kept_def adapter_laws terminal_condition_def)

lemma emits_setAt:
  assumes "\<And>r. P (ReadRequest r)"
    "\<And>cur now r. \<not> terminal_condition (snd (sa_status a cur)) (sa_type a) \<Longrightarrow>
       P (WriteRequest cur (with_completion a now status completed (with_condition a now status reason message jobName cur)) r)"
  shows "emits P (setAt q a namespace name status reason message jobName completed)"
  unfolding setAt_def record_result_def Let_def by (intro emits_intros assms)

lemma setAt_keeps_result: "emits (keeps_result a) (setAt q a namespace name status reason message jobName completed)"
  by (rule emits_setAt) (simp_all add: keeps_result_def recorded_kept)

lemma set_status_keeps_result: "emits (keeps_result a) (set_status q a namespace name status reason message jobName)"
  unfolding set_status_def by (rule setAt_keeps_result)

lemma backfill_keeps_result: "emits (keeps_result a) (backfillCompletedAt q a namespace name)"
  unfolding backfillCompletedAt_def Let_def
  by (intro emits_intros) (simp_all add: keeps_result_def backfill_kept)

end

lemma emits_backfillCompletedAt:
  assumes "\<And>r. P (ReadRequest r)" "\<And>cur after r. P (WriteRequest cur after r)"
  shows "emits P (backfillCompletedAt q a namespace name)"
  unfolding backfillCompletedAt_def Let_def by (intro emits_intros assms)

lemma emits_setAt_any:
  assumes "\<And>r. P (ReadRequest r)" "\<And>cur after r. P (WriteRequest cur after r)"
  shows "emits P (setAt q a namespace name status reason message jobName completed)"
  unfolding setAt_def record_result_def Let_def by (intro emits_intros assms)

text \<open>
  What a successful \<^verbatim>\<open>setAt\<close> establishes: the request was written with this Job name, or the copy that was read already
  carried the Job name or a terminal result, or the request is gone.
\<close>

definition on_record :: "'x kobj_scheme status_adapter \<Rightarrow> string \<Rightarrow> 'x kobj_scheme op_event list \<Rightarrow> bool" where
  "on_record a jobName tr \<longleftrightarrow>
     (\<exists>e \<in> set tr. case e of
        WriteRequest cur after (Inr _) \<Rightarrow> fst (sa_status a after) = jobName
      | ReadRequest (Inr cur) \<Rightarrow> terminal_condition (snd (sa_status a cur)) (sa_type a) \<or> fst (sa_status a cur) = jobName
      | ReadRequest (Inl e) \<Rightarrow> err_is ENotFound e
      | _ \<Rightarrow> False)"

lemma lasting_on_record: "lasting (on_record a jobName)"
  unfolding on_record_def by (rule lasting_ex_mem)

context result_adapter
begin

lemma setAt_on_record:
  "runs (since t0 (\<lambda>_. True)) (setAt q a namespace name status reason message jobName completed)
     (\<lambda>r t. case r of Inl e \<Rightarrow> since t0 (\<lambda>_. True) t | Inr x \<Rightarrow> since t0 (on_record a jobName) t)"
proof -
  let ?S = "\<lambda>cur t. \<exists>evs. t = t0 @ evs @ [ReadRequest (Inr cur)]"
  let ?R = "\<lambda>r t. case r of Inl e \<Rightarrow> since t0 (\<lambda>_. True) t | Inr x \<Rightarrow> since t0 (on_record a jobName) t"
  have attempt: "runs (?S cur) (record_result q a status reason message jobName completed cur) ?R" for cur
    unfolding record_result_def
    by (rule runs_branch, rule runs_ret, force simp: since_def on_record_def,
        rule runs_andThen [where S = "\<lambda>_. ?S cur"], rule runs_clock, simp)
       (auto simp: Let_def recorded_status on_record_def since_def intro!: runs_ret runs_wrapped runs_call split: sum.splits)
  show ?thesis
    unfolding setAt_def
    by (rule runs_RetryOnConflict, rule runs_getOr [where A = "since t0 (on_record a jobName)" and S = ?S])
       (auto intro!: runs_call runs_ret attempt simp: DefaultBackoff_def, auto simp: since_def on_record_def split: sum.splits)
qed

end

end
