(* ===== verification/RepositoryCheckout.thy ===== *)
theory RepositoryCheckout
  imports OneShot RepositoryNames
begin

text \<open>
  Checkouts of a Repository (\<^verbatim>\<open>internal/controller/repositories/repository_checkout.go\<close>): the Job that fetches and resets the
  parent volume, its credentials, and the result it reports through its termination message.
\<close>

section \<open>Results\<close>

record checkout_result =
  cr_commit :: string
  cr_submoduleFailures :: "string list"

definition no_checkout_result :: checkout_result where
  "no_checkout_result = \<lparr>cr_commit = [], cr_submoduleFailures = []\<rparr>"

definition trim_space :: "string \<Rightarrow> string" where
  "trim_space = trim is_space"

text \<open>\<^verbatim>\<open>^(?:[a-f0-9]{40}|[a-f0-9]{64})$\<close>.\<close>

definition hex_digit :: "char \<Rightarrow> bool" where
  "hex_digit c = (let n = of_char c :: nat in (48 \<le> n \<and> n \<le> 57) \<or> (97 \<le> n \<and> n \<le> 102))"

definition resolvedCommitPattern :: "string \<Rightarrow> bool" where
  "resolvedCommitPattern s = (list_all hex_digit s \<and> (length s = 40 \<or> length s = 64))"

definition repositorySubmoduleFailurePrefix :: string where
  "repositorySubmoduleFailurePrefix = ''submodule-failed ''"

definition failure_line :: "string \<Rightarrow> string option" where
  "failure_line line =
     (let l = trim_space line
      in if \<not> has_prefix repositorySubmoduleFailurePrefix l then None
         else let failure = drop (length repositorySubmoduleFailurePrefix) l
              in if CHR '' '' \<notin> set failure then None
                 else (case cut (CHR '' '') failure of (commit, path) \<Rightarrow> Some (path @ '' at '' @ commit)))"

definition parseCheckoutResult :: "string \<Rightarrow> checkout_result" where
  "parseCheckoutResult message =
     (let lines = split_on (CHR 0x0A) (trim_space message); commit = trim_space (hd lines)
      in \<lparr>cr_commit = (if resolvedCommitPattern commit then commit else []),
          cr_submoduleFailures = List.map_filter failure_line (tl lines)\<rparr>)"

definition repositoryCheckoutContainer :: string where "repositoryCheckoutContainer = ''bootstrap''"
definition repositoryCredentialRoot :: string where "repositoryCredentialRoot = ''/run/rc/credentials''"

text \<open>The first terminated checkout container of the Job's own Pods.\<close>

definition checkout_message :: "job \<Rightarrow> pod list \<Rightarrow> string option" where
  "checkout_message j pods =
     map_option cs_message
       (find (\<lambda>c. cs_name c = repositoryCheckoutContainer \<and> cs_exit c \<noteq> None)
          (concat (map pd_statuses (filter (\<lambda>p. is_controlled_by p (o_uid j)) pods))))"

definition readCheckoutResult :: "('api, 'o) oclient \<Rightarrow> job \<Rightarrow> ('api, 'p op_event, checkout_result \<times> bool) ctl" where
  "readCheckoutResult q j =
     andThen (op_read q (JobPods (o_name j)) (q_readJobPods q (o_namespace j) (o_name j))) (\<lambda>pods.
     ret (case checkout_message j pods of
            Some message \<Rightarrow> (parseCheckoutResult message, True)
          | None \<Rightarrow> (no_checkout_result, False)))"

definition repositoryCredential :: "('api, 'o) oclient \<Rightarrow> repository \<Rightarrow> ('api, 'p op_event, credential_spec option) ctl" where
  "repositoryCredential q repository =
     (case rp_credential repository of
        None \<Rightarrow> ret None
      | Some name \<Rightarrow> andThen (op_read q LookCredential (q_readCredential q (o_namespace repository) name)) (\<lambda>c. ret (Some c)))"

section \<open>The Job\<close>

record checkout_auth =
  au_mode :: string
  au_env :: "(string \<times> string) list"
  au_secrets :: "secret_mount list"
  au_headers :: "string list"

definition secret_path :: "string \<Rightarrow> string" where
  "secret_path purpose = repositoryCredentialRoot @ ''/'' @ purpose"

definition add_secret :: "string \<Rightarrow> credential_key \<Rightarrow> secret_mount" where
  "add_secret purpose reference =
     \<lparr>sm_volume = ''credential-'' @ purpose, sm_secret = ck_secret reference, sm_key = ck_key reference, sm_path = secret_path purpose\<rparr>"

definition header_purpose :: "nat \<Rightarrow> string" where
  "header_purpose index = ''http-header-'' @ nat_digits index"

definition repositoryCheckoutAuth :: "credential_spec option \<Rightarrow> checkout_auth" where
  "repositoryCheckoutAuth credential =
     (case credential of
        None \<Rightarrow> \<lparr>au_mode = ''none'', au_env = [], au_secrets = [], au_headers = []\<rparr>
      | Some (SSHPrivateKey privateKey knownHosts) \<Rightarrow>
          \<lparr>au_mode = ''ssh'',
           au_env = [(''GIT_SSH_COMMAND'', ''ssh -i '' @ secret_path ''ssh-private-key'' @ '' -o UserKnownHostsFile='' @
                       secret_path ''ssh-known-hosts'' @ '' -o IdentitiesOnly=yes'')],
           au_secrets = [add_secret ''ssh-private-key'' privateKey, add_secret ''ssh-known-hosts'' knownHosts], au_headers = []\<rparr>
      | Some (HTTPBasicAuth username password) \<Rightarrow>
          \<lparr>au_mode = ''basic'', au_env = [(''RC_GIT_USERNAME'', username), (''RC_GIT_PASSWORD_FILE'', secret_path ''http-password'')],
           au_secrets = [add_secret ''http-password'' password], au_headers = []\<rparr>
      | Some (HTTPBearerToken token) \<Rightarrow>
          \<lparr>au_mode = ''bearer'', au_env = [(''RC_GIT_TOKEN_FILE'', secret_path ''http-token'')],
           au_secrets = [add_secret ''http-token'' token], au_headers = []\<rparr>
      | Some (HTTPHeaders headers) \<Rightarrow>
          \<lparr>au_mode = ''headers'', au_env = [],
           au_secrets = map (\<lambda>(i, h). add_secret (header_purpose i) (snd h)) (enumerate 0 headers),
           au_headers = concat (map (\<lambda>(i, h). [fst h, secret_path (header_purpose i)]) (enumerate 0 headers))\<rparr>
      | Some OtherCredential \<Rightarrow> \<lparr>au_mode = ''unsupported'', au_env = [], au_secrets = [], au_headers = []\<rparr>)"

definition repositorySubmoduleFailurePolicy :: "repository \<Rightarrow> string" where
  "repositorySubmoduleFailurePolicy repository =
     (case rp_submodules repository of
        None \<Rightarrow> ''Fail''
      | Some s \<Rightarrow> if sb_failurePolicy s = [] then ''Fail'' else sb_failurePolicy s)"

definition repositorySubmoduleMode :: "repository \<Rightarrow> string" where
  "repositorySubmoduleMode repository =
     (case rp_submodules repository of
        None \<Rightarrow> ''none''
      | Some s \<Rightarrow> if sb_recursive s then ''recursive'' else ''direct'')"

definition single_quote :: string where "single_quote = [CHR 0x27]"
definition backslash :: string where "backslash = [CHR 0x5C]"

definition repositoryCheckoutScript :: string where
  "repositoryCheckoutScript = concat (map (\<lambda>l. l @ [CHR 0x0A])
     [[],
      ''remote='' @ quote_mark @ ''$1'' @ quote_mark,
      ''ref='' @ quote_mark @ ''$2'' @ quote_mark,
      ''submodule_mode='' @ quote_mark @ ''$3'' @ quote_mark,
      ''submodule_failure_policy='' @ quote_mark @ ''$4'' @ quote_mark,
      ''auth_mode='' @ quote_mark @ ''$5'' @ quote_mark,
      ''header_count='' @ quote_mark @ ''$6'' @ quote_mark,
      ''shift 6'',
      [],
      ''case '' @ quote_mark @ ''$auth_mode'' @ quote_mark @ '' in'',
      ''none|ssh)'',
      ''  ;;'',
      ''basic)'',
      ''  export GIT_CONFIG_COUNT=1'',
      ''  export GIT_CONFIG_KEY_0=credential.helper'',
      ''  export GIT_CONFIG_VALUE_0='' @ single_quote @ ''!f() { printf '' @ quote_mark @ ''username=%s'' @ backslash @ backslash @ ''npassword=%s'' @ backslash @ backslash @ ''n'' @ quote_mark @ '' '' @ quote_mark @ ''$RC_GIT_USERNAME'' @ quote_mark @ '' '' @ quote_mark @ ''$(cat '' @ quote_mark @ ''$RC_GIT_PASSWORD_FILE'' @ quote_mark @ '')'' @ quote_mark @ ''; }; f'' @ single_quote,
      ''  ;;'',
      ''bearer)'',
      ''  token='' @ quote_mark @ ''$(cat '' @ quote_mark @ ''$RC_GIT_TOKEN_FILE'' @ quote_mark @ '')'' @ quote_mark,
      ''  export GIT_CONFIG_COUNT=1'',
      ''  export GIT_CONFIG_KEY_0=http.extraHeader'',
      ''  export GIT_CONFIG_VALUE_0='' @ quote_mark @ ''Authorization: Bearer $token'' @ quote_mark,
      ''  ;;'',
      ''headers)'',
      ''  index=0'',
      ''  while [ '' @ quote_mark @ ''$index'' @ quote_mark @ '' -lt '' @ quote_mark @ ''$header_count'' @ quote_mark @ '' ]; do'',
      ''    header_name='' @ quote_mark @ ''$1'' @ quote_mark,
      ''    header_file='' @ quote_mark @ ''$2'' @ quote_mark,
      ''    shift 2'',
      ''    header_value='' @ quote_mark @ ''$(cat '' @ quote_mark @ ''$header_file'' @ quote_mark @ '')'' @ quote_mark,
      ''    export '' @ quote_mark @ ''GIT_CONFIG_KEY_$index=http.extraHeader'' @ quote_mark,
      ''    export '' @ quote_mark @ ''GIT_CONFIG_VALUE_$index=$header_name: $header_value'' @ quote_mark,
      ''    index=$((index + 1))'',
      ''  done'',
      ''  export GIT_CONFIG_COUNT='' @ quote_mark @ ''$header_count'' @ quote_mark,
      ''  ;;'',
      ''*)'',
      ''  echo '' @ quote_mark @ ''unsupported Repository Credential type'' @ quote_mark @ '' >&2'',
      ''  exit 64'',
      ''  ;;'',
      ''esac'',
      [],
      ''git config --global --add safe.directory /repository'',
      ''git -C /repository init'',
      ''git -C /repository config checkout.workers 8'',
      ''git -C /repository config checkout.thresholdForParallelism 100'',
      ''if git -C /repository remote get-url origin >/dev/null 2>&1; then'',
      ''  git -C /repository remote set-url origin '' @ quote_mark @ ''$remote'' @ quote_mark,
      ''else'',
      ''  git -C /repository remote add origin '' @ quote_mark @ ''$remote'' @ quote_mark,
      ''fi'',
      ''# Fetch only the parent. On-demand submodule recursion would also fetch every'',
      ''# gitlink recorded on any fetched branch, so one dropped commit on an unrelated'',
      ''# branch would fail the sync. The update below fetches what the target records.'',
      ''git -C /repository fetch --prune --recurse-submodules=no origin'',
      ''git -C /repository remote set-head origin -a >/dev/null 2>&1 || true'',
      [],
      ''if [ -n '' @ quote_mark @ ''$ref'' @ quote_mark @ '' ]; then'',
      ''  case '' @ quote_mark @ ''$ref'' @ quote_mark @ '' in'',
      ''  refs/heads/*)'',
      ''    target='' @ quote_mark @ ''refs/remotes/origin/${ref#refs/heads/}'' @ quote_mark,
      ''    ;;'',
      ''  refs/tags/*)'',
      ''    target='' @ quote_mark @ ''$ref'' @ quote_mark,
      ''    ;;'',
      ''  refs/*)'',
      ''    git -C /repository fetch --recurse-submodules=no origin '' @ quote_mark @ ''$ref'' @ quote_mark,
      ''    target=FETCH_HEAD'',
      ''    ;;'',
      ''  *)'',
      ''    target='' @ quote_mark @ ''$ref'' @ quote_mark,
      ''    ;;'',
      ''  esac'',
      ''else'',
      ''  target='' @ quote_mark @ ''$(git -C /repository symbolic-ref --quiet refs/remotes/origin/HEAD || git -C /repository rev-parse FETCH_HEAD)'' @ quote_mark,
      ''fi'',
      [],
      ''git -C /repository reset --hard '' @ quote_mark @ ''$target'' @ quote_mark,
      ''git -C /repository clean -ffdx'',
      ''# Update each top-level submodule on its own so one result names every path'',
      ''# that failed, for example because an upstream dropped the recorded commit.'',
      ''failures=/repository/.git/rc-submodule-failures'',
      ''rm -f '' @ quote_mark @ ''$failures'' @ quote_mark,
      ''case '' @ quote_mark @ ''$submodule_mode'' @ quote_mark @ '' in'',
      ''none)'',
      ''  ;;'',
      ''direct|recursive)'',
      ''  recursive='' @ quote_mark @ quote_mark,
      ''  if [ '' @ quote_mark @ ''$submodule_mode'' @ quote_mark @ '' = recursive ]; then'',
      ''    recursive=--recursive'',
      ''  fi'',
      ''  git -C /repository submodule sync $recursive'',
      ''  tab='' @ quote_mark @ ''$(printf '' @ single_quote @ backslash @ ''t'' @ single_quote @ '')'' @ quote_mark,
      ''  git -C /repository -c core.quotePath=false ls-files --stage | while IFS='' @ quote_mark @ ''$tab'' @ quote_mark @ '' read -r entry path; do'',
      ''    case '' @ quote_mark @ ''$entry'' @ quote_mark @ '' in'',
      ''    '' @ quote_mark @ ''160000 '' @ quote_mark @ ''*)'',
      ''      ;;'',
      ''    *)'',
      ''      continue'',
      ''      ;;'',
      ''    esac'',
      ''    gitlink='' @ quote_mark @ ''${entry#160000 }'' @ quote_mark,
      ''    gitlink='' @ quote_mark @ ''${gitlink%% *}'' @ quote_mark,
      ''    # Keep ssh and credential prompts off the ls-files stream.'',
      ''    if ! git -C /repository submodule update --init $recursive -- '' @ quote_mark @ ''$path'' @ quote_mark @ '' </dev/null; then'',
      ''      echo '' @ quote_mark @ ''warning: submodule $path could not be updated to $gitlink'' @ quote_mark @ '' >&2'',
      ''      printf '' @ single_quote @ ''%s %s'' @ backslash @ ''n'' @ single_quote @ '' '' @ quote_mark @ ''$gitlink'' @ quote_mark @ '' '' @ quote_mark @ ''$path'' @ quote_mark @ '' >> '' @ quote_mark @ ''$failures'' @ quote_mark,
      ''    fi'',
      ''  done'',
      ''  ;;'',
      ''*)'',
      ''  echo '' @ quote_mark @ ''unsupported Repository submodule mode'' @ quote_mark @ '' >&2'',
      ''  exit 64'',
      ''  ;;'',
      ''esac'',
      ''commit='' @ quote_mark @ ''$(git -C /repository rev-parse --verify HEAD)'' @ quote_mark,
      ''printf '' @ single_quote @ ''%s'' @ backslash @ ''n'' @ single_quote @ '' '' @ quote_mark @ ''$commit'' @ quote_mark,
      ''{'',
      ''  printf '' @ single_quote @ ''%s'' @ backslash @ ''n'' @ single_quote @ '' '' @ quote_mark @ ''$commit'' @ quote_mark,
      ''  if [ -s '' @ quote_mark @ ''$failures'' @ quote_mark @ '' ]; then'',
      ''    head -n 20 '' @ quote_mark @ ''$failures'' @ quote_mark @ '' | sed '' @ single_quote @ ''s/^/submodule-failed /'' @ single_quote,
      ''  fi'',
      ''} > /dev/termination-log'',
      ''if [ -s '' @ quote_mark @ ''$failures'' @ quote_mark @ '' ] && [ '' @ quote_mark @ ''$submodule_failure_policy'' @ quote_mark @ '' != Continue ]; then'',
      ''  rm -f '' @ quote_mark @ ''$failures'' @ quote_mark,
      ''  echo '' @ quote_mark @ ''submodules could not be updated; set spec.submodules.failurePolicy to Continue to keep the parent checkout usable'' @ quote_mark @ '' >&2'',
      ''  exit 65'',
      ''fi'',
      ''rm -f '' @ quote_mark @ ''$failures'' @ quote_mark])"

text \<open>The security contexts are fixed and left out; the Job keeps its Pod until the result is recorded, so it has no TTL.\<close>

definition repositoryCheckoutJob :: "repository \<Rightarrow> string \<Rightarrow> string \<Rightarrow> credential_spec option \<Rightarrow> job" where
  "repositoryCheckoutJob repository jobName runnerImage credential =
     (let auth = repositoryCheckoutAuth credential
      in kobj.extend
           ((blank_object (o_namespace repository) jobName)\<lparr>
              o_labels := [''app.kubernetes.io/managed-by'' \<mapsto> ''rc'', ''rc.ayaka.io/repository'' \<mapsto> o_name repository]\<rparr>)
           (job.fields 0 None [''rc.ayaka.io/repository'' \<mapsto> o_name repository] repositoryCheckoutContainer runnerImage [''sh'']
              ([''-ceu'', repositoryCheckoutScript, ''repository-checkout'', rp_url repository, rp_ref repository,
                repositorySubmoduleMode repository, repositorySubmoduleFailurePolicy repository, au_mode auth,
                nat_digits (length (au_headers auth) div 2)] @ au_headers auth)
              ''/repository'' ((''HOME'', ''/tmp'') # au_env auth) workerVolumeName workerMountPath
              (rs_claim (rp_status repository)) (au_secrets auth) [] None))"

section \<open>The report of the script\<close>

text \<open>
  The termination message that \<open>repositoryCheckoutScript\<close> writes: the commit, then at most twenty failed submodules with
  the commit each of them records. The shell and Git are not modelled further.
\<close>

definition checkout_report :: "string \<Rightarrow> (string \<times> string) list \<Rightarrow> string" where
  "checkout_report commit failures =
     commit @ [CHR 0x0A] @
     concat (map (\<lambda>(gitlink, path). repositorySubmoduleFailurePrefix @ gitlink @ '' '' @ path @ [CHR 0x0A]) (take 20 failures))"

lemma concat_lines: "xs \<noteq> [] \<Longrightarrow> concat (map (\<lambda>x. x @ [c]) xs) = join [c] xs @ [c]"
  by (induction "[c]" xs rule: join.induct) auto

lemma trim_framed:
  assumes "s \<noteq> []" "\<not> P (hd s)" "\<not> P (last s)" "list_all P t"
  shows "trim P (s @ t) = s"
proof -
  have "dropWhile P (s @ t) = s @ t" using assms(1,2) by (cases s) auto
  moreover have "dropWhile P (rev t @ rev s) = rev s"
  proof -
    have "dropWhile P (rev t @ rev s) = dropWhile P (rev s)" using assms(4) by (intro dropWhile_append2) (simp add: list_all_iff)
    also have "\<dots> = rev s" using assms(1,3) by (metis dropWhile_eq_self_iff hd_rev)
    finally show ?thesis .
  qed
  ultimately show ?thesis by (simp add: trim_def trim_right_def)
qed

lemma hex_digit_not_space: "hex_digit c \<Longrightarrow> \<not> is_space c \<and> c \<noteq> CHR '' '' \<and> c \<noteq> CHR 0x0A"
  by (auto simp: hex_digit_def is_space_def Let_def)

lemma hex_clean: "list_all hex_digit s \<Longrightarrow> c \<in> set s \<Longrightarrow> \<not> is_space c \<and> c \<noteq> CHR '' '' \<and> c \<noteq> CHR 0x0A"
  by (auto simp: list_all_iff hex_digit_not_space)

lemma join_last: "xs \<noteq> [] \<Longrightarrow> last xs \<noteq> [] \<Longrightarrow> join sep xs \<noteq> [] \<and> last (join sep xs) = last (last xs)"
  by (induction sep xs rule: join.induct) (auto simp: last_append)

lemma join_hd: "x \<noteq> [] \<Longrightarrow> hd (join sep (x # xs)) = hd x"
  by (cases xs) auto

definition reported_submodule :: "string \<times> string \<Rightarrow> bool" where
  "reported_submodule f \<longleftrightarrow> resolvedCommitPattern (fst f) \<and> snd f \<noteq> [] \<and> CHR 0x0A \<notin> set (snd f) \<and> \<not> is_space (last (snd f))"

abbreviation failure_text :: "string \<times> string \<Rightarrow> string" where
  "failure_text f \<equiv> repositorySubmoduleFailurePrefix @ fst f @ '' '' @ snd f"

lemma failure_line_report:
  assumes "reported_submodule f"
  shows "failure_line (failure_text f) = Some (snd f @ '' at '' @ fst f)"
proof -
  have "trim_space (failure_text f) = failure_text f"
    using trim_framed [of "failure_text f" is_space "[]"] assms
    by (simp add: trim_space_def reported_submodule_def repositorySubmoduleFailurePrefix_def is_space_def)
  moreover have "CHR '' '' \<notin> set (fst f)"
    using assms by (auto simp: reported_submodule_def resolvedCommitPattern_def dest: hex_clean)
  moreover have "has_prefix repositorySubmoduleFailurePrefix (failure_text f)" by (rule has_prefix_append)
  moreover have "drop (length repositorySubmoduleFailurePrefix) (failure_text f) = fst f @ CHR '' '' # snd f" by simp
  ultimately show ?thesis by (simp only: failure_line_def Let_def if_False simp_thms cut_append) (simp add: split_def)
qed

lemma failure_lines_report:
  "(\<And>f. f \<in> set fs \<Longrightarrow> reported_submodule f) \<Longrightarrow>
   List.map_filter failure_line (map failure_text fs) = map (\<lambda>f. snd f @ '' at '' @ fst f) fs"
  by (induction fs) (simp_all add: map_filter_simps failure_line_report [simplified])


definition sample_commit :: string where
  "sample_commit = replicate 40 CHR ''a''"


end
