(* ===== verification/WorktreeExec.thy ===== *)
theory WorktreeExec
  imports OneShot
begin

text \<open>
  The WorktreeExec controller (\<^verbatim>\<open>internal/controller/repositories/worktreeexec_controller.go\<close>): one command in a
  Worktree, while it holds the Worktree's exclusive writer.
\<close>

section \<open>Operations\<close>

type_synonym 'api xclient = "('api, worktree_exec) oclient"
type_synonym ('api, 'a) xctl = "('api, worktree_exec op_event, 'a) ctl"

definition worktreeExecDependencyRequeue :: duration where "worktreeExecDependencyRequeue = 2 * 10 ^ 9"
definition execJobTTLSeconds :: int where "execJobTTLSeconds = 3 * 24 * 60 * 60"
definition ConditionSucceeded :: string where "ConditionSucceeded = ''Succeeded''"

definition worktreeExecStatus :: "worktree_exec status_adapter" where
  "worktreeExecStatus =
     \<lparr>sa_status = (\<lambda>exec. (wx_jobName exec, wx_conditions exec)),
      sa_apply = (\<lambda>exec jobName conds. exec\<lparr>wx_jobName := jobName, wx_conditions := conds\<rparr>),
      sa_completedAt = wx_completedAt, sa_setCompletedAt = (\<lambda>exec t. exec\<lparr>wx_completedAt := t\<rparr>),
      sa_type = ConditionSucceeded, sa_kind = ''WorktreeExec''\<rparr>"

definition execHolder :: "worktree_exec \<Rightarrow> holder" where
  "execHolder exec = HolderFor KindWorktreeExec exec Write"

definition exec_setSucceeded ::
  "'api xclient \<Rightarrow> worktree_exec \<Rightarrow> cond_status \<Rightarrow> string \<Rightarrow> string \<Rightarrow> string \<Rightarrow> ('api, unit) xctl" where
  "exec_setSucceeded q exec status reason message jobName =
     set_status q worktreeExecStatus (o_namespace exec) (o_name exec) status reason message jobName"

definition errWorktreeNotReady :: err where
  "errWorktreeNotReady = EMsg ''referenced Worktree is not ready''"

definition readyWorktree :: "'api xclient \<Rightarrow> worktree_exec \<Rightarrow> ('api, worktree) xctl" where
  "readyWorktree q exec =
     andThen (attempt (op_read q TargetWorktree (k_readWorktree (q_k q) (o_namespace exec) (wx_worktree exec)))) (\<lambda>found.
     case found of
       Inl e \<Rightarrow> if err_is ENotFound e then raise (EMsg ''referenced Worktree does not exist'')
                else raise (EWrap ''get Worktree'' e)
     | Inr worktree \<Rightarrow>
         andThen (op_clock q) (\<lambda>now.
         if MountsClosed now (k_codec (q_k q)) worktree then raise (EMsg ''referenced Worktree is being deleted'')
         else if \<not> ReadyAtCurrentGeneration worktree \<or> wt_claim worktree = [] then raise errWorktreeNotReady
         else ret worktree))"

definition admit_writer :: "'api xclient \<Rightarrow> worktree_exec \<Rightarrow> worktree \<Rightarrow> ('api, hold_result) xctl" where
  "admit_writer q exec worktree =
     andThen (op_clock q) (\<lambda>now.
     call (k_env (q_k q)) (AdmitWriter worktree) (\<lambda>e api.
       case MountAccess_Admit DefaultBackoff (\<lambda>n. e (Suc n)) now (worktree_store (q_k q) now worktree)
              (q_read q (o_namespace exec) (o_name exec)) worktree (execHolder exec) (e 0 api) of
         (api', r, None) \<Rightarrow> (api', Inr r)
       | (api', _, Some x) \<Rightarrow> (api', Inl x)))"

definition acquireClaim :: "'api xclient \<Rightarrow> worktree_exec \<Rightarrow> worktree \<Rightarrow> ('api, bool) xctl" where
  "acquireClaim q exec worktree =
     andThen (wrapped ''check legacy Worktree write Lease'' (inner (\<lambda>k. read_legacy k worktree) q)) (\<lambda>legacy.
     if (case legacy of None \<Rightarrow> False | Some w \<Rightarrow> lw_holder w \<noteq> o_uid exec) then ret False
     else andThen (wrapped ''admit Worktree writer'' (admit_writer q exec worktree)) (\<lambda>result.
          ret (r_admitted result \<or> r_held result)))"

definition release_writer :: "'api xclient \<Rightarrow> worktree_exec \<Rightarrow> ('api, unit) xctl" where
  "release_writer q exec =
     andThen (op_clock q) (\<lambda>now.
     call (k_env (q_k q)) ReleaseWriter (\<lambda>e api.
       case MountAccess_Release DefaultBackoff e
              (MountAccess_Store (k_readWorktree (q_k q) (o_namespace exec) (wx_worktree exec)) (k_patchWorktree (q_k q)) now
                 (k_codec (q_k q)) []) (Key (execHolder exec)) api of
         (api', r) \<Rightarrow> (api', unit_result r)))"

definition releaseClaim :: "'api xclient \<Rightarrow> worktree_exec \<Rightarrow> ('api, unit) xctl" where
  "releaseClaim q exec =
     andThen (wrapped ''release Worktree writer'' (release_writer q exec)) (\<lambda>_.
     op_write q ReleaseLeases (ReleaseLegacyWriteLeases (k_deleteLease (q_k q) False)
       (q_listLeases q (o_namespace exec) (o_name exec)) (o_uid exec) (\<lambda>_. False)))"

definition worktreeExecJob :: "worktree_exec \<Rightarrow> worktree \<Rightarrow> string \<Rightarrow> job" where
  "worktreeExecJob exec worktree runnerImage =
     (let root = VolumeRootMountPath (o_name worktree);
          workingDirectory = (if wt_path worktree = workerMountPath then root else NativeWorktreeMountPath (o_name worktree))
      in kobj.extend (blank_object (o_namespace exec) (o_name exec))
           (job.fields 0 (Some execJobTTLSeconds) Map.empty ''exec'' runnerImage [hd (wx_command exec)] (tl (wx_command exec))
              workingDirectory [] workerVolumeName root (wt_claim worktree) [] [] None))"

definition worktreeExecStoppingFailure :: "condition option \<Rightarrow> (string \<times> string) option" where
  "worktreeExecStoppingFailure cond =
     (case cond of
        None \<Rightarrow> None
      | Some c \<Rightarrow>
          if c_status c \<noteq> CUnknown then None
          else if c_reason c = ''StoppingAfterJobLost'' then Some (''JobLost'', c_message c)
          else if c_reason c = ''StoppingAfterWorktreeUnavailable'' then Some (''WorktreeUnavailable'', c_message c)
          else if c_reason c = ''StoppingAfterWriterLost'' \<or> c_reason c = ''StoppingAfterWriteLeaseLost''
          then Some (''WriterLost'', c_message c)
          else if c_reason c = ''StoppingAfterWriterVerificationFailed'' \<or> c_reason c = ''StoppingAfterWriteLeaseVerificationFailed''
          then Some (''WriterVerificationFailed'', c_message c)
          else None)"

definition stop_job :: "'api xclient \<Rightarrow> job \<Rightarrow> ('api, unit) xctl" where
  "stop_job q j = wrapped ''stop Worktree Exec Job safely'' (IgnoreNotFound (op_write q (StopJob j) (q_deleteJob q j)))"

definition stopJobAndFail :: "'api xclient \<Rightarrow> worktree_exec \<Rightarrow> job \<Rightarrow> string \<Rightarrow> string \<Rightarrow> ('api, unit) xctl" where
  "stopJobAndFail q exec j reason message =
     andThen (stop_job q j) (\<lambda>_. exec_setSucceeded q exec CUnknown (''StoppingAfter'' @ reason) message (o_name j))"

definition stopLostJobPods :: "'api xclient \<Rightarrow> worktree_exec \<Rightarrow> ('api, bool) xctl" where
  "stopLostJobPods q exec =
     andThen (wrapped ''list Pods for lost Worktree Exec Job''
                (op_read q (JobPods (wx_jobName exec)) (q_jobPods q (o_namespace exec) (wx_jobName exec)))) (\<lambda>pods.
     if pods = [] then ret True
     else andThen (each (\<lambda>p. wrapped (''stop Pod '' @ quote_mark @ o_name p @ quote_mark @ '' for lost Worktree Exec Job'')
                             (IgnoreNotFound (op_write q (StopPod p) (q_deletePod q p)))) pods)
            (\<lambda>_. ret False))"

definition exec_reflectJobStatus :: "'api xclient \<Rightarrow> worktree_exec \<Rightarrow> job \<Rightarrow> ('api, unit) xctl" where
  "exec_reflectJobStatus q exec j =
     (case terminalJobOutcome j of
        Some (status, reason, message) \<Rightarrow>
          andThen (releaseClaim q exec) (\<lambda>_.
          setAt q worktreeExecStatus (o_namespace exec) (o_name exec) status reason message (o_name j) (jobCompletionTime j))
      | None \<Rightarrow> exec_setSucceeded q exec CUnknown ''CommandRunning'' ''Command has not completed'' (o_name j))"

section \<open>Reconcile\<close>

text \<open>\<^verbatim>\<open>createClaimedJob\<close>: the two ways it gives up, and the creation.\<close>

definition changed_after_admission :: "'api xclient \<Rightarrow> worktree_exec \<Rightarrow> ('api, ctrl_result) xctl" where
  "changed_after_admission q exec =
     andThen (releaseClaim q exec) (\<lambda>_.
     andThen (exec_setSucceeded q exec CFalse ''WorktreeUnavailable'' ''Worktree changed or closed after admitting its writer'' []) (\<lambda>_.
     ret (Some worktreeExecDependencyRequeue)))"

definition abandon :: "'api xclient \<Rightarrow> worktree_exec \<Rightarrow> err \<Rightarrow> ('api, ctrl_result) xctl" where
  "abandon q exec e = andThen (attempt (releaseClaim q exec)) (\<lambda>_. raise e)"

definition launch_job :: "'api xclient \<Rightarrow> worktree_exec \<Rightarrow> job \<Rightarrow> ('api, ctrl_result) xctl" where
  "launch_job q exec j =
     andThen (wrapped ''create Worktree Exec Job'' (op_write q (MakeJob j) (k_createJob (q_k q) j))) (\<lambda>_.
     andThen (exec_setSucceeded q exec CUnknown ''JobCreated'' ''Command Job was created'' (o_name j)) (\<lambda>_. ret None))"

definition schedule_job :: "'api xclient \<Rightarrow> worktree_exec \<Rightarrow> worktree \<Rightarrow> ('api, ctrl_result) xctl" where
  "schedule_job q exec worktree =
     (case SetControllerReference repositoriesGroupVersion ''WorktreeExec'' exec
             (worktreeExecJob exec worktree (k_image (q_k q))) of
        Inl e \<Rightarrow> abandon q exec (EWrap ''set WorktreeExec owner on Job'' e)
      | Inr j \<Rightarrow>
          andThen (attempt (exec_setSucceeded q exec CUnknown ''JobScheduled'' ''Command Job is scheduled for creation'' (o_name j))) (\<lambda>recorded.
          case recorded of Inl e \<Rightarrow> abandon q exec e | Inr _ \<Rightarrow> launch_job q exec j))"

definition createClaimedJob :: "'api xclient \<Rightarrow> worktree_exec \<Rightarrow> worktree \<Rightarrow> ('api, ctrl_result) xctl" where
  "createClaimedJob q exec worktree =
     andThen (attempt (readyWorktree q exec)) (\<lambda>current.
     if (case current of Inl e \<Rightarrow> True | Inr w \<Rightarrow> o_uid w \<noteq> o_uid worktree) then changed_after_admission q exec
     else schedule_job q exec worktree)"

text \<open>The cases of \<^verbatim>\<open>Reconcile\<close>: the Job is there, the Job was lost, there is no Job yet.\<close>

definition fail_after_stop :: "'api xclient \<Rightarrow> worktree_exec \<Rightarrow> job \<Rightarrow> string \<Rightarrow> string \<Rightarrow> ('api, ctrl_result) xctl" where
  "fail_after_stop q exec j reason message =
     andThen (stopJobAndFail q exec j reason message) (\<lambda>_. ret (Some worktreeExecDependencyRequeue))"

definition verify_writer :: "'api xclient \<Rightarrow> worktree_exec \<Rightarrow> job \<Rightarrow> ('api, ctrl_result) xctl" where
  "verify_writer q exec j =
     andThen (attempt (readyWorktree q exec)) (\<lambda>found.
     case found of
       Inl e \<Rightarrow> fail_after_stop q exec j ''WorktreeUnavailable'' (err_text e)
     | Inr worktree \<Rightarrow>
         andThen (attempt (acquireClaim q exec worktree)) (\<lambda>acquired.
         case acquired of
           Inl e \<Rightarrow> fail_after_stop q exec j ''WriterVerificationFailed'' (''Worktree writer could not be verified: '' @ err_text e)
         | Inr False \<Rightarrow> fail_after_stop q exec j ''WriterLost'' ''Worktree is held by another writer''
         | Inr True \<Rightarrow> andThen (exec_reflectJobStatus q exec j) (\<lambda>_. ret None)))"

definition exec_present :: "'api xclient \<Rightarrow> worktree_exec \<Rightarrow> job \<Rightarrow> ('api, ctrl_result) xctl" where
  "exec_present q exec j =
     (case worktreeExecStoppingFailure (wx_conditions exec ConditionSucceeded) of
        Some (reason, message) \<Rightarrow>
          if o_deleting j = None then fail_after_stop q exec j reason message
          else ret (Some worktreeExecDependencyRequeue)
      | None \<Rightarrow>
          if jobFinished j then andThen (exec_reflectJobStatus q exec j) (\<lambda>_. ret None)
          else verify_writer q exec j)"

definition exec_lost :: "'api xclient \<Rightarrow> worktree_exec \<Rightarrow> ('api, ctrl_result) xctl" where
  "exec_lost q exec =
     andThen (stopLostJobPods q exec) (\<lambda>podsGone.
     if \<not> podsGone
     then andThen (exec_setSucceeded q exec CUnknown ''StoppingAfterJobLost'' ''Command Job disappeared; waiting for its Pods to stop''
                     (wx_jobName exec)) (\<lambda>_. ret (Some worktreeExecDependencyRequeue))
     else andThen (releaseClaim q exec) (\<lambda>_.
          case worktreeExecStoppingFailure (wx_conditions exec ConditionSucceeded) of
            Some (reason, message) \<Rightarrow> andThen (exec_setSucceeded q exec CFalse reason message (wx_jobName exec)) (\<lambda>_. ret None)
          | None \<Rightarrow> andThen (exec_setSucceeded q exec CFalse ''JobLost''
                      ''Command Job disappeared before its terminal result was recorded'' (wx_jobName exec)) (\<lambda>_. ret None)))"

definition claim_and_create :: "'api xclient \<Rightarrow> worktree_exec \<Rightarrow> worktree \<Rightarrow> ('api, ctrl_result) xctl" where
  "claim_and_create q exec worktree =
     andThen (acquireClaim q exec worktree) (\<lambda>acquired.
     if \<not> acquired
     then andThen (exec_setSucceeded q exec CUnknown ''WaitingForWorktree'' ''Another runtime or exec is using the Worktree'' [])
            (\<lambda>_. ret (Some worktreeExecDependencyRequeue))
     else createClaimedJob q exec worktree)"

definition exec_start :: "'api xclient \<Rightarrow> worktree_exec \<Rightarrow> ('api, ctrl_result) xctl" where
  "exec_start q exec =
     andThen (attempt (readyWorktree q exec)) (\<lambda>found.
     case found of
       Inl e \<Rightarrow>
         if err_is errWorktreeNotReady e
         then andThen (exec_setSucceeded q exec CUnknown ''WorktreeNotReady'' (err_text e) []) (\<lambda>_. ret (Some worktreeExecDependencyRequeue))
         else andThen (exec_setSucceeded q exec CFalse ''WorktreeUnavailable'' (err_text e) []) (\<lambda>_. ret None)
     | Inr worktree \<Rightarrow> claim_and_create q exec worktree)"

definition exec_finished :: "'api xclient \<Rightarrow> worktree_exec \<Rightarrow> ('api, ctrl_result) xctl" where
  "exec_finished q exec =
     andThen (if wx_completedAt exec = None
              then backfillCompletedAt q worktreeExecStatus (o_namespace exec) (o_name exec) else ret ()) (\<lambda>_.
     andThen (releaseClaim q exec) (\<lambda>_. ret None))"

definition exec_running :: "'api xclient \<Rightarrow> worktree_exec \<Rightarrow> ('api, ctrl_result) xctl" where
  "exec_running q exec =
     andThen (wrapped ''observe Worktree Exec Job'' (observeOneShotJob q (k_cachedJob (q_k q)) exec (wx_jobName exec))) (\<lambda>state.
     case state of
       JobPresent j \<Rightarrow> exec_present q exec j
     | JobLost \<Rightarrow> exec_lost q exec
     | JobConflict _ \<Rightarrow> andThen (exec_setSucceeded q exec CFalse ''JobConflict'' ''A Job with the requested name already exists'' [])
                          (\<lambda>_. ret None)
     | JobAbsent \<Rightarrow> exec_start q exec)"

definition Reconcile_worktreeexec :: "'api xclient \<Rightarrow> string \<Rightarrow> string \<Rightarrow> ('api, ctrl_result) xctl" where
  "Reconcile_worktreeexec q namespace name =
     getOr (op_read q ReadRequest (q_cached q namespace name)) (ret None) (\<lambda>exec.
     if terminal_condition (wx_conditions exec) ConditionSucceeded then exec_finished q exec
     else if wx_command exec = [] \<or> hd (wx_command exec) = []
     then andThen (exec_setSucceeded q exec CFalse ''InvalidCommand'' ''Command must contain a non-empty executable'' []) (\<lambda>_. ret None)
     else exec_running q exec)"

text \<open>Which execs an event of a Worktree or of a Pod of a Job enqueues; a failed list enqueues nothing.\<close>

definition execsForWorktree :: "worktree_exec list result \<Rightarrow> 'x kobj_scheme \<Rightarrow> (string \<times> string) list" where
  "execsForWorktree listed obj =
     (case listed of
        Inl _ \<Rightarrow> []
      | Inr execs \<Rightarrow> map (\<lambda>e. (o_namespace e, o_name e)) (filter (\<lambda>e. wx_worktree e = o_name obj) execs))"

definition execsForJobPod :: "worktree_exec list result \<Rightarrow> 'x kobj_scheme \<Rightarrow> (string \<times> string) list" where
  "execsForJobPod listed obj =
     (if label_value obj ''job-name'' = [] then []
      else case listed of
             Inl _ \<Rightarrow> []
           | Inr execs \<Rightarrow> map (\<lambda>e. (o_namespace e, o_name e)) (filter (\<lambda>e. wx_jobName e = label_value obj ''job-name'') execs))"

end
