(* ===== verification/RepositoryOperations.thy ===== *)
theory RepositoryOperations
  imports RepositoryCheckout WorktreeExec
begin

text \<open>
  Operations on a Repository's parent volume: \<^verbatim>\<open>internal/controller/repositories/repository_operation.go\<close>, the RepositoryExec
  controller (\<^verbatim>\<open>repositoryexec_controller.go\<close>) and the RepositorySync controller (\<^verbatim>\<open>repositorysync_controller.go\<close>). Both hold a write
  reservation of the Repository while their Job runs.
\<close>

section \<open>Releasing an operation\<close>

definition repositoryOperationFinalizer :: string where
  "repositoryOperationFinalizer = ''repositories.rc.ayaka.io/parent-access''"

definition KindRepositoryExec :: string where "KindRepositoryExec = ''RepositoryExec''"
definition KindRepositorySync :: string where "KindRepositorySync = ''RepositorySync''"
definition KindRepository :: string where "KindRepository = ''Repository''"

definition operationRequeue :: duration where "operationRequeue = 2 * 10 ^ 9"

text \<open>The parts of \<^verbatim>\<open>releaseRepositoryOperation\<close>: whether the Job allows the release, whether its Pods do, and the release.\<close>

definition job_allows_release ::
  "('api, 'x kobj_scheme) oclient \<Rightarrow> 'x kobj_scheme \<Rightarrow> string \<Rightarrow> ('api, 'x kobj_scheme op_event, bool) ctl" where
  "job_allows_release q owner jobName =
     getOr (op_read q (LookJob jobName) (q_readJob q (o_namespace owner) jobName)) (ret True) (\<lambda>j.
     if \<not> is_controlled_by j (o_uid owner) then ret True
     else if o_deleting owner \<noteq> None
     then (if o_deleting j = None then andThen (IgnoreNotFound (op_write q (StopJob j) (q_deleteJob q j))) (\<lambda>_. ret False)
           else ret False)
     else if \<not> jobFinished j then ret False
     else if jb_ttl j = None
     then let kept = j\<lparr>jb_ttl := Some execJobTTLSeconds\<rparr>
          in andThen (op_write q (UpdateJob kept) (q_updateJob q kept)) (\<lambda>_. ret True)
     else ret True)"

definition pod_stopped :: "pod \<Rightarrow> bool" where
  "pod_stopped p = (pd_phase p = PodSucceeded \<or> pd_phase p = PodFailed)"

definition pods_allow_release ::
  "('api, 'x kobj_scheme) oclient \<Rightarrow> 'x kobj_scheme \<Rightarrow> string \<Rightarrow> ('api, 'x kobj_scheme op_event, bool) ctl" where
  "pods_allow_release q owner jobName =
     andThen (op_read q (JobPods jobName) (q_readJobPods q (o_namespace owner) jobName)) (\<lambda>pods. ret (list_all pod_stopped pods))"

definition release_reservation ::
  "('api, 'o) oclient \<Rightarrow> string \<Rightarrow> string \<Rightarrow> string \<Rightarrow> ('api, 'p op_event, unit) ctl" where
  "release_reservation q namespace repositoryName key =
     andThen (op_clock q) (\<lambda>now.
     call (k_env (q_k q)) (ReleaseGate key) (\<lambda>e api.
       case Gate_ReleaseNamed DefaultBackoff (\<lambda>n. e (Suc n)) (gate_store (q_k q) now)
              (k_readRepository (q_k q) namespace repositoryName) key (e 0 api) of
         (api', r) \<Rightarrow> (api', unit_result r)))"

definition free_request ::
  "('api, 'x kobj_scheme) oclient \<Rightarrow> 'x kobj_scheme \<Rightarrow> ('api, 'x kobj_scheme op_event, 'x kobj_scheme) ctl" where
  "free_request q owner =
     (if contains_finalizer owner repositoryOperationFinalizer
      then call (k_env (q_k q)) (FreeRequest owner)
             (\<lambda>e api. q_patch q owner (remove_finalizer repositoryOperationFinalizer owner) (e 0 api))
      else ret owner)"

text \<open>\<open>None\<close> when the consumers have not stopped; otherwise the request as the server answered the last patch.\<close>

definition releaseRepositoryOperation ::
  "('api, 'x kobj_scheme) oclient \<Rightarrow> 'x kobj_scheme \<Rightarrow> string \<Rightarrow> string \<Rightarrow> string \<Rightarrow>
   ('api, 'x kobj_scheme op_event, 'x kobj_scheme option) ctl" where
  "releaseRepositoryOperation q owner repositoryName key jobName =
     andThen (if jobName = [] then ret True
              else andThen (job_allows_release q owner jobName) (\<lambda>ok. if ok then pods_allow_release q owner jobName else ret False)) (\<lambda>stopped.
     if \<not> stopped then ret None
     else andThen (release_reservation q (o_namespace owner) repositoryName key) (\<lambda>_.
          andThen (free_request q owner) (\<lambda>freed. ret (Some freed))))"

section \<open>Readiness of the Repository\<close>

definition ConditionStorageReady :: string where "ConditionStorageReady = ''StorageReady''"
definition ConditionSubmodulesReady :: string where "ConditionSubmodulesReady = ''SubmodulesReady''"

definition storage_ready_status ::
  "time \<Rightarrow> repository \<Rightarrow> cond_status \<Rightarrow> string \<Rightarrow> string \<Rightarrow> string \<Rightarrow> time option \<Rightarrow> repository \<Rightarrow> repository" where
  "storage_ready_status now captured status reason message claimName lastUpdatedAt current =
     (let st = rp_status current
      in current\<lparr>rp_status := st\<lparr>rs_observed := o_generation captured,
           rs_claim := (if claimName \<noteq> [] then claimName else rs_claim st),
           rs_lastUpdated := (case lastUpdatedAt of Some t \<Rightarrow> Some t | None \<Rightarrow> rs_lastUpdated st),
           rs_conditions := SetStatusCondition now ConditionStorageReady
             (new_condition status (o_generation current) reason message) (rs_conditions st)\<rparr>\<rparr>)"

definition same_incarnation :: "repository \<Rightarrow> repository \<Rightarrow> bool" where
  "same_incarnation current captured = (o_uid current = o_uid captured \<and> o_generation current = o_generation captured)"

definition setRepositoryStorageReady ::
  "('api, 'o) oclient \<Rightarrow> repository \<Rightarrow> cond_status \<Rightarrow> string \<Rightarrow> string \<Rightarrow> string \<Rightarrow> time option \<Rightarrow> ('api, 'p op_event, unit) ctl" where
  "setRepositoryStorageReady q captured status reason message claimName lastUpdatedAt =
     RetryOnConflict DefaultBackoff
       (getOr (op_read q TargetRepository (k_cachedRepository (q_k q) (o_namespace captured) (o_name captured))) (ret ()) (\<lambda>current.
        if \<not> same_incarnation current captured then ret ()
        else andThen (op_clock q) (\<lambda>now.
             let after = storage_ready_status now captured status reason message claimName lastUpdatedAt current;
                 old = rp_status current; new = rp_status after
             in if rs_observed new = rs_observed old \<and> rs_claim new = rs_claim old \<and> rs_lastUpdated new = rs_lastUpdated old \<and>
                   rs_conditions new ConditionStorageReady = rs_conditions old ConditionStorageReady
                then ret ()
                else wrapped ''patch Repository status''
                       (op_write q (WriteRepository current after) (q_patchRepositoryStatus q current after)))))"

definition submoduleFailureMessage :: "string list \<Rightarrow> string" where
  "submoduleFailureMessage failures =
     nat_digits (length failures) @ '' submodule(s) could not be updated (the recorded commit may no longer exist upstream): '' @
     join '', '' failures"

definition submoduleCheckoutFailedMessage :: "string list \<Rightarrow> string" where
  "submoduleCheckoutFailedMessage failures =
     submoduleFailureMessage failures @ ''; set spec.submodules.failurePolicy to Continue to keep the parent checkout usable''"

definition submodules_status :: "time \<Rightarrow> string list \<Rightarrow> repository \<Rightarrow> repository" where
  "submodules_status now failures current =
     (let st = rp_status current;
          set = (\<lambda>status reason message. SetStatusCondition now ConditionSubmodulesReady
                   (new_condition status (o_generation current) reason message) (rs_conditions st))
      in current\<lparr>rp_status := st\<lparr>rs_conditions :=
           (if rp_submodules current = None then RemoveStatusCondition ConditionSubmodulesReady (rs_conditions st)
            else if failures = [] then set CTrue ''SubmodulesUpdated'' ''Every submodule is at its recorded commit''
            else set CFalse ''SubmoduleUpdateFailed'' (submoduleFailureMessage failures))\<rparr>\<rparr>)"

definition setRepositorySubmodulesReady ::
  "('api, 'o) oclient \<Rightarrow> repository \<Rightarrow> string list \<Rightarrow> ('api, 'p op_event, unit) ctl" where
  "setRepositorySubmodulesReady q captured failures =
     RetryOnConflict DefaultBackoff
       (getOr (op_read q TargetRepository (k_cachedRepository (q_k q) (o_namespace captured) (o_name captured))) (ret ()) (\<lambda>current.
        if \<not> same_incarnation current captured then ret ()
        else andThen (op_clock q) (\<lambda>now.
             let after = submodules_status now failures current
             in if rs_conditions (rp_status after) ConditionSubmodulesReady = rs_conditions (rp_status current) ConditionSubmodulesReady
                then ret ()
                else wrapped ''patch Repository submodule status''
                       (op_write q (WriteRepository current after) (q_patchRepositoryStatus q current after)))))"

definition acquire_gate ::
  "('api, 'o) oclient \<Rightarrow> repository \<Rightarrow> holder \<Rightarrow> bool \<Rightarrow> ('api, 'p op_event, admission) ctl" where
  "acquire_gate q repository h ready =
     andThen (op_clock q) (\<lambda>now.
     call (k_env (q_k q)) (AcquireGate repository h) (\<lambda>e api.
       case Gate_Acquire DefaultBackoff e now (gate_store (q_k q) now repository)
              (k_readRepository (q_k q) (o_namespace repository) (o_name repository)) (list_pod_views (q_k q) (o_namespace repository))
              (list_claim_views (q_k q) (o_namespace repository)) repository h ready api of
         (api', admission, None) \<Rightarrow> (api', Inr admission)
       | (api', _, Some x) \<Rightarrow> (api', Inl x)))"

definition keep_request ::
  "('api, 'x kobj_scheme) oclient \<Rightarrow> 'x kobj_scheme \<Rightarrow> ('api, 'x kobj_scheme op_event, 'x kobj_scheme) ctl" where
  "keep_request q request =
     (if contains_finalizer request repositoryOperationFinalizer then ret request
      else let kept = add_finalizer repositoryOperationFinalizer request
           in call (k_env (q_k q)) (KeepRequest kept) (\<lambda>e api. q_update q kept (e 0 api)))"

section \<open>RepositoryExec\<close>

record repository_exec = kobj +
  rx_repository :: string
  rx_command :: "string list"
  rx_jobName :: string
  rx_completedAt :: "time option"
  rx_conditions :: conditions

type_synonym 'api rxclient = "('api, repository_exec) oclient"
type_synonym ('api, 'a) rxctl = "('api, repository_exec op_event, 'a) ctl"

definition repositoryExecStatus :: "repository_exec status_adapter" where
  "repositoryExecStatus =
     \<lparr>sa_status = (\<lambda>exec. (rx_jobName exec, rx_conditions exec)),
      sa_apply = (\<lambda>exec jobName conds. exec\<lparr>rx_jobName := jobName, rx_conditions := conds\<rparr>),
      sa_completedAt = rx_completedAt, sa_setCompletedAt = (\<lambda>exec t. exec\<lparr>rx_completedAt := t\<rparr>),
      sa_type = ConditionSucceeded, sa_kind = ''RepositoryExec''\<rparr>"

definition repositoryUIDLabel :: string where "repositoryUIDLabel = ''repositories.rc.ayaka.io/repository-uid''"

definition repositoryExecJob :: "repository_exec \<Rightarrow> repository \<Rightarrow> string \<Rightarrow> job" where
  "repositoryExecJob exec repository runnerImage =
     kobj.extend
       ((blank_object (o_namespace exec) (o_name exec))\<lparr>
          o_labels := [''app.kubernetes.io/managed-by'' \<mapsto> ''rc'', repositoryUIDLabel \<mapsto> o_uid repository]\<rparr>)
       (job.fields 0 (Some execJobTTLSeconds) [repositoryUIDLabel \<mapsto> o_uid repository] ''exec'' runnerImage [hd (rx_command exec)]
          (tl (rx_command exec)) workerMountPath [] workerVolumeName workerMountPath (rs_claim (rp_status repository)) [] [] None)"

definition rx_setSucceeded :: "'api rxclient \<Rightarrow> repository_exec \<Rightarrow> cond_status \<Rightarrow> string \<Rightarrow> string \<Rightarrow> string \<Rightarrow> ('api, unit) rxctl" where
  "rx_setSucceeded q exec status reason message jobName =
     set_status q repositoryExecStatus (o_namespace exec) (o_name exec) status reason message jobName"

definition rx_reflectJobStatus :: "'api rxclient \<Rightarrow> repository_exec \<Rightarrow> job \<Rightarrow> ('api, unit) rxctl" where
  "rx_reflectJobStatus q exec j =
     (case terminalJobOutcome j of
        Some (status, reason, message) \<Rightarrow>
          setAt q repositoryExecStatus (o_namespace exec) (o_name exec) status reason message (o_name j) (jobCompletionTime j)
      | None \<Rightarrow> rx_setSucceeded q exec CUnknown ''CommandRunning'' ''Command has not completed'' (o_name j))"

text \<open>The cases of \<^verbatim>\<open>Reconcile\<close>. The API schema requires a command, so that its first element exists.\<close>

definition rx_launch :: "'api rxclient \<Rightarrow> repository_exec \<Rightarrow> repository \<Rightarrow> ('api, ctrl_result) rxctl" where
  "rx_launch q exec repository =
     andThen (wrapped ''set RepositoryExec owner on Job''
        (of_result (SetControllerReference repositoriesGroupVersion ''RepositoryExec'' exec
           (repositoryExecJob exec repository (k_image (q_k q)))))) (\<lambda>j.
     andThen (rx_setSucceeded q exec CUnknown ''JobScheduled'' ''Command Job is scheduled for creation'' (o_name j)) (\<lambda>_.
     andThen (wrapped ''create Repository Exec Job'' (op_write q (MakeJob j) (k_createJob (q_k q) j))) (\<lambda>_.
     andThen (rx_setSucceeded q exec CUnknown ''JobCreated'' ''Command Job was created'' (o_name j)) (\<lambda>_. ret None))))"

definition rx_admit :: "'api rxclient \<Rightarrow> repository_exec \<Rightarrow> holder \<Rightarrow> repository \<Rightarrow> ('api, ctrl_result) rxctl" where
  "rx_admit q exec h repository =
     (case Failure repository of
        Some message \<Rightarrow> andThen (rx_setSucceeded q exec CFalse FailedReason message []) (\<lambda>_. ret None)
      | None \<Rightarrow>
          if \<not> ReadyAtGeneration (rs_conditions (rp_status repository)) ConditionStorageReady (o_generation repository)
                 (rs_observed (rp_status repository)) \<or> rs_claim (rp_status repository) = []
          then andThen (rx_setSucceeded q exec CUnknown ''RepositoryNotReady'' ''Referenced Repository parent volume is not ready'' [])
                 (\<lambda>_. ret (Some operationRequeue))
          else andThen (acquire_gate q repository h True) (\<lambda>admission.
               if admission \<noteq> Admitted
               then andThen (rx_setSucceeded q exec CUnknown ''WaitingForRepository'' ''Repository is in use'' [])
                      (\<lambda>_. ret (Some operationRequeue))
               else rx_launch q exec repository))"

definition rx_start :: "'api rxclient \<Rightarrow> repository_exec \<Rightarrow> holder \<Rightarrow> ('api, ctrl_result) rxctl" where
  "rx_start q exec h =
     andThen (attempt (op_read q TargetRepository (k_cachedRepository (q_k q) (o_namespace exec) (rx_repository exec)))) (\<lambda>found.
     case found of
       Inl e \<Rightarrow>
         if err_is ENotFound e
         then andThen (rx_setSucceeded q exec CFalse ''RepositoryNotFound'' ''Referenced Repository does not exist'' []) (\<lambda>_. ret None)
         else raise (EWrap ''get Repository'' e)
     | Inr repository \<Rightarrow> rx_admit q exec h repository)"

definition rx_observe :: "'api rxclient \<Rightarrow> holder \<Rightarrow> repository_exec \<Rightarrow> ('api, ctrl_result) rxctl" where
  "rx_observe q h exec =
     andThen (wrapped ''observe Repository Exec Job'' (observeOneShotJob q (q_readJob q) exec (rx_jobName exec))) (\<lambda>state.
     case state of
       JobPresent j \<Rightarrow> andThen (rx_reflectJobStatus q exec j) (\<lambda>_. ret None)
     | JobLost \<Rightarrow> andThen (rx_setSucceeded q exec CFalse ''JobLost'' ''Command Job disappeared before its terminal result was recorded''
                    (rx_jobName exec)) (\<lambda>_. ret None)
     | JobConflict _ \<Rightarrow> andThen (rx_setSucceeded q exec CFalse ''JobConflict'' ''A Job with the requested name already exists'' [])
                          (\<lambda>_. ret None)
     | JobAbsent \<Rightarrow> rx_start q exec h)"

definition rx_holder :: "repository_exec \<Rightarrow> holder" where
  "rx_holder exec = HolderFor KindRepositoryExec exec repo_Write"

definition rx_finish :: "'api rxclient \<Rightarrow> holder \<Rightarrow> repository_exec \<Rightarrow> ('api, ctrl_result) rxctl" where
  "rx_finish q h exec =
     andThen (releaseRepositoryOperation q exec (rx_repository exec) (Key h) (rx_jobName exec)) (\<lambda>freed.
     ret (if freed = None then Some operationRequeue else None))"

definition rx_decide :: "'api rxclient \<Rightarrow> holder \<Rightarrow> bool \<Rightarrow> repository_exec \<Rightarrow> ('api, ctrl_result) rxctl" where
  "rx_decide q h terminal exec =
     (if o_deleting exec \<noteq> None \<or> terminal then rx_finish q h exec
      else andThen (keep_request q exec) (rx_observe q h))"

definition Reconcile_repositoryexec :: "'api rxclient \<Rightarrow> string \<Rightarrow> string \<Rightarrow> ('api, ctrl_result) rxctl" where
  "Reconcile_repositoryexec q namespace name =
     getOr (op_read q ReadRequest (q_read q namespace name)) (ret None) (\<lambda>exec.
     let h = rx_holder exec; terminal = terminal_condition (rx_conditions exec) ConditionSucceeded
     in if terminal \<and> rx_completedAt exec = None
        then andThen (backfillCompletedAt q repositoryExecStatus namespace name) (\<lambda>_.
             getOr (op_read q ReadRequest (q_read q namespace name)) (ret None) (rx_decide q h terminal))
        else rx_decide q h terminal exec)"

end
