(* ===== verification/RepositorySync.thy ===== *)
theory RepositorySync
  imports RepositoryOperations
begin

text \<open>
  The RepositorySync controller (\<^verbatim>\<open>internal/controller/repositories/repositorysync_controller.go\<close>): one authenticated
  checkout of a Repository's parent volume, its durable result, and the expiry of the request.
\<close>

record repository_sync = kobj +
  ry_repository :: string
  ry_ttl :: "int option"
  ry_jobName :: string
  ry_repositoryUID :: string
  ry_repositoryGeneration :: int
  ry_commit :: string
  ry_completedAt :: "time option"
  ry_conditions :: conditions

type_synonym 'api sclient = "('api, repository_sync) oclient"
type_synonym ('api, 'a) sctl = "('api, repository_sync op_event, 'a) ctl"

definition repositorySyncFailed :: string where "repositorySyncFailed = ''SyncFailed''"
definition repositorySyncDefaultTTL :: duration where "repositorySyncDefaultTTL = 72 * 60 * 60 * 10 ^ 9"

section \<open>The result\<close>

definition sync_status ::
  "time \<Rightarrow> repository_sync \<Rightarrow> cond_status \<Rightarrow> string \<Rightarrow> string \<Rightarrow> time option \<Rightarrow> repository_sync \<Rightarrow> repository_sync" where
  "sync_status now request status reason message completed current =
     current\<lparr>ry_jobName := ry_jobName request, ry_repositoryGeneration := ry_repositoryGeneration request,
       ry_repositoryUID := ry_repositoryUID request, ry_commit := ry_commit request,
       ry_completedAt := (if status \<noteq> CUnknown \<and> completed = None then Some now else completed),
       ry_conditions := SetStatusCondition now ConditionSucceeded
         (new_condition status (o_generation current) reason message) (ry_conditions current)\<rparr>"

definition same_sync_status :: "repository_sync \<Rightarrow> repository_sync \<Rightarrow> bool" where
  "same_sync_status a b =
     (ry_jobName a = ry_jobName b \<and> ry_repositoryGeneration a = ry_repositoryGeneration b \<and>
      ry_repositoryUID a = ry_repositoryUID b \<and> ry_commit a = ry_commit b \<and> ry_completedAt a = ry_completedAt b \<and>
      ry_conditions a ConditionSucceeded = ry_conditions b ConditionSucceeded)"

definition sync_setResult ::
  "'api sclient \<Rightarrow> repository_sync \<Rightarrow> cond_status \<Rightarrow> string \<Rightarrow> string \<Rightarrow> time option \<Rightarrow> ('api, unit) sctl" where
  "sync_setResult q request status reason message completed =
     RetryOnConflict DefaultBackoff
       (andThen (op_read q ReadRequest (q_cached q (o_namespace request) (o_name request))) (\<lambda>current.
        if terminal_condition (ry_conditions current) ConditionSucceeded then ret ()
        else andThen (op_clock q) (\<lambda>now.
             let after = sync_status now request status reason message completed current
             in if same_sync_status current after then ret ()
                else op_write q (WriteRequest current after) (q_patchStatus q current after))))"

text \<open>The parent is written as the incarnation that the request captured.\<close>

definition captured_by :: "repository_sync \<Rightarrow> repository \<Rightarrow> repository" where
  "captured_by request repository = repository\<lparr>o_generation := ry_repositoryGeneration request\<rparr>"

definition sync_setParent ::
  "'api sclient \<Rightarrow> repository_sync \<Rightarrow> repository \<Rightarrow> cond_status \<Rightarrow> string \<Rightarrow> string \<Rightarrow> time option \<Rightarrow> ('api, unit) sctl" where
  "sync_setParent q request repository status reason message completed =
     (if o_uid repository \<noteq> ry_repositoryUID request then ret ()
      else setRepositoryStorageReady q (captured_by request repository) status reason message (rs_claim (rp_status repository))
             (if status \<noteq> CTrue then None else completed))"

text \<open>What a finished Job and its report mean: the request's status, reason and message, and the parent's reason.\<close>

definition sync_outcome :: "job \<Rightarrow> checkout_result \<Rightarrow> cond_status \<times> string \<times> string" where
  "sync_outcome j result =
     (case terminalJobOutcome j of
        None \<Rightarrow> (CUnknown, [], [])
      | Some (status, reason, message) \<Rightarrow>
          if status = CTrue
          then (if cr_commit result = []
                then (CFalse, ''ResultUnavailable'', ''Sync completed but the resolved commit is unavailable'')
                else (CTrue, ''SyncSucceeded'', ''Repository synchronization completed''))
          else (status, reason, if cr_submoduleFailures result \<noteq> [] then submoduleCheckoutFailedMessage (cr_submoduleFailures result)
                                else message))"

definition sync_publish ::
  "'api sclient \<Rightarrow> repository_sync \<Rightarrow> repository \<Rightarrow> cond_status \<Rightarrow> string \<Rightarrow> string \<Rightarrow> checkout_result \<Rightarrow> bool \<Rightarrow> time \<Rightarrow>
   ('api, unit) sctl" where
  "sync_publish q request repository status reason message result found completed =
     andThen (sync_setParent q request repository status (if status = CTrue then ''RepositoryReady'' else repositorySyncFailed)
                message (Some completed)) (\<lambda>_.
     andThen (if found \<and> o_uid repository = ry_repositoryUID request
              then setRepositorySubmodulesReady q (captured_by request repository) (cr_submoduleFailures result) else ret ()) (\<lambda>_.
     sync_setResult q request status reason
       (if status = CTrue \<and> cr_submoduleFailures result \<noteq> []
        then message @ ''; '' @ submoduleFailureMessage (cr_submoduleFailures result) else message) (Some completed)))"

definition sync_complete :: "'api sclient \<Rightarrow> repository_sync \<Rightarrow> repository \<Rightarrow> job \<Rightarrow> ('api, unit) sctl" where
  "sync_complete q request repository j =
     andThen (readCheckoutResult q j) (\<lambda>(result, found).
     andThen (op_clock q) (\<lambda>now.
     let recorded = (case terminalJobOutcome j of Some (CTrue, _, _) \<Rightarrow> request\<lparr>ry_commit := cr_commit result\<rparr> | _ \<Rightarrow> request);
         completed = (case jb_completed j of Some t \<Rightarrow> t | None \<Rightarrow> now)
     in case sync_outcome j result of
          (status, reason, message) \<Rightarrow> sync_publish q recorded repository status reason message result found completed))"

section \<open>Expiry\<close>

text \<open>A transition time that is not set is the zero time, which lies in the past.\<close>

definition sync_deadline :: "repository_sync \<Rightarrow> condition \<Rightarrow> int option" where
  "sync_deadline request terminal =
     (let ttl = (case ry_ttl request of Some s \<Rightarrow> s * 10 ^ 9 | None \<Rightarrow> repositorySyncDefaultTTL)
      in map_option (\<lambda>t. int t + ttl)
           (case ry_completedAt request of Some t \<Rightarrow> Some t | None \<Rightarrow> c_transition terminal))"

definition sync_expire :: "'api sclient \<Rightarrow> repository_sync \<Rightarrow> condition \<Rightarrow> ('api, ctrl_result) sctl" where
  "sync_expire q request terminal =
     andThen (op_clock q) (\<lambda>now.
     let remaining = (case sync_deadline request terminal of None \<Rightarrow> 0 | Some d \<Rightarrow> d - int now)
     in if remaining > 0 then ret (Some remaining)
        else andThen (IgnoreNotFound (op_write q (DeleteRequest request) (q_delete q request))) (\<lambda>_. ret None))"

section \<open>Reconcile\<close>

definition sync_holder :: "repository_sync \<Rightarrow> holder" where
  "sync_holder request = HolderFor KindRepositorySync request repo_Write"

definition read_parent :: "'api sclient \<Rightarrow> repository_sync \<Rightarrow> ('api, repository) sctl" where
  "read_parent q request = op_read q TargetRepository (k_cachedRepository (q_k q) (o_namespace request) (ry_repository request))"

definition sync_terminal :: "repository_sync \<Rightarrow> bool" where
  "sync_terminal request = terminal_condition (ry_conditions request) ConditionSucceeded"

definition sync_interrupted :: "'api sclient \<Rightarrow> repository_sync \<Rightarrow> ('api, unit) sctl" where
  "sync_interrupted q request =
     (if o_deleting request \<noteq> None \<and> ry_jobName request \<noteq> [] \<and> \<not> sync_terminal request
      then getOr (read_parent q request) (ret ()) (\<lambda>repository.
             sync_setParent q request repository CFalse repositorySyncFailed ''Sync request was deleted'' None)
      else ret ())"

text \<open>
  The release patches the request under an optimistic lock: a request that is deleted meanwhile fails the patch,
  so whether it is being deleted is as it was read.
\<close>

definition sync_finish :: "'api sclient \<Rightarrow> repository_sync \<Rightarrow> ('api, ctrl_result) sctl" where
  "sync_finish q request =
     andThen (sync_interrupted q request) (\<lambda>_.
     andThen (releaseRepositoryOperation q request (ry_repository request) (Key (sync_holder request)) (ry_jobName request)) (\<lambda>freed.
     case freed of
       None \<Rightarrow> ret (Some operationRequeue)
     | Some current \<Rightarrow>
         if o_deleting request \<noteq> None then ret None
         else (case ry_conditions request ConditionSucceeded of
                 None \<Rightarrow> ret None
               | Some terminal \<Rightarrow> sync_expire q current terminal)))"

definition sync_bootstrapped :: "repository \<Rightarrow> bool" where
  "sync_bootstrapped repository =
     (rs_observed (rp_status repository) = o_generation repository \<and> rs_claim (rp_status repository) \<noteq> [] \<and>
      (case rs_conditions (rp_status repository) ConditionStorageReady of
         None \<Rightarrow> False
       | Some ready \<Rightarrow> c_observed ready = o_generation repository \<and> (c_status ready = CTrue \<or> c_reason ready = repositorySyncFailed)))"

definition sync_launch :: "'api sclient \<Rightarrow> repository_sync \<Rightarrow> repository \<Rightarrow> credential_spec option \<Rightarrow> ('api, ctrl_result) sctl" where
  "sync_launch q request repository credential =
     andThen (of_result (SetControllerReference repositoriesGroupVersion ''RepositorySync'' request
        (repositoryCheckoutJob repository (o_name request) (k_image (q_k q)) credential))) (\<lambda>j.
     let scheduled = request\<lparr>ry_jobName := o_name j, ry_repositoryGeneration := o_generation repository,
                             ry_repositoryUID := o_uid repository\<rparr>
     in andThen (sync_setResult q scheduled CUnknown ''JobScheduled'' ''Sync Job is scheduled for creation'' None) (\<lambda>_.
        andThen (sync_setParent q scheduled repository CFalse ''SyncRunning'' ''Repository synchronization is running'' None) (\<lambda>_.
        andThen (wrapped ''create Repository sync Job'' (op_write q (MakeJob j) (k_createJob (q_k q) j))) (\<lambda>_.
        ret (Some operationRequeue)))))"

definition sync_credential :: "'api sclient \<Rightarrow> repository_sync \<Rightarrow> repository \<Rightarrow> ('api, ctrl_result) sctl" where
  "sync_credential q request repository =
     andThen (attempt (repositoryCredential q repository)) (\<lambda>found.
     case found of
       Inl e \<Rightarrow>
         if err_is ENotFound e
         then andThen (sync_setResult q request CFalse ''CredentialNotFound'' ''Referenced Credential does not exist'' None) (\<lambda>_. ret None)
         else raise e
     | Inr credential \<Rightarrow> sync_launch q request repository credential)"

definition sync_start :: "'api sclient \<Rightarrow> repository_sync \<Rightarrow> repository \<Rightarrow> ('api, ctrl_result) sctl" where
  "sync_start q request repository =
     (if \<not> sync_bootstrapped repository
      then andThen (sync_setResult q request CUnknown ''RepositoryNotReady'' ''Waiting for Repository bootstrap'' None)
             (\<lambda>_. ret (Some operationRequeue))
      else andThen (acquire_gate q repository (sync_holder request) False) (\<lambda>admission.
           if admission \<noteq> Admitted
           then andThen (sync_setResult q request CUnknown ''WaitingForRepository'' ''Waiting for parent writers, mounts, or clones'' None)
                  (\<lambda>_. ret (Some operationRequeue))
           else sync_credential q request repository))"

definition sync_observe :: "'api sclient \<Rightarrow> repository_sync \<Rightarrow> repository \<Rightarrow> ('api, ctrl_result) sctl" where
  "sync_observe q request repository =
     andThen (observeOneShotJob q (q_readJob q) request (ry_jobName request)) (\<lambda>state.
     case state of
       JobPresent j \<Rightarrow>
         if \<not> jobFinished j then ret (Some operationRequeue)
         else andThen (sync_complete q request repository j) (\<lambda>_. ret None)
     | JobLost \<Rightarrow>
         andThen (sync_setParent q request repository CFalse repositorySyncFailed ''Sync Job disappeared before its result was recorded'' None) (\<lambda>_.
         andThen (sync_setResult q request CFalse ''JobLost'' ''Sync Job disappeared before its result was recorded'' None) (\<lambda>_. ret None))
     | JobConflict _ \<Rightarrow> andThen (sync_setResult q request CFalse ''JobConflict'' ''A Job with this request name already exists'' None)
                          (\<lambda>_. ret None)
     | JobAbsent \<Rightarrow> sync_start q request repository)"

definition sync_pending :: "'api sclient \<Rightarrow> repository_sync \<Rightarrow> ('api, ctrl_result) sctl" where
  "sync_pending q request =
     getOr (read_parent q request)
       (andThen (sync_setResult q request CFalse ''RepositoryNotFound'' ''Referenced Repository does not exist'' None) (\<lambda>_. ret None))
       (sync_observe q request)"

definition Reconcile_repositorysync :: "'api sclient \<Rightarrow> string \<Rightarrow> string \<Rightarrow> ('api, ctrl_result) sctl" where
  "Reconcile_repositorysync q namespace name =
     getOr (op_read q ReadRequest (q_read q namespace name)) (ret None) (\<lambda>request.
     if o_deleting request \<noteq> None \<or> sync_terminal request then sync_finish q request
     else andThen (keep_request q request) (sync_pending q))"

end
