(* ===== verification/RepositoryController.thy ===== *)
theory RepositoryController
  imports RepositorySync
begin

text \<open>
  The Repository controller (\<^verbatim>\<open>internal/controller/repositories/repository_controller.go\<close> and the Repository half of
  \<^verbatim>\<open>usage_status.go\<close>): the parent volume, its bootstrap Job, readiness, and the mirror of the reservations. The stages of
  \<^verbatim>\<open>reconcileRepository\<close> are definitions of their own, in the order of the code.
\<close>

section \<open>Names and objects\<close>

definition repositoryBootstrapJobSuffix :: string where "repositoryBootstrapJobSuffix = ''-bootstrap-''"
definition repositoryManagedByLabel :: string where "repositoryManagedByLabel = ''app.kubernetes.io/managed-by''"
definition repositoryManagedByValue :: string where "repositoryManagedByValue = ''rc''"
definition repositoryNameLabel :: string where "repositoryNameLabel = ''rc.ayaka.io/repository''"

definition repositoryBootstrapJobName :: "repository \<Rightarrow> string" where
  "repositoryBootstrapJobName repository = o_name repository @ repositoryBootstrapJobSuffix @ int_digits (o_generation repository)"

definition parentVolumeClaim :: "repository \<Rightarrow> string \<Rightarrow> pvc" where
  "parentVolumeClaim repository claimName =
     kobj.extend
       ((blank_object (o_namespace repository) claimName)\<lparr>
          o_labels := [repositoryManagedByLabel \<mapsto> repositoryManagedByValue, repositoryNameLabel \<mapsto> o_name repository]\<rparr>)
       (pvc.fields [] (rp_size repository) 0 (Some (rp_class repository)) (Some ''Filesystem'') [''ReadWriteOnce''] None None)"

definition bootstrap_holder :: "repository \<Rightarrow> holder" where
  "bootstrap_holder repository = HolderFor KindRepository repository repo_Write"

section \<open>Deletion\<close>

definition repositoryDeletionWait ::
  "('api, 'o) oclient \<Rightarrow> repository \<Rightarrow> ('api, 'p op_event, cleanup_wait option) ctl" where
  "repositoryDeletionWait q repository =
     (let claimName = rs_claim (rp_status repository); namespace = o_namespace repository
      in if claimName = [] then ret None
         else andThen (wrapped ''list Pods using deleting Repository volume''
                (op_read q (\<lambda>r. Inner (ReadPods r)) (k_readPods (q_k q) namespace))) (\<lambda>pods.
              let consumers = map o_name (filter (running_consumer claimName) pods)
              in if consumers \<noteq> []
                 then ret (Some \<lparr>cw_reason = WaitingForPods,
                        cw_message = ''Waiting for Pods using the Repository volume to stop: '' @ join '', '' (sort consumers)\<rparr>)
                 else andThen (attempt (op_read q (\<lambda>r. Inner (ReadClaim claimName r)) (k_readClaim (q_k q) namespace claimName))) (\<lambda>found.
                      case found of
                        Inl e \<Rightarrow> if err_is ENotFound e then ret None
                                 else raise (EWrap ''get deleting Repository PersistentVolumeClaim'' e)
                      | Inr claim \<Rightarrow>
                          if \<not> is_controlled_by claim (o_uid repository) then ret None
                          else ret (Some \<lparr>cw_reason = WaitingForVolume,
                                 cw_message = ''Waiting for PersistentVolumeClaim '' @ o_name claim @ '' to be deleted''\<rparr>))))"

definition repository_blocked_status :: "time \<Rightarrow> cleanup_wait option \<Rightarrow> repository \<Rightarrow> repository" where
  "repository_blocked_status now wait current =
     (let st = rp_status current
      in current\<lparr>rp_status := st\<lparr>rs_conditions :=
           (case wait of
              None \<Rightarrow> RemoveStatusCondition ConditionDeletionBlocked (rs_conditions st)
            | Some w \<Rightarrow> SetStatusCondition now ConditionDeletionBlocked
                          (new_condition CTrue (o_generation current) (cw_reason w) (cw_message w)) (rs_conditions st))\<rparr>\<rparr>)"

definition repository_setDeletionBlocked ::
  "('api, 'o) oclient \<Rightarrow> repository \<Rightarrow> cleanup_wait option \<Rightarrow> ('api, 'p op_event, unit) ctl" where
  "repository_setDeletionBlocked q repository wait =
     RetryOnConflict DefaultBackoff
       (getOr (op_read q TargetRepository (k_readRepository (q_k q) (o_namespace repository) (o_name repository))) (ret ()) (\<lambda>current.
        if o_uid current \<noteq> o_uid repository \<or> o_deleting current = None then ret ()
        else andThen (op_clock q) (\<lambda>now.
             let after = repository_blocked_status now wait current
             in if rs_conditions (rp_status after) ConditionDeletionBlocked = rs_conditions (rp_status current) ConditionDeletionBlocked
                then ret ()
                else IgnoreNotFound (op_write q (WriteRepository current after) (q_patchRepositoryStatus q current after)))))"

definition reconcileDeletionBlocked :: "('api, 'o) oclient \<Rightarrow> repository \<Rightarrow> ('api, 'p op_event, ctrl_result) ctl" where
  "reconcileDeletionBlocked q repository =
     andThen (repositoryDeletionWait q repository) (\<lambda>wait.
     andThen (repository_setDeletionBlocked q repository wait) (\<lambda>_.
     ret (if wait = None then None else Some operationRequeue)))"

section \<open>The gate\<close>

definition gate_busy :: "('api, 'o) oclient \<Rightarrow> repository \<Rightarrow> string \<Rightarrow> ('api, 'p op_event, bool) ctl" where
  "gate_busy q repository key =
     andThen (op_clock q) (\<lambda>now. op_read q GateBusy (Gate_Busy (gate_store (q_k q) now repository) key))"

definition release_gate :: "('api, 'o) oclient \<Rightarrow> repository \<Rightarrow> string \<Rightarrow> ('api, 'p op_event, unit) ctl" where
  "release_gate q repository key =
     andThen (op_clock q) (\<lambda>now.
     call (k_env (q_k q)) (ReleaseGate key) (\<lambda>e api.
       case Gate_Release DefaultBackoff e (gate_store (q_k q) now repository) key api of (api', r) \<Rightarrow> (api', unit_result r)))"

section \<open>Bootstrap\<close>

definition report_unready :: "('api, 'o) oclient \<Rightarrow> repository \<Rightarrow> string \<Rightarrow> string \<Rightarrow> string \<Rightarrow> ('api, 'p op_event, ctrl_result) ctl" where
  "report_unready q repository reason message claimName =
     andThen (setRepositoryStorageReady q repository CFalse reason message claimName None) (\<lambda>_. ret None)"

definition report_ready :: "('api, 'o) oclient \<Rightarrow> repository \<Rightarrow> string \<Rightarrow> time option \<Rightarrow> ('api, 'p op_event, unit) ctl" where
  "report_ready q repository claimName completed =
     setRepositoryStorageReady q repository CTrue ''RepositoryReady'' ''Repository Git content is ready'' claimName completed"

text \<open>The end of a bootstrap: the submodules of the report that was found, then the release of the reservation.\<close>

definition finish_bootstrap :: "('api, 'o) oclient \<Rightarrow> repository \<Rightarrow> checkout_result \<Rightarrow> bool \<Rightarrow> ('api, 'p op_event, ctrl_result) ctl" where
  "finish_bootstrap q repository result found =
     andThen (if found then setRepositorySubmodulesReady q repository (cr_submoduleFailures result) else ret ()) (\<lambda>_.
     andThen (release_gate q repository (Key (bootstrap_holder repository))) (\<lambda>_. ret None))"

definition bootstrap_failed :: "('api, 'o) oclient \<Rightarrow> repository \<Rightarrow> string \<Rightarrow> job \<Rightarrow> string \<Rightarrow> ('api, 'p op_event, ctrl_result) ctl" where
  "bootstrap_failed q repository claimName j reported =
     andThen (readCheckoutResult q j) (\<lambda>(result, found).
     let message = (if cr_submoduleFailures result \<noteq> [] then submoduleCheckoutFailedMessage (cr_submoduleFailures result) else reported);
         message' = (if message = [] then ''Repository bootstrap Job failed'' else message)
     in andThen (setRepositoryStorageReady q repository CFalse ''BootstrapFailed'' message' claimName None) (\<lambda>_.
        finish_bootstrap q repository result found))"

definition bootstrap_complete :: "('api, 'o) oclient \<Rightarrow> repository \<Rightarrow> string \<Rightarrow> job \<Rightarrow> ('api, 'p op_event, ctrl_result) ctl" where
  "bootstrap_complete q repository claimName j =
     andThen (readCheckoutResult q j) (\<lambda>(result, found).
     andThen (report_ready q repository claimName (jb_completed j)) (\<lambda>_.
     finish_bootstrap q repository result found))"

definition bootstrap_result :: "('api, 'o) oclient \<Rightarrow> repository \<Rightarrow> string \<Rightarrow> job \<Rightarrow> ('api, 'p op_event, ctrl_result) ctl" where
  "bootstrap_result q repository claimName j =
     (case job_true j ''Failed'' of
        Some c \<Rightarrow> bootstrap_failed q repository claimName j (jc_message c)
      | None \<Rightarrow>
          if job_true j ''Complete'' \<noteq> None then bootstrap_complete q repository claimName j
          else report_unready q repository ''Initializing'' ''Repository bootstrap Job is running'' claimName)"

definition bootstrap_observe :: "('api, 'o) oclient \<Rightarrow> repository \<Rightarrow> string \<Rightarrow> job \<Rightarrow> ('api, 'p op_event, ctrl_result) ctl" where
  "bootstrap_observe q repository claimName j =
     (if \<not> is_controlled_by j (o_uid repository)
      then report_unready q repository ''BootstrapJobConflict''
             ''A bootstrap Job with the expected name is not owned by this Repository'' claimName
      else if jobFinished j
      then andThen (acquire_gate q repository (bootstrap_holder repository) False) (\<lambda>admission.
           if admission \<noteq> Admitted then ret (Some operationRequeue) else bootstrap_result q repository claimName j)
      else bootstrap_result q repository claimName j)"

definition create_bootstrap :: "('api, 'o) oclient \<Rightarrow> repository \<Rightarrow> string \<Rightarrow> credential_spec option \<Rightarrow> ('api, 'p op_event, ctrl_result) ctl" where
  "create_bootstrap q repository claimName credential =
     andThen (wrapped ''set Repository owner on bootstrap Job''
        (of_result (SetControllerReference repositoriesGroupVersion ''Repository'' repository
           (repositoryCheckoutJob repository (repositoryBootstrapJobName repository) (k_image (q_k q)) credential)))) (\<lambda>j.
     andThen (wrapped ''create Repository bootstrap Job'' (op_write q (MakeJob j) (k_createJob (q_k q) j))) (\<lambda>_.
     report_unready q repository ''Initializing'' ''Repository bootstrap Job is running'' claimName))"

definition start_bootstrap :: "('api, 'o) oclient \<Rightarrow> repository \<Rightarrow> string \<Rightarrow> ('api, 'p op_event, ctrl_result) ctl" where
  "start_bootstrap q repository claimName =
     andThen (acquire_gate q repository (bootstrap_holder repository) False) (\<lambda>admission.
     if admission \<noteq> Admitted then ret (Some operationRequeue)
     else andThen (attempt (repositoryCredential q repository)) (\<lambda>found.
          case found of
            Inl e \<Rightarrow> if err_is ENotFound e
                     then report_unready q repository ''CredentialNotFound'' ''Referenced Credential does not exist'' claimName
                     else raise e
          | Inr credential \<Rightarrow> create_bootstrap q repository claimName credential))"

definition look_bootstrap :: "('api, 'o) oclient \<Rightarrow> repository \<Rightarrow> ('api, 'p op_event, job result) ctl" where
  "look_bootstrap q repository =
     attempt (op_read q (LookJob (repositoryBootstrapJobName repository))
                (k_cachedJob (q_k q) (o_namespace repository) (repositoryBootstrapJobName repository)))"

definition reconcile_bootstrap :: "('api, 'o) oclient \<Rightarrow> repository \<Rightarrow> string \<Rightarrow> ('api, 'p op_event, ctrl_result) ctl" where
  "reconcile_bootstrap q repository claimName =
     andThen (look_bootstrap q repository) (\<lambda>found.
     case found of
       Inl e \<Rightarrow> if err_is ENotFound e then start_bootstrap q repository claimName
                else raise (EWrap ''get Repository bootstrap Job'' e)
     | Inr j \<Rightarrow> bootstrap_observe q repository claimName j)"

text \<open>A Repository that is ready: the reservation is dropped, and a missing update time is taken from the completed Job.\<close>

definition already_checked_out :: "repository \<Rightarrow> pvc \<Rightarrow> bool" where
  "already_checked_out repository claim =
     (case rs_conditions (rp_status repository) ConditionStorageReady of
        None \<Rightarrow> False
      | Some ready \<Rightarrow> c_status ready = CTrue \<and> rs_observed (rp_status repository) = o_generation repository \<and> pvc_phase claim = ''Bound'')"

definition record_update :: "('api, 'o) oclient \<Rightarrow> repository \<Rightarrow> string \<Rightarrow> time \<Rightarrow> ('api, 'p op_event, ctrl_result) ctl" where
  "record_update q repository claimName completed =
     andThen (acquire_gate q repository (bootstrap_holder repository) True) (\<lambda>admission.
     if admission \<noteq> Admitted then ret (Some operationRequeue)
     else andThen (report_ready q repository claimName (Some completed)) (\<lambda>_.
          andThen (release_gate q repository (Key (bootstrap_holder repository))) (\<lambda>_. ret None)))"

definition reconcile_ready :: "('api, 'o) oclient \<Rightarrow> repository \<Rightarrow> string \<Rightarrow> ('api, 'p op_event, ctrl_result) ctl" where
  "reconcile_ready q repository claimName =
     andThen (release_gate q repository (Key (bootstrap_holder repository))) (\<lambda>_.
     if rs_lastUpdated (rp_status repository) \<noteq> None then ret None
     else andThen (look_bootstrap q repository) (\<lambda>found.
          case found of
            Inl e \<Rightarrow> if err_is ENotFound e then ret None else raise (EWrap ''get completed Repository bootstrap Job'' e)
          | Inr j \<Rightarrow>
              (case jb_completed j of
                 None \<Rightarrow> ret None
               | Some t \<Rightarrow> if job_true j ''Complete'' \<noteq> None then record_update q repository claimName t else ret None)))"

section \<open>The parent volume\<close>

definition resolve_parent :: "('api, 'o) oclient \<Rightarrow> repository \<Rightarrow> ('api, 'p op_event, string \<times> pvc option \<times> err option) ctl" where
  "resolve_parent q repository =
     call (k_env (q_k q)) LookClaim (\<lambda>e api.
       let api0 = e 0 api; api1 = e 1 api0; recorded = rs_claim (rp_status repository);
           get = (\<lambda>name. k_readClaim (q_k q) (o_namespace repository) name
                    (if recorded = [] \<and> name = legacyName Role_Repository (o_name repository) 0 then api0 else api1));
           owner = \<lparr>ow_namespace = o_namespace repository, ow_name = o_name repository, ow_uid = o_uid repository\<rparr>
       in (api1, Inr (Resolve (k_sha (q_k q)) get owner Role_Repository 0 recorded)))"

definition create_parent :: "('api, 'o) oclient \<Rightarrow> repository \<Rightarrow> string \<Rightarrow> ('api, 'p op_event, ctrl_result) ctl" where
  "create_parent q repository claimName =
     andThen (wrapped ''set Repository owner on PersistentVolumeClaim''
        (of_result (SetControllerReference repositoriesGroupVersion ''Repository'' repository (parentVolumeClaim repository claimName)))) (\<lambda>claim.
     andThen (wrapped ''create parent PersistentVolumeClaim''
        (call (k_env (q_k q)) (MakeClaim claim)
           (\<lambda>e api. case k_createClaim (q_k q) claim (e 0 api) of (api', r) \<Rightarrow> (api', map_sum id (\<lambda>_. ()) r)))) (\<lambda>_.
     report_unready q repository ''Provisioning'' ''Parent volume is provisioning'' (o_name claim)))"

definition reconcile_size :: "('api, 'o) oclient \<Rightarrow> repository \<Rightarrow> pvc \<Rightarrow> ('api, 'p op_event, ctrl_result) ctl" where
  "reconcile_size q repository claim =
     (if rp_size repository < pvc_request claim
      then report_unready q repository ''VolumeShrinkUnsupported'' ''Shrinking a Repository volume is not supported'' (o_name claim)
      else if rp_size repository > pvc_request claim
      then let grown = claim\<lparr>pvc_request := rp_size repository\<rparr>
           in andThen (wrapped ''expand parent PersistentVolumeClaim'' (op_write q (GrowClaim grown) (q_updateClaim q grown))) (\<lambda>_.
              report_unready q repository ''Expanding'' ''Parent volume is expanding'' (o_name claim))
      else if already_checked_out repository claim then reconcile_ready q repository (o_name claim)
      else reconcile_bootstrap q repository (o_name claim))"

definition reconcile_parent :: "('api, 'o) oclient \<Rightarrow> repository \<Rightarrow> pvc \<Rightarrow> ('api, 'p op_event, ctrl_result) ctl" where
  "reconcile_parent q repository claim =
     (if rs_claim (rp_status repository) \<noteq> o_name claim
      then report_unready q repository ''Provisioning'' ''Recovered existing parent volume'' (o_name claim)
      else if pvc_class claim \<noteq> Some (rp_class repository)
      then report_unready q repository ''StorageClassChangeUnsupported''
             ''Changing storageClassName on an existing Repository is not supported'' (o_name claim)
      else reconcile_size q repository claim)"

definition reconcile_volume :: "('api, 'o) oclient \<Rightarrow> repository \<Rightarrow> ('api, 'p op_event, ctrl_result) ctl" where
  "reconcile_volume q repository =
     andThen (resolve_parent q repository) (\<lambda>(claimName, claim, resolveErr).
     case resolveErr of
       Some e \<Rightarrow>
         if IsConflict e
         then report_unready q repository ''VolumeClaimConflict'' (err_text e) (rs_claim (rp_status repository))
         else raise (EWrap ''get parent PersistentVolumeClaim'' e)
     | None \<Rightarrow> (case claim of None \<Rightarrow> create_parent q repository claimName | Some c \<Rightarrow> reconcile_parent q repository c))"

section \<open>Reconcile\<close>

text \<open>A sync that runs or failed owns the readiness of its generation.\<close>

definition sync_owned :: "repository \<Rightarrow> bool" where
  "sync_owned repository =
     (case rs_conditions (rp_status repository) ConditionStorageReady of
        None \<Rightarrow> False
      | Some c \<Rightarrow> c_observed c = o_generation repository \<and> (c_reason c = ''SyncRunning'' \<or> c_reason c = repositorySyncFailed))"

definition previous_running :: "repository \<Rightarrow> job \<Rightarrow> bool" where
  "previous_running repository j =
     (is_controlled_by j (o_uid repository) \<and> o_name j \<noteq> repositoryBootstrapJobName repository \<and> \<not> jobFinished j)"

definition reconcile_jobs :: "('api, 'o) oclient \<Rightarrow> repository \<Rightarrow> ('api, 'p op_event, ctrl_result) ctl" where
  "reconcile_jobs q repository =
     andThen (op_read q ListJobs (q_listJobs q (o_namespace repository))) (\<lambda>jobs.
     if list_ex (previous_running repository) jobs then ret (Some operationRequeue)
     else reconcile_volume q repository)"

definition reconcile_existing :: "('api, 'o) oclient \<Rightarrow> repository \<Rightarrow> ('api, 'p op_event, ctrl_result) ctl" where
  "reconcile_existing q repository =
     andThen (inner (\<lambda>k. sweepRepositoryHolders k repository) q) (\<lambda>_.
     andThen (gate_busy q repository (Key (bootstrap_holder repository))) (\<lambda>busy.
     if busy then ret (Some operationRequeue)
     else if sync_owned repository then ret None
     else reconcile_jobs q repository))"

definition reconcileRepository :: "('api, 'o) oclient \<Rightarrow> string \<Rightarrow> string \<Rightarrow> ('api, 'p op_event, ctrl_result) ctl" where
  "reconcileRepository q namespace name =
     getOr (op_read q TargetRepository (k_cachedRepository (q_k q) namespace name)) (ret None) (\<lambda>repository.
     if o_deleting repository \<noteq> None then reconcileDeletionBlocked q repository
     else reconcile_existing q repository)"

definition access_status :: "holder list \<Rightarrow> repository \<Rightarrow> repository" where
  "access_status holders current =
     current\<lparr>rp_status := rp_status current\<lparr>rs_access :=
       (case holders of [] \<Rightarrow> None | h # _ \<Rightarrow> Some (h_mode h, usageReferences holders))\<rparr>\<rparr>"

definition publishAccess :: "('api, 'o) oclient \<Rightarrow> string \<Rightarrow> string \<Rightarrow> ('api, 'p op_event, unit) ctl" where
  "publishAccess q namespace name =
     RetryOnConflict DefaultBackoff
       (getOr (op_read q TargetRepository (k_readRepository (q_k q) namespace name)) (ret ()) (\<lambda>current.
        andThen (op_clock q) (\<lambda>now.
        andThen (op_read q LoadGate (\<lambda>api. map_sum id snd (st_load (gate_store (q_k q) now current) api))) (\<lambda>state.
        let after = access_status (hs_holders state) current
        in if rs_access (rp_status after) = rs_access (rp_status current) then ret ()
           else IgnoreNotFound (op_write q (WriteRepository current after) (q_patchRepositoryStatus q current after))))))"

definition Reconcile_repository :: "('api, 'o) oclient \<Rightarrow> string \<Rightarrow> string \<Rightarrow> ('api, 'p op_event, ctrl_result) ctl" where
  "Reconcile_repository q namespace name =
     andThen (reconcileRepository q namespace name) (\<lambda>result.
     andThen (publishAccess q namespace name) (\<lambda>_. ret result))"

end
