(* ===== verification/WorktreeExecSafety.thy ===== *)
theory WorktreeExecSafety
  imports WorktreeExec
begin

text \<open>
  What the WorktreeExec controller guarantees, for every server, every answer and every interleaving with other clients.
\<close>

section \<open>Results\<close>

interpretation exec_result: result_adapter worktreeExecStatus
  by unfold_locales (simp_all add: worktreeExecStatus_def)

lemmas exec_writes = exec_result.set_status_keeps_result exec_result.setAt_keeps_result exec_result.backfill_keeps_result

text \<open>Every call apart from the creation of the Job and the release of the writer.\<close>

definition ordinary :: "'o op_event \<Rightarrow> bool" where
  "ordinary e = (case e of MakeJob _ _ \<Rightarrow> False | ReleaseWriter _ \<Rightarrow> False | _ \<Rightarrow> True)"

lemma ordinary_simps [simp]:
  "ordinary (ReadRequest a)" "ordinary (WriteRequest b c d)" "ordinary (LookJob f g)" "ordinary (StopJob h i)"
  "ordinary (JobPods j k)" "ordinary (StopPod l m)" "ordinary (TargetWorktree n)" "ordinary (AdmitWriter p q)"
  "ordinary (ReleaseLeases r)" "ordinary (Inner s)" "\<not> ordinary (MakeJob t u)" "\<not> ordinary (ReleaseWriter v)"
  by (simp_all add: ordinary_def)

lemma emits_exec_setSucceeded:
  assumes "emits P (set_status q worktreeExecStatus (o_namespace exec) (o_name exec) status reason message jobName)"
  shows "emits P (exec_setSucceeded q exec status reason message jobName)"
  using assms by (simp add: exec_setSucceeded_def)

lemma emits_set_ordinary:
  assumes "\<And>e. ordinary e \<Longrightarrow> P e"
  shows "emits P (set_status q a namespace name status reason message jobName)"
    "emits P (setAt q a namespace name status reason message jobName completed)"
    "emits P (backfillCompletedAt q a namespace name)"
  unfolding set_status_def by (intro emits_setAt_any emits_backfillCompletedAt assms; simp)+

lemma emits_read_legacy_any: "(\<And>r. P (ReadLease r)) \<Longrightarrow> emits P (read_legacy k wt)"
  unfolding read_legacy_def by (intro emits_intros)

lemma emits_readyWorktree [emits_intros]:
  assumes "\<And>r. P (TargetWorktree r)"
  shows "emits P (readyWorktree q exec)"
  unfolding readyWorktree_def by (intro emits_intros assms)

lemma emits_acquireClaim [emits_intros]:
  assumes "\<And>r. P (Inner r)" "\<And>wt r. P (AdmitWriter wt r)"
  shows "emits P (acquireClaim q exec wt)"
  unfolding acquireClaim_def admit_writer_def by (intro emits_intros emits_read_legacy_any assms)

lemma emits_releaseClaim [emits_intros]:
  assumes "\<And>r. P (ReleaseWriter r)" "\<And>r. P (ReleaseLeases r)"
  shows "emits P (releaseClaim q exec)"
  unfolding releaseClaim_def release_writer_def by (intro emits_intros assms)

lemma emits_stopLostJobPods [emits_intros]:
  assumes "\<And>n r. P (JobPods n r)" "\<And>p r. P (StopPod p r)"
  shows "emits P (stopLostJobPods q exec)"
  unfolding stopLostJobPods_def by (intro emits_intros assms)

lemma emits_fail_after_stop:
  assumes "\<And>j r. P (StopJob j r)" "\<And>message. emits P (exec_setSucceeded q exec CUnknown (''StoppingAfter'' @ reason) message (o_name j))"
  shows "emits P (fail_after_stop q exec j reason message)"
  unfolding fail_after_stop_def stopJobAndFail_def stop_job_def by (intro emits_intros assms)

text \<open>Writes of the status and the other calls of a run, for a class \<open>P\<close> that contains every ordinary call but some writes.\<close>

definition other_calls :: "(worktree_exec op_event \<Rightarrow> bool) \<Rightarrow> bool" where
  "other_calls P \<longleftrightarrow> (\<forall>e. (case e of WriteRequest _ _ _ \<Rightarrow> False | _ \<Rightarrow> True) \<longrightarrow> P e)"

lemma other_callsD:
  assumes "other_calls P"
  shows "P (ReadRequest a)" "P (LookJob f g)" "P (StopJob h i)" "P (JobPods j k)" "P (StopPod l m)" "P (TargetWorktree n)"
    "P (AdmitWriter p q)" "P (ReleaseLeases r)" "P (Inner s)" "P (MakeJob t u)" "P (ReleaseWriter v)"
  using assms by (simp_all add: other_calls_def)

lemma emits_exec_run:
  assumes P: "other_calls P"
    and writes: "\<And>status reason message jobName. emits P (exec_setSucceeded q exec status reason message jobName)"
      "\<And>status reason message jobName completed. emits P (setAt q worktreeExecStatus (o_namespace exec) (o_name exec) status reason message jobName completed)"
      "emits P (backfillCompletedAt q worktreeExecStatus (o_namespace exec) (o_name exec))"
  shows "emits P (exec_running q exec)" "emits P (exec_finished q exec)"
proof -
  note calls = other_callsD [OF P]
  have reflect: "emits P (exec_reflectJobStatus q exec j)" for j
    unfolding exec_reflectJobStatus_def by (intro emits_intros calls writes)
  have present: "emits P (exec_present q exec j)" for j
    unfolding exec_present_def verify_writer_def
    by (intro emits_intros emits_fail_after_stop reflect calls writes) (auto intro!: emits_intros emits_fail_after_stop reflect calls writes split: bool.splits)
  have "emits P (exec_lost q exec)"
    unfolding exec_lost_def by (intro emits_intros calls writes)
  moreover have "emits P (exec_start q exec)"
    unfolding exec_start_def claim_and_create_def createClaimedJob_def changed_after_admission_def schedule_job_def abandon_def launch_job_def
    by (intro emits_intros calls writes)
  ultimately show "emits P (exec_running q exec)"
    unfolding exec_running_def
    by (intro emits_andThen emits_wrapped emits_observeOneShotJob calls, auto split: one_shot_state.splits intro!: present emits_intros writes)
  show "emits P (exec_finished q exec)"
    unfolding exec_finished_def by (intro emits_intros calls writes)
qed

lemma keeps_result_other: "other_calls (keeps_result a)"
  by (auto simp: other_calls_def keeps_result_def split: op_event.splits)

text \<open>
  Every status write of a WorktreeExec reconcile keeps a recorded result. On the copy it was computed from, it never
  changes a terminal Succeeded condition or the recorded Job name of a finished exec, never changes a completion time that is
  there, and records a completion time together with a terminal condition; conditions of other types are untouched.
\<close>

theorem exec_result_recorded_once:
  "list_all (keeps_result worktreeExecStatus) (snd (fst (Reconcile_worktreeexec q namespace name (api, []))))"
  by (rule emits_from_start)
     (unfold Reconcile_worktreeexec_def,
      intro emits_intros emits_exec_run emits_exec_setSucceeded exec_writes keeps_result_other
        other_callsD [OF keeps_result_other])

section \<open>Creation of the Job\<close>

text \<open>
  The evidence for the creation of Job \<open>j\<close>: the whole run so far. The exec was read without a result and without a
  recorded Job; no Job of its name was found; the Worktree was ready; no other writer held a legacy Lease; this
  exec was admitted as the writer; the Worktree that was read again is the same one and still usable; the Job's name is on
  record. The Job runs the exact command on the Worktree's volume and belongs to the exec.
\<close>

definition is_creation :: "job \<Rightarrow> 'o op_event \<Rightarrow> bool" where
  "is_creation j e = (case e of MakeJob j' _ \<Rightarrow> j' = j | _ \<Rightarrow> False)"

definition startable :: "worktree_exec \<Rightarrow> bool" where
  "startable exec \<longleftrightarrow> \<not> terminal_condition (wx_conditions exec) ConditionSucceeded \<and> wx_jobName exec = [] \<and>
     wx_command exec \<noteq> [] \<and> hd (wx_command exec) \<noteq> []"

definition usable :: "time_codec \<Rightarrow> worktree \<Rightarrow> bool" where
  "usable tc wt \<longleftrightarrow> (\<exists>now. \<not> MountsClosed now tc wt) \<and> ReadyAtCurrentGeneration wt \<and> wt_claim wt \<noteq> []"

definition free_of_legacy :: "worktree_exec \<Rightarrow> lease result \<Rightarrow> bool" where
  "free_of_legacy exec lr =
     (case LegacyWriterOf lr of Inl _ \<Rightarrow> False | Inr None \<Rightarrow> True | Inr (Some w) \<Rightarrow> lw_holder w = o_uid exec)"

definition command_job :: "string \<Rightarrow> worktree_exec \<Rightarrow> worktree \<Rightarrow> job" where
  "command_job img exec wt =
     (worktreeExecJob exec wt img)\<lparr>o_controller :=
        Some \<lparr>or_apiVersion = repositoriesGroupVersion, or_kind = ''WorktreeExec'', or_name = o_name exec, or_uid = o_uid exec\<rparr>\<rparr>"

definition admitted_trace ::
  "time_codec \<Rightarrow> worktree_exec \<Rightarrow> worktree \<Rightarrow> worktree_exec op_event list \<Rightarrow> bool" where
  "admitted_trace tc exec wt tr \<longleftrightarrow>
     (\<exists>e lr r. tr = [ReadRequest (Inr exec), LookJob (o_name exec) (Inl e), TargetWorktree (Inr wt), Inner (ReadLease lr),
                   AdmitWriter wt (Inr r)] \<and>
        err_is ENotFound e \<and> usable tc wt \<and> free_of_legacy exec lr \<and> (r_admitted r \<or> r_held r))"

definition creation_evidence :: "time_codec \<Rightarrow> string \<Rightarrow> job \<Rightarrow> worktree_exec op_event list \<Rightarrow> bool" where
  "creation_evidence tc img j tr \<longleftrightarrow>
     (\<exists>exec wt wt' pre rest. tr = pre @ TargetWorktree (Inr wt') # rest \<and> admitted_trace tc exec wt pre \<and> startable exec \<and>
        usable tc wt' \<and> o_uid wt' = o_uid wt \<and> on_record worktreeExecStatus (o_name exec) rest \<and>
        list_all ordinary rest \<and> j = command_job img exec wt)"

abbreviation creation_ok :: "('api, worktree_exec) oclient \<Rightarrow> job \<Rightarrow> worktree_exec op_event list \<Rightarrow> bool" where
  "creation_ok q j \<equiv> before (is_creation j) (creation_evidence (k_codec (q_k q)) (k_image (q_k q)) j)"

definition no_creation :: "'o op_event \<Rightarrow> bool" where
  "no_creation e = (case e of MakeJob _ _ \<Rightarrow> False | _ \<Rightarrow> True)"

lemma emits_no_creation:
  shows "emits no_creation (exec_setSucceeded q exec status reason message jobName)"
    "emits no_creation (releaseClaim q exec)" "emits no_creation (acquireClaim q exec wt)"
    "emits no_creation (exec_reflectJobStatus q exec j)" "emits no_creation (stopLostJobPods q exec)"
    "emits no_creation (exec_present q exec j)" "emits no_creation (exec_lost q exec)"
    "emits no_creation (abandon q exec e)" "emits no_creation (changed_after_admission q exec)"
    "emits no_creation (exec_finished q exec)"
proof -
  have P: "ordinary e \<Longrightarrow> no_creation e" for e :: "worktree_exec op_event" by (auto simp: no_creation_def ordinary_def split: op_event.splits)
  note calls = P [OF ordinary_simps(1)] P [OF ordinary_simps(3)] P [OF ordinary_simps(4)] P [OF ordinary_simps(5)]
    P [OF ordinary_simps(6)] P [OF ordinary_simps(7)] P [OF ordinary_simps(8)] P [OF ordinary_simps(9)] P [OF ordinary_simps(10)]
  have release: "no_creation (ReleaseWriter r :: worktree_exec op_event)" for r by (simp add: no_creation_def)
  show sets: "emits no_creation (exec_setSucceeded q exec status reason message jobName)" for status reason message jobName
    unfolding exec_setSucceeded_def by (rule emits_set_ordinary [OF P])
  show free: "emits no_creation (releaseClaim q exec)" by (intro emits_intros release calls)
  show "emits no_creation (acquireClaim q exec wt)" for wt by (intro emits_intros calls)
  show reflect: "emits no_creation (exec_reflectJobStatus q exec j)" for j
    unfolding exec_reflectJobStatus_def by (intro emits_intros release calls sets emits_set_ordinary [OF P])
  show "emits no_creation (stopLostJobPods q exec)" by (intro emits_intros calls)
  show "emits no_creation (exec_present q exec j)" for j
    unfolding exec_present_def verify_writer_def
    by (intro emits_intros emits_fail_after_stop reflect calls sets)
       (auto intro!: emits_intros emits_fail_after_stop reflect calls sets split: bool.splits)
  show "emits no_creation (exec_lost q exec)"
    unfolding exec_lost_def by (intro emits_intros calls release sets)
  show "emits no_creation (abandon q exec e)" "emits no_creation (changed_after_admission q exec)"
    unfolding abandon_def changed_after_admission_def by (intro emits_intros calls release sets)+
  show "emits no_creation (exec_finished q exec)"
    unfolding exec_finished_def by (intro emits_intros calls release emits_set_ordinary [OF P])
qed

lemma usableI: "\<not> MountsClosed now tc wt \<Longrightarrow> ReadyAtCurrentGeneration wt \<Longrightarrow> wt_claim wt \<noteq> [] \<Longrightarrow> usable tc wt"
  unfolding usable_def by blast

lemma free_of_legacyI:
  "LegacyWriterOf lr = Inr w \<Longrightarrow> \<not> (case w of None \<Rightarrow> False | Some x \<Rightarrow> lw_holder x \<noteq> o_uid exec) \<Longrightarrow> free_of_legacy exec lr"
  by (auto simp: free_of_legacy_def split: option.splits)

lemma readyWorktree_trace:
  "runs (\<lambda>t. t = t0) (readyWorktree q exec)
     (\<lambda>r t. case r of Inl e \<Rightarrow> \<exists>a. t = t0 @ [TargetWorktree a] | Inr wt \<Rightarrow> t = t0 @ [TargetWorktree (Inr wt)] \<and> usable (k_codec (q_k q)) wt)"
  unfolding readyWorktree_def
proof (rule runs_andThen [where S = "\<lambda>a t. t = t0 @ [TargetWorktree a]"], rule runs_attempt, rule runs_call, simp)
  fix a :: "worktree result"
  show "runs (\<lambda>t. t = t0 @ [TargetWorktree a])
     (case a of Inl e \<Rightarrow> if err_is ENotFound e then raise (EMsg ''referenced Worktree does not exist'') else raise (EWrap ''get Worktree'' e)
       | Inr worktree \<Rightarrow> andThen (op_clock q) (\<lambda>now.
           if MountsClosed now (k_codec (q_k q)) worktree then raise (EMsg ''referenced Worktree is being deleted'')
           else if \<not> ReadyAtCurrentGeneration worktree \<or> wt_claim worktree = [] then raise errWorktreeNotReady
           else ret worktree))
     (\<lambda>r t. case r of Inl e \<Rightarrow> \<exists>a. t = t0 @ [TargetWorktree a] | Inr wt \<Rightarrow> t = t0 @ [TargetWorktree (Inr wt)] \<and> usable (k_codec (q_k q)) wt)"
    by (cases a)
       (auto intro!: runs_raise runs_andThen [where S = "\<lambda>_ t. t = t0 @ [TargetWorktree a]"] runs_clock runs_ret usableI)
qed

lemma read_legacy_inner_trace:
  "runs (\<lambda>t. t = t0) (inner (\<lambda>k. read_legacy k wt) q)
     (\<lambda>r t. case r of Inl e \<Rightarrow> \<exists>lr. t = t0 @ [Inner (ReadLease lr)] | Inr w \<Rightarrow> \<exists>lr. t = t0 @ [Inner (ReadLease lr)] \<and> LegacyWriterOf lr = Inr w)"
  by (rule runsI)
     (auto simp: inner_def Let_def read_legacy_def andThen_def attempt_def call_def of_result_def split: prod.splits sum.splits)

lemma acquireClaim_trace:
  "runs (\<lambda>t. t = t0) (acquireClaim q exec wt)
     (\<lambda>r t. r = Inr True \<longrightarrow> (\<exists>lr a. t = t0 @ [Inner (ReadLease lr), AdmitWriter wt (Inr a)] \<and> free_of_legacy exec lr \<and>
        (r_admitted a \<or> r_held a)))"
  unfolding acquireClaim_def admit_writer_def
proof (rule runs_andThen [where S = "\<lambda>w t. \<exists>lr. t = t0 @ [Inner (ReadLease lr)] \<and> LegacyWriterOf lr = Inr w"])
  show "runs (\<lambda>t. t = t0) (wrapped ''check legacy Worktree write Lease'' (inner (\<lambda>k. read_legacy k wt) q))
     (\<lambda>r t. case r of Inl e \<Rightarrow> Inl e = Inr True \<longrightarrow> (\<exists>lr a. t = t0 @ [Inner (ReadLease lr), AdmitWriter wt (Inr a)] \<and>
           free_of_legacy exec lr \<and> (r_admitted a \<or> r_held a))
        | Inr w \<Rightarrow> \<exists>lr. t = t0 @ [Inner (ReadLease lr)] \<and> LegacyWriterOf lr = Inr w)"
    by (rule runs_wrapped, rule runs_post [OF read_legacy_inner_trace]) (auto split: sum.splits)
next
  fix w :: "legacy_writer option"
  let ?S = "\<lambda>t. \<exists>lr. t = t0 @ [Inner (ReadLease lr)] \<and> LegacyWriterOf lr = Inr w"
  show "runs ?S (if (case w of None \<Rightarrow> False | Some x \<Rightarrow> lw_holder x \<noteq> o_uid exec) then ret False
     else andThen (wrapped ''admit Worktree writer'' (andThen (op_clock q) (\<lambda>now.
       call (k_env (q_k q)) (AdmitWriter wt) (\<lambda>e api.
         case MountAccess_Admit DefaultBackoff (\<lambda>n. e (Suc n)) now (worktree_store (q_k q) now wt)
              (q_read q (o_namespace exec) (o_name exec)) wt (execHolder exec) (e 0 api) of
           (api', r, None) \<Rightarrow> (api', Inr r)
         | (api', _, Some x) \<Rightarrow> (api', Inl x))))) (\<lambda>result. ret (r_admitted result \<or> r_held result)))
     (\<lambda>r t. r = Inr True \<longrightarrow> (\<exists>lr a. t = t0 @ [Inner (ReadLease lr), AdmitWriter wt (Inr a)] \<and> free_of_legacy exec lr \<and>
        (r_admitted a \<or> r_held a)))"
    by (rule runs_branch, rule runs_ret, simp,
        rule runs_andThen [where S = "\<lambda>a t. \<exists>lr. t = t0 @ [Inner (ReadLease lr), AdmitWriter wt (Inr a)] \<and> LegacyWriterOf lr = Inr w"],
        rule runs_wrapped, rule runs_andThen [where S = "\<lambda>_. ?S"], rule runs_clock, simp, rule runs_call)
       (auto intro!: runs_ret intro: free_of_legacyI split: sum.splits)
qed

lemma creation_evidenceI:
  assumes "admitted_trace tc exec wt pre" "startable exec" "usable tc wt'" "o_uid wt' = o_uid wt" "list_all ordinary evs"
    "on_record worktreeExecStatus (o_name exec) evs"
  shows "creation_evidence tc img (command_job img exec wt) (pre @ TargetWorktree (Inr wt') # evs)"
  unfolding creation_evidence_def using assms by blast

lemma setSucceeded_record:
  "runs (\<lambda>t. t = t0) (exec_setSucceeded q exec status reason message jobName)
     (\<lambda>r. since t0 (\<lambda>evs. list_all ordinary evs \<and> (r \<noteq> Inr () \<or> on_record worktreeExecStatus jobName evs)))"
proof -
  have ord: "runs (\<lambda>t. t = t0) (exec_setSucceeded q exec status reason message jobName) (\<lambda>_. since t0 (list_all ordinary))"
    unfolding exec_setSucceeded_def by (rule runs_since [OF emits_set_ordinary(1)])
  have "runs (\<lambda>t. t = t0) (exec_setSucceeded q exec status reason message jobName)
     (\<lambda>r. since t0 (\<lambda>evs. r \<noteq> Inr () \<or> on_record worktreeExecStatus jobName evs))"
    unfolding exec_setSucceeded_def set_status_def
    by (rule runs_pre [OF runs_post [OF exec_result.setAt_on_record]]) (auto simp: since_def split: sum.splits)
  from runs_conj [OF ord this] show ?thesis
    by (rule runs_pre [OF runs_post]) (auto intro: since_conj)
qed

lemma creation_ok_quiet: "emits no_creation m \<Longrightarrow> runs (creation_ok q j) m (\<lambda>_. creation_ok q j)"
  by (erule runs_quiet) (auto simp: is_creation_def no_creation_def split: op_event.splits)

lemma schedule_job_trace:
  assumes adm: "admitted_trace (k_codec (q_k q)) exec wt pre" "startable exec" "usable (k_codec (q_k q)) wt'" "o_uid wt' = o_uid wt"
  shows "runs (\<lambda>t. t = pre @ [TargetWorktree (Inr wt')]) (schedule_job q exec wt) (\<lambda>_. creation_ok q j)"
proof -
  let ?c = "command_job (k_image (q_k q)) exec wt"
  let ?t0 = "pre @ [TargetWorktree (Inr wt')]"
  have ref: "SetControllerReference repositoriesGroupVersion ''WorktreeExec'' exec (worktreeExecJob exec wt (k_image (q_k q))) = Inr ?c"
    by (simp add: SetControllerReference_def command_job_def worktreeExecJob_def blank_object_def Let_def kobj.defs)
  have name: "o_name ?c = o_name exec"
    by (simp add: command_job_def worktreeExecJob_def blank_object_def Let_def kobj.defs)
  have quiet: "creation_ok q j t" if "since ?t0 (list_all ordinary) t" for t
    using that adm(1) by (auto intro!: before_none simp: since_def admitted_trace_def is_creation_def ordinary_def list_all_iff split: op_event.splits)
  have launch: "runs (since ?t0 (\<lambda>evs. list_all ordinary evs \<and> on_record worktreeExecStatus (o_name exec) evs)) (launch_job q exec ?c) (\<lambda>_. creation_ok q j)"
    unfolding launch_job_def
  proof (rule runs_andThen [where S = "\<lambda>_. creation_ok q j"])
    have "creation_ok q j (t @ [MakeJob ?c r])" if "since ?t0 (\<lambda>evs. list_all ordinary evs \<and> on_record worktreeExecStatus (o_name exec) evs) t" for t r
    proof (cases "j = ?c")
      case True
      with that adm have "creation_evidence (k_codec (q_k q)) (k_image (q_k q)) j t" by (auto simp: since_def intro!: creation_evidenceI)
      with that quiet show ?thesis by (intro before_snoc) (auto simp: since_def)
    next
      case False
      with that quiet show ?thesis by (intro before_append) (auto simp: since_def is_creation_def)
    qed
    then show "runs (since ?t0 (\<lambda>evs. list_all ordinary evs \<and> on_record worktreeExecStatus (o_name exec) evs))
       (wrapped ''create Worktree Exec Job'' (op_write q (MakeJob ?c) (k_createJob (q_k q) ?c)))
       (\<lambda>r t. case r of Inl e \<Rightarrow> creation_ok q j t | Inr _ \<Rightarrow> creation_ok q j t)"
      by (intro runs_wrapped runs_call) (auto split: sum.splits)
  next
    fix u
    show "runs (creation_ok q j) (andThen (exec_setSucceeded q exec CUnknown ''JobCreated'' ''Command Job was created'' (o_name ?c)) (\<lambda>_. ret None)) (\<lambda>_. creation_ok q j)"
      by (rule creation_ok_quiet) (intro emits_intros emits_no_creation)
  qed
  have abandon: "runs (since ?t0 (list_all ordinary)) (abandon q exec e) (\<lambda>_. creation_ok q j)" for e
    by (rule runs_pre [OF creation_ok_quiet [OF emits_no_creation(8)] quiet])
  show ?thesis
    unfolding schedule_job_def ref sum.case name
  proof (rule runs_andThen [where S = "\<lambda>r. since ?t0 (\<lambda>evs. list_all ordinary evs \<and> (r \<noteq> Inr () \<or> on_record worktreeExecStatus (o_name exec) evs))"])
    fix recorded :: "unit result"
    show "runs (since ?t0 (\<lambda>evs. list_all ordinary evs \<and> (recorded \<noteq> Inr () \<or> on_record worktreeExecStatus (o_name exec) evs)))
       (case recorded of Inl e \<Rightarrow> abandon q exec e | Inr _ \<Rightarrow> launch_job q exec ?c) (\<lambda>_. creation_ok q j)"
      by (cases recorded) (auto intro!: runs_pre [OF abandon] runs_pre [OF launch] simp: since_def)
  qed (rule runs_attempt, rule runs_post [OF setSucceeded_record], simp)
qed

lemma createClaimedJob_trace:
  assumes adm: "admitted_trace (k_codec (q_k q)) exec wt pre" "startable exec"
  shows "runs (\<lambda>t. t = pre) (createClaimedJob q exec wt) (\<lambda>_. creation_ok q j)"
  unfolding createClaimedJob_def
proof (rule runs_andThen [where S = "\<lambda>cur t. case cur of Inl e \<Rightarrow> \<exists>a. t = pre @ [TargetWorktree a]
    | Inr w \<Rightarrow> t = pre @ [TargetWorktree (Inr w)] \<and> usable (k_codec (q_k q)) w"])
  fix cur :: "worktree result"
  let ?S = "\<lambda>t. case cur of Inl e \<Rightarrow> \<exists>a. t = pre @ [TargetWorktree a]
    | Inr w \<Rightarrow> t = pre @ [TargetWorktree (Inr w)] \<and> usable (k_codec (q_k q)) w"
  have "?S t \<Longrightarrow> creation_ok q j t" for t
    using adm(1) by (auto intro!: before_none simp: admitted_trace_def is_creation_def split: sum.splits)
  from runs_pre [OF creation_ok_quiet [OF emits_no_creation(9)] this]
  have changed: "runs ?S (changed_after_admission q exec) (\<lambda>_. creation_ok q j)" .
  show "runs ?S (if (case cur of Inl e \<Rightarrow> True | Inr w \<Rightarrow> o_uid w \<noteq> o_uid wt) then changed_after_admission q exec else schedule_job q exec wt)
     (\<lambda>_. creation_ok q j)"
  proof (rule runs_branch, rule changed)
    assume "\<not> (case cur of Inl e \<Rightarrow> True | Inr w \<Rightarrow> o_uid w \<noteq> o_uid wt)"
    then obtain w where w: "cur = Inr w" "o_uid w = o_uid wt" by (auto split: sum.splits)
    have "runs (\<lambda>t. t = pre @ [TargetWorktree (Inr w)] \<and> usable (k_codec (q_k q)) w) (schedule_job q exec wt) (\<lambda>_. creation_ok q j)"
      by (rule runs_fact, rule schedule_job_trace [OF adm _ w(2)])
    with w(1) show "runs ?S (schedule_job q exec wt) (\<lambda>_. creation_ok q j)" by simp
  qed
qed (rule runs_attempt, rule runs_post [OF readyWorktree_trace], simp)

lemma reported_quiet:
  "runs (creation_ok q j) (andThen (exec_setSucceeded q' exec s reason message n) (\<lambda>_. ret x)) (\<lambda>_. creation_ok q j)"
  by (rule creation_ok_quiet) (intro emits_intros emits_no_creation)

lemma claim_and_create_trace:
  assumes start: "startable exec" "err_is ENotFound e" and use: "usable (k_codec (q_k q)) wt"
  shows "runs (\<lambda>t. t = [ReadRequest (Inr exec), LookJob (o_name exec) (Inl e), TargetWorktree (Inr wt)])
     (claim_and_create q exec wt) (\<lambda>_. creation_ok q j)" (is "runs (\<lambda>t. t = ?t1) _ _")
  unfolding claim_and_create_def
proof (rule runs_andThen [where S = "\<lambda>acquired t. creation_ok q j t \<and> (acquired \<longrightarrow> admitted_trace (k_codec (q_k q)) exec wt t)"])
  have first: "creation_ok q j ?t1" by (auto intro!: before_none simp: is_creation_def)
  have acq: "runs (\<lambda>t. t = ?t1) (acquireClaim q exec wt) (\<lambda>r t. creation_ok q j t)"
    by (rule runs_pre [OF creation_ok_quiet [OF emits_no_creation(3)]]) (hypsubst, rule first)
  have "admitted_trace (k_codec (q_k q)) exec wt (?t1 @ [Inner (ReadLease lr), AdmitWriter wt (Inr r)])"
    if "free_of_legacy exec lr" "r_admitted r \<or> r_held r" for lr r
    using that start(2) use by (simp add: admitted_trace_def)
  then show "runs (\<lambda>t. t = ?t1) (acquireClaim q exec wt)
     (\<lambda>r t. case r of Inl e \<Rightarrow> creation_ok q j t | Inr acquired \<Rightarrow> creation_ok q j t \<and> (acquired \<longrightarrow> admitted_trace (k_codec (q_k q)) exec wt t))"
    by (intro runs_pre [OF runs_post [OF runs_conj [OF acq acquireClaim_trace]]]) (auto split: sum.splits)
next
  fix acquired
  show "runs (\<lambda>t. creation_ok q j t \<and> (acquired \<longrightarrow> admitted_trace (k_codec (q_k q)) exec wt t))
     (if \<not> acquired then andThen (exec_setSucceeded q exec CUnknown ''WaitingForWorktree'' ''Another runtime or exec is using the Worktree'' [])
             (\<lambda>_. ret (Some worktreeExecDependencyRequeue)) else createClaimedJob q exec wt) (\<lambda>_. creation_ok q j)"
  proof (rule runs_branch, rule runs_pre [OF reported_quiet], simp)
    assume "\<not> \<not> acquired"
    then show "runs (\<lambda>t. creation_ok q j t \<and> (acquired \<longrightarrow> admitted_trace (k_codec (q_k q)) exec wt t)) (createClaimedJob q exec wt) (\<lambda>_. creation_ok q j)"
      by - (rule runs_each_start, rule createClaimedJob_trace [OF _ start(1)], simp)
  qed
qed

lemma exec_start_trace:
  assumes start: "startable exec" "err_is ENotFound e"
  shows "runs (\<lambda>t. t = [ReadRequest (Inr exec), LookJob (o_name exec) (Inl e)]) (exec_start q exec) (\<lambda>_. creation_ok q j)"
    (is "runs (\<lambda>t. t = ?t0) _ _")
  unfolding exec_start_def
proof (rule runs_andThen [where S = "\<lambda>found t. case found of Inl e \<Rightarrow> \<exists>a. t = ?t0 @ [TargetWorktree a]
    | Inr w \<Rightarrow> t = ?t0 @ [TargetWorktree (Inr w)] \<and> usable (k_codec (q_k q)) w"])
  fix found :: "worktree result"
  have "creation_ok q j (?t0 @ [TargetWorktree a])" for a
    by (auto intro!: before_none simp: is_creation_def)
  then show "runs (\<lambda>t. case found of Inl e \<Rightarrow> \<exists>a. t = ?t0 @ [TargetWorktree a]
       | Inr w \<Rightarrow> t = ?t0 @ [TargetWorktree (Inr w)] \<and> usable (k_codec (q_k q)) w)
     (case found of
        Inl e \<Rightarrow> if err_is errWorktreeNotReady e
          then andThen (exec_setSucceeded q exec CUnknown ''WorktreeNotReady'' (err_text e) []) (\<lambda>_. ret (Some worktreeExecDependencyRequeue))
          else andThen (exec_setSucceeded q exec CFalse ''WorktreeUnavailable'' (err_text e) []) (\<lambda>_. ret None)
      | Inr wt \<Rightarrow> claim_and_create q exec wt) (\<lambda>_. creation_ok q j)"
    by (cases found) (auto intro!: runs_pre [OF reported_quiet] runs_fact claim_and_create_trace [OF start])
qed (rule runs_attempt, rule runs_post [OF readyWorktree_trace], simp)

lemma exec_running_trace:
  assumes "\<not> terminal_condition (wx_conditions exec) ConditionSucceeded" "wx_command exec \<noteq> []" "hd (wx_command exec) \<noteq> []"
  shows "runs (\<lambda>t. t = [ReadRequest (Inr exec)]) (exec_running q exec) (\<lambda>_. creation_ok q j)"
  unfolding exec_running_def
proof (rule runs_andThen [where S = "\<lambda>state t. creation_ok q j t \<and> (state = JobAbsent \<longrightarrow> wx_jobName exec = [] \<and>
      (\<exists>e. err_is ENotFound e \<and> t = [ReadRequest (Inr exec), LookJob (o_name exec) (Inl e)]))"])
  have "creation_ok q j [ReadRequest (Inr exec), LookJob n r]" for n r
    by (auto intro!: before_none simp: is_creation_def)
  then show "runs (\<lambda>t. t = [ReadRequest (Inr exec)])
     (wrapped ''observe Worktree Exec Job'' (observeOneShotJob q (k_cachedJob (q_k q)) exec (wx_jobName exec)))
     (\<lambda>r t. case r of Inl e \<Rightarrow> creation_ok q j t
        | Inr state \<Rightarrow> creation_ok q j t \<and> (state = JobAbsent \<longrightarrow> wx_jobName exec = [] \<and>
            (\<exists>e. err_is ENotFound e \<and> t = [ReadRequest (Inr exec), LookJob (o_name exec) (Inl e)])))"
    unfolding observeOneShotJob_def Let_def
    by (intro runs_wrapped runs_andThen [where S = "\<lambda>found t. t = [ReadRequest (Inr exec),
          LookJob (if wx_jobName exec = [] then o_name exec else wx_jobName exec) found]"] runs_attempt runs_call)
       (auto intro!: runs_ret runs_raise split: sum.splits)
next
  fix state
  let ?run = "case state of JobPresent j \<Rightarrow> exec_present q exec j | JobLost \<Rightarrow> exec_lost q exec
     | JobConflict _ \<Rightarrow> andThen (exec_setSucceeded q exec CFalse ''JobConflict'' ''A Job with the requested name already exists'' []) (\<lambda>_. ret None)
     | JobAbsent \<Rightarrow> exec_start q exec"
  show "runs (\<lambda>t. creation_ok q j t \<and> (state = JobAbsent \<longrightarrow> wx_jobName exec = [] \<and>
      (\<exists>e. err_is ENotFound e \<and> t = [ReadRequest (Inr exec), LookJob (o_name exec) (Inl e)]))) ?run (\<lambda>_. creation_ok q j)"
  proof (cases state)
    case JobAbsent
    have "runs (\<lambda>t. wx_jobName exec = [] \<and> (\<exists>e. err_is ENotFound e \<and> t = [ReadRequest (Inr exec), LookJob (o_name exec) (Inl e)]))
       (exec_start q exec) (\<lambda>_. creation_ok q j)"
      using assms by - (rule runs_each_start, elim conjE exE, hypsubst, rule exec_start_trace, simp_all add: startable_def)
    then show ?thesis unfolding JobAbsent by (simp, elim runs_pre) simp
  qed (auto intro!: runs_pre [OF reported_quiet] runs_pre [OF creation_ok_quiet [OF emits_no_creation(6)]]
        runs_pre [OF creation_ok_quiet [OF emits_no_creation(7)]])
qed


section \<open>Release of the writer\<close>

text \<open>
  The evidence for the release of the writer: the exec that was read has its result; or its Job was observed finished; or
  its recorded Job is gone and no Pod of it is left; or it has no recorded Job, none was found, and this run
  created none.
\<close>

definition is_release :: "'o op_event \<Rightarrow> bool" where
  "is_release e = (case e of ReleaseWriter _ \<Rightarrow> True | _ \<Rightarrow> False)"

definition stopped_evidence :: "worktree_exec op_event list \<Rightarrow> bool" where
  "stopped_evidence tr \<longleftrightarrow>
     (\<exists>exec rest. tr = ReadRequest (Inr exec) # rest \<and>
        (terminal_condition (wx_conditions exec) ConditionSucceeded \<or>
         (\<exists>n j. LookJob n (Inr j) \<in> set rest \<and> is_controlled_by j (o_uid exec) \<and> jobFinished j) \<or>
         (\<exists>e. LookJob (wx_jobName exec) (Inl e) \<in> set rest \<and> err_is ENotFound e \<and> JobPods (wx_jobName exec) (Inr []) \<in> set rest) \<or>
         (\<exists>e. wx_jobName exec = [] \<and> LookJob (o_name exec) (Inl e) \<in> set rest \<and> err_is ENotFound e \<and> list_all no_creation rest)))"

abbreviation release_ok :: "worktree_exec op_event list \<Rightarrow> bool" where
  "release_ok \<equiv> before is_release stopped_evidence"

lemma stopped_snoc: "stopped_evidence t \<Longrightarrow> no_creation e \<Longrightarrow> stopped_evidence (t @ [e])"
  unfolding stopped_evidence_def by fastforce

lemma release_guarded:
  assumes "emits no_creation m"
  shows "runs (\<lambda>t. release_ok t \<and> stopped_evidence t) m (\<lambda>_ t. release_ok t \<and> stopped_evidence t)"
  using assms stopped_snoc by (rule runs_guarded)

lemma release_quiet: "emits (\<lambda>e. \<not> is_release e) m \<Longrightarrow> runs release_ok m (\<lambda>_. release_ok)"
  by (erule runs_quiet)

lemma emits_no_release:
  "emits (\<lambda>e. \<not> is_release e) (exec_setSucceeded q exec status reason message jobName)"
  "emits (\<lambda>e. \<not> is_release e) (readyWorktree q exec)"
  "emits (\<lambda>e. \<not> is_release e) (acquireClaim q exec wt)"
  "emits (\<lambda>e. \<not> is_release e) (fail_after_stop q exec j reason message)"
  "emits (\<lambda>e. \<not> is_release e) (stopLostJobPods q exec)"
  "emits (\<lambda>e. \<not> is_release e) (launch_job q exec j)"
proof -
  have P: "ordinary e \<Longrightarrow> \<not> is_release e" for e :: "worktree_exec op_event"
    by (auto simp: is_release_def ordinary_def split: op_event.splits)
  show sets: "emits (\<lambda>e. \<not> is_release e) (exec_setSucceeded q exec status reason message jobName)" for status reason message jobName
    unfolding exec_setSucceeded_def by (rule emits_set_ordinary [OF P])
  note calls = P [OF ordinary_simps(4)] P [OF ordinary_simps(5)] P [OF ordinary_simps(6)] P [OF ordinary_simps(7)]
    P [OF ordinary_simps(8)] P [OF ordinary_simps(10)]
  show "emits (\<lambda>e. \<not> is_release e) (readyWorktree q exec)" by (intro emits_intros calls)
  show "emits (\<lambda>e. \<not> is_release e) (acquireClaim q exec wt)" by (intro emits_intros calls)
  show "emits (\<lambda>e. \<not> is_release e) (fail_after_stop q exec j reason message)" by (intro emits_fail_after_stop calls sets)
  show "emits (\<lambda>e. \<not> is_release e) (stopLostJobPods q exec)" by (intro emits_intros calls)
  have "\<not> is_release (MakeJob j r :: worktree_exec op_event)" for r by (simp add: is_release_def)
  then show "emits (\<lambda>e. \<not> is_release e) (launch_job q exec j)" unfolding launch_job_def by (intro emits_intros sets)
qed

definition observed :: "worktree_exec \<Rightarrow> worktree_exec op_event \<Rightarrow> worktree_exec op_event list \<Rightarrow> bool" where
  "observed exec e tr \<longleftrightarrow> (\<exists>rest. tr = ReadRequest (Inr exec) # rest \<and> e \<in> set rest)"

lemma lasting_observed: "lasting (observed exec e)"
  unfolding lasting_def observed_def by fastforce

lemma observed_snoc: "observed exec e t \<Longrightarrow> observed exec e' (t @ [e'])"
  unfolding observed_def by fastforce

lemma observed_stops:
  "observed exec (LookJob n (Inr j)) t \<Longrightarrow> is_controlled_by j (o_uid exec) \<Longrightarrow> jobFinished j \<Longrightarrow> stopped_evidence t"
  "observed exec (LookJob (wx_jobName exec) (Inl e)) t \<Longrightarrow> err_is ENotFound e \<Longrightarrow>
     observed exec (JobPods (wx_jobName exec) (Inr [])) t \<Longrightarrow> stopped_evidence t"
  unfolding observed_def stopped_evidence_def by (fastforce, fastforce)

lemma release_keeps:
  "emits (\<lambda>e. \<not> is_release e) m \<Longrightarrow>
   runs (\<lambda>t. release_ok t \<and> observed exec e t) m (\<lambda>_ t. release_ok t \<and> observed exec e t)"
  by (rule runs_emits [OF _ lasting_observed])

text \<open>When the Job is not finished, its status is reported without a release.\<close>

lemma reflect_release:
  assumes "is_controlled_by j (o_uid exec)"
  shows "runs (\<lambda>t. release_ok t \<and> observed exec (LookJob n (Inr j)) t) (exec_reflectJobStatus q exec j) (\<lambda>_. release_ok)"
proof (cases "jobFinished j")
  case True
  with assms show ?thesis
    by (intro runs_pre [OF runs_post [OF release_guarded [OF emits_no_creation(4)]]]) (auto dest: observed_stops)
next
  case False
  then have "terminalJobOutcome j = None" by (cases "terminalJobOutcome j") (simp_all add: jobFinished_def)
  then show ?thesis
    by (auto simp: exec_reflectJobStatus_def intro!: runs_pre [OF release_quiet [OF emits_no_release(1)]])
qed

lemma runs_step:
  assumes "runs P m (\<lambda>_. P)" "\<And>t. P t \<Longrightarrow> I t" "\<And>x. runs P (f x) (\<lambda>_. I)"
  shows "runs P (andThen m f) (\<lambda>_. I)"
  by (rule runs_andThen [where S = "\<lambda>_. P"], rule runs_post [OF assms(1)]) (auto simp: assms split: sum.splits)

lemma runs_attempt_step: "runs P m (\<lambda>_. P) \<Longrightarrow> runs P (attempt m) (\<lambda>_. P)"
  by (rule runs_attempt)

lemma present_release:
  assumes "is_controlled_by j (o_uid exec)"
  shows "runs (\<lambda>t. release_ok t \<and> observed exec (LookJob n (Inr j)) t) (exec_present q exec j) (\<lambda>_. release_ok)"
proof -
  let ?P = "\<lambda>t. release_ok t \<and> observed exec (LookJob n (Inr j)) t"
  have stop: "runs ?P (fail_after_stop q exec j reason message) (\<lambda>_. release_ok)" for reason message
    by (rule runs_pre [OF release_quiet [OF emits_no_release(4)]]) simp
  have reflect: "runs ?P (andThen (exec_reflectJobStatus q exec j) (\<lambda>_. ret None)) (\<lambda>_. release_ok)"
    by (rule runs_andThen [where S = "\<lambda>_. release_ok"], rule runs_post [OF reflect_release [OF assms]]) (auto intro: runs_ret split: sum.splits)
  have verify: "runs ?P (verify_writer q exec j) (\<lambda>_. release_ok)"
    unfolding verify_writer_def
  proof (rule runs_step, rule runs_attempt_step, rule release_keeps [OF emits_no_release(2)], simp)
    fix found :: "worktree result"
    show "runs ?P (case found of Inl e \<Rightarrow> fail_after_stop q exec j ''WorktreeUnavailable'' (err_text e)
       | Inr worktree \<Rightarrow> andThen (attempt (acquireClaim q exec worktree)) (\<lambda>acquired. case acquired of
             Inl e \<Rightarrow> fail_after_stop q exec j ''WriterVerificationFailed'' (''Worktree writer could not be verified: '' @ err_text e)
           | Inr False \<Rightarrow> fail_after_stop q exec j ''WriterLost'' ''Worktree is held by another writer''
           | Inr True \<Rightarrow> andThen (exec_reflectJobStatus q exec j) (\<lambda>_. ret None))) (\<lambda>_. release_ok)"
      by (cases found)
         (auto intro!: stop reflect runs_step [OF runs_attempt_step [OF release_keeps [OF emits_no_release(3)]]] split: sum.splits bool.splits)
  qed
  show ?thesis
    unfolding exec_present_def
    by (auto intro!: stop reflect verify runs_ret split: option.splits prod.splits)
qed

lemma reported_release:
  "runs release_ok (andThen (exec_setSucceeded q exec s reason message n) (\<lambda>_. ret x)) (\<lambda>_. release_ok)"
  by (rule release_quiet) (intro emits_intros emits_no_release)

lemma lost_pods_release:
  assumes "err_is ENotFound e"
  shows "runs (\<lambda>t. release_ok t \<and> observed exec (LookJob (wx_jobName exec) (Inl e)) t) (stopLostJobPods q exec)
     (\<lambda>r t. case r of Inl e \<Rightarrow> release_ok t | Inr gone \<Rightarrow> release_ok t \<and> (gone \<longrightarrow> stopped_evidence t))"
  unfolding stopLostJobPods_def
proof (rule runs_andThen [where S = "\<lambda>pods t. release_ok t \<and> (pods = [] \<longrightarrow> stopped_evidence t)"])
  let ?P = "\<lambda>t. release_ok t \<and> observed exec (LookJob (wx_jobName exec) (Inl e)) t"
  have "release_ok (t @ [JobPods n r])" if "release_ok t" for t n r
    by (rule before_append [OF that]) (simp add: is_release_def)
  moreover have "stopped_evidence (t @ [JobPods (wx_jobName exec) (Inr [])])" if "?P t" for t
    using that by (intro observed_stops(2) [OF _ assms]) (auto intro: observed_snoc lastingD [OF lasting_observed])
  ultimately show "runs ?P (wrapped ''list Pods for lost Worktree Exec Job''
      (op_read q (JobPods (wx_jobName exec)) (q_jobPods q (o_namespace exec) (wx_jobName exec))))
      (\<lambda>r t. case r of Inl e' \<Rightarrow> (case Inl e' of Inl e \<Rightarrow> release_ok t | Inr gone \<Rightarrow> release_ok t \<and> (gone \<longrightarrow> stopped_evidence t))
        | Inr pods \<Rightarrow> release_ok t \<and> (pods = [] \<longrightarrow> stopped_evidence t))"
    by (intro runs_wrapped runs_call) (auto split: sum.splits)
next
  fix pods :: "pod list"
  let ?each = "each (\<lambda>p. wrapped (''stop Pod '' @ quote_mark @ o_name p @ quote_mark @ '' for lost Worktree Exec Job'')
     (IgnoreNotFound (op_write q (StopPod p) (q_deletePod q p)))) pods"
  have "\<not> is_release (StopPod p r :: worktree_exec op_event)" for p r by (simp add: is_release_def)
  then have "runs release_ok ?each (\<lambda>_. release_ok)" by (intro release_quiet emits_intros)
  then show "runs (\<lambda>t. release_ok t \<and> (pods = [] \<longrightarrow> stopped_evidence t)) (if pods = [] then ret True else andThen ?each (\<lambda>_. ret False))
      (\<lambda>r t. case r of Inl e \<Rightarrow> release_ok t | Inr gone \<Rightarrow> release_ok t \<and> (gone \<longrightarrow> stopped_evidence t))"
    by (intro runs_branch runs_andThen [where S = "\<lambda>_. release_ok"]) (auto intro!: runs_ret elim: runs_pre [OF runs_post] split: sum.splits)
qed

lemma lost_release:
  assumes "err_is ENotFound e"
  shows "runs (\<lambda>t. release_ok t \<and> observed exec (LookJob (wx_jobName exec) (Inl e)) t) (exec_lost q exec) (\<lambda>_. release_ok)"
  unfolding exec_lost_def
proof (rule runs_andThen [OF lost_pods_release [OF assms]])
  fix gone
  let ?after = "andThen (releaseClaim q exec) (\<lambda>_. case worktreeExecStoppingFailure (wx_conditions exec ConditionSucceeded) of
            Some (reason, message) \<Rightarrow> andThen (exec_setSucceeded q exec CFalse reason message (wx_jobName exec)) (\<lambda>_. ret None)
          | None \<Rightarrow> andThen (exec_setSucceeded q exec CFalse ''JobLost''
                      ''Command Job disappeared before its terminal result was recorded'' (wx_jobName exec)) (\<lambda>_. ret None))"
  have "emits no_creation ?after" by (intro emits_intros emits_no_creation)
  then have "runs (\<lambda>t. release_ok t \<and> stopped_evidence t) ?after (\<lambda>_. release_ok)" by (rule runs_post [OF release_guarded]) simp
  then show "runs (\<lambda>t. release_ok t \<and> (gone \<longrightarrow> stopped_evidence t)) (if \<not> gone
     then andThen (exec_setSucceeded q exec CUnknown ''StoppingAfterJobLost'' ''Command Job disappeared; waiting for its Pods to stop''
                     (wx_jobName exec)) (\<lambda>_. ret (Some worktreeExecDependencyRequeue)) else ?after) (\<lambda>_. release_ok)"
    by (intro runs_branch runs_pre [OF reported_release]) (auto elim: runs_pre)
qed

lemma start_release: "runs (\<lambda>t. release_ok t \<and> stopped_evidence t) (exec_start q exec) (\<lambda>_. release_ok)"
proof -
  let ?P = "\<lambda>t. release_ok t \<and> stopped_evidence t"
  have stopped: "runs ?P m (\<lambda>_. release_ok)" if "emits no_creation m" for m :: "('a, 'b) xctl"
    by (rule runs_post [OF release_guarded [OF that]]) simp
  have ready: "emits no_creation (readyWorktree q exec)" by (intro emits_intros) (simp add: no_creation_def)
  have launch: "runs ?P (launch_job q exec j) (\<lambda>_. release_ok)" for j
    by (rule runs_pre [OF release_quiet [OF emits_no_release(6)]]) simp
  have schedule: "runs ?P (schedule_job q exec wt) (\<lambda>_. release_ok)" for wt
    unfolding schedule_job_def
    by (auto split: sum.splits intro!: launch runs_step [OF runs_attempt_step [OF release_guarded [OF emits_no_creation(1)]]]
         runs_post [OF release_guarded [OF emits_no_creation(8)]])
  have claimed: "runs ?P (createClaimedJob q exec wt) (\<lambda>_. release_ok)" for wt
    unfolding createClaimedJob_def
    by (rule runs_step [OF runs_attempt_step [OF release_guarded [OF ready]]])
       (auto intro!: schedule runs_post [OF release_guarded [OF emits_no_creation(9)]])
  have report: "runs ?P (andThen (exec_setSucceeded q exec s reason message n) (\<lambda>_. ret x)) (\<lambda>_. release_ok)" for s reason message n x
    by (rule runs_pre [OF reported_release]) simp
  show ?thesis
    unfolding exec_start_def claim_and_create_def
    by (rule runs_step [OF runs_attempt_step [OF release_guarded [OF ready]]])
       (auto intro!: report claimed runs_step [OF release_guarded [OF emits_no_creation(3)]] split: sum.splits)
qed

lemma running_release: "runs (\<lambda>t. t = [ReadRequest (Inr exec)]) (exec_running q exec) (\<lambda>_. release_ok)"
  unfolding exec_running_def
proof (rule runs_andThen [where S = "\<lambda>state t. release_ok t \<and> (case state of
      JobPresent j \<Rightarrow> is_controlled_by j (o_uid exec) \<and> (\<exists>n. observed exec (LookJob n (Inr j)) t)
    | JobLost \<Rightarrow> \<exists>e. err_is ENotFound e \<and> observed exec (LookJob (wx_jobName exec) (Inl e)) t
    | JobConflict j \<Rightarrow> True
    | JobAbsent \<Rightarrow> stopped_evidence t)"])
  let ?name = "if wx_jobName exec = [] then o_name exec else wx_jobName exec"
  have ok: "release_ok [ReadRequest (Inr exec), LookJob n r]" for n r
    by (auto intro!: before_none simp: is_release_def)
  have "stopped_evidence [ReadRequest (Inr exec), LookJob (o_name exec) (Inl e)]" if "wx_jobName exec = []" "err_is ENotFound e" for e
    using that by (simp add: stopped_evidence_def no_creation_def)
  with ok show "runs (\<lambda>t. t = [ReadRequest (Inr exec)])
     (wrapped ''observe Worktree Exec Job'' (observeOneShotJob q (k_cachedJob (q_k q)) exec (wx_jobName exec)))
     (\<lambda>r t. case r of Inl e \<Rightarrow> release_ok t
        | Inr state \<Rightarrow> release_ok t \<and> (case state of
            JobPresent j \<Rightarrow> is_controlled_by j (o_uid exec) \<and> (\<exists>n. observed exec (LookJob n (Inr j)) t)
          | JobLost \<Rightarrow> \<exists>e. err_is ENotFound e \<and> observed exec (LookJob (wx_jobName exec) (Inl e)) t
          | JobConflict j \<Rightarrow> True
          | JobAbsent \<Rightarrow> stopped_evidence t))"
    unfolding observeOneShotJob_def Let_def
    by (intro runs_wrapped runs_andThen [where S = "\<lambda>found t. t = [ReadRequest (Inr exec), LookJob ?name found]"] runs_attempt runs_call)
       (auto intro!: runs_ret runs_raise split: sum.splits simp: observed_def)
next
  fix state
  show "runs (\<lambda>t. release_ok t \<and> (case state of
      JobPresent j \<Rightarrow> is_controlled_by j (o_uid exec) \<and> (\<exists>n. observed exec (LookJob n (Inr j)) t)
    | JobLost \<Rightarrow> \<exists>e. err_is ENotFound e \<and> observed exec (LookJob (wx_jobName exec) (Inl e)) t
    | JobConflict j \<Rightarrow> True
    | JobAbsent \<Rightarrow> stopped_evidence t))
     (case state of JobPresent j \<Rightarrow> exec_present q exec j | JobLost \<Rightarrow> exec_lost q exec
     | JobConflict _ \<Rightarrow> andThen (exec_setSucceeded q exec CFalse ''JobConflict'' ''A Job with the requested name already exists'' []) (\<lambda>_. ret None)
     | JobAbsent \<Rightarrow> exec_start q exec) (\<lambda>_. release_ok)"
    by (cases state; rule runs_each_start)
       (auto intro!: runs_pre [OF start_release] runs_pre [OF reported_release] intro: runs_pre [OF present_release] runs_pre [OF lost_release])
qed

text \<open>C9: 
  A WorktreeExec gives up the Worktree's writer only when its command cannot be running. In every reconcile, each
  release comes after the exec was read with its terminal result, or its own Job was observed finished, or its recorded
  Job was missing and no Pod of that Job was left, or it had no recorded Job, none existed and this reconcile had created none.
\<close>

theorem exec_writer_released_when_stopped:
  "before is_release stopped_evidence (snd (fst (Reconcile_worktreeexec q namespace name (api, []))))"
proof -
  have "runs (\<lambda>t. t = []) (Reconcile_worktreeexec q namespace name) (\<lambda>_. release_ok)"
    unfolding Reconcile_worktreeexec_def
  proof (rule runs_getOr [where A = "\<lambda>t. \<exists>e. t = [ReadRequest (Inl e)]" and S = "\<lambda>exec t. t = [ReadRequest (Inr exec)]"])
    show "runs (\<lambda>t. t = [ReadRequest (Inr exec)])
       (if terminal_condition (wx_conditions exec) ConditionSucceeded then exec_finished q exec
        else if wx_command exec = [] \<or> hd (wx_command exec) = []
        then andThen (exec_setSucceeded q exec CFalse ''InvalidCommand'' ''Command must contain a non-empty executable'' []) (\<lambda>_. ret None)
        else exec_running q exec) (\<lambda>_. release_ok)" for exec
    proof (intro runs_branch running_release)
      have ok: "release_ok [ReadRequest (Inr exec)]" by (auto intro!: before_none simp: is_release_def)
      then show "runs (\<lambda>t. t = [ReadRequest (Inr exec)]) (andThen (exec_setSucceeded q exec CFalse ''InvalidCommand''
          ''Command must contain a non-empty executable'' []) (\<lambda>_. ret None)) (\<lambda>_. release_ok)"
        by (intro runs_pre [OF reported_release]) simp
      assume "terminal_condition (wx_conditions exec) ConditionSucceeded"
      then have "stopped_evidence [ReadRequest (Inr exec)]" by (simp add: stopped_evidence_def)
      with ok show "runs (\<lambda>t. t = [ReadRequest (Inr exec)]) (exec_finished q exec) (\<lambda>_. release_ok)"
        by (intro runs_pre [OF runs_post [OF release_guarded [OF emits_no_creation(10)]]]) simp_all
    qed
  qed (auto intro!: runs_call runs_ret before_none simp: is_release_def split: sum.splits)
  from runs_from_start [OF this] show ?thesis .
qed

section \<open>A run\<close>

text \<open>
  A server with one Worktree: every other read answers NotFound, every other write succeeds. One reconcile of a new
  exec admits it as the writer, records the Job and creates it; the events of the theorems above do occur.
\<close>

definition idle_kclient :: "'api kclient" where
  "idle_kclient =
     \<lparr>k_env = (\<lambda>_ _ s. s), k_clock = (\<lambda>_. 9), k_codec = sample_codec, k_sha = (\<lambda>s. s), k_image = ''runner'', k_blankLease = (\<lambda>_. sample_lease),
      k_readWorktree = (\<lambda>_ _ _. Inl ENotFound), k_cachedWorktree = (\<lambda>_ _ _. Inl ENotFound), k_patchWorktree = (\<lambda>_ _ s. (s, None)),
      k_mergeWorktree = (\<lambda>_ w s. (s, Inr w)), k_patchWorktreeStatus = (\<lambda>_ _ s. (s, None)), k_mergeWorktreeStatus = (\<lambda>_ _ s. (s, None)),
      k_readOwner = (\<lambda>_ _ _ _. Inl ENotFound), k_readWorkspace = (\<lambda>_ _ _. Inl ENotFound), k_readWorktreeExec = (\<lambda>_ _ _. Inl ENotFound),
      k_indexedWorkspaces = (\<lambda>_ _ _. Inr []), k_listWorkspaces = (\<lambda>_ _. Inr []), k_readLease = (\<lambda>_ _ _. Inl ENotFound),
      k_updateLease = (\<lambda>_ _ s. (s, None)), k_createLease = (\<lambda>_ s. (s, None)), k_deleteLease = (\<lambda>_ _ s. (s, None)),
      k_readPods = (\<lambda>_ _. Inr []), k_cachedPods = (\<lambda>_ _. Inr []), k_mergePod = (\<lambda>_ _ s. (s, None)), k_readClaim = (\<lambda>_ _ _. Inl ENotFound),
      k_readClaims = (\<lambda>_ _. Inr []), k_createClaim = (\<lambda>c s. (s, Inr c)), k_patchClaim = (\<lambda>_ _ s. (s, None)),
      k_readRepository = (\<lambda>_ _ _. Inl ENotFound), k_cachedRepository = (\<lambda>_ _ _. Inl ENotFound), k_cachedJob = (\<lambda>_ _ _. Inl ENotFound),
      k_createJob = (\<lambda>_ s. (s, None))\<rparr>"

definition idle_oclient :: "'api kclient \<Rightarrow> 'o \<Rightarrow> ('api, 'o) oclient" where
  "idle_oclient k obj =
     \<lparr>q_k = k, q_cached = (\<lambda>_ _ _. Inr obj), q_read = (\<lambda>_ _ _. Inr obj), q_mergeStatus = (\<lambda>_ _ s. (s, None)),
      q_patchStatus = (\<lambda>_ _ s. (s, None)), q_patch = (\<lambda>_ x s. (s, Inr x)), q_update = (\<lambda>x s. (s, Inr x)), q_delete = (\<lambda>_ s. (s, None)),
      q_readJob = (\<lambda>_ _ _. Inl ENotFound), q_listJobs = (\<lambda>_ _. Inr []), q_updateJob = (\<lambda>_ s. (s, None)), q_deleteJob = (\<lambda>_ s. (s, None)),
      q_jobPods = (\<lambda>_ _ _. Inr []), q_readJobPods = (\<lambda>_ _ _. Inr []), q_deletePod = (\<lambda>_ s. (s, None)), q_listLeases = (\<lambda>_ _ _. Inr []),
      q_patchRepositoryStatus = (\<lambda>_ _ s. (s, None)), q_readCredential = (\<lambda>_ _ _. Inl ENotFound), q_updateClaim = (\<lambda>_ s. (s, None))\<rparr>"

definition version_patch :: "worktree \<Rightarrow> worktree \<Rightarrow> worktree option \<Rightarrow> worktree option \<times> err option" where
  "version_patch old new s =
     (case s of
        None \<Rightarrow> (s, Some ENotFound)
      | Some obj \<Rightarrow> if o_version obj = o_version old then (Some (new\<lparr>o_version := Suc (o_version obj)\<rparr>), None)
                    else (s, Some EConflict))"

definition sample_worktree_exec :: worktree_exec where
  "sample_worktree_exec = kobj.extend ((blank_object ''ns'' ''exec'')\<lparr>o_uid := ''u1''\<rparr>)
     (worktree_exec.fields ''wt'' [''make'', ''test''] [] None Map.empty)"

definition sample_ready_worktree :: worktree where
  "sample_ready_worktree = sample_worktree\<lparr>wt_claim := ''pvc'', wt_observed := o_generation sample_worktree,
     wt_conditions := [ConditionReady \<mapsto> new_condition CTrue (o_generation sample_worktree) ''WorktreeReady'' []]\<rparr>"

definition sample_xclient :: "(worktree option) xclient" where
  "sample_xclient = idle_oclient (idle_kclient\<lparr>k_readWorktree := (\<lambda>_ _. mem_get), k_patchWorktree := version_patch\<rparr>) sample_worktree_exec"

definition created_command :: "'o op_event \<Rightarrow> (string \<times> string list \<times> string) option" where
  "created_command e = (case e of MakeJob j (Inr _) \<Rightarrow> Some (o_name j, jb_command j @ jb_args j, jb_claim j) | _ \<Rightarrow> None)"

lemma sample_exec_run:
  "List.map_filter created_command (snd (fst (Reconcile_worktreeexec sample_xclient ''ns'' ''exec'' (Some sample_ready_worktree, [])))) =
     [(''exec'', [''make'', ''test''], ''pvc'')]"
  by code_simp

end
