(* ===== verification/RepositoryOperationSafety.thy ===== *)
theory RepositoryOperationSafety
  imports RepositorySync WorktreeExecSafety
begin

text \<open>
  What the RepositoryExec and RepositorySync controllers guarantee, for every server, every answer and every interleaving with
  other clients.
\<close>

section \<open>The calls of each operation\<close>

interpretation repository_exec_result: result_adapter repositoryExecStatus
  by unfold_locales (simp_all add: repositoryExecStatus_def)

lemma emits_release_reservation [emits_intros]: "(\<And>r. P (ReleaseGate key r)) \<Longrightarrow> emits P (release_reservation q ns n key)"
  unfolding release_reservation_def by (intro emits_intros)

lemma emits_free_request [emits_intros]: "(\<And>x r. P (FreeRequest x r)) \<Longrightarrow> emits P (free_request q owner)"
  unfolding free_request_def by (intro emits_intros)

lemma emits_job_allows_release [emits_intros]:
  assumes "\<And>n r. P (LookJob n r)" "\<And>j r. P (StopJob j r)" "\<And>j r. P (UpdateJob j r)"
  shows "emits P (job_allows_release q owner jobName)"
  unfolding job_allows_release_def Let_def by (intro emits_intros assms)

lemma emits_pods_allow_release [emits_intros]:
  "(\<And>n r. P (JobPods n r)) \<Longrightarrow> emits P (pods_allow_release q owner jobName)"
  unfolding pods_allow_release_def by (intro emits_intros)

lemma emits_releaseRepositoryOperation [emits_intros]:
  assumes "\<And>n r. P (LookJob n r)" "\<And>j r. P (StopJob j r)" "\<And>j r. P (UpdateJob j r)" "\<And>n r. P (JobPods n r)"
    "\<And>r. P (ReleaseGate key r)" "\<And>x r. P (FreeRequest x r)"
  shows "emits P (releaseRepositoryOperation q owner n key jobName)"
  unfolding releaseRepositoryOperation_def by (intro emits_intros assms)

lemma emits_acquire_gate [emits_intros]: "(\<And>r. P (AcquireGate rp h r)) \<Longrightarrow> emits P (acquire_gate q rp h ready)"
  unfolding acquire_gate_def by (intro emits_intros)

lemma emits_keep_request [emits_intros]: "(\<And>x r. P (KeepRequest x r)) \<Longrightarrow> emits P (keep_request q x)"
  unfolding keep_request_def Let_def by (intro emits_intros)

lemma emits_rx_setSucceeded [emits_intros]:
  assumes "\<And>r. P (ReadRequest r)" "\<And>cur after r. P (WriteRequest cur after r)"
  shows "emits P (rx_setSucceeded q exec status reason message jobName)"
  unfolding rx_setSucceeded_def set_status_def by (intro emits_setAt_any assms)

lemma emits_rx_reflectJobStatus [emits_intros]:
  assumes "\<And>r. P (ReadRequest r)" "\<And>cur after r. P (WriteRequest cur after r)"
  shows "emits P (rx_reflectJobStatus q exec j)"
  unfolding rx_reflectJobStatus_def by (intro emits_intros emits_setAt_any assms)

section \<open>Release of a reservation\<close>

text \<open>
  The evidence for the release of a reservation: either the operation has no recorded Job, or its Job was found gone,
  foreign, or finished while the operation is not being deleted, and then all Pods of that Job had stopped.
\<close>

definition job_settled :: "'x kobj_scheme \<Rightarrow> job result \<Rightarrow> bool" where
  "job_settled owner r =
     (case r of
        Inl e \<Rightarrow> err_is ENotFound e
      | Inr j \<Rightarrow> \<not> is_controlled_by j (o_uid owner) \<or> (o_deleting owner = None \<and> jobFinished j))"

definition consumers_gone :: "'x kobj_scheme \<Rightarrow> string \<Rightarrow> 'x kobj_scheme op_event list \<Rightarrow> bool" where
  "consumers_gone owner jobName tr \<longleftrightarrow>
     jobName = [] \<or>
     (\<exists>pre mid r pods. tr = pre @ LookJob jobName r # mid @ [JobPods jobName (Inr pods)] \<and> job_settled owner r \<and> list_all pod_stopped pods)"

definition is_gate_release :: "'o op_event \<Rightarrow> bool" where
  "is_gate_release e = (case e of ReleaseGate _ _ \<Rightarrow> True | _ \<Rightarrow> False)"

definition is_free :: "'o op_event \<Rightarrow> bool" where
  "is_free e = (case e of FreeRequest _ _ \<Rightarrow> True | _ \<Rightarrow> False)"

definition reservation_released :: "string \<Rightarrow> 'o op_event list \<Rightarrow> bool" where
  "reservation_released key tr \<longleftrightarrow> ReleaseGate key (Inr ()) \<in> set tr"

text \<open>From a trace \<open>t0\<close>, the reservation is released after the consumers are gone, and the finalizer is removed after that.\<close>

definition released_in_order :: "'x kobj_scheme \<Rightarrow> string \<Rightarrow> string \<Rightarrow> 'x kobj_scheme op_event list \<Rightarrow> bool" where
  "released_in_order owner key jobName tr \<longleftrightarrow>
     before is_gate_release (consumers_gone owner jobName) tr \<and> before is_free (reservation_released key) tr"

lemma released_in_order_append:
  assumes "released_in_order owner key jobName t" "list_all (\<lambda>e. \<not> is_gate_release e \<and> \<not> is_free e) evs"
  shows "released_in_order owner key jobName (t @ evs)"
  using assms unfolding released_in_order_def by (auto intro!: before_append simp: list_all_iff)

lemma released_quiet:
  assumes "emits (\<lambda>e. \<not> is_gate_release e \<and> \<not> is_free e) m"
  shows "runs (released_in_order owner key jobName) m (\<lambda>_. released_in_order owner key jobName)"
proof (rule runsI)
  fix w w' r assume *: "released_in_order owner key jobName (snd w)" "m w = (w', r)"
  from emitsD [OF assms *(2)] * show "released_in_order owner key jobName (snd w')" by (auto intro: released_in_order_append)
qed

lemma job_allows_release_trace:
  "runs (\<lambda>t. t = t0) (job_allows_release q owner jobName)
     (\<lambda>r t. r = Inr True \<longrightarrow> (\<exists>a mid. t = t0 @ LookJob jobName a # mid \<and> job_settled owner a))"
  unfolding job_allows_release_def
proof (rule runs_getOr [where A = "\<lambda>t. \<exists>e. t = t0 @ [LookJob jobName (Inl e)] \<and> err_is ENotFound e" and S = "\<lambda>j t. t = t0 @ [LookJob jobName (Inr j)]"])
  fix j
  have "job_settled owner (Inr j)" if "\<not> is_controlled_by j (o_uid owner) \<or> (o_deleting owner = None \<and> jobFinished j)"
    using that by (simp add: job_settled_def)
  then have kept: "runs (\<lambda>t. t = t0 @ [LookJob jobName (Inr j)]) (andThen (op_write q (UpdateJob k) (q_updateJob q k)) (\<lambda>_. ret True))
      (\<lambda>r t. r = Inr True \<longrightarrow> (\<exists>a mid. t = t0 @ LookJob jobName a # mid \<and> job_settled owner a))"
    if "o_deleting owner = None" "jobFinished j" for k
    using that
    by (intro runs_andThen [where S = "\<lambda>_ t. \<exists>a mid. t = t0 @ LookJob jobName a # mid \<and> job_settled owner a"] runs_call runs_ret)
       (auto split: sum.splits)
  have stop: "runs P (andThen (IgnoreNotFound (op_write q (StopJob j) (q_deleteJob q j))) (\<lambda>_. ret False)) (\<lambda>r t. r = Inr True \<longrightarrow> R t)" for P R
    by (rule runs_andThen [where S = "\<lambda>_ _. True"], rule runs_post [OF runs_true]) (auto intro: runs_ret split: sum.splits)
  show "runs (\<lambda>t. t = t0 @ [LookJob jobName (Inr j)])
     (if \<not> is_controlled_by j (o_uid owner) then ret True
      else if o_deleting owner \<noteq> None
      then (if o_deleting j = None then andThen (IgnoreNotFound (op_write q (StopJob j) (q_deleteJob q j))) (\<lambda>_. ret False) else ret False)
      else if \<not> jobFinished j then ret False
      else if jb_ttl j = None
      then let kept = j\<lparr>jb_ttl := Some execJobTTLSeconds\<rparr>
           in andThen (op_write q (UpdateJob kept) (q_updateJob q kept)) (\<lambda>_. ret True)
      else ret True)
     (\<lambda>r t. r = Inr True \<longrightarrow> (\<exists>a mid. t = t0 @ LookJob jobName a # mid \<and> job_settled owner a))"
    unfolding Let_def by (intro runs_branch stop kept runs_ret) (auto simp: job_settled_def)
qed (auto intro!: runs_call runs_ret simp: job_settled_def split: sum.splits)

lemma consumers_checked:
  assumes "released_in_order owner key jobName t0"
  shows "runs (\<lambda>t. t = t0)
     (if jobName = [] then ret True
      else andThen (job_allows_release q owner jobName) (\<lambda>ok. if ok then pods_allow_release q owner jobName else ret False))
     (\<lambda>r t. released_in_order owner key jobName t \<and> (r = Inr True \<longrightarrow> consumers_gone owner jobName t))"
proof (rule runs_branch, rule runs_ret, use assms in \<open>simp add: consumers_gone_def\<close>)
  have quiet: "runs (\<lambda>t. t = t0) (job_allows_release q owner jobName) (\<lambda>_. released_in_order owner key jobName)"
    by (rule runs_pre [OF released_quiet]) (auto intro!: emits_intros simp: assms is_gate_release_def is_free_def)
  have pods: "runs (\<lambda>t. released_in_order owner key jobName t \<and> (\<exists>a mid. t = t0 @ LookJob jobName a # mid \<and> job_settled owner a))
      (pods_allow_release q owner jobName) (\<lambda>r t. released_in_order owner key jobName t \<and> (r = Inr True \<longrightarrow> consumers_gone owner jobName t))"
    unfolding pods_allow_release_def
  proof (rule runs_andThen [where S = "\<lambda>pods t. released_in_order owner key jobName t \<and> (list_all pod_stopped pods \<longrightarrow> consumers_gone owner jobName t)"])
    have "released_in_order owner key jobName (t @ [JobPods jobName r])" if "released_in_order owner key jobName t" for t r
      using that by (rule released_in_order_append) (simp add: is_gate_release_def is_free_def)
    moreover have "consumers_gone owner jobName ((t0 @ LookJob jobName a # mid) @ [JobPods jobName (Inr pods)])"
      if "job_settled owner a" "list_all pod_stopped pods" for a mid pods
      unfolding consumers_gone_def using that by auto
    ultimately show "runs (\<lambda>t. released_in_order owner key jobName t \<and> (\<exists>a mid. t = t0 @ LookJob jobName a # mid \<and> job_settled owner a))
       (op_read q (JobPods jobName) (q_readJobPods q (o_namespace owner) jobName))
       (\<lambda>r t. case r of Inl e \<Rightarrow> released_in_order owner key jobName t \<and> (Inl e = Inr True \<longrightarrow> consumers_gone owner jobName t)
          | Inr pods \<Rightarrow> released_in_order owner key jobName t \<and> (list_all pod_stopped pods \<longrightarrow> consumers_gone owner jobName t))"
      by (intro runs_call) (auto split: sum.splits)
  qed (auto intro: runs_ret)
  show "runs (\<lambda>t. t = t0)
     (andThen (job_allows_release q owner jobName) (\<lambda>ok. if ok then pods_allow_release q owner jobName else ret False))
     (\<lambda>r t. released_in_order owner key jobName t \<and> (r = Inr True \<longrightarrow> consumers_gone owner jobName t))"
    by (rule runs_andThen [where S = "\<lambda>ok t. released_in_order owner key jobName t \<and>
          (ok \<longrightarrow> (\<exists>a mid. t = t0 @ LookJob jobName a # mid \<and> job_settled owner a))"],
        rule runs_pre [OF runs_post [OF runs_conj [OF quiet job_allows_release_trace]]])
       (auto intro!: runs_pre [OF pods] runs_ret split: sum.splits)
qed

lemma releaseRepositoryOperation_trace:
  assumes "released_in_order owner key jobName t0"
  shows "runs (\<lambda>t. t = t0) (releaseRepositoryOperation q owner n key jobName) (\<lambda>_. released_in_order owner key jobName)"
  unfolding releaseRepositoryOperation_def
proof (rule runs_andThen [where S = "\<lambda>stopped t. released_in_order owner key jobName t \<and> (stopped \<longrightarrow> consumers_gone owner jobName t)"])
  show "runs (\<lambda>t. t = t0) (if jobName = [] then ret True
      else andThen (job_allows_release q owner jobName) (\<lambda>ok. if ok then pods_allow_release q owner jobName else ret False))
     (\<lambda>r t. case r of Inl e \<Rightarrow> released_in_order owner key jobName t
        | Inr stopped \<Rightarrow> released_in_order owner key jobName t \<and> (stopped \<longrightarrow> consumers_gone owner jobName t))"
    by (rule runs_post [OF consumers_checked [OF assms]]) (auto split: sum.splits)
next
  fix stopped
  let ?R = "\<lambda>t. released_in_order owner key jobName t"
  have gate: "?R (t @ [ReleaseGate key r])" if "?R t" "consumers_gone owner jobName t" for t r
    using that unfolding released_in_order_def by (auto intro: before_snoc before_append simp: is_free_def)
  have free: "?R (t @ [FreeRequest x r])" if "?R t" "reservation_released key t" for t x r
    using that unfolding released_in_order_def by (auto intro: before_snoc before_append simp: is_gate_release_def)
  have freeing: "runs (\<lambda>t. ?R t \<and> reservation_released key t) (andThen (free_request q owner) (\<lambda>freed. ret (Some freed))) (\<lambda>_. ?R)"
    unfolding free_request_def
    by (rule runs_andThen [where S = "\<lambda>_. ?R"]) (auto intro!: runs_branch runs_call runs_ret free split: sum.splits)
  have "runs (\<lambda>t. ?R t \<and> consumers_gone owner jobName t) (andThen (release_reservation q (o_namespace owner) n key)
      (\<lambda>_. andThen (free_request q owner) (\<lambda>freed. ret (Some freed)))) (\<lambda>_. ?R)"
    unfolding release_reservation_def
    by (rule runs_andThen [OF _ freeing], rule runs_andThen [where S = "\<lambda>_ t. ?R t \<and> consumers_gone owner jobName t"], rule runs_clock, simp, rule runs_call)
       (auto intro!: gate simp: reservation_released_def split: sum.splits)
  then show "runs (\<lambda>t. ?R t \<and> (stopped \<longrightarrow> consumers_gone owner jobName t)) (if \<not> stopped then ret None
     else andThen (release_reservation q (o_namespace owner) n key) (\<lambda>_. andThen (free_request q owner) (\<lambda>freed. ret (Some freed)))) (\<lambda>_. ?R)"
    by (intro runs_branch runs_ret) (auto elim: runs_pre)
qed

section \<open>RepositoryExec and RepositorySync release in order\<close>

text \<open>The requests of the two kinds: the holder and the recorded Job of the request that was read last before the release.\<close>

definition finishing :: "('x kobj_scheme \<Rightarrow> string) \<Rightarrow> ('x kobj_scheme \<Rightarrow> conditions) \<Rightarrow> string \<Rightarrow> 'x kobj_scheme op_event list \<Rightarrow> bool" where
  "finishing jobName conds kind tr \<longleftrightarrow>
     (\<exists>owner first. ReadRequest (Inr owner) \<in> set tr \<and> ReadRequest (Inr first) \<in> set tr \<and>
        (o_deleting owner \<noteq> None \<or> terminal_condition (conds first) ConditionSucceeded) \<and>
        released_in_order owner (Key (HolderFor kind first repo_Write)) (jobName owner) tr)"

definition no_release :: "'o op_event list \<Rightarrow> bool" where
  "no_release tr \<longleftrightarrow> list_all (\<lambda>e. \<not> is_gate_release e \<and> \<not> is_free e) tr"

lemma no_release_in_order: "no_release t \<Longrightarrow> released_in_order owner key jobName t"
  unfolding no_release_def released_in_order_def by (auto intro!: before_none simp: list_all_iff)

lemma runs_no_release: "emits (\<lambda>e. \<not> is_gate_release e \<and> \<not> is_free e) m \<Longrightarrow> runs no_release m (\<lambda>_. no_release)"
  by (rule runsI) (use emitsD in \<open>fastforce simp: no_release_def\<close>)

abbreviation orderly :: "('x kobj_scheme \<Rightarrow> string) \<Rightarrow> ('x kobj_scheme \<Rightarrow> conditions) \<Rightarrow> string \<Rightarrow> 'x kobj_scheme op_event list \<Rightarrow> bool" where
  "orderly jobName conds kind tr \<equiv> no_release tr \<or> finishing jobName conds kind tr"

lemma finishing_trace:
  assumes "no_release t0" "ReadRequest (Inr owner) \<in> set t0" "ReadRequest (Inr first) \<in> set t0"
    "o_deleting owner \<noteq> None \<or> terminal_condition (conds first) ConditionSucceeded"
  shows "runs (\<lambda>t. t = t0) (releaseRepositoryOperation q owner n (Key (HolderFor kind first repo_Write)) (jobName owner))
     (\<lambda>_. finishing jobName conds kind)"
proof -
  let ?key = "Key (HolderFor kind first repo_Write)"
  have "emits (\<lambda>_. True) (releaseRepositoryOperation q owner n ?key (jobName owner))" by (intro emits_intros TrueI)
  from runs_lasting [OF this lasting_conj [OF lasting_mem lasting_mem]]
  have "runs (\<lambda>t. t = t0) (releaseRepositoryOperation q owner n ?key (jobName owner))
     (\<lambda>_ t. ReadRequest (Inr owner) \<in> set t \<and> ReadRequest (Inr first) \<in> set t)"
    by (rule runs_pre) (use assms in simp)
  from runs_conj [OF releaseRepositoryOperation_trace [OF no_release_in_order [OF assms(1)]] this]
  show ?thesis
    by (rule runs_pre [OF runs_post]) (use assms(4) in \<open>auto simp: finishing_def\<close>)
qed

lemma rx_quiet: "emits (\<lambda>e. \<not> is_gate_release e \<and> \<not> is_free e) (andThen (keep_request q exec) (rx_observe q h))"
proof -
  have quiet: "\<not> is_gate_release e \<and> \<not> is_free e"
    if "e \<in> {ReadRequest a, WriteRequest b c d, KeepRequest f g, LookJob i j, MakeJob k l, TargetRepository m, AcquireGate n p r}"
    for e :: "repository_exec op_event" and a b c d f g i j k l m n p r
    using that by (auto simp: is_gate_release_def is_free_def)
  have start: "emits (\<lambda>e. \<not> is_gate_release e \<and> \<not> is_free e) (rx_start q exec h)" for exec
    unfolding rx_start_def rx_admit_def rx_launch_def by (intro emits_intros quiet) simp_all
  show ?thesis
    unfolding rx_observe_def
    by (intro emits_andThen emits_keep_request emits_wrapped emits_observeOneShotJob quiet)
       (auto split: one_shot_state.splits intro!: emits_intros start quiet)
qed

lemma rx_decide_trace:
  assumes "no_release t0" "ReadRequest (Inr exec) \<in> set t0" "ReadRequest (Inr first) \<in> set t0"
  shows "runs (\<lambda>t. t = t0) (rx_decide q (rx_holder first) (terminal_condition (rx_conditions first) ConditionSucceeded) exec)
     (\<lambda>_. orderly rx_jobName rx_conditions KindRepositoryExec)"
  unfolding rx_decide_def
proof (rule runs_branch)
  assume "o_deleting exec \<noteq> None \<or> terminal_condition (rx_conditions first) ConditionSucceeded"
  note fin = finishing_trace [where jobName = rx_jobName and conds = rx_conditions and kind = KindRepositoryExec, OF assms this]
  show "runs (\<lambda>t. t = t0) (rx_finish q (rx_holder first) exec) (\<lambda>_. orderly rx_jobName rx_conditions KindRepositoryExec)"
    unfolding rx_finish_def rx_holder_def
    by (rule runs_andThen [where S = "\<lambda>_. finishing rx_jobName rx_conditions KindRepositoryExec"], rule runs_post [OF fin])
       (auto intro: runs_ret split: sum.splits)
qed (rule runs_pre [OF runs_post [OF runs_no_release [OF rx_quiet]]], use assms(1) in simp_all)

lemma rx_decide_later:
  "runs (\<lambda>t. no_release t \<and> ReadRequest (Inr exec) \<in> set t \<and> ReadRequest (Inr first) \<in> set t)
     (rx_decide q (rx_holder first) (terminal_condition (rx_conditions first) ConditionSucceeded) exec)
     (\<lambda>_. orderly rx_jobName rx_conditions KindRepositoryExec)"
  by (rule runs_each_start, rule rx_decide_trace) simp_all

lemma no_release_read: "no_release t \<Longrightarrow> no_release (t @ [ReadRequest r])"
  by (simp add: no_release_def is_gate_release_def is_free_def)

lemma repository_exec_orderly:
  "runs (\<lambda>t. t = []) (Reconcile_repositoryexec q namespace name) (\<lambda>_. orderly rx_jobName rx_conditions KindRepositoryExec)"
  unfolding Reconcile_repositoryexec_def Let_def
proof (rule runs_getOr [where A = no_release and S = "\<lambda>exec t. no_release t \<and> ReadRequest (Inr exec) \<in> set t"])
  fix exec :: repository_exec
  let ?I = "\<lambda>t. no_release t \<and> ReadRequest (Inr exec) \<in> set t"
  let ?decide = "rx_decide q (rx_holder exec) (terminal_condition (rx_conditions exec) ConditionSucceeded)"
  have "emits (\<lambda>e. \<not> is_gate_release e \<and> \<not> is_free e) (backfillCompletedAt q repositoryExecStatus namespace name)"
    by (rule emits_backfillCompletedAt) (simp_all add: is_gate_release_def is_free_def)
  from runs_conj [OF runs_no_release [OF this] runs_lasting [OF emits_any [OF this] lasting_mem]]
  have fill: "runs ?I (backfillCompletedAt q repositoryExecStatus namespace name) (\<lambda>_. ?I)" .
  have again: "runs ?I (getOr (op_read q ReadRequest (q_read q namespace name)) (ret None) ?decide) (\<lambda>_. orderly rx_jobName rx_conditions KindRepositoryExec)"
    by (rule runs_getOr [where A = no_release and S = "\<lambda>x t. no_release t \<and> ReadRequest (Inr x) \<in> set t \<and> ReadRequest (Inr exec) \<in> set t"])
       (auto intro!: runs_call runs_ret rx_decide_later no_release_read split: sum.splits)
  show "runs ?I
     (if terminal_condition (rx_conditions exec) ConditionSucceeded \<and> rx_completedAt exec = None
      then andThen (backfillCompletedAt q repositoryExecStatus namespace name)
             (\<lambda>_. getOr (op_read q ReadRequest (q_read q namespace name)) (ret None) ?decide)
      else ?decide exec) (\<lambda>_. orderly rx_jobName rx_conditions KindRepositoryExec)"
    by (rule runs_branch, rule runs_step [OF fill _ again], simp, rule runs_pre [OF rx_decide_later]) simp
qed (auto intro!: runs_call runs_ret simp: no_release_def is_gate_release_def is_free_def split: sum.splits)

lemma finishing_quiet:
  assumes "emits (\<lambda>e. \<not> is_gate_release e \<and> \<not> is_free e) m"
  shows "runs (finishing jobName conds kind) m (\<lambda>_. finishing jobName conds kind)"
proof (rule runsI)
  fix w w' r assume *: "finishing jobName conds kind (snd w)" "m w = (w', r)"
  from emitsD [OF assms *(2)] obtain evs where "snd w' = snd w @ evs" "list_all (\<lambda>e. \<not> is_gate_release e \<and> \<not> is_free e) evs" by blast
  with *(1) show "finishing jobName conds kind (snd w')"
    unfolding finishing_def by (metis Un_iff released_in_order_append set_append)
qed

lemma emits_setRepositoryStorageReady:
  assumes "\<And>r. P (TargetRepository r)"
    "\<And>now cur r. same_incarnation cur cap \<Longrightarrow>
       P (WriteRepository cur (storage_ready_status now cap status reason message claimName lastUpdated cur) r)"
  shows "emits P (setRepositoryStorageReady q cap status reason message claimName lastUpdated)"
  unfolding setRepositoryStorageReady_def Let_def by (intro emits_intros assms) simp_all

lemma emits_setRepositorySubmodulesReady:
  assumes "\<And>r. P (TargetRepository r)"
    "\<And>now cur r. same_incarnation cur cap \<Longrightarrow> P (WriteRepository cur (submodules_status now failures cur) r)"
  shows "emits P (setRepositorySubmodulesReady q cap failures)"
  unfolding setRepositorySubmodulesReady_def Let_def by (intro emits_intros assms) simp_all

lemma emits_sync_setParent:
  assumes "\<And>r. P (TargetRepository r)"
    "\<And>now cur claimName last r. o_uid repo = ry_repositoryUID req \<Longrightarrow> same_incarnation cur (captured_by req repo) \<Longrightarrow>
       P (WriteRepository cur (storage_ready_status now (captured_by req repo) status reason message claimName last cur) r)"
  shows "emits P (sync_setParent q req repo status reason message completed)"
  unfolding sync_setParent_def by (intro emits_intros emits_setRepositoryStorageReady assms) simp_all

lemma emits_sync_setResult:
  assumes "\<And>r. P (ReadRequest r)"
    "\<And>now cur r. \<not> terminal_condition (ry_conditions cur) ConditionSucceeded \<Longrightarrow>
       P (WriteRequest cur (sync_status now req status reason message completed cur) r)"
  shows "emits P (sync_setResult q req status reason message completed)"
  unfolding sync_setResult_def Let_def by (intro emits_intros assms)

lemma emits_readCheckoutResult [emits_intros]: "(\<And>n r. P (JobPods n r)) \<Longrightarrow> emits P (readCheckoutResult q j)"
  unfolding readCheckoutResult_def by (intro emits_intros)

lemma emits_repositoryCredential [emits_intros]: "(\<And>r. P (LookCredential r)) \<Longrightarrow> emits P (repositoryCredential q repo)"
  unfolding repositoryCredential_def by (intro emits_intros)

text \<open>The calls of a sync apart from the release, for a class \<open>P\<close> that contains all of them.\<close>

definition sync_calls :: "(repository_sync op_event \<Rightarrow> bool) \<Rightarrow> bool" where
  "sync_calls P \<longleftrightarrow> (\<forall>r. P (ReadRequest r)) \<and> (\<forall>x r. P (KeepRequest x r)) \<and> (\<forall>n r. P (LookJob n r)) \<and> (\<forall>n r. P (JobPods n r)) \<and>
     (\<forall>r. P (TargetRepository r)) \<and> (\<forall>rp h r. P (AcquireGate rp h r)) \<and> (\<forall>r. P (LookCredential r)) \<and> (\<forall>j r. P (MakeJob j r))"

lemma sync_callsD:
  assumes "sync_calls P"
  shows "P (ReadRequest a)" "P (KeepRequest x b)" "P (LookJob n c)" "P (JobPods n d)" "P (TargetRepository e)"
    "P (AcquireGate rp h f)" "P (LookCredential g)" "P (MakeJob j i)"
  using assms by (simp_all add: sync_calls_def)

lemma emits_sync_pending:
  assumes calls: "sync_calls P" and result: "\<And>req status reason message completed. emits P (sync_setResult q req status reason message completed)"
    and parent: "\<And>req repo status reason message completed. emits P (sync_setParent q req repo status reason message completed)"
    and submodules: "\<And>cap failures. emits P (setRepositorySubmodulesReady q cap failures)"
  shows "emits P (sync_pending q req)"
proof -
  note c = sync_callsD [OF calls]
  have "emits P (sync_complete q req repo j)" for repo j
    unfolding sync_complete_def sync_publish_def Let_def
    by (intro emits_intros c) (auto intro!: emits_intros result parent submodules split: prod.splits)
  moreover have "emits P (sync_start q req repo)" for repo
    unfolding sync_start_def sync_credential_def sync_launch_def Let_def by (intro emits_intros c result parent)
  ultimately show ?thesis
    unfolding sync_pending_def read_parent_def sync_observe_def
    by (intro emits_getOr emits_andThen emits_observeOneShotJob emits_call c)
       (auto intro!: emits_intros result parent split: one_shot_state.splits)
qed

lemma sync_pending_quiet: "emits (\<lambda>e. \<not> is_gate_release e \<and> \<not> is_free e) (andThen (keep_request q req) (sync_pending q))"
  by (intro emits_intros emits_sync_pending emits_sync_setResult emits_sync_setParent emits_setRepositorySubmodulesReady)
     (simp_all add: is_gate_release_def is_free_def sync_calls_def)

lemma sync_finish_trace:
  assumes "no_release t0" "ReadRequest (Inr req) \<in> set t0" "o_deleting req \<noteq> None \<or> sync_terminal req"
  shows "runs (\<lambda>t. t = t0) (sync_finish q req) (\<lambda>_. orderly ry_jobName ry_conditions KindRepositorySync)"
  unfolding sync_finish_def
proof (rule runs_andThen [where S = "\<lambda>_ t. no_release t \<and> ReadRequest (Inr req) \<in> set t"])
  let ?F = "finishing ry_jobName ry_conditions KindRepositorySync"
  have "emits (\<lambda>e. \<not> is_gate_release e \<and> \<not> is_free e) (sync_interrupted q req)"
    unfolding sync_interrupted_def read_parent_def
    by (intro emits_intros emits_sync_setParent) (simp_all add: is_gate_release_def is_free_def)
  from runs_conj [OF runs_no_release [OF this] runs_lasting [OF emits_any [OF this] lasting_mem]]
  show "runs (\<lambda>t. t = t0) (sync_interrupted q req) (\<lambda>r t. case r of Inl e \<Rightarrow> orderly ry_jobName ry_conditions KindRepositorySync t
      | Inr _ \<Rightarrow> no_release t \<and> ReadRequest (Inr req) \<in> set t)"
    by (rule runs_pre [OF runs_post]) (use assms in \<open>auto split: sum.splits\<close>)
  fix u :: unit
  have expire: "runs ?F (sync_expire q cur c) (\<lambda>_. orderly ry_jobName ry_conditions KindRepositorySync)" for cur c
    by (rule runs_post [OF finishing_quiet])
       (auto simp: sync_expire_def Let_def is_gate_release_def is_free_def intro!: emits_intros)
  show "runs (\<lambda>t. no_release t \<and> ReadRequest (Inr req) \<in> set t)
     (andThen (releaseRepositoryOperation q req (ry_repository req) (Key (sync_holder req)) (ry_jobName req)) (\<lambda>freed. case freed of
        None \<Rightarrow> ret (Some operationRequeue)
      | Some current \<Rightarrow> if o_deleting req \<noteq> None then ret None
          else (case ry_conditions req ConditionSucceeded of None \<Rightarrow> ret None | Some terminal \<Rightarrow> sync_expire q current terminal)))
     (\<lambda>_. orderly ry_jobName ry_conditions KindRepositorySync)"
    unfolding sync_holder_def
  proof (rule runs_each_start, rule runs_andThen [where S = "\<lambda>_. ?F"])
    fix t1 assume t1: "no_release t1 \<and> ReadRequest (Inr req) \<in> set t1"
    have "runs (\<lambda>t. t = t1) (releaseRepositoryOperation q req (ry_repository req) (Key (HolderFor KindRepositorySync req repo_Write)) (ry_jobName req))
       (\<lambda>_. ?F)"
      using t1 assms(3) by (intro finishing_trace) (auto simp: sync_terminal_def)
    then show "runs (\<lambda>t. t = t1) (releaseRepositoryOperation q req (ry_repository req) (Key (HolderFor KindRepositorySync req repo_Write)) (ry_jobName req))
       (\<lambda>r t. case r of Inl e \<Rightarrow> orderly ry_jobName ry_conditions KindRepositorySync t | Inr _ \<Rightarrow> ?F t)"
      by (rule runs_post) (auto split: sum.splits)
  qed (auto intro!: runs_ret expire split: option.splits)
qed

text \<open>C10: 
  A RepositoryExec or RepositorySync gives up the Repository's parent volume in order. In every reconcile, the reservation is
  released only for a request that was read as deleting or with its terminal result, after its Job was found gone, foreign or
  (while the request is not deleted) finished and all Pods of that Job had stopped; and the finalizer that keeps the request is
  removed only after the reservation of this very request was released.
\<close>

theorem operations_release_in_order:
  "orderly rx_jobName rx_conditions KindRepositoryExec (snd (fst (Reconcile_repositoryexec q namespace name (api, [])))) \<and>
   orderly ry_jobName ry_conditions KindRepositorySync (snd (fst (Reconcile_repositorysync s namespace name (api, []))))"
proof (rule conjI [OF runs_from_start [OF repository_exec_orderly] runs_from_start])
  show "runs (\<lambda>t. t = []) (Reconcile_repositorysync s namespace name) (\<lambda>_. orderly ry_jobName ry_conditions KindRepositorySync)"
    unfolding Reconcile_repositorysync_def
  proof (rule runs_getOr [where A = no_release and S = "\<lambda>req t. no_release t \<and> ReadRequest (Inr req) \<in> set t"])
    show "runs (\<lambda>t. no_release t \<and> ReadRequest (Inr req) \<in> set t)
       (if o_deleting req \<noteq> None \<or> sync_terminal req then sync_finish s req else andThen (keep_request s req) (sync_pending s))
       (\<lambda>_. orderly ry_jobName ry_conditions KindRepositorySync)" for req
      by (rule runs_branch, rule runs_each_start, rule sync_finish_trace, simp_all, rule runs_pre [OF runs_post [OF runs_no_release [OF sync_pending_quiet]]]) simp_all
  qed (auto intro!: runs_call runs_ret simp: no_release_def is_gate_release_def is_free_def split: sum.splits)
qed

end
