(* ===== verification/RepositoryExecSafety.thy ===== *)
theory RepositoryExecSafety
  imports RepositoryOperationSafety
begin

text \<open>What a RepositoryExec reconcile guarantees about its Job and its recorded result.\<close>

section \<open>Results\<close>

lemma rx_keeps_result:
  "emits (keeps_result repositoryExecStatus) (rx_setSucceeded q exec status reason message jobName)"
  "emits (keeps_result repositoryExecStatus) (rx_reflectJobStatus q exec j)"
  unfolding rx_setSucceeded_def rx_reflectJobStatus_def
  by (intro emits_intros repository_exec_result.set_status_keeps_result repository_exec_result.setAt_keeps_result)+

lemma keeps_result_calls [simp]:
  "keeps_result a (ReadRequest r)" "keeps_result a (KeepRequest x s)" "keeps_result a (LookJob n t)" "keeps_result a (MakeJob j u)"
  "keeps_result a (TargetRepository v)" "keeps_result a (AcquireGate rp h b)" "keeps_result a (StopJob j c)" "keeps_result a (UpdateJob j d)"
  "keeps_result a (JobPods m e)" "keeps_result a (ReleaseGate k f)" "keeps_result a (FreeRequest x g)"
  by (simp_all add: keeps_result_def)

text \<open>
  Every status write of a RepositoryExec reconcile keeps a recorded result: on the copy it was computed from, a terminal Succeeded
  condition, its Job name and a completion time that is there are never changed, and a terminal condition is recorded together with a
  completion time.
\<close>

theorem repository_exec_result_recorded_once:
  "list_all (keeps_result repositoryExecStatus) (snd (fst (Reconcile_repositoryexec q namespace name (api, []))))"
proof (rule emits_from_start)
  have start: "emits (keeps_result repositoryExecStatus) (rx_start q exec h)" for exec h
    unfolding rx_start_def rx_admit_def rx_launch_def
    by (intro emits_intros rx_keeps_result) (simp_all add: keeps_result_def)
  have "emits (keeps_result repositoryExecStatus) (rx_observe q h exec)" for h exec
    unfolding rx_observe_def
    by (intro emits_andThen emits_wrapped emits_observeOneShotJob)
       (auto split: one_shot_state.splits intro!: emits_intros start rx_keeps_result)
  then have "emits (keeps_result repositoryExecStatus) (rx_decide q h terminal exec)" for h terminal exec
    unfolding rx_decide_def rx_finish_def by (intro emits_intros) simp_all
  then show "emits (keeps_result repositoryExecStatus) (Reconcile_repositoryexec q namespace name)"
    unfolding Reconcile_repositoryexec_def Let_def
    by (intro emits_intros repository_exec_result.backfill_keeps_result) simp_all
qed

section \<open>Creation of the Job\<close>

text \<open>
  The evidence for the creation of a RepositoryExec's Job: the request that was read was neither deleting nor finished; the request kept
  by the finalizer had no recorded Job and no Job of its name was found; the Repository was ready and not failed; the gate admitted
  this request as its writer; the Job's name is on record.
\<close>

definition rx_ready :: "repository \<Rightarrow> bool" where
  "rx_ready repo \<longleftrightarrow> Failure repo = None \<and> rs_claim (rp_status repo) \<noteq> [] \<and>
     ReadyAtGeneration (rs_conditions (rp_status repo)) ConditionStorageReady (o_generation repo) (rs_observed (rp_status repo))"

definition rx_open :: "repository_exec \<Rightarrow> repository_exec op_event list \<Rightarrow> bool" where
  "rx_open first pre \<longleftrightarrow> ReadRequest (Inr first) \<in> set pre \<and> o_deleting first = None \<and> \<not> terminal_condition (rx_conditions first) ConditionSucceeded"

definition rx_kept :: "repository_exec \<Rightarrow> repository_exec op_event list \<Rightarrow> bool" where
  "rx_kept exec pre \<longleftrightarrow> (ReadRequest (Inr exec) \<in> set pre \<and> contains_finalizer exec repositoryOperationFinalizer) \<or> (\<exists>x. KeepRequest x (Inr exec) \<in> set pre)"

definition rx_job :: "string \<Rightarrow> repository_exec \<Rightarrow> repository \<Rightarrow> job" where
  "rx_job img exec repo =
     (repositoryExecJob exec repo img)\<lparr>o_controller :=
        Some \<lparr>or_apiVersion = repositoriesGroupVersion, or_kind = ''RepositoryExec'', or_name = o_name exec, or_uid = o_uid exec\<rparr>\<rparr>"

definition rx_evidence :: "string \<Rightarrow> job \<Rightarrow> repository_exec op_event list \<Rightarrow> bool" where
  "rx_evidence img j tr \<longleftrightarrow>
     (\<exists>first exec repo e pre rest.
        tr = pre @ [LookJob (o_name exec) (Inl e), TargetRepository (Inr repo), AcquireGate repo (rx_holder first) (Inr Admitted)] @ rest \<and>
        rx_open first pre \<and> rx_kept exec pre \<and> list_all no_creation pre \<and> err_is ENotFound e \<and> rx_jobName exec = [] \<and> rx_ready repo \<and>
        on_record repositoryExecStatus (o_name exec) rest \<and> list_all no_creation rest \<and> j = rx_job img exec repo)"

abbreviation rx_ok :: "('api, repository_exec) oclient \<Rightarrow> job \<Rightarrow> repository_exec op_event list \<Rightarrow> bool" where
  "rx_ok q j \<equiv> before (is_creation j) (rx_evidence (k_image (q_k q)) j)"

lemma no_creation_simps [simp]:
  "no_creation (ReadRequest r)" "no_creation (WriteRequest x y z)" "no_creation (KeepRequest x s)" "no_creation (LookJob n t)"
  "no_creation (TargetRepository v)" "no_creation (AcquireGate rp h b)" "no_creation (StopJob j c)" "no_creation (UpdateJob j d)"
  "no_creation (JobPods m e)" "no_creation (ReleaseGate k f)" "no_creation (FreeRequest x g)" "no_creation (WriteRepository u1 u2 u3)"
  "no_creation (LookCredential u4)" "no_creation (DeleteRequest u5 u6)"
  by (simp_all add: no_creation_def)

lemma rx_ok_quiet: "emits no_creation m \<Longrightarrow> runs (rx_ok q j) m (\<lambda>_. rx_ok q j)"
  by (erule runs_quiet) (auto simp: is_creation_def no_creation_def split: op_event.splits)

lemma runs_keeping:
  "emits P m \<Longrightarrow> runs (\<lambda>t. list_all P t \<and> e \<in> set t) m (\<lambda>_ t. list_all P t \<and> e \<in> set t)"
  by (rule runsI) (auto dest!: emitsD)

lemma rx_ok_none: "list_all no_creation t \<Longrightarrow> rx_ok q j t"
  by (rule before_none) (auto simp: is_creation_def no_creation_def list_all_iff split: op_event.splits)

lemma rx_set_record:
  "runs (\<lambda>t. t = t0) (rx_setSucceeded q exec status reason message jobName)
     (\<lambda>r. since t0 (\<lambda>evs. list_all no_creation evs \<and> (r \<noteq> Inr () \<or> on_record repositoryExecStatus jobName evs)))"
proof -
  have ord: "runs (\<lambda>t. t = t0) (rx_setSucceeded q exec status reason message jobName) (\<lambda>_. since t0 (list_all no_creation))"
    by (rule runs_since) (intro emits_intros; simp)
  have "runs (\<lambda>t. t = t0) (rx_setSucceeded q exec status reason message jobName)
     (\<lambda>r. since t0 (\<lambda>evs. r \<noteq> Inr () \<or> on_record repositoryExecStatus jobName evs))"
    unfolding rx_setSucceeded_def set_status_def
    by (rule runs_pre [OF runs_post [OF repository_exec_result.setAt_on_record]]) (auto simp: since_def split: sum.splits)
  from runs_conj [OF ord this] show ?thesis
    by (rule runs_pre [OF runs_post]) (auto intro: since_conj)
qed

definition rx_admitted :: "repository_exec \<Rightarrow> repository_exec \<Rightarrow> repository \<Rightarrow> repository_exec op_event list \<Rightarrow> bool" where
  "rx_admitted first exec repo t \<longleftrightarrow>
     (\<exists>pre e. t = pre @ [LookJob (o_name exec) (Inl e), TargetRepository (Inr repo), AcquireGate repo (rx_holder first) (Inr Admitted)] \<and>
        rx_open first pre \<and> rx_kept exec pre \<and> list_all no_creation pre \<and> err_is ENotFound e \<and> rx_jobName exec = [] \<and> rx_ready repo)"

lemma rx_evidenceI:
  assumes "rx_admitted first exec repo t0" "on_record repositoryExecStatus (o_name exec) evs" "list_all no_creation evs"
  shows "rx_evidence img (rx_job img exec repo) (t0 @ evs)"
  using assms unfolding rx_admitted_def rx_evidence_def by fastforce

lemma rx_launch_trace:
  assumes adm: "rx_admitted first exec repo t0"
  shows "runs (\<lambda>t. t = t0) (rx_launch q exec repo) (\<lambda>_. rx_ok q j)"
proof -
  let ?c = "rx_job (k_image (q_k q)) exec repo"
  let ?E = "since t0 (\<lambda>evs. list_all no_creation evs \<and> on_record repositoryExecStatus (o_name exec) evs)"
  have ref: "SetControllerReference repositoriesGroupVersion ''RepositoryExec'' exec (repositoryExecJob exec repo (k_image (q_k q))) = Inr ?c"
    by (simp add: SetControllerReference_def rx_job_def repositoryExecJob_def blank_object_def kobj.defs)
  have name: "o_name ?c = o_name exec"
    by (simp add: rx_job_def repositoryExecJob_def blank_object_def kobj.defs)
  have none: "rx_ok q j t" if "since t0 (list_all no_creation) t" for t
    using that adm by (intro rx_ok_none) (auto simp: since_def rx_admitted_def)
  have made: "rx_ok q j (t @ [MakeJob ?c r])" if "?E t" for t r
  proof (cases "j = ?c")
    case True
    with that adm have "rx_evidence (k_image (q_k q)) j t" by (auto simp: since_def intro: rx_evidenceI)
    with that none show ?thesis by (intro before_snoc) (auto simp: since_def)
  next
    case False
    with that none show ?thesis by (intro before_append) (auto simp: since_def is_creation_def)
  qed
  have quiet: "runs (rx_ok q j) (andThen (rx_setSucceeded q exec CUnknown ''JobCreated'' ''Command Job was created'' n) (\<lambda>_. ret None)) (\<lambda>_. rx_ok q j)" for n
    by (rule rx_ok_quiet) (intro emits_intros; simp)
  show ?thesis
    unfolding rx_launch_def ref
  proof (rule runs_andThen [where S = "\<lambda>c t. c = ?c \<and> t = t0"], (auto intro!: runs_wrapped runs_of_result)[1])
    fix c
    show "runs (\<lambda>t. c = ?c \<and> t = t0)
       (andThen (rx_setSucceeded q exec CUnknown ''JobScheduled'' ''Command Job is scheduled for creation'' (o_name c)) (\<lambda>_.
        andThen (wrapped ''create Repository Exec Job'' (op_write q (MakeJob c) (k_createJob (q_k q) c))) (\<lambda>_.
        andThen (rx_setSucceeded q exec CUnknown ''JobCreated'' ''Command Job was created'' (o_name c)) (\<lambda>_. ret None)))) (\<lambda>_. rx_ok q j)"
    proof (rule runs_each_start, elim conjE, hypsubst, rule runs_andThen [where S = "\<lambda>_. ?E"])
      show "runs (\<lambda>t. t = t0) (rx_setSucceeded q exec CUnknown ''JobScheduled'' ''Command Job is scheduled for creation'' (o_name ?c))
         (\<lambda>r t. case r of Inl e \<Rightarrow> rx_ok q j t | Inr _ \<Rightarrow> ?E t)"
        unfolding name by (rule runs_post [OF rx_set_record]) (auto simp: since_def intro!: none split: sum.splits)
      show "runs ?E (andThen (wrapped ''create Repository Exec Job'' (op_write q (MakeJob ?c) (k_createJob (q_k q) ?c))) (\<lambda>_.
        andThen (rx_setSucceeded q exec CUnknown ''JobCreated'' ''Command Job was created'' (o_name ?c)) (\<lambda>_. ret None))) (\<lambda>_. rx_ok q j)"
        by (rule runs_andThen [OF _ quiet], intro runs_wrapped runs_call) (auto intro!: made split: sum.splits)
    qed
  qed
qed

lemma rx_report_quiet:
  "runs (rx_ok q j) (andThen (rx_setSucceeded q exec status reason message n) (\<lambda>_. ret x)) (\<lambda>_. rx_ok q j)"
  by (rule rx_ok_quiet) (intro emits_intros; simp)

definition rx_unstarted :: "repository_exec \<Rightarrow> repository_exec \<Rightarrow> repository_exec op_event list \<Rightarrow> bool" where
  "rx_unstarted first exec t \<longleftrightarrow>
     (\<exists>pre e. t = pre @ [LookJob (o_name exec) (Inl e)] \<and> rx_open first pre \<and> rx_kept exec pre \<and> list_all no_creation pre \<and>
        err_is ENotFound e \<and> rx_jobName exec = [])"

lemma rx_admit_trace:
  assumes start: "rx_unstarted first exec t0"
  shows "runs (\<lambda>t. t = t0 @ [TargetRepository (Inr repo)]) (rx_admit q exec (rx_holder first) repo) (\<lambda>_. rx_ok q j)"
proof -
  let ?t1 = "t0 @ [TargetRepository (Inr repo)]"
  have ok: "rx_ok q j ?t1" using start by (intro rx_ok_none) (auto simp: rx_unstarted_def)
  have report: "runs (\<lambda>t. t = ?t1) (andThen (rx_setSucceeded q exec status reason message n) (\<lambda>_. ret x)) (\<lambda>_. rx_ok q j)"
    for status reason message n x
    by (rule runs_pre [OF rx_report_quiet]) (use ok in simp)
  have gate: "runs (\<lambda>t. t = ?t1) (andThen (acquire_gate q repo (rx_holder first) True) (\<lambda>admission.
        if admission \<noteq> Admitted
        then andThen (rx_setSucceeded q exec CUnknown ''WaitingForRepository'' ''Repository is in use'' []) (\<lambda>_. ret (Some operationRequeue))
        else rx_launch q exec repo)) (\<lambda>_. rx_ok q j)" if ready: "rx_ready repo"
    unfolding acquire_gate_def
  proof (rule runs_andThen [where S = "\<lambda>a t. t = ?t1 @ [AcquireGate repo (rx_holder first) (Inr a)]"],
      rule runs_andThen [where S = "\<lambda>_ t. t = ?t1"], rule runs_clock, simp, rule runs_call)
    fix t r assume "t = ?t1"
    then have "rx_ok q j (t @ [AcquireGate repo (rx_holder first) r])"
      using ok by (auto intro!: before_append [of _ _ ?t1, simplified] simp: is_creation_def)
    then show "case r of Inl e \<Rightarrow> rx_ok q j (t @ [AcquireGate repo (rx_holder first) r])
       | Inr a \<Rightarrow> t @ [AcquireGate repo (rx_holder first) r] = ?t1 @ [AcquireGate repo (rx_holder first) (Inr a)]"
      using \<open>t = ?t1\<close> by (auto split: sum.splits)
  next
    fix a
    have "rx_ok q j (?t1 @ [AcquireGate repo (rx_holder first) (Inr a)])"
      using start by (intro rx_ok_none) (auto simp: rx_unstarted_def)
    moreover have "rx_admitted first exec repo (?t1 @ [AcquireGate repo (rx_holder first) (Inr Admitted)])"
      using start ready by (auto simp: rx_unstarted_def rx_admitted_def)
    ultimately show "runs (\<lambda>t. t = ?t1 @ [AcquireGate repo (rx_holder first) (Inr a)])
       (if a \<noteq> Admitted
        then andThen (rx_setSucceeded q exec CUnknown ''WaitingForRepository'' ''Repository is in use'' []) (\<lambda>_. ret (Some operationRequeue))
        else rx_launch q exec repo) (\<lambda>_. rx_ok q j)"
      by (intro runs_branch runs_pre [OF rx_report_quiet]) (auto intro: rx_launch_trace)
  qed
  show ?thesis
    unfolding rx_admit_def
    by (auto intro!: report gate simp: rx_ready_def split: option.splits)
qed

lemma rx_start_trace:
  assumes start: "rx_unstarted first exec t0"
  shows "runs (\<lambda>t. t = t0) (rx_start q exec (rx_holder first)) (\<lambda>_. rx_ok q j)"
  unfolding rx_start_def
proof (rule runs_andThen [where S = "\<lambda>found t. t = t0 @ [TargetRepository found]"], rule runs_attempt, rule runs_call, simp)
  fix found
  have ok: "rx_ok q j (t0 @ [TargetRepository found])" using start by (intro rx_ok_none) (auto simp: rx_unstarted_def)
  show "runs (\<lambda>t. t = t0 @ [TargetRepository found])
     (case found of
        Inl e \<Rightarrow> if err_is ENotFound e
          then andThen (rx_setSucceeded q exec CFalse ''RepositoryNotFound'' ''Referenced Repository does not exist'' []) (\<lambda>_. ret None)
          else raise (EWrap ''get Repository'' e)
      | Inr repository \<Rightarrow> rx_admit q exec (rx_holder first) repository) (\<lambda>_. rx_ok q j)"
    by (cases found) (use ok in \<open>auto intro!: runs_pre [OF rx_report_quiet] runs_raise rx_admit_trace [OF start]\<close>)
qed

lemma rx_observe_trace:
  assumes pre: "rx_open first t0" "rx_kept exec t0" "list_all no_creation t0"
  shows "runs (\<lambda>t. t = t0) (rx_observe q (rx_holder first) exec) (\<lambda>_. rx_ok q j)"
  unfolding rx_observe_def
proof (rule runs_andThen [where S = "\<lambda>state t. rx_ok q j t \<and> (state = JobAbsent \<longrightarrow> rx_unstarted first exec t)"])
  have ok: "rx_ok q j (t0 @ [LookJob n r])" for n r using pre(3) by (intro rx_ok_none) simp
  have "rx_unstarted first exec (t0 @ [LookJob (o_name exec) (Inl e)])" if "err_is ENotFound e" "rx_jobName exec = []" for e
    using that pre by (auto simp: rx_unstarted_def)
  with ok show "runs (\<lambda>t. t = t0) (wrapped ''observe Repository Exec Job'' (observeOneShotJob q (q_readJob q) exec (rx_jobName exec)))
     (\<lambda>r t. case r of Inl e \<Rightarrow> rx_ok q j t | Inr state \<Rightarrow> rx_ok q j t \<and> (state = JobAbsent \<longrightarrow> rx_unstarted first exec t))"
    unfolding observeOneShotJob_def Let_def
    by (intro runs_wrapped runs_andThen [where S = "\<lambda>found t. t = t0 @ [LookJob (if rx_jobName exec = [] then o_name exec else rx_jobName exec) found]"]
          runs_attempt runs_call) (auto intro!: runs_ret runs_raise split: sum.splits)
next
  fix state
  have absent: "runs (\<lambda>t. rx_ok q j t \<and> rx_unstarted first exec t) (rx_start q exec (rx_holder first)) (\<lambda>_. rx_ok q j)"
    by (rule runs_each_start, rule rx_start_trace) simp
  have reflect: "runs (rx_ok q j) (andThen (rx_reflectJobStatus q exec i) (\<lambda>_. ret None)) (\<lambda>_. rx_ok q j)" for i
    by (rule rx_ok_quiet) (intro emits_intros; simp)
  show "runs (\<lambda>t. rx_ok q j t \<and> (state = JobAbsent \<longrightarrow> rx_unstarted first exec t))
     (case state of
        JobPresent j \<Rightarrow> andThen (rx_reflectJobStatus q exec j) (\<lambda>_. ret None)
      | JobLost \<Rightarrow> andThen (rx_setSucceeded q exec CFalse ''JobLost'' ''Command Job disappeared before its terminal result was recorded''
                     (rx_jobName exec)) (\<lambda>_. ret None)
      | JobConflict _ \<Rightarrow> andThen (rx_setSucceeded q exec CFalse ''JobConflict'' ''A Job with the requested name already exists'' []) (\<lambda>_. ret None)
      | JobAbsent \<Rightarrow> rx_start q exec (rx_holder first)) (\<lambda>_. rx_ok q j)"
    by (cases state) (auto intro!: absent runs_pre [OF reflect] runs_pre [OF rx_report_quiet])
qed

lemma rx_decide_created:
  assumes "list_all no_creation t0" "ReadRequest (Inr exec) \<in> set t0" "ReadRequest (Inr first) \<in> set t0" "first = exec \<or> terminal_condition (rx_conditions first) ConditionSucceeded"
  shows "runs (\<lambda>t. t = t0) (rx_decide q (rx_holder first) (terminal_condition (rx_conditions first) ConditionSucceeded) exec) (\<lambda>_. rx_ok q j)"
  unfolding rx_decide_def
proof (rule runs_branch)
  have ok: "rx_ok q j t0" by (rule rx_ok_none [OF assms(1)])
  have "emits no_creation (rx_finish q (rx_holder first) exec)" unfolding rx_finish_def by (intro emits_intros; simp)
  from rx_ok_quiet [OF this] show "runs (\<lambda>t. t = t0) (rx_finish q (rx_holder first) exec) (\<lambda>_. rx_ok q j)"
    by (rule runs_pre) (use ok in simp)
next
  assume live: "\<not> (o_deleting exec \<noteq> None \<or> terminal_condition (rx_conditions first) ConditionSucceeded)"
  let ?S = "\<lambda>x t. rx_open first t \<and> rx_kept x t \<and> list_all no_creation t"
  have opened: "rx_open first t0" using assms live by (auto simp: rx_open_def)
  have keep: "runs (\<lambda>t. t = t0) (keep_request q exec) (\<lambda>r t. case r of Inl e \<Rightarrow> rx_ok q j t | Inr x \<Rightarrow> ?S x t)"
    unfolding keep_request_def Let_def
    using assms opened
    by (intro runs_branch runs_ret runs_call)
       (auto simp: rx_kept_def rx_open_def split: sum.splits intro!: rx_ok_none)
  show "runs (\<lambda>t. t = t0) (andThen (keep_request q exec) (rx_observe q (rx_holder first))) (\<lambda>_. rx_ok q j)"
    by (rule runs_andThen [OF keep], rule runs_each_start, rule rx_observe_trace) simp_all
qed

text \<open>
  A RepositoryExec Job is created at most once in a reconcile and only with complete evidence. Whatever the API server answers,
  before the creation the run read the request neither deleting nor finished, kept it with its finalizer, found neither a recorded
  Job nor a Job of its name, read a Repository that is ready and not failed, was admitted by its gate as the writer, and put the Job's
  name on record. The Job runs exactly the requested argv on the Repository's volume.
\<close>

theorem repository_exec_job_created_with_evidence:
  "before (is_creation j) (rx_evidence (k_image (q_k q)) j) (snd (fst (Reconcile_repositoryexec q namespace name (api, []))))"
proof -
  have "runs (\<lambda>t. t = []) (Reconcile_repositoryexec q namespace name) (\<lambda>_. rx_ok q j)"
    unfolding Reconcile_repositoryexec_def Let_def
  proof (rule runs_getOr [where A = "list_all no_creation" and S = "\<lambda>exec t. list_all no_creation t \<and> ReadRequest (Inr exec) \<in> set t"])
    fix exec :: repository_exec
    let ?I = "\<lambda>t. list_all no_creation t \<and> ReadRequest (Inr exec) \<in> set t"
    let ?decide = "rx_decide q (rx_holder exec) (terminal_condition (rx_conditions exec) ConditionSucceeded)"
    have fill: "runs ?I (backfillCompletedAt q repositoryExecStatus namespace name) (\<lambda>_. ?I)"
      by (rule runs_keeping) (intro emits_backfillCompletedAt; simp)
    have later: "runs (\<lambda>t. list_all no_creation t \<and> ReadRequest (Inr x) \<in> set t \<and> ReadRequest (Inr exec) \<in> set t) (?decide x) (\<lambda>_. rx_ok q j)"
      if "exec = x \<or> terminal_condition (rx_conditions exec) ConditionSucceeded" for x
      using that by - (rule runs_each_start, rule rx_decide_created, simp_all)
    show "runs ?I
       (if terminal_condition (rx_conditions exec) ConditionSucceeded \<and> rx_completedAt exec = None
        then andThen (backfillCompletedAt q repositoryExecStatus namespace name)
               (\<lambda>_. getOr (op_read q ReadRequest (q_read q namespace name)) (ret None) ?decide)
        else ?decide exec) (\<lambda>_. rx_ok q j)"
    proof (rule runs_branch, rule runs_step [OF fill])
      assume "terminal_condition (rx_conditions exec) ConditionSucceeded \<and> rx_completedAt exec = None"
      then show "runs ?I (getOr (op_read q ReadRequest (q_read q namespace name)) (ret None) ?decide) (\<lambda>_. rx_ok q j)" for u :: unit
        by (intro runs_getOr [where A = "list_all no_creation" and S = "\<lambda>x t. list_all no_creation t \<and> ReadRequest (Inr x) \<in> set t \<and> ReadRequest (Inr exec) \<in> set t"] later)
           (auto intro!: runs_call runs_ret rx_ok_none split: sum.splits)
    qed (auto intro!: rx_ok_none runs_pre [OF later])
  qed (auto intro!: runs_call runs_ret rx_ok_none split: sum.splits)
  from runs_from_start [OF this] show ?thesis .
qed

end
