(* ===== verification/RepositorySyncSafety.thy ===== *)
theory RepositorySyncSafety
  imports RepositoryExecSafety
begin

text \<open>What a RepositorySync reconcile guarantees about the Repository it writes, the result it records and its expiry.\<close>

section \<open>Late results\<close>

text \<open>
  The evidence for a write of Repository \<open>cur\<close>: it is the incarnation and generation that the request recorded when its Job was
  scheduled, or the one for which this reconcile was admitted.
\<close>

definition known :: "repository_sync \<Rightarrow> repository_sync op_event list \<Rightarrow> bool" where
  "known req tr \<longleftrightarrow> ReadRequest (Inr req) \<in> set tr \<or> (\<exists>x. KeepRequest x (Inr req) \<in> set tr)"

definition captured_evidence :: "repository \<Rightarrow> repository_sync op_event list \<Rightarrow> bool" where
  "captured_evidence cur tr \<longleftrightarrow>
     (\<exists>req. known req tr \<and> o_uid cur = ry_repositoryUID req \<and> o_generation cur = ry_repositoryGeneration req) \<or>
     (\<exists>repo h. AcquireGate repo h (Inr Admitted) \<in> set tr \<and> same_incarnation cur repo)"

definition is_parent_write :: "repository \<Rightarrow> repository_sync op_event \<Rightarrow> bool" where
  "is_parent_write cur e = (case e of WriteRepository c _ _ \<Rightarrow> c = cur | _ \<Rightarrow> False)"

definition writes_captured :: "repository_sync \<Rightarrow> repository_sync op_event \<Rightarrow> bool" where
  "writes_captured req e =
     (case e of WriteRepository cur _ _ \<Rightarrow> o_uid cur = ry_repositoryUID req \<and> o_generation cur = ry_repositoryGeneration req | _ \<Rightarrow> True)"

lemma writes_captured_simps [simp]:
  "writes_captured req (ReadRequest a)" "writes_captured req (WriteRequest b c d)" "writes_captured req (KeepRequest f g)"
  "writes_captured req (LookJob h i)" "writes_captured req (JobPods j k)" "writes_captured req (TargetRepository l)"
  "writes_captured req (AcquireGate m n p)" "writes_captured req (LookCredential q)" "writes_captured req (MakeJob r s)"
  "writes_captured req (StopJob t u)" "writes_captured req (UpdateJob v w)" "writes_captured req (ReleaseGate x y)"
  "writes_captured req (FreeRequest z aa)" "writes_captured req (DeleteRequest ab ac)"
  by (simp_all add: writes_captured_def)

lemma same_captured: "same_incarnation cur (captured_by req repo) \<longleftrightarrow> o_uid cur = o_uid repo \<and> o_generation cur = ry_repositoryGeneration req"
  by (simp add: same_incarnation_def captured_by_def)

lemma sync_setParent_captured: "emits (writes_captured req) (sync_setParent q req repo status reason message completed)"
  by (rule emits_sync_setParent) (simp_all add: writes_captured_def same_captured)

lemma sync_setResult_captured: "emits (writes_captured req) (sync_setResult q x status reason message completed)"
  by (rule emits_sync_setResult) simp_all

lemma sync_publish_captured: "emits (writes_captured req) (sync_publish q req repo status reason message result found completed)"
  unfolding sync_publish_def
  by (intro emits_intros sync_setParent_captured sync_setResult_captured emits_setRepositorySubmodulesReady)
     (simp_all add: writes_captured_def same_captured)

lemma writes_captured_commit [simp]: "writes_captured (req\<lparr>ry_commit := c\<rparr>) = writes_captured req"
  by (rule ext) (simp add: writes_captured_def split: op_event.splits)

lemma sync_complete_captured: "emits (writes_captured req) (sync_complete q req repo j)"
proof -
  have published: "emits (writes_captured req)
      (sync_publish q (case o1 of Some (CTrue, _, _) \<Rightarrow> req\<lparr>ry_commit := c\<rparr> | _ \<Rightarrow> req) repo status reason message result found completed)"
    for o1 :: "(cond_status \<times> string \<times> string) option" and c status reason message result found completed
    using sync_publish_captured [of "req\<lparr>ry_commit := c\<rparr>"] sync_publish_captured [of req]
    by (auto split: option.splits cond_status.splits)
  show ?thesis
    unfolding sync_complete_def Let_def
    by (intro emits_intros) (auto intro!: emits_intros published split: prod.splits)
qed

lemma lasting_known: "lasting (known req)"
  unfolding lasting_def known_def by auto

lemma captured_runs:
  assumes "emits (writes_captured req) m"
  shows "runs (\<lambda>t. before (is_parent_write cur) (captured_evidence cur) t \<and> known req t) m
     (\<lambda>_ t. before (is_parent_write cur) (captured_evidence cur) t \<and> known req t)"
  by (rule runs_by_events [OF assms lasting_known])
     (auto simp: is_parent_write_def writes_captured_def captured_evidence_def split: op_event.splits)

abbreviation captured_ok :: "repository \<Rightarrow> repository_sync op_event list \<Rightarrow> bool" where
  "captured_ok cur \<equiv> before (is_parent_write cur) (captured_evidence cur)"

lemma sync_launch_captured:
  "runs (\<lambda>t. captured_ok cur t \<and> AcquireGate repo h (Inr Admitted) \<in> set t) (sync_launch q req repo credential) (\<lambda>_. captured_ok cur)"
proof -
  let ?P = "\<lambda>e. case e of WriteRepository c _ _ \<Rightarrow> same_incarnation c repo | _ \<Rightarrow> True"
  have "emits ?P (sync_launch q req repo credential)"
    unfolding sync_launch_def Let_def
    by (intro emits_intros emits_sync_setResult emits_sync_setParent) (simp_all add: captured_by_def same_incarnation_def)
  then have "runs (\<lambda>t. captured_ok cur t \<and> AcquireGate repo h (Inr Admitted) \<in> set t) (sync_launch q req repo credential)
     (\<lambda>_ t. captured_ok cur t \<and> AcquireGate repo h (Inr Admitted) \<in> set t)"
    by (rule runs_by_events [OF _ lasting_mem]) (auto simp: is_parent_write_def captured_evidence_def split: op_event.splits)
  then show ?thesis by (rule runs_post) simp
qed

lemma captured_quiet: "emits (\<lambda>e. \<not> is_parent_write cur e) m \<Longrightarrow> runs (captured_ok cur) m (\<lambda>_. captured_ok cur)"
  by (erule runs_quiet)

lemma sync_setResult_quiet: "emits (\<lambda>e. \<not> is_parent_write cur e) (sync_setResult q x status reason message completed)"
  by (rule emits_sync_setResult) (simp_all add: is_parent_write_def)

lemma sync_start_captured:
  "runs (\<lambda>t. captured_ok cur t \<and> known req t) (sync_start q req repo) (\<lambda>_. captured_ok cur)"
proof -
  let ?C = "captured_ok cur"
  have report: "runs ?C (andThen (sync_setResult q req status reason message completed) (\<lambda>_. ret x)) (\<lambda>_. ?C)" for status reason message completed x
    by (rule captured_quiet) (intro emits_intros sync_setResult_quiet)
  let ?A = "\<lambda>t. ?C t \<and> AcquireGate repo (sync_holder req) (Inr Admitted) \<in> set t"
  have "emits (\<lambda>e. \<not> is_parent_write cur e) (attempt (repositoryCredential q repo))"
    by (intro emits_intros) (simp add: is_parent_write_def)
  from runs_emits [OF this lasting_mem]
  have look: "runs ?A (attempt (repositoryCredential q repo)) (\<lambda>_. ?A)" by simp
  have cred: "runs ?A (sync_credential q req repo) (\<lambda>_. ?C)"
    unfolding sync_credential_def
    by (rule runs_step [OF look])
       (auto intro!: runs_pre [OF report] runs_raise sync_launch_captured split: sum.splits)
  have gate: "runs ?C (acquire_gate q repo (sync_holder req) False)
     (\<lambda>r t. case r of Inl e \<Rightarrow> ?C t | Inr a \<Rightarrow> ?C t \<and> (a = Admitted \<longrightarrow> AcquireGate repo (sync_holder req) (Inr Admitted) \<in> set t))"
    unfolding acquire_gate_def
    by (rule runs_andThen [where S = "\<lambda>_. ?C"], rule runs_clock, simp, rule runs_call)
       (auto intro!: before_append simp: is_parent_write_def split: sum.splits)
  have "runs ?C (andThen (acquire_gate q repo (sync_holder req) False) (\<lambda>admission.
      if admission \<noteq> Admitted then andThen (sync_setResult q req CUnknown ''WaitingForRepository'' ''Waiting for parent writers, mounts, or clones'' None)
                  (\<lambda>_. ret (Some operationRequeue)) else sync_credential q req repo)) (\<lambda>_. ?C)"
    by (rule runs_andThen [OF gate]) (auto intro!: runs_pre [OF report] runs_pre [OF cred])
  then show ?thesis
    unfolding sync_start_def by (intro runs_branch runs_pre [OF report]) (auto elim: runs_pre)
qed

lemma sync_pending_captured:
  "runs (\<lambda>t. captured_ok cur t \<and> known req t) (sync_pending q req) (\<lambda>_. captured_ok cur)"
proof -
  let ?I = "\<lambda>t. captured_ok cur t \<and> known req t"
  have ok: "runs ?I m (\<lambda>_. captured_ok cur)" if "emits (writes_captured req) m" for m :: "('a, 'b) sctl"
    by (rule runs_post [OF captured_runs [OF that]]) simp
  have quiet: "runs ?I m (\<lambda>_. ?I)" if "emits (writes_captured req) m" for m :: "('a, 'c) sctl"
    by (rule captured_runs [OF that])
  have observed: "runs ?I (sync_observe q req repo) (\<lambda>_. captured_ok cur)" for repo
    unfolding sync_observe_def
  proof (rule runs_step)
    show "runs ?I (observeOneShotJob q (q_readJob q) req (ry_jobName req)) (\<lambda>_. ?I)"
      by (rule captured_runs) (intro emits_intros; simp)
    show "runs ?I (case state of
        JobPresent j \<Rightarrow> if \<not> jobFinished j then ret (Some operationRequeue) else andThen (sync_complete q req repo j) (\<lambda>_. ret None)
      | JobLost \<Rightarrow> andThen (sync_setParent q req repo CFalse repositorySyncFailed ''Sync Job disappeared before its result was recorded'' None) (\<lambda>_.
          andThen (sync_setResult q req CFalse ''JobLost'' ''Sync Job disappeared before its result was recorded'' None) (\<lambda>_. ret None))
      | JobConflict _ \<Rightarrow> andThen (sync_setResult q req CFalse ''JobConflict'' ''A Job with this request name already exists'' None) (\<lambda>_. ret None)
      | JobAbsent \<Rightarrow> sync_start q req repo) (\<lambda>_. captured_ok cur)" for state
    proof (cases state)
      case JobAbsent
      then show ?thesis by (simp add: sync_start_captured)
    qed (auto intro!: ok emits_intros sync_complete_captured sync_setParent_captured sync_setResult_captured)
  qed simp
  show ?thesis
    unfolding sync_pending_def read_parent_def
  proof (rule runs_getOr [where A = ?I and S = "\<lambda>_. ?I"])
    show "runs ?I (op_read q TargetRepository (k_cachedRepository (q_k q) (o_namespace req) (ry_repository req)))
       (\<lambda>r t. case r of Inl e \<Rightarrow> if err_is ENotFound e then ?I t else captured_ok cur t | Inr x \<Rightarrow> ?I t)"
      by (rule runs_post [OF captured_runs], intro emits_intros) (auto split: sum.splits)
  qed (auto intro!: ok observed emits_intros sync_setResult_captured)
qed

text \<open>
  A sync never writes a Repository that is not the one it ran on. In every reconcile of a RepositorySync, each status write of a
  Repository is computed from a copy with the UID and the generation that the request recorded when its Job was scheduled, or with
  those of the Repository for which this reconcile was admitted by the gate: a late result cannot touch a newer spec or a new
  Repository of the same name.
\<close>

theorem sync_writes_captured_incarnation:
  "before (is_parent_write cur) (captured_evidence cur) (snd (fst (Reconcile_repositorysync q namespace name (api, []))))"
proof -
  have "runs (\<lambda>t. t = []) (Reconcile_repositorysync q namespace name) (\<lambda>_. captured_ok cur)"
    unfolding Reconcile_repositorysync_def
  proof (rule runs_getOr [where A = "captured_ok cur" and S = "\<lambda>req t. captured_ok cur t \<and> known req t"])
    fix req
    let ?I = "\<lambda>req t. captured_ok cur t \<and> known req t"
    have "emits (writes_captured req) (sync_finish q req)"
      unfolding sync_finish_def sync_interrupted_def read_parent_def sync_expire_def Let_def
      by (intro emits_intros sync_setParent_captured) simp_all
    from runs_post [OF captured_runs [OF this]]
    have finish: "runs (?I req) (sync_finish q req) (\<lambda>_. captured_ok cur)" by simp
    have keep: "runs (?I req) (keep_request q req) (\<lambda>r t. case r of Inl e \<Rightarrow> captured_ok cur t | Inr x \<Rightarrow> ?I x t)"
      unfolding keep_request_def Let_def
      by (intro runs_branch runs_ret runs_call)
         (auto simp: known_def is_parent_write_def intro!: before_append split: sum.splits)
    show "runs (?I req) (if o_deleting req \<noteq> None \<or> sync_terminal req then sync_finish q req
       else andThen (keep_request q req) (sync_pending q)) (\<lambda>_. captured_ok cur)"
      by (rule runs_branch, rule finish, rule runs_andThen [OF keep sync_pending_captured])
  qed (auto intro!: runs_call runs_ret before_none simp: known_def is_parent_write_def split: sum.splits)
  from runs_from_start [OF this] show ?thesis .
qed

section \<open>Expiry\<close>

text \<open>
  The evidence for the deletion of an expired request: it was read with a terminal result and not deleting, its reservation was
  released, and at this moment of the clock the deadline of the request as it was last answered has passed.
\<close>

definition is_expiry :: "repository_sync op_event \<Rightarrow> bool" where
  "is_expiry e = (case e of DeleteRequest _ _ \<Rightarrow> True | _ \<Rightarrow> False)"

definition last_answer :: "repository_sync \<Rightarrow> repository_sync \<Rightarrow> repository_sync op_event list \<Rightarrow> bool" where
  "last_answer req cur tr \<longleftrightarrow> cur = req \<or> FreeRequest req (Inr cur) \<in> set tr"

definition expiry_evidence :: "(nat \<Rightarrow> time) \<Rightarrow> repository_sync op_event list \<Rightarrow> bool" where
  "expiry_evidence clk tr \<longleftrightarrow>
     (\<exists>req cur c. ReadRequest (Inr req) \<in> set tr \<and> o_deleting req = None \<and> ry_conditions req ConditionSucceeded = Some c \<and> c_status c \<noteq> CUnknown \<and>
        reservation_released (Key (sync_holder req)) tr \<and> last_answer req cur tr \<and>
        (case sync_deadline cur c of None \<Rightarrow> True | Some d \<Rightarrow> d \<le> int (clk (length tr))))"

lemma released_request:
  "runs (\<lambda>t. F t) (releaseRepositoryOperation q req n key jobName)
     (\<lambda>r t. \<forall>cur. r = Inr (Some cur) \<longrightarrow> reservation_released key t \<and> last_answer req cur t)"
  unfolding releaseRepositoryOperation_def
proof (rule runs_andThen [where S = "\<lambda>_ _. True"], rule runs_post [OF runs_true], (auto split: sum.splits)[1])
  fix stopped
  have free: "runs (reservation_released key) (andThen (free_request q req) (\<lambda>freed. ret (Some freed)))
     (\<lambda>r t. \<forall>cur. r = Inr (Some cur) \<longrightarrow> reservation_released key t \<and> last_answer req cur t)"
    unfolding free_request_def
    by (rule runs_andThen [where S = "\<lambda>cur t. reservation_released key t \<and> last_answer req cur t"])
       (auto intro!: runs_branch runs_call runs_ret simp: reservation_released_def last_answer_def split: sum.splits)
  show "runs (\<lambda>_. True) (if \<not> stopped then ret None
     else andThen (release_reservation q (o_namespace req) n key) (\<lambda>_. andThen (free_request q req) (\<lambda>freed. ret (Some freed))))
     (\<lambda>r t. \<forall>cur. r = Inr (Some cur) \<longrightarrow> reservation_released key t \<and> last_answer req cur t)"
    unfolding release_reservation_def
    by (intro runs_branch runs_ret runs_andThen [OF _ free] runs_andThen [where S = "\<lambda>_ _. True"] runs_clock runs_call)
       (auto simp: reservation_released_def split: sum.splits)
qed

lemma sync_expire_trace:
  assumes "o_deleting req = None" "ry_conditions req ConditionSucceeded = Some c" "c_status c \<noteq> CUnknown"
  shows "runs (\<lambda>t. before is_expiry (expiry_evidence (k_clock (q_k q))) t \<and> ReadRequest (Inr req) \<in> set t \<and>
        reservation_released (Key (sync_holder req)) t \<and> last_answer req cur t)
     (sync_expire q cur c) (\<lambda>_. before is_expiry (expiry_evidence (k_clock (q_k q))))"
    (is "runs ?P _ (\<lambda>_. ?B)")
  unfolding sync_expire_def Let_def
proof (rule runs_andThen [where S = "\<lambda>now t. ?P t \<and> now = k_clock (q_k q) (length t)"], rule runs_clock_at, simp)
  fix now
  have "expiry_evidence (k_clock (q_k q)) t"
    if "?P t" "now = k_clock (q_k q) (length t)" "\<not> 0 < (case sync_deadline cur c of None \<Rightarrow> 0 | Some d \<Rightarrow> d - int now)" for t
    using that assms unfolding expiry_evidence_def by (intro exI [of _ req] exI [of _ cur] exI [of _ c]) (auto split: option.splits)
  then show "runs (\<lambda>t. ?P t \<and> now = k_clock (q_k q) (length t))
     (if 0 < (case sync_deadline cur c of None \<Rightarrow> 0 | Some d \<Rightarrow> d - int now)
      then ret (Some (case sync_deadline cur c of None \<Rightarrow> 0 | Some d \<Rightarrow> d - int now))
      else andThen (IgnoreNotFound (op_write q (DeleteRequest cur) (q_delete q cur))) (\<lambda>_. ret None)) (\<lambda>_. ?B)"
    by (intro runs_branch runs_ret runs_andThen [where S = "\<lambda>_. ?B"] runs_IgnoreNotFound runs_call)
       (auto intro: before_snoc split: sum.splits)
qed

text \<open>
  A finished RepositorySync is kept for its retention time. A reconcile deletes a request only when it read it with its terminal
  result and not deleting, after the reservation was released, and when the clock has reached the recorded completion time (the
  terminal condition's transition time for a result without one) plus the requested time to live (72 hours by default).
\<close>

theorem sync_expires_after_deadline:
  "before is_expiry (expiry_evidence (k_clock (q_k q))) (snd (fst (Reconcile_repositorysync q namespace name (api, []))))"
proof -
  let ?B = "before is_expiry (expiry_evidence (k_clock (q_k q)))"
  have quiet: "runs (\<lambda>t. ?B t \<and> e \<in> set t) m (\<lambda>_ t. ?B t \<and> e \<in> set t)" if "emits (\<lambda>e. \<not> is_expiry e) m"
    for m :: "('a, 'b) sctl" and e
    by (rule runs_emits [OF that lasting_mem])
  have pending: "emits (\<lambda>e. \<not> is_expiry e) (andThen (keep_request q req) (sync_pending q))" for req
    by (intro emits_intros emits_sync_pending emits_sync_setResult emits_sync_setParent emits_setRepositorySubmodulesReady)
       (simp_all add: is_expiry_def sync_calls_def)
  have finish: "runs (\<lambda>t. ?B t \<and> ReadRequest (Inr req) \<in> set t) (sync_finish q req) (\<lambda>_. ?B)"
    if "o_deleting req \<noteq> None \<or> sync_terminal req" for req
    unfolding sync_finish_def
  proof (rule runs_step)
    have "emits (\<lambda>e. \<not> is_expiry e) (sync_interrupted q req)"
      unfolding sync_interrupted_def read_parent_def
      by (intro emits_intros emits_sync_setParent) (simp_all add: is_expiry_def)
    then show "runs (\<lambda>t. ?B t \<and> ReadRequest (Inr req) \<in> set t) (sync_interrupted q req) (\<lambda>_ t. ?B t \<and> ReadRequest (Inr req) \<in> set t)"
      by (rule quiet)
    let ?rel = "releaseRepositoryOperation q req (ry_repository req) (Key (sync_holder req)) (ry_jobName req)"
    have "emits (\<lambda>e. \<not> is_expiry e) ?rel" by (intro emits_intros) (simp_all add: is_expiry_def)
    from runs_conj [OF quiet [OF this] released_request [where F = "\<lambda>_. True"]]
    have rel: "runs (\<lambda>t. ?B t \<and> ReadRequest (Inr req) \<in> set t) ?rel
       (\<lambda>r t. case r of Inl e \<Rightarrow> ?B t | Inr freed \<Rightarrow> ?B t \<and> ReadRequest (Inr req) \<in> set t \<and>
          (\<forall>cur. freed = Some cur \<longrightarrow> reservation_released (Key (sync_holder req)) t \<and> last_answer req cur t))"
      by (rule runs_pre [OF runs_post]) (auto split: sum.splits)
    show "runs (\<lambda>t. ?B t \<and> ReadRequest (Inr req) \<in> set t) (andThen ?rel (\<lambda>freed. case freed of
        None \<Rightarrow> ret (Some operationRequeue)
      | Some current \<Rightarrow> if o_deleting req \<noteq> None then ret None
          else (case ry_conditions req ConditionSucceeded of None \<Rightarrow> ret None | Some terminal \<Rightarrow> sync_expire q current terminal)))
       (\<lambda>_. ?B)" for u :: unit
      using that by (intro runs_andThen [OF rel])
        (auto intro!: runs_ret runs_pre [OF sync_expire_trace] simp: sync_terminal_def terminal_condition_def split: option.splits)
  qed simp
  have "runs (\<lambda>t. t = []) (Reconcile_repositorysync q namespace name) (\<lambda>_. ?B)"
    unfolding Reconcile_repositorysync_def
  proof (rule runs_getOr [where A = ?B and S = "\<lambda>req t. ?B t \<and> ReadRequest (Inr req) \<in> set t"])
    show "runs (\<lambda>t. ?B t \<and> ReadRequest (Inr req) \<in> set t) (if o_deleting req \<noteq> None \<or> sync_terminal req then sync_finish q req
       else andThen (keep_request q req) (sync_pending q)) (\<lambda>_. ?B)" for req
      by (rule runs_branch, erule finish, rule runs_post [OF quiet [OF pending]]) simp
  qed (auto intro!: runs_call runs_ret before_none simp: is_expiry_def split: sum.splits)
  from runs_from_start [OF this] show ?thesis .
qed

section \<open>Success\<close>

text \<open>
  The reasons of a write that records a success: the copy had no result yet, and the request's own Job was found Complete and its
  Pod reported the commit that is recorded.
\<close>

definition recorded_success :: "repository_sync \<Rightarrow> bool" where
  "recorded_success req =
     (case ry_conditions req ConditionSucceeded of None \<Rightarrow> False | Some c \<Rightarrow> c_status c = CTrue)"

definition job_succeeded :: "job \<Rightarrow> bool" where
  "job_succeeded j = (case terminalJobOutcome j of Some (CTrue, _, _) \<Rightarrow> True | _ \<Rightarrow> False)"

definition success_reasons :: "repository_sync op_event \<Rightarrow> repository_sync op_event list \<Rightarrow> bool" where
  "success_reasons e t =
     (case e of
        WriteRequest cur after _ \<Rightarrow> recorded_success after \<longrightarrow>
          \<not> sync_terminal cur \<and> resolvedCommitPattern (ry_commit after) \<and>
          (\<exists>req n j pods message. known req t \<and> LookJob n (Inr j) \<in> set t \<and> is_controlled_by j (o_uid req) \<and> job_succeeded j \<and>
             JobPods (o_name j) (Inr pods) \<in> set t \<and> checkout_message j pods = Some message \<and>
             cr_commit (parseCheckoutResult message) = ry_commit after)
      | _ \<Rightarrow> True)"

lemma success_reasons_simps [simp]:
  "success_reasons (ReadRequest a) t" "success_reasons (KeepRequest b c) t" "success_reasons (FreeRequest d f) t"
  "success_reasons (DeleteRequest g h) t" "success_reasons (LookJob i j) t" "success_reasons (MakeJob k l) t"
  "success_reasons (UpdateJob m n) t" "success_reasons (StopJob o1 p) t" "success_reasons (JobPods q r) t"
  "success_reasons (TargetRepository s) t" "success_reasons (AcquireGate u v w) t" "success_reasons (ReleaseGate x y) t"
  "success_reasons (LookCredential z) t" "success_reasons (WriteRepository a1 b1 c1) t"
  by (simp_all add: success_reasons_def)

lemma sync_status_success: "recorded_success (sync_status now req status reason message completed cur) \<longleftrightarrow> status = CTrue"
  by (simp add: recorded_success_def sync_status_def SetStatusCondition_def new_condition_def)

lemma sync_status_commit [simp]: "ry_commit (sync_status now req status reason message completed cur) = ry_commit req"
  by (simp add: sync_status_def)

lemma sync_setResult_unsuccessful:
  "status \<noteq> CTrue \<Longrightarrow> emits (\<lambda>e. \<forall>t. F t \<longrightarrow> success_reasons e t) (sync_setResult q req status reason message completed)"
  by (rule emits_sync_setResult) (simp_all add: success_reasons_def sync_status_success)

lemma sync_setParent_unsuccessful: "emits (\<lambda>e. \<forall>t. F t \<longrightarrow> success_reasons e t) (sync_setParent q req repo status reason message completed)"
  by (rule emits_sync_setParent) simp_all

lemma parsed_commit: "cr_commit (parseCheckoutResult m) \<noteq> [] \<Longrightarrow> resolvedCommitPattern (cr_commit (parseCheckoutResult m))"
  by (simp add: parseCheckoutResult_def Let_def split: if_splits)

lemma sync_outcome_success: "sync_outcome j result = (CTrue, reason, message) \<longleftrightarrow>
   job_succeeded j \<and> cr_commit result \<noteq> [] \<and> reason = ''SyncSucceeded'' \<and> message = ''Repository synchronization completed''"
  by (auto simp: sync_outcome_def job_succeeded_def split: option.splits prod.splits cond_status.splits if_splits)

lemma recorded_request:
  "job_succeeded j \<Longrightarrow> (case terminalJobOutcome j of Some (CTrue, _, _) \<Rightarrow> x | _ \<Rightarrow> y) = x"
  by (auto simp: job_succeeded_def split: option.splits prod.splits cond_status.splits)

lemma secures_sync_complete:
  assumes own: "is_controlled_by j (o_uid req)"
  shows "secures success_reasons (\<lambda>t. known req t \<and> LookJob n (Inr j) \<in> set t) (sync_complete q req repo j) (\<lambda>_ _. True)"
proof -
  let ?F = "\<lambda>t. known req t \<and> LookJob n (Inr j) \<in> set t"
  let ?report = "\<lambda>result t. cr_commit result = [] \<or> (\<exists>pods message. JobPods (o_name j) (Inr pods) \<in> set t \<and>
       checkout_message j pods = Some message \<and> result = parseCheckoutResult message)"
  have "lasting (?report result)" for result by (intro lasting_intros)
  then have last: "lasting (\<lambda>t. ?F t \<and> ?report result t)" for result by (intro lasting_intros lasting_known)
  have read: "secures success_reasons ?F (readCheckoutResult q j) (\<lambda>x t. ?F t \<and> ?report (fst x) t)"
    unfolding readCheckoutResult_def
    by (rule secures_andThen [OF secures_call [where G = "\<lambda>pods t. ?F t \<and> JobPods (o_name j) (Inr pods) \<in> set t"]])
       (auto intro!: secures_simple simp: no_checkout_result_def lastingD [OF lasting_known] split: option.splits)
  have result: "emits (\<lambda>e. \<forall>t. ?F t \<and> ?report result t \<longrightarrow> success_reasons e t)
      (sync_setResult q (req\<lparr>ry_commit := cr_commit result\<rparr>) CTrue reason message completed)"
    if "job_succeeded j" "cr_commit result \<noteq> []" for result reason message completed
  proof (rule emits_sync_setResult)
    fix now cur r
    let ?after = "sync_status now (req\<lparr>ry_commit := cr_commit result\<rparr>) CTrue reason message completed cur"
    assume fresh: "\<not> terminal_condition (ry_conditions cur) ConditionSucceeded"
    show "\<forall>t. ?F t \<and> ?report result t \<longrightarrow> success_reasons (WriteRequest cur ?after r) t"
    proof (intro allI impI)
      fix t assume F: "?F t \<and> ?report result t"
      with that(2) obtain pods m where pods: "JobPods (o_name j) (Inr pods) \<in> set t" "checkout_message j pods = Some m" "result = parseCheckoutResult m"
        by blast
      from parsed_commit pods(3) that(2) have "resolvedCommitPattern (cr_commit result)" by blast
      moreover from F have "known req t" "LookJob n (Inr j) \<in> set t" by simp_all
      ultimately show "success_reasons (WriteRequest cur ?after r) t"
        using fresh pods own that(1) unfolding success_reasons_def by (simp add: sync_terminal_def) blast
    qed
  qed simp
  have publish: "secures success_reasons (\<lambda>t. ?F t \<and> ?report result t)
      (sync_publish q recorded repo status reason message result found completed) (\<lambda>_ _. True)"
    if "status = CTrue \<Longrightarrow> job_succeeded j \<and> cr_commit result \<noteq> [] \<and> recorded = req\<lparr>ry_commit := cr_commit result\<rparr>"
    for recorded status reason message result found completed
  proof (rule secures_quiet_call [OF _ last])
    have "emits (\<lambda>e. \<forall>t. ?F t \<and> ?report result t \<longrightarrow> success_reasons e t) (sync_setResult q recorded status rs msg c)" for rs msg c
      by (cases "status = CTrue") (use that result in simp, rule sync_setResult_unsuccessful)
    then show "emits (\<lambda>e. \<forall>t. ?F t \<and> ?report result t \<longrightarrow> success_reasons e t)
       (sync_publish q recorded repo status reason message result found completed)"
      unfolding sync_publish_def
      by (intro emits_intros sync_setParent_unsuccessful emits_setRepositorySubmodulesReady) simp_all
  qed simp
  have outcome: "secures success_reasons (\<lambda>t. ?F t \<and> ?report result t)
      (case sync_outcome j result of (status, reason, message) \<Rightarrow>
         sync_publish q (case terminalJobOutcome j of Some (CTrue, _, _) \<Rightarrow> req\<lparr>ry_commit := cr_commit result\<rparr> | _ \<Rightarrow> req) repo status reason
           message result found completed) (\<lambda>_ _. True)" for result found completed
  proof (cases "sync_outcome j result")
    case (fields status reason message)
    show ?thesis unfolding fields prod.case by (rule publish) (use fields in \<open>simp add: sync_outcome_success recorded_request\<close>)
  qed
  show ?thesis
    unfolding sync_complete_def Let_def
  proof (rule secures_andThen [OF read])
    show "secures success_reasons (\<lambda>t. ?F t \<and> ?report (fst x) t) (case x of (result, found) \<Rightarrow> andThen (op_clock q) (\<lambda>now.
        case sync_outcome j result of (status, reason, message) \<Rightarrow>
          sync_publish q (case terminalJobOutcome j of Some (CTrue, _, _) \<Rightarrow> req\<lparr>ry_commit := cr_commit result\<rparr> | _ \<Rightarrow> req) repo status reason
            message result found (case jb_completed j of Some t \<Rightarrow> t | None \<Rightarrow> now))) (\<lambda>_ _. True)" for x
      by (rule secures_cases(3), simp only: fst_conv, rule secures_andThen [OF secures_simple(3)]) (assumption, rule outcome)
  qed
qed

lemma secures_sync_observe:
  "secures success_reasons (known req) (sync_observe q req repo) (\<lambda>_ _. True)"
proof -
  let ?G = "\<lambda>s t. known req t \<and> (case s of JobPresent j \<Rightarrow> is_controlled_by j (o_uid req) \<and> (\<exists>n. LookJob n (Inr j) \<in> set t) | _ \<Rightarrow> True)"
  have observe: "secures success_reasons (known req) (observeOneShotJob q (q_readJob q) req (ry_jobName req)) ?G"
    unfolding observeOneShotJob_def Let_def
  proof (rule secures_andThen [OF secures_attempt_call [where G = "\<lambda>r t. known req t \<and> (\<exists>n. LookJob n r \<in> set t)"]])
    show "secures success_reasons (\<lambda>t. known req t \<and> (\<exists>n. LookJob n found \<in> set t)) (case found of
        Inr j \<Rightarrow> ret (if is_controlled_by j (o_uid req) then JobPresent j else JobConflict j)
      | Inl e \<Rightarrow> if \<not> err_is ENotFound e then raise (EWrap ''get command Job'' e)
                 else ret (if ry_jobName req \<noteq> [] then JobLost else JobAbsent)) ?G" for found
      by (cases found) (auto intro!: secures_simple(1,2))
  qed (auto simp: lastingD [OF lasting_known])
  have quiet: "secures success_reasons (known req) m (\<lambda>_ _. True)" if "emits (\<lambda>e. \<forall>t. known req t \<longrightarrow> success_reasons e t) m" for m :: "('a, ctrl_result) sctl"
    by (rule secures_quiet_call [OF that lasting_known]) simp
  have complete: "secures success_reasons (\<lambda>t. known req t \<and> (\<exists>n. LookJob n (Inr j) \<in> set t)) (sync_complete q req repo j) (\<lambda>_ _. True)"
    if "is_controlled_by j (o_uid req)" for j
    using secures_sync_complete [OF that] unfolding secures_def runs_def by blast
  have start: "emits (\<lambda>e. \<forall>t. known req t \<longrightarrow> success_reasons e t) (sync_start q req repo)"
    unfolding sync_start_def sync_credential_def sync_launch_def Let_def
    by (intro emits_intros sync_setResult_unsuccessful sync_setParent_unsuccessful) simp_all
  show ?thesis
    unfolding sync_observe_def
  proof (rule secures_andThen [OF observe])
    fix s
    show "secures success_reasons (?G s) (case s of
        JobPresent j \<Rightarrow> if \<not> jobFinished j then ret (Some operationRequeue) else andThen (sync_complete q req repo j) (\<lambda>_. ret None)
      | JobLost \<Rightarrow> andThen (sync_setParent q req repo CFalse repositorySyncFailed ''Sync Job disappeared before its result was recorded'' None) (\<lambda>_.
          andThen (sync_setResult q req CFalse ''JobLost'' ''Sync Job disappeared before its result was recorded'' None) (\<lambda>_. ret None))
      | JobConflict _ \<Rightarrow> andThen (sync_setResult q req CFalse ''JobConflict'' ''A Job with this request name already exists'' None) (\<lambda>_. ret None)
      | JobAbsent \<Rightarrow> sync_start q req repo) (\<lambda>_ _. True)"
    proof (cases s)
      case (JobPresent j)
      have "secures success_reasons (?G s) (andThen (sync_complete q req repo j) (\<lambda>_. ret None)) (\<lambda>_ _. True)"
      proof (cases "is_controlled_by j (o_uid req)")
        case True
        then show ?thesis unfolding JobPresent
          by (intro secures_andThen [OF secures_pre [OF complete]] secures_simple) simp_all
      next
        case False
        then show ?thesis unfolding JobPresent by (intro secures_absurd) simp
      qed
      then show ?thesis using JobPresent by (auto intro: secures_simple)
    qed (auto intro!: quiet start emits_intros sync_setResult_unsuccessful sync_setParent_unsuccessful)
  qed
qed

text \<open>
  A sync reports success only for a checkout that happened. In every reconcile, a RepositorySync is written with Succeeded true only
  when the copy had no result yet, and after this reconcile found the request's own Job Complete and read, from a Pod that the Job
  controls, a termination message whose first line is the commit recorded in the same write, a full object name of 40 or 64
  hexadecimal digits.
\<close>

theorem sync_success_has_commit:
  "justified success_reasons (snd (fst (Reconcile_repositorysync q namespace name (api, []))))"
proof (rule secures_from_start [where G = "\<lambda>_ _. True"])
  let ?none = "\<lambda>e. \<forall>t. known req t \<longrightarrow> success_reasons e t"
  have finish: "secures success_reasons (known req) (sync_finish q req) (\<lambda>_ _. True)" for req
    unfolding sync_finish_def sync_interrupted_def read_parent_def sync_expire_def Let_def
    by (rule secures_quiet_call [OF _ lasting_known]) (intro emits_intros sync_setParent_unsuccessful, simp_all)
  have keep: "secures success_reasons (known req) (keep_request q req) (\<lambda>x. known x)" for req
    unfolding keep_request_def Let_def by (intro secures_if secures_simple secures_call) (auto simp: known_def)
  have pending: "secures success_reasons (known req) (sync_pending q req) (\<lambda>_ _. True)" for req
    unfolding sync_pending_def read_parent_def
  proof (rule secures_getOr_call)
    show "secures success_reasons (\<lambda>t. \<exists>u. known req u \<and> t = u @ [TargetRepository (Inr repo)]) (sync_observe q req repo) (\<lambda>_ _. True)" for repo
      by (rule secures_pre [OF secures_sync_observe]) (auto simp: lastingD [OF lasting_known])
    show "secures success_reasons (\<lambda>t. \<exists>u e. known req u \<and> err_is ENotFound e \<and> t = u @ [TargetRepository (Inl e)])
        (andThen (sync_setResult q req CFalse ''RepositoryNotFound'' ''Referenced Repository does not exist'' None) (\<lambda>_. ret None)) (\<lambda>_ _. True)"
      by (rule secures_pre [where F = "known req"], rule secures_quiet_call [OF _ lasting_known])
         (auto intro!: emits_intros sync_setResult_unsuccessful simp: lastingD [OF lasting_known])
  qed simp
  show "secures success_reasons (\<lambda>_. True) (Reconcile_repositorysync q namespace name) (\<lambda>_ _. True)"
    unfolding Reconcile_repositorysync_def
  proof (rule secures_getOr_call)
    show "secures success_reasons (\<lambda>t. \<exists>u. True \<and> t = u @ [ReadRequest (Inr req)])
       (if o_deleting req \<noteq> None \<or> sync_terminal req then sync_finish q req else andThen (keep_request q req) (sync_pending q)) (\<lambda>_ _. True)" for req
      by (rule secures_pre [where F = "known req"], intro secures_if finish secures_andThen [OF keep pending]) (auto simp: known_def)
  qed (auto intro: secures_simple)
qed

end
