(* ===== verification/RepositoryControllerSafety.thy ===== *)
theory RepositoryControllerSafety
  imports RepositoryController RepositorySyncSafety
begin

text \<open>What a reconcile of a Repository guarantees about its bootstrap, for every server, every answer and every interleaving.\<close>

section \<open>Reasons\<close>

text \<open>The reservation of the Repository that the reconcile read was admitted: it holds the only write access.\<close>

definition reserved :: "repository \<Rightarrow> 'o op_event list \<Rightarrow> bool" where
  "reserved repo t \<longleftrightarrow> AcquireGate repo (bootstrap_holder repo) (Inr Admitted) \<in> set t"

definition present :: "repository \<Rightarrow> 'o op_event list \<Rightarrow> bool" where
  "present repo t \<longleftrightarrow> TargetRepository (Inr repo) \<in> set t \<and> o_deleting repo = None"

text \<open>A bootstrap Job is created when no other operation holds the Repository, no older Job of it runs and there is no such Job yet.\<close>

definition launch_reasons :: "repository \<Rightarrow> 'o op_event list \<Rightarrow> bool" where
  "launch_reasons repo t \<longleftrightarrow>
     present repo t \<and> GateBusy (Inr False) \<in> set t \<and> \<not> sync_owned repo \<and>
     (\<exists>jobs. ListJobs (Inr jobs) \<in> set t \<and> \<not> list_ex (previous_running repo) jobs) \<and>
     (\<exists>e. LookJob (repositoryBootstrapJobName repo) (Inl e) \<in> set t \<and> err_is ENotFound e) \<and> reserved repo t"

definition storage_true :: "repository \<Rightarrow> bool" where
  "storage_true repo =
     (case rs_conditions (rp_status repo) ConditionStorageReady of None \<Rightarrow> False | Some c \<Rightarrow> c_status c = CTrue)"

text \<open>A status that publishes a checkout: it turns StorageReady true, or sets the time of the last update.\<close>

definition publishes :: "repository \<Rightarrow> repository \<Rightarrow> bool" where
  "publishes cur after =
     (rs_lastUpdated (rp_status after) \<noteq> rs_lastUpdated (rp_status cur) \<or>
      (storage_true after \<and>
       rs_conditions (rp_status after) ConditionStorageReady \<noteq> rs_conditions (rp_status cur) ConditionStorageReady))"

definition checkout_reasons :: "repository \<Rightarrow> 'o op_event list \<Rightarrow> bool" where
  "checkout_reasons repo t \<longleftrightarrow>
     present repo t \<and> reserved repo t \<and>
     (\<exists>j. LookJob (repositoryBootstrapJobName repo) (Inr j) \<in> set t \<and> job_true j ''Complete'' \<noteq> None \<and>
          (is_controlled_by j (o_uid repo) \<or> storage_true repo))"

text \<open>The reservation ends when the Repository is already checked out on its bound volume, or its own Job has finished.\<close>

definition release_reasons :: "repository \<Rightarrow> 'o op_event list \<Rightarrow> bool" where
  "release_reasons repo t \<longleftrightarrow>
     present repo t \<and>
     ((\<exists>n claim. LookClaim (Inr (n, Some claim, None)) \<in> set t \<and> already_checked_out repo claim) \<or>
      (\<exists>j. LookJob (repositoryBootstrapJobName repo) (Inr j) \<in> set t \<and> is_controlled_by j (o_uid repo) \<and> jobFinished j \<and> reserved repo t))"

definition bootstrap_reasons :: "'o op_event \<Rightarrow> 'o op_event list \<Rightarrow> bool" where
  "bootstrap_reasons e t =
     (case e of
        MakeJob j _ \<Rightarrow> \<exists>repo. launch_reasons repo t \<and> o_name j = repositoryBootstrapJobName repo \<and> is_controlled_by j (o_uid repo) \<and>
                             jb_claim j = rs_claim (rp_status repo)
      | WriteRepository cur after _ \<Rightarrow> publishes cur after \<longrightarrow> (\<exists>repo. same_incarnation cur repo \<and> checkout_reasons repo t)
      | ReleaseGate key _ \<Rightarrow> \<exists>repo. key = Key (bootstrap_holder repo) \<and> release_reasons repo t
      | _ \<Rightarrow> True)"

lemma reasons_free [simp]:
  "bootstrap_reasons (TargetRepository a) t" "bootstrap_reasons (AcquireGate b h c) t" "bootstrap_reasons (LookJob n d) t"
  "bootstrap_reasons (ListJobs f) t" "bootstrap_reasons (JobPods n g) t" "bootstrap_reasons (GateBusy i) t"
  "bootstrap_reasons (LoadGate k) t" "bootstrap_reasons (LookCredential l) t" "bootstrap_reasons (LookClaim m) t"
  "bootstrap_reasons (MakeClaim o1 p) t" "bootstrap_reasons (GrowClaim q r) t" "bootstrap_reasons (Inner s) t"
  by (simp_all add: bootstrap_reasons_def)

lemma reasons_unpublished: "\<not> publishes cur after \<Longrightarrow> bootstrap_reasons (WriteRepository cur after r) t"
  by (simp add: bootstrap_reasons_def)

lemma unpublished_statuses:
  "\<not> publishes cur (storage_ready_status now cap CFalse reason message claimName None cur)"
  "\<not> publishes cur (submodules_status now failures cur)"
  "\<not> publishes cur (repository_blocked_status now wait cur)"
  "\<not> publishes cur (access_status holders cur)"
  by (auto simp: publishes_def storage_true_def storage_ready_status_def submodules_status_def repository_blocked_status_def
      access_status_def ConditionStorageReady_def ConditionSubmodulesReady_def ConditionDeletionBlocked_def SetStatusCondition_def
      RemoveStatusCondition_def new_condition_def Let_def split: option.splits if_splits)

lemmas reasons_unpublished_status [simp] = unpublished_statuses [THEN reasons_unpublished]

lemma lasting_reserved [lasting_intros]: "lasting (reserved repo)"
  unfolding reserved_def by (intro lasting_intros)

lemma lasting_present [lasting_intros]: "lasting (present repo)"
  unfolding present_def by (intro lasting_intros)

lemma job_true_finished: "job_true j c \<noteq> None \<Longrightarrow> c = ''Complete'' \<or> c = ''Failed'' \<Longrightarrow> jobFinished j"
  unfolding jobFinished_iff job_true_def jobCondition_def finished_condition_def list_ex_iff
  by (auto simp: find_Some_iff split: option.splits if_splits)

section \<open>Operations that need no reasons\<close>

lemma secures_report_unready:
  "lasting F \<Longrightarrow> secures bootstrap_reasons F (report_unready q repo reason message claimName) (\<lambda>_. F)"
  unfolding report_unready_def
  by (rule secures_andThen [OF secures_quiet], rule emits_setRepositoryStorageReady) (auto intro: secures_simple)

lemma secures_readCheckoutResult: "lasting F \<Longrightarrow> secures bootstrap_reasons F (readCheckoutResult q j) (\<lambda>_. F)"
  by (rule secures_quiet, rule emits_readCheckoutResult) simp_all

lemma secures_submodules: "lasting F \<Longrightarrow> secures bootstrap_reasons F (setRepositorySubmodulesReady q repo failures) (\<lambda>_. F)"
  by (rule secures_quiet, rule emits_setRepositorySubmodulesReady) simp_all

lemma secures_acquire:
  assumes "lasting F"
  shows "secures bootstrap_reasons F (acquire_gate q repo h ready) (\<lambda>a t. F t \<and> AcquireGate repo h (Inr a) \<in> set t)"
  unfolding acquire_gate_def
  by (rule secures_andThen [where G = "\<lambda>_. F"], rule secures_simple, assumption, rule secures_call) (simp_all add: lastingD [OF assms])

lemma secures_release:
  assumes "\<And>t. F t \<Longrightarrow> release_reasons repo t" "lasting F"
  shows "secures bootstrap_reasons F (release_gate q repo (Key (bootstrap_holder repo))) (\<lambda>_. F)"
  unfolding release_gate_def
  by (rule secures_andThen [where G = "\<lambda>_. F"], rule secures_simple, assumption, rule secures_call)
     (use assms in \<open>auto simp: bootstrap_reasons_def lastingD\<close>)

lemma secures_report_ready:
  assumes "\<And>t. F t \<Longrightarrow> checkout_reasons repo t" "lasting F"
  shows "secures bootstrap_reasons F (report_ready q repo claimName completed) (\<lambda>_. F)"
  unfolding report_ready_def
  by (rule secures_quiet, rule emits_setRepositoryStorageReady) (use assms in \<open>auto simp: bootstrap_reasons_def\<close>)

section \<open>The stages\<close>

abbreviation looked :: "repository \<Rightarrow> job \<Rightarrow> 'o op_event list \<Rightarrow> bool" where
  "looked repo j t \<equiv> LookJob (repositoryBootstrapJobName repo) (Inr j) \<in> set t"

lemma secures_finish_bootstrap:
  assumes "\<And>t. F t \<Longrightarrow> release_reasons repo t" "lasting F"
  shows "secures bootstrap_reasons F (finish_bootstrap q repo result found) (\<lambda>_. F)"
  unfolding finish_bootstrap_def
  by (intro secures_andThen [OF secures_if [where G = "\<lambda>_. F"]] secures_andThen [OF secures_release] secures_submodules secures_simple)
     (simp_all add: assms)

lemma secures_bootstrap_result:
  assumes own: "is_controlled_by j (o_uid repo)"
  shows "secures bootstrap_reasons (\<lambda>t. present repo t \<and> looked repo j t \<and> (jobFinished j \<longrightarrow> reserved repo t))
    (bootstrap_result q repo claimName j) (\<lambda>_ _. True)" (is "secures _ ?F _ _")
proof -
  let ?R = "\<lambda>t. present repo t \<and> looked repo j t \<and> reserved repo t"
  have last: "lasting ?R" by (intro lasting_intros)
  have release: "release_reasons repo t" if "?R t" "jobFinished j" for t
    using that own unfolding release_reasons_def by auto
  have fail: "secures bootstrap_reasons ?R (bootstrap_failed q repo claimName j m) (\<lambda>_ _. True)" if "jobFinished j" for m
    unfolding bootstrap_failed_def Let_def
    by (intro secures_andThen [OF secures_readCheckoutResult [OF last]] secures_cases secures_andThen [OF secures_quiet [OF _ last]]
        emits_setRepositoryStorageReady secures_post [OF secures_finish_bootstrap [OF release last]] that) simp_all
  have "checkout_reasons repo t" if "?R t" "job_true j ''Complete'' \<noteq> None" for t
    using that own unfolding checkout_reasons_def by auto
  then have full: "secures bootstrap_reasons ?R (bootstrap_complete q repo claimName j) (\<lambda>_ _. True)" if "job_true j ''Complete'' \<noteq> None"
    unfolding bootstrap_complete_def
    using that job_true_finished [OF that]
    by (intro secures_andThen [OF secures_readCheckoutResult [OF last]] secures_cases secures_andThen [OF secures_report_ready [OF _ last]]
        secures_post [OF secures_finish_bootstrap [OF release last]]) simp_all
  have wait: "secures bootstrap_reasons ?F (report_unready q repo r m claimName) (\<lambda>_ _. True)" for r m
    by (rule secures_pre [OF secures_post [OF secures_report_unready [OF lasting_const [of True]]]]) simp_all
  show ?thesis
    unfolding bootstrap_result_def
    by (intro secures_cases secures_if wait secures_pre [OF fail] secures_pre [OF full])
       (auto intro: job_true_finished [of j "''Failed''"] job_true_finished [of j "''Complete''"])
qed

lemma secures_bootstrap_observe:
  "secures bootstrap_reasons (\<lambda>t. present repo t \<and> looked repo j t) (bootstrap_observe q repo claimName j) (\<lambda>_ _. True)"
proof -
  let ?F = "\<lambda>t. present repo t \<and> looked repo j t"
  have last: "lasting ?F" by (intro lasting_intros)
  note result = secures_bootstrap_result [of j repo q claimName]
  have admit: "secures bootstrap_reasons ?F (andThen (acquire_gate q repo (bootstrap_holder repo) False) (\<lambda>admission.
      if admission \<noteq> Admitted then ret (Some operationRequeue) else bootstrap_result q repo claimName j)) (\<lambda>_ _. True)"
    if "is_controlled_by j (o_uid repo)"
    using that
    by (intro secures_andThen [OF secures_acquire [OF last]] secures_if secures_simple secures_pre [OF result])
       (auto simp: reserved_def)
  show ?thesis
    unfolding bootstrap_observe_def
    by (intro secures_if secures_post [OF secures_report_unready [OF last]] admit secures_pre [OF result]) simp_all
qed

lemma secures_create_bootstrap:
  "secures bootstrap_reasons (launch_reasons repo) (create_bootstrap q repo claimName credential) (\<lambda>_ _. True)"
proof -
  have built: "o_name j = repositoryBootstrapJobName repo \<and> is_controlled_by j (o_uid repo) \<and> jb_claim j = rs_claim (rp_status repo)"
    if "SetControllerReference v k repo (repositoryCheckoutJob repo (repositoryBootstrapJobName repo) i c) = Inr j" for v k i c j
    using that by (auto simp: SetControllerReference_def repositoryCheckoutJob_def blank_object_def kobj.extend_def job.fields_def
        is_controlled_by_def Let_def)
  have reasons: "launch_reasons repo t \<and> (\<forall>r. bootstrap_reasons (MakeJob j r) t)"
    if "launch_reasons repo t" "SetControllerReference v k repo (repositoryCheckoutJob repo (repositoryBootstrapJobName repo) i c) = Inr j"
    for t v k i c j using built [OF that(2)] that(1) unfolding bootstrap_reasons_def by auto
  have wait: "secures bootstrap_reasons (\<lambda>_. True) (report_unready q repo r m claimName) (\<lambda>_ _. True)" for r m
    by (rule secures_report_unready [OF lasting_const])
  show ?thesis
    unfolding create_bootstrap_def
    by (intro secures_andThen [OF secures_wrapped [OF secures_simple(4) [OF reasons]]]
        secures_andThen [OF secures_wrapped [OF secures_call [where G = "\<lambda>_ _. True"]] wait]) auto
qed

lemma secures_start_bootstrap:
  assumes "\<And>t. F t \<Longrightarrow> reserved repo t \<Longrightarrow> launch_reasons repo t" "lasting F"
  shows "secures bootstrap_reasons F (start_bootstrap q repo claimName) (\<lambda>_ _. True)"
proof -
  let ?R = "\<lambda>t. F t \<and> reserved repo t"
  have last: "lasting ?R" by (intro lasting_intros assms(2))
  have credential: "secures bootstrap_reasons ?R (attempt (repositoryCredential q repo)) (\<lambda>_. ?R)"
    by (rule secures_quiet [OF _ last]) (intro emits_intros, simp)
  have "secures bootstrap_reasons ?R (create_bootstrap q repo claimName c) (\<lambda>_ _. True)" for c
    by (rule secures_pre [OF secures_create_bootstrap]) (use assms(1) in blast)
  then have "secures bootstrap_reasons ?R (andThen (attempt (repositoryCredential q repo)) (\<lambda>found. case found of
        Inl e \<Rightarrow> if err_is ENotFound e
                 then report_unready q repo ''CredentialNotFound'' ''Referenced Credential does not exist'' claimName else raise e
      | Inr credential \<Rightarrow> create_bootstrap q repo claimName credential)) (\<lambda>_ _. True)"
    by (intro secures_andThen [OF credential] secures_cases secures_if secures_simple secures_post [OF secures_report_unready [OF last]]) simp_all
  then have go: "secures bootstrap_reasons (\<lambda>t. F t \<and> AcquireGate repo (bootstrap_holder repo) (Inr Admitted) \<in> set t)
      (andThen (attempt (repositoryCredential q repo)) (\<lambda>found. case found of
        Inl e \<Rightarrow> if err_is ENotFound e
                 then report_unready q repo ''CredentialNotFound'' ''Referenced Credential does not exist'' claimName else raise e
      | Inr credential \<Rightarrow> create_bootstrap q repo claimName credential)) (\<lambda>_ _. True)"
    by (simp add: reserved_def)
  show ?thesis
    unfolding start_bootstrap_def
    by (rule secures_andThen [OF secures_acquire [OF assms(2)]], rule secures_if, rule secures_simple, simp, simp)
       (rule go)
qed

text \<open>The Repository, the reservations of others and its own Jobs as the reconcile saw them.\<close>

definition undisturbed :: "repository \<Rightarrow> 'o op_event list \<Rightarrow> bool" where
  "undisturbed repo t \<longleftrightarrow>
     present repo t \<and> GateBusy (Inr False) \<in> set t \<and> \<not> sync_owned repo \<and>
     (\<exists>jobs. ListJobs (Inr jobs) \<in> set t \<and> \<not> list_ex (previous_running repo) jobs)"

lemma lasting_undisturbed [lasting_intros]: "lasting (undisturbed repo)"
  unfolding undisturbed_def by (intro lasting_intros)

lemma undisturbed_present: "undisturbed repo t \<Longrightarrow> present repo t"
  by (simp add: undisturbed_def)

lemma secures_look_bootstrap:
  assumes "lasting F"
  shows "secures bootstrap_reasons F (look_bootstrap q repo) (\<lambda>r t. F t \<and> LookJob (repositoryBootstrapJobName repo) r \<in> set t)"
  unfolding look_bootstrap_def by (rule secures_attempt_call) (simp_all add: lastingD [OF assms])

lemma secures_reconcile_bootstrap:
  "secures bootstrap_reasons (undisturbed repo) (reconcile_bootstrap q repo claimName) (\<lambda>_ _. True)"
proof -
  have start: "secures bootstrap_reasons (\<lambda>t. undisturbed repo t \<and> LookJob (repositoryBootstrapJobName repo) (Inl e) \<in> set t)
     (start_bootstrap q repo claimName) (\<lambda>_ _. True)" if "err_is ENotFound e" for e
    by (rule secures_start_bootstrap) (use that in \<open>auto simp: undisturbed_def launch_reasons_def intro!: lasting_intros\<close>)
  show ?thesis
    unfolding reconcile_bootstrap_def
  proof (rule secures_andThen [OF secures_look_bootstrap [OF lasting_undisturbed]])
    fix found
    show "secures bootstrap_reasons (\<lambda>t. undisturbed repo t \<and> LookJob (repositoryBootstrapJobName repo) found \<in> set t)
       (case found of Inl e \<Rightarrow> if err_is ENotFound e then start_bootstrap q repo claimName else raise (EWrap ''get Repository bootstrap Job'' e)
        | Inr j \<Rightarrow> bootstrap_observe q repo claimName j) (\<lambda>_ _. True)"
      by (cases found) (auto intro: start secures_simple(2) secures_pre [OF secures_bootstrap_observe] undisturbed_present)
  qed
qed

lemma secures_reconcile_ready:
  assumes "already_checked_out repo claim"
  shows "secures bootstrap_reasons (\<lambda>t. present repo t \<and> LookClaim (Inr (n, Some claim, None)) \<in> set t)
     (reconcile_ready q repo claimName) (\<lambda>_ _. True)"
proof -
  let ?F = "\<lambda>t. present repo t \<and> LookClaim (Inr (n, Some claim, None)) \<in> set t"
  have last: "lasting ?F" by (intro lasting_intros)
  have release: "release_reasons repo t" if "?F t" for t
    using that assms unfolding release_reasons_def by blast
  have storage: "storage_true repo" using assms by (auto simp: already_checked_out_def storage_true_def split: option.splits)
  have update: "secures bootstrap_reasons (\<lambda>t. ?F t \<and> looked repo j t) (record_update q repo claimName c) (\<lambda>_ _. True)"
    if "job_true j ''Complete'' \<noteq> None" for j c
  proof -
    let ?G = "\<lambda>t. (?F t \<and> looked repo j t) \<and> reserved repo t"
    have lasts: "lasting (\<lambda>t. ?F t \<and> looked repo j t)" "lasting ?G" by (intro lasting_intros)+
    have "checkout_reasons repo t" if "?G t" for t
      using that \<open>job_true j ''Complete'' \<noteq> None\<close> storage unfolding checkout_reasons_def by blast
    then have "secures bootstrap_reasons ?G (andThen (report_ready q repo claimName (Some c)) (\<lambda>_.
        andThen (release_gate q repo (Key (bootstrap_holder repo))) (\<lambda>_. ret None))) (\<lambda>_ _. True)"
      by (intro secures_andThen [OF secures_report_ready [OF _ lasts(2)]] secures_andThen [OF secures_release [OF _ lasts(2)]] secures_simple)
         (auto intro: release)
    then show ?thesis
      unfolding record_update_def
      by (intro secures_andThen [OF secures_acquire [OF lasts(1)]] secures_if secures_simple) (simp_all add: reserved_def)
  qed
  have found: "secures bootstrap_reasons (\<lambda>t. ?F t \<and> LookJob (repositoryBootstrapJobName repo) r \<in> set t)
      (case r of Inl e \<Rightarrow> if err_is ENotFound e then ret None else raise (EWrap ''get completed Repository bootstrap Job'' e)
       | Inr j \<Rightarrow> (case jb_completed j of None \<Rightarrow> ret None
                 | Some t \<Rightarrow> if job_true j ''Complete'' \<noteq> None then record_update q repo claimName t else ret None)) (\<lambda>_ _. True)" for r
    by (cases r) (auto intro!: secures_simple secures_pre [OF update] split: option.splits)
  show ?thesis
    unfolding reconcile_ready_def
    by (intro secures_andThen [OF secures_release [OF release last]] secures_if secures_simple
        secures_andThen [OF secures_look_bootstrap [OF last] found]) simp_all
qed

lemma secures_reconcile_parent:
  "secures bootstrap_reasons (\<lambda>t. undisturbed repo t \<and> LookClaim (Inr (n, Some claim, None)) \<in> set t)
     (reconcile_parent q repo claim) (\<lambda>_ _. True)" (is "secures _ ?F _ _")
proof -
  have last: "lasting ?F" by (intro lasting_intros)
  have grow: "secures bootstrap_reasons ?F (wrapped m (op_write q (GrowClaim g) (q_updateClaim q g))) (\<lambda>_. ?F)" for m g
    by (rule secures_quiet [OF _ last]) (intro emits_intros, simp)
  have wait: "secures bootstrap_reasons ?F (report_unready q repo r m c) (\<lambda>_ _. True)" for r m c
    by (rule secures_post [OF secures_report_unready [OF last]]) simp
  show ?thesis
    unfolding reconcile_parent_def reconcile_size_def Let_def
    by (intro secures_if wait secures_andThen [OF grow wait] secures_pre [OF secures_reconcile_ready] secures_pre [OF secures_reconcile_bootstrap])
       (auto intro: undisturbed_present)
qed

lemma secures_waiting: "secures bootstrap_reasons F (report_unready q repo r m c) (\<lambda>_ _. True)"
  by (rule secures_pre [OF secures_report_unready [OF lasting_const [of True]]]) simp

lemma secures_create_parent: "secures bootstrap_reasons F (create_parent q repo c) (\<lambda>_ _. True)"
  unfolding create_parent_def
  by (intro secures_andThen [OF secures_wrapped [OF secures_simple(4) [where G'' = "\<lambda>_ _. True"]]]
      secures_andThen [OF secures_wrapped [OF secures_call [where G = "\<lambda>_ _. True"]] secures_waiting]) simp_all

lemma reconcileDeletionBlocked_quiet: "emits (\<lambda>e. \<forall>t. True \<longrightarrow> bootstrap_reasons e t) (reconcileDeletionBlocked q repo)"
  unfolding reconcileDeletionBlocked_def repositoryDeletionWait_def repository_setDeletionBlocked_def Let_def
  by (intro emits_intros) simp_all

lemma publishAccess_quiet: "emits (\<lambda>e. \<forall>t. True \<longrightarrow> bootstrap_reasons e t) (publishAccess q namespace name)"
  unfolding publishAccess_def Let_def by (intro emits_intros) simp_all

lemma secures_reconcile_volume:
  "secures bootstrap_reasons (undisturbed repo) (reconcile_volume q repo) (\<lambda>_ _. True)"
proof -
  have resolve: "secures bootstrap_reasons (undisturbed repo) (resolve_parent q repo) (\<lambda>x t. undisturbed repo t \<and> LookClaim (Inr x) \<in> set t)"
    unfolding resolve_parent_def by (rule secures_call) (simp_all add: lastingD [OF lasting_undisturbed])
  show ?thesis
    unfolding reconcile_volume_def
    by (intro secures_andThen [OF resolve] secures_cases secures_if secures_waiting secures_create_parent secures_simple)
       (auto intro: secures_pre [OF secures_reconcile_parent])
qed

lemma secures_reconcile_existing:
  "secures bootstrap_reasons (present repo) (reconcile_existing q repo) (\<lambda>_ _. True)"
proof -
  have sweep: "secures bootstrap_reasons (present repo) (inner (\<lambda>k. sweepRepositoryHolders k repo) q) (\<lambda>_. present repo)"
    by (rule secures_quiet [OF _ lasting_present])
       (auto intro!: emits_intros simp: sweepRepositoryHolders_def repository_stale_def holderOwnerGone_def)
  have busy: "secures bootstrap_reasons (present repo) (gate_busy q repo key) (\<lambda>b t. present repo t \<and> GateBusy (Inr b) \<in> set t)" for key
    unfolding gate_busy_def
    by (rule secures_andThen [where G = "\<lambda>_. present repo"], rule secures_simple, assumption, rule secures_call)
       (simp_all add: lastingD [OF lasting_present])
  let ?F = "\<lambda>t. present repo t \<and> GateBusy (Inr False) \<in> set t"
  have last: "lasting ?F" by (intro lasting_intros)
  have jobs: "secures bootstrap_reasons ?F (op_read q ListJobs (q_listJobs q (o_namespace repo)))
      (\<lambda>js t. ?F t \<and> ListJobs (Inr js) \<in> set t)"
    by (rule secures_call) (simp_all add: lastingD [OF lasting_present])
  have "secures bootstrap_reasons ?F (reconcile_jobs q repo) (\<lambda>_ _. True)" if "\<not> sync_owned repo"
    unfolding reconcile_jobs_def
    by (intro secures_andThen [OF jobs] secures_if secures_simple secures_pre [OF secures_reconcile_volume])
       (use that in \<open>auto simp: undisturbed_def\<close>)
  then show ?thesis
    unfolding reconcile_existing_def
    by (intro secures_andThen [OF sweep] secures_andThen [OF busy] secures_if secures_simple) simp_all
qed

text \<open>C7: 
  Bootstrapping a Repository is ordered, for every server, answer and interleaving. A reconcile creates the bootstrap Job of the
  Repository's generation, on its recorded volume and owned by it, only when the Repository is not being deleted, no other
  reservation and no sync owns it, none of its earlier Jobs still runs, the Job does not exist yet, and its own write reservation
  was admitted for that very copy. It publishes a checkout (StorageReady true, or a new update time) only for the incarnation and
  generation it read, with the reservation admitted, after it saw the bootstrap Job of that generation Complete and owned by the
  Repository (or the Repository already ready). It gives the reservation back only when the Repository is already
  checked out on a bound volume, or when its own Job has finished and the reservation was admitted.
\<close>

theorem repository_bootstrap_ordered:
  "justified bootstrap_reasons (snd (fst (Reconcile_repository q namespace name (api, []))))"
proof -
  have reconcile: "secures bootstrap_reasons (\<lambda>_. True) (reconcileRepository q namespace name) (\<lambda>_ _. True)"
    unfolding reconcileRepository_def
  proof (intro secures_getOr_call secures_if secures_simple)
    show "secures bootstrap_reasons (\<lambda>t. \<exists>u. True \<and> t = u @ [TargetRepository (Inr repo)]) (reconcileDeletionBlocked q repo) (\<lambda>_ _. True)" for repo
      by (rule secures_pre [OF secures_quiet [OF reconcileDeletionBlocked_quiet lasting_const]]) simp
    show "secures bootstrap_reasons (\<lambda>t. \<exists>u. True \<and> t = u @ [TargetRepository (Inr repo)]) (reconcile_existing q repo) (\<lambda>_ _. True)"
      if "\<not> o_deleting repo \<noteq> None" for repo
      by (rule secures_pre [OF secures_reconcile_existing]) (use that in \<open>auto simp: present_def\<close>)
  qed simp_all
  show ?thesis
    unfolding Reconcile_repository_def
    by (rule secures_from_start, rule secures_andThen [OF reconcile], rule secures_andThen [OF secures_quiet [OF publishAccess_quiet lasting_const]])
       (rule secures_simple, simp)
qed

end
