(* ===== verification/BoundedRuns.thy ===== *)
theory BoundedRuns
  imports RepositorySync
begin

text \<open>How many API calls a reconcile makes, whatever the server answers: every run of an operation ends within a fixed number of calls.\<close>

definition within :: "nat \<Rightarrow> ('api, 'ev, 'a) ctl \<Rightarrow> bool" where
  "within n m \<longleftrightarrow> (\<forall>w. length (snd (fst (m w))) \<le> length (snd w) + n)"

named_theorems within_intros "bounds that follow the structure of a computation"

lemma withinD: "within n m \<Longrightarrow> m w = (w', r) \<Longrightarrow> length (snd w') \<le> length (snd w) + n"
  unfolding within_def by (metis fst_conv)

lemma withinI: "(\<And>w w' r. m w = (w', r) \<Longrightarrow> length (snd w') \<le> length (snd w) + n) \<Longrightarrow> within n m"
  unfolding within_def by (metis prod.collapse)

lemma within_mono: "within a m \<Longrightarrow> a \<le> b \<Longrightarrow> within b m"
  unfolding within_def by (meson add_left_mono le_trans)

lemma within_simple [within_intros]: "within 0 (ret x)" "within 0 (raise e)" "within 0 (clock c)" "within 0 (of_result r)"
  by (simp_all add: within_def ret_def raise_def clock_def of_result_def)

lemma within_call [within_intros]: "within 1 (call env ev f)"
  by (rule withinI) (auto dest: call_trace)

lemma within_andThen [within_intros]:
  assumes "within a m" "\<And>x. within b (f x)"
  shows "within (a + b) (andThen m f)"
proof (rule withinI)
  fix w w' r assume "andThen m f w = (w', r)"
  then show "length (snd w') \<le> length (snd w) + (a + b)"
  proof (cases rule: andThen_cases)
    case (goes w1 x)
    with withinD [OF assms(1)] withinD [OF assms(2)] show ?thesis by (metis add.assoc add_le_mono1 le_trans)
  qed (use withinD [OF assms(1)] in fastforce)
qed

lemma same_calls [simp]:
  "fst (attempt m w) = fst (m w)" "fst (wrapped msg m w) = fst (m w)" "fst (IgnoreNotFound n w) = fst (n w)"
  by (auto simp: attempt_def wrapped_def IgnoreNotFound_def split: prod.splits sum.splits)

lemma within_same [within_intros]:
  "within n m \<Longrightarrow> within n (attempt m)" "within n m \<Longrightarrow> within n (wrapped msg m)" "within n u \<Longrightarrow> within n (IgnoreNotFound u)"
  by (simp_all add: within_def)

lemma within_cases [within_intros]:
  "within a m \<Longrightarrow> within b n \<Longrightarrow> within (max a b) (if c then m else n)"
  "within a m \<Longrightarrow> (\<And>y. within b (f y)) \<Longrightarrow> within (max a b) (case x of None \<Rightarrow> m | Some y \<Rightarrow> f y)"
  "(\<And>e. within a (g e)) \<Longrightarrow> (\<And>y. within b (h y)) \<Longrightarrow> within (max a b) (case s of Inl e \<Rightarrow> g e | Inr y \<Rightarrow> h y)"
  "(\<And>u v. within a (k u v)) \<Longrightarrow> within a (case p of (u, v) \<Rightarrow> k u v)"
  by (auto split: option.splits sum.splits prod.splits intro: within_mono [where a = a] within_mono [where a = b])

lemma within_job_state [within_intros]:
  "within a p \<Longrightarrow> (\<And>j. within b (f j)) \<Longrightarrow> within c g \<Longrightarrow> (\<And>j. within d (h j)) \<Longrightarrow>
   within (max (max a b) (max c d)) (case s of JobAbsent \<Rightarrow> p | JobPresent j \<Rightarrow> f j | JobLost \<Rightarrow> g | JobConflict j \<Rightarrow> h j)"
  by (cases s) (auto intro: within_mono [where a = a] within_mono [where a = b] within_mono [where a = c] within_mono [where a = d])

lemma within_getOr [within_intros]:
  "within a m \<Longrightarrow> within b absent \<Longrightarrow> (\<And>x. within c (f x)) \<Longrightarrow> within (a + max b c) (getOr m absent f)"
  unfolding getOr_def
  by (rule within_andThen) (auto split: sum.splits intro: within_mono [where a = b] within_mono [where a = c] within_mono [where a = 0] within_same within_simple)

lemma within_RetryOnConflict:
  assumes "within a m"
  shows "within (steps * a) (RetryOnConflict steps m)"
proof (induction steps)
  case (Suc steps)
  show ?case
  proof (rule withinI)
    fix w w' r assume run: "RetryOnConflict (Suc steps) m w = (w', r)"
    obtain w1 r1 where m: "m w = (w1, r1)" by (cases "m w")
    from run m have "w' = w1 \<or> RetryOnConflict steps m w1 = (w', r)" by (auto split: sum.splits if_splits)
    with withinD [OF assms m] withinD [OF Suc.IH] show "length (snd w') \<le> length (snd w) + Suc steps * a" by fastforce
  qed
qed (simp add: within_def)

lemma within_retries [within_intros]: "within a m \<Longrightarrow> within (4 * a) (RetryOnConflict DefaultBackoff m)"
  using within_RetryOnConflict [of a m DefaultBackoff] by (simp add: DefaultBackoff_def)

section \<open>Requests on a Repository\<close>

lemma within_sync_setResult [within_intros]: "within 8 (sync_setResult q req status reason message completed)"
  unfolding sync_setResult_def Let_def by (rule within_mono, (rule within_intros)+) simp

lemma within_setRepositoryStorageReady [within_intros]:
  "within 8 (setRepositoryStorageReady q cap status reason message claimName lastUpdated)"
  unfolding setRepositoryStorageReady_def Let_def by (rule within_mono, (rule within_intros)+) simp

lemma within_setRepositorySubmodulesReady [within_intros]: "within 8 (setRepositorySubmodulesReady q cap failures)"
  unfolding setRepositorySubmodulesReady_def Let_def by (rule within_mono, (rule within_intros)+) simp

lemma within_sync_setParent [within_intros]: "within 8 (sync_setParent q req repo status reason message completed)"
  unfolding sync_setParent_def by (rule within_mono, (rule within_intros)+) simp

lemma within_releaseRepositoryOperation [within_intros]: "within 5 (releaseRepositoryOperation q owner n key jobName)"
  unfolding releaseRepositoryOperation_def job_allows_release_def pods_allow_release_def release_reservation_def free_request_def Let_def
  by (rule within_mono, (rule within_intros)+) simp

lemma within_sync_complete [within_intros]: "within 25 (sync_complete q req repo j)"
  unfolding sync_complete_def sync_publish_def readCheckoutResult_def Let_def by (rule within_mono, (rule within_intros)+) simp

lemma within_sync_start [within_intros]: "within 19 (sync_start q req repo)"
  unfolding sync_start_def sync_credential_def sync_launch_def acquire_gate_def repositoryCredential_def Let_def
  by (rule within_mono, (rule within_intros)+) simp

lemma within_observeOneShotJob [within_intros]: "within 1 (observeOneShotJob q get owner recorded)"
  unfolding observeOneShotJob_def Let_def by (rule within_mono, (rule within_intros)+) simp

lemma within_sync_finish [within_intros]: "within 15 (sync_finish q req)"
  unfolding sync_finish_def sync_interrupted_def read_parent_def sync_expire_def Let_def
  by (rule within_mono, (rule within_intros)+) simp


end
