(* ===== verification/Platform.thy ===== *)
theory Platform
  imports Services Controller
begin

text \<open>
  Package \<^verbatim>\<open>internal/rcplatform\<close>: from an operating system and a placement to the Pods and the process requests of
  that platform, and back from a Pod to the platform it was built for; with \<^verbatim>\<open>internal/runtimepolicy\<close>. A pointer
  that may be nil is an option; a nil map reads as an empty one. Data that the code only copies (resources,
  tolerations, affinity) is opaque. The encoders of actions and services (JSON in base64) are parameters.
\<close>

section \<open>Pods\<close>

type_synonym api_data = string
type_synonym selector = "string \<rightharpoonup> string"

text \<open>The source of a variable: the object, the key in it and whether it is optional.\<close>

datatype env_source = SecretKey string string bool | ConfigMapKey string string bool | FieldSource

record env_var =
  ev_name :: string
  ev_value :: string
  ev_from :: "env_source option"

datatype host_path_type = HostPathFile | HostPathDirectoryOrCreate

datatype propagation = HostToContainer | Bidirectional

datatype volume_source =
    ClaimVolume string bool
  | HostPath string host_path_type
  | EmptyDir
  | ConfigMapVolume string
  | SecretVolume string

record volume =
  vl_name :: string
  vl_source :: volume_source

record volume_mount =
  vm_name :: string
  vm_path :: string
  vm_readOnly :: bool
  vm_subPath :: string
  vm_propagation :: "propagation option"

record security_context =
  sc_escalation :: "bool option"
  sc_readOnlyRoot :: "bool option"
  sc_drop :: "string list"
  sc_nonRoot :: "bool option"
  sc_user :: "int option"
  sc_group :: "int option"
  sc_privileged :: "bool option"
  sc_seccompUnconfined :: bool

record pod_security =
  sx_nonRoot :: "bool option"
  sx_user :: "int option"
  sx_group :: "int option"
  sx_fsGroup :: "int option"
  sx_fsGroupOnRootMismatch :: bool
  sx_seccompDefault :: bool
  sx_windowsUser :: "string option"

record exec_probe =
  pb_command :: "string list"
  pb_period :: int
  pb_timeout :: int

record container =
  ct_name :: string
  ct_image :: string
  ct_command :: "string list"
  ct_args :: "string list"
  ct_env :: "env_var list"
  ct_resources :: api_data
  ct_mounts :: "volume_mount list"
  ct_postStart :: "string list option"
  ct_preStop :: "string list option"
  ct_readiness :: "exec_probe option"
  ct_security :: "security_context option"

datatype restart_policy = RestartAlways | RestartNever

record pod_spec =
  sp_os :: "string option"
  sp_serviceAccount :: string
  sp_automount :: "bool option"
  sp_restart :: restart_policy
  sp_selector :: selector
  sp_tolerations :: "api_data list"
  sp_affinity :: "api_data option"
  sp_runtimeClass :: "string option"
  sp_security :: "pod_security option"
  sp_init :: "container list"
  sp_containers :: "container list"
  sp_volumes :: "volume list"
  sp_priorityClass :: string
  sp_serviceLinks :: "bool option"
  sp_nodeName :: string
  sp_grace :: "int option"

text \<open>The status of a Pod: its conditions, and of every container how it ended, how it ended before and why it waits.\<close>

record pod_condition =
  pc_type :: string
  pc_status :: cond_status
  pc_reason :: string
  pc_message :: string

record terminated =
  tm_exitCode :: int
  tm_signal :: int
  tm_reason :: string
  tm_finishedAt :: time
  tm_message :: string

record container_state =
  cn_name :: string
  cn_terminated :: "terminated option"
  cn_lastTerminated :: "terminated option"
  cn_waiting :: "(string \<times> string) option"

record spec_pod = kobj +
  po_phase :: pod_phase
  po_reason :: string
  po_message :: string
  po_conditions :: "pod_condition list"
  po_initStatuses :: "container_state list"
  po_statuses :: "container_state list"
  po_spec :: pod_spec

definition zero_container :: container where
  "zero_container =
     \<lparr>ct_name = [], ct_image = [], ct_command = [], ct_args = [], ct_env = [], ct_resources = [], ct_mounts = [],
      ct_postStart = None, ct_preStop = None, ct_readiness = None, ct_security = None\<rparr>"

definition zero_mount :: volume_mount where
  "zero_mount = \<lparr>vm_name = [], vm_path = [], vm_readOnly = False, vm_subPath = [], vm_propagation = None\<rparr>"

section \<open>Security\<close>

definition AgentUserID :: int where "AgentUserID = 1000"

definition AgentPodSecurityContext :: pod_security where
  "AgentPodSecurityContext =
     \<lparr>sx_nonRoot = Some True, sx_user = Some AgentUserID, sx_group = Some AgentUserID, sx_fsGroup = Some AgentUserID,
      sx_fsGroupOnRootMismatch = True, sx_seccompDefault = True, sx_windowsUser = None\<rparr>"

definition PodSecurityContext :: "string \<Rightarrow> pod_security option" where
  "PodSecurityContext os =
     (if os = ''darwin'' then None
      else if os = ''windows''
      then Some \<lparr>sx_nonRoot = None, sx_user = None, sx_group = None, sx_fsGroup = None, sx_fsGroupOnRootMismatch = False,
                 sx_seccompDefault = False, sx_windowsUser = Some ''ContainerAdministrator''\<rparr>
      else Some AgentPodSecurityContext)"

definition ContainerSecurityContext :: "string \<Rightarrow> security_context option" where
  "ContainerSecurityContext os =
     (if os = ''darwin'' then None
      else if os = ''windows'' then None
      else Some \<lparr>sc_escalation = Some False, sc_readOnlyRoot = Some False, sc_drop = [''ALL''], sc_nonRoot = None,
                 sc_user = None, sc_group = None, sc_privileged = None, sc_seccompUnconfined = False\<rparr>)"

section \<open>Platforms\<close>

record placement =
  pl_selector :: selector
  pl_tolerations :: "api_data list"
  pl_affinity :: "api_data option"
  pl_runtimeClass :: "string option"

record layout =
  ly_home :: string
  ly_run :: string
  ly_executable :: string
  ly_endpoint :: string

record platform =
  pf_os :: string
  pf_layout :: layout
  pf_placement :: placement

definition Linux :: string where "Linux = ''linux''"
definition Windows :: string where "Windows = ''windows''"
definition Darwin :: string where "Darwin = ''darwin''"
definition LabelOSStable :: string where "LabelOSStable = ''kubernetes.io/os''"

definition runtimeContainerName :: string where "runtimeContainerName = ''rc-kube''"
definition RCKubeDirectory :: string where "RCKubeDirectory = ''/opt/rc/bin''"
definition RCKubeExecutable :: string where "RCKubeExecutable = RCKubeDirectory @ ''/'' @ runtimeContainerName"
definition darwinHome :: string where "darwinHome = ''/Volumes/My Shared Files/home''"

definition backslash :: char where "backslash = CHR 0x5C"

text \<open>\<^verbatim>\<open>strings.ReplaceAll(s, "/", `\`)\<close>.\<close>

definition backslashes :: "string \<Rightarrow> string" where
  "backslashes s = map (\<lambda>c. if c = CHR ''/'' then backslash else c) s"

definition os_layout :: "string \<Rightarrow> layout option" where
  "os_layout os =
     (if os = Linux
      then Some \<lparr>ly_home = ''/home/agent'', ly_run = ''/run/rc'', ly_executable = RCKubeExecutable, ly_endpoint = ''/run/rc/rc-kube.sock''\<rparr>
      else if os = Windows
      then Some \<lparr>ly_home = backslashes ''C:/home/agent'', ly_run = backslashes ''C:/run/rc'', ly_executable = ''rc-kube.exe'',
                 ly_endpoint = backslashes ''//./pipe/rc-kube''\<rparr>
      else if os = Darwin
      then let run = Join [darwinHome, ''.rc'', ''run'']
           in Some \<lparr>ly_home = darwinHome, ly_run = run, ly_executable = ''/usr/local/bin/rc-kube'', ly_endpoint = Join [run, ''rc-kube.sock'']\<rparr>
      else None)"

definition selected :: "selector \<Rightarrow> string \<Rightarrow> string" where
  "selected m k = (case m k of None \<Rightarrow> [] | Some v \<Rightarrow> v)"

definition platform_Resolve :: "string \<Rightarrow> placement \<Rightarrow> platform result" where
  "platform_Resolve os placement =
     (let osName = (if os = [] then Linux else os)
      in case os_layout osName of
           None \<Rightarrow> Inl (EWrap osName EUnsupportedOS)
         | Some targetLayout \<Rightarrow>
             let wanted = selected (pl_selector placement) LabelOSStable
             in if wanted \<noteq> [] \<and> wanted \<noteq> osName
                then Inl (EWrap (''runtime is '' @ osName @ '' but selector requires '' @ wanted) EPlacementConflict)
                else Inr \<lparr>pf_os = osName, pf_layout = targetLayout,
                          pf_placement = placement\<lparr>pl_selector := (pl_selector placement)(LabelOSStable \<mapsto> osName)\<rparr>\<rparr>)"

definition injectsRCKube :: "spec_pod \<Rightarrow> bool" where
  "injectsRCKube pod =
     (case find (\<lambda>c. ct_name c = runtimeContainerName) (sp_containers (po_spec pod)) of
        None \<Rightarrow> False
      | Some c \<Rightarrow> (case ct_command c of [] \<Rightarrow> False | x # _ \<Rightarrow> x = RCKubeExecutable))"

definition imageExecutable :: string where "imageExecutable = runtimeContainerName"

definition pod_placement :: "spec_pod \<Rightarrow> placement" where
  "pod_placement pod =
     \<lparr>pl_selector = sp_selector (po_spec pod), pl_tolerations = sp_tolerations (po_spec pod),
      pl_affinity = sp_affinity (po_spec pod), pl_runtimeClass = sp_runtimeClass (po_spec pod)\<rparr>"

definition FromPod :: "spec_pod \<Rightarrow> platform result" where
  "FromPod pod =
     (let osName = (case sp_os (po_spec pod) of Some n \<Rightarrow> n | None \<Rightarrow> selected (sp_selector (po_spec pod)) LabelOSStable)
      in case platform_Resolve osName (pod_placement pod) of
           Inl e \<Rightarrow> Inl e
         | Inr rt \<Rightarrow>
             Inr (if pf_os rt = Linux \<and> \<not> injectsRCKube pod
                  then rt\<lparr>pf_layout := (pf_layout rt)\<lparr>ly_executable := imageExecutable\<rparr>\<rparr> else rt))"

definition platform_join :: "platform \<Rightarrow> string list \<Rightarrow> string" where
  "platform_join rt parts = (let joined = Join parts in if pf_os rt = Windows then backslashes joined else joined)"

definition MountPath :: "platform \<Rightarrow> string \<Rightarrow> string" where
  "MountPath rt location = (if pf_os rt = Windows then ''C:'' @ backslashes location else location)"

definition ConfigMapMountPath :: "platform \<Rightarrow> string \<Rightarrow> string" where
  "ConfigMapMountPath rt name = platform_join rt [ly_run (pf_layout rt), ''configmaps'', name]"

definition SecretMountPath :: "platform \<Rightarrow> string \<Rightarrow> string" where
  "SecretMountPath rt name = platform_join rt [ly_run (pf_layout rt), ''secrets'', name]"

section \<open>Process requests\<close>

record process_target =
  tg_namespace :: string
  tg_pod :: string
  tg_container :: string
  tg_executable :: string
  tg_endpoint :: string

definition ProcessTarget :: "platform \<Rightarrow> string \<Rightarrow> string \<Rightarrow> string \<Rightarrow> process_target" where
  "ProcessTarget rt namespace pod container =
     \<lparr>tg_namespace = namespace, tg_pod = pod, tg_container = container, tg_executable = ly_executable (pf_layout rt),
      tg_endpoint = ly_endpoint (pf_layout rt)\<rparr>"

datatype default_directory = WorkspaceDirectory | HomeDirectory

record process_intent =
  pi_id :: string
  pi_uid :: string
  pi_command :: "string list"
  pi_workingDirectory :: string
  pi_defaultDirectory :: default_directory
  pi_tty :: bool
  pi_environment :: "(string \<times> string) list"
  pi_agent :: "(string \<times> string) option"
  pi_credentialFiles :: "(string \<times> string) list"
  pi_credentialMounts :: "(string \<times> string) list"
  pi_exposeCredentials :: bool
  pi_sshConfigFragments :: "(string \<times> string) list"
  pi_stdin :: bool

definition Process :: "process_intent \<Rightarrow> start_request" where
  "Process p =
     \<lparr>rq_id = pi_id p, rq_uid = pi_uid p, rq_command = pi_command p, rq_workingDirectory = pi_workingDirectory p,
      rq_defaultDirectory = (if pi_defaultDirectory p = HomeDirectory then ''home'' else ''workspace''),
      rq_tty = pi_tty p, rq_stdin = pi_stdin p, rq_environment = pi_environment p,
      rq_agent = (case pi_agent p of
                    None \<Rightarrow> None
                  | Some (t, c) \<Rightarrow> if t = [] then None else Some (t, if c = [] then ''default'' else c)),
      rq_exposeCredentials = pi_exposeCredentials p, rq_credentialFiles = pi_credentialFiles p,
      rq_credentialMounts = pi_credentialMounts p, rq_sshConfigFragments = pi_sshConfigFragments p\<rparr>"

section \<open>Workspace Pods\<close>

record action =
  ac_command :: "string list"
  ac_script :: string
  ac_workingDirectory :: string

text \<open>\<^verbatim>\<open>lifecycle.Encode\<close> and \<^verbatim>\<open>EncodeServices\<close>.\<close>

record codec =
  cd_actions :: "action list \<Rightarrow> string result"
  cd_services :: "service list \<Rightarrow> string result"

record initializer =
  in_name :: string
  in_image :: string
  in_action :: action

record workspace_intent =
  wi_metadata :: kobj
  wi_image :: string
  wi_homeClaim :: string
  wi_homeHostPath :: string
  wi_transcriptScope :: string
  wi_hotMountRoot :: string
  wi_serviceAccount :: string
  wi_automountToken :: bool
  wi_resources :: api_data
  wi_volumes :: "volume list"
  wi_mounts :: "volume_mount list"
  wi_initializers :: "initializer list"
  wi_beforeStop :: "action list"
  wi_priorityClass :: string
  wi_services :: "service list"
  wi_serviceEnvironment :: "env_var list"
  wi_lxcfsDir :: string
  wi_rcKubeImage :: string

definition homeVolumeName :: string where "homeVolumeName = ''home''"
definition runtimeVolumeName :: string where "runtimeVolumeName = ''rc-runtime''"
definition rcKubeVolumeName :: string where "rcKubeVolumeName = ''rc-kube-bin''"
definition RCKubeInstallContainerName :: string where "RCKubeInstallContainerName = ''rc-kube-install''"
definition sudoersContainerName :: string where "sudoersContainerName = ''configure-sudo''"
definition sudoersVolumeName :: string where "sudoersVolumeName = ''sudoers''"
definition sudoersMountPath :: string where "sudoersMountPath = ''/etc/sudoers.d''"
definition sudoersFilePath :: string where "sudoersFilePath = sudoersMountPath @ ''/agent''"
definition sudoersRule :: string where "sudoersRule = ''agent ALL=(ALL:ALL) NOPASSWD:ALL''"
definition LXCFSVolumePrefix :: string where "LXCFSVolumePrefix = ''lxcfs-''"
definition HideKubernetesEnvironmentFlag :: string where "HideKubernetesEnvironmentFlag = ''hide-kubernetes-environment''"

definition rcKubeInjection :: "string \<Rightarrow> (container \<times> volume \<times> volume_mount) result" where
  "rcKubeInjection img =
     (if img = [] then Inl (EMsg ''linux runtime Pods require an rc-kube image'')
      else let mount = zero_mount\<lparr>vm_name := rcKubeVolumeName, vm_path := RCKubeDirectory\<rparr>
           in Inr (zero_container\<lparr>ct_name := RCKubeInstallContainerName, ct_image := img,
                     ct_command := [''/usr/local/bin/rc-kube'', ''install'', RCKubeDirectory], ct_mounts := [mount],
                     ct_security := ContainerSecurityContext Linux\<rparr>,
                   \<lparr>vl_name = rcKubeVolumeName, vl_source = EmptyDir\<rparr>, mount\<lparr>vm_readOnly := True\<rparr>))"

definition lxcfsFiles :: "string list" where
  "lxcfsFiles = [''/proc/cpuinfo'', ''/proc/meminfo'', ''/proc/stat'', ''/proc/uptime'', ''/proc/loadavg'', ''/proc/diskstats'',
     ''/proc/swaps'', ''/sys/devices/system/cpu/online'']"

definition lxcfs_name :: "string \<Rightarrow> string" where
  "lxcfs_name file =
     LXCFSVolumePrefix @ map (\<lambda>c. if c = CHR ''/'' then CHR ''-'' else c) (if has_prefix ''/'' file then tl file else file)"

definition lxcfsVolumes :: "string \<Rightarrow> volume list \<times> volume_mount list" where
  "lxcfsVolumes dir =
     (if dir = [] then ([], [])
      else (map (\<lambda>file. \<lparr>vl_name = lxcfs_name file, vl_source = HostPath (Join [dir, file]) HostPathFile\<rparr>) lxcfsFiles,
            map (\<lambda>file. zero_mount\<lparr>vm_name := lxcfs_name file, vm_path := file, vm_readOnly := True\<rparr>) lxcfsFiles))"

definition readinessProbe :: "platform \<Rightarrow> exec_probe" where
  "readinessProbe rt =
     \<lparr>pb_command = [ly_executable (pf_layout rt), ''health'', ''--socket'', ly_endpoint (pf_layout rt)], pb_period = 5, pb_timeout = 3\<rparr>"

definition podSpec ::
  "platform \<Rightarrow> string \<Rightarrow> bool \<Rightarrow> restart_policy \<Rightarrow> container list \<Rightarrow> container list \<Rightarrow> volume list \<Rightarrow> pod_spec" where
  "podSpec rt serviceAccount automount restart inits containers volumes =
     \<lparr>sp_os = (if pf_os rt \<noteq> Darwin then Some (pf_os rt) else None), sp_serviceAccount = serviceAccount,
      sp_automount = Some automount, sp_restart = restart, sp_selector = pl_selector (pf_placement rt),
      sp_tolerations = pl_tolerations (pf_placement rt), sp_affinity = pl_affinity (pf_placement rt),
      sp_runtimeClass = pl_runtimeClass (pf_placement rt), sp_security = PodSecurityContext (pf_os rt),
      sp_init = inits, sp_containers = containers, sp_volumes = volumes, sp_priorityClass = [], sp_serviceLinks = None,
      sp_nodeName = [], sp_grace = None\<rparr>"

definition new_pod :: "kobj \<Rightarrow> pod_spec \<Rightarrow> spec_pod" where
  "new_pod metadata spec = kobj.extend metadata (spec_pod.fields PodPending [] [] [] [] [] spec)"

text \<open>The volumes and the mounts of a Workspace, in the order of the code.\<close>

definition hot_volumes :: "string \<Rightarrow> volume list" where
  "hot_volumes root =
     (if root = [] then []
      else [\<lparr>vl_name = ''hot-worktrees'', vl_source = HostPath (root @ ''/visible'') HostPathDirectoryOrCreate\<rparr>,
            \<lparr>vl_name = ''hot-worktree-roots'', vl_source = HostPath (root @ ''/roots'') HostPathDirectoryOrCreate\<rparr>])"

definition hot_mounts :: "platform \<Rightarrow> string \<Rightarrow> volume_mount list" where
  "hot_mounts rt root =
     (if root = [] then []
      else [zero_mount\<lparr>vm_name := ''hot-worktrees'', vm_path := MountPath rt ''/workspace'', vm_propagation := Some HostToContainer\<rparr>,
            zero_mount\<lparr>vm_name := ''hot-worktree-roots'', vm_path := MountPath rt ''/mnt/rc/worktrees'', vm_propagation := Some HostToContainer\<rparr>])"

definition workspace_volumes :: "workspace_intent \<Rightarrow> volume list \<Rightarrow> volume list" where
  "workspace_volumes i injected =
     [\<lparr>vl_name = homeVolumeName, vl_source = ClaimVolume (wi_homeClaim i) False\<rparr>] @ hot_volumes (wi_hotMountRoot i) @
     wi_volumes i @ fst (lxcfsVolumes (wi_lxcfsDir i)) @ [\<lparr>vl_name = runtimeVolumeName, vl_source = EmptyDir\<rparr>] @ injected"

definition workspace_mounts :: "platform \<Rightarrow> workspace_intent \<Rightarrow> volume_mount list \<Rightarrow> volume_mount list" where
  "workspace_mounts rt i injected =
     [zero_mount\<lparr>vm_name := homeVolumeName, vm_path := ly_home (pf_layout rt)\<rparr>] @ hot_mounts rt (wi_hotMountRoot i) @
     wi_mounts i @ snd (lxcfsVolumes (wi_lxcfsDir i)) @
     [zero_mount\<lparr>vm_name := runtimeVolumeName, vm_path := ly_run (pf_layout rt)\<rparr>] @ injected"

text \<open>What a Linux runtime without a Service Account token adds to every rc-kube command.\<close>

definition runtime_flags :: "platform \<Rightarrow> workspace_intent \<Rightarrow> string list" where
  "runtime_flags rt i =
     (if pf_os rt = Linux \<and> \<not> wi_automountToken i then [''--'' @ HideKubernetesEnvironmentFlag] else [])"

definition lifecycleCommandLine :: "platform \<Rightarrow> workspace_intent \<Rightarrow> string \<Rightarrow> string list" where
  "lifecycleCommandLine rt i encoded =
     [ly_executable (pf_layout rt), ''lifecycle''] @ runtime_flags rt i @ [''--actions'', encoded]"

fun initializer_containers ::
  "codec \<Rightarrow> platform \<Rightarrow> workspace_intent \<Rightarrow> volume_mount list \<Rightarrow> initializer list \<Rightarrow> container list result" where
  "initializer_containers cd rt i mounts [] = Inr []"
| "initializer_containers cd rt i mounts (x # xs) =
     (if in_image x = [] then Inl (EMsg (''workspace initializer '' @ in_name x @ '' has no runtime image''))
      else case cd_actions cd [in_action x] of
             Inl e \<Rightarrow> Inl (EWrap (''encode Workspace initializer '' @ in_name x) e)
           | Inr encoded \<Rightarrow>
               (case initializer_containers cd rt i mounts xs of
                  Inl e \<Rightarrow> Inl e
                | Inr cs \<Rightarrow> Inr (zero_container\<lparr>ct_name := in_name x, ct_image := in_image x,
                                   ct_command := lifecycleCommandLine rt i encoded, ct_mounts := mounts,
                                   ct_security := ContainerSecurityContext (pf_os rt)\<rparr> # cs)))"

text \<open>The preStop hook.\<close>

definition before_stop :: "codec \<Rightarrow> platform \<Rightarrow> workspace_intent \<Rightarrow> string list option result" where
  "before_stop cd rt i =
     (if wi_beforeStop i = [] then Inr None
      else case cd_actions cd (wi_beforeStop i) of
             Inl e \<Rightarrow> Inl (EWrap ''encode Workspace beforeStop actions'' e)
           | Inr encoded \<Rightarrow> Inr (Some (lifecycleCommandLine rt i encoded)))"

definition serve_args :: "codec \<Rightarrow> platform \<Rightarrow> workspace_intent \<Rightarrow> string list result" where
  "serve_args cd rt i =
     (let base = [''--socket'', ly_endpoint (pf_layout rt), ''--state-dir'',
                  platform_join rt [ly_home (pf_layout rt), ''.rc'', ''processes'']] @ runtime_flags rt i @
                 (if wi_transcriptScope i \<noteq> [] then [''--transcript-scope'', wi_transcriptScope i] else [])
      in if wi_services i = [] then Inr base
         else case cd_services cd (wi_services i) of
                Inl e \<Rightarrow> Inl (EWrap ''encode Workspace services'' e)
              | Inr encoded \<Rightarrow> Inr (base @ [''--services'', encoded]))"

text \<open>The runtime container; on Windows the command becomes arguments and the initializers run in the container.\<close>

definition windows_container :: "codec \<Rightarrow> workspace_intent \<Rightarrow> container \<Rightarrow> container result" where
  "windows_container cd i c =
     (let moved = c\<lparr>ct_args := ct_command c @ ct_args c, ct_command := []\<rparr>; actions = map in_action (wi_initializers i)
      in if actions = [] then Inr moved
         else case cd_actions cd actions of
                Inl e \<Rightarrow> Inl (EWrap ''encode Windows Workspace initializers'' e)
              | Inr encoded \<Rightarrow> Inr (moved\<lparr>ct_args := ct_args moved @ [''--initialize-actions'', encoded]\<rparr>))"

definition runtime_container ::
  "platform \<Rightarrow> workspace_intent \<Rightarrow> volume_mount list \<Rightarrow> string list option \<Rightarrow> string list \<Rightarrow> container" where
  "runtime_container rt i mounts preStop args =
     \<lparr>ct_name = runtimeContainerName, ct_image = wi_image i, ct_command = [ly_executable (pf_layout rt), ''serve''], ct_args = args,
      ct_env = wi_serviceEnvironment i, ct_resources = wi_resources i, ct_mounts = mounts, ct_postStart = None, ct_preStop = preStop,
      ct_readiness = Some (readinessProbe rt), ct_security = ContainerSecurityContext (pf_os rt)\<rparr>"

definition workspace_pod :: "platform \<Rightarrow> workspace_intent \<Rightarrow> container list \<Rightarrow> container \<Rightarrow> volume list \<Rightarrow> spec_pod" where
  "workspace_pod rt i inits c volumes =
     new_pod (wi_metadata i)
       ((podSpec rt (wi_serviceAccount i) (wi_automountToken i) RestartAlways inits [c] volumes)\<lparr>
          sp_priorityClass := wi_priorityClass i, sp_serviceLinks := (if pf_os rt = Linux then Some False else None)\<rparr>)"

text \<open>The second half of \<^verbatim>\<open>WorkspacePod\<close>, with what a Linux Pod injects.\<close>

definition compile_workspace ::
  "codec \<Rightarrow> platform \<Rightarrow> workspace_intent \<Rightarrow> container list \<Rightarrow> volume list \<Rightarrow> volume_mount list \<Rightarrow> spec_pod result" where
  "compile_workspace cd rt i install volumes rcKubeMounts =
     (let mounts = workspace_mounts rt i rcKubeMounts
      in case initializer_containers cd rt i mounts (wi_initializers i) of
           Inl e \<Rightarrow> Inl e
         | Inr inits \<Rightarrow>
             (case before_stop cd rt i of
                Inl e \<Rightarrow> Inl e
              | Inr preStop \<Rightarrow>
                  (case serve_args cd rt i of
                     Inl e \<Rightarrow> Inl e
                   | Inr args \<Rightarrow>
                       let c = runtime_container rt i mounts preStop args
                       in if pf_os rt = Windows
                          then (case windows_container cd i c of
                                  Inl e \<Rightarrow> Inl e
                                | Inr c' \<Rightarrow> Inr (workspace_pod rt i [] c' (workspace_volumes i volumes)))
                          else Inr (workspace_pod rt i (install @ inits) c (workspace_volumes i volumes)))))"

text \<open>\<^verbatim>\<open>fmt.Sprintf("%q", s)\<close> of printable ASCII text.\<close>

definition go_quote :: "string \<Rightarrow> string" where
  "go_quote s = [CHR 0x22] @ concat (map (\<lambda>c. if c = CHR 0x22 \<or> c = backslash then [backslash, c] else [c]) s) @ [CHR 0x22]"

abbreviation newline :: string where "newline \<equiv> [CHR 0x0A]"

definition darwin_startup :: "platform \<Rightarrow> string option \<Rightarrow> string" where
  "darwin_startup rt encoded =
     (let ly = pf_layout rt; state = platform_join rt [ly_home ly, ''.rc'', ''processes''];
          log = platform_join rt [ly_home ly, ''.rc'', ''rc-kube.log''];
          exe = go_quote (ly_executable ly); endpoint = go_quote (ly_endpoint ly);
          health = exe @ '' health --socket '' @ endpoint @ '' >/dev/null 2>&1; ''
      in ''set -eu'' @ newline @ ''mkdir -p '' @ go_quote (ly_run ly) @ '' '' @ go_quote state @ newline @
         (case encoded of None \<Rightarrow> [] | Some e \<Rightarrow> exe @ '' lifecycle --actions '' @ go_quote e @ newline) @
         ''if ! '' @ health @ ''then'' @ newline @
         ''  nohup '' @ exe @ '' serve --socket '' @ endpoint @ '' --state-dir '' @ go_quote state @ '' >'' @ go_quote log @
           '' 2>&1 </dev/null &'' @ newline @
         ''fi'' @ newline @ ''attempt=0'' @ newline @ ''until '' @ health @ ''do'' @ newline @
         ''  attempt=$((attempt + 1))'' @ newline @
         ''  [ '' @ [CHR 0x22] @ ''$attempt'' @ [CHR 0x22] @ '' -lt 8 ] || exit 1'' @ newline @
         ''  sleep 1'' @ newline @ ''done'' @ newline)"

definition darwinWorkspacePod :: "codec \<Rightarrow> platform \<Rightarrow> workspace_intent \<Rightarrow> spec_pod result" where
  "darwinWorkspacePod cd rt i =
     (if wi_homeHostPath i = [] then Inl (EMsg ''darwin Workspace home host path is required'')
      else let actions = map in_action (wi_initializers i)
           in case cd_actions cd actions of
                Inl e \<Rightarrow> Inl (EWrap ''encode Darwin Workspace initializers'' e)
              | Inr encoded \<Rightarrow>
                  let startup = darwin_startup rt (if actions = [] then None else Some encoded);
                      c = zero_container\<lparr>ct_name := runtimeContainerName, ct_image := wi_image i, ct_resources := wi_resources i,
                            ct_env := [\<lparr>ev_name = ''MACOS_VZ_KUBERNETES_EXEC_ARGV'', ev_value = ''1'', ev_from = None\<rparr>],
                            ct_mounts := [zero_mount\<lparr>vm_name := homeVolumeName, vm_path := ly_home (pf_layout rt)\<rparr>],
                            ct_postStart := Some [''/bin/sh'', ''-c'', startup]\<rparr>;
                      volumes = [\<lparr>vl_name = homeVolumeName, vl_source = HostPath (wi_homeHostPath i) HostPathDirectoryOrCreate\<rparr>];
                      pod = (\<lambda>c. new_pod (wi_metadata i) ((podSpec rt (wi_serviceAccount i) (wi_automountToken i) RestartAlways [] [c] volumes)
                                   \<lparr>sp_priorityClass := wi_priorityClass i\<rparr>))
                  in if wi_beforeStop i = [] then Inr (pod c)
                     else case cd_actions cd (wi_beforeStop i) of
                            Inl e \<Rightarrow> Inl (EWrap ''encode Darwin Workspace beforeStop actions'' e)
                          | Inr stop \<Rightarrow> Inr (pod (c\<lparr>ct_preStop := Some [ly_executable (pf_layout rt), ''lifecycle'', ''--actions'', stop]\<rparr>)))"

definition WorkspacePod :: "codec \<Rightarrow> platform \<Rightarrow> workspace_intent \<Rightarrow> spec_pod result" where
  "WorkspacePod cd rt i =
     (if wi_lxcfsDir i \<noteq> [] \<and> pf_os rt \<noteq> Linux then Inl (EMsg ''LXCFS mounts require a Linux runtime'')
      else if pf_os rt = Darwin
      then (if wi_services i \<noteq> [] then Inl (EMsg ''darwin Workspace runtimes do not support services'')
            else darwinWorkspacePod cd rt i)
      else if wi_hotMountRoot i \<noteq> [] \<and> pf_os rt \<noteq> Linux then Inl (EMsg ''hot Worktree mounts require a Linux runtime'')
      else if pf_os rt = Linux
      then (case rcKubeInjection (wi_rcKubeImage i) of
              Inl e \<Rightarrow> Inl e
            | Inr (install, v, mount) \<Rightarrow> compile_workspace cd rt i [install] [v] [mount])
      else compile_workspace cd rt i [] [] [])"

section \<open>Editor and reader Pods\<close>

record editor_intent =
  ei_metadata :: kobj
  ei_image :: string
  ei_homeClaim :: string
  ei_serviceAccount :: string
  ei_transcriptScope :: string
  ei_rcKubeImage :: string

definition editor_container :: "platform \<Rightarrow> editor_intent \<Rightarrow> container" where
  "editor_container rt i =
     zero_container\<lparr>ct_name := runtimeContainerName, ct_image := ei_image i,
       ct_command := [ly_executable (pf_layout rt), ''serve''],
       ct_args := [''--socket'', ly_endpoint (pf_layout rt), ''--state-dir'',
                   platform_join rt [ly_home (pf_layout rt), ''.rc'', ''processes'']] @
                  (if ei_transcriptScope i \<noteq> [] then [''--transcript-scope'', ei_transcriptScope i] else []),
       ct_mounts := [zero_mount\<lparr>vm_name := homeVolumeName, vm_path := ly_home (pf_layout rt)\<rparr>,
                     zero_mount\<lparr>vm_name := runtimeVolumeName, vm_path := ly_run (pf_layout rt)\<rparr>],
       ct_readiness := Some (readinessProbe rt), ct_security := ContainerSecurityContext (pf_os rt)\<rparr>"

definition sudoers_container :: "string \<Rightarrow> container" where
  "sudoers_container img =
     zero_container\<lparr>ct_name := sudoersContainerName, ct_image := img, ct_command := [''/bin/sh'', ''-ec''],
       ct_args := [''chgrp 0 '' @ sudoersMountPath @ '' && chmod 0755 '' @ sudoersMountPath @ '' && printf '' @ [CHR 0x27] @ ''%s'' @
                   [backslash] @ ''n'' @ [CHR 0x27] @ '' '' @ go_quote sudoersRule @ '' > '' @ sudoersFilePath @ '' && chgrp 0 '' @
                   sudoersFilePath @ '' && chmod 0440 '' @ sudoersFilePath],
       ct_security := Some \<lparr>sc_escalation = Some False, sc_readOnlyRoot = None, sc_drop = [''ALL''], sc_nonRoot = Some False,
                            sc_user = Some 0, sc_group = Some 0, sc_privileged = None, sc_seccompUnconfined = False\<rparr>,
       ct_mounts := [zero_mount\<lparr>vm_name := sudoersVolumeName, vm_path := sudoersMountPath\<rparr>]\<rparr>"

definition EnvironmentEditorPod :: "platform \<Rightarrow> editor_intent \<Rightarrow> spec_pod result" where
  "EnvironmentEditorPod rt i =
     (let c = editor_container rt i;
          volumes = [\<lparr>vl_name = homeVolumeName, vl_source = ClaimVolume (ei_homeClaim i) False\<rparr>,
                     \<lparr>vl_name = runtimeVolumeName, vl_source = EmptyDir\<rparr>];
          pod = (\<lambda>inits c volumes. new_pod (ei_metadata i) (podSpec rt (ei_serviceAccount i) True RestartAlways inits [c] volumes))
      in if pf_os rt = Windows
         then Inr (pod [] (c\<lparr>ct_args := ct_command c @ ct_args c, ct_command := []\<rparr>) volumes)
         else case rcKubeInjection (ei_rcKubeImage i) of
                Inl e \<Rightarrow> Inl e
              | Inr (install, v, mount) \<Rightarrow>
                  Inr (pod [install, sudoers_container (ei_image i)]
                     (c\<lparr>ct_security := Some \<lparr>sc_escalation = Some True, sc_readOnlyRoot = None, sc_drop = [], sc_nonRoot = None,
                                             sc_user = None, sc_group = None, sc_privileged = None, sc_seccompUnconfined = False\<rparr>,
                        ct_mounts := ct_mounts c @ [mount, zero_mount\<lparr>vm_name := sudoersVolumeName, vm_path := sudoersMountPath, vm_readOnly := True\<rparr>]\<rparr>)
                     (volumes @ [v, \<lparr>vl_name = sudoersVolumeName, vl_source = EmptyDir\<rparr>])))"

record transcript_intent =
  ti_metadata :: kobj
  ti_image :: string
  ti_homeClaim :: string
  ti_processID :: string

definition platform_imageExecutable :: "platform \<Rightarrow> string" where
  "platform_imageExecutable rt = (if pf_os rt = Linux then imageExecutable else ly_executable (pf_layout rt))"

definition TranscriptReaderPod :: "platform \<Rightarrow> transcript_intent \<Rightarrow> spec_pod result" where
  "TranscriptReaderPod rt i =
     (if ti_processID i = [] then Inl (EMsg ''transcript process ID is required'')
      else let c = zero_container\<lparr>ct_name := ''reader'', ct_image := ti_image i,
                     ct_command := [platform_imageExecutable rt, ''transcript'', ti_processID i],
                     ct_mounts := [zero_mount\<lparr>vm_name := homeVolumeName, vm_path := ly_home (pf_layout rt), vm_readOnly := True\<rparr>],
                     ct_security := ContainerSecurityContext (pf_os rt)\<rparr>;
               v = \<lparr>vl_name = homeVolumeName, vl_source = ClaimVolume (ti_homeClaim i) True\<rparr>
           in Inr (new_pod (ti_metadata i) (podSpec rt [] False RestartNever [] [c] [v])))"

section \<open>From a Pod back to its platform\<close>

lemma os_layout_known: "os_layout os = Some ly \<Longrightarrow> os \<noteq> [] \<and> os \<in> {Linux, Windows, Darwin}"
  by (auto simp: os_layout_def Linux_def Windows_def Darwin_def Let_def split: if_splits)

lemma os_names [simp]: "Linux \<noteq> Windows" "Linux \<noteq> Darwin" "Windows \<noteq> Darwin" "Windows \<noteq> Linux" "Darwin \<noteq> Linux" "Darwin \<noteq> Windows"
  by (simp_all add: Linux_def Windows_def Darwin_def)

lemma Resolve_ok:
  assumes "platform_Resolve os pl = Inr rt"
  shows "os_layout (pf_os rt) = Some (pf_layout rt)" "pl_selector (pf_placement rt) LabelOSStable = Some (pf_os rt)"
    "pf_os rt \<noteq> []" "pf_os rt \<in> {Linux, Windows, Darwin}"
  using assms os_layout_known by (fastforce simp: platform_Resolve_def Let_def split: option.splits if_splits)+

lemma Resolve_again:
  assumes "platform_Resolve os pl = Inr rt"
  shows "platform_Resolve (pf_os rt) (pf_placement rt) = Inr rt"
  using Resolve_ok [OF assms] by (auto simp: platform_Resolve_def selected_def Let_def fun_upd_idem)

text \<open>A Pod with the placement of the platform gives the platform back, up to the executable of a Linux Pod.\<close>

definition placed :: "platform \<Rightarrow> spec_pod \<Rightarrow> bool" where
  "placed rt pod \<longleftrightarrow> pod_placement pod = pf_placement rt \<and> sp_os (po_spec pod) = (if pf_os rt \<noteq> Darwin then Some (pf_os rt) else None)"

lemma FromPod_placed:
  assumes "platform_Resolve os pl = Inr rt" "placed rt pod"
  shows "FromPod pod = Inr (if pf_os rt = Linux \<and> \<not> injectsRCKube pod
           then rt\<lparr>pf_layout := (pf_layout rt)\<lparr>ly_executable := imageExecutable\<rparr>\<rparr> else rt)"
proof -
  have sel: "sp_selector (po_spec pod) = pl_selector (pf_placement rt)"
    using assms(2) by (auto simp: placed_def pod_placement_def dest: arg_cong [where f = pl_selector])
  show ?thesis
    using assms(2) Resolve_again [OF assms(1)] Resolve_ok(2) [OF assms(1)]
    by (auto simp: FromPod_def placed_def selected_def sel)
qed

lemma new_pod_spec [simp]: "po_spec (new_pod md spec) = spec"
  by (simp add: new_pod_def kobj.defs spec_pod.defs)

lemma podSpec_placed:
  "placed rt (new_pod md (podSpec rt sa am rp inits cs vs))"
  "placed rt (new_pod md ((podSpec rt sa am rp inits cs vs)\<lparr>sp_priorityClass := x, sp_serviceLinks := y\<rparr>))"
  "placed rt (new_pod md ((podSpec rt sa am rp inits cs vs)\<lparr>sp_priorityClass := x\<rparr>))"
  by (simp_all add: placed_def pod_placement_def podSpec_def)

lemma linux_executable:
  assumes "platform_Resolve os pl = Inr rt" "pf_os rt = Linux"
  shows "ly_executable (pf_layout rt) = RCKubeExecutable"
proof -
  have "pf_layout rt = the (os_layout Linux)" using Resolve_ok(1) [OF assms(1)] assms(2) by simp
  then show ?thesis by (simp add: os_layout_def)
qed

lemma workspace_pod_injects:
  assumes "platform_Resolve os pl = Inr rt" "pf_os rt = Linux"
  shows "injectsRCKube (workspace_pod rt i inits (runtime_container rt i mounts preStop args) vs)"
  using linux_executable [OF assms]
  by (simp add: injectsRCKube_def workspace_pod_def runtime_container_def podSpec_def)

lemma editor_placed:
  assumes "platform_Resolve os pl = Inr rt" "EnvironmentEditorPod rt ei = Inr pod"
  shows "placed rt pod" "pf_os rt = Linux \<Longrightarrow> injectsRCKube pod"
proof -
  show "placed rt pod" using assms(2)
    by (auto simp: EnvironmentEditorPod_def Let_def podSpec_placed split: if_splits sum.splits)
  show "injectsRCKube pod" if l: "pf_os rt = Linux"
    using assms(2) l linux_executable [OF assms(1) l]
    by (auto simp: EnvironmentEditorPod_def Let_def injectsRCKube_def podSpec_def editor_container_def split: sum.splits)
qed

lemma reader_placed:
  assumes "TranscriptReaderPod rt ti = Inr pod"
  shows "placed rt pod" "\<not> injectsRCKube pod"
proof -
  show "placed rt pod" using assms by (auto simp: TranscriptReaderPod_def Let_def podSpec_placed split: if_splits)
  show "\<not> injectsRCKube pod" using assms
    by (auto simp: TranscriptReaderPod_def Let_def injectsRCKube_def podSpec_def runtimeContainerName_def split: if_splits)
qed

text \<open>A Workspace Pod is one of three: from Darwin, a Windows container, or a Linux container behind the injected rc-kube.\<close>

lemma WorkspacePod_cases:
  assumes "WorkspacePod cd rt i = Inr pod" "pf_os rt \<in> {Linux, Windows, Darwin}"
  obtains (darwin) "pf_os rt = Darwin" "darwinWorkspacePod cd rt i = Inr pod"
  | (windows) c where "pf_os rt = Windows" "pod = workspace_pod rt i [] c (workspace_volumes i [])"
  | (linux) install v mount inits preStop args where "pf_os rt = Linux"
      "rcKubeInjection (wi_rcKubeImage i) = Inr (install, v, mount)"
      "initializer_containers cd rt i (workspace_mounts rt i [mount]) (wi_initializers i) = Inr inits"
      "before_stop cd rt i = Inr preStop" "serve_args cd rt i = Inr args"
      "pod = workspace_pod rt i (install # inits) (runtime_container rt i (workspace_mounts rt i [mount]) preStop args)
               (workspace_volumes i [v])"
proof -
  consider "pf_os rt = Linux" | "pf_os rt = Windows" | "pf_os rt = Darwin" using assms(2) by blast
  then show thesis
  proof cases
    case 1
    from linux [OF 1] 1 assms(1) show ?thesis
      by (auto simp: WorkspacePod_def compile_workspace_def Let_def split: if_splits sum.splits prod.splits)
  next
    case 2
    from windows [OF 2] 2 assms(1) show ?thesis
      by (auto simp: WorkspacePod_def compile_workspace_def Let_def split: if_splits sum.splits)
  next
    case 3
    from darwin [OF 3] 3 assms(1) show ?thesis by (auto simp: WorkspacePod_def split: if_splits)
  qed
qed

lemma darwin_placed: "darwinWorkspacePod cd rt i = Inr pod \<Longrightarrow> placed rt pod"
  by (auto simp: darwinWorkspacePod_def Let_def podSpec_placed split: if_splits sum.splits)

lemma workspace_pod_placed: "placed rt (workspace_pod rt i inits c vs)"
  unfolding workspace_pod_def by (rule podSpec_placed)

lemma from_compiled_pod:
  assumes "platform_Resolve os pl = Inr rt"
  shows "WorkspacePod cd rt i = Inr pod \<Longrightarrow> FromPod pod = Inr rt"
    and "EnvironmentEditorPod rt ei = Inr pod \<Longrightarrow> FromPod pod = Inr rt"
    and "TranscriptReaderPod rt ti = Inr pod \<Longrightarrow>
           FromPod pod = Inr (rt\<lparr>pf_layout := (pf_layout rt)\<lparr>ly_executable := platform_imageExecutable rt\<rparr>\<rparr>)"
proof -
  note os = Resolve_ok(4) [OF assms]
  show "FromPod pod = Inr rt" if "WorkspacePod cd rt i = Inr pod"
    using that os
  proof (cases rule: WorkspacePod_cases)
    case darwin
    with FromPod_placed [OF assms darwin_placed] show ?thesis by simp
  next
    case windows
    with FromPod_placed [OF assms workspace_pod_placed] show ?thesis by simp
  next
    case linux
    with FromPod_placed [OF assms workspace_pod_placed] workspace_pod_injects [OF assms] show ?thesis by simp
  qed
  show "FromPod pod = Inr rt" if "EnvironmentEditorPod rt ei = Inr pod"
    using FromPod_placed [OF assms editor_placed(1) [OF assms that]] editor_placed(2) [OF assms that] by auto
  show "FromPod pod = Inr (rt\<lparr>pf_layout := (pf_layout rt)\<lparr>ly_executable := platform_imageExecutable rt\<rparr>\<rparr>)"
    if "TranscriptReaderPod rt ti = Inr pod"
    using FromPod_placed [OF assms reader_placed(1) [OF that]] reader_placed(2) [OF that]
    by (simp add: platform_imageExecutable_def)
qed

text \<open>C32: The platform survives the cluster: from a Workspace Pod or an editor Pod that was compiled for a resolved
  platform, the platform is restored exactly (layout, executable, endpoint and placement), so that later
  requests reach the rc-kube that the Pod really runs; a transcript reader gives the platform with the rc-kube of its image.\<close>

theorem platform_round_trip:
  assumes "platform_Resolve os pl = Inr rt"
  shows "(\<forall>cd i pod. WorkspacePod cd rt i = Inr pod \<longrightarrow> FromPod pod = Inr rt) \<and>
    (\<forall>ei pod. EnvironmentEditorPod rt ei = Inr pod \<longrightarrow> FromPod pod = Inr rt) \<and>
    (\<forall>ti pod. TranscriptReaderPod rt ti = Inr pod \<longrightarrow>
       FromPod pod = Inr (rt\<lparr>pf_layout := (pf_layout rt)\<lparr>ly_executable := platform_imageExecutable rt\<rparr>\<rparr>))"
  using from_compiled_pod [OF assms] by blast

section \<open>What a Workspace Pod contains\<close>

definition mounts_declared :: "volume list \<Rightarrow> volume_mount list \<Rightarrow> bool" where
  "mounts_declared vs ms \<longleftrightarrow> vm_name ` set ms \<subseteq> vl_name ` set vs"

lemma lxcfs_declared: "vm_name ` set (snd (lxcfsVolumes d)) = vl_name ` set (fst (lxcfsVolumes d))"
  by (simp add: lxcfsVolumes_def image_image)

lemma hot_declared: "vm_name ` set (hot_mounts rt r) = vl_name ` set (hot_volumes r)"
  by (simp add: hot_mounts_def hot_volumes_def)

lemma workspace_declared:
  assumes "mounts_declared (wi_volumes i) (wi_mounts i)" "mounts_declared vs ms"
  shows "mounts_declared (workspace_volumes i vs) (workspace_mounts rt i ms)"
  using assms unfolding mounts_declared_def workspace_mounts_def workspace_volumes_def
  by (simp add: image_Un lxcfs_declared hot_declared) blast

lemma initializer_containers_ok:
  "initializer_containers cd rt i mounts xs = Inr cs \<Longrightarrow> c \<in> set cs \<Longrightarrow>
   ct_mounts c = mounts \<and> ct_security c = ContainerSecurityContext (pf_os rt) \<and> ct_preStop c = None \<and>
   (\<exists>encoded. ct_command c = lifecycleCommandLine rt i encoded)"
proof (induction xs arbitrary: cs)
  case (Cons x xs)
  from Cons.prems(1) obtain encoded cs' where "initializer_containers cd rt i mounts xs = Inr cs'"
    "cs = zero_container\<lparr>ct_name := in_name x, ct_image := in_image x, ct_command := lifecycleCommandLine rt i encoded,
            ct_mounts := mounts, ct_security := ContainerSecurityContext (pf_os rt)\<rparr> # cs'"
    by (auto split: if_splits sum.splits)
  with Cons.IH [of cs'] Cons.prems(2) show ?case by (auto simp: zero_container_def)
qed simp

lemma rcKubeInjection_ok:
  "rcKubeInjection img = Inr (install, v, mount) \<Longrightarrow>
   ct_security install = ContainerSecurityContext Linux \<and> mounts_declared [v] (ct_mounts install) \<and> mounts_declared [v] [mount] \<and>
   ct_command install = [''/usr/local/bin/rc-kube'', ''install'', RCKubeDirectory] \<and> vl_name v = rcKubeVolumeName \<and>
   ct_name install = RCKubeInstallContainerName"
  by (auto simp: rcKubeInjection_def mounts_declared_def Let_def split: if_splits)

text \<open>A container with the restrictions of the agent: no privilege escalation, no capability.\<close>

definition confined :: "container \<Rightarrow> bool" where
  "confined c = (case ct_security c of None \<Rightarrow> False | Some s \<Rightarrow> sc_escalation s = Some False \<and> sc_drop s = [''ALL''])"

text \<open>The commands in a container that start processes of the Workspace.\<close>

definition workload_commands :: "container \<Rightarrow> string list list" where
  "workload_commands c = (ct_command c @ ct_args c) # (case ct_preStop c of None \<Rightarrow> [] | Some cmd \<Rightarrow> [cmd])"

lemma confined_linux: "ct_security c = ContainerSecurityContext Linux \<Longrightarrow> confined c"
  by (simp add: confined_def ContainerSecurityContext_def Linux_def)

lemma serve_args_flags: "serve_args cd rt i = Inr args \<Longrightarrow> set (runtime_flags rt i) \<subseteq> set args"
  by (auto simp: serve_args_def Let_def split: if_splits sum.splits)

lemma before_stop_flags: "before_stop cd rt i = Inr (Some cmd) \<Longrightarrow> set (runtime_flags rt i) \<subseteq> set cmd"
  by (auto simp: before_stop_def lifecycleCommandLine_def split: if_splits sum.splits)

text \<open>The containers of a Linux Workspace Pod.\<close>

definition pod_containers :: "spec_pod \<Rightarrow> container list" where
  "pod_containers pod = sp_init (po_spec pod) @ sp_containers (po_spec pod)"

lemma linux_workspace_parts:
  assumes "pf_os rt = Linux" "WorkspacePod cd rt i = Inr pod"
  obtains install v mount inits preStop args where
    "rcKubeInjection (wi_rcKubeImage i) = Inr (install, v, mount)"
    "initializer_containers cd rt i (workspace_mounts rt i [mount]) (wi_initializers i) = Inr inits"
    "before_stop cd rt i = Inr preStop" "serve_args cd rt i = Inr args"
    "pod_containers pod = install # inits @ [runtime_container rt i (workspace_mounts rt i [mount]) preStop args]"
    "sp_volumes (po_spec pod) = workspace_volumes i [v]" "sp_security (po_spec pod) = PodSecurityContext (pf_os rt)"
proof -
  have "pf_os rt \<in> {Linux, Windows, Darwin}" using assms(1) by simp
  with assms(2) show thesis
  proof (cases rule: WorkspacePod_cases)
    case (linux install v mount inits preStop args)
    show ?thesis
      by (rule that [OF linux(2-5)]) (simp_all add: linux(6) workspace_pod_def podSpec_def pod_containers_def)
  qed (use assms(1) in simp_all)
qed

lemma runtime_flagged:
  assumes "before_stop cd rt i = Inr preStop" "serve_args cd rt i = Inr args"
    "cmd \<in> set (workload_commands (runtime_container rt i mounts preStop args))"
  shows "set (runtime_flags rt i) \<subseteq> set cmd"
  using assms(3) serve_args_flags [OF assms(2)] before_stop_flags [of cd rt i] assms(1)
  by (fastforce simp: workload_commands_def runtime_container_def split: option.splits)

lemma initializer_flagged:
  assumes "initializer_containers cd rt i mounts xs = Inr cs" "c \<in> set cs" "cmd \<in> set (workload_commands c)"
  shows "set (runtime_flags rt i) \<subseteq> set cmd"
  using initializer_containers_ok [OF assms(1,2)] assms(3) by (auto simp: workload_commands_def lifecycleCommandLine_def)

lemma linux_pod_parts:
  assumes "pf_os rt = Linux" "WorkspacePod cd rt i = Inr pod"
  shows "sp_security (po_spec pod) = Some AgentPodSecurityContext"
    and "c \<in> set (pod_containers pod) \<Longrightarrow> confined c"
    and "mounts_declared (wi_volumes i) (wi_mounts i) \<Longrightarrow> c \<in> set (pod_containers pod) \<Longrightarrow>
           mounts_declared (sp_volumes (po_spec pod)) (ct_mounts c)"
    and "\<not> wi_automountToken i \<Longrightarrow> c \<in> set (pod_containers pod) \<Longrightarrow> ct_name c \<noteq> RCKubeInstallContainerName \<Longrightarrow>
           cmd \<in> set (workload_commands c) \<Longrightarrow> ''--'' @ HideKubernetesEnvironmentFlag \<in> set cmd"
proof -
  from linux_workspace_parts [OF assms] obtain install v mount inits preStop args where
      inj: "rcKubeInjection (wi_rcKubeImage i) = Inr (install, v, mount)"
    and inits: "initializer_containers cd rt i (workspace_mounts rt i [mount]) (wi_initializers i) = Inr inits"
    and stop: "before_stop cd rt i = Inr preStop" and args: "serve_args cd rt i = Inr args"
    and cs: "pod_containers pod = install # inits @ [runtime_container rt i (workspace_mounts rt i [mount]) preStop args]"
    and vols: "sp_volumes (po_spec pod) = workspace_volumes i [v]" and sec: "sp_security (po_spec pod) = PodSecurityContext (pf_os rt)"
    by metis
  note parts = rcKubeInjection_ok [OF inj] initializer_containers_ok [OF inits]
  show "sp_security (po_spec pod) = Some AgentPodSecurityContext"
    using assms(1) by (simp add: sec PodSecurityContext_def Linux_def)
  show "confined c" if "c \<in> set (pod_containers pod)"
    using that parts assms(1) by (auto intro!: confined_linux simp: cs runtime_container_def)
  show "mounts_declared (sp_volumes (po_spec pod)) (ct_mounts c)"
    if d: "mounts_declared (wi_volumes i) (wi_mounts i)" and c: "c \<in> set (pod_containers pod)"
  proof -
    have "mounts_declared (workspace_volumes i [v]) (workspace_mounts rt i [mount])"
      by (rule workspace_declared [OF d]) (use parts(1) in blast)
    moreover have "mounts_declared (workspace_volumes i [v]) (ct_mounts install)"
      using parts(1) by (auto simp: mounts_declared_def workspace_volumes_def)
    ultimately show ?thesis using c parts(2) by (auto simp: cs vols runtime_container_def)
  qed
  show "''--'' @ HideKubernetesEnvironmentFlag \<in> set cmd"
    if t: "\<not> wi_automountToken i" and "c \<in> set (pod_containers pod)" "ct_name c \<noteq> RCKubeInstallContainerName"
      and cmd: "cmd \<in> set (workload_commands c)"
  proof -
    from that(2,3) parts(1) have "c \<in> set inits \<or> c = runtime_container rt i (workspace_mounts rt i [mount]) preStop args"
      by (auto simp: cs)
    with cmd initializer_flagged [OF inits] runtime_flagged [OF stop args]
    have "set (runtime_flags rt i) \<subseteq> set cmd" by blast
    with t assms(1) show ?thesis by (simp add: runtime_flags_def)
  qed
qed


section \<open>Samples\<close>

definition sample_encoders :: codec where
  "sample_encoders = \<lparr>cd_actions = (\<lambda>as. Inr (nat_digits (length as))), cd_services = (\<lambda>vs. Inr (nat_digits (length vs)))\<rparr>"

definition sample_placement :: placement where
  "sample_placement = \<lparr>pl_selector = Map.empty, pl_tolerations = [''gpu''], pl_affinity = None, pl_runtimeClass = None\<rparr>"

definition sample_intent :: workspace_intent where
  "sample_intent =
     \<lparr>wi_metadata = blank_object ''ns'' ''dev'', wi_image = ''dev:1'', wi_homeClaim = ''dev-home'', wi_homeHostPath = [],
      wi_transcriptScope = ''workspace/u'', wi_hotMountRoot = ''/var/lib/rc'', wi_serviceAccount = ''rc'', wi_automountToken = False,
      wi_resources = [], wi_volumes = [\<lparr>vl_name = ''worktree-0'', vl_source = ClaimVolume ''wt'' False\<rparr>],
      wi_mounts = [zero_mount\<lparr>vm_name := ''worktree-0'', vm_path := ''/workspace/repo''\<rparr>],
      wi_initializers = [\<lparr>in_name = ''init-0'', in_image = ''dev:1'', in_action = \<lparr>ac_command = [''true''], ac_script = [], ac_workingDirectory = []\<rparr>\<rparr>],
      wi_beforeStop = [\<lparr>ac_command = [''sync''], ac_script = [], ac_workingDirectory = []\<rparr>], wi_priorityClass = [], wi_services = [],
      wi_serviceEnvironment = [], wi_lxcfsDir = ''/var/lib/lxcfs'', wi_rcKubeImage = ''rc-kube:1''\<rparr>"

definition sample_platform :: platform where
  "sample_platform =
     \<lparr>pf_os = Linux, pf_layout = the (os_layout Linux), pf_placement = sample_placement\<lparr>pl_selector := [LabelOSStable \<mapsto> Linux]\<rparr>\<rparr>"

lemma sample_resolved: "platform_Resolve [] sample_placement = Inr sample_platform"
  by (simp add: platform_Resolve_def os_layout_def selected_def sample_placement_def sample_platform_def Let_def Linux_def)

lemma sample_compiled: "\<exists>pod. WorkspacePod sample_encoders sample_platform sample_intent = Inr pod"
  by (simp add: WorkspacePod_def compile_workspace_def rcKubeInjection_def before_stop_def serve_args_def sample_encoders_def
      sample_platform_def sample_intent_def Let_def)

lemma platform_round_trip_witness:
  "\<exists>pod. WorkspacePod sample_encoders sample_platform sample_intent = Inr pod \<and> FromPod pod = Inr sample_platform"
  using sample_compiled platform_round_trip [OF sample_resolved] by blast


end
