(* ===== verification/WorkspaceClient.thy ===== *)
theory WorkspaceClient
  imports Platform OneShot WorkspaceAdmission
begin

text \<open>
  What the controllers of Workspaces, WorkspaceEnvironments and WorkspaceExecs share: the objects as the API has them, the
  client with the calls of a run, and the helpers on Pods, volumes and access objects
  (\<^verbatim>\<open>internal/controller/workspaces\<close>).
\<close>

section \<open>Objects\<close>

text \<open>
  A WorkspaceExec: \<^typ>\<open>workspace_exec\<close> with the rest of its spec and status. \<open>ex_env\<close> are pairs of a variable and its key
  in the Secret \<open>ex_envSecret\<close>.
\<close>

record execution = workspace_exec +
  ex_command :: "string list"
  ex_workingDirectory :: string
  ex_tty :: bool
  ex_stdin :: bool
  ex_env :: "(string \<times> string) list"
  ex_envSecret :: "string option"
  ex_agentType :: string
  ex_agentCredential :: "string option"
  ex_credentials :: "string list"
  ex_observed :: int
  ex_podName :: string
  ex_podUID :: string
  ex_startedAt :: "time option"
  ex_exitCode :: "int option"
  ex_termination :: string
  ex_attached :: int
  ex_transcript :: string
  ex_conditions :: conditions

record persistent_storage =
  pe_class :: string
  pe_size :: int
  pe_accessModes :: "string list"
  pe_volumeMode :: "string option"

text \<open>
  A Workspace: \<^typ>\<open>workspace\<close> with the rest of its spec and status. The actions of the lifecycle are those before the start and
  those before the stop; the Pod metadata are labels and annotations.
\<close>

record ws_service =
  ss_name :: string
  ss_command :: "string list"
  ss_workingDirectory :: string
  ss_env :: "env_var list"

type_synonym pod_metadata = "(string \<times> string) list \<times> (string \<times> annotation) list"

record workspace_object = workspace +
  wo_defaultDirectory :: string
  wo_env :: "env_var list"
  wo_agentCredentials :: "string list"
  wo_credentials :: "string list"
  wo_os :: string
  wo_placement :: placement
  wo_environment :: "string option"
  wo_storage :: "persistent_storage option"
  wo_image :: string
  wo_configMaps :: "string list"
  wo_secrets :: "string list"
  wo_lifecycle :: "(action list \<times> action list) option"
  wo_services :: "ws_service list"
  wo_serviceAccount :: string
  wo_automount :: "bool option"
  wo_resources :: api_data
  wo_priorityClass :: string
  wo_podMetadata :: "pod_metadata option"
  wo_observed :: int
  wo_homeClaim :: string
  wo_runtimeImage :: string
  wo_sourceRevision :: int

record workspace_environment = kobj +
  en_os :: string
  en_selector :: selector
  en_tolerations :: "api_data list"
  en_image :: string
  en_storage :: persistent_storage
  en_commit :: int
  en_editorIdle :: "duration option"
  en_observed :: int
  en_revision :: int
  en_currentImage :: string
  en_currentClaim :: string
  en_draftClaim :: string
  en_editorPod :: string
  en_committed :: int
  en_lastCompleted :: "time option"
  en_conditions :: conditions

datatype exec_owner = OwnerWorkspace workspace_object | OwnerEnvironment workspace_environment

definition owner_uid :: "exec_owner \<Rightarrow> string" where
  "owner_uid target = (case target of OwnerWorkspace ws \<Rightarrow> o_uid ws | OwnerEnvironment en \<Rightarrow> o_uid en)"

definition owner_deleting :: "exec_owner \<Rightarrow> time option" where
  "owner_deleting target = (case target of OwnerWorkspace ws \<Rightarrow> o_deleting ws | OwnerEnvironment en \<Rightarrow> o_deleting en)"

record secret = kobj +
  se_data :: "string \<rightharpoonup> string"

record agent_credential =
  ag_agent :: string
  ag_secret :: string
  ag_key :: string

record credential_file =
  cf_secret :: string
  cf_key :: string
  cf_mountPath :: string

text \<open>A Credential: its type and the configuration of that type; a Process credential may have none.\<close>

datatype process_credential =
    SSHKey "string \<times> string" "string \<times> string" string
  | BasicAuth string "string \<times> string"
  | BearerToken "string \<times> string"
  | Headers "(string \<times> string \<times> string) list"
  | ProcessFiles "(credential_file list \<times> (string \<times> string) list) option"
  | UnknownCredential string

record cluster_event =
  ke_type :: string
  ke_kind :: string
  ke_name :: string
  ke_uid :: string
  ke_reason :: string
  ke_message :: string

datatype access_kind = ServiceAccountAccess | RoleAccess | BindingAccess

type_synonym policy_rule = "string list \<times> string list \<times> string list"

record access_object =
  ax_kind :: access_kind
  ax_name :: string
  ax_namespace :: string
  ax_rules :: "policy_rule list"
  ax_roleRef :: "string \<times> string \<times> string"
  ax_subjects :: "(string \<times> string \<times> string) list"

section \<open>The client\<close>

text \<open>
  \<open>get\<close> reads the informer cache, \<open>read\<close> the API server. An update carries the resourceVersion of its object and answers
  with what was stored. \<open>x_runtime\<close> are \<^verbatim>\<open>Start\<close>, \<^verbatim>\<open>Inspect\<close> and \<^verbatim>\<open>Stop\<close> of rc-kube, \<open>None\<close> when no runtime is configured. \<open>x_ctx\<close> is
  \<^verbatim>\<open>ctx.Err()\<close> at a moment of the run; \<open>x_rfc3339\<close> formats a time.
\<close>

record 'api runtime_api =
  ra_start :: "process_target \<Rightarrow> start_request \<Rightarrow> 'api \<Rightarrow> 'api \<times> pstate result"
  ra_inspect :: "process_target \<Rightarrow> string \<Rightarrow> 'api \<Rightarrow> 'api \<times> pstate result"
  ra_stop :: "process_target \<Rightarrow> string \<Rightarrow> 'api \<Rightarrow> 'api \<times> pstate result"

record 'api xclient =
  x_env :: "'api others"
  x_clock :: "nat \<Rightarrow> time"
  x_ctx :: "nat \<Rightarrow> err option"
  x_getExec :: "string \<Rightarrow> string \<Rightarrow> 'api \<Rightarrow> execution result"
  x_readExec :: "string \<Rightarrow> string \<Rightarrow> 'api \<Rightarrow> execution result"
  x_listExecs :: "string \<Rightarrow> 'api \<Rightarrow> execution list result"
  x_updateExec :: "execution \<Rightarrow> 'api \<Rightarrow> 'api \<times> execution result"
  x_updateExecStatus :: "execution \<Rightarrow> 'api \<Rightarrow> 'api \<times> execution result"
  x_deleteExec :: "execution \<Rightarrow> 'api \<Rightarrow> 'api \<times> err option"
  x_getPod :: "string \<Rightarrow> string \<Rightarrow> 'api \<Rightarrow> spec_pod result"
  x_readPod :: "string \<Rightarrow> string \<Rightarrow> 'api \<Rightarrow> spec_pod result"
  x_createPod :: "spec_pod \<Rightarrow> 'api \<Rightarrow> 'api \<times> err option"
  x_deletePod :: "spec_pod \<Rightarrow> 'api \<Rightarrow> 'api \<times> err option"
  x_getWorkspace :: "string \<Rightarrow> string \<Rightarrow> 'api \<Rightarrow> workspace_object result"
  x_readWorkspace :: "string \<Rightarrow> string \<Rightarrow> 'api \<Rightarrow> workspace_object result"
  x_updateOwnerStatus :: "exec_owner \<Rightarrow> 'api \<Rightarrow> 'api \<times> err option"
  x_gateWrite :: "'api status_write"
  x_getEnvironment :: "string \<Rightarrow> string \<Rightarrow> 'api \<Rightarrow> workspace_environment result"
  x_readEnvironment :: "string \<Rightarrow> string \<Rightarrow> 'api \<Rightarrow> workspace_environment result"
  x_updateEnvironmentStatus :: "workspace_environment \<Rightarrow> 'api \<Rightarrow> 'api \<times> err option"
  x_getSecret :: "string \<Rightarrow> string \<Rightarrow> 'api \<Rightarrow> secret result"
  x_deleteSecret :: "secret \<Rightarrow> 'api \<Rightarrow> 'api \<times> err option"
  x_getConfigMap :: "string \<Rightarrow> string \<Rightarrow> 'api \<Rightarrow> (string \<rightharpoonup> string) result"
  x_getAgentCredential :: "string \<Rightarrow> string \<Rightarrow> 'api \<Rightarrow> agent_credential result"
  x_getCredential :: "string \<Rightarrow> string \<Rightarrow> 'api \<Rightarrow> process_credential result"
  x_getClaim :: "string \<Rightarrow> string \<Rightarrow> 'api \<Rightarrow> pvc result"
  x_createClaim :: "pvc \<Rightarrow> 'api \<Rightarrow> 'api \<times> err option"
  x_deleteClaim :: "pvc \<Rightarrow> 'api \<Rightarrow> 'api \<times> err option"
  x_listEvents :: "string \<Rightarrow> 'api \<Rightarrow> cluster_event list result"
  x_getAccess :: "access_object \<Rightarrow> 'api \<Rightarrow> access_object result"
  x_createAccess :: "access_object \<Rightarrow> 'api \<Rightarrow> 'api \<times> err option"
  x_updateAccess :: "access_object \<Rightarrow> 'api \<Rightarrow> 'api \<times> err option"
  x_deleteAccess :: "access_object \<Rightarrow> 'api \<Rightarrow> 'api \<times> err option"
  x_runtime :: "'api runtime_api option"
  x_sha :: "string \<Rightarrow> string"
  x_rfc3339 :: "time \<Rightarrow> string"
  x_rcKubeImage :: string

datatype ws_event =
    XGetExec "execution result"
  | XReadExec "execution result"
  | XListExecs "execution list result"
  | XUpdateExec execution "execution result"
  | XWriteExec execution execution "execution result"
  | XDeleteExec execution "unit result"
  | XGetPod string "spec_pod result"
  | XReadPod string "spec_pod result"
  | XMakePod spec_pod "unit result"
  | XDeletePod spec_pod "unit result"
  | XGetWorkspace "workspace_object result"
  | XReadOwner "exec_owner result"
  | XWriteOwner exec_owner exec_owner "unit result"
  | XAdmit workspace_object execution "unit result"
  | XStart process_target start_request "pstate result"
  | XInspect process_target string "pstate result"
  | XStop process_target string "pstate result"
  | XGetEnvironment "workspace_environment result"
  | XWriteEnvironment workspace_environment workspace_environment "unit result"
  | XGetSecret string "secret result"
  | XDeleteSecret secret "unit result"
  | XGetConfigMap string "(string \<rightharpoonup> string) result"
  | XGetAgentCredential string "agent_credential result"
  | XGetCredential string "process_credential result"
  | XLookClaim "(string \<times> pvc option \<times> err option) result"
  | XGetClaim string "pvc result"
  | XMakeClaim pvc "unit result"
  | XDeleteClaim pvc "unit result"
  | XListEvents "cluster_event list result"
  | XGetAccess "access_object result"
  | XAccess access_object "unit result"

type_synonym ('api, 'a) xctl = "('api, ws_event, 'a) ctl"

abbreviation x_read :: "'api xclient \<Rightarrow> ('a result \<Rightarrow> ws_event) \<Rightarrow> ('api \<Rightarrow> 'a result) \<Rightarrow> ('api, 'a) xctl" where
  "x_read x ev get \<equiv> call (x_env x) ev (reads get)"

abbreviation x_write :: "'api xclient \<Rightarrow> (unit result \<Rightarrow> ws_event) \<Rightarrow> ('api \<Rightarrow> 'api \<times> err option) \<Rightarrow> ('api, unit) xctl" where
  "x_write x ev w \<equiv> call (x_env x) ev (writes w)"

text \<open>A request that answers with a value.\<close>

definition asks :: "('api \<Rightarrow> 'api \<times> 'a result) \<Rightarrow> (nat \<Rightarrow> 'api \<Rightarrow> 'api) \<Rightarrow> 'api \<Rightarrow> 'api \<times> 'a result" where
  "asks f e api = f (e 0 api)"

abbreviation x_ask :: "'api xclient \<Rightarrow> ('a result \<Rightarrow> ws_event) \<Rightarrow> ('api \<Rightarrow> 'api \<times> 'a result) \<Rightarrow> ('api, 'a) xctl" where
  "x_ask x ev f \<equiv> call (x_env x) ev (asks f)"

abbreviation x_now :: "'api xclient \<Rightarrow> ('api, time) xctl" where
  "x_now x \<equiv> clock (x_clock x)"

section \<open>Pods\<close>

definition workspaceManagedByLabel :: string where "workspaceManagedByLabel = ''workspaces.rc.ayaka.io/workspace''"
definition environmentManagedByLabel :: string where "environmentManagedByLabel = ''workspaces.rc.ayaka.io/environment''"
definition defaultWorkspaceServiceAccount :: string where "defaultWorkspaceServiceAccount = ''rc-workspace''"

definition runtimePodTerminal :: "spec_pod \<Rightarrow> bool" where
  "runtimePodTerminal pod = (po_phase pod = PodFailed \<or> po_phase pod = PodSucceeded)"

definition podReady :: "spec_pod \<Rightarrow> bool" where
  "podReady pod =
     (po_phase pod = PodRunning \<and>
      (case find (\<lambda>c. pc_type c = ''Ready'') (po_conditions pod) of None \<Rightarrow> False | Some c \<Rightarrow> pc_status c = CTrue))"

text \<open>
  What is known of a Pod that ended: its node, disruptions, how its containers ended and why they wait. A message has one character per
  code point.
\<close>

fun pod_phase_name :: "pod_phase \<Rightarrow> string" where
  "pod_phase_name PodPending = ''Pending''"
| "pod_phase_name PodRunning = ''Running''"
| "pod_phase_name PodSucceeded = ''Succeeded''"
| "pod_phase_name PodFailed = ''Failed''"
| "pod_phase_name PodUnknown = ''Unknown''"

definition disruption :: "pod_condition \<Rightarrow> bool" where
  "disruption c =
     (pc_type c = ''DisruptionTarget'' \<and> pc_status c = CTrue \<or> pc_type c = ''PodScheduled'' \<and> pc_status c = CFalse)"

definition container_parts :: "(time \<Rightarrow> string) \<Rightarrow> container_state \<Rightarrow> string list" where
  "container_parts fmt c =
     (case (case cn_terminated c of None \<Rightarrow> cn_lastTerminated c | Some t \<Rightarrow> Some t) of
        None \<Rightarrow> []
      | Some t \<Rightarrow>
          [''container '' @ cn_name c @ '' exitCode='' @ int_digits (tm_exitCode t) @ '' signal='' @ int_digits (tm_signal t) @
           '' reason='' @ tm_reason t @ '' finishedAt='' @ fmt (tm_finishedAt t) @ '': '' @ tm_message t]) @
     (case cn_waiting c of None \<Rightarrow> [] | Some (reason, message) \<Rightarrow> [cn_name c @ '' '' @ reason @ '': '' @ message])"

definition bounded_text :: "nat \<Rightarrow> string \<Rightarrow> string" where
  "bounded_text n message = (if length message > n then take (n - 3) message @ ''...'' else message)"

definition runtimePodDiagnosis :: "(time \<Rightarrow> string) \<Rightarrow> spec_pod \<Rightarrow> string" where
  "runtimePodDiagnosis fmt pod =
     bounded_text 8192 (join ''; ''
       ([''Pod '' @ o_name pod @ '' (UID '' @ o_uid pod @ '', node '' @ sp_nodeName (po_spec pod) @ '') phase='' @ pod_phase_name (po_phase pod)] @
        (if po_reason pod \<noteq> [] \<or> po_message pod \<noteq> [] then [po_reason pod @ '': '' @ po_message pod] else []) @
        map (\<lambda>c. pc_reason c @ '': '' @ pc_message c) (filter disruption (po_conditions pod)) @
        concat (map (container_parts fmt) (po_initStatuses pod @ po_statuses pod))))"

definition runtimePlatformCondition :: "err \<Rightarrow> string \<times> string" where
  "runtimePlatformCondition e =
     (if err_is EUnsupportedOS e then (''UnsupportedOS'', ''Workspace OS must be linux, windows, or darwin'')
      else if err_is EPlacementConflict e
      then (''OSPlacementConflict'', ''Node selector operating system conflicts with the runtime OS'')
      else (''InvalidRuntimePlatform'', err_text e))"

definition IsStatusConditionTrue :: "conditions \<Rightarrow> string \<Rightarrow> bool" where
  "IsStatusConditionTrue conds typ = (case conds typ of None \<Rightarrow> False | Some c \<Rightarrow> c_status c = CTrue)"

definition ConditionDraftReady :: string where "ConditionDraftReady = ''DraftReady''"
definition ConditionEnvStorageReady :: string where "ConditionEnvStorageReady = ''StorageReady''"

section \<open>Volumes\<close>

definition AccessModesOrDefault :: "persistent_storage \<Rightarrow> string list" where
  "AccessModesOrDefault st = (if pe_accessModes st = [] then [''ReadWriteOnce''] else pe_accessModes st)"

definition VolumeModeOrDefault :: "persistent_storage \<Rightarrow> string" where
  "VolumeModeOrDefault st = (case pe_volumeMode st of None \<Rightarrow> ''Filesystem'' | Some m \<Rightarrow> m)"

definition storageClassNamePointer :: "string \<Rightarrow> string option" where
  "storageClassNamePointer name = (if name = [] then None else Some name)"

definition environmentVolumeClaim :: "workspace_environment \<Rightarrow> string \<Rightarrow> string \<Rightarrow> pvc" where
  "environmentVolumeClaim environment name source =
     (let st = en_storage environment
      in kobj.extend
           ((blank_object (o_namespace environment) name)\<lparr>o_labels := [environmentManagedByLabel \<mapsto> o_name environment]\<rparr>)
           (pvc.fields [] (pe_size st) 0 (storageClassNamePointer (pe_class st)) (Some (VolumeModeOrDefault st)) (AccessModesOrDefault st)
              (if source \<noteq> [] then Some \<lparr>ds_kind = ''PersistentVolumeClaim'', ds_name = source, ds_apiGroup = None, ds_namespace = None\<rparr>
               else None) None))"

definition environmentStorageMatches :: "pvc \<Rightarrow> persistent_storage \<Rightarrow> bool" where
  "environmentStorageMatches claim st =
     (if pe_class st \<noteq> [] \<and> pvc_class claim \<noteq> Some (pe_class st) then False
      else if pvc_volumeMode claim \<noteq> Some (VolumeModeOrDefault st) then False
      else if pvc_accessModes claim \<noteq> AccessModesOrDefault st then False
      else pvc_request claim = pe_size st)"

definition environmentClaimMatches :: "pvc \<Rightarrow> persistent_storage \<Rightarrow> string \<Rightarrow> bool" where
  "environmentClaimMatches claim st source =
     (if \<not> environmentStorageMatches claim st then False
      else if source = [] then pvc_dataSource claim = None
      else (case pvc_dataSource claim of
              None \<Rightarrow> False
            | Some d \<Rightarrow> ds_kind d = ''PersistentVolumeClaim'' \<and> ds_name d = source))"

text \<open>\<^verbatim>\<open>volumeclaim.Resolve\<close> for an Environment: at most two reads, the second one for the name that the first did not settle.\<close>

definition resolve_environment_claim ::
  "'api xclient \<Rightarrow> workspace_environment \<Rightarrow> role \<Rightarrow> int \<Rightarrow> string \<Rightarrow> ('api, string \<times> pvc option \<times> err option) xctl" where
  "resolve_environment_claim x environment role revision recordedName =
     call (x_env x) XLookClaim (\<lambda>e api.
       let api0 = e 0 api; api1 = e 1 api0;
           get = (\<lambda>name. x_getClaim x (o_namespace environment) name
                    (if recordedName = [] \<and> name = legacyName role (o_name environment) revision then api0 else api1));
           owner = \<lparr>ow_namespace = o_namespace environment, ow_name = o_name environment, ow_uid = o_uid environment\<rparr>
       in (api1, Inr (Resolve (x_sha x) get owner role revision recordedName)))"

definition claim_warning :: "pvc \<Rightarrow> cluster_event \<Rightarrow> bool" where
  "claim_warning claim ev =
     (ke_type ev = ''Warning'' \<and> ke_kind ev = ''PersistentVolumeClaim'' \<and> ke_name ev = o_name claim \<and>
      \<not> (o_uid claim \<noteq> [] \<and> ke_uid ev \<noteq> [] \<and> ke_uid ev \<noteq> o_uid claim))"

text \<open>The latest warning about the volume, \<open>None\<close> where the code returns an empty reason.\<close>

definition persistentVolumeClaimFailure :: "'api xclient \<Rightarrow> pvc \<Rightarrow> ('api, (string \<times> string) option) xctl" where
  "persistentVolumeClaimFailure x claim =
     andThen (wrapped ''list PersistentVolumeClaim Events'' (x_read x XListEvents (x_listEvents x (o_namespace claim)))) (\<lambda>evs.
     ret (case find (claim_warning claim) (rev evs) of
            None \<Rightarrow> None
          | Some ev \<Rightarrow> Some (''StorageProvisioningFailed'',
              ''PersistentVolumeClaim provisioning failed: '' @ ke_reason ev @ '': '' @ ke_message ev)))"

section \<open>Access\<close>

definition verbs :: "string list" where
  "verbs = [''get'', ''list'', ''watch'', ''create'', ''update'', ''patch'', ''delete'']"

definition workspace_rules :: "policy_rule list" where
  "workspace_rules =
     [([''''], [''persistentvolumeclaims''], [''get'']),
      ([''workspaces.rc.ayaka.io''], [''workspaceenvironments'', ''workspaces'', ''workspaceexecs'', ''workspaceexecs/status''], verbs),
      ([''repositories.rc.ayaka.io''], [''repositories'', ''repositoryexecs'', ''repositorysyncs'', ''worktrees''], verbs),
      ([''configs.rc.ayaka.io''], [''credentials'', ''agentcredentials''], verbs),
      ([''''], [''configmaps'', ''secrets'', ''pods'', ''pods/log'', ''pods/exec'', ''pods/portforward''], verbs)]"

definition blank_access :: "access_kind \<Rightarrow> string \<Rightarrow> access_object" where
  "blank_access kind namespace =
     \<lparr>ax_kind = kind, ax_name = defaultWorkspaceServiceAccount, ax_namespace = namespace, ax_rules = [],
      ax_roleRef = ([], [], []), ax_subjects = []\<rparr>"

definition createIfMissing :: "'api xclient \<Rightarrow> access_object \<Rightarrow> ('api, unit) xctl" where
  "createIfMissing x object =
     getOr (x_read x XGetAccess (x_getAccess x object)) (x_write x (XAccess object) (x_createAccess x object)) (\<lambda>_. ret ())"

definition reconcileRole :: "'api xclient \<Rightarrow> access_object \<Rightarrow> ('api, unit) xctl" where
  "reconcileRole x desired =
     getOr (x_read x XGetAccess (x_getAccess x desired)) (x_write x (XAccess desired) (x_createAccess x desired)) (\<lambda>current.
     if ax_rules current = ax_rules desired then ret ()
     else let after = current\<lparr>ax_rules := ax_rules desired\<rparr> in x_write x (XAccess after) (x_updateAccess x after))"

definition replace_binding :: "'api xclient \<Rightarrow> access_object \<Rightarrow> access_object \<Rightarrow> ('api, unit) xctl" where
  "replace_binding x desired current =
     andThen (IgnoreNotFound (x_write x (XAccess current) (x_deleteAccess x current))) (\<lambda>_.
     andThen (attempt (x_write x (XAccess desired) (x_createAccess x desired))) (\<lambda>created.
     case created of
       Inl e \<Rightarrow> if err_is EAlreadyExists e then ret () else raise e
     | Inr _ \<Rightarrow> ret ()))"

definition reconcileRoleBinding :: "'api xclient \<Rightarrow> access_object \<Rightarrow> ('api, unit) xctl" where
  "reconcileRoleBinding x desired =
     getOr (x_read x XGetAccess (x_getAccess x desired)) (x_write x (XAccess desired) (x_createAccess x desired)) (\<lambda>current.
     if ax_roleRef current \<noteq> ax_roleRef desired then replace_binding x desired current
     else if ax_subjects current = ax_subjects desired then ret ()
     else let after = current\<lparr>ax_subjects := ax_subjects desired\<rparr> in x_write x (XAccess after) (x_updateAccess x after))"

definition ensureWorkspaceAccess :: "'api xclient \<Rightarrow> string \<Rightarrow> ('api, unit) xctl" where
  "ensureWorkspaceAccess x namespace =
     andThen (wrapped ''ensure Workspace ServiceAccount'' (createIfMissing x (blank_access ServiceAccountAccess namespace))) (\<lambda>_.
     andThen (wrapped ''ensure Workspace Role'' (reconcileRole x ((blank_access RoleAccess namespace)\<lparr>ax_rules := workspace_rules\<rparr>))) (\<lambda>_.
     wrapped ''ensure Workspace RoleBinding'' (reconcileRoleBinding x ((blank_access BindingAccess namespace)\<lparr>
       ax_roleRef := (''rbac.authorization.k8s.io'', ''Role'', defaultWorkspaceServiceAccount),
       ax_subjects := [(''ServiceAccount'', defaultWorkspaceServiceAccount, namespace)]\<rparr>))))"

end
