(* ===== verification/WorkspaceExecution.thy ===== *)
theory WorkspaceExecution
  imports WorkspaceClient
begin

text \<open>
  The WorkspaceExec controller (\<^verbatim>\<open>workspaceexec_controller.go\<close>, \<^verbatim>\<open>execution_target.go\<close>, \<^verbatim>\<open>execution_idle_clock.go\<close>,
  \<^verbatim>\<open>environment_runtime.go\<close>): a command that runs at most once, in the runtime Pod that the record claims. Long functions of the
  code are split into their stages, in the order of the code. Go maps are association lists with one entry per key.
\<close>

definition executionFinalizer :: string where "executionFinalizer = ''workspaces.rc.ayaka.io/workspace-exec''"
definition processTargetRequeueDelay :: duration where "processTargetRequeueDelay = 2 * 10 ^ 9"
definition executionResultWindow :: duration where "executionResultWindow = 10 * 60 * 10 ^ 9"
definition reasonTargetNotReady :: string where "reasonTargetNotReady = ''TargetNotReady''"

text \<open>\<^verbatim>\<open>ctrl.Result{Requeue: true}\<close>: again at once.\<close>

definition requeue_now :: ctrl_result where "requeue_now = Some 0"

section \<open>The record\<close>

fun phase_name :: "exec_phase \<Rightarrow> string" where
  "phase_name PhaseUnset = []"
| "phase_name PhasePending = ''Pending''"
| "phase_name PhaseStarting = ''Starting''"
| "phase_name PhaseRunning = ''Running''"
| "phase_name PhaseSucceeded = ''Succeeded''"
| "phase_name PhaseFailed = ''Failed''"
| "phase_name PhaseStopped = ''Stopped''"
| "phase_name PhaseLost = ''Lost''"

definition runtimePhase :: "string \<Rightarrow> int option \<Rightarrow> exec_phase" where
  "runtimePhase phase exitCode =
     (let p = to_lower phase
      in if p = ''running'' then PhaseRunning
         else if p = ''stopped'' then PhaseStopped
         else if p \<in> {''exited'', ''succeeded'', ''failed''} then (if exitCode = Some 0 then PhaseSucceeded else PhaseFailed)
         else PhaseStarting)"

definition runtimeMessage :: "exec_phase \<Rightarrow> string" where
  "runtimeMessage phase =
     (case phase of
        PhaseSucceeded \<Rightarrow> ''Process exited successfully''
      | PhaseFailed \<Rightarrow> ''Process exited with a non-zero status''
      | PhaseStopped \<Rightarrow> ''Process was stopped''
      | _ \<Rightarrow> ''Process reached a terminal state'')"

definition transcript_path :: "execution \<Rightarrow> string" where
  "transcript_path process = Join [''.rc'', ''processes'', o_name process, ''transcript.log'']"

definition set_ready :: "time \<Rightarrow> cond_status \<Rightarrow> string \<Rightarrow> string \<Rightarrow> execution \<Rightarrow> execution" where
  "set_ready now status reason message e =
     e\<lparr>ex_conditions := SetStatusCondition now ConditionReady (new_condition status (o_generation e) reason message) (ex_conditions e)\<rparr>"

text \<open>Decoding an answer into the request's object: a completion time that the answer omits stays.\<close>

definition decode_exec :: "execution \<Rightarrow> execution \<Rightarrow> execution" where
  "decode_exec request response =
     (if we_completedAt response = None then response\<lparr>we_completedAt := we_completedAt request\<rparr> else response)"

definition write_status :: "'api xclient \<Rightarrow> execution \<Rightarrow> execution \<Rightarrow> ('api, execution) xctl" where
  "write_status x current new =
     andThen (x_ask x (XWriteExec current new) (x_updateExecStatus x new)) (\<lambda>r. ret (decode_exec new r))"

definition refetch :: "'api xclient \<Rightarrow> execution \<Rightarrow> string \<Rightarrow> ('api, execution) xctl" where
  "refetch x process message =
     wrapped message (x_read x XGetExec (x_getExec x (o_namespace process) (o_name process)))"

definition terminal_status :: "time \<Rightarrow> exec_phase \<Rightarrow> int option \<Rightarrow> string \<Rightarrow> string \<Rightarrow> int \<Rightarrow> execution \<Rightarrow> execution" where
  "terminal_status now phase exitCode reason message clients current =
     set_ready now CFalse (phase_name phase) message
       (current\<lparr>ex_observed := o_generation current, we_phase := phase, we_completedAt := Some now, ex_exitCode := exitCode,
                ex_termination := reason, ex_attached := clients\<rparr>)"

definition setTerminalProcessStatus ::
  "'api xclient \<Rightarrow> execution \<Rightarrow> exec_phase \<Rightarrow> int option \<Rightarrow> string \<Rightarrow> string \<Rightarrow> int \<Rightarrow> ('api, unit) xctl" where
  "setTerminalProcessStatus x process phase exitCode reason message clients =
     andThen (refetch x process ''re-fetch WorkspaceExec before terminal status update'') (\<lambda>current.
     if Terminal (we_phase current) then ret ()
     else andThen (x_now x) (\<lambda>now.
          andThen (wrapped ''update terminal WorkspaceExec status''
            (write_status x current (terminal_status now phase exitCode reason message clients current))) (\<lambda>_. ret ())))"

definition pending_status :: "time \<Rightarrow> exec_phase \<Rightarrow> cond_status \<Rightarrow> string \<Rightarrow> string \<Rightarrow> execution \<Rightarrow> execution" where
  "pending_status now phase status reason message current =
     set_ready now status reason message (current\<lparr>ex_observed := o_generation current, we_phase := phase\<rparr>)"

definition setProcessCondition ::
  "'api xclient \<Rightarrow> execution \<Rightarrow> exec_phase \<Rightarrow> cond_status \<Rightarrow> string \<Rightarrow> string \<Rightarrow> ('api, unit) xctl" where
  "setProcessCondition x process phase status reason message =
     andThen (refetch x process ''re-fetch WorkspaceExec before status update'') (\<lambda>current.
     andThen (x_now x) (\<lambda>now.
     andThen (wrapped ''update WorkspaceExec status''
       (write_status x current (pending_status now phase status reason message current))) (\<lambda>_. ret ())))"

definition running_status :: "time \<Rightarrow> exec_phase \<Rightarrow> process_target \<Rightarrow> string \<Rightarrow> int \<Rightarrow> execution \<Rightarrow> execution" where
  "running_status now phase target podUID clients current =
     set_ready now CTrue ''ProcessRunning'' ''rc-kube owns the running process''
       (current\<lparr>ex_observed := o_generation current, we_phase := phase, ex_podName := tg_pod target, ex_podUID := podUID,
                ex_startedAt := (if ex_startedAt current = None \<and> phase = PhaseRunning then Some now else ex_startedAt current),
                ex_attached := clients, ex_transcript := transcript_path current\<rparr>)"

definition applyRuntimeState ::
  "'api xclient \<Rightarrow> execution \<Rightarrow> process_target \<Rightarrow> string \<Rightarrow> pstate \<Rightarrow> ('api, unit) xctl" where
  "applyRuntimeState x process target podUID state =
     (let phase = runtimePhase (ps_phase state) (ps_exitCode state)
      in if Terminal phase
         then setTerminalProcessStatus x process phase (ps_exitCode state) (ps_reason state) (runtimeMessage phase) (ps_attachedClients state)
         else andThen (refetch x process ''re-fetch WorkspaceExec before status update'') (\<lambda>current.
              if Terminal (we_phase current) then ret ()
              else andThen (x_now x) (\<lambda>now.
                   andThen (wrapped ''update running WorkspaceExec status''
                     (write_status x current (running_status now phase target podUID (ps_attachedClients state) current))) (\<lambda>_. ret ()))))"

section \<open>The original runtime\<close>

datatype original = Replaced | Ended spec_pod | Alive spec_pod

definition originalRuntimePod :: "'api xclient \<Rightarrow> execution \<Rightarrow> ('api, original) xctl" where
  "originalRuntimePod x process =
     andThen (attempt (x_read x (XReadPod (ex_podName process)) (x_readPod x (o_namespace process) (ex_podName process)))) (\<lambda>found.
     case found of
       Inl e \<Rightarrow> if err_is ENotFound e then ret Replaced else raise (EWrap ''get original process runtime Pod'' e)
     | Inr pod \<Rightarrow>
         if o_uid pod \<noteq> ex_podUID process then ret Replaced
         else ret (if runtimePodTerminal pod then Ended pod else Alive pod))"

text \<open>The reason and the message of a loss.\<close>

definition loss :: "'api xclient \<Rightarrow> original \<Rightarrow> (string \<times> string) option" where
  "loss x answer =
     (case answer of
        Replaced \<Rightarrow> Some (''RuntimeReplaced'', ''The original runtime Pod no longer exists'')
      | Ended pod \<Rightarrow> Some (''RuntimeTerminated'', runtimePodDiagnosis (x_rfc3339 x) pod)
      | Alive pod \<Rightarrow> None)"

definition lost_execution :: "'api xclient \<Rightarrow> execution \<Rightarrow> string \<Rightarrow> string \<Rightarrow> ('api, ctrl_result) xctl" where
  "lost_execution x process reason message =
     andThen (setTerminalProcessStatus x process PhaseLost None reason message 0) (\<lambda>_. ret None)"

definition replaced_execution :: "'api xclient \<Rightarrow> execution \<Rightarrow> ('api, ctrl_result) xctl" where
  "replaced_execution x process = lost_execution x process ''RuntimeReplaced'' ''The original runtime Pod no longer exists''"

text \<open>The address of the original Pod with its UID; \<open>None\<close> where the runtime is lost.\<close>

definition runtimeProcessTarget :: "execution \<Rightarrow> spec_pod option \<Rightarrow> (process_target \<times> string) option result" where
  "runtimeProcessTarget process pod =
     (case pod of
        None \<Rightarrow> Inr None
      | Some p \<Rightarrow>
          (case FromPod p of
             Inl e \<Rightarrow> Inl (EWrap ''resolve original process runtime platform'' e)
           | Inr rt \<Rightarrow> Inr (Some (ProcessTarget rt (o_namespace process) (o_name p) runtimeContainerName, o_uid p))))"

definition originalProcessTarget :: "'api xclient \<Rightarrow> execution \<Rightarrow> ('api, (process_target \<times> string) option) xctl" where
  "originalProcessTarget x process =
     (if ex_podName process = [] \<or> ex_podUID process = [] then ret None
      else andThen (originalRuntimePod x process) (\<lambda>answer.
           case answer of
             Alive pod \<Rightarrow> of_result (runtimeProcessTarget process (Some pod))
           | _ \<Rightarrow> ret None))"

section \<open>The target object\<close>

definition is_exec_owner :: "execution \<Rightarrow> exec_owner \<Rightarrow> bool" where
  "is_exec_owner process target =
     (case o_controller process of
        None \<Rightarrow> False
      | Some r \<Rightarrow> or_apiVersion r = workspacesGroupVersion \<and> or_kind r = we_targetKind process \<and> or_name r = we_targetName process \<and>
                  or_uid r \<noteq> [] \<and> owner_uid target \<noteq> [] \<and> or_uid r = owner_uid target)"

definition readExecutionTarget :: "'api xclient \<Rightarrow> execution \<Rightarrow> ('api, exec_owner option) xctl" where
  "readExecutionTarget x process =
     (let ns = o_namespace process; name = we_targetName process;
          check = (\<lambda>target. ret (if is_exec_owner process target then Some target else None))
      in if we_targetKind process = ''Workspace''
         then getOr (x_read x XReadOwner (\<lambda>api. map_sum id OwnerWorkspace (x_readWorkspace x ns name api))) (ret None) check
         else if we_targetKind process = ''WorkspaceEnvironment''
         then getOr (x_read x XReadOwner (\<lambda>api. map_sum id OwnerEnvironment (x_readEnvironment x ns name api))) (ret None) check
         else ret None)"

definition last_completed :: "exec_owner \<Rightarrow> time option" where
  "last_completed target =
     (case target of OwnerWorkspace ws \<Rightarrow> ws_lastExecutionCompletedAt ws | OwnerEnvironment en \<Rightarrow> en_lastCompleted en)"

definition complete_owner :: "time \<Rightarrow> exec_owner \<Rightarrow> exec_owner" where
  "complete_owner t target =
     (case target of
        OwnerWorkspace ws \<Rightarrow> OwnerWorkspace (ws\<lparr>ws_lastExecutionCompletedAt := Some t\<rparr>)
      | OwnerEnvironment en \<Rightarrow> OwnerEnvironment (en\<lparr>en_lastCompleted := Some t\<rparr>))"

definition preserveTargetIdleClock :: "'api xclient \<Rightarrow> execution \<Rightarrow> ('api, unit) xctl" where
  "preserveTargetIdleClock x process =
     (case we_completedAt process of
        None \<Rightarrow> ret ()
      | Some t \<Rightarrow>
          andThen (readExecutionTarget x process) (\<lambda>found.
          case found of
            None \<Rightarrow> ret ()
          | Some target \<Rightarrow>
              if owner_deleting target \<noteq> None then ret ()
              else if (case last_completed target of None \<Rightarrow> False | Some l \<Rightarrow> \<not> l < t) then ret ()
              else x_write x (XWriteOwner target (complete_owner t target)) (x_updateOwnerStatus x (complete_owner t target))))"

section \<open>Lifecycle\<close>

definition releaseProcessEnvironment :: "'api xclient \<Rightarrow> execution \<Rightarrow> ('api, unit) xctl" where
  "releaseProcessEnvironment x process =
     (case ex_envSecret process of
        None \<Rightarrow> ret ()
      | Some name \<Rightarrow>
          getOr (x_read x (XGetSecret name) (x_getSecret x (o_namespace process) name)) (ret ()) (\<lambda>s.
          if \<not> is_controlled_by s (o_uid process) \<or> o_deleting s \<noteq> None then ret ()
          else IgnoreNotFound (x_write x (XDeleteSecret s) (x_deleteSecret x s))))"

definition ensureExecutionCompletedAt :: "'api xclient \<Rightarrow> execution \<Rightarrow> ('api, execution) xctl" where
  "ensureExecutionCompletedAt x process =
     (if we_completedAt process \<noteq> None then ret process
      else andThen (x_now x) (\<lambda>now. write_status x process (process\<lparr>we_completedAt := Some now\<rparr>)))"

definition expireExecution :: "'api xclient \<Rightarrow> execution \<Rightarrow> ('api, ctrl_result) xctl" where
  "expireExecution x process =
     andThen (x_now x) (\<lambda>now.
     case we_completedAt process of
       None \<Rightarrow> raise (EMsg ''nil completion time'')
     | Some t \<Rightarrow>
         let remaining = int t + executionResultWindow - int now
         in if remaining > 0 then ret (Some remaining)
            else andThen (wrapped ''delete expired WorkspaceExec''
                   (IgnoreNotFound (x_write x (XDeleteExec process) (x_deleteExec x process)))) (\<lambda>_. ret None))"

definition removeExecutionFinalizer :: "'api xclient \<Rightarrow> execution \<Rightarrow> ('api, ctrl_result) xctl" where
  "removeExecutionFinalizer x process =
     andThen (preserveTargetIdleClock x process) (\<lambda>_.
     let after = remove_finalizer executionFinalizer process
     in andThen (wrapped ''remove WorkspaceExec finalizer'' (x_ask x (XUpdateExec after) (x_updateExec x after))) (\<lambda>_. ret None))"

definition finish_deleted :: "'api xclient \<Rightarrow> execution \<Rightarrow> exec_phase \<Rightarrow> int option \<Rightarrow> ('api, ctrl_result) xctl" where
  "finish_deleted x process phase exitCode =
     andThen (x_now x) (\<lambda>now.
     andThen (write_status x process (process\<lparr>we_phase := phase, ex_exitCode := exitCode, we_completedAt := Some now\<rparr>)) (\<lambda>stored.
     removeExecutionFinalizer x stored))"

definition stop_deleted :: "'api xclient \<Rightarrow> 'api runtime_api \<Rightarrow> execution \<Rightarrow> ('api, ctrl_result) xctl" where
  "stop_deleted x ra process =
     andThen (originalProcessTarget x process) (\<lambda>found.
     case found of
       None \<Rightarrow> finish_deleted x process PhaseLost (ex_exitCode process)
     | Some (target, _) \<Rightarrow>
         andThen (attempt (x_ask x (XStop target (o_name process)) (ra_stop ra target (o_name process)))) (\<lambda>stopped.
         case stopped of
           Inl e \<Rightarrow> if err_is EProcessNotFound e then finish_deleted x process PhaseLost (ex_exitCode process)
                    else raise (EWrap ''stop deleting process through rc-kube'' e)
         | Inr state \<Rightarrow>
             let phase = runtimePhase (ps_phase state) (ps_exitCode state)
             in if \<not> Terminal phase then ret (Some processTargetRequeueDelay)
                else finish_deleted x process phase (ps_exitCode state)))"

definition finalizeWorkspaceExec :: "'api xclient \<Rightarrow> execution \<Rightarrow> ('api, ctrl_result) xctl" where
  "finalizeWorkspaceExec x process =
     (if \<not> contains_finalizer process executionFinalizer then ret None
      else andThen (readExecutionTarget x process) (\<lambda>found.
           if (case found of None \<Rightarrow> False | Some target \<Rightarrow> owner_deleting target = None) \<and> \<not> Terminal (we_phase process) \<and>
              ex_podName process \<noteq> [] \<and> ex_podUID process \<noteq> []
           then (case x_runtime x of
                   None \<Rightarrow> raise (EMsg ''WorkspaceExec runtime client is not configured'')
                 | Some ra \<Rightarrow> stop_deleted x ra process)
           else removeExecutionFinalizer x process))"

text \<open>\<open>None\<close>: not handled here.\<close>

definition handleWorkspaceExecLifecycle :: "'api xclient \<Rightarrow> execution \<Rightarrow> ('api, ctrl_result option) xctl" where
  "handleWorkspaceExecLifecycle x process =
     (if o_deleting process \<noteq> None then andThen (finalizeWorkspaceExec x process) (\<lambda>r. ret (Some r))
      else if contains_finalizer process executionFinalizer
      then (if Terminal (we_phase process)
            then andThen (releaseProcessEnvironment x process) (\<lambda>_.
                 andThen (ensureExecutionCompletedAt x process) (\<lambda>process'.
                 andThen (expireExecution x process') (\<lambda>r. ret (Some r))))
            else ret None)
      else let after = add_finalizer executionFinalizer process
           in andThen (wrapped ''add WorkspaceExec finalizer'' (x_ask x (XUpdateExec after) (x_updateExec x after))) (\<lambda>_.
              ret (Some requeue_now)))"

section \<open>Environment and credentials of a process\<close>

definition resolveEnvVar :: "'api xclient \<Rightarrow> string \<Rightarrow> env_var \<Rightarrow> ('api, string) xctl" where
  "resolveEnvVar x namespace v =
     (case ev_from v of
        None \<Rightarrow> ret (ev_value v)
      | Some (SecretKey name key optional) \<Rightarrow>
          andThen (x_read x (XGetSecret name) (x_getSecret x namespace name)) (\<lambda>s.
          case se_data s key of
            None \<Rightarrow> raise (EMsg (''secret '' @ name @ '' has no key '' @ key))
          | Some d \<Rightarrow> ret d)
      | Some (ConfigMapKey name key optional) \<Rightarrow>
          andThen (x_read x (XGetConfigMap name) (x_getConfigMap x namespace name)) (\<lambda>m.
          case m key of
            None \<Rightarrow> raise (EMsg (''config map '' @ name @ '' has no key '' @ key))
          | Some d \<Rightarrow> ret d)
      | Some FieldSource \<Rightarrow> raise (EMsg ''fieldRef and resourceFieldRef are not supported for process environment''))"

fun workspace_variables ::
  "'api xclient \<Rightarrow> string \<Rightarrow> env_var list \<Rightarrow> (string \<times> string) list \<Rightarrow> ('api, (string \<times> string) list) xctl" where
  "workspace_variables x namespace [] acc = ret acc"
| "workspace_variables x namespace (v # vs) acc =
     andThen (wrapped (''resolve Workspace environment variable '' @ ev_name v) (resolveEnvVar x namespace v)) (\<lambda>d.
     workspace_variables x namespace vs (put (ev_name v) d acc))"

text \<open>The variables of the process, from its Secret.\<close>

fun secret_variables :: "secret \<Rightarrow> (string \<times> string) list \<Rightarrow> (string \<times> string) list \<Rightarrow> (string \<times> string) list result" where
  "secret_variables s [] acc = Inr acc"
| "secret_variables s ((name, key) # vs) acc =
     (let secretKey = (if key = [] then name else key)
      in case se_data s secretKey of
           None \<Rightarrow> Inl (EMsg (''process environment Secret '' @ o_name s @ '' has no key '' @ secretKey))
         | Some d \<Rightarrow> secret_variables s vs (put name d acc))"

definition process_variables ::
  "'api xclient \<Rightarrow> execution \<Rightarrow> (string \<times> string) list \<Rightarrow> ('api, (string \<times> string) list) xctl" where
  "process_variables x process acc =
     (case ex_envSecret process of
        None \<Rightarrow> ret acc
      | Some name \<Rightarrow>
          andThen (wrapped ''get process environment Secret'' (x_read x (XGetSecret name) (x_getSecret x (o_namespace process) name))) (\<lambda>s.
          of_result (secret_variables s (ex_env process) acc)))"

definition resolveWorkspaceEnvironmentVariables ::
  "'api xclient \<Rightarrow> workspace_object \<Rightarrow> execution \<Rightarrow> ('api, (string \<times> string) list) xctl" where
  "resolveWorkspaceEnvironmentVariables x workspace process =
     andThen (workspace_variables x (o_namespace workspace) (wo_env workspace) []) (process_variables x process)"

definition resolveProcessOnlyEnvironment :: "'api xclient \<Rightarrow> execution \<Rightarrow> ('api, (string \<times> string) list) xctl" where
  "resolveProcessOnlyEnvironment x process = process_variables x process []"

definition read_key :: "'api xclient \<Rightarrow> string \<Rightarrow> string \<times> string \<Rightarrow> ('api, string) xctl" where
  "read_key x namespace ref =
     (let (name, key) = ref
      in andThen (x_read x (XGetSecret name) (x_getSecret x namespace name)) (\<lambda>s.
         case se_data s key of
           None \<Rightarrow> raise (EMsg (''secret '' @ o_name s @ '' has no key '' @ key))
         | Some d \<Rightarrow> ret d))"

fun read_files ::
  "'api xclient \<Rightarrow> string \<Rightarrow> (string \<times> string \<times> string) list \<Rightarrow> (string \<times> string) list \<Rightarrow> ('api, (string \<times> string) list) xctl" where
  "read_files x namespace [] acc = ret acc"
| "read_files x namespace ((name, ref) # fs) acc =
     andThen (read_key x namespace ref) (\<lambda>d. read_files x namespace fs (put name d acc))"

text \<open>The files of a credential: a name and the Secret key that has its data; the literal files come first.\<close>

definition credential_plan ::
  "string \<Rightarrow> process_credential \<Rightarrow> ((string \<times> string) list \<times> (string \<times> string \<times> string) list) result" where
  "credential_plan name c =
     (case c of
        SSHKey private known config \<Rightarrow> Inr ([], [(''id'', private), (''known_hosts'', known)])
      | BasicAuth user pass \<Rightarrow> Inr ([(''username'', user)], [(''password'', pass)])
      | BearerToken token \<Rightarrow> Inr ([], [(''token'', token)])
      | Headers hs \<Rightarrow> Inr ([], hs)
      | ProcessFiles None \<Rightarrow> Inl (EMsg (''process Credential '' @ name @ '' has no process configuration''))
      | ProcessFiles (Some (files, envs)) \<Rightarrow>
          Inr ([], map (\<lambda>(i, f). (Join [''files'', nat_digits i], cf_secret f, cf_key f)) (zip [0..<length files] files))
      | UnknownCredential t \<Rightarrow> Inl (EMsg (''credential '' @ name @ '' has unsupported type '' @ t)))"

definition resolveGenericCredential :: "'api xclient \<Rightarrow> string \<Rightarrow> string \<Rightarrow> ('api, (string \<times> string) list) xctl" where
  "resolveGenericCredential x namespace name =
     andThen (wrapped (''get Credential '' @ name) (x_read x (XGetCredential name) (x_getCredential x namespace name))) (\<lambda>c.
     andThen (of_result (credential_plan name c)) (\<lambda>(literal, files).
     wrapped (''read Credential '' @ name @ '' secret data'') (read_files x namespace files literal)))"

fun add_files :: "string \<Rightarrow> (string \<times> string) list \<Rightarrow> (string \<times> string) list \<Rightarrow> (string \<times> string) list" where
  "add_files ref [] acc = acc"
| "add_files ref ((name, d) # fs) acc = add_files ref fs (put (Join [''credentials'', ref, name]) d acc)"

text \<open>\<open>allowed\<close> is \<open>None\<close> where the code does not compare with the references of a Workspace.\<close>

fun generic_credentials ::
  "'api xclient \<Rightarrow> string \<Rightarrow> (string \<times> string list) option \<Rightarrow> string list \<Rightarrow> (string \<times> string) list \<Rightarrow> ('api, (string \<times> string) list) xctl" where
  "generic_credentials x namespace allowed [] acc = ret acc"
| "generic_credentials x namespace allowed (ref # refs) acc =
     (if (case allowed of None \<Rightarrow> False | Some (ws, names) \<Rightarrow> ref \<notin> set names)
      then raise (EMsg (''credential '' @ ref @ '' is not referenced by Workspace '' @ fst (the allowed)))
      else andThen (resolveGenericCredential x namespace ref) (\<lambda>files.
           generic_credentials x namespace allowed refs (add_files ref files acc)))"

fun find_agent :: "'api xclient \<Rightarrow> string \<Rightarrow> string \<Rightarrow> string list \<Rightarrow> ('api, string option) xctl" where
  "find_agent x namespace agentType [] = ret None"
| "find_agent x namespace agentType (name # names) =
     andThen (wrapped ''get AgentCredential'' (x_read x (XGetAgentCredential name) (x_getAgentCredential x namespace name))) (\<lambda>c.
     if ag_agent c = agentType then ret (Some name) else find_agent x namespace agentType names)"

definition agent_reference :: "'api xclient \<Rightarrow> string \<Rightarrow> string list \<Rightarrow> execution \<Rightarrow> ('api, string option) xctl" where
  "agent_reference x namespace agentRefs process =
     (if ex_agentCredential process = None \<and> ex_agentType process \<noteq> [] \<and> agentRefs \<noteq> []
      then find_agent x namespace (ex_agentType process) agentRefs
      else ret (ex_agentCredential process))"

definition agent_profile :: "execution \<Rightarrow> string option \<Rightarrow> (string \<times> string) option" where
  "agent_profile process ref =
     (if ex_agentType process \<noteq> []
      then Some (ex_agentType process, case ref of None \<Rightarrow> ''default'' | Some name \<Rightarrow> name) else None)"

definition agent_files ::
  "'api xclient \<Rightarrow> string \<Rightarrow> string \<Rightarrow> string list \<Rightarrow> execution \<Rightarrow> string option \<Rightarrow> ('api, (string \<times> string) list) xctl" where
  "agent_files x namespace wsName agentRefs process ref =
     (case ref of
        None \<Rightarrow> ret []
      | Some name \<Rightarrow>
          if name \<notin> set agentRefs then raise (EMsg (''agent credential '' @ name @ '' is not referenced by Workspace '' @ wsName))
          else andThen (wrapped ''get AgentCredential''
                 (x_read x (XGetAgentCredential name) (x_getAgentCredential x namespace name))) (\<lambda>c.
               if ex_agentType process \<noteq> [] \<and> ag_agent c \<noteq> ex_agentType process
               then raise (EMsg (''agent credential '' @ name @ '' has agent type '' @ ag_agent c @ '', not '' @ ex_agentType process))
               else andThen (wrapped ''get AgentCredential Secret''
                      (x_read x (XGetSecret (ag_secret c)) (x_getSecret x namespace (ag_secret c)))) (\<lambda>s.
                    case se_data s (ag_key c) of
                      None \<Rightarrow> raise (EMsg (''agent credential Secret '' @ o_name s @ '' has no key '' @ ag_key c))
                    | Some d \<Rightarrow> ret [(''agent/auth.json'', d)])))"

definition resolveProcessCredentials ::
  "'api xclient \<Rightarrow> string \<Rightarrow> string \<Rightarrow> string list \<Rightarrow> string list \<Rightarrow> execution \<Rightarrow>
   ('api, (string \<times> string) option \<times> (string \<times> string) list) xctl" where
  "resolveProcessCredentials x namespace wsName agentRefs credentialRefs process =
     andThen (agent_reference x namespace agentRefs process) (\<lambda>ref.
     andThen (agent_files x namespace wsName agentRefs process ref) (\<lambda>files.
     andThen (generic_credentials x namespace (Some (wsName, credentialRefs)) (ex_credentials process) files) (\<lambda>all.
     ret (agent_profile process ref, all))))"

section \<open>Projections\<close>

record projection =
  pj_mounts :: "(string \<times> string) list"
  pj_environment :: "(string \<times> string) list"
  pj_ssh :: "(string \<times> string) list"
  pj_targets :: "(string \<times> string) list"

definition no_projection :: projection where
  "no_projection = \<lparr>pj_mounts = [], pj_environment = [], pj_ssh = [], pj_targets = []\<rparr>"

fun project_files :: "string \<Rightarrow> nat \<Rightarrow> credential_file list \<Rightarrow> projection \<Rightarrow> projection result" where
  "project_files ref i [] p = Inr p"
| "project_files ref i (f # fs) p =
     (case map_of (pj_targets p) (cf_mountPath f) of
        Some other \<Rightarrow> Inl (EMsg (''credentials '' @ other @ '' and '' @ ref @ '' project to the same path '' @ cf_mountPath f))
      | None \<Rightarrow>
          project_files ref (Suc i) fs (p\<lparr>pj_targets := put (cf_mountPath f) ref (pj_targets p),
            pj_mounts := pj_mounts p @ [(Join [''credentials'', ref, ''files'', nat_digits i], cf_mountPath f)]\<rparr>))"

fun project_variables :: "(string \<times> string) list \<Rightarrow> projection \<Rightarrow> projection result" where
  "project_variables [] p = Inr p"
| "project_variables ((name, v) # vs) p =
     (if (case map_of (pj_environment p) name of None \<Rightarrow> False | Some previous \<Rightarrow> previous \<noteq> v)
      then Inl (EMsg (''selected Credentials define conflicting values for environment variable '' @ name))
      else project_variables vs (p\<lparr>pj_environment := put name v (pj_environment p)\<rparr>))"

definition project :: "string \<Rightarrow> process_credential \<Rightarrow> projection \<Rightarrow> projection result" where
  "project ref c p =
     (case c of
        SSHKey private known config \<Rightarrow> Inr (if config \<noteq> [] then p\<lparr>pj_ssh := put ref config (pj_ssh p)\<rparr> else p)
      | ProcessFiles None \<Rightarrow> Inl (EMsg (''process Credential '' @ ref @ '' has no process configuration''))
      | ProcessFiles (Some (files, envs)) \<Rightarrow>
          (case project_files ref 0 files p of
             Inl e \<Rightarrow> Inl e
           | Inr p' \<Rightarrow> project_variables envs p')
      | _ \<Rightarrow> Inr p)"

fun project_credentials :: "'api xclient \<Rightarrow> string \<Rightarrow> string list \<Rightarrow> projection \<Rightarrow> ('api, projection) xctl" where
  "project_credentials x namespace [] p = ret p"
| "project_credentials x namespace (ref # refs) p =
     andThen (wrapped (''get Credential '' @ ref @ '' projection'') (x_read x (XGetCredential ref) (x_getCredential x namespace ref))) (\<lambda>c.
     andThen (of_result (project ref c p)) (project_credentials x namespace refs))"

definition resolveCredentialProjections :: "'api xclient \<Rightarrow> string \<Rightarrow> string list \<Rightarrow> ('api, projection) xctl" where
  "resolveCredentialProjections x namespace references = project_credentials x namespace references no_projection"

section \<open>Targets\<close>

record resolved_target =
  tr_workspace :: "workspace_object option"
  tr_runtime :: process_target
  tr_podUID :: string
  tr_workingDir :: string
  tr_defaultDirectory :: default_directory
  tr_environment :: "(string \<times> string) list"
  tr_agent :: "(string \<times> string) option"
  tr_credentials :: "(string \<times> string) list"
  tr_mounts :: "(string \<times> string) list"
  tr_credentialEnvironment :: "(string \<times> string) list"
  tr_ssh :: "(string \<times> string) list"

text \<open>A target, or the reason and the message why there is none yet.\<close>

type_synonym target_answer = "string \<times> string + resolved_target"

definition not_ready :: "string \<Rightarrow> ('api, target_answer) xctl" where
  "not_ready message = ret (Inl (reasonTargetNotReady, message))"

definition workspace_target ::
  "'api xclient \<Rightarrow> execution \<Rightarrow> workspace_object \<Rightarrow> spec_pod \<Rightarrow> ('api, target_answer) xctl" where
  "workspace_target x process workspace pod =
     andThen (resolveWorkspaceEnvironmentVariables x workspace process) (\<lambda>environment.
     andThen (resolveProcessCredentials x (o_namespace workspace) (o_name workspace) (wo_agentCredentials workspace)
                (wo_credentials workspace) process) (\<lambda>(agent, files).
     andThen (resolveCredentialProjections x (o_namespace process) (ex_credentials process)) (\<lambda>pj.
     case FromPod pod of
       Inl e \<Rightarrow> raise (EWrap ''resolve Workspace runtime platform'' e)
     | Inr rt \<Rightarrow>
         ret (Inr \<lparr>tr_workspace = Some workspace, tr_runtime = ProcessTarget rt (o_namespace process) (o_name pod) runtimeContainerName,
                   tr_podUID = o_uid pod,
                   tr_workingDir = (if ex_workingDirectory process = [] then wo_defaultDirectory workspace else ex_workingDirectory process),
                   tr_defaultDirectory = WorkspaceDirectory, tr_environment = environment, tr_agent = agent, tr_credentials = files,
                   tr_mounts = pj_mounts pj, tr_credentialEnvironment = pj_environment pj, tr_ssh = pj_ssh pj\<rparr>))))"

definition workspace_runtime :: "'api xclient \<Rightarrow> execution \<Rightarrow> workspace_object \<Rightarrow> ('api, target_answer) xctl" where
  "workspace_runtime x process workspace =
     (if \<not> IsStatusConditionTrue (ws_conditions workspace) ConditionReady \<or> ws_runtimePodName workspace = []
      then not_ready ''Target Workspace is not ready''
      else andThen (attempt (x_read x (XGetPod (ws_runtimePodName workspace))
                      (x_getPod x (o_namespace workspace) (ws_runtimePodName workspace)))) (\<lambda>found.
           case found of
             Inl e \<Rightarrow> if err_is ENotFound e then not_ready ''Target Workspace runtime Pod does not exist''
                      else raise (EWrap ''get target Workspace runtime Pod'' e)
           | Inr pod \<Rightarrow>
               if runtimePodTerminal pod \<or> o_deleting pod \<noteq> None then not_ready ''Target Workspace runtime Pod has stopped''
               else workspace_target x process workspace pod))"

definition resolve_workspace :: "'api xclient \<Rightarrow> execution \<Rightarrow> ('api, target_answer) xctl" where
  "resolve_workspace x process =
     andThen (attempt (x_read x XGetWorkspace (x_getWorkspace x (o_namespace process) (we_targetName process)))) (\<lambda>found.
     case found of
       Inl e \<Rightarrow> if err_is ENotFound e then ret (Inl (''TargetNotFound'', ''Target Workspace does not exist''))
                else raise (EWrap ''get target Workspace'' e)
     | Inr workspace \<Rightarrow> workspace_runtime x process workspace)"

section \<open>The editor of an Environment\<close>

definition environment_placement :: "workspace_environment \<Rightarrow> placement" where
  "environment_placement environment =
     \<lparr>pl_selector = en_selector environment, pl_tolerations = en_tolerations environment, pl_affinity = None, pl_runtimeClass = None\<rparr>"

definition draft_status :: "time \<Rightarrow> string \<Rightarrow> string \<Rightarrow> cond_status \<Rightarrow> string \<Rightarrow> string \<Rightarrow> workspace_environment \<Rightarrow> workspace_environment" where
  "draft_status now draftName editorName status reason message current =
     current\<lparr>en_draftClaim := draftName, en_editorPod := editorName,
             en_conditions := SetStatusCondition now ConditionDraftReady
               (new_condition status (o_generation current) reason message) (en_conditions current)\<rparr>"

definition setEnvironmentDraftStatus ::
  "'api xclient \<Rightarrow> workspace_environment \<Rightarrow> string \<Rightarrow> string \<Rightarrow> cond_status \<Rightarrow> string \<Rightarrow> string \<Rightarrow> ('api, unit) xctl" where
  "setEnvironmentDraftStatus x environment draftName editorName status reason message =
     andThen (wrapped ''re-fetch WorkspaceEnvironment before draft status update''
       (x_read x XGetEnvironment (x_getEnvironment x (o_namespace environment) (o_name environment)))) (\<lambda>current.
     andThen (x_now x) (\<lambda>now.
     let changed = draft_status now draftName editorName status reason message current
     in wrapped ''update WorkspaceEnvironment draft status''
          (x_write x (XWriteEnvironment current changed) (x_updateEnvironmentStatus x changed))))"

definition environmentEditorPod :: "workspace_environment \<Rightarrow> string \<Rightarrow> string \<Rightarrow> spec_pod result" where
  "environmentEditorPod environment draftClaimName rcKubeImage =
     (case platform_Resolve (en_os environment) (environment_placement environment) of
        Inl e \<Rightarrow> Inl e
      | Inr rt \<Rightarrow>
          EnvironmentEditorPod rt
            \<lparr>ei_metadata = (blank_object (o_namespace environment) (o_name environment @ ''-editor''))\<lparr>
               o_labels := [environmentManagedByLabel \<mapsto> o_name environment]\<rparr>,
             ei_image = en_image environment, ei_homeClaim = draftClaimName, ei_serviceAccount = defaultWorkspaceServiceAccount,
             ei_transcriptScope = ''environment/'' @ o_uid environment @ ''/'' @ draftClaimName, ei_rcKubeImage = rcKubeImage\<rparr>)"

definition create_editor :: "'api xclient \<Rightarrow> workspace_environment \<Rightarrow> pvc \<Rightarrow> ('api, string \<times> string + spec_pod) xctl" where
  "create_editor x environment draft =
     andThen (wrapped ''build WorkspaceEnvironment editor Pod''
       (of_result (environmentEditorPod environment (o_name draft) (x_rcKubeImage x)))) (\<lambda>built.
     andThen (wrapped ''set WorkspaceEnvironment owner on editor Pod''
       (of_result (SetControllerReference workspacesGroupVersion ''WorkspaceEnvironment'' environment built))) (\<lambda>editor.
     andThen (wrapped ''create WorkspaceEnvironment editor Pod'' (x_write x (XMakePod editor) (x_createPod x editor))) (\<lambda>_.
     andThen (setEnvironmentDraftStatus x environment (o_name draft) (o_name editor) CFalse ''Starting''
       ''Environment editor Pod is starting'') (\<lambda>_.
     ret (Inl (reasonTargetNotReady, ''Target WorkspaceEnvironment editor is starting''))))))"

definition ensureEnvironmentEditor :: "'api xclient \<Rightarrow> workspace_environment \<Rightarrow> pvc \<Rightarrow> ('api, string \<times> string + spec_pod) xctl" where
  "ensureEnvironmentEditor x environment draft =
     (let editorName = o_name environment @ ''-editor''
      in andThen (attempt (x_read x (XGetPod editorName) (x_getPod x (o_namespace environment) editorName))) (\<lambda>found.
         case found of
           Inl e \<Rightarrow> if err_is ENotFound e then create_editor x environment draft
                    else raise (EWrap ''get WorkspaceEnvironment editor Pod'' e)
         | Inr editor \<Rightarrow>
             if \<not> podReady editor then ret (Inl (reasonTargetNotReady, ''Target WorkspaceEnvironment editor is starting''))
             else andThen (setEnvironmentDraftStatus x environment (o_name draft) (o_name editor) CTrue ''DraftReady''
                    ''Environment draft editor is ready'') (\<lambda>_. ret (Inr editor))))"

definition resolveEnvironmentProcessCredentials ::
  "'api xclient \<Rightarrow> workspace_environment \<Rightarrow> execution \<Rightarrow> ('api, (string \<times> string) option \<times> (string \<times> string) list) xctl" where
  "resolveEnvironmentProcessCredentials x environment process =
     (let agent = agent_profile process (ex_agentCredential process)
      in case ex_agentCredential process of
           Some name \<Rightarrow>
             andThen (resolveProcessCredentials x (o_namespace environment) (o_name environment) [name] (ex_credentials process) process)
               (\<lambda>(_, files). ret (agent, files))
         | None \<Rightarrow>
             andThen (generic_credentials x (o_namespace environment) None (ex_credentials process) []) (\<lambda>files. ret (agent, files)))"

definition editor_target ::
  "'api xclient \<Rightarrow> execution \<Rightarrow> workspace_environment \<Rightarrow> spec_pod \<Rightarrow> ('api, target_answer) xctl" where
  "editor_target x process environment editor =
     (case FromPod editor of
        Inl e \<Rightarrow> ret (Inl (runtimePlatformCondition e))
      | Inr rt \<Rightarrow>
          andThen (resolveProcessOnlyEnvironment x process) (\<lambda>vars.
          andThen (resolveEnvironmentProcessCredentials x environment process) (\<lambda>(agent, files).
          andThen (resolveCredentialProjections x (o_namespace process) (ex_credentials process)) (\<lambda>pj.
          ret (Inr \<lparr>tr_workspace = None, tr_runtime = ProcessTarget rt (o_namespace environment) (o_name editor) runtimeContainerName,
                    tr_podUID = o_uid editor, tr_workingDir = ex_workingDirectory process, tr_defaultDirectory = HomeDirectory,
                    tr_environment = vars, tr_agent = agent, tr_credentials = files, tr_mounts = pj_mounts pj,
                    tr_credentialEnvironment = pj_environment pj, tr_ssh = pj_ssh pj\<rparr>)))))"

definition create_draft :: "'api xclient \<Rightarrow> workspace_environment \<Rightarrow> string \<Rightarrow> ('api, target_answer) xctl" where
  "create_draft x environment draftName =
     andThen (wrapped ''set WorkspaceEnvironment owner on draft PersistentVolumeClaim''
       (of_result (SetControllerReference workspacesGroupVersion ''WorkspaceEnvironment'' environment
          (environmentVolumeClaim environment draftName (en_currentClaim environment))))) (\<lambda>draft.
     andThen (wrapped ''create WorkspaceEnvironment draft PersistentVolumeClaim'' (x_write x (XMakeClaim draft) (x_createClaim x draft))) (\<lambda>_.
     andThen (setEnvironmentDraftStatus x environment (o_name draft) [] CFalse ''Provisioning'' ''Environment draft volume is provisioning'') (\<lambda>_.
     not_ready ''Target WorkspaceEnvironment draft is provisioning'')))"

definition use_draft :: "'api xclient \<Rightarrow> execution \<Rightarrow> workspace_environment \<Rightarrow> pvc \<Rightarrow> ('api, target_answer) xctl" where
  "use_draft x process environment draft =
     (if \<not> environmentClaimMatches draft (en_storage environment) (en_currentClaim environment)
      then ret (Inl (''DraftVolumeMismatch'', ''Environment draft volume does not clone current''))
      else if pvc_phase draft \<noteq> ''Bound''
      then andThen (persistentVolumeClaimFailure x draft) (\<lambda>failure.
           case failure of
             Some why \<Rightarrow> ret (Inl why)
           | None \<Rightarrow> not_ready ''Target WorkspaceEnvironment draft is provisioning'')
      else andThen (ensureWorkspaceAccess x (o_namespace environment)) (\<lambda>_.
           andThen (ensureEnvironmentEditor x environment draft) (\<lambda>answer.
           case answer of
             Inl why \<Rightarrow> ret (Inl why)
           | Inr editor \<Rightarrow> editor_target x process environment editor)))"

definition environment_draft :: "'api xclient \<Rightarrow> execution \<Rightarrow> workspace_environment \<Rightarrow> ('api, target_answer) xctl" where
  "environment_draft x process environment =
     andThen (resolve_environment_claim x environment EnvironmentDraft (en_revision environment + 1) (en_draftClaim environment))
       (\<lambda>(draftName, found, e).
     case e of
       Some err \<Rightarrow>
         if IsConflict err then ret (Inl (''VolumeClaimConflict'', err_text err))
         else raise (EWrap ''get WorkspaceEnvironment draft PersistentVolumeClaim'' err)
     | None \<Rightarrow> (case found of None \<Rightarrow> create_draft x environment draftName | Some draft \<Rightarrow> use_draft x process environment draft))"

definition resolveEnvironmentProcessTarget :: "'api xclient \<Rightarrow> execution \<Rightarrow> ('api, target_answer) xctl" where
  "resolveEnvironmentProcessTarget x process =
     andThen (attempt (x_read x XGetEnvironment (x_getEnvironment x (o_namespace process) (we_targetName process)))) (\<lambda>found.
     case found of
       Inl e \<Rightarrow> if err_is ENotFound e then ret (Inl (''TargetNotFound'', ''Target WorkspaceEnvironment does not exist''))
                else raise (EWrap ''get target WorkspaceEnvironment'' e)
     | Inr environment \<Rightarrow>
         if \<not> ReadyAtGeneration (en_conditions environment) ConditionReady (o_generation environment) (en_observed environment) \<or>
            en_currentClaim environment = []
         then not_ready ''Target WorkspaceEnvironment current revision is not ready''
         else (case platform_Resolve (en_os environment) (environment_placement environment) of
                 Inl e \<Rightarrow> ret (Inl (runtimePlatformCondition e))
               | Inr _ \<Rightarrow> environment_draft x process environment))"

definition resolveProcessTarget :: "'api xclient \<Rightarrow> execution \<Rightarrow> ('api, target_answer) xctl" where
  "resolveProcessTarget x process =
     (if we_targetKind process = ''Workspace'' then resolve_workspace x process
      else if we_targetKind process = ''WorkspaceEnvironment'' then resolveEnvironmentProcessTarget x process
      else ret (Inl (''InvalidTarget'', ''process target kind is not supported'')))"

section \<open>Starting\<close>

text \<open>\<^verbatim>\<open>maps.Copy(dst, src)\<close>.\<close>

definition copy_map :: "(string \<times> string) list \<Rightarrow> (string \<times> string) list \<Rightarrow> (string \<times> string) list" where
  "copy_map src dst = fold (\<lambda>(k, v). put k v) src dst"

definition start_intent :: "execution \<Rightarrow> resolved_target \<Rightarrow> process_intent" where
  "start_intent process target =
     \<lparr>pi_id = o_name process, pi_uid = o_uid process, pi_command = ex_command process, pi_workingDirectory = tr_workingDir target,
      pi_defaultDirectory = tr_defaultDirectory target, pi_tty = ex_tty process,
      pi_environment = copy_map (tr_environment target) (copy_map (tr_credentialEnvironment target) []),
      pi_agent = tr_agent target, pi_credentialFiles = tr_credentials target, pi_credentialMounts = tr_mounts target,
      pi_exposeCredentials = (ex_credentials process \<noteq> []), pi_sshConfigFragments = tr_ssh target, pi_stdin = ex_stdin process\<rparr>"

definition processStartRequest :: "'api xclient \<Rightarrow> execution \<Rightarrow> resolved_target \<Rightarrow> ('api, start_request) xctl" where
  "processStartRequest x process target =
     andThen (clock (x_ctx x)) (\<lambda>ended.
     case ended of Some e \<Rightarrow> raise e | None \<Rightarrow> ret (Process (start_intent process target)))"

definition claimed_status :: "time \<Rightarrow> resolved_target \<Rightarrow> execution \<Rightarrow> execution" where
  "claimed_status now target current =
     set_ready now CFalse ''Starting'' ''rc-kube is starting the command''
       (current\<lparr>ex_transcript := transcript_path current, ex_observed := o_generation current, we_phase := PhaseStarting,
                ex_podName := tg_pod (tr_runtime target), ex_podUID := tr_podUID target\<rparr>)"

definition claimProcessRuntime :: "'api xclient \<Rightarrow> execution \<Rightarrow> resolved_target \<Rightarrow> ('api, unit) xctl" where
  "claimProcessRuntime x process target =
     andThen (refetch x process ''re-fetch WorkspaceExec before runtime claim'') (\<lambda>current.
     if Terminal (we_phase current) \<or> (ex_podUID current \<noteq> [] \<and> ex_podUID current \<noteq> tr_podUID target)
     then raise (EMsg ''WorkspaceExec runtime claim changed before start'')
     else andThen (x_now x) (\<lambda>now.
          andThen (wrapped ''persist WorkspaceExec runtime claim'' (write_status x current (claimed_status now target current))) (\<lambda>_. ret ())))"

definition admit_execution :: "'api xclient \<Rightarrow> workspace_object \<Rightarrow> execution \<Rightarrow> ('api, unit) xctl" where
  "admit_execution x workspace current =
     call (x_env x) (XAdmit workspace current) (\<lambda>e api.
       case Gate_Admit e (\<lambda>s. map_sum id workspace.truncate (x_readWorkspace x (o_namespace workspace) (o_name workspace) s)) (x_gateWrite x)
              (workspace.truncate workspace) (workspace_exec.truncate current) api of
         (api', r) \<Rightarrow> (api', unit_result r))"

text \<open>Ownership, after admission.\<close>

definition own_execution :: "'api xclient \<Rightarrow> workspace_object \<Rightarrow> execution \<Rightarrow> ('api, execution) xctl" where
  "own_execution x workspace current =
     (if is_controlled_by current (o_uid workspace) then ret current
      else andThen (of_result (SetControllerReference workspacesGroupVersion ''Workspace'' workspace current)) (\<lambda>owned.
           x_ask x (XUpdateExec owned) (x_updateExec x owned)))"

definition launch :: "'api xclient \<Rightarrow> 'api runtime_api \<Rightarrow> execution \<Rightarrow> resolved_target \<Rightarrow> start_request \<Rightarrow> ('api, ctrl_result) xctl" where
  "launch x ra process target request =
     andThen (attempt (x_ask x (XStart (tr_runtime target) request) (ra_start ra (tr_runtime target) request))) (\<lambda>started.
     case started of
       Inl e \<Rightarrow> if err_is EProcessNotFound e
                then lost_execution x process ''ProcessOwnershipLost''
                       ''rc-kube retained the process identity but no longer owns the original process''
                else raise (EWrap ''start process through rc-kube'' e)
     | Inr state \<Rightarrow>
         andThen (applyRuntimeState x process (tr_runtime target) (tr_podUID target) state) (\<lambda>_.
         andThen (releaseProcessEnvironment x process) (\<lambda>_. ret (Some processTargetRequeueDelay))))"

definition launch_checked ::
  "'api xclient \<Rightarrow> 'api runtime_api \<Rightarrow> execution \<Rightarrow> resolved_target \<Rightarrow> start_request \<Rightarrow> execution \<Rightarrow> ('api, ctrl_result) xctl" where
  "launch_checked x ra process target request current =
     andThen (originalRuntimePod x current) (\<lambda>answer.
     case loss x answer of
       Some (reason, message) \<Rightarrow> lost_execution x process reason message
     | None \<Rightarrow> launch x ra process target request)"

definition launch_admitted ::
  "'api xclient \<Rightarrow> 'api runtime_api \<Rightarrow> execution \<Rightarrow> resolved_target \<Rightarrow> start_request \<Rightarrow> execution \<Rightarrow> ('api, ctrl_result) xctl" where
  "launch_admitted x ra process target request current =
     (case tr_workspace target of
        None \<Rightarrow> launch_checked x ra process target request current
      | Some workspace \<Rightarrow>
          andThen (attempt (admit_execution x workspace current)) (\<lambda>admitted.
          case admitted of
            Inl e \<Rightarrow>
              if err_is EClosed e \<or> err_is EOwnerChanged e \<or> err_is ENotFound e
              then andThen (setTerminalProcessStatus x process PhaseFailed None ''WorkspaceAdmissionRejected'' (err_text e) 0) (\<lambda>_. ret None)
              else raise e
          | Inr _ \<Rightarrow> andThen (own_execution x workspace current) (launch_checked x ra process target request)))"

definition startProcess :: "'api xclient \<Rightarrow> 'api runtime_api \<Rightarrow> execution \<Rightarrow> resolved_target \<Rightarrow> ('api, ctrl_result) xctl" where
  "startProcess x ra process target =
     andThen (claimProcessRuntime x process target) (\<lambda>_.
     andThen (processStartRequest x process target) (\<lambda>request.
     getOr (x_read x XReadExec (x_readExec x (o_namespace process) (o_name process))) (ret None) (\<lambda>current.
     if o_deleting current \<noteq> None \<or> Terminal (we_phase current) then ret requeue_now
     else launch_admitted x ra process target request current)))"

definition startWorkspaceExec :: "'api xclient \<Rightarrow> 'api runtime_api \<Rightarrow> execution \<Rightarrow> ('api, ctrl_result) xctl" where
  "startWorkspaceExec x ra process =
     andThen (resolveProcessTarget x process) (\<lambda>answer.
     case answer of
       Inl (reason, message) \<Rightarrow>
         andThen (setProcessCondition x process PhasePending CFalse reason message) (\<lambda>_. ret (Some processTargetRequeueDelay))
     | Inr target \<Rightarrow>
         if ex_podUID process \<noteq> [] \<and> ex_podUID process \<noteq> tr_podUID target then replaced_execution x process
         else startProcess x ra process target)"

section \<open>Reconcile\<close>

definition stop_execution ::
  "'api xclient \<Rightarrow> 'api runtime_api \<Rightarrow> execution \<Rightarrow> spec_pod option \<Rightarrow> ('api, ctrl_result) xctl" where
  "stop_execution x ra process runtimePod =
     (if ex_podUID process = [] \<and> (we_phase process = PhaseUnset \<or> we_phase process = PhasePending)
      then andThen (setTerminalProcessStatus x process PhaseStopped None ''StoppedBeforeStart'' ''Process was stopped before it started'' 0)
             (\<lambda>_. ret None)
      else andThen (of_result (runtimeProcessTarget process runtimePod)) (\<lambda>found.
           case found of
             None \<Rightarrow> replaced_execution x process
           | Some (target, podUID) \<Rightarrow>
               andThen (attempt (x_ask x (XStop target (o_name process)) (ra_stop ra target (o_name process)))) (\<lambda>stopped.
               case stopped of
                 Inl e \<Rightarrow> if err_is EProcessNotFound e
                          then lost_execution x process ''ProcessMissing'' ''rc-kube no longer owns the original process''
                          else raise (EWrap ''stop process through rc-kube'' e)
               | Inr state \<Rightarrow> andThen (applyRuntimeState x process target podUID state) (\<lambda>_. ret None))))"

definition inspect_execution ::
  "'api xclient \<Rightarrow> 'api runtime_api \<Rightarrow> execution \<Rightarrow> spec_pod option \<Rightarrow> ('api, ctrl_result) xctl" where
  "inspect_execution x ra process runtimePod =
     andThen (releaseProcessEnvironment x process) (\<lambda>_.
     andThen (of_result (runtimeProcessTarget process runtimePod)) (\<lambda>found.
     case found of
       None \<Rightarrow> replaced_execution x process
     | Some (target, podUID) \<Rightarrow>
         andThen (attempt (x_ask x (XInspect target (o_name process)) (ra_inspect ra target (o_name process)))) (\<lambda>seen.
         case seen of
           Inl e \<Rightarrow> if err_is EProcessNotFound e
                    then lost_execution x process ''ProcessMissing'' ''rc-kube no longer owns the original process''
                    else raise (EWrap ''inspect process through rc-kube'' e)
         | Inr state \<Rightarrow> andThen (applyRuntimeState x process target podUID state) (\<lambda>_. ret (Some processTargetRequeueDelay)))))"

definition drive_execution :: "'api xclient \<Rightarrow> execution \<Rightarrow> spec_pod option \<Rightarrow> ('api, ctrl_result) xctl" where
  "drive_execution x process runtimePod =
     (case x_runtime x of
        None \<Rightarrow> raise (EMsg ''WorkspaceExec runtime client is not configured'')
      | Some ra \<Rightarrow>
          if we_desired process = ''Stopped'' then stop_execution x ra process runtimePod
          else if we_phase process = PhaseRunning then inspect_execution x ra process runtimePod
          else startWorkspaceExec x ra process)"

definition resume_execution :: "'api xclient \<Rightarrow> execution \<Rightarrow> ('api, ctrl_result) xctl" where
  "resume_execution x process =
     (if ex_podUID process = [] then drive_execution x process None
      else andThen (originalRuntimePod x process) (\<lambda>answer.
           case answer of
             Alive pod \<Rightarrow> drive_execution x process (Some pod)
           | _ \<Rightarrow> (case loss x answer of
                     Some (reason, message) \<Rightarrow> lost_execution x process reason message
                   | None \<Rightarrow> ret None)))"

definition Reconcile_workspaceexec :: "'api xclient \<Rightarrow> string \<Rightarrow> string \<Rightarrow> ('api, ctrl_result) xctl" where
  "Reconcile_workspaceexec x namespace name =
     getOr (x_read x XGetExec (x_getExec x namespace name)) (ret None) (\<lambda>process.
     andThen (handleWorkspaceExecLifecycle x process) (\<lambda>handled.
     case handled of
       Some result \<Rightarrow> ret result
     | None \<Rightarrow> resume_execution x process))"

text \<open>\<^verbatim>\<open>executionsForRuntimePod\<close>: \<open>indexed\<close> are the executions that the index on the Pod name lists.\<close>

definition executionsForRuntimePod :: "'y kobj_scheme \<Rightarrow> execution list result \<Rightarrow> (string \<times> string) list" where
  "executionsForRuntimePod object indexed =
     (let label = (\<lambda>l. case o_labels object l of None \<Rightarrow> [] | Some v \<Rightarrow> v)
      in if label workspaceManagedByLabel = [] \<and> label environmentManagedByLabel = [] then []
         else case indexed of
                Inl e \<Rightarrow> []
              | Inr ps \<Rightarrow> map (\<lambda>p. (o_namespace p, o_name p))
                            (filter (\<lambda>p. \<not> (Terminal (we_phase p) \<or> ex_podName p \<noteq> o_name object)) ps))"

end
