(* ===== verification/WorkspaceEnvironments.thy ===== *)
theory WorkspaceEnvironments
  imports WorkspaceExecution
begin

text \<open>
  The WorkspaceEnvironment controller (\<^verbatim>\<open>workspaceenvironment_controller.go\<close>): the volume of the committed revision, the promotion of a draft
  to the next revision, and the life of the editor Pod; and what a reconcile guarantees about them.
\<close>

section \<open>Status\<close>

definition refetch_environment :: "'api xclient \<Rightarrow> workspace_environment \<Rightarrow> ('api, workspace_environment) xctl" where
  "refetch_environment x environment = x_read x XGetEnvironment (x_getEnvironment x (o_namespace environment) (o_name environment))"

definition write_environment :: "'api xclient \<Rightarrow> workspace_environment \<Rightarrow> workspace_environment \<Rightarrow> ('api, unit) xctl" where
  "write_environment x current new = x_write x (XWriteEnvironment current new) (x_updateEnvironmentStatus x new)"

definition environment_condition ::
  "time \<Rightarrow> string \<Rightarrow> cond_status \<Rightarrow> string \<Rightarrow> string \<Rightarrow> workspace_environment \<Rightarrow> workspace_environment" where
  "environment_condition now typ status reason message current =
     current\<lparr>en_conditions := SetStatusCondition now typ (new_condition status (o_generation current) reason message) (en_conditions current)\<rparr>"

definition setEnvironmentDraftCondition :: "'api xclient \<Rightarrow> workspace_environment \<Rightarrow> string \<Rightarrow> string \<Rightarrow> ('api, unit) xctl" where
  "setEnvironmentDraftCondition x environment reason message =
     andThen (wrapped ''re-fetch WorkspaceEnvironment before draft condition update'' (refetch_environment x environment)) (\<lambda>current.
     andThen (x_now x) (\<lambda>now.
     wrapped ''update WorkspaceEnvironment draft condition''
       (write_environment x current (environment_condition now ConditionDraftReady CFalse reason message current))))"

definition current_status ::
  "time \<Rightarrow> int \<Rightarrow> string \<Rightarrow> string \<Rightarrow> cond_status \<Rightarrow> string \<Rightarrow> string \<Rightarrow> (cond_status \<times> string \<times> string) option \<Rightarrow>
   workspace_environment \<Rightarrow> workspace_environment" where
  "current_status now revision img claimName status reason message storage current =
     (let base = environment_condition now ConditionReady status reason message
            (current\<lparr>en_observed := o_generation current, en_revision := revision, en_currentImage := img, en_currentClaim := claimName\<rparr>)
      in case storage of
           None \<Rightarrow> base
         | Some (s, r, m) \<Rightarrow> environment_condition now ConditionEnvStorageReady s r m base)"

definition setEnvironmentStatus ::
  "'api xclient \<Rightarrow> workspace_environment \<Rightarrow> int \<Rightarrow> string \<Rightarrow> string \<Rightarrow> cond_status \<Rightarrow> string \<Rightarrow> string \<Rightarrow>
   (cond_status \<times> string \<times> string) option \<Rightarrow> ('api, unit) xctl" where
  "setEnvironmentStatus x environment revision img claimName status reason message storage =
     andThen (wrapped ''re-fetch WorkspaceEnvironment before status update'' (refetch_environment x environment)) (\<lambda>current.
     andThen (x_now x) (\<lambda>now.
     wrapped ''update WorkspaceEnvironment status''
       (write_environment x current (current_status now revision img claimName status reason message storage current))))"

section \<open>Processes\<close>

definition environment_process :: "workspace_environment \<Rightarrow> execution \<Rightarrow> bool" where
  "environment_process environment p = (we_targetKind p = ''WorkspaceEnvironment'' \<and> we_targetName p = o_name environment)"

definition active_process :: "workspace_environment \<Rightarrow> execution \<Rightarrow> bool" where
  "active_process environment p = (environment_process environment p \<and> \<not> Terminal (we_phase p))"

definition list_processes :: "'api xclient \<Rightarrow> workspace_environment \<Rightarrow> string \<Rightarrow> ('api, execution list) xctl" where
  "list_processes x environment message = wrapped message (x_read x XListExecs (x_listExecs x (o_namespace environment)))"

definition environmentHasActiveProcess :: "'api xclient \<Rightarrow> workspace_environment \<Rightarrow> ('api, bool) xctl" where
  "environmentHasActiveProcess x environment =
     andThen (list_processes x environment ''list Environment editor processes'') (\<lambda>ps. ret (list_ex (active_process environment) ps))"

definition later_completion :: "time option \<Rightarrow> time option \<Rightarrow> time option" where
  "later_completion l c = (case c of None \<Rightarrow> l | Some t \<Rightarrow> (case l of None \<Rightarrow> Some t | Some u \<Rightarrow> if u < t then Some t else Some u))"

definition latest_completion :: "workspace_environment \<Rightarrow> execution list \<Rightarrow> time option" where
  "latest_completion environment ps =
     fold (\<lambda>p l. later_completion l (we_completedAt p)) (filter (environment_process environment) ps) (en_lastCompleted environment)"

section \<open>The editor\<close>

definition delete_editor :: "'api xclient \<Rightarrow> string \<Rightarrow> spec_pod \<Rightarrow> ('api, unit) xctl" where
  "delete_editor x message editor = wrapped message (x_write x (XDeletePod editor) (x_deletePod x editor))"

definition editor_stopped :: "'api xclient \<Rightarrow> workspace_environment \<Rightarrow> ('api, ctrl_result option) xctl" where
  "editor_stopped x environment =
     andThen (refetch_environment x environment) (\<lambda>current.
     andThen (x_now x) (\<lambda>now.
     andThen (wrapped ''clear stopped Environment editor status'' (write_environment x current
       (environment_condition now ConditionDraftReady CFalse ''EditorStopped'' ''Environment draft is retained while the editor is stopped''
          (current\<lparr>en_editorPod := []\<rparr>)))) (\<lambda>_. ret (Some None))))"

definition editor_outdated :: "'api xclient \<Rightarrow> workspace_environment \<Rightarrow> spec_pod \<Rightarrow> ('api, ctrl_result option) xctl" where
  "editor_outdated x environment editor =
     andThen (environmentHasActiveProcess x environment) (\<lambda>active.
     if active
     then andThen (setEnvironmentDraftCondition x environment ''RuntimeChangeBlocked''
            ''Environment editor runtime changed while processes are active'') (\<lambda>_. ret (Some None))
     else andThen (delete_editor x ''replace Environment editor Pod'' editor) (\<lambda>_.
          andThen (setEnvironmentDraftCondition x environment ''ReplacingEditor''
            ''Environment editor Pod is restarting with updated runtime settings'') (\<lambda>_. ret (Some None))))"

definition editor_idle :: "'api xclient \<Rightarrow> workspace_environment \<Rightarrow> duration \<Rightarrow> spec_pod \<Rightarrow> ('api, ctrl_result option) xctl" where
  "editor_idle x environment timeout editor =
     andThen (list_processes x environment ''list Environment editor processes'') (\<lambda>ps.
     if list_ex (active_process environment) ps then ret None
     else (case latest_completion environment ps of
             None \<Rightarrow> ret None
           | Some t \<Rightarrow>
               andThen (x_now x) (\<lambda>now.
               if int now < int t + timeout then ret (Some (Some (int t + timeout - int now)))
               else andThen (delete_editor x ''delete idle Environment editor Pod'' editor) (\<lambda>_. ret (Some None)))))"

text \<open>\<open>None\<close>: not handled here.\<close>

definition reconcileEditorLifecycle :: "'api xclient \<Rightarrow> workspace_environment \<Rightarrow> ('api, ctrl_result option) xctl" where
  "reconcileEditorLifecycle x environment =
     (if en_editorPod environment = [] then ret None
      else andThen (attempt (x_read x (XGetPod (en_editorPod environment))
             (x_getPod x (o_namespace environment) (en_editorPod environment)))) (\<lambda>found.
           case found of
             Inl e \<Rightarrow> if err_is ENotFound e then editor_stopped x environment else raise (EWrap ''get Environment editor Pod'' e)
           | Inr editor \<Rightarrow>
               if en_observed environment < o_generation environment then editor_outdated x environment editor
               else (case en_editorIdle environment of
                       None \<Rightarrow> ret None
                     | Some timeout \<Rightarrow> if timeout = 0 then ret None else editor_idle x environment timeout editor)))"

section \<open>Commit\<close>

definition promoted_status :: "time \<Rightarrow> pvc \<Rightarrow> workspace_environment \<Rightarrow> workspace_environment" where
  "promoted_status now draft current =
     environment_condition now ConditionDraftReady CFalse ''Committed'' ''Environment draft was promoted''
       (environment_condition now ConditionReady CTrue ''EnvironmentReady'' ''Committed Environment revision is ready''
          (current\<lparr>en_observed := o_generation current,
                   en_revision := (let r = en_revision current + 1 in if r = 0 then 1 else r),
                   en_currentImage := en_image current, en_currentClaim := o_name draft, en_draftClaim := [], en_editorPod := [],
                   en_committed := en_commit current\<rparr>))"

definition environment_owner :: "workspace_environment \<Rightarrow> claim_owner" where
  "environment_owner environment =
     \<lparr>ow_namespace = o_namespace environment, ow_name = o_name environment, ow_uid = o_uid environment\<rparr>"

definition delete_previous :: "'api xclient \<Rightarrow> workspace_environment \<Rightarrow> pvc \<Rightarrow> ('api, unit) xctl" where
  "delete_previous x environment draft =
     (let oldName = en_currentClaim environment
      in if oldName = [] \<or> oldName = o_name draft then ret ()
         else andThen (attempt (x_read x (XGetClaim oldName) (x_getClaim x (o_namespace environment) oldName))) (\<lambda>found.
              case found of
                Inl e \<Rightarrow> if err_is ENotFound e then ret ()
                         else raise (EWrap ''get previous Environment current PersistentVolumeClaim'' e)
              | Inr old \<Rightarrow>
                  (case CheckOwner old (environment_owner environment) of
                     Some e \<Rightarrow> raise e
                   | None \<Rightarrow> wrapped ''delete previous Environment current PersistentVolumeClaim''
                               (x_write x (XDeleteClaim old) (x_deleteClaim x old)))))"

definition promote_draft :: "'api xclient \<Rightarrow> workspace_environment \<Rightarrow> pvc \<Rightarrow> ('api, unit) xctl" where
  "promote_draft x environment draft =
     andThen (wrapped ''re-fetch WorkspaceEnvironment before commit'' (refetch_environment x environment)) (\<lambda>current.
     andThen (x_now x) (\<lambda>now.
     andThen (wrapped ''promote Environment draft'' (write_environment x current (promoted_status now draft current))) (\<lambda>_.
     delete_previous x environment draft)))"

definition commit_draft :: "'api xclient \<Rightarrow> workspace_environment \<Rightarrow> ('api, unit) xctl" where
  "commit_draft x environment =
     (let draftName = en_draftClaim environment
      in andThen (attempt (x_read x (XGetClaim draftName) (x_getClaim x (o_namespace environment) draftName))) (\<lambda>found.
         case found of
           Inl e \<Rightarrow> if err_is ENotFound e
                    then setEnvironmentDraftCondition x environment ''DraftMissing'' ''Environment draft volume does not exist''
                    else raise (EWrap ''get Environment draft PersistentVolumeClaim'' e)
         | Inr draft \<Rightarrow>
             (case CheckOwner draft (environment_owner environment) of
                Some e \<Rightarrow> setEnvironmentDraftCondition x environment ''VolumeClaimConflict'' (err_text e)
              | None \<Rightarrow>
                  if pvc_phase draft \<noteq> ''Bound''
                  then setEnvironmentDraftCondition x environment ''DraftNotReady'' ''Environment draft volume is not bound''
                  else promote_draft x environment draft)))"

definition commit_stopped :: "'api xclient \<Rightarrow> workspace_environment \<Rightarrow> ('api, unit) xctl" where
  "commit_stopped x environment =
     (if en_editorPod environment = [] then commit_draft x environment
      else andThen (attempt (x_read x (XGetPod (en_editorPod environment))
             (x_getPod x (o_namespace environment) (en_editorPod environment)))) (\<lambda>found.
           case found of
             Inr editor \<Rightarrow>
               andThen (delete_editor x ''delete Environment editor Pod before commit'' editor) (\<lambda>_.
               setEnvironmentDraftCondition x environment ''StoppingEditor'' ''Environment editor Pod is stopping before commit'')
           | Inl e \<Rightarrow> if err_is ENotFound e then commit_draft x environment
                      else raise (EWrap ''get Environment editor Pod before commit'' e)))"

text \<open>Whether the commit request was handled.\<close>

definition reconcileEnvironmentCommit :: "'api xclient \<Rightarrow> workspace_environment \<Rightarrow> ('api, bool) xctl" where
  "reconcileEnvironmentCommit x environment =
     (if en_commit environment \<le> en_committed environment then ret False
      else if en_draftClaim environment = []
      then andThen (setEnvironmentDraftCondition x environment ''NoDraft'' ''Environment has no draft to commit'') (\<lambda>_. ret True)
      else andThen (list_processes x environment ''list Environment draft processes'') (\<lambda>ps.
           if list_ex (active_process environment) ps
           then andThen (setEnvironmentDraftCondition x environment ''ActiveProcesses''
                  ''Environment draft cannot commit while processes are active'') (\<lambda>_. ret True)
           else andThen (commit_stopped x environment) (\<lambda>_. ret True)))"

section \<open>The current revision\<close>

definition report_storage ::
  "'api xclient \<Rightarrow> workspace_environment \<Rightarrow> int \<Rightarrow> string \<Rightarrow> string \<Rightarrow> string \<Rightarrow> string \<Rightarrow> ('api, ctrl_result) xctl" where
  "report_storage x environment revision img claimName reason message =
     andThen (setEnvironmentStatus x environment revision img claimName CFalse reason message (Some (CFalse, reason, message))) (\<lambda>_. ret None)"

definition committed_image :: "workspace_environment \<Rightarrow> string" where
  "committed_image environment = (if en_currentImage environment = [] then en_image environment else en_currentImage environment)"

definition create_current :: "'api xclient \<Rightarrow> workspace_environment \<Rightarrow> int \<Rightarrow> string \<Rightarrow> ('api, ctrl_result) xctl" where
  "create_current x environment revision claimName =
     andThen (wrapped ''set WorkspaceEnvironment owner on PersistentVolumeClaim''
       (of_result (SetControllerReference workspacesGroupVersion ''WorkspaceEnvironment'' environment
          (environmentVolumeClaim environment claimName [])))) (\<lambda>claim.
     andThen (wrapped ''create WorkspaceEnvironment current PersistentVolumeClaim'' (x_write x (XMakeClaim claim) (x_createClaim x claim))) (\<lambda>_.
     report_storage x environment revision (committed_image environment) (o_name claim) ''Provisioning'' ''Current volume is provisioning''))"

definition observe_current :: "'api xclient \<Rightarrow> workspace_environment \<Rightarrow> int \<Rightarrow> pvc \<Rightarrow> ('api, ctrl_result) xctl" where
  "observe_current x environment revision claim =
     (let img = committed_image environment
      in if \<not> environmentStorageMatches claim (en_storage environment)
         then report_storage x environment revision img (o_name claim) ''VolumeClaimSpecChanged''
                ''Changing committed Environment storage is not supported''
         else if pvc_phase claim \<noteq> ''Bound''
         then andThen (persistentVolumeClaimFailure x claim) (\<lambda>failure.
              case failure of
                Some (reason, message) \<Rightarrow> report_storage x environment revision img (o_name claim) reason message
              | None \<Rightarrow> report_storage x environment revision img (o_name claim) ''Provisioning'' ''Current volume is provisioning'')
         else andThen (setEnvironmentStatus x environment revision img (o_name claim) CTrue ''EnvironmentReady''
                ''Current Environment revision is ready''
                (Some (CTrue, ''VolumeClaimBound'', ''Environment current PVC '' @ o_name claim @ '' is bound''))) (\<lambda>_. ret None))"

definition reconcile_current :: "'api xclient \<Rightarrow> workspace_environment \<Rightarrow> ('api, ctrl_result) xctl" where
  "reconcile_current x environment =
     (let revision = (if en_revision environment = 0 then 1 else en_revision environment)
      in andThen (resolve_environment_claim x environment EnvironmentCurrent revision (en_currentClaim environment)) (\<lambda>(claimName, found, e).
         case e of
           Some err \<Rightarrow>
             if IsConflict err
             then report_storage x environment revision (en_currentImage environment) (en_currentClaim environment) ''VolumeClaimConflict'' (err_text err)
             else raise (EWrap ''get WorkspaceEnvironment current PersistentVolumeClaim'' err)
         | None \<Rightarrow>
             (case found of
                None \<Rightarrow>
                  if en_currentClaim environment \<noteq> []
                  then report_storage x environment revision (committed_image environment) claimName ''VolumeClaimLost''
                         (''Environment current PVC '' @ claimName @ '' is missing; restore it or recreate the Environment'')
                  else create_current x environment revision claimName
              | Some claim \<Rightarrow> observe_current x environment revision claim)))"

definition reconcile_editor :: "'api xclient \<Rightarrow> workspace_environment \<Rightarrow> ('api, ctrl_result) xctl" where
  "reconcile_editor x environment =
     andThen (reconcileEditorLifecycle x environment) (\<lambda>handled.
     case handled of Some result \<Rightarrow> ret result | None \<Rightarrow> reconcile_current x environment)"

definition Reconcile_environment :: "'api xclient \<Rightarrow> string \<Rightarrow> string \<Rightarrow> ('api, ctrl_result) xctl" where
  "Reconcile_environment x namespace name =
     getOr (x_read x XGetEnvironment (x_getEnvironment x namespace name)) (ret None) (\<lambda>environment.
     case platform_Resolve (en_os environment) (environment_placement environment) of
       Inl e \<Rightarrow>
         (let (reason, message) = runtimePlatformCondition e
          in andThen (setEnvironmentStatus x environment (en_revision environment) (en_currentImage environment) (en_currentClaim environment)
               CFalse reason message None) (\<lambda>_. ret None))
     | Inr _ \<Rightarrow>
         andThen (reconcileEnvironmentCommit x environment) (\<lambda>handled.
         if handled then ret None else reconcile_editor x environment))"

definition environmentForProcess :: "execution \<Rightarrow> (string \<times> string) list" where
  "environmentForProcess p = (if we_targetKind p \<noteq> ''WorkspaceEnvironment'' then [] else [(o_namespace p, we_targetName p)])"

end
