(* ===== verification/WorkspaceExecSafety.thy ===== *)
theory WorkspaceExecSafety
  imports WorkspaceExecution
begin

text \<open>What a reconcile of a WorkspaceExec guarantees, for every server, every answer and every interleaving.\<close>

section \<open>Reasons\<close>

text \<open>
  The end of the trace before a start: the claim of the runtime Pod is persisted, the record is read again from the API
  server and neither terminal nor being deleted, the Workspace admits this record (which it then owns), and the Pod that
  the record claims is read and alive.
\<close>

definition start_sequence :: "execution \<Rightarrow> process_target \<Rightarrow> ws_event list \<Rightarrow> bool" where
  "start_sequence p tg t \<longleftrightarrow>
     (\<exists>a b cur new r current own n pod.
        t = a @ [XWriteExec cur new (Inr r), XReadExec (Inr current)] @ b @ [XReadPod n (Inr pod)] \<and>
        \<not> Terminal (we_phase cur) \<and> (ex_podUID cur = [] \<or> ex_podUID cur = ex_podUID new) \<and>
        we_phase new = PhaseStarting \<and> ex_podName new = tg_pod tg \<and>
        o_deleting current = None \<and> \<not> Terminal (we_phase current) \<and>
        (if we_targetKind p = ''Workspace''
         then \<exists>ws. XGetWorkspace (Inr ws) \<in> set a \<and> ws_runtimePodName ws \<noteq> [] \<and>
                (b = [XAdmit ws current (Inr ())] \<and> own = current \<and> is_controlled_by current (o_uid ws) \<or>
                 (\<exists>new'. b = [XAdmit ws current (Inr ()), XUpdateExec new' (Inr own)]))
         else b = [] \<and> own = current) \<and>
        n = ex_podName own \<and> o_uid pod = ex_podUID own \<and> \<not> runtimePodTerminal pod)"

definition start_reasons :: "process_target \<Rightarrow> start_request \<Rightarrow> ws_event list \<Rightarrow> bool" where
  "start_reasons tg req t \<longleftrightarrow>
     (\<exists>p. XGetExec (Inr p) \<in> set t \<and> o_deleting p = None \<and> \<not> Terminal (we_phase p) \<and> we_desired p \<noteq> ''Stopped'' \<and>
        contains_finalizer p executionFinalizer \<and>
        rq_id req = o_name p \<and> rq_uid req = o_uid p \<and> rq_command req = ex_command p \<and> start_sequence p tg t \<and>
        (\<exists>n pod rt. XGetPod n (Inr pod) \<in> set t \<and> FromPod pod = Inr rt \<and> tg_pod tg = o_name pod \<and>
           tg_executable tg = ly_executable (pf_layout rt) \<and> tg_endpoint tg = ly_endpoint (pf_layout rt)))"

text \<open>The target of the execution is gone, replaced or going.\<close>

definition target_gone :: "execution \<Rightarrow> ws_event list \<Rightarrow> bool" where
  "target_gone p t \<longleftrightarrow>
     we_targetKind p \<notin> {''Workspace'', ''WorkspaceEnvironment''} \<or>
     (\<exists>e. XReadOwner (Inl e) \<in> set t \<and> err_is ENotFound e) \<or>
     (\<exists>target. XReadOwner (Inr target) \<in> set t \<and> (\<not> is_exec_owner p target \<or> owner_deleting target \<noteq> None))"

definition pod_gone :: "execution \<Rightarrow> ws_event list \<Rightarrow> bool" where
  "pod_gone p t \<longleftrightarrow>
     (\<exists>e. XReadPod (ex_podName p) (Inl e) \<in> set t \<and> err_is ENotFound e) \<or>
     (\<exists>pod. XReadPod (ex_podName p) (Inr pod) \<in> set t \<and> (o_uid pod \<noteq> ex_podUID p \<or> runtimePodTerminal pod))"

definition stopped :: "execution \<Rightarrow> ws_event list \<Rightarrow> bool" where
  "stopped p t \<longleftrightarrow>
     (\<exists>tg e. XStop tg (o_name p) (Inl e) \<in> set t \<and> err_is EProcessNotFound e) \<or>
     (\<exists>tg st. XStop tg (o_name p) (Inr st) \<in> set t \<and> Terminal (runtimePhase (ps_phase st) (ps_exitCode st)))"

text \<open>The command of the execution does not run any more, or nobody is left to run it for.\<close>

definition over :: "execution \<Rightarrow> ws_event list \<Rightarrow> bool" where
  "over p t \<longleftrightarrow> Terminal (we_phase p) \<or> ex_podName p = [] \<or> ex_podUID p = [] \<or> target_gone p t \<or> pod_gone p t \<or> stopped p t"

text \<open>The target remembers a completion at least as late as the record's.\<close>

definition clock_kept :: "execution \<Rightarrow> ws_event list \<Rightarrow> bool" where
  "clock_kept p t \<longleftrightarrow>
     (case we_completedAt p of
        None \<Rightarrow> True
      | Some c \<Rightarrow> target_gone p t \<or>
          (\<exists>target l. XReadOwner (Inr target) \<in> set t \<and> last_completed target = Some l \<and> c \<le> l) \<or>
          (\<exists>target. XWriteOwner target (complete_owner c target) (Inr ()) \<in> set t))"

definition unfinalize_reasons :: "execution \<Rightarrow> ws_event list \<Rightarrow> bool" where
  "unfinalize_reasons new t \<longleftrightarrow> (\<exists>p. XGetExec (Inr p) \<in> set t \<and> o_deleting p \<noteq> None \<and> over p t) \<and> clock_kept new t"

text \<open>The update that lets a deleted record go.\<close>

definition finalizer_reasons :: "ws_event \<Rightarrow> ws_event list \<Rightarrow> bool" where
  "finalizer_reasons e t =
     (case e of
        XUpdateExec new _ \<Rightarrow> o_deleting new \<noteq> None \<and> \<not> contains_finalizer new executionFinalizer \<longrightarrow> unfinalize_reasons new t
      | _ \<Rightarrow> True)"

definition started :: "execution \<Rightarrow> ws_event list \<Rightarrow> bool" where
  "started p t \<longleftrightarrow> Terminal (we_phase p) \<or> we_phase p = PhaseRunning \<or> (\<exists>tg req st. XStart tg req (Inr st) \<in> set t \<and> rq_uid req = o_uid p)"

definition credential_reasons :: "(workspace_object \<Rightarrow> string list) \<Rightarrow> (execution \<Rightarrow> string list) \<Rightarrow> string \<Rightarrow> ws_event list \<Rightarrow> bool" where
  "credential_reasons allowed asked name t \<longleftrightarrow>
     (\<exists>p. XGetExec (Inr p) \<in> set t \<and>
        (if we_targetKind p = ''Workspace'' then \<exists>ws. XGetWorkspace (Inr ws) \<in> set t \<and> name \<in> set (allowed ws)
         else name \<in> set (asked p)))"

definition expiry_reasons :: "'api xclient \<Rightarrow> execution \<Rightarrow> ws_event list \<Rightarrow> bool" where
  "expiry_reasons x p t \<longleftrightarrow>
     (\<exists>p0. XGetExec (Inr p0) \<in> set t \<and> Terminal (we_phase p0)) \<and>
     (\<exists>c. we_completedAt p = Some c \<and> int c + executionResultWindow \<le> int (x_clock x (length t)))"

definition exec_reasons :: "'api xclient \<Rightarrow> ws_event \<Rightarrow> ws_event list \<Rightarrow> bool" where
  "exec_reasons x e t =
     (case e of
        XStart tg req _ \<Rightarrow> start_reasons tg req t
      | XUpdateExec new _ \<Rightarrow> o_deleting new \<noteq> None \<and> \<not> contains_finalizer new executionFinalizer \<longrightarrow> unfinalize_reasons new t
      | XDeleteExec p _ \<Rightarrow> expiry_reasons x p t
      | XDeleteSecret s _ \<Rightarrow> \<exists>p. XGetExec (Inr p) \<in> set t \<and> is_controlled_by s (o_uid p) \<and> started p t
      | XGetCredential n _ \<Rightarrow> credential_reasons wo_credentials ex_credentials n t
      | XGetAgentCredential n _ \<Rightarrow>
          credential_reasons wo_agentCredentials (\<lambda>p. case ex_agentCredential p of None \<Rightarrow> [] | Some a \<Rightarrow> [a]) n t
      | XWriteExec cur new _ \<Rightarrow>
          Terminal (we_phase cur) \<longrightarrow> we_phase new = PhasePending \<or> (we_phase new = we_phase cur \<and> ex_exitCode new = ex_exitCode cur)
      | _ \<Rightarrow> True)"

lemma exec_reasons_free [simp]:
  "exec_reasons x (XGetExec a1) t" "exec_reasons x (XReadExec a2) t" "exec_reasons x (XListExecs a3) t"
  "exec_reasons x (XGetPod n a4) t" "exec_reasons x (XReadPod n a5) t" "exec_reasons x (XMakePod a6 a7) t"
  "exec_reasons x (XDeletePod a8 a9) t" "exec_reasons x (XGetWorkspace b1) t" "exec_reasons x (XReadOwner b2) t"
  "exec_reasons x (XWriteOwner b3 b4 b5) t" "exec_reasons x (XAdmit b6 b7 b8) t" "exec_reasons x (XInspect b9 c1 c2) t"
  "exec_reasons x (XStop c3 c4 c5) t" "exec_reasons x (XGetEnvironment c6) t" "exec_reasons x (XWriteEnvironment c7 c8 c9) t"
  "exec_reasons x (XGetSecret d1 d2) t" "exec_reasons x (XGetConfigMap d3 d4) t" "exec_reasons x (XLookClaim d5) t"
  "exec_reasons x (XGetClaim d6 d7) t" "exec_reasons x (XMakeClaim d8 d9) t" "exec_reasons x (XDeleteClaim f1 f2) t"
  "exec_reasons x (XListEvents f3) t" "exec_reasons x (XGetAccess f4) t" "exec_reasons x (XAccess f5 f6) t"
  by (simp_all add: exec_reasons_def)

section \<open>Calls that need no reasons\<close>

definition idle :: "'api xclient \<Rightarrow> ws_event \<Rightarrow> bool" where
  "idle x e \<longleftrightarrow> (\<forall>t. exec_reasons x e t)"

lemma idle_write: "\<not> Terminal (we_phase cur) \<Longrightarrow> idle x (XWriteExec cur new r)"
  by (simp add: idle_def exec_reasons_def)

lemma emits_write_status [emits_intros]: "(\<And>r. P (XWriteExec cur new r)) \<Longrightarrow> emits P (write_status x cur new)"
  unfolding write_status_def by (intro emits_intros)

lemma emits_refetch [emits_intros]: "(\<And>r. P (XGetExec r)) \<Longrightarrow> emits P (refetch x p m)"
  unfolding refetch_def by (intro emits_intros)

lemma emits_setTerminal: "emits (idle x) (setTerminalProcessStatus x p phase code reason message n)"
  unfolding setTerminalProcessStatus_def by (intro emits_intros idle_write) (simp_all add: idle_def)

lemma emits_setProcessCondition: "emits (idle x) (setProcessCondition x p PhasePending status reason message)"
  unfolding setProcessCondition_def
  by (intro emits_intros) (simp_all add: idle_def exec_reasons_def pending_status_def set_ready_def)

lemma emits_applyRuntimeState: "emits (idle x) (applyRuntimeState x p tg uid state)"
  unfolding applyRuntimeState_def Let_def by (intro emits_intros idle_write emits_setTerminal) (simp_all add: idle_def)

lemma emits_lost: "emits (idle x) (lost_execution x p reason message)"
  unfolding lost_execution_def by (intro emits_intros emits_setTerminal)

lemma emits_replaced: "emits (idle x) (replaced_execution x p)"
  unfolding replaced_execution_def by (rule emits_lost)

text \<open>A part of the run whose calls need no reasons keeps what is known.\<close>

lemma secures_idle: "emits (idle x) m \<Longrightarrow> lasting F \<Longrightarrow> secures (exec_reasons x) F m (\<lambda>_. F)"
  by (rule secures_quiet, erule emits_mono) (simp_all add: idle_def)

lemma secures_idle_end: "emits (idle x) m \<Longrightarrow> secures (exec_reasons x) F m (\<lambda>_ _. True)"
  by (rule secures_pre [OF secures_idle [where F = "\<lambda>_. True"]]) (simp_all add: lasting_const)

lemma secures_clock: "(\<And>t. F t \<Longrightarrow> G (c (length t)) t) \<Longrightarrow> secures J F (clock c) G"
  unfolding secures_def runs_def clock_def by simp

section \<open>Lifecycle\<close>

abbreviation fetched :: "execution \<Rightarrow> ws_event list \<Rightarrow> bool" where
  "fetched p t \<equiv> XGetExec (Inr p) \<in> set t"

lemma lasting_target_gone [lasting_intros]: "lasting (target_gone p)"
  unfolding target_gone_def by (intro lasting_intros)

lemma lasting_pod_gone [lasting_intros]: "lasting (pod_gone p)"
  unfolding pod_gone_def by (intro lasting_intros)

lemma lasting_stopped [lasting_intros]: "lasting (stopped p)"
  unfolding stopped_def by (intro lasting_intros)

lemma lasting_over [lasting_intros]: "lasting (over p)"
  unfolding over_def by (intro lasting_intros)

lemma lasting_started [lasting_intros]: "lasting (started p)"
  unfolding started_def by (intro lasting_intros)

lemma lasting_clock_kept [lasting_intros]: "lasting (clock_kept p)"
  unfolding clock_kept_def by (cases "we_completedAt p") (auto intro!: lasting_intros)

lemma secures_releaseEnvironment:
  assumes "\<And>t. F t \<Longrightarrow> fetched p t \<and> started p t" "lasting F"
  shows "secures (exec_reasons x) F (releaseProcessEnvironment x p) (\<lambda>_. F)"
proof (rule secures_quiet [OF _ assms(2)])
  show "emits (\<lambda>e. \<forall>t. F t \<longrightarrow> exec_reasons x e t) (releaseProcessEnvironment x p)"
    unfolding releaseProcessEnvironment_def getOr_def
    by (intro emits_intros) (use assms(1) in \<open>auto simp: exec_reasons_def\<close>)
qed

lemma secures_ensureCompleted:
  assumes "lasting F"
  shows "secures (exec_reasons x) F (ensureExecutionCompletedAt x p) (\<lambda>_. F)"
  by (rule secures_quiet [OF _ assms], unfold ensureExecutionCompletedAt_def, intro emits_intros) (simp add: exec_reasons_def)

lemma secures_expire:
  assumes "Terminal (we_phase p0)"
  shows "secures (exec_reasons x) (fetched p0) (expireExecution x p) (\<lambda>_ _. True)"
  unfolding expireExecution_def Let_def
proof (rule secures_andThen [OF secures_clock [where G = "\<lambda>now t. fetched p0 t \<and> now = x_clock x (length t)"]])
  fix now
  let ?F = "\<lambda>t. fetched p0 t \<and> now = x_clock x (length t)"
  have del: "secures (exec_reasons x) ?F (IgnoreNotFound (x_write x (XDeleteExec p) (x_deleteExec x p))) (\<lambda>_ _. True)"
    if "we_completedAt p = Some c" "\<not> int c + executionResultWindow - int now > 0" for c
  proof (unfold secures_def, rule runs_post)
    show "runs (\<lambda>t. justified (exec_reasons x) t \<and> ?F t) (IgnoreNotFound (x_write x (XDeleteExec p) (x_deleteExec x p)))
        (\<lambda>_. justified (exec_reasons x))"
      using that assms
      by (auto simp: runs_def IgnoreNotFound_def call_def writes_def exec_reasons_def expiry_reasons_def split: prod.splits sum.splits)
  qed (auto split: sum.splits)
  show "secures (exec_reasons x) ?F (case we_completedAt p of
       None \<Rightarrow> raise (EMsg ''nil completion time'')
     | Some t \<Rightarrow> if 0 < int t + executionResultWindow - int now then ret (Some (int t + executionResultWindow - int now))
         else andThen (wrapped ''delete expired WorkspaceExec''
                   (IgnoreNotFound (x_write x (XDeleteExec p) (x_deleteExec x p)))) (\<lambda>_. ret None)) (\<lambda>_ _. True)"
    by (intro secures_cases secures_if secures_simple secures_andThen [OF secures_wrapped [OF del]]) simp_all
qed simp

text \<open>What the read of the target tells.\<close>

definition target_read :: "execution \<Rightarrow> exec_owner option \<Rightarrow> ws_event list \<Rightarrow> bool" where
  "target_read p found t \<longleftrightarrow>
     (case found of None \<Rightarrow> target_gone p t | Some target \<Rightarrow> XReadOwner (Inr target) \<in> set t)"

lemma secures_readTarget:
  assumes "lasting F"
  shows "secures (exec_reasons x) F (readExecutionTarget x p) (\<lambda>found t. F t \<and> target_read p found t)"
proof -
  have one: "secures (exec_reasons x) F (getOr (x_read x XReadOwner g) (ret None)
       (\<lambda>target. ret (if is_exec_owner p target then Some target else None))) (\<lambda>found t. F t \<and> target_read p found t)" for g
    by (rule secures_getOr_call) (auto intro!: secures_simple(1) simp: target_read_def target_gone_def lastingD [OF assms])
  show ?thesis unfolding readExecutionTarget_def Let_def
    by (intro secures_if one secures_simple) (simp_all add: target_read_def target_gone_def)
qed

lemma secures_preserve:
  assumes "lasting F"
  shows "secures (exec_reasons x) F (preserveTargetIdleClock x p) (\<lambda>_ t. F t \<and> clock_kept p t)"
proof (cases "we_completedAt p")
  case None
  then show ?thesis unfolding preserveTargetIdleClock_def by (auto intro!: secures_simple simp: clock_kept_def)
next
  case (Some c)
  let ?G = "\<lambda>found t. F t \<and> target_read p found t"
  have gone: "F t \<and> clock_kept p t" if "?G None t" for t
    using that Some by (auto simp: clock_kept_def target_read_def)
  have going: "F t \<and> clock_kept p t" if "?G (Some target) t" "owner_deleting target \<noteq> None" for target t
    using that Some by (auto simp: clock_kept_def target_read_def target_gone_def)
  have later: "F t \<and> clock_kept p t" if "?G (Some target) t" "case last_completed target of None \<Rightarrow> False | Some l \<Rightarrow> \<not> l < c" for target t
    using that Some by (auto simp: clock_kept_def target_read_def not_less split: option.splits)
  have "secures (exec_reasons x) (?G (Some target)) (x_write x (XWriteOwner target (complete_owner c target)) (x_updateOwnerStatus x (complete_owner c target)))
      (\<lambda>_ t. F t \<and> clock_kept p t)" for target
    by (rule secures_call) (auto simp: clock_kept_def Some lastingD [OF assms])
  then show ?thesis unfolding preserveTargetIdleClock_def Some option.case
    by (intro secures_andThen [OF secures_readTarget [OF assms]] secures_cases secures_if secures_simple(1))
       (use gone going later in \<open>simp_all\<close>)
qed

lemma is_exec_owner_finalizer: "is_exec_owner (remove_finalizer f p) target = is_exec_owner p target"
  by (cases "o_controller p") (simp_all add: is_exec_owner_def remove_finalizer_def)

lemma target_gone_finalizer: "target_gone (remove_finalizer f p) t = target_gone p t"
  unfolding target_gone_def is_exec_owner_finalizer by (simp add: remove_finalizer_def)

lemma clock_kept_finalizer [simp]: "clock_kept (remove_finalizer f p) t = clock_kept p t"
  unfolding clock_kept_def target_gone_finalizer by (simp add: remove_finalizer_def)

lemma secures_removeFinalizer:
  assumes "\<And>t. F t \<Longrightarrow> fetched p t \<and> o_deleting p \<noteq> None \<and> over p t" "lasting F"
  shows "secures (exec_reasons x) F (removeExecutionFinalizer x q) (\<lambda>_ _. True)"
proof -
  have "secures (exec_reasons x) (\<lambda>t. F t \<and> clock_kept q t)
      (x_ask x (XUpdateExec (remove_finalizer executionFinalizer q)) (x_updateExec x (remove_finalizer executionFinalizer q))) (\<lambda>_ _. True)"
    by (rule secures_call) (use assms(1) in \<open>auto simp: exec_reasons_def unfinalize_reasons_def\<close>)
  then show ?thesis unfolding removeExecutionFinalizer_def Let_def
    by (intro secures_andThen [OF secures_preserve [OF assms(2)]] secures_andThen [OF secures_wrapped] secures_simple) simp_all
qed

lemma secures_finish_deleted:
  assumes "\<not> Terminal (we_phase p)" "o_deleting p \<noteq> None"
  shows "secures (exec_reasons x) (\<lambda>t. fetched p t \<and> over p t) (finish_deleted x p phase code) (\<lambda>_ _. True)"
proof -
  let ?F = "\<lambda>t. fetched p t \<and> over p t"
  have last: "lasting ?F" by (intro lasting_intros)
  have "secures (exec_reasons x) ?F (write_status x p (p\<lparr>we_phase := phase, ex_exitCode := code, we_completedAt := Some now\<rparr>)) (\<lambda>_. ?F)" for now
    by (rule secures_idle [OF _ last], intro emits_write_status idle_write assms)
  then show ?thesis unfolding finish_deleted_def
    by (intro secures_andThen [OF secures_simple(3) [where G' = "\<lambda>_. ?F"]] secures_andThen [where G = "\<lambda>_. ?F"]
        secures_removeFinalizer [where p = p, OF _ last]) (use assms in simp_all)
qed

lemma secures_originalPod:
  assumes "lasting F"
  shows "secures (exec_reasons x) F (originalRuntimePod x p)
    (\<lambda>answer t. F t \<and> (case answer of Alive pod \<Rightarrow> True | _ \<Rightarrow> pod_gone p t))"
  unfolding originalRuntimePod_def
  by (rule secures_andThen [OF secures_attempt_call [where G = "\<lambda>r t. F t \<and> XReadPod (ex_podName p) r \<in> set t"]])
     (auto intro!: secures_cases secures_if secures_simple(1,2) simp: pod_gone_def lastingD [OF assms])

lemma secures_originalTarget:
  assumes "lasting F"
  shows "secures (exec_reasons x) F (originalProcessTarget x p)
    (\<lambda>found t. F t \<and> (found = None \<longrightarrow> ex_podName p = [] \<or> ex_podUID p = [] \<or> pod_gone p t))"
proof -
  let ?A = "\<lambda>answer t. F t \<and> (case answer of Alive pod \<Rightarrow> True | _ \<Rightarrow> pod_gone p t)"
  have "secures (exec_reasons x) (?A answer)
      (case answer of Alive pod \<Rightarrow> of_result (runtimeProcessTarget p (Some pod)) | _ \<Rightarrow> ret None)
      (\<lambda>found t. F t \<and> (found = None \<longrightarrow> ex_podName p = [] \<or> ex_podUID p = [] \<or> pod_gone p t))" for answer
    by (cases answer) (auto intro!: secures_simple(1,4) simp: runtimeProcessTarget_def split: sum.splits)
  then show ?thesis unfolding originalProcessTarget_def
    by (intro secures_if secures_simple(1) secures_andThen [OF secures_originalPod [OF assms]]) auto
qed

lemma secures_stop_deleted:
  assumes "\<not> Terminal (we_phase p)" "o_deleting p \<noteq> None"
  shows "secures (exec_reasons x) (fetched p) (stop_deleted x ra p) (\<lambda>_ _. True)"
proof -
  note finish = secures_pre [OF secures_finish_deleted [OF assms]]
  have "secures (exec_reasons x) (fetched p) (attempt (x_ask x (XStop tg (o_name p)) f)) (\<lambda>r t. fetched p t \<and> XStop tg (o_name p) r \<in> set t)"
    for tg f by (rule secures_attempt_call) simp_all
  then have "secures (exec_reasons x) (fetched p)
     (andThen (attempt (x_ask x (XStop tg (o_name p)) (ra_stop ra tg (o_name p)))) (\<lambda>stopped.
         case stopped of
           Inl e \<Rightarrow> if err_is EProcessNotFound e then finish_deleted x p PhaseLost (ex_exitCode p)
                    else raise (EWrap ''stop deleting process through rc-kube'' e)
         | Inr state \<Rightarrow>
             let phase = runtimePhase (ps_phase state) (ps_exitCode state)
             in if \<not> Terminal phase then ret (Some processTargetRequeueDelay)
                else finish_deleted x p phase (ps_exitCode state))) (\<lambda>_ _. True)" for tg
    unfolding Let_def
    by (rule secures_andThen, intro secures_cases secures_if secures_simple finish) (auto simp: over_def stopped_def)
  then have stop: "secures (exec_reasons x) (\<lambda>t. fetched p t \<and> (Some u = None \<longrightarrow> ex_podName p = [] \<or> ex_podUID p = [] \<or> pod_gone p t))
     (andThen (attempt (x_ask x (XStop (fst u) (o_name p)) (ra_stop ra (fst u) (o_name p)))) (\<lambda>stopped.
         case stopped of
           Inl e \<Rightarrow> if err_is EProcessNotFound e then finish_deleted x p PhaseLost (ex_exitCode p)
                    else raise (EWrap ''stop deleting process through rc-kube'' e)
         | Inr state \<Rightarrow>
             let phase = runtimePhase (ps_phase state) (ps_exitCode state)
             in if \<not> Terminal phase then ret (Some processTargetRequeueDelay)
                else finish_deleted x p phase (ps_exitCode state))) (\<lambda>_ _. True)" for u :: "process_target \<times> string"
    by simp
  show ?thesis unfolding stop_deleted_def
  proof (rule secures_andThen [OF secures_originalTarget [OF lasting_mem]])
    fix found :: "(process_target \<times> string) option"
    show "secures (exec_reasons x) (\<lambda>t. fetched p t \<and> (found = None \<longrightarrow> ex_podName p = [] \<or> ex_podUID p = [] \<or> pod_gone p t))
       (case found of
          None \<Rightarrow> finish_deleted x p PhaseLost (ex_exitCode p)
        | Some (target, _) \<Rightarrow>
            andThen (attempt (x_ask x (XStop target (o_name p)) (ra_stop ra target (o_name p)))) (\<lambda>stopped.
            case stopped of
              Inl e \<Rightarrow> if err_is EProcessNotFound e then finish_deleted x p PhaseLost (ex_exitCode p)
                       else raise (EWrap ''stop deleting process through rc-kube'' e)
            | Inr state \<Rightarrow>
                let phase = runtimePhase (ps_phase state) (ps_exitCode state)
                in if \<not> Terminal phase then ret (Some processTargetRequeueDelay)
                   else finish_deleted x p phase (ps_exitCode state))) (\<lambda>_ _. True)"
      by (cases found) (use stop in \<open>auto intro!: finish simp: over_def split: prod.split\<close>)
  qed
qed

lemma secures_finalize:
  assumes "o_deleting p \<noteq> None"
  shows "secures (exec_reasons x) (fetched p) (finalizeWorkspaceExec x p) (\<lambda>_ _. True)"
proof -
  let ?F = "\<lambda>found t. fetched p t \<and> target_read p found t"
  have last: "lasting (\<lambda>t. fetched p t \<and> over p t)" by (intro lasting_intros)
  note remove = secures_pre [OF secures_removeFinalizer [where p = p, OF _ last]]
  have body: "secures (exec_reasons x) (?F found)
      (if (case found of None \<Rightarrow> False | Some target \<Rightarrow> owner_deleting target = None) \<and> \<not> Terminal (we_phase p) \<and>
              ex_podName p \<noteq> [] \<and> ex_podUID p \<noteq> []
       then (case x_runtime x of
               None \<Rightarrow> raise (EMsg ''WorkspaceExec runtime client is not configured'')
             | Some ra \<Rightarrow> stop_deleted x ra p)
       else removeExecutionFinalizer x p) (\<lambda>_ _. True)" for found
  proof (rule secures_if)
    assume "(case found of None \<Rightarrow> False | Some target \<Rightarrow> owner_deleting target = None) \<and> \<not> Terminal (we_phase p) \<and>
              ex_podName p \<noteq> [] \<and> ex_podUID p \<noteq> []"
    then show "secures (exec_reasons x) (?F found) (case x_runtime x of
               None \<Rightarrow> raise (EMsg ''WorkspaceExec runtime client is not configured'')
             | Some ra \<Rightarrow> stop_deleted x ra p) (\<lambda>_ _. True)"
      by (intro secures_cases secures_simple(2) secures_pre [OF secures_stop_deleted]) (use assms in auto)
  next
    assume "\<not> ((case found of None \<Rightarrow> False | Some target \<Rightarrow> owner_deleting target = None) \<and> \<not> Terminal (we_phase p) \<and>
              ex_podName p \<noteq> [] \<and> ex_podUID p \<noteq> [])"
    then show "secures (exec_reasons x) (?F found) (removeExecutionFinalizer x p) (\<lambda>_ _. True)"
      by (intro remove) (use assms in \<open>auto simp: over_def target_read_def target_gone_def split: option.splits\<close>)
  qed
  show ?thesis unfolding finalizeWorkspaceExec_def
  proof (rule secures_if)
    show "secures (exec_reasons x) (fetched p) (ret None) (\<lambda>_ _. True)" by (rule secures_simple(1)) simp
  qed (rule secures_andThen [where G = ?F, OF secures_readTarget [OF lasting_mem] body])
qed

lemma secures_lifecycle:
  "secures (exec_reasons x) (fetched p) (handleWorkspaceExecLifecycle x p)
     (\<lambda>handled t. handled = None \<longrightarrow> fetched p t \<and> o_deleting p = None \<and> \<not> Terminal (we_phase p) \<and> contains_finalizer p executionFinalizer)"
proof -
  let ?G = "\<lambda>handled t. handled = None \<longrightarrow> fetched p t \<and> o_deleting p = None \<and> \<not> Terminal (we_phase p) \<and> contains_finalizer p executionFinalizer"
  have del: "secures (exec_reasons x) (fetched p) (andThen (finalizeWorkspaceExec x p) (\<lambda>r. ret (Some r))) ?G" if "o_deleting p \<noteq> None"
    by (rule secures_andThen [OF secures_finalize [OF that]], rule secures_simple(1)) simp
  have fin: "secures (exec_reasons x) (fetched p) (andThen (releaseProcessEnvironment x p) (\<lambda>_.
                 andThen (ensureExecutionCompletedAt x p) (\<lambda>process'.
                 andThen (expireExecution x process') (\<lambda>r. ret (Some r))))) ?G" if "Terminal (we_phase p)"
    by (intro secures_andThen [OF secures_releaseEnvironment [OF _ lasting_mem]] secures_andThen [OF secures_ensureCompleted [OF lasting_mem]]
        secures_andThen [OF secures_expire [OF that]] secures_simple(1)) (use that in \<open>simp_all add: started_def\<close>)
  have add: "secures (exec_reasons x) (fetched p) (andThen (wrapped ''add WorkspaceExec finalizer''
       (x_ask x (XUpdateExec (add_finalizer executionFinalizer p)) (x_updateExec x (add_finalizer executionFinalizer p)))) (\<lambda>_.
       ret (Some requeue_now))) ?G" if "o_deleting p = None"
    by (rule secures_andThen [OF secures_wrapped [OF secures_call [where G = "\<lambda>_ _. True"]]])
       (use that in \<open>auto intro!: secures_simple(1) simp: exec_reasons_def add_finalizer_def\<close>)
  show ?thesis unfolding handleWorkspaceExecLifecycle_def Let_def
    by (intro secures_if del fin add secures_simple(1)) simp_all
qed

section \<open>Credentials\<close>

lemma emits_resolveEnvVar [emits_intros]:
  "(\<And>n r. P (XGetSecret n r)) \<Longrightarrow> (\<And>n r. P (XGetConfigMap n r)) \<Longrightarrow> emits P (resolveEnvVar x ns v)"
proof (cases "ev_from v")
  case (Some f)
  assume "\<And>n r. P (XGetSecret n r)" "\<And>n r. P (XGetConfigMap n r)"
  with Some show ?thesis unfolding resolveEnvVar_def by (cases f) (auto intro!: emits_intros)
qed (auto simp: resolveEnvVar_def intro!: emits_intros)

lemma emits_workspace_variables [emits_intros]:
  "(\<And>n r. P (XGetSecret n r)) \<Longrightarrow> (\<And>n r. P (XGetConfigMap n r)) \<Longrightarrow> emits P (workspace_variables x ns vs acc)"
  by (induction vs arbitrary: acc) (auto intro!: emits_intros)

lemma emits_process_variables [emits_intros]: "(\<And>n r. P (XGetSecret n r)) \<Longrightarrow> emits P (process_variables x p acc)"
  unfolding process_variables_def by (intro emits_intros)

lemma emits_read_key [emits_intros]: "(\<And>n r. P (XGetSecret n r)) \<Longrightarrow> emits P (read_key x ns ref)"
  by (cases ref) (auto simp: read_key_def intro!: emits_intros)

lemma emits_read_files [emits_intros]: "(\<And>n r. P (XGetSecret n r)) \<Longrightarrow> emits P (read_files x ns fs acc)"
proof (induction fs arbitrary: acc)
  case (Cons f fs)
  then show ?case by (cases f) (auto intro!: emits_intros)
qed (auto intro!: emits_intros)

lemma emits_resolveGeneric [emits_intros]:
  assumes "\<And>n r. P (XGetSecret n r)" "\<And>r. P (XGetCredential name r)"
  shows "emits P (resolveGenericCredential x ns name)"
proof -
  have "emits P (case lf of (literal, files) \<Rightarrow> wrapped m (read_files x ns files literal))" for lf m
    by (cases lf) (auto intro!: emits_intros assms)
  then show ?thesis unfolding resolveGenericCredential_def by (intro emits_intros assms)
qed

lemma emits_find_agent:
  "(\<And>n r. n \<in> set refs \<Longrightarrow> P (XGetAgentCredential n r)) \<Longrightarrow> emits P (find_agent x ns type refs)"
  by (induction refs) (auto intro!: emits_intros)

lemma emits_project: "(\<And>n r. n \<in> set refs \<Longrightarrow> P (XGetCredential n r)) \<Longrightarrow> emits P (project_credentials x ns refs pj)"
  by (induction refs arbitrary: pj) (auto intro!: emits_intros)

text \<open>The credentials of a list are read one by one, each only if the Workspace references it; the loop ends only if it references all.\<close>

lemma secures_generic:
  assumes "lasting F"
    and "\<And>t n r. F t \<Longrightarrow> n \<in> set refs \<Longrightarrow> (\<And>w names. allowed = Some (w, names) \<Longrightarrow> n \<in> set names) \<Longrightarrow> exec_reasons x (XGetCredential n r) t"
  shows "secures (exec_reasons x) F (generic_credentials x ns allowed refs acc)
           (\<lambda>_ t. F t \<and> (\<forall>w names. allowed = Some (w, names) \<longrightarrow> set refs \<subseteq> set names))"
  using assms(2)
proof (induction refs arbitrary: acc)
  case Nil
  show ?case by (auto intro: secures_simple(1))
next
  case (Cons ref refs)
  let ?in = "\<lambda>n. \<forall>w names. allowed = Some (w, names) \<longrightarrow> n \<in> set names"
  have rest: "secures (exec_reasons x) F (generic_credentials x ns allowed refs acc')
      (\<lambda>_ t. F t \<and> (\<forall>w names. allowed = Some (w, names) \<longrightarrow> set (ref # refs) \<subseteq> set names))" if "?in ref" for acc'
    by (rule secures_post [OF Cons.IH]) (use that Cons.prems in auto)
  have one: "secures (exec_reasons x) F (resolveGenericCredential x ns ref) (\<lambda>_. F)" if "?in ref"
    by (rule secures_quiet [OF emits_resolveGeneric assms(1)]) (use that Cons.prems in auto)
  show ?case
  proof (cases "case allowed of None \<Rightarrow> False | Some (ws, names) \<Rightarrow> ref \<notin> set names")
    case True
    then show ?thesis by (simp add: secures_simple(2))
  next
    case False
    then have "?in ref" by (auto split: option.splits)
    have "generic_credentials x ns allowed (ref # refs) acc =
        andThen (resolveGenericCredential x ns ref) (\<lambda>files. generic_credentials x ns allowed refs (add_files ref files acc))"
      using False by simp
    with secures_andThen [OF one [OF \<open>?in ref\<close>] rest [OF \<open>?in ref\<close>]] show ?thesis by simp
  qed
qed

lemma secures_credentials:
  assumes "lasting F"
    and agent: "\<And>t n r. F t \<Longrightarrow> n \<in> set agentRefs \<Longrightarrow> exec_reasons x (XGetAgentCredential n r) t"
    and cred: "\<And>t n r. F t \<Longrightarrow> n \<in> set (ex_credentials p) \<Longrightarrow> n \<in> set refs \<Longrightarrow> exec_reasons x (XGetCredential n r) t"
  shows "secures (exec_reasons x) F (resolveProcessCredentials x ns w agentRefs refs p) (\<lambda>_ t. F t \<and> set (ex_credentials p) \<subseteq> set refs)"
proof -
  have ref: "secures (exec_reasons x) F (agent_reference x ns agentRefs p) (\<lambda>_. F)"
    by (rule secures_quiet [OF _ assms(1)], unfold agent_reference_def, intro emits_intros emits_find_agent) (use agent in auto)
  have files: "secures (exec_reasons x) F (agent_files x ns w agentRefs p r) (\<lambda>_. F)" for r
    by (rule secures_quiet [OF _ assms(1)], unfold agent_files_def, intro emits_intros) (use agent in auto)
  have generic: "secures (exec_reasons x) F (generic_credentials x ns (Some (w, refs)) (ex_credentials p) acc)
      (\<lambda>_ t. F t \<and> set (ex_credentials p) \<subseteq> set refs)" for acc
    by (rule secures_post [OF secures_generic [OF assms(1)]]) (use cred in auto)
  show ?thesis unfolding resolveProcessCredentials_def
    by (rule secures_andThen [OF ref], rule secures_andThen [OF files], rule secures_andThen [OF generic], rule secures_simple(1)) simp
qed

lemma secures_projections:
  assumes "lasting F" "\<And>t n r. F t \<Longrightarrow> n \<in> set refs \<Longrightarrow> exec_reasons x (XGetCredential n r) t"
  shows "secures (exec_reasons x) F (resolveCredentialProjections x ns refs) (\<lambda>_. F)"
  unfolding resolveCredentialProjections_def
  by (rule secures_quiet [OF emits_project assms(1)]) (use assms(2) in blast)

section \<open>Targets\<close>

definition pod_address :: "resolved_target \<Rightarrow> ws_event list \<Rightarrow> bool" where
  "pod_address target t \<longleftrightarrow>
     (\<exists>n pod rt. XGetPod n (Inr pod) \<in> set t \<and> FromPod pod = Inr rt \<and> tg_pod (tr_runtime target) = o_name pod \<and>
        tg_executable (tr_runtime target) = ly_executable (pf_layout rt) \<and> tg_endpoint (tr_runtime target) = ly_endpoint (pf_layout rt))"

text \<open>What is known of a target: the Workspace it was read from, and a Pod that the cache has.\<close>

definition resolved :: "execution \<Rightarrow> resolved_target \<Rightarrow> ws_event list \<Rightarrow> bool" where
  "resolved p target t \<longleftrightarrow>
     pod_address target t \<and>
     (if we_targetKind p = ''Workspace''
      then \<exists>ws. tr_workspace target = Some ws \<and> XGetWorkspace (Inr ws) \<in> set t \<and> ws_runtimePodName ws \<noteq> []
      else tr_workspace target = None)"

lemma lasting_resolved [lasting_intros]: "lasting (resolved p target)"
  unfolding resolved_def pod_address_def by (cases "we_targetKind p = ''Workspace''") (auto intro!: lasting_intros)

abbreviation answered :: "execution \<Rightarrow> target_answer \<Rightarrow> ws_event list \<Rightarrow> bool" where
  "answered p answer t \<equiv> fetched p t \<and> (\<forall>target. answer = Inr target \<longrightarrow> resolved p target t)"

lemma secures_workspace_target:
  assumes kind: "we_targetKind p = ''Workspace''" and named: "ws_runtimePodName ws \<noteq> []"
  shows "secures (exec_reasons x) (\<lambda>t. fetched p t \<and> XGetWorkspace (Inr ws) \<in> set t \<and> XGetPod n (Inr pod) \<in> set t)
    (workspace_target x p ws pod) (answered p)"
proof -
  let ?F = "\<lambda>t. fetched p t \<and> XGetWorkspace (Inr ws) \<in> set t \<and> XGetPod n (Inr pod) \<in> set t"
  have last: "lasting ?F" by (intro lasting_intros)
  have vars: "secures (exec_reasons x) ?F (resolveWorkspaceEnvironmentVariables x ws p) (\<lambda>_. ?F)"
    by (rule secures_quiet [OF _ last], unfold resolveWorkspaceEnvironmentVariables_def, intro emits_intros) simp_all
  have creds: "secures (exec_reasons x) ?F (resolveProcessCredentials x (o_namespace ws) (o_name ws) (wo_agentCredentials ws)
      (wo_credentials ws) p) (\<lambda>_ t. ?F t \<and> set (ex_credentials p) \<subseteq> set (wo_credentials ws))"
    by (rule secures_credentials [OF last]) (use kind in \<open>auto simp: exec_reasons_def credential_reasons_def\<close>)
  have proj: "secures (exec_reasons x) (\<lambda>t. ?F t \<and> set (ex_credentials p) \<subseteq> set (wo_credentials ws))
      (resolveCredentialProjections x (o_namespace p) (ex_credentials p)) (\<lambda>_. ?F)"
    by (rule secures_post [OF secures_projections]) (use kind in \<open>auto simp: exec_reasons_def credential_reasons_def intro!: lasting_intros\<close>)
  have finish: "secures (exec_reasons x) ?F (case FromPod pod of
       Inl e \<Rightarrow> raise (EWrap ''resolve Workspace runtime platform'' e)
     | Inr rt \<Rightarrow> ret (Inr (target rt))) (answered p)"
    if "\<And>rt. FromPod pod = Inr rt \<Longrightarrow> tr_workspace (target rt) = Some ws \<and>
          tr_runtime (target rt) = ProcessTarget rt (o_namespace p) (o_name pod) runtimeContainerName" for target
    by (intro secures_cases(2) secures_simple(1,2))
       (use that kind named in \<open>auto simp: resolved_def pod_address_def ProcessTarget_def\<close>)
  show ?thesis unfolding workspace_target_def
    by (rule secures_andThen [OF vars], rule secures_andThen [OF creds], rule secures_cases(3), rule secures_andThen [OF proj],
        rule finish) simp
qed

lemma secures_resolve_workspace:
  assumes kind: "we_targetKind p = ''Workspace''"
  shows "secures (exec_reasons x) (fetched p) (resolve_workspace x p) (answered p)"
proof -
  let ?W = "\<lambda>ws t. fetched p t \<and> XGetWorkspace (Inr ws) \<in> set t"
  have wait: "secures (exec_reasons x) F (ret (Inl why)) (answered p)" if "\<And>t. F t \<Longrightarrow> fetched p t" for F why
    using that by (intro secures_simple(1)) simp
  have pod: "secures (exec_reasons x) (\<lambda>t. ?W ws t \<and> XGetPod n found \<in> set t) (case found of
             Inl e \<Rightarrow> if err_is ENotFound e then not_ready ''Target Workspace runtime Pod does not exist''
                      else raise (EWrap ''get target Workspace runtime Pod'' e)
           | Inr pod \<Rightarrow>
               if runtimePodTerminal pod \<or> o_deleting pod \<noteq> None then not_ready ''Target Workspace runtime Pod has stopped''
               else workspace_target x p ws pod) (answered p)" if "ws_runtimePodName ws \<noteq> []" for ws n found
    unfolding not_ready_def
    by (intro secures_cases(2) secures_if wait secures_simple(2) secures_pre [OF secures_workspace_target [OF kind that, of x n]]) auto
  have ws: "secures (exec_reasons x) (?W ws) (workspace_runtime x p ws) (answered p)" for ws
    unfolding workspace_runtime_def not_ready_def
    by (intro secures_if wait secures_andThen [OF secures_attempt_call [where G = "\<lambda>r t. ?W ws t \<and> XGetPod (ws_runtimePodName ws) r \<in> set t"]]
        pod [unfolded not_ready_def]) auto
  have "secures (exec_reasons x) (\<lambda>t. fetched p t \<and> XGetWorkspace found \<in> set t) (case found of
       Inl e \<Rightarrow> if err_is ENotFound e then ret (Inl (''TargetNotFound'', ''Target Workspace does not exist''))
                else raise (EWrap ''get target Workspace'' e)
     | Inr workspace \<Rightarrow> workspace_runtime x p workspace) (answered p)" for found
    by (intro secures_cases(2) secures_if wait secures_simple(2) secures_pre [OF ws]) auto
  then show ?thesis unfolding resolve_workspace_def
    by (intro secures_andThen [OF secures_attempt_call [where G = "\<lambda>r t. fetched p t \<and> XGetWorkspace r \<in> set t"]]) auto
qed

text \<open>The reads and writes of an Environment's editor need no reasons.\<close>

lemma emits_draftStatus [emits_intros]:
  "(\<And>r. P (XGetEnvironment r)) \<Longrightarrow> (\<And>a b r. P (XWriteEnvironment a b r)) \<Longrightarrow> emits P (setEnvironmentDraftStatus x en d e s r m)"
  unfolding setEnvironmentDraftStatus_def Let_def by (intro emits_intros)

lemma emits_access [emits_intros]:
  "(\<And>r. P (XGetAccess r)) \<Longrightarrow> (\<And>a r. P (XAccess a r)) \<Longrightarrow> emits P (ensureWorkspaceAccess x ns)"
  unfolding ensureWorkspaceAccess_def createIfMissing_def reconcileRole_def reconcileRoleBinding_def replace_binding_def Let_def
  by (intro emits_intros)

lemma emits_claimFailure [emits_intros]: "(\<And>r. P (XListEvents r)) \<Longrightarrow> emits P (persistentVolumeClaimFailure x c)"
  unfolding persistentVolumeClaimFailure_def by (intro emits_intros)

lemma emits_create_draft: "emits (idle x) (create_draft x en draftName)"
  unfolding create_draft_def not_ready_def by (intro emits_intros) (simp_all add: idle_def)

lemma secures_editor:
  "secures (exec_reasons x) (fetched p) (ensureEnvironmentEditor x en draft)
     (\<lambda>answer t. fetched p t \<and> (\<forall>pod. answer = Inr pod \<longrightarrow> (\<exists>n. XGetPod n (Inr pod) \<in> set t)))"
proof -
  let ?G = "\<lambda>answer t. fetched p t \<and> (\<forall>pod. answer = Inr pod \<longrightarrow> (\<exists>n. XGetPod n (Inr pod) \<in> set t))"
  let ?n = "o_name en @ ''-editor''"
  have create: "secures (exec_reasons x) (\<lambda>t. fetched p t \<and> XGetPod ?n (Inl e) \<in> set t) (create_editor x en draft) ?G" for e
    unfolding create_editor_def
    by (intro secures_andThen [where G = "\<lambda>_. fetched p"] secures_wrapped secures_simple(1,4) secures_call
        secures_idle [OF emits_draftStatus lasting_mem]) (auto simp: idle_def)
  have use: "secures (exec_reasons x) (\<lambda>t. fetched p t \<and> XGetPod ?n (Inr editor) \<in> set t)
      (if \<not> podReady editor then ret (Inl (reasonTargetNotReady, ''Target WorkspaceEnvironment editor is starting''))
             else andThen (setEnvironmentDraftStatus x en (o_name draft) (o_name editor) CTrue ''DraftReady''
                    ''Environment draft editor is ready'') (\<lambda>_. ret (Inr editor))) ?G" for editor
    by (intro secures_if secures_simple(1)
        secures_andThen [OF secures_idle [OF emits_draftStatus, where F = "\<lambda>t. fetched p t \<and> XGetPod ?n (Inr editor) \<in> set t"]])
       (auto simp: idle_def intro!: lasting_intros)
  have "secures (exec_reasons x) (\<lambda>t. fetched p t \<and> XGetPod ?n found \<in> set t) (case found of
           Inl e \<Rightarrow> if err_is ENotFound e then create_editor x en draft
                    else raise (EWrap ''get WorkspaceEnvironment editor Pod'' e)
         | Inr editor \<Rightarrow>
             if \<not> podReady editor then ret (Inl (reasonTargetNotReady, ''Target WorkspaceEnvironment editor is starting''))
             else andThen (setEnvironmentDraftStatus x en (o_name draft) (o_name editor) CTrue ''DraftReady''
                    ''Environment draft editor is ready'') (\<lambda>_. ret (Inr editor))) ?G" for found
  proof (cases found)
    case (Inl e)
    have "secures (exec_reasons x) (\<lambda>t. fetched p t \<and> XGetPod ?n (Inl e) \<in> set t)
        (if err_is ENotFound e then create_editor x en draft else raise (EWrap ''get WorkspaceEnvironment editor Pod'' e)) ?G"
      by (intro secures_if create secures_simple(2))
    with Inl show ?thesis by simp
  next
    case (Inr editor)
    with use [of editor] show ?thesis by simp
  qed
  then show ?thesis unfolding ensureEnvironmentEditor_def Let_def
    by (intro secures_andThen [OF secures_attempt_call [where G = "\<lambda>r t. fetched p t \<and> XGetPod ?n r \<in> set t"]]) auto
qed

lemma secures_environment_credentials:
  assumes kind: "we_targetKind p \<noteq> ''Workspace''" and F: "\<And>t. F t \<Longrightarrow> fetched p t" "lasting F"
  shows "secures (exec_reasons x) F (resolveEnvironmentProcessCredentials x en p) (\<lambda>_. F)"
proof -
  have cred: "exec_reasons x (XGetCredential n r) t" if "F t" "n \<in> set (ex_credentials p)" for t n r
    using that F kind by (auto simp: exec_reasons_def credential_reasons_def)
  have agent: "exec_reasons x (XGetAgentCredential n r) t" if "F t" "n \<in> set [name]" "ex_agentCredential p = Some name" for t n r name
    using that F kind by (auto simp: exec_reasons_def credential_reasons_def)
  show ?thesis
  proof (cases "ex_agentCredential p")
    case None
    have "secures (exec_reasons x) F (generic_credentials x ns None (ex_credentials p) []) (\<lambda>_. F)" for ns
      by (rule secures_post [OF secures_generic [OF F(2)]]) (use cred in auto)
    with None show ?thesis unfolding resolveEnvironmentProcessCredentials_def Let_def
      by (auto intro!: secures_andThen [where G = "\<lambda>_. F"] secures_simple(1))
  next
    case (Some name)
    have "secures (exec_reasons x) F (resolveProcessCredentials x ns w [name] (ex_credentials p) p) (\<lambda>_. F)" for ns w
      by (rule secures_post [OF secures_credentials [OF F(2)]]) (use cred agent [OF _ _ Some] in auto)
    with Some show ?thesis unfolding resolveEnvironmentProcessCredentials_def Let_def
      by (auto intro!: secures_andThen [where G = "\<lambda>_. F"] secures_cases(3) secures_simple(1))
  qed
qed

lemma secures_editor_target:
  assumes kind: "we_targetKind p \<noteq> ''Workspace''"
  shows "secures (exec_reasons x) (\<lambda>t. fetched p t \<and> XGetPod n (Inr editor) \<in> set t) (editor_target x p en editor) (answered p)"
proof -
  let ?F = "\<lambda>t. fetched p t \<and> XGetPod n (Inr editor) \<in> set t"
  have last: "lasting ?F" by (intro lasting_intros)
  have vars: "secures (exec_reasons x) ?F (resolveProcessOnlyEnvironment x p) (\<lambda>_. ?F)"
    by (rule secures_quiet [OF _ last], unfold resolveProcessOnlyEnvironment_def, intro emits_intros) simp
  have creds: "secures (exec_reasons x) ?F (resolveEnvironmentProcessCredentials x en p) (\<lambda>_. ?F)"
    by (rule secures_environment_credentials [OF kind _ last]) simp
  have proj: "secures (exec_reasons x) ?F (resolveCredentialProjections x (o_namespace p) (ex_credentials p)) (\<lambda>_. ?F)"
    by (rule secures_projections [OF last]) (use kind in \<open>auto simp: exec_reasons_def credential_reasons_def\<close>)
  show ?thesis
  proof (cases "FromPod editor")
    case (Inl e)
    then show ?thesis unfolding editor_target_def by (auto intro!: secures_simple(1))
  next
    case (Inr rt)
    show ?thesis unfolding editor_target_def Inr sum.case
      by (rule secures_andThen [OF vars], rule secures_andThen [OF creds], rule secures_cases(3), rule secures_andThen [OF proj],
          rule secures_simple(1)) (use kind Inr in \<open>auto simp: resolved_def pod_address_def ProcessTarget_def\<close>)
  qed
qed

lemma secures_use_draft:
  assumes kind: "we_targetKind p \<noteq> ''Workspace''"
  shows "secures (exec_reasons x) (fetched p) (use_draft x p en draft) (answered p)"
proof -
  have wait: "secures (exec_reasons x) (fetched p) (ret (Inl why)) (answered p)" for why
    by (intro secures_simple(1)) simp
  have failure: "secures (exec_reasons x) (fetched p) (persistentVolumeClaimFailure x draft) (\<lambda>_. fetched p)"
    by (rule secures_idle [OF emits_claimFailure lasting_mem]) (simp add: idle_def)
  have access: "secures (exec_reasons x) (fetched p) (ensureWorkspaceAccess x ns) (\<lambda>_. fetched p)" for ns
    by (rule secures_idle [OF emits_access lasting_mem]) (simp_all add: idle_def)
  have go: "secures (exec_reasons x) (\<lambda>t. fetched p t \<and> (\<forall>pod. answer = Inr pod \<longrightarrow> (\<exists>n. XGetPod n (Inr pod) \<in> set t)))
      (case answer of Inl why \<Rightarrow> ret (Inl why) | Inr editor \<Rightarrow> editor_target x p en editor) (answered p)" for answer :: "string \<times> string + spec_pod"
  proof (cases answer)
    case (Inl why)
    then show ?thesis by (auto intro!: secures_pre [OF wait])
  next
    case (Inr editor)
    have "runs (\<lambda>t. justified (exec_reasons x) t \<and> fetched p t \<and> (\<exists>n. XGetPod n (Inr editor) \<in> set t)) (editor_target x p en editor)
       (\<lambda>r t. justified (exec_reasons x) t \<and> (case r of Inl _ \<Rightarrow> True | Inr y \<Rightarrow> answered p y t))"
      using secures_editor_target [OF kind, where editor = editor and x = x and en = en] unfolding secures_def runs_def by blast
    with Inr show ?thesis by (simp add: secures_def)
  qed
  show ?thesis unfolding use_draft_def not_ready_def
    by (intro secures_if wait secures_andThen [OF failure] secures_cases(1) secures_andThen [OF access]
        secures_andThen [OF secures_editor] go)
qed

lemma secures_resolve_environment:
  assumes kind: "we_targetKind p \<noteq> ''Workspace''"
  shows "secures (exec_reasons x) (fetched p) (resolveEnvironmentProcessTarget x p) (answered p)"
proof -
  have wait: "secures (exec_reasons x) F (ret (Inl why)) (answered p)" if "\<And>t. F t \<Longrightarrow> fetched p t" for F why
    using that by (intro secures_simple(1)) simp
  have create: "secures (exec_reasons x) (fetched p) (create_draft x en name) (answered p)" for en name
    unfolding create_draft_def not_ready_def
    by (intro secures_andThen [where G = "\<lambda>_. fetched p"] secures_wrapped wait secures_simple(4) secures_call
        secures_idle [OF emits_draftStatus lasting_mem]) (auto simp: idle_def)
  have pick: "secures (exec_reasons x) (fetched p) (case u of (draftName, found, e) \<Rightarrow>
     case e of
       Some err \<Rightarrow>
         if IsConflict err then ret (Inl (''VolumeClaimConflict'', err_text err))
         else raise (EWrap ''get WorkspaceEnvironment draft PersistentVolumeClaim'' err)
     | None \<Rightarrow> (case found of None \<Rightarrow> create_draft x en draftName | Some draft \<Rightarrow> use_draft x p en draft)) (answered p)" for en u
    by (intro secures_cases(1,3) secures_if wait secures_simple(2) create secures_use_draft [OF kind])
  have draft: "secures (exec_reasons x) (fetched p) (environment_draft x p en) (answered p)" for en
    unfolding environment_draft_def resolve_environment_claim_def
    by (rule secures_andThen [OF secures_call [where G = "\<lambda>_. fetched p"] pick]) simp_all
  have "secures (exec_reasons x) (fetched p) (case found of
       Inl e \<Rightarrow> if err_is ENotFound e then ret (Inl (''TargetNotFound'', ''Target WorkspaceEnvironment does not exist''))
                else raise (EWrap ''get target WorkspaceEnvironment'' e)
     | Inr environment \<Rightarrow>
         if \<not> ReadyAtGeneration (en_conditions environment) ConditionReady (o_generation environment) (en_observed environment) \<or>
            en_currentClaim environment = []
         then not_ready ''Target WorkspaceEnvironment current revision is not ready''
         else (case platform_Resolve (en_os environment) (environment_placement environment) of
                 Inl e \<Rightarrow> ret (Inl (runtimePlatformCondition e))
               | Inr _ \<Rightarrow> environment_draft x p environment)) (answered p)" for found
    unfolding not_ready_def by (intro secures_cases(2) secures_if wait secures_simple(2) draft)
  then show ?thesis unfolding resolveEnvironmentProcessTarget_def
    by (intro secures_andThen [OF secures_attempt_call [where G = "\<lambda>_. fetched p"]]) auto
qed

lemma secures_resolveTarget: "secures (exec_reasons x) (fetched p) (resolveProcessTarget x p) (answered p)"
  unfolding resolveProcessTarget_def
  by (intro secures_if secures_resolve_workspace secures_resolve_environment secures_simple(1)) simp_all

section \<open>Starting\<close>

text \<open>The record as the start found it.\<close>

definition runnable :: "execution \<Rightarrow> ws_event list \<Rightarrow> bool" where
  "runnable p t \<longleftrightarrow> fetched p t \<and> o_deleting p = None \<and> \<not> Terminal (we_phase p) \<and> we_desired p \<noteq> ''Stopped'' \<and>
     contains_finalizer p executionFinalizer"

lemma lasting_runnable [lasting_intros]: "lasting (runnable p)"
  unfolding runnable_def by (intro lasting_intros)

text \<open>The three stages before the start, as the end of the trace.\<close>

definition claimed :: "execution \<Rightarrow> resolved_target \<Rightarrow> ws_event list \<Rightarrow> bool" where
  "claimed p target t \<longleftrightarrow>
     (\<exists>a cur new r. t = a @ [XWriteExec cur new (Inr r)] \<and> runnable p a \<and> resolved p target a \<and>
        \<not> Terminal (we_phase cur) \<and> (ex_podUID cur = [] \<or> ex_podUID cur = ex_podUID new) \<and>
        we_phase new = PhaseStarting \<and> ex_podName new = tg_pod (tr_runtime target))"

definition confirmed :: "execution \<Rightarrow> resolved_target \<Rightarrow> execution \<Rightarrow> ws_event list \<Rightarrow> bool" where
  "confirmed p target current t \<longleftrightarrow>
     (\<exists>a. claimed p target a \<and> t = a @ [XReadExec (Inr current)]) \<and> o_deleting current = None \<and> \<not> Terminal (we_phase current)"

definition admitted :: "execution \<Rightarrow> resolved_target \<Rightarrow> execution \<Rightarrow> ws_event list \<Rightarrow> bool" where
  "admitted p target own t \<longleftrightarrow>
     (\<exists>a current b. confirmed p target current a \<and> t = a @ b \<and>
        (case tr_workspace target of
           None \<Rightarrow> b = [] \<and> own = current
         | Some ws \<Rightarrow>
             b = [XAdmit ws current (Inr ())] \<and> own = current \<and> is_controlled_by current (o_uid ws) \<or>
             (\<exists>new'. b = [XAdmit ws current (Inr ()), XUpdateExec new' (Inr own)])))"

lemma secures_claim:
  "secures (exec_reasons x) (\<lambda>t. runnable p t \<and> resolved p target t) (claimProcessRuntime x p target) (\<lambda>_. claimed p target)"
proof -
  let ?F = "\<lambda>t. runnable p t \<and> resolved p target t"
  have last: "lasting ?F" by (intro lasting_intros)
  have fetch: "secures (exec_reasons x) ?F (refetch x p m) (\<lambda>_. ?F)" for m
    by (rule secures_idle [OF emits_refetch last]) (simp add: idle_def)
  have write_it: "secures (exec_reasons x) ?F (write_status x cur (claimed_status now target cur)) (\<lambda>_. claimed p target)"
    if "\<not> (Terminal (we_phase cur) \<or> (ex_podUID cur \<noteq> [] \<and> ex_podUID cur \<noteq> tr_podUID target))" for cur now
    unfolding write_status_def
    by (rule secures_andThen [OF secures_call [where G = "\<lambda>_. claimed p target"] secures_simple(1)])
       (use that in \<open>auto simp: exec_reasons_def claimed_def claimed_status_def set_ready_def\<close>)
  show ?thesis unfolding claimProcessRuntime_def
    by (intro secures_andThen [OF fetch] secures_if secures_simple(1,2) secures_andThen [OF secures_simple(3) [where G' = "\<lambda>_. ?F"]]
        secures_andThen [OF secures_wrapped [OF write_it]])
qed

lemma start_reasons_admitted:
  assumes "admitted p target own t" "o_uid pod = ex_podUID own" "\<not> runtimePodTerminal pod"
  shows "start_reasons (tr_runtime target) (Process (start_intent p target)) (t @ [XReadPod (ex_podName own) (Inr pod)])"
proof -
  from assms(1) obtain a current b a0 cur new r where conf: "t = a0 @ [XWriteExec cur new (Inr r), XReadExec (Inr current)] @ b"
    and a0: "runnable p a0" "resolved p target a0" "\<not> Terminal (we_phase cur)" "ex_podUID cur = [] \<or> ex_podUID cur = ex_podUID new"
      "we_phase new = PhaseStarting" "ex_podName new = tg_pod (tr_runtime target)"
    and cur: "o_deleting current = None" "\<not> Terminal (we_phase current)"
    and b: "case tr_workspace target of
           None \<Rightarrow> b = [] \<and> own = current
         | Some ws \<Rightarrow>
             b = [XAdmit ws current (Inr ())] \<and> own = current \<and> is_controlled_by current (o_uid ws) \<or>
             (\<exists>new'. b = [XAdmit ws current (Inr ()), XUpdateExec new' (Inr own)])"
    unfolding admitted_def confirmed_def claimed_def by auto
  have seq: "start_sequence p (tr_runtime target) (t @ [XReadPod (ex_podName own) (Inr pod)])"
    unfolding start_sequence_def
    by (rule exI [of _ a0], rule exI [of _ b], rule exI [of _ cur], rule exI [of _ new], rule exI [of _ r], rule exI [of _ current],
        rule exI [of _ own], rule exI [of _ "ex_podName own"], rule exI [of _ pod])
       (use a0 cur b conf assms(2,3) in \<open>auto simp: resolved_def split: if_splits\<close>)
  have "set a0 \<subseteq> set t" using conf by auto
  with a0(1,2) seq show ?thesis
    unfolding start_reasons_def runnable_def resolved_def pod_address_def
    by (auto simp: Process_def start_intent_def)
qed

lemma secures_launch:
  "secures (exec_reasons x) (\<lambda>t. fetched p t \<and> start_reasons (tr_runtime target) (Process (start_intent p target)) t)
     (launch x ra p target (Process (start_intent p target))) (\<lambda>_ _. True)"
proof -
  let ?req = "Process (start_intent p target)"
  let ?F = "\<lambda>t. fetched p t \<and> started p t"
  have last: "lasting ?F" by (intro lasting_intros)
  have uid: "rq_uid ?req = o_uid p" by (simp add: Process_def start_intent_def)
  have apply_it: "secures (exec_reasons x) ?F (applyRuntimeState x p tg u state) (\<lambda>_. ?F)" for tg u state
    by (rule secures_idle [OF emits_applyRuntimeState last])
  have release: "secures (exec_reasons x) ?F (releaseProcessEnvironment x p) (\<lambda>_. ?F)"
    by (rule secures_releaseEnvironment [OF _ last]) simp
  have answer: "secures (exec_reasons x) (\<lambda>t. fetched p t \<and> XStart (tr_runtime target) ?req result \<in> set t) (case result of
       Inl e \<Rightarrow> if err_is EProcessNotFound e
                then lost_execution x p ''ProcessOwnershipLost''
                       ''rc-kube retained the process identity but no longer owns the original process''
                else raise (EWrap ''start process through rc-kube'' e)
     | Inr state \<Rightarrow>
         andThen (applyRuntimeState x p (tr_runtime target) (tr_podUID target) state) (\<lambda>_.
         andThen (releaseProcessEnvironment x p) (\<lambda>_. ret (Some processTargetRequeueDelay)))) (\<lambda>_ _. True)" for result
  proof (cases result)
    case (Inl e)
    then show ?thesis by (auto intro!: secures_idle_end [OF emits_lost] secures_simple(2))
  next
    case (Inr state)
    have "secures (exec_reasons x) ?F (andThen (applyRuntimeState x p (tr_runtime target) (tr_podUID target) state) (\<lambda>_.
         andThen (releaseProcessEnvironment x p) (\<lambda>_. ret (Some processTargetRequeueDelay)))) (\<lambda>_ _. True)"
      by (intro secures_andThen [OF apply_it] secures_andThen [OF release] secures_simple(1)) simp
    then have "secures (exec_reasons x) (\<lambda>t. fetched p t \<and> XStart (tr_runtime target) ?req (Inr state) \<in> set t)
       (andThen (applyRuntimeState x p (tr_runtime target) (tr_podUID target) state) (\<lambda>_.
         andThen (releaseProcessEnvironment x p) (\<lambda>_. ret (Some processTargetRequeueDelay)))) (\<lambda>_ _. True)"
      by (rule secures_pre) (use uid in \<open>auto simp: started_def\<close>)
    with Inr show ?thesis by simp
  qed
  show ?thesis unfolding launch_def
    by (rule secures_andThen [OF secures_attempt_call [where G = "\<lambda>r t. fetched p t \<and> XStart (tr_runtime target) ?req r \<in> set t"] answer])
       (auto simp: exec_reasons_def)
qed

lemma admitted_fetched: "admitted p target own t \<Longrightarrow> fetched p t"
  unfolding admitted_def confirmed_def claimed_def runnable_def by auto

lemma secures_launch_checked:
  "secures (exec_reasons x) (admitted p target own) (launch_checked x ra p target (Process (start_intent p target)) own) (\<lambda>_ _. True)"
proof -
  let ?S = "\<lambda>t. fetched p t \<and> start_reasons (tr_runtime target) (Process (start_intent p target)) t"
  have "secures (exec_reasons x) (\<lambda>t. \<exists>u. admitted p target own u \<and> t = u @ [XReadPod (ex_podName own) found]) (case found of
       Inl e \<Rightarrow> if err_is ENotFound e then ret Replaced else raise (EWrap ''get original process runtime Pod'' e)
     | Inr pod \<Rightarrow>
         if o_uid pod \<noteq> ex_podUID own then ret Replaced
         else ret (if runtimePodTerminal pod then Ended pod else Alive pod))
     (\<lambda>answer t. case answer of Alive pod \<Rightarrow> ?S t | _ \<Rightarrow> True)" for found
    by (cases found) (auto intro!: secures_simple(1,2) start_reasons_admitted simp: admitted_fetched)
  then have "secures (exec_reasons x) (admitted p target own) (originalRuntimePod x own) (\<lambda>answer t. case answer of Alive pod \<Rightarrow> ?S t | _ \<Rightarrow> True)"
    unfolding originalRuntimePod_def
    by (intro secures_andThen [OF secures_attempt_call [where G = "\<lambda>r t. \<exists>u. admitted p target own u \<and> t = u @ [XReadPod (ex_podName own) r]"]])
       auto
  moreover have "secures (exec_reasons x) (\<lambda>t. case answer of Alive pod \<Rightarrow> ?S t | _ \<Rightarrow> True)
      (case loss x answer of
         Some (reason, message) \<Rightarrow> lost_execution x p reason message
       | None \<Rightarrow> launch x ra p target (Process (start_intent p target))) (\<lambda>_ _. True)" for answer
    by (cases answer) (auto simp: loss_def intro!: secures_idle_end [OF emits_lost] secures_launch)
  ultimately show ?thesis unfolding launch_checked_def by (rule secures_andThen)
qed

lemma secures_own:
  assumes "tr_workspace target = Some ws"
  shows "secures (exec_reasons x) (\<lambda>t. \<exists>a. confirmed p target current a \<and> t = a @ [XAdmit ws current (Inr ())])
    (own_execution x ws current) (admitted p target)"
proof -
  let ?F = "\<lambda>t. \<exists>a. confirmed p target current a \<and> t = a @ [XAdmit ws current (Inr ())]"
  have keep: "admitted p target current t" if "?F t" "is_controlled_by current (o_uid ws)" for t
    using that assms unfolding admitted_def by auto
  have grown: "admitted p target y (t @ [XUpdateExec new (Inr y)])" if "?F t" for t new y
    using that assms unfolding admitted_def by (auto intro!: exI [of _ current])
  have "secures (exec_reasons x) (\<lambda>t. ?F t \<and> o_deleting new = None) (x_ask x (XUpdateExec new) (x_updateExec x new)) (admitted p target)" for new
    by (rule secures_call) (use grown in \<open>auto simp: exec_reasons_def\<close>)
  then have "secures (exec_reasons x) ?F (andThen (of_result (SetControllerReference workspacesGroupVersion ''Workspace'' ws current))
      (\<lambda>new. x_ask x (XUpdateExec new) (x_updateExec x new))) (admitted p target)"
    by (rule secures_andThen [OF secures_simple(4), rotated])
       (auto simp: SetControllerReference_def confirmed_def split: option.splits if_splits)
  then show ?thesis unfolding own_execution_def by (intro secures_if secures_simple(1)) (use keep in auto)
qed

lemma secures_launch_admitted:
  "secures (exec_reasons x) (confirmed p target current) (launch_admitted x ra p target (Process (start_intent p target)) current) (\<lambda>_ _. True)"
proof (cases "tr_workspace target")
  case None
  then have "admitted p target current t" if "confirmed p target current t" for t
    using that unfolding admitted_def by (auto intro!: exI [of _ current])
  with None show ?thesis unfolding launch_admitted_def by (auto intro!: secures_pre [OF secures_launch_checked])
next
  case (Some ws)
  have reject: "secures (exec_reasons x) F (andThen (setTerminalProcessStatus x p PhaseFailed None r m 0) (\<lambda>_. ret None)) (\<lambda>_ _. True)" for F r m
    by (rule secures_idle_end) (intro emits_intros emits_setTerminal)
  have "secures (exec_reasons x) (\<lambda>t. \<exists>a. confirmed p target current a \<and> t = a @ [XAdmit ws current answer])
     (case answer of
            Inl e \<Rightarrow>
              if err_is EClosed e \<or> err_is EOwnerChanged e \<or> err_is ENotFound e
              then andThen (setTerminalProcessStatus x p PhaseFailed None ''WorkspaceAdmissionRejected'' (err_text e) 0) (\<lambda>_. ret None)
              else raise e
          | Inr _ \<Rightarrow> andThen (own_execution x ws current) (launch_checked x ra p target (Process (start_intent p target))))
     (\<lambda>_ _. True)" for answer
  proof (cases answer)
    case (Inl e)
    show ?thesis unfolding Inl sum.case by (intro secures_if reject secures_simple(2))
  next
    case (Inr u)
    with secures_andThen [OF secures_own [OF Some] secures_launch_checked] show ?thesis by simp
  qed
  with Some show ?thesis unfolding launch_admitted_def admit_execution_def
    by (simp, intro secures_andThen [OF secures_attempt_call [where G = "\<lambda>r t. \<exists>a. confirmed p target current a \<and> t = a @ [XAdmit ws current r]"]])
       auto
qed

lemma secures_startProcess:
  "secures (exec_reasons x) (\<lambda>t. runnable p t \<and> resolved p target t) (startProcess x ra p target) (\<lambda>_ _. True)"
proof -
  have request: "secures (exec_reasons x) (claimed p target) (processStartRequest x p target)
      (\<lambda>req t. req = Process (start_intent p target) \<and> claimed p target t)"
    unfolding processStartRequest_def
    by (rule secures_andThen [OF secures_simple(3) [where G' = "\<lambda>_. claimed p target"]])
       (auto intro!: secures_cases(1) secures_simple(1,2))
  have found: "secures (exec_reasons x)
     (\<lambda>t. \<exists>u. (req = Process (start_intent p target) \<and> claimed p target u) \<and> t = u @ [XReadExec (Inr current)])
     (if o_deleting current \<noteq> None \<or> Terminal (we_phase current) then ret requeue_now
      else launch_admitted x ra p target req current) (\<lambda>_ _. True)" for req current
  proof (rule secures_if)
    assume "\<not> (o_deleting current \<noteq> None \<or> Terminal (we_phase current))"
    then have "req = Process (start_intent p target) \<and> confirmed p target current t"
      if "\<exists>u. (req = Process (start_intent p target) \<and> claimed p target u) \<and> t = u @ [XReadExec (Inr current)]" for t
      using that unfolding confirmed_def by auto
    then show "secures (exec_reasons x) (\<lambda>t. \<exists>u. (req = Process (start_intent p target) \<and> claimed p target u) \<and> t = u @ [XReadExec (Inr current)])
       (launch_admitted x ra p target req current) (\<lambda>_ _. True)"
      by (cases "req = Process (start_intent p target)")
         (simp add: secures_pre [OF secures_launch_admitted], rule secures_absurd, simp)
  qed (rule secures_simple(1), simp)
  show ?thesis unfolding startProcess_def
    by (intro secures_andThen [OF secures_claim] secures_andThen [OF request] secures_getOr_call found secures_simple(1)) simp_all
qed

lemma secures_startWorkspaceExec:
  "secures (exec_reasons x) (runnable p) (startWorkspaceExec x ra p) (\<lambda>_ _. True)"
proof -
  have target: "secures (exec_reasons x) (runnable p) (resolveProcessTarget x p)
      (\<lambda>answer t. runnable p t \<and> (\<forall>target. answer = Inr target \<longrightarrow> resolved p target t))"
  proof (cases "o_deleting p = None \<and> \<not> Terminal (we_phase p) \<and> we_desired p \<noteq> ''Stopped'' \<and> contains_finalizer p executionFinalizer")
    case True
    then have "runnable p = fetched p" by (simp add: runnable_def fun_eq_iff)
    then show ?thesis using secures_resolveTarget [of x p] by simp
  qed (auto intro!: secures_absurd simp: runnable_def)
  have wait: "secures (exec_reasons x) F (andThen (setProcessCondition x p PhasePending CFalse r m) (\<lambda>_. ret (Some processTargetRequeueDelay)))
      (\<lambda>_ _. True)" for F r m
    by (rule secures_idle_end) (intro emits_intros emits_setProcessCondition)
  have "secures (exec_reasons x) (\<lambda>t. runnable p t \<and> (\<forall>target. answer = Inr target \<longrightarrow> resolved p target t)) (case answer of
       Inl (reason, message) \<Rightarrow>
         andThen (setProcessCondition x p PhasePending CFalse reason message) (\<lambda>_. ret (Some processTargetRequeueDelay))
     | Inr target \<Rightarrow>
         if ex_podUID p \<noteq> [] \<and> ex_podUID p \<noteq> tr_podUID target then replaced_execution x p
         else startProcess x ra p target) (\<lambda>_ _. True)" for answer
    by (cases answer) (auto intro!: wait secures_idle_end [OF emits_replaced] secures_pre [OF secures_startProcess] split: prod.splits)
  then show ?thesis unfolding startWorkspaceExec_def by (rule secures_andThen [OF target])
qed

section \<open>Reconcile\<close>

lemma secures_stop_execution: "secures (exec_reasons x) F (stop_execution x ra p pod) (\<lambda>_ _. True)"
proof (rule secures_idle_end)
  show "emits (idle x) (stop_execution x ra p pod)"
    unfolding stop_execution_def
    by (intro emits_intros emits_setTerminal emits_replaced emits_lost emits_applyRuntimeState) (simp add: idle_def)
qed

lemma secures_inspect_execution:
  assumes "we_phase p = PhaseRunning"
  shows "secures (exec_reasons x) (fetched p) (inspect_execution x ra p pod) (\<lambda>_ _. True)"
  unfolding inspect_execution_def
proof (rule secures_andThen [OF secures_releaseEnvironment [OF _ lasting_mem] secures_idle_end])
  fix u
  show "emits (idle x) (andThen (of_result (runtimeProcessTarget p pod)) (\<lambda>found.
     case found of
       None \<Rightarrow> replaced_execution x p
     | Some (target, podUID) \<Rightarrow>
         andThen (attempt (x_ask x (XInspect target (o_name p)) (ra_inspect ra target (o_name p)))) (\<lambda>seen.
         case seen of
           Inl e \<Rightarrow> if err_is EProcessNotFound e
                    then lost_execution x p ''ProcessMissing'' ''rc-kube no longer owns the original process''
                    else raise (EWrap ''inspect process through rc-kube'' e)
         | Inr state \<Rightarrow> andThen (applyRuntimeState x p target podUID state) (\<lambda>_. ret (Some processTargetRequeueDelay)))))"
    by (intro emits_intros emits_replaced emits_lost emits_applyRuntimeState) (simp add: idle_def)
qed (simp add: started_def assms)

lemma secures_resume:
  assumes "o_deleting p = None" "\<not> Terminal (we_phase p)" "contains_finalizer p executionFinalizer"
  shows "secures (exec_reasons x) (fetched p) (resume_execution x p) (\<lambda>_ _. True)"
proof -
  have drive: "secures (exec_reasons x) (fetched p) (drive_execution x p pod) (\<lambda>_ _. True)" for pod
    unfolding drive_execution_def
    by (intro secures_cases(1) secures_if secures_simple(2) secures_stop_execution secures_inspect_execution
        secures_pre [OF secures_startWorkspaceExec]) (use assms in \<open>auto simp: runnable_def\<close>)
  have "secures (exec_reasons x) (\<lambda>t. fetched p t \<and> (case answer of Alive pod \<Rightarrow> True | _ \<Rightarrow> pod_gone p t)) (case answer of
             Alive pod \<Rightarrow> drive_execution x p (Some pod)
           | _ \<Rightarrow> (case loss x answer of
                     Some (reason, message) \<Rightarrow> lost_execution x p reason message
                   | None \<Rightarrow> ret None)) (\<lambda>_ _. True)" for answer
    by (cases answer) (auto simp: loss_def intro!: secures_idle_end [OF emits_lost] secures_pre [OF drive])
  then show ?thesis unfolding resume_execution_def
    by (intro secures_if drive secures_andThen [OF secures_originalPod [OF lasting_mem]])
qed

lemma secures_reconcile: "secures (exec_reasons x) (\<lambda>_. True) (Reconcile_workspaceexec x ns n) (\<lambda>_ _. True)"
proof -
  have "secures (exec_reasons x) (\<lambda>t. handled = None \<longrightarrow>
        fetched p t \<and> o_deleting p = None \<and> \<not> Terminal (we_phase p) \<and> contains_finalizer p executionFinalizer)
      (case handled of Some result \<Rightarrow> ret result | None \<Rightarrow> resume_execution x p) (\<lambda>_ _. True)" for handled p
  proof (cases handled)
    case None
    show ?thesis
    proof (cases "o_deleting p = None \<and> \<not> Terminal (we_phase p) \<and> contains_finalizer p executionFinalizer")
      case True
      with None secures_resume [of p x] show ?thesis by simp
    qed (auto simp: None intro!: secures_absurd)
  qed (auto intro: secures_simple(1))
  then have go: "secures (exec_reasons x) (fetched p) (andThen (handleWorkspaceExecLifecycle x p) (\<lambda>handled.
      case handled of Some result \<Rightarrow> ret result | None \<Rightarrow> resume_execution x p)) (\<lambda>_ _. True)" for p
    by (rule secures_andThen [OF secures_lifecycle])
  show ?thesis unfolding Reconcile_workspaceexec_def
    by (rule secures_getOr_call, simp, rule secures_pre [OF go]) (auto intro: secures_simple(1))
qed

lemmas reconcile_justified = secures_from_start [OF secures_reconcile]

section \<open>Guarantees\<close>

lemma justified_mono: "justified J tr \<Longrightarrow> (\<And>e t. J e t \<Longrightarrow> K e t) \<Longrightarrow> justified K tr"
  by (simp add: justified_def)




section \<open>Runs\<close>

text \<open>A cluster whose state is the stored record: a ready Workspace, its runtime Pod, and an rc-kube that runs what it is given.\<close>

definition sample_execution :: execution where
  "sample_execution =
     \<lparr>o_namespace = ''ns'', o_name = ''run'', o_uid = ''e1'', o_version = 1, o_generation = 1, o_annotations = Map.empty,
      o_labels = Map.empty, o_created = None, o_deleting = None, o_finalizers = [executionFinalizer], o_controller = None,
      we_targetKind = ''Workspace'', we_targetName = ''dev'', we_desired = ''Running'', we_phase = PhasePending, we_completedAt = None,
      ex_command = [''true''], ex_workingDirectory = [], ex_tty = False, ex_stdin = False, ex_env = [], ex_envSecret = None,
      ex_agentType = [], ex_agentCredential = None, ex_credentials = [''ssh''], ex_observed = 0, ex_podName = [], ex_podUID = [],
      ex_startedAt = None, ex_exitCode = None, ex_termination = [], ex_attached = 0, ex_transcript = [], ex_conditions = Map.empty\<rparr>"

definition sample_workspace :: workspace_object where
  "sample_workspace =
     workspace.extend
       (sample_ws\<lparr>o_name := ''dev'', ws_runtimePodName := ''dev-runtime'',
          ws_conditions := [ConditionReady \<mapsto> new_condition CTrue 1 ''Ready'' []]\<rparr>)
       (workspace_object.fields ''/workspace'' [] [] [''ssh''] ''linux'' sample_placement None None [] [] [] None [] [] None [] [] None 1 [] [] 0)"

definition sample_pod :: spec_pod where
  "sample_pod =
     (new_pod ((blank_object ''ns'' ''dev-runtime'')\<lparr>o_uid := ''p1''\<rparr>)
        (podSpec sample_platform ''rc'' False RestartAlways [] [zero_container\<lparr>ct_name := ''rc-kube'', ct_command := [RCKubeExecutable]\<rparr>] []))
     \<lparr>po_phase := PodRunning\<rparr>"

definition sample_state :: pstate where
  "sample_state =
     \<lparr>ps_id = ''run'', ps_uid = ''e1'', ps_phase = ''Running'', ps_pid = 7, ps_exitCode = None, ps_reason = [],
      ps_attachedClients = 0, ps_transcriptTruncated = False\<rparr>"

definition sample_secret :: secret where
  "sample_secret = kobj.extend (blank_object ''ns'' ''ssh-secret'') (secret.fields [''id'' \<mapsto> ''key'', ''hosts'' \<mapsto> ''known''])"

text \<open>A cluster without objects; every write succeeds and changes nothing.\<close>

definition empty_cluster :: "'api xclient" where
  "empty_cluster =
     \<lparr>x_env = (\<lambda>_ _ s. s), x_clock = (\<lambda>n. 100 + n), x_ctx = (\<lambda>_. None),
      x_getExec = (\<lambda>_ _ _. Inl ENotFound), x_readExec = (\<lambda>_ _ _. Inl ENotFound), x_listExecs = (\<lambda>_ _. Inr []),
      x_updateExec = (\<lambda>new s. (s, Inr new)), x_updateExecStatus = (\<lambda>new s. (s, Inr new)), x_deleteExec = (\<lambda>_ s. (s, None)),
      x_getPod = (\<lambda>_ _ _. Inl ENotFound), x_readPod = (\<lambda>_ _ _. Inl ENotFound), x_createPod = (\<lambda>_ s. (s, None)),
      x_deletePod = (\<lambda>_ s. (s, None)), x_getWorkspace = (\<lambda>_ _ _. Inl ENotFound), x_readWorkspace = (\<lambda>_ _ _. Inl ENotFound),
      x_updateOwnerStatus = (\<lambda>_ s. (s, None)), x_gateWrite = (\<lambda>_ new s. (s, Inr new)), x_getEnvironment = (\<lambda>_ _ _. Inl ENotFound),
      x_readEnvironment = (\<lambda>_ _ _. Inl ENotFound), x_updateEnvironmentStatus = (\<lambda>_ s. (s, None)),
      x_getSecret = (\<lambda>_ _ _. Inl ENotFound), x_deleteSecret = (\<lambda>_ s. (s, None)), x_getConfigMap = (\<lambda>_ _ _. Inl ENotFound),
      x_getAgentCredential = (\<lambda>_ _ _. Inl ENotFound), x_getCredential = (\<lambda>_ _ _. Inl ENotFound), x_getClaim = (\<lambda>_ _ _. Inl ENotFound),
      x_createClaim = (\<lambda>_ s. (s, None)), x_deleteClaim = (\<lambda>_ s. (s, None)), x_listEvents = (\<lambda>_ _. Inr []), x_getAccess = (\<lambda>a _. Inr a),
      x_createAccess = (\<lambda>_ s. (s, None)), x_updateAccess = (\<lambda>_ s. (s, None)), x_deleteAccess = (\<lambda>_ s. (s, None)),
      x_runtime = None, x_sha = (\<lambda>s. s), x_rfc3339 = (\<lambda>_. []), x_rcKubeImage = ''rc-kube:1''\<rparr>"

definition sample_cluster :: "execution xclient" where
  "sample_cluster = empty_cluster
     \<lparr>x_getExec := (\<lambda>_ _ e. Inr e), x_readExec := (\<lambda>_ _ e. Inr e), x_updateExec := (\<lambda>new _. (new, Inr new)),
      x_updateExecStatus := (\<lambda>new _. (new, Inr new)), x_getPod := (\<lambda>_ _ _. Inr sample_pod), x_readPod := (\<lambda>_ _ _. Inr sample_pod),
      x_getWorkspace := (\<lambda>_ _ _. Inr sample_workspace), x_readWorkspace := (\<lambda>_ _ _. Inr sample_workspace),
      x_getSecret := (\<lambda>_ _ _. Inr sample_secret),
      x_getCredential := (\<lambda>_ _ _. Inr (SSHKey (''ssh-secret'', ''id'') (''ssh-secret'', ''hosts'') [])),
      x_runtime := Some \<lparr>ra_start = (\<lambda>_ _ e. (e, Inr sample_state)), ra_inspect = (\<lambda>_ _ e. (e, Inr sample_state)),
                         ra_stop = (\<lambda>_ _ e. (e, Inr sample_state))\<rparr>\<rparr>"

fun start_of :: "ws_event \<Rightarrow> (string \<times> string \<times> string list) option" where
  "start_of (XStart tg req r) = Some (tg_pod tg, tg_executable tg, map fst (rq_credentialFiles req))"
| "start_of _ = None"

fun phases_of :: "ws_event \<Rightarrow> (exec_phase \<times> exec_phase) option" where
  "phases_of (XWriteExec cur new (Inr r)) = Some (we_phase cur, we_phase new)"
| "phases_of _ = None"

lemma sample_execution_starts:
  "(case Reconcile_workspaceexec sample_cluster ''ns'' ''run'' (sample_execution, []) of
      ((e, tr), r) \<Rightarrow> we_phase e = PhaseRunning \<and> ex_podUID e = ''p1'' \<and> is_controlled_by e ''s1'' \<and>
        List.map_filter start_of tr = [(''dev-runtime'', ''/opt/rc/bin/rc-kube'', [''credentials/ssh/id'', ''credentials/ssh/known_hosts''])] \<and>
        List.map_filter phases_of tr = [(PhasePending, PhaseStarting), (PhaseStarting, PhaseRunning)])"
  by code_simp


end
