(* ===== verification/WorkspaceEnvironmentSafety.thy ===== *)
theory WorkspaceEnvironmentSafety
  imports WorkspaceEnvironments WorkspaceExecSafety
begin

text \<open>What a reconcile of a WorkspaceEnvironment guarantees, for every server, every answer and every interleaving.\<close>

section \<open>Reasons\<close>

text \<open>The processes were listed and none of this Environment is active.\<close>

definition quiet_list :: "workspace_environment \<Rightarrow> ws_event list \<Rightarrow> bool" where
  "quiet_list env t \<longleftrightarrow> (\<exists>ps. XListExecs (Inr ps) \<in> set t \<and> \<not> list_ex (active_process env) ps)"

definition promote_reasons :: "workspace_environment \<Rightarrow> pvc \<Rightarrow> ws_event list \<Rightarrow> bool" where
  "promote_reasons env draft t \<longleftrightarrow>
     XGetEnvironment (Inr env) \<in> set t \<and> en_commit env > en_committed env \<and> quiet_list env t \<and>
     (en_editorPod env = [] \<or> (\<exists>e. XGetPod (en_editorPod env) (Inl e) \<in> set t \<and> err_is ENotFound e)) \<and>
     XGetClaim (en_draftClaim env) (Inr draft) \<in> set t \<and> CheckOwner draft (environment_owner env) = None \<and> pvc_phase draft = ''Bound''"

definition promotes :: "workspace_environment \<Rightarrow> workspace_environment \<Rightarrow> bool" where
  "promotes cur new \<longleftrightarrow> en_committed new \<noteq> en_committed cur \<or> (en_draftClaim cur \<noteq> [] \<and> en_draftClaim new = [])"

definition environment_reasons :: "ws_event \<Rightarrow> ws_event list \<Rightarrow> bool" where
  "environment_reasons e t =
     (case e of
        XWriteEnvironment cur new _ \<Rightarrow>
          promotes cur new \<longrightarrow> (\<exists>env draft. promote_reasons env draft t \<and> en_currentClaim new = o_name draft)
      | XDeleteClaim c _ \<Rightarrow>
          \<exists>env draft cur new. promote_reasons env draft t \<and> XWriteEnvironment cur new (Inr ()) \<in> set t \<and>
            en_currentClaim new = o_name draft \<and> o_name draft \<noteq> en_currentClaim env \<and>
            XGetClaim (en_currentClaim env) (Inr c) \<in> set t \<and> CheckOwner c (environment_owner env) = None
      | XMakeClaim c _ \<Rightarrow>
          \<exists>env. XGetEnvironment (Inr env) \<in> set t \<and> en_currentClaim env = [] \<and> XLookClaim (Inr (o_name c, None, None)) \<in> set t \<and>
            is_controlled_by c (o_uid env)
      | XDeletePod editor _ \<Rightarrow>
          \<exists>env. XGetEnvironment (Inr env) \<in> set t \<and> XGetPod (en_editorPod env) (Inr editor) \<in> set t \<and> quiet_list env t
      | _ \<Rightarrow> True)"

lemma environment_reasons_free [simp]:
  "environment_reasons (XListExecs a) t" "environment_reasons (XGetPod n b) t" "environment_reasons (XGetEnvironment c) t"
  "environment_reasons (XGetClaim n d) t" "environment_reasons (XLookClaim e) t" "environment_reasons (XListEvents f) t"
  by (simp_all add: environment_reasons_def)

lemma unpromoted [simp]: "\<not> promotes cur new \<Longrightarrow> environment_reasons (XWriteEnvironment cur new r) t"
  by (simp add: environment_reasons_def)

lemma unpromoted_statuses [simp]:
  "\<not> promotes cur (environment_condition now typ s r m cur)"
  "\<not> promotes cur (environment_condition now typ s r m (cur\<lparr>en_editorPod := e\<rparr>))"
  "\<not> promotes cur (current_status now vn img c s r m st cur)"
  by (auto simp: promotes_def environment_condition_def current_status_def Let_def split: option.splits prod.splits)

lemma lasting_quiet_list [lasting_intros]: "lasting (quiet_list env)"
  unfolding quiet_list_def by (intro lasting_intros)

lemma lasting_promote [lasting_intros]: "lasting (promote_reasons env draft)"
  unfolding promote_reasons_def by (intro lasting_intros)

section \<open>Stages\<close>

definition harmless :: "ws_event \<Rightarrow> bool" where
  "harmless e \<longleftrightarrow> (\<forall>t. environment_reasons e t)"

lemma secures_harmless: "emits harmless m \<Longrightarrow> lasting F \<Longrightarrow> secures environment_reasons F m (\<lambda>_. F)"
  by (rule secures_quiet, erule emits_mono) (simp_all add: harmless_def)

lemma secures_harmless_end: "emits harmless m \<Longrightarrow> secures environment_reasons F m (\<lambda>_ _. True)"
  by (rule secures_pre [OF secures_harmless [where F = "\<lambda>_. True"]]) (simp_all add: lasting_const)

lemma emits_draftCondition: "emits harmless (setEnvironmentDraftCondition x env r m)"
  unfolding setEnvironmentDraftCondition_def refetch_environment_def write_environment_def
  by (intro emits_intros) (simp_all add: harmless_def)

lemma emits_environmentStatus: "emits harmless (setEnvironmentStatus x env vn img c s r m st)"
  unfolding setEnvironmentStatus_def refetch_environment_def write_environment_def
  by (intro emits_intros) (simp_all add: harmless_def)

lemma emits_report_storage: "emits harmless (report_storage x env vn img c r m)"
  unfolding report_storage_def by (intro emits_intros emits_environmentStatus)

text \<open>A fact about every result of a computation.\<close>

lemma secures_results:
  assumes "secures J F m G" "\<And>w w' y. m w = (w', Inr y) \<Longrightarrow> H y"
  shows "secures J F m (\<lambda>y t. G y t \<and> H y)"
  unfolding secures_def
proof (rule runsI)
  fix w w' r assume "justified J (snd w) \<and> F (snd w)" "m w = (w', r)"
  with runsD [OF assms(1) [unfolded secures_def] this] assms(2) [of w w']
  show "justified J (snd w') \<and> (case r of Inl _ \<Rightarrow> True | Inr x \<Rightarrow> G x (snd w') \<and> H x)" by (auto split: sum.splits)
qed

abbreviation found :: "workspace_environment \<Rightarrow> ws_event list \<Rightarrow> bool" where
  "found env t \<equiv> XGetEnvironment (Inr env) \<in> set t"

lemma secures_list:
  assumes "lasting F"
  shows "secures environment_reasons F (list_processes x env m) (\<lambda>ps t. F t \<and> XListExecs (Inr ps) \<in> set t)"
  unfolding list_processes_def by (rule secures_wrapped [OF secures_call]) (auto simp: lastingD [OF assms])

lemma secures_get_pod:
  assumes "lasting F"
  shows "secures environment_reasons F (attempt (x_read x (XGetPod n) g)) (\<lambda>r t. F t \<and> XGetPod n r \<in> set t)"
  by (rule secures_attempt_call) (auto simp: lastingD [OF assms])

lemma secures_get_claim:
  assumes "lasting F"
  shows "secures environment_reasons F (attempt (x_read x (XGetClaim n) g)) (\<lambda>r t. F t \<and> XGetClaim n r \<in> set t)"
  by (rule secures_attempt_call) (auto simp: lastingD [OF assms])

lemma secures_delete_editor:
  assumes "\<And>t. F t \<Longrightarrow> found env t \<and> XGetPod (en_editorPod env) (Inr editor) \<in> set t \<and> quiet_list env t"
  shows "secures environment_reasons F (delete_editor x m editor) (\<lambda>_ _. True)"
  unfolding delete_editor_def by (rule secures_wrapped [OF secures_call]) (use assms in \<open>auto simp: environment_reasons_def\<close>)

lemma secures_editor_outdated:
  "secures environment_reasons (\<lambda>t. found env t \<and> XGetPod (en_editorPod env) (Inr editor) \<in> set t) (editor_outdated x env editor) (\<lambda>_ _. True)"
proof -
  let ?F = "\<lambda>t. found env t \<and> XGetPod (en_editorPod env) (Inr editor) \<in> set t"
  have last: "lasting ?F" by (intro lasting_intros)
  have look: "secures environment_reasons ?F (environmentHasActiveProcess x env) (\<lambda>active t. ?F t \<and> (\<not> active \<longrightarrow> quiet_list env t))"
    unfolding environmentHasActiveProcess_def
    by (rule secures_andThen [OF secures_list [OF last]], rule secures_simple(1)) (auto simp: quiet_list_def)
  have report: "secures environment_reasons G (andThen (setEnvironmentDraftCondition x env r m) (\<lambda>_. ret (Some None))) (\<lambda>_ _. True)" for G r m
    by (rule secures_harmless_end) (intro emits_intros emits_draftCondition)
  have "secures environment_reasons (\<lambda>t. ?F t \<and> (\<not> active \<longrightarrow> quiet_list env t)) (if active
     then andThen (setEnvironmentDraftCondition x env ''RuntimeChangeBlocked''
            ''Environment editor runtime changed while processes are active'') (\<lambda>_. ret (Some None))
     else andThen (delete_editor x ''replace Environment editor Pod'' editor) (\<lambda>_.
          andThen (setEnvironmentDraftCondition x env ''ReplacingEditor''
            ''Environment editor Pod is restarting with updated runtime settings'') (\<lambda>_. ret (Some None)))) (\<lambda>_ _. True)" for active
    by (intro secures_if report secures_andThen [OF secures_delete_editor [of _ env]]) simp
  then show ?thesis unfolding editor_outdated_def by (rule secures_andThen [OF look])
qed

lemma secures_editor_idle:
  "secures environment_reasons (\<lambda>t. found env t \<and> XGetPod (en_editorPod env) (Inr editor) \<in> set t)
     (editor_idle x env timeout editor) (\<lambda>handled t. handled = None \<longrightarrow> found env t)"
proof -
  let ?F = "\<lambda>t. found env t \<and> XGetPod (en_editorPod env) (Inr editor) \<in> set t"
  let ?G = "\<lambda>handled t. handled = None \<longrightarrow> found env t"
  have last: "lasting ?F" by (intro lasting_intros)
  have del: "secures environment_reasons (\<lambda>t. ?F t \<and> quiet_list env t) (andThen (delete_editor x m editor) (\<lambda>_. ret (Some None))) ?G" for m
    by (intro secures_andThen [OF secures_delete_editor [of _ env]] secures_simple(1)) simp_all
  have "secures environment_reasons (\<lambda>t. ?F t \<and> XListExecs (Inr ps) \<in> set t)
     (if list_ex (active_process env) ps then ret None
      else (case latest_completion env ps of
             None \<Rightarrow> ret None
           | Some t \<Rightarrow>
               andThen (x_now x) (\<lambda>now.
               if int now < int t + timeout then ret (Some (Some (int t + timeout - int now)))
               else andThen (delete_editor x ''delete idle Environment editor Pod'' editor) (\<lambda>_. ret (Some None))))) ?G" for ps
    by (intro secures_if secures_simple(1) secures_cases(1)
        secures_andThen [OF secures_simple(3) [where G' = "\<lambda>_ t. ?F t \<and> quiet_list env t"]] del) (auto simp: quiet_list_def)
  then show ?thesis unfolding editor_idle_def by (rule secures_andThen [OF secures_list [OF last]])
qed

lemma secures_editorLifecycle:
  "secures environment_reasons (found env) (reconcileEditorLifecycle x env) (\<lambda>handled t. handled = None \<longrightarrow> found env t)"
proof -
  let ?G = "\<lambda>handled t. handled = None \<longrightarrow> found env t"
  let ?F = "\<lambda>r t. found env t \<and> XGetPod (en_editorPod env) r \<in> set t"
  have stop: "secures environment_reasons F (editor_stopped x env) ?G" for F
    unfolding editor_stopped_def refetch_environment_def write_environment_def
    by (intro secures_andThen [where G = "\<lambda>_ _. True"] secures_call secures_simple(1,3) secures_wrapped) simp_all
  have outdated: "secures environment_reasons (?F (Inr editor)) (editor_outdated x env editor) ?G" for editor
  proof -
    have "handled \<noteq> None" if "editor_outdated x env editor w = (w', Inr handled)" for w w' handled
      using that unfolding editor_outdated_def by (auto simp: andThen_def ret_def split: prod.splits sum.splits if_splits)
    then show ?thesis by (rule secures_post [OF secures_results [OF secures_editor_outdated]]) auto
  qed
  have "secures environment_reasons (?F r) (case r of
             Inl e \<Rightarrow> if err_is ENotFound e then editor_stopped x env else raise (EWrap ''get Environment editor Pod'' e)
           | Inr editor \<Rightarrow>
               if en_observed env < o_generation env then editor_outdated x env editor
               else (case en_editorIdle env of
                       None \<Rightarrow> ret None
                     | Some timeout \<Rightarrow> if timeout = 0 then ret None else editor_idle x env timeout editor)) ?G" for r
  proof (cases r)
    case (Inl e)
    show ?thesis unfolding Inl sum.case by (intro secures_if stop secures_simple(2))
  next
    case (Inr editor)
    show ?thesis unfolding Inr sum.case
      by (intro secures_if outdated secures_cases(1) secures_editor_idle secures_simple(1)) simp_all
  qed
  then have "secures environment_reasons (found env) (andThen (attempt (x_read x (XGetPod (en_editorPod env))
             (x_getPod x (o_namespace env) (en_editorPod env)))) (\<lambda>r. case r of
             Inl e \<Rightarrow> if err_is ENotFound e then editor_stopped x env else raise (EWrap ''get Environment editor Pod'' e)
           | Inr editor \<Rightarrow>
               if en_observed env < o_generation env then editor_outdated x env editor
               else (case en_editorIdle env of
                       None \<Rightarrow> ret None
                     | Some timeout \<Rightarrow> if timeout = 0 then ret None else editor_idle x env timeout editor))) ?G"
    by (intro secures_andThen [OF secures_get_pod [OF lasting_mem]])
  then show ?thesis unfolding reconcileEditorLifecycle_def by (intro secures_if secures_simple(1)) simp_all
qed

section \<open>Commit\<close>

lemma secures_delete_previous:
  "secures environment_reasons (\<lambda>t. promote_reasons env draft t \<and> (\<exists>cur new. XWriteEnvironment cur new (Inr ()) \<in> set t \<and> en_currentClaim new = o_name draft))
     (delete_previous x env draft) (\<lambda>_ _. True)"
proof (cases "en_currentClaim env = [] \<or> en_currentClaim env = o_name draft")
  case True
  then show ?thesis unfolding delete_previous_def Let_def by (auto intro: secures_simple(1))
next
  case False
  let ?F = "\<lambda>t. promote_reasons env draft t \<and> (\<exists>cur new. XWriteEnvironment cur new (Inr ()) \<in> set t \<and> en_currentClaim new = o_name draft)"
  have last: "lasting ?F" by (intro lasting_intros)
  have del: "secures environment_reasons (\<lambda>t. ?F t \<and> XGetClaim (en_currentClaim env) (Inr old) \<in> set t)
      (x_write x (XDeleteClaim old) (x_deleteClaim x old)) (\<lambda>_ _. True)" if "CheckOwner old (environment_owner env) = None" for old
  proof (rule secures_call)
    fix t r assume "?F t \<and> XGetClaim (en_currentClaim env) (Inr old) \<in> set t"
    then obtain cur new where "XWriteEnvironment cur new (Inr ()) \<in> set t" "en_currentClaim new = o_name draft" "promote_reasons env draft t"
      "XGetClaim (en_currentClaim env) (Inr old) \<in> set t" by blast
    moreover have "o_name draft \<noteq> en_currentClaim env" using False by auto
    ultimately show "environment_reasons (XDeleteClaim old r) t"
      using that unfolding environment_reasons_def ws_event.case by blast
  qed simp
  have "secures environment_reasons (\<lambda>t. ?F t \<and> XGetClaim (en_currentClaim env) r \<in> set t) (case r of
                Inl e \<Rightarrow> if err_is ENotFound e then ret ()
                         else raise (EWrap ''get previous Environment current PersistentVolumeClaim'' e)
              | Inr old \<Rightarrow>
                  (case CheckOwner old (environment_owner env) of
                     Some e \<Rightarrow> raise e
                   | None \<Rightarrow> wrapped ''delete previous Environment current PersistentVolumeClaim''
                               (x_write x (XDeleteClaim old) (x_deleteClaim x old)))) (\<lambda>_ _. True)" for r
  proof (cases r)
    case (Inl e)
    show ?thesis unfolding Inl sum.case by (intro secures_if secures_simple(1,2)) simp
  next
    case (Inr old)
    show ?thesis unfolding Inr sum.case by (intro secures_cases(1) secures_simple(2) secures_wrapped del)
  qed
  with False show ?thesis unfolding delete_previous_def Let_def
    by (simp, intro secures_andThen [OF secures_get_claim [OF last]])
qed

lemma secures_promote:
  "secures environment_reasons (promote_reasons env draft) (promote_draft x env draft) (\<lambda>_ _. True)"
proof -
  let ?F = "promote_reasons env draft"
  have fetch: "secures environment_reasons ?F (wrapped m (refetch_environment x env)) (\<lambda>_. ?F)" for m
    by (rule secures_harmless [OF _ lasting_promote], unfold refetch_environment_def, intro emits_intros) (simp add: harmless_def)
  have promote: "secures environment_reasons ?F (write_environment x cur (promoted_status now draft cur))
      (\<lambda>_ t. ?F t \<and> (\<exists>cur new. XWriteEnvironment cur new (Inr ()) \<in> set t \<and> en_currentClaim new = o_name draft))" for cur now
  proof -
    have name: "en_currentClaim (promoted_status now draft cur) = o_name draft"
      by (simp add: promoted_status_def environment_condition_def)
    show ?thesis unfolding write_environment_def
      by (rule secures_call) (use name lastingD [OF lasting_promote] in \<open>auto simp: environment_reasons_def\<close>)
  qed
  show ?thesis unfolding promote_draft_def
    by (intro secures_andThen [OF fetch] secures_andThen [OF secures_simple(3) [where G' = "\<lambda>_. ?F"]]
        secures_andThen [OF secures_wrapped [OF promote] secures_delete_previous])
qed

lemma secures_commit_draft:
  assumes "en_commit env > en_committed env"
  shows "secures environment_reasons (\<lambda>t. found env t \<and> quiet_list env t \<and>
       (en_editorPod env = [] \<or> (\<exists>e. XGetPod (en_editorPod env) (Inl e) \<in> set t \<and> err_is ENotFound e)))
     (commit_draft x env) (\<lambda>_ _. True)"
proof -
  let ?F = "\<lambda>t. found env t \<and> quiet_list env t \<and>
       (en_editorPod env = [] \<or> (\<exists>e. XGetPod (en_editorPod env) (Inl e) \<in> set t \<and> err_is ENotFound e))"
  have last: "lasting ?F" by (intro lasting_intros)
  note report = secures_harmless_end [OF emits_draftCondition]
  have "secures environment_reasons (\<lambda>t. ?F t \<and> XGetClaim (en_draftClaim env) r \<in> set t) (case r of
           Inl e \<Rightarrow> if err_is ENotFound e
                    then setEnvironmentDraftCondition x env ''DraftMissing'' ''Environment draft volume does not exist''
                    else raise (EWrap ''get Environment draft PersistentVolumeClaim'' e)
         | Inr draft \<Rightarrow>
             (case CheckOwner draft (environment_owner env) of
                Some e \<Rightarrow> setEnvironmentDraftCondition x env ''VolumeClaimConflict'' (err_text e)
              | None \<Rightarrow>
                  if pvc_phase draft \<noteq> ''Bound''
                  then setEnvironmentDraftCondition x env ''DraftNotReady'' ''Environment draft volume is not bound''
                  else promote_draft x env draft)) (\<lambda>_ _. True)" for r
  proof (cases r)
    case (Inl e)
    show ?thesis unfolding Inl sum.case by (intro secures_if report secures_simple(2))
  next
    case (Inr draft)
    show ?thesis unfolding Inr sum.case
      by (intro secures_cases(1) secures_if report secures_pre [OF secures_promote]) (use assms in \<open>auto simp: promote_reasons_def\<close>)
  qed
  then show ?thesis unfolding commit_draft_def Let_def by (intro secures_andThen [OF secures_get_claim [OF last]])
qed

lemma secures_commit_stopped:
  assumes "en_commit env > en_committed env"
  shows "secures environment_reasons (\<lambda>t. found env t \<and> quiet_list env t) (commit_stopped x env) (\<lambda>_ _. True)"
proof -
  let ?F = "\<lambda>t. found env t \<and> quiet_list env t"
  have last: "lasting ?F" by (intro lasting_intros)
  note commit = secures_pre [OF secures_commit_draft [OF assms]]
  have "secures environment_reasons (\<lambda>t. ?F t \<and> XGetPod (en_editorPod env) r \<in> set t) (case r of
             Inr editor \<Rightarrow>
               andThen (delete_editor x ''delete Environment editor Pod before commit'' editor) (\<lambda>_.
               setEnvironmentDraftCondition x env ''StoppingEditor'' ''Environment editor Pod is stopping before commit'')
           | Inl e \<Rightarrow> if err_is ENotFound e then commit_draft x env
                      else raise (EWrap ''get Environment editor Pod before commit'' e)) (\<lambda>_ _. True)" for r
  proof (cases r)
    case (Inl e)
    show ?thesis unfolding Inl sum.case by (intro secures_if commit secures_simple(2)) auto
  next
    case (Inr editor)
    show ?thesis unfolding Inr sum.case
      by (rule secures_andThen [OF secures_delete_editor [of _ env] secures_harmless_end [OF emits_draftCondition]]) simp
  qed
  then show ?thesis unfolding commit_stopped_def
    by (intro secures_if commit secures_andThen [OF secures_get_pod [OF last]]) auto
qed

lemma secures_commit: "secures environment_reasons (found env) (reconcileEnvironmentCommit x env) (\<lambda>handled t. \<not> handled \<longrightarrow> found env t)"
proof -
  let ?G = "\<lambda>handled t. \<not> handled \<longrightarrow> found env t"
  have report: "secures environment_reasons F (andThen (setEnvironmentDraftCondition x env r m) (\<lambda>_. ret True)) ?G" for F r m
    by (rule secures_andThen [OF secures_harmless_end [OF emits_draftCondition] secures_simple(1)]) simp
  have listed: "secures environment_reasons (\<lambda>t. found env t \<and> XListExecs (Inr ps) \<in> set t) (if list_ex (active_process env) ps
           then andThen (setEnvironmentDraftCondition x env ''ActiveProcesses''
                  ''Environment draft cannot commit while processes are active'') (\<lambda>_. ret True)
           else andThen (commit_stopped x env) (\<lambda>_. ret True)) ?G" if "en_commit env > en_committed env" for ps
    by (intro secures_if report secures_andThen [OF secures_pre [OF secures_commit_stopped [OF that]]] secures_simple(1))
       (auto simp: quiet_list_def)
  show ?thesis unfolding reconcileEnvironmentCommit_def
    by (rule secures_if, rule secures_simple(1), simp, rule secures_if, rule report,
        rule secures_andThen [OF secures_list [OF lasting_mem] listed]) simp
qed

section \<open>The current revision\<close>

lemma secures_create_current:
  assumes "en_currentClaim env = []"
  shows "secures environment_reasons (\<lambda>t. found env t \<and> XLookClaim (Inr (n, None, None)) \<in> set t) (create_current x env v n) (\<lambda>_ _. True)"
proof -
  let ?F = "\<lambda>t. found env t \<and> XLookClaim (Inr (n, None, None)) \<in> set t"
  have built: "o_name claim = n \<and> is_controlled_by claim (o_uid env)"
    if "SetControllerReference a k env (environmentVolumeClaim env n s) = Inr claim" for a k s claim
    using that by (auto simp: SetControllerReference_def environmentVolumeClaim_def blank_object_def kobj.defs pvc.defs is_controlled_by_def Let_def)
  have make: "secures environment_reasons (\<lambda>t. ?F t \<and> o_name claim = n \<and> is_controlled_by claim (o_uid env))
      (x_write x (XMakeClaim claim) (x_createClaim x claim)) (\<lambda>_ _. True)" for claim
    by (rule secures_call) (use assms in \<open>auto simp: environment_reasons_def\<close>)
  show ?thesis unfolding create_current_def
    by (rule secures_andThen [OF secures_wrapped [OF secures_simple(4) [where G'' = "\<lambda>claim t. ?F t \<and> o_name claim = n \<and> is_controlled_by claim (o_uid env)"]]
          secures_andThen [OF secures_wrapped [OF make] secures_harmless_end [OF emits_report_storage]]]) (use built in auto)
qed

lemma emits_observe_current: "emits harmless (observe_current x env v claim)"
  unfolding observe_current_def Let_def
  by (intro emits_intros emits_report_storage emits_environmentStatus) (simp add: harmless_def)

lemma secures_reconcile_current: "secures environment_reasons (found env) (reconcile_current x env) (\<lambda>_ _. True)"
proof -
  note report = secures_harmless_end [OF emits_report_storage]
  have "secures environment_reasons (\<lambda>t. found env t \<and> XLookClaim (Inr u) \<in> set t) (case u of (claimName, r, e) \<Rightarrow>
         case e of
           Some err \<Rightarrow>
             if IsConflict err
             then report_storage x env v (en_currentImage env) (en_currentClaim env) ''VolumeClaimConflict'' (err_text err)
             else raise (EWrap ''get WorkspaceEnvironment current PersistentVolumeClaim'' err)
         | None \<Rightarrow>
             (case r of
                None \<Rightarrow>
                  if en_currentClaim env \<noteq> []
                  then report_storage x env v (committed_image env) claimName ''VolumeClaimLost''
                         (''Environment current PVC '' @ claimName @ '' is missing; restore it or recreate the Environment'')
                  else create_current x env v claimName
              | Some claim \<Rightarrow> observe_current x env v claim)) (\<lambda>_ _. True)" for u v
    by (intro secures_cases(1,3) secures_if report secures_simple(2) secures_pre [OF secures_create_current]
        secures_harmless_end [OF emits_observe_current]) auto
  then show ?thesis unfolding reconcile_current_def Let_def resolve_environment_claim_def
    by (intro secures_andThen [OF secures_call [where G = "\<lambda>u t. found env t \<and> XLookClaim (Inr u) \<in> set t"]]) simp_all
qed

lemma secures_environment: "secures environment_reasons (\<lambda>_. True) (Reconcile_environment x ns n) (\<lambda>_ _. True)"
proof -
  have editor: "secures environment_reasons (found env) (reconcile_editor x env) (\<lambda>_ _. True)" for env
  proof -
    have "secures environment_reasons (\<lambda>t. handled = None \<longrightarrow> found env t)
        (case handled of Some result \<Rightarrow> ret result | None \<Rightarrow> reconcile_current x env) (\<lambda>_ _. True)" for handled
      by (cases handled) (auto intro: secures_simple(1) secures_reconcile_current)
    then show ?thesis unfolding reconcile_editor_def by (intro secures_andThen [OF secures_editorLifecycle])
  qed
  have go: "secures environment_reasons (found env) (andThen (reconcileEnvironmentCommit x env) (\<lambda>handled.
         if handled then ret None else reconcile_editor x env)) (\<lambda>_ _. True)" for env
  proof (rule secures_andThen [OF secures_commit])
    fix handled
    show "secures environment_reasons (\<lambda>t. \<not> handled \<longrightarrow> found env t) (if handled then ret None else reconcile_editor x env) (\<lambda>_ _. True)"
      by (cases handled) (auto intro: secures_simple(1) editor)
  qed
  have bad: "secures environment_reasons F (let (reason, message) = runtimePlatformCondition e
          in andThen (setEnvironmentStatus x env (en_revision env) (en_currentImage env) (en_currentClaim env)
               CFalse reason message None) (\<lambda>_. ret None)) (\<lambda>_ _. True)" for F e env
    unfolding Let_def by (intro secures_cases(3) secures_harmless_end emits_intros emits_environmentStatus)
  show ?thesis unfolding Reconcile_environment_def
    by (rule secures_getOr_call, simp, intro secures_cases(2) bad secures_pre [OF go]) (auto intro: secures_simple(1))
qed

section \<open>Guarantees\<close>


section \<open>A run\<close>

definition sample_environment :: workspace_environment where
  "sample_environment =
     kobj.extend ((blank_object ''ns'' ''env'')\<lparr>o_uid := ''n1'', o_generation := 2\<rparr>)
       (workspace_environment.fields ''linux'' Map.empty [] ''dev:2'' \<lparr>pe_class = [], pe_size = 5, pe_accessModes = [], pe_volumeMode = None\<rparr>
          1 None 2 1 ''dev:1'' ''env-1'' ''env-2'' [] 0 None Map.empty)"

definition sample_environment_claim :: "string \<Rightarrow> pvc" where
  "sample_environment_claim name =
     (environmentVolumeClaim sample_environment name [])\<lparr>pvc_phase := ''Bound'',
        o_controller := Some \<lparr>or_apiVersion = workspacesGroupVersion, or_kind = ''WorkspaceEnvironment'', or_name = ''env'', or_uid = ''n1''\<rparr>\<rparr>"

definition sample_environment_cluster :: "workspace_environment xclient" where
  "sample_environment_cluster = empty_cluster
     \<lparr>x_getEnvironment := (\<lambda>_ _ s. Inr s), x_updateEnvironmentStatus := (\<lambda>new _. (new, None)),
      x_getClaim := (\<lambda>_ name _. Inr (sample_environment_claim name))\<rparr>"

fun deleted_claim :: "ws_event \<Rightarrow> string option" where
  "deleted_claim (XDeleteClaim c _) = Some (o_name c)"
| "deleted_claim _ = None"

text \<open>A commit with a bound draft: the draft becomes the current volume and the previous one is deleted.\<close>

lemma sample_commit:
  "(case Reconcile_environment sample_environment_cluster ''ns'' ''env'' (sample_environment, []) of
      ((s, tr), r) \<Rightarrow> (en_currentClaim s, en_draftClaim s, en_revision s, en_committed s) = (''env-2'', [], 2, 1) \<and>
        List.map_filter deleted_claim tr = [''env-1''])"
  by code_simp

end
