(* ===== verification/WorkspaceRuntime.thy ===== *)
theory WorkspaceRuntime
  imports WorkspaceClient WorkspaceRetention
begin

text \<open>
  What the Workspace controller computes without a call (\<^verbatim>\<open>internal/controller/workspaces\<close>): the backoff of rejected creations
  (\<^verbatim>\<open>admission_rejection.go\<close>), the metadata of the runtime Pod (\<^verbatim>\<open>pod_metadata.go\<close>), its services
  (\<^verbatim>\<open>workspace_services.go\<close>), the Pods of hot mounts (\<^verbatim>\<open>hot_mount.go\<close>), the diagnosis of an ended runtime
  (\<^verbatim>\<open>runtime_plan.go\<close>), and the home volume, the runtime Pod and its topology (\<^verbatim>\<open>workspace_controller.go\<close>). JSON and SHA-256 are parameters.
\<close>

section \<open>Rejected creations\<close>

text \<open>\<open>ETerminating\<close> is the Forbidden answer of a namespace that terminates; the API client returns no joined errors.\<close>

fun admissionRejected :: "err \<Rightarrow> bool" where
  "admissionRejected (EForbidden _) = True"
| "admissionRejected (EInvalid _) = True"
| "admissionRejected (EWrap _ e) = admissionRejected e"
| "admissionRejected _ = False"

definition admissionMessageLimit :: nat where "admissionMessageLimit = 1024"
definition admissionRetryInitial :: duration where "admissionRetryInitial = 5 * 10 ^ 9"
definition admissionRetryMax :: duration where "admissionRetryMax = 60 * 10 ^ 9"

definition admissionRejectionMessage :: "string \<Rightarrow> err \<Rightarrow> string" where
  "admissionRejectionMessage subject e =
     bounded_text admissionMessageLimit (subject @ '' was rejected by the API server: '' @ err_text e)"

definition admissionRetryKey :: "workspace_object \<Rightarrow> string \<Rightarrow> string" where
  "admissionRetryKey workspace obj = o_uid workspace @ ''/'' @ int_digits (o_generation workspace) @ ''/'' @ obj"

text \<open>The entries of \<^verbatim>\<open>admissionRetries\<close>: the last delay of a key and when it ends.\<close>

type_synonym retries = "string \<rightharpoonup> duration \<times> time"

definition retry_pending :: "retries \<Rightarrow> time \<Rightarrow> string \<Rightarrow> duration option" where
  "retry_pending waits now key =
     (case waits key of
        None \<Rightarrow> None
      | Some (delay, retryAt) \<Rightarrow> let remaining = int retryAt - int now in if remaining \<le> 0 then None else Some remaining)"

definition drop_expired :: "time \<Rightarrow> retries \<Rightarrow> retries" where
  "drop_expired now waits =
     (\<lambda>key. case waits key of
        None \<Rightarrow> None
      | Some (delay, retryAt) \<Rightarrow> if int now - int retryAt > 2 * admissionRetryMax then None else Some (delay, retryAt))"

definition retry_record :: "retries \<Rightarrow> time \<Rightarrow> string \<Rightarrow> retries \<times> duration" where
  "retry_record waits now key =
     (let kept = drop_expired now waits;
          delay = (case kept key of
                     None \<Rightarrow> admissionRetryInitial
                   | Some (previous, _) \<Rightarrow> min (2 * previous) admissionRetryMax)
      in (kept(key \<mapsto> (delay, time_add now delay)), delay))"

definition retry_clear :: "retries \<Rightarrow> string \<Rightarrow> retries" where
  "retry_clear waits key = waits(key := None)"

section \<open>Metadata of the runtime Pod\<close>

definition ReservedPodMetadataDomain :: string where "ReservedPodMetadataDomain = ''rc.ayaka.io''"

definition IsReservedPodMetadataKey :: "string \<Rightarrow> bool" where
  "IsReservedPodMetadataKey key =
     (let domain = fst (cut (CHR ''/'') key)
      in CHR ''/'' \<in> set key \<and> (domain = ReservedPodMetadataDomain \<or> has_suffix (''.'' @ ReservedPodMetadataDomain) domain))"

definition workspacePodMetadataAnnotation :: string where
  "workspacePodMetadataAnnotation = ''workspaces.rc.ayaka.io/pod-metadata-keys''"

text \<open>A map that the code ranges over is a list of pairs; \<open>sorted_keys\<close> is \<^verbatim>\<open>slices.Sorted(maps.Keys(m))\<close>.\<close>

definition sorted_keys :: "(string \<times> 'a) list \<Rightarrow> string list" where
  "sorted_keys m = sort (remdups (map fst m))"

text \<open>\<open>invalid\<close> is the text of the syntax errors that apimachinery finds in labels and annotations, \<open>None\<close> for valid ones.\<close>

definition validateWorkspacePodMetadata ::
  "(pod_metadata \<Rightarrow> string option) \<Rightarrow> pod_metadata option \<Rightarrow> (string \<times> string) option" where
  "validateWorkspacePodMetadata invalid metadata =
     (case metadata of
        None \<Rightarrow> None
      | Some (labels, annotations) \<Rightarrow>
          let reserved = map (\<lambda>key. ''label '' @ key) (filter IsReservedPodMetadataKey (sorted_keys labels)) @
                         map (\<lambda>key. ''annotation '' @ key) (filter IsReservedPodMetadataKey (sorted_keys annotations))
          in if reserved \<noteq> []
             then Some (''ReservedPodMetadataKey'', ''spec.podMetadata uses keys reserved for rc ('' @ ReservedPodMetadataDomain @
                        '' prefix): '' @ join '', '' reserved)
             else map_option (\<lambda>e. (''InvalidPodMetadata'', e)) (invalid (labels, annotations)))"

definition remove_stale :: "(string \<times> 'v) list \<Rightarrow> string \<Rightarrow> (string \<rightharpoonup> 'v) \<times> bool \<Rightarrow> (string \<rightharpoonup> 'v) \<times> bool" where
  "remove_stale desired key = (\<lambda>(merged, changed).
     if IsReservedPodMetadataKey key \<or> map_of desired key \<noteq> None \<or> merged key = None then (merged, changed)
     else (merged(key := None), True))"

definition apply_key :: "(string \<times> 'v) list \<Rightarrow> string \<Rightarrow> (string \<rightharpoonup> 'v) \<times> bool \<Rightarrow> (string \<rightharpoonup> 'v) \<times> bool" where
  "apply_key desired key = (\<lambda>(merged, changed).
     if merged key = map_of desired key then (merged, changed) else (merged(key := map_of desired key), True))"

definition applied_keys :: "(string \<times> 'v) list \<Rightarrow> string list" where
  "applied_keys desired = filter (\<lambda>key. \<not> IsReservedPodMetadataKey key) (sorted_keys desired)"

definition mergePodMetadataKeys ::
  "(string \<rightharpoonup> 'v) \<Rightarrow> string list \<Rightarrow> (string \<times> 'v) list \<Rightarrow> (string \<rightharpoonup> 'v) \<times> string list \<times> bool" where
  "mergePodMetadataKeys current previous desired =
     (let (merged, changed) = fold (apply_key desired) (applied_keys desired) (fold (remove_stale desired) previous (current, False))
      in (merged, applied_keys desired, changed))"

text \<open>
  The record of the applied keys, a JSON object without its empty fields. \<open>decode_applied\<close> is \<^verbatim>\<open>json.Unmarshal\<close>: a name matches its field
  without regard to case, an element that is not a string stays empty, and a text that is not JSON decodes to nothing.
\<close>

definition encode_applied :: "string list \<Rightarrow> string list \<Rightarrow> annotation" where
  "encode_applied labels annotations =
     Doc (JObj ((if labels = [] then [] else [(''labels'', JArr (map JStr labels))]) @
                (if annotations = [] then [] else [(''annotations'', JArr (map JStr annotations))])))"

fun json_text :: "json \<Rightarrow> string" where
  "json_text (JStr s) = s"
| "json_text _ = []"

fun json_strings :: "json option \<Rightarrow> string list" where
  "json_strings (Some (JArr js)) = map json_text js"
| "json_strings _ = []"

fun decode_applied :: "annotation \<Rightarrow> string list \<times> string list" where
  "decode_applied (Doc (JObj members)) =
     (let field = (\<lambda>name. json_strings (map_of (rev (map (\<lambda>(n, v). (to_lower n, v)) members)) name))
      in (field ''labels'', field ''annotations''))"
| "decode_applied _ = ([], [])"

definition applyWorkspacePodMetadata :: "spec_pod \<Rightarrow> pod_metadata option \<Rightarrow> spec_pod \<times> bool" where
  "applyWorkspacePodMetadata pod metadata =
     (let (desiredLabels, desiredAnnotations) = (case metadata of None \<Rightarrow> ([], []) | Some m \<Rightarrow> m);
          (previousLabels, previousAnnotations) = decode_applied (annotation_value pod workspacePodMetadataAnnotation);
          (labels, appliedLabels, labelsChanged) = mergePodMetadataKeys (o_labels pod) previousLabels desiredLabels;
          (annotations, appliedAnnotations, merged) = mergePodMetadataKeys (o_annotations pod) previousAnnotations desiredAnnotations;
          keyRecord = (if appliedLabels = [] \<and> appliedAnnotations = [] then Raw [] else encode_applied appliedLabels appliedAnnotations);
          unrecorded = ((case annotations workspacePodMetadataAnnotation of None \<Rightarrow> Raw [] | Some v \<Rightarrow> v) \<noteq> keyRecord);
          annotations' = (if \<not> unrecorded then annotations
                          else annotations(workspacePodMetadataAnnotation := (if keyRecord = Raw [] then None else Some keyRecord)));
          annotationsChanged = (merged \<or> unrecorded)
      in (pod\<lparr>o_labels := (if labelsChanged then labels else o_labels pod),
              o_annotations := (if annotationsChanged then annotations' else o_annotations pod)\<rparr>,
          labelsChanged \<or> annotationsChanged))"

section \<open>Services\<close>

text \<open>The variables of one service in the order of their names; \<open>fst\<close> of a failure is the reason.\<close>

fun compile_variables ::
  "(string \<rightharpoonup> env_var) \<Rightarrow> string list \<Rightarrow> service \<Rightarrow> env_var list \<Rightarrow> (string \<times> string) + (service \<times> env_var list)" where
  "compile_variables variables [] compiled environment = Inr (compiled, environment)"
| "compile_variables variables (name # names) compiled environment =
     (case variables name of
        None \<Rightarrow> compile_variables variables names compiled environment
      | Some v \<Rightarrow>
          (case ev_from v of
             None \<Rightarrow> compile_variables variables names
                       (compiled\<lparr>sv_environment := sv_environment compiled @ [(name, ev_value v)]\<rparr>) environment
           | Some FieldSource \<Rightarrow>
               Inl (''InvalidServiceEnvironment'', ''Service '' @ sv_name compiled @ '' variable '' @ name @
                    '' must come from a value, a Secret key, or a ConfigMap key'')
           | Some source \<Rightarrow>
               let containerName = ServiceEnvironmentPrefix @ nat_digits (length environment)
               in compile_variables variables names
                    (compiled\<lparr>sv_environmentFrom := sv_environmentFrom compiled @ [(name, containerName)]\<rparr>)
                    (environment @ [\<lparr>ev_name = containerName, ev_value = [], ev_from = Some source\<rparr>])))"

definition named_variables :: "env_var list \<Rightarrow> (string \<times> env_var) list" where
  "named_variables vs = map (\<lambda>v. (ev_name v, v)) vs"

fun compile_services ::
  "workspace_object \<Rightarrow> ws_service list \<Rightarrow> service list \<Rightarrow> env_var list \<Rightarrow> (string \<times> string) + (service list \<times> env_var list)" where
  "compile_services workspace [] services environment = Inr (services, environment)"
| "compile_services workspace (s # ss) services environment =
     (let variables = named_variables (wo_env workspace @ ss_env s);
          compiled = \<lparr>sv_name = ss_name s, sv_command = ss_command s,
                      sv_workingDirectory = (if ss_workingDirectory s = [] then wo_defaultDirectory workspace else ss_workingDirectory s),
                      sv_environment = [], sv_environmentFrom = []\<rparr>
      in case compile_variables (map_of (rev variables)) (sorted_keys variables) compiled environment of
           Inl failure \<Rightarrow> Inl failure
         | Inr (service, environment') \<Rightarrow> compile_services workspace ss (services @ [service]) environment')"

definition compileWorkspaceServices :: "workspace_object \<Rightarrow> (string \<times> string) + (service list \<times> env_var list)" where
  "compileWorkspaceServices workspace = compile_services workspace (wo_services workspace) [] []"

definition resolveLifecycleAction :: "action \<Rightarrow> action result" where
  "resolveLifecycleAction a =
     (if (ac_command a \<noteq> []) = (ac_script a \<noteq> []) then Inl (EMsg ''exactly one of command or script must be set'')
      else if ac_command a \<noteq> [] \<and> hd (ac_command a) = [] then Inl (EMsg ''command executable must not be empty'')
      else Inr a)"

section \<open>Hot mounts\<close>

text \<open>A Worktree that a helper Pod mounts into the running Workspace.\<close>

record hot_mount =
  hm_name :: string
  hm_worktree :: string
  hm_path :: string
  hm_claim :: string
  hm_subPath :: string
  hm_readOnly :: bool

definition hotMountHelperLabel :: string where "hotMountHelperLabel = ''workspaces.rc.ayaka.io/hot-mount-helper''"
definition hotMountCleanupLabel :: string where "hotMountCleanupLabel = ''workspaces.rc.ayaka.io/hot-mount-cleanup''"
definition hotMountSignatureAnnotation :: string where "hotMountSignatureAnnotation = ''workspaces.rc.ayaka.io/hot-mount-signature''"
definition hotMountRuntimeUIDAnnotation :: string where "hotMountRuntimeUIDAnnotation = ''workspaces.rc.ayaka.io/hot-mount-runtime-uid''"

definition hotMountScript :: string where
  "hotMountScript = concat (map (\<lambda>l. l @ newline)
     [''set -eu'',
      ''visible_mounted=false'',
      ''root_mounted=false'',
      ''cleanup() {'',
      ''  status=$?'',
      ''  trap - EXIT'',
      ''  if [ '' @ quote_mark @ ''$visible_mounted'' @ quote_mark @ '' = true ]; then'',
      ''    umount '' @ quote_mark @ ''$HOT_VISIBLE'' @ quote_mark @ '' || status=1'',
      ''  fi'',
      ''  if [ '' @ quote_mark @ ''$root_mounted'' @ quote_mark @ '' = true ]; then'',
      ''    umount '' @ quote_mark @ ''$HOT_ROOT'' @ quote_mark @ '' || status=1'',
      ''  fi'',
      ''  rmdir '' @ quote_mark @ ''$HOT_VISIBLE'' @ quote_mark @ '' 2>/dev/null || :'',
      ''  if [ -n '' @ quote_mark @ ''$HOT_SUBPATH'' @ quote_mark @ '' ]; then'',
      ''    rmdir '' @ quote_mark @ ''$HOT_ROOT'' @ quote_mark @ '' 2>/dev/null || :'',
      ''  fi'',
      ''  exit '' @ quote_mark @ ''$status'' @ quote_mark,
      ''}'',
      ''trap cleanup EXIT'',
      ''trap '' @ [CHR 0x27] @ ''exit 0'' @ [CHR 0x27] @ '' TERM INT'',
      ''if mountpoint -q '' @ quote_mark @ ''$HOT_VISIBLE'' @ quote_mark @ ''; then'',
      ''  echo '' @ [CHR 0x27] @ ''Hot Worktree target is already mounted'' @ [CHR 0x27] @ '' >&2'',
      ''  exit 1'',
      ''fi'',
      ''mkdir -p -- '' @ quote_mark @ ''$HOT_VISIBLE'' @ quote_mark,
      ''if [ -n '' @ quote_mark @ ''$HOT_SUBPATH'' @ quote_mark @ '' ]; then'',
      ''  if mountpoint -q '' @ quote_mark @ ''$HOT_ROOT'' @ quote_mark @ ''; then'',
      ''    echo '' @ [CHR 0x27] @ ''Hot Worktree metadata target is already mounted'' @ [CHR 0x27] @ '' >&2'',
      ''    exit 1'',
      ''  fi'',
      ''  mkdir -p -- '' @ quote_mark @ ''$HOT_ROOT'' @ quote_mark,
      ''  mount --bind /source '' @ quote_mark @ ''$HOT_ROOT'' @ quote_mark,
      ''  root_mounted=true'',
      ''  source_path='' @ quote_mark @ ''/source/$HOT_SUBPATH'' @ quote_mark,
      ''else'',
      ''  source_path=/source'',
      ''fi'',
      ''mount --bind '' @ quote_mark @ ''$source_path'' @ quote_mark @ '' '' @ quote_mark @ ''$HOT_VISIBLE'' @ quote_mark,
      ''visible_mounted=true'',
      ''if [ '' @ quote_mark @ ''$HOT_READ_ONLY'' @ quote_mark @ '' = true ]; then'',
      ''  mount -o remount,bind,ro '' @ quote_mark @ ''$HOT_VISIBLE'' @ quote_mark,
      ''fi'',
      ''while :; do sleep 3600 & wait '' @ quote_mark @ ''$!'' @ quote_mark @ ''; done''])"

definition hotMountCleanupScript :: string where
  "hotMountCleanupScript = concat (map (\<lambda>l. l @ newline)
     [''set -eu'',
      ''if mountpoint -q '' @ quote_mark @ ''$HOT_VISIBLE'' @ quote_mark @ ''; then'',
      ''  umount '' @ quote_mark @ ''$HOT_VISIBLE'' @ quote_mark,
      ''fi'',
      ''if mountpoint -q '' @ quote_mark @ ''$HOT_ROOT'' @ quote_mark @ ''; then'',
      ''  umount '' @ quote_mark @ ''$HOT_ROOT'' @ quote_mark,
      ''fi'',
      ''rmdir '' @ quote_mark @ ''$HOT_VISIBLE'' @ quote_mark @ '' 2>/dev/null || :'',
      ''rmdir '' @ quote_mark @ ''$HOT_ROOT'' @ quote_mark @ '' 2>/dev/null || :''])"

definition hotMountHostRoot :: "workspace_object \<Rightarrow> string" where
  "hotMountHostRoot workspace = Join [''/var/lib/rc/hot-mounts'', o_namespace workspace, o_uid workspace]"

definition overlapping :: "ws_mount \<Rightarrow> ws_mount \<Rightarrow> bool" where
  "overlapping a b =
     (mt_path a = mt_path b \<or> has_prefix (mt_path b @ ''/'') (mt_path a) \<or> has_prefix (mt_path a @ ''/'') (mt_path b))"

text \<open>What is wrong with the mount at an index, compared with the mounts at the other indexes.\<close>

definition hot_path_problem :: "ws_mount list \<Rightarrow> nat \<Rightarrow> (string \<times> string) option" where
  "hot_path_problem mounts i =
     (let mount = mounts ! i
      in if mt_name mount = ''hot-worktrees'' \<or> mt_name mount = ''hot-worktree-roots''
         then Some (''ReservedMountName'', ''Mount name '' @ mt_name mount @ '' is reserved for hot Worktree mounts'')
         else if mt_worktree mount = None then None
         else if Clean (mt_path mount) \<noteq> mt_path mount
         then Some (''InvalidHotMountPath'', ''Hot Worktree mount '' @ mt_name mount @ '' has a non-canonical path'')
         else (case find (overlapping mount) (take i mounts @ drop (Suc i) mounts) of
                 None \<Rightarrow> None
               | Some other \<Rightarrow> Some (''OverlappingMountPaths'',
                   ''Mount paths '' @ mt_path mount @ '' and '' @ mt_path other @ '' overlap'')))"

fun first_problem :: "('a \<Rightarrow> 'b option) \<Rightarrow> 'a list \<Rightarrow> 'b option" where
  "first_problem f [] = None"
| "first_problem f (x # xs) = (case f x of None \<Rightarrow> first_problem f xs | Some y \<Rightarrow> Some y)"

definition validateHotMountPaths :: "ws_mount list \<Rightarrow> (string \<times> string) option" where
  "validateHotMountPaths mounts = first_problem (hot_path_problem mounts) [0..<length mounts]"

text \<open>\<open>sha\<close> is the hexadecimal text of a SHA-256 sum.\<close>

definition hotMountHelperName :: "(string \<Rightarrow> string) \<Rightarrow> workspace_object \<Rightarrow> hot_mount \<Rightarrow> string" where
  "hotMountHelperName sha workspace mount =
     (let suffix = ''-hot-'' @ take 8 (sha (o_uid workspace @ ''/'' @ hm_name mount))
      in trim_right (\<lambda>c. c = CHR ''-'') (take (57 - length suffix) (o_name workspace)) @ suffix)"

definition bool_text :: "bool \<Rightarrow> string" where
  "bool_text b = (if b then ''true'' else ''false'')"

definition hotMountSignature :: "(string \<Rightarrow> string) \<Rightarrow> hot_mount \<Rightarrow> string" where
  "hotMountSignature sha mount =
     sha (join newline [hm_name mount, hm_worktree mount, hm_path mount, hm_claim mount, hm_subPath mount, bool_text (hm_readOnly mount)])"

definition zero_spec :: pod_spec where
  "zero_spec =
     \<lparr>sp_os = None, sp_serviceAccount = [], sp_automount = None, sp_restart = RestartAlways, sp_selector = Map.empty, sp_tolerations = [],
      sp_affinity = None, sp_runtimeClass = None, sp_security = None, sp_init = [], sp_containers = [], sp_volumes = [],
      sp_priorityClass = [], sp_serviceLinks = None, sp_nodeName = [], sp_grace = None\<rparr>"

definition zero_security :: security_context where
  "zero_security =
     \<lparr>sc_escalation = None, sc_readOnlyRoot = None, sc_drop = [], sc_nonRoot = None, sc_user = None, sc_group = None,
      sc_privileged = None, sc_seccompUnconfined = False\<rparr>"

definition plain_var :: "string \<Rightarrow> string \<Rightarrow> env_var" where
  "plain_var name value = \<lparr>ev_name = name, ev_value = value, ev_from = None\<rparr>"

definition publish_mounts :: "volume_mount list" where
  "publish_mounts =
     [zero_mount\<lparr>vm_name := ''visible'', vm_path := ''/publish-visible'', vm_propagation := Some Bidirectional\<rparr>,
      zero_mount\<lparr>vm_name := ''roots'', vm_path := ''/publish-roots'', vm_propagation := Some Bidirectional\<rparr>]"

definition publish_volumes :: "string \<Rightarrow> volume list" where
  "publish_volumes root =
     [\<lparr>vl_name = ''visible'', vl_source = HostPath (Join [root, ''visible'']) HostPathDirectoryOrCreate\<rparr>,
      \<lparr>vl_name = ''roots'', vl_source = HostPath (Join [root, ''roots'']) HostPathDirectoryOrCreate\<rparr>]"

definition hotMountHelperPod ::
  "(string \<Rightarrow> string) \<Rightarrow> workspace_object \<Rightarrow> spec_pod \<Rightarrow> hot_mount \<Rightarrow> string \<Rightarrow> spec_pod result" where
  "hotMountHelperPod sha workspace runtime mount img =
     (if sp_nodeName (po_spec runtime) = [] then Inl (EMsg ''workspace runtime node is unknown'')
      else if hm_path mount = ''.'' \<or> is_abs (hm_path mount) \<or> has_prefix ''../'' (hm_path mount)
      then Inl (EMsg (''invalid hot Worktree mount path '' @ go_quote (hm_path mount)))
      else if hm_subPath mount \<noteq> [] \<and>
              (is_abs (hm_subPath mount) \<or> Clean (hm_subPath mount) \<noteq> hm_subPath mount \<or> has_prefix ''../'' (hm_subPath mount))
      then Inl (EMsg (''invalid hot Worktree source path '' @ go_quote (hm_subPath mount)))
      else let visible = Join [''/publish-visible'', hm_path mount]
           in Inr (new_pod
             ((blank_object (o_namespace workspace) (hotMountHelperName sha workspace mount))\<lparr>
                o_labels := [workspaceManagedByLabel \<mapsto> o_name workspace, hotMountHelperLabel \<mapsto> ''true''],
                o_annotations := [hotMountSignatureAnnotation \<mapsto> Raw (hotMountSignature sha mount),
                                  hotMountRuntimeUIDAnnotation \<mapsto> Raw (o_uid runtime)]\<rparr>)
             (zero_spec\<lparr>sp_nodeName := sp_nodeName (po_spec runtime), sp_restart := RestartNever, sp_automount := Some False, sp_grace := Some 60,
                sp_containers := [zero_container\<lparr>ct_name := ''mounter'', ct_image := img, ct_command := [''/bin/sh'', ''-c'', hotMountScript],
                  ct_env := [plain_var ''HOT_VISIBLE'' visible, plain_var ''HOT_ROOT'' (Join [''/publish-roots'', hm_worktree mount]),
                             plain_var ''HOT_SUBPATH'' (hm_subPath mount), plain_var ''HOT_READ_ONLY'' (bool_text (hm_readOnly mount))],
                  ct_security := Some (zero_security\<lparr>sc_privileged := Some True, sc_escalation := Some True, sc_user := Some 0,
                                         sc_nonRoot := Some False, sc_seccompUnconfined := True\<rparr>),
                  ct_readiness := Some \<lparr>pb_command = [''/usr/bin/mountpoint'', ''-q'', visible], pb_period = 2, pb_timeout = 2\<rparr>,
                  ct_mounts := zero_mount\<lparr>vm_name := ''worktree'', vm_path := ''/source'', vm_readOnly := hm_readOnly mount\<rparr> # publish_mounts\<rparr>],
                sp_volumes := \<lparr>vl_name = ''worktree'', vl_source = ClaimVolume (hm_claim mount) (hm_readOnly mount)\<rparr>
                              # publish_volumes (hotMountHostRoot workspace)\<rparr>)))"

definition env_text :: "env_var list \<Rightarrow> string \<Rightarrow> string" where
  "env_text vs name = (case map_of (rev (named_variables vs)) name of None \<Rightarrow> [] | Some v \<Rightarrow> ev_value v)"

definition hotMountCleanupPod :: "workspace_object \<Rightarrow> spec_pod \<Rightarrow> string \<Rightarrow> spec_pod result" where
  "hotMountCleanupPod workspace helper img =
     (case sp_containers (po_spec helper) of
        [] \<Rightarrow> Inl (EMsg (''hot Worktree mount Pod '' @ o_name helper @ '' has no node or container''))
      | c # _ \<Rightarrow>
          if sp_nodeName (po_spec helper) = [] then Inl (EMsg (''hot Worktree mount Pod '' @ o_name helper @ '' has no node or container''))
          else let visible = env_text (ct_env c) ''HOT_VISIBLE''; metadata = env_text (ct_env c) ''HOT_ROOT''
               in if \<not> has_prefix ''/publish-visible/'' visible \<or> \<not> has_prefix ''/publish-roots/'' metadata
                  then Inl (EMsg (''hot Worktree mount Pod '' @ o_name helper @ '' has invalid cleanup paths''))
                  else Inr (new_pod
                    ((blank_object (o_namespace workspace) (o_name helper @ ''-clean''))\<lparr>
                       o_labels := [workspaceManagedByLabel \<mapsto> o_name workspace, hotMountCleanupLabel \<mapsto> ''true'']\<rparr>)
                    (zero_spec\<lparr>sp_nodeName := sp_nodeName (po_spec helper), sp_restart := RestartNever, sp_automount := Some False,
                       sp_containers := [zero_container\<lparr>ct_name := ''cleaner'', ct_image := img,
                         ct_command := [''/bin/sh'', ''-c'', hotMountCleanupScript],
                         ct_env := [plain_var ''HOT_VISIBLE'' visible, plain_var ''HOT_ROOT'' metadata],
                         ct_security := Some (zero_security\<lparr>sc_privileged := Some True, sc_user := Some 0, sc_seccompUnconfined := True\<rparr>),
                         ct_mounts := publish_mounts\<rparr>],
                       sp_volumes := publish_volumes (hotMountHostRoot workspace)\<rparr>)))"

section \<open>The runtime Pod\<close>

definition workspaceTopologyAnnotation :: string where "workspaceTopologyAnnotation = ''workspaces.rc.ayaka.io/topology''"
definition workspaceImageAnnotation :: string where "workspaceImageAnnotation = ''workspaces.rc.ayaka.io/runtime-image''"
definition workspaceRevisionAnnotation :: string where "workspaceRevisionAnnotation = ''workspaces.rc.ayaka.io/source-revision''"
definition workspaceWriteWorktreesAnnotation :: string where "workspaceWriteWorktreesAnnotation = ''workspaces.rc.ayaka.io/write-worktrees''"
definition workspaceRuntimePolicyAnnotation :: string where "workspaceRuntimePolicyAnnotation = ''workspaces.rc.ayaka.io/runtime-policy''"
definition workspaceRuntimePolicyVersion :: string where "workspaceRuntimePolicyVersion = ''platform-v3''"

text \<open>
  What a reconcile resolved of a Workspace. \<open>rw_writeClaims\<close> names the Worktrees that the runtime writes; \<open>rw_storageReady\<close> is the status,
  reason and message of StorageReady once the home was looked at.
\<close>

record resolved_workspace =
  rw_runtime :: platform
  rw_image :: string
  rw_revision :: int
  rw_storage :: persistent_storage
  rw_source :: string
  rw_homeClaim :: string
  rw_mounts :: "volume_mount list"
  rw_volumes :: "volume list"
  rw_hotMounts :: "hot_mount list"
  rw_staticMounts :: "ws_mount list"
  rw_outdated :: bool
  rw_serviceAccount :: string
  rw_automount :: bool
  rw_writeClaims :: "string list"
  rw_worktrees :: "worktree list"
  rw_initializers :: "initializer list"
  rw_beforeStop :: "action list"
  rw_services :: "service list"
  rw_serviceEnvironment :: "env_var list"
  rw_homeHostPath :: string
  rw_lxcfsDir :: string
  rw_rcKubeImage :: string
  rw_storageReady :: "(cond_status \<times> string \<times> string) option"

definition workspaceHomeVolumeClaim :: "workspace_object \<Rightarrow> resolved_workspace \<Rightarrow> pvc" where
  "workspaceHomeVolumeClaim workspace resolved =
     (let st = rw_storage resolved
      in kobj.extend
           ((blank_object (o_namespace workspace) (rw_homeClaim resolved))\<lparr>
              o_labels := [workspaceManagedByLabel \<mapsto> o_name workspace],
              o_annotations := [workspaceImageAnnotation \<mapsto> Raw (rw_image resolved),
                                workspaceRevisionAnnotation \<mapsto> Doc (JNum (rw_revision resolved))]\<rparr>)
           (pvc.fields [] (pe_size st) 0 (storageClassNamePointer (pe_class st)) (Some (VolumeModeOrDefault st)) (AccessModesOrDefault st)
              (if rw_source resolved \<noteq> []
               then Some \<lparr>ds_kind = ''PersistentVolumeClaim'', ds_name = rw_source resolved, ds_apiGroup = None, ds_namespace = None\<rparr>
               else None) None))"

text \<open>What a running Pod cannot change: the struct that \<^verbatim>\<open>workspaceTopologyHash\<close> encodes. \<open>digest\<close> is SHA-256 of its JSON.\<close>

record topology =
  tp_policy :: string
  tp_os :: string
  tp_image :: string
  tp_mounts :: "ws_mount list"
  tp_configMaps :: "string list"
  tp_secrets :: "string list"
  tp_agentCredentials :: "string list"
  tp_credentials :: "string list"
  tp_serviceAccount :: string
  tp_automount :: bool
  tp_resources :: api_data
  tp_placement :: placement
  tp_lifecycle :: "(action list \<times> action list) option"
  tp_homeHostPath :: string
  tp_priorityClass :: string
  tp_services :: "service list"
  tp_serviceEnvironment :: "env_var list"
  tp_lxcfsDir :: string
  tp_rcKube :: string

definition workspace_topology :: "workspace_object \<Rightarrow> resolved_workspace \<Rightarrow> topology" where
  "workspace_topology workspace resolved =
     (let os = pf_os (rw_runtime resolved)
      in \<lparr>tp_policy = workspaceRuntimePolicyVersion, tp_os = os, tp_image = rw_image resolved,
          tp_mounts = (if os = Linux then filter (\<lambda>m. mt_worktree m = None) (ws_mounts workspace) @ rw_staticMounts resolved
                       else ws_mounts workspace),
          tp_configMaps = wo_configMaps workspace, tp_secrets = wo_secrets workspace, tp_agentCredentials = wo_agentCredentials workspace,
          tp_credentials = wo_credentials workspace, tp_serviceAccount = rw_serviceAccount resolved, tp_automount = rw_automount resolved,
          tp_resources = wo_resources workspace, tp_placement = wo_placement workspace, tp_lifecycle = wo_lifecycle workspace,
          tp_homeHostPath = rw_homeHostPath resolved, tp_priorityClass = wo_priorityClass workspace, tp_services = rw_services resolved,
          tp_serviceEnvironment = rw_serviceEnvironment resolved, tp_lxcfsDir = rw_lxcfsDir resolved,
          tp_rcKube = (if os = Linux then RCKubeDirectory else [])\<rparr>)"

definition workspaceTopologyHash :: "(topology \<Rightarrow> string result) \<Rightarrow> workspace_object \<Rightarrow> resolved_workspace \<Rightarrow> string result" where
  "workspaceTopologyHash digest workspace resolved =
     map_sum (EWrap ''marshal Workspace topology'') id (digest (workspace_topology workspace resolved))"

definition runtime_intent :: "workspace_object \<Rightarrow> resolved_workspace \<Rightarrow> platform \<Rightarrow> string \<Rightarrow> workspace_intent" where
  "runtime_intent workspace resolved platform topologyHash =
     \<lparr>wi_metadata = (blank_object (o_namespace workspace) (o_name workspace))\<lparr>
        o_labels := [workspaceManagedByLabel \<mapsto> o_name workspace],
        o_annotations := [workspaceTopologyAnnotation \<mapsto> Raw topologyHash,
                          workspaceWriteWorktreesAnnotation \<mapsto> Doc (JArr (map JStr (rw_writeClaims resolved))),
                          workspaceRuntimePolicyAnnotation \<mapsto> Raw workspaceRuntimePolicyVersion]\<rparr>,
      wi_image = rw_image resolved, wi_homeClaim = rw_homeClaim resolved, wi_homeHostPath = rw_homeHostPath resolved,
      wi_transcriptScope = ''workspace/'' @ o_uid workspace,
      wi_hotMountRoot = (if pf_os platform = Linux then hotMountHostRoot workspace else []),
      wi_serviceAccount = rw_serviceAccount resolved, wi_automountToken = rw_automount resolved, wi_resources = wo_resources workspace,
      wi_volumes = rw_volumes resolved, wi_mounts = rw_mounts resolved, wi_initializers = rw_initializers resolved,
      wi_beforeStop = rw_beforeStop resolved, wi_priorityClass = wo_priorityClass workspace, wi_services = rw_services resolved,
      wi_serviceEnvironment = rw_serviceEnvironment resolved, wi_lxcfsDir = rw_lxcfsDir resolved, wi_rcKubeImage = rw_rcKubeImage resolved\<rparr>"

definition workspaceRuntimePod ::
  "codec \<Rightarrow> (topology \<Rightarrow> string result) \<Rightarrow> workspace_object \<Rightarrow> resolved_workspace \<Rightarrow> spec_pod result" where
  "workspaceRuntimePod cd digest workspace resolved =
     (case (if pf_os (rw_runtime resolved) = [] then platform_Resolve (wo_os workspace) (wo_placement workspace) else Inr (rw_runtime resolved)) of
        Inl e \<Rightarrow> Inl e
      | Inr rt \<Rightarrow>
          (case workspaceTopologyHash digest workspace resolved of
             Inl e \<Rightarrow> Inl e
           | Inr topologyHash \<Rightarrow>
               map_sum id (\<lambda>pod. fst (applyWorkspacePodMetadata pod (wo_podMetadata workspace)))
                 (WorkspacePod cd rt (runtime_intent workspace resolved rt topologyHash))))"

section \<open>What became of a runtime Pod\<close>

text \<open>The exit code of an initializer that failed: of its end, or of its last end while it waits.\<close>

definition init_exit :: "container_state \<Rightarrow> int option" where
  "init_exit c =
     map_option tm_exitCode
       (case cn_terminated c of None \<Rightarrow> (if cn_waiting c = None then None else cn_lastTerminated c) | Some t \<Rightarrow> Some t)"

definition init_problem :: "container_state \<Rightarrow> (string \<times> string) option" where
  "init_problem c =
     (case init_exit c of
        None \<Rightarrow> None
      | Some code \<Rightarrow>
          if code = 0 then None
          else Some (''InitializationFailed'', ''Workspace initializer '' @ cn_name c @ '' exited with code '' @ int_digits code))"

definition workspaceInitializationFailure :: "spec_pod \<Rightarrow> (string \<times> string) option" where
  "workspaceInitializationFailure pod = first_problem init_problem (po_initStatuses pod)"

record terminal_plan =
  tn_reason :: string
  tn_message :: string
  tn_replace :: bool

definition planTerminalRuntime :: "(time \<Rightarrow> string) \<Rightarrow> spec_pod option \<Rightarrow> bool \<Rightarrow> terminal_plan option" where
  "planTerminalRuntime fmt pod boundActiveExec =
     (case pod of
        None \<Rightarrow> None
      | Some p \<Rightarrow>
          if \<not> runtimePodTerminal p then None
          else Some \<lparr>tn_reason = (if po_phase p = PodSucceeded then ''RuntimeCompleted'' else ''RuntimeFailed''),
                     tn_message = runtimePodDiagnosis fmt p @
                       (if boundActiveExec then ''; waiting for executions bound to this Pod UID to become Lost'' else []),
                     tn_replace = (\<not> boundActiveExec)\<rparr>)"

definition namedList :: "string list \<Rightarrow> string" where
  "namedList names =
     (let sorted = sort names
      in if length sorted \<le> 5 then join '', '' sorted
         else join '', '' (take 5 sorted) @ '' and '' @ nat_digits (length sorted - 5) @ '' more'')"

section \<open>The status of a Workspace\<close>

definition ConditionOutdated :: string where "ConditionOutdated = ''Outdated''"
definition ConditionDegraded :: string where "ConditionDegraded = ''Degraded''"

definition ready_status :: "workspace_object \<Rightarrow> cond_status option" where
  "ready_status current = map_option c_status (ws_conditions current ConditionReady)"

text \<open>The clocks of activity and of confirmed suspension.\<close>

definition status_clocks :: "time \<Rightarrow> cond_status \<Rightarrow> string \<Rightarrow> workspace_object \<Rightarrow> workspace_object" where
  "status_clocks now readyStatus reason current =
     (let started = (if readyStatus = CTrue \<and> ready_status current \<noteq> Some CTrue then current\<lparr>ws_lastActivityTime := Some now\<rparr> else current)
      in if reason = reasonSuspended
         then (if ws_suspendedAt started = None \<or> map_option c_reason (ws_conditions current ConditionReady) \<noteq> Some reasonSuspended \<or>
                  wo_observed started \<noteq> o_generation started
               then started\<lparr>ws_suspendedAt := Some now\<rparr> else started)
         else if ws_desired started \<noteq> Suspended
         then (if ws_suspendedAt started = None then started
               else started\<lparr>ws_lastActivityTime := Some now, ws_suspendedAt := None\<rparr>)
         else started)"

definition set_condition :: "time \<Rightarrow> string \<Rightarrow> cond_status \<Rightarrow> string \<Rightarrow> string \<Rightarrow> workspace_object \<Rightarrow> workspace_object" where
  "set_condition now typ status reason message current =
     current\<lparr>ws_conditions := SetStatusCondition now typ (new_condition status (o_generation current) reason message) (ws_conditions current)\<rparr>"

definition status_runtime :: "time \<Rightarrow> cond_status \<Rightarrow> string \<Rightarrow> resolved_workspace \<Rightarrow> workspace_object \<Rightarrow> workspace_object" where
  "status_runtime now readyStatus reason resolved current =
     (let recorded' = current\<lparr>wo_runtimeImage := (if wo_runtimeImage current = [] then rw_image resolved else wo_runtimeImage current),
                             wo_sourceRevision := (if wo_sourceRevision current = 0 then rw_revision resolved else wo_sourceRevision current),
                             ws_runtimePodName := (if readyStatus = CTrue \<or> reason = ''Starting'' then o_name current
                                                   else if reason = reasonSuspended then [] else ws_runtimePodName current)\<rparr>
      in if rw_outdated resolved
         then set_condition now ConditionOutdated CTrue ''EnvironmentAdvanced'' ''Workspace uses an older Environment revision or image'' recorded'
         else set_condition now ConditionOutdated CFalse ''Current'' ''Workspace matches its source Environment revision'' recorded')"

text \<open>The status that \<^verbatim>\<open>setWorkspaceStatus\<close> writes over the one it read; the clock is read once.\<close>

definition workspace_status ::
  "time \<Rightarrow> resolved_workspace option \<Rightarrow> cond_status \<Rightarrow> string \<Rightarrow> string \<Rightarrow> workspace_object \<Rightarrow> workspace_object" where
  "workspace_status now resolved readyStatus reason message current =
     (let s1 = (status_clocks now readyStatus reason current)\<lparr>wo_observed := o_generation current\<rparr>;
          s2 = (if wo_os s1 = Darwin then s1\<lparr>wo_homeClaim := []\<rparr>
                else case resolved of
                       None \<Rightarrow> s1
                     | Some r \<Rightarrow> if rw_homeClaim r \<noteq> [] then s1\<lparr>wo_homeClaim := rw_homeClaim r\<rparr> else s1);
          s3 = (case resolved of None \<Rightarrow> s2 | Some r \<Rightarrow> status_runtime now readyStatus reason r s2);
          s4 = (if readyStatus = CTrue \<or> reason = reasonSuspended then set_condition now ConditionDegraded CFalse reason message s3 else s3);
          s5 = (case resolved of
                  None \<Rightarrow> s4
                | Some r \<Rightarrow> (case rw_storageReady r of
                               None \<Rightarrow> s4
                             | Some (status, storageReason, storageMessage) \<Rightarrow>
                                 set_condition now ConditionEnvStorageReady status storageReason storageMessage s4))
      in set_condition now ConditionReady readyStatus reason message s5)"

end
