(* ===== verification/WorkspaceRuntimeSafety.thy ===== *)
theory WorkspaceRuntimeSafety
  imports WorkspaceRuntime
begin

text \<open>
  What holds of the computations of the Workspace controller: how long a rejected creation waits, what the metadata of a Workspace can change on its runtime Pod,
  and what a new runtime Pod records.
\<close>

section \<open>Backoff\<close>

text \<open>The entries that rejections and successes can leave behind.\<close>

inductive retry_reachable :: "retries \<Rightarrow> bool" where
  started: "retry_reachable Map.empty"
| rejected: "retry_reachable waits \<Longrightarrow> retry_reachable (fst (retry_record waits now key))"
| created: "retry_reachable waits \<Longrightarrow> retry_reachable (retry_clear waits key)"

definition delays_bounded :: "retries \<Rightarrow> bool" where
  "delays_bounded waits \<longleftrightarrow>
     (\<forall>key delay retryAt. waits key = Some (delay, retryAt) \<longrightarrow> admissionRetryInitial \<le> delay \<and> delay \<le> admissionRetryMax)"

lemmas retry_constants = admissionRetryInitial_def admissionRetryMax_def

lemma drop_expired_Some:
  "drop_expired now waits key = Some (delay, retryAt) \<longleftrightarrow>
     waits key = Some (delay, retryAt) \<and> int now - int retryAt \<le> 2 * admissionRetryMax"
  by (auto simp: drop_expired_def split: option.splits prod.splits if_splits)

lemma retry_record_delay:
  assumes "delays_bounded waits"
  shows "admissionRetryInitial \<le> snd (retry_record waits now key) \<and> snd (retry_record waits now key) \<le> admissionRetryMax"
proof (cases "drop_expired now waits key")
  case None
  then show ?thesis by (simp add: retry_record_def Let_def retry_constants)
next
  case (Some entry)
  then obtain delay retryAt where e: "drop_expired now waits key = Some (delay, retryAt)" by (cases entry) simp
  then have "admissionRetryInitial \<le> delay" using assms by (auto simp: drop_expired_Some delays_bounded_def)
  with e show ?thesis by (simp add: retry_record_def Let_def retry_constants)
qed

lemma fst_retry_record:
  "fst (retry_record waits now key) =
     (drop_expired now waits)(key \<mapsto> (snd (retry_record waits now key), time_add now (snd (retry_record waits now key))))"
  by (simp add: retry_record_def Let_def)

lemma delays_bounded_record: "delays_bounded waits \<Longrightarrow> delays_bounded (fst (retry_record waits now key))"
  unfolding fst_retry_record using retry_record_delay [of waits now key]
  by (auto simp: delays_bounded_def drop_expired_Some)

lemma retry_reachable_bounded: "retry_reachable waits \<Longrightarrow> delays_bounded waits"
proof (induction rule: retry_reachable.induct)
  case started
  show ?case by (simp add: delays_bounded_def)
next
  case (rejected waits now key)
  then show ?case by (simp add: delays_bounded_record)
next
  case (created waits key)
  then show ?case by (auto simp: delays_bounded_def retry_clear_def split: if_splits)
qed

lemma pending_recorded:
  "retry_pending (fst (retry_record waits now key)) t key =
     (if int t < int now + snd (retry_record waits now key) then Some (int now + snd (retry_record waits now key) - int t) else None)"
  if "delays_bounded waits"
  using retry_record_delay [OF that, of now key]
  by (auto simp: fst_retry_record retry_pending_def time_add_def Let_def retry_constants)

lemma pending_other:
  assumes "other \<noteq> key" "now \<le> t"
  shows "retry_pending (fst (retry_record waits now key)) t other = retry_pending waits t other"
proof (cases "waits other")
  case None
  with assms show ?thesis by (simp add: fst_retry_record retry_pending_def drop_expired_def)
next
  case (Some entry)
  obtain delay retryAt where e: "entry = (delay, retryAt)" by (cases entry)
  show ?thesis
  proof (cases "int now - int retryAt > 2 * admissionRetryMax")
    case True
    then have "int retryAt - int t \<le> 0" using assms(2) by (simp add: retry_constants)
    with True Some e assms(1) show ?thesis by (simp add: fst_retry_record retry_pending_def drop_expired_def Let_def)
  next
    case False
    with Some e assms(1) show ?thesis by (simp add: fst_retry_record retry_pending_def drop_expired_def Let_def)
  qed
qed

text \<open>C36: The backoff of rejected creations is bounded. After any history of rejections and successes, a rejection is answered with a delay
  between five seconds and one minute, twice the last one of a series that did not expire; until the delay is over the creation is not repeated,
  afterwards it is; and the other objects keep waiting exactly as long as they did.\<close>

theorem admission_backoff_bounded:
  assumes "retry_reachable waits" and "retry_record waits now key = (waits', delay)"
  shows "5 * 10 ^ 9 \<le> delay \<and> delay \<le> 60 * 10 ^ 9 \<and>
    (\<forall>previous retryAt. waits key = Some (previous, retryAt) \<and> int now - int retryAt \<le> 120 * 10 ^ 9 \<longrightarrow> delay = min (2 * previous) (60 * 10 ^ 9)) \<and>
    (\<forall>t. retry_pending waits' t key = (if int t < int now + delay then Some (int now + delay - int t) else None)) \<and>
    (\<forall>t other. other \<noteq> key \<and> now \<le> t \<longrightarrow> retry_pending waits' t other = retry_pending waits t other)"
proof -
  note bounded = retry_reachable_bounded [OF assms(1)]
  have r: "waits' = fst (retry_record waits now key)" "delay = snd (retry_record waits now key)" using assms(2) by simp_all
  have "delay = min (2 * previous) (60 * 10 ^ 9)"
    if "waits key = Some (previous, retryAt)" "int now - int retryAt \<le> 120 * 10 ^ 9" for previous retryAt
  proof -
    from that have "drop_expired now waits key = Some (previous, retryAt)" by (simp add: drop_expired_Some retry_constants)
    then show ?thesis by (simp add: r retry_record_def Let_def retry_constants)
  qed
  with retry_record_delay [OF bounded, of now key] pending_recorded [OF bounded] pending_other show ?thesis
    unfolding r by (simp add: retry_constants)
qed

lemma admission_backoff_bounded_witness:
  "\<exists>waits'. retry_record (fst (retry_record Map.empty 0 ''pod'')) (6 * 10 ^ 9) ''pod'' = (waits', 10 * 10 ^ 9) \<and>
     retry_pending waits' (7 * 10 ^ 9) ''pod'' = Some (9 * 10 ^ 9) \<and> retry_pending waits' (16 * 10 ^ 9) ''pod'' = None"
proof -
  let ?first = "fst (retry_record Map.empty 0 ''pod'')"
  have reach: "retry_reachable ?first" by (intro retry_reachable.intros)
  obtain waits' delay where run: "retry_record ?first (6 * 10 ^ 9) ''pod'' = (waits', delay)" by (cases "retry_record ?first (6 * 10 ^ 9) ''pod''")
  have entry: "?first ''pod'' = Some (5 * 10 ^ 9, 5 * 10 ^ 9)"
    by (simp add: retry_record_def drop_expired_def time_add_def Let_def retry_constants)
  from admission_backoff_bounded [OF reach run] entry have "delay = 10 * 10 ^ 9"
    and "\<forall>t. retry_pending waits' t ''pod'' = (if int t < int (6 * 10 ^ 9) + delay then Some (int (6 * 10 ^ 9) + delay - int t) else None)"
    by auto
  with run show ?thesis by auto
qed

section \<open>Metadata\<close>

text \<open>The value of a key after a merge: what is desired, nothing for a key that was applied before, the present value otherwise.\<close>

definition merged_value :: "(string \<rightharpoonup> 'v) \<Rightarrow> string list \<Rightarrow> (string \<times> 'v) list \<Rightarrow> string \<Rightarrow> 'v option" where
  "merged_value current previous desired key =
     (if IsReservedPodMetadataKey key then current key
      else case map_of desired key of
             Some v \<Rightarrow> Some v
           | None \<Rightarrow> if key \<in> set previous then None else current key)"

lemma set_applied_keys: "set (applied_keys desired) = {key \<in> dom (map_of desired). \<not> IsReservedPodMetadataKey key}"
  by (auto simp: applied_keys_def sorted_keys_def dom_map_of_conv_image_fst)

lemma fold_remove_stale:
  "fold (remove_stale desired) previous (m, changed) =
     ((\<lambda>key. if key \<in> set previous \<and> \<not> IsReservedPodMetadataKey key \<and> map_of desired key = None then None else m key),
      changed \<or> (\<exists>key \<in> set previous. \<not> IsReservedPodMetadataKey key \<and> map_of desired key = None \<and> m key \<noteq> None))"
  by (induction previous arbitrary: m changed) (auto simp: remove_stale_def fun_eq_iff)

lemma fold_apply_key:
  "distinct keys \<Longrightarrow> fold (apply_key desired) keys (m, changed) =
     ((\<lambda>key. if key \<in> set keys then map_of desired key else m key), changed \<or> (\<exists>key \<in> set keys. m key \<noteq> map_of desired key))"
  by (induction keys arbitrary: m changed) (auto simp: apply_key_def fun_eq_iff)

lemma merge_keys:
  "mergePodMetadataKeys current previous desired =
     (merged_value current previous desired, applied_keys desired, merged_value current previous desired \<noteq> current)"
proof -
  have "distinct (applied_keys desired)" by (simp add: applied_keys_def sorted_keys_def)
  note folds = fold_remove_stale [of desired previous current False] fold_apply_key [OF this, of desired]
  have merged: "(\<lambda>key. if key \<in> set (applied_keys desired) then map_of desired key
        else if key \<in> set previous \<and> \<not> IsReservedPodMetadataKey key \<and> map_of desired key = None then None else current key) =
      merged_value current previous desired"
    by (rule ext) (auto simp: merged_value_def set_applied_keys split: option.splits)
  let ?left = "\<lambda>key. if key \<in> set previous \<and> \<not> IsReservedPodMetadataKey key \<and> map_of desired key = None then None else current key"
  have each: "(key \<in> set previous \<and> \<not> IsReservedPodMetadataKey key \<and> map_of desired key = None \<and> current key \<noteq> None) \<or>
      (key \<in> set (applied_keys desired) \<and> ?left key \<noteq> map_of desired key) \<longleftrightarrow> merged_value current previous desired key \<noteq> current key" for key
    by (cases "map_of desired key"; cases "IsReservedPodMetadataKey key"; cases "current key") (auto simp: merged_value_def set_applied_keys)
  have "((\<exists>key \<in> set previous. \<not> IsReservedPodMetadataKey key \<and> map_of desired key = None \<and> current key \<noteq> None) \<or>
      (\<exists>key \<in> set (applied_keys desired). ?left key \<noteq> map_of desired key)) \<longleftrightarrow> (\<exists>key. merged_value current previous desired key \<noteq> current key)"
    unfolding each [symmetric] by blast
  then have "((\<exists>key \<in> set previous. \<not> IsReservedPodMetadataKey key \<and> map_of desired key = None \<and> current key \<noteq> None) \<or>
      (\<exists>key \<in> set (applied_keys desired). ?left key \<noteq> map_of desired key)) \<longleftrightarrow> merged_value current previous desired \<noteq> current"
    by (simp add: fun_eq_iff)
  with merged show ?thesis by (simp add: mergePodMetadataKeys_def folds)
qed

lemma record_reserved: "IsReservedPodMetadataKey workspacePodMetadataAnnotation"
  by code_simp

lemma applied_round_trip: "decode_applied (encode_applied labels annotations) = (labels, annotations)"
proof -
  have "map (json_text \<circ> JStr) xs = xs" for xs by (simp add: comp_def)
  moreover have "to_lower ''labels'' = ''labels''" "to_lower ''annotations'' = ''annotations''" by code_simp+
  ultimately show ?thesis by (simp add: encode_applied_def Let_def)
qed

text \<open>What a Workspace asks for, what an earlier run applied, and the record of it.\<close>

definition desired_metadata :: "pod_metadata option \<Rightarrow> pod_metadata" where
  "desired_metadata metadata = (case metadata of None \<Rightarrow> ([], []) | Some m \<Rightarrow> m)"

abbreviation applied_before :: "spec_pod \<Rightarrow> string list \<times> string list" where
  "applied_before pod \<equiv> decode_applied (annotation_value pod workspacePodMetadataAnnotation)"

definition key_record :: "pod_metadata \<Rightarrow> annotation" where
  "key_record m =
     (if applied_keys (fst m) = [] \<and> applied_keys (snd m) = [] then Raw [] else encode_applied (applied_keys (fst m)) (applied_keys (snd m)))"

definition with_record :: "annotation \<Rightarrow> (string \<rightharpoonup> annotation) \<Rightarrow> string \<rightharpoonup> annotation" where
  "with_record r m =
     (if (case m workspacePodMetadataAnnotation of None \<Rightarrow> Raw [] | Some v \<Rightarrow> v) = r then m
      else m(workspacePodMetadataAnnotation := (if r = Raw [] then None else Some r)))"

definition new_labels :: "spec_pod \<Rightarrow> pod_metadata \<Rightarrow> string \<rightharpoonup> string" where
  "new_labels pod m = merged_value (o_labels pod) (fst (applied_before pod)) (fst m)"

definition new_annotations :: "spec_pod \<Rightarrow> pod_metadata \<Rightarrow> string \<rightharpoonup> annotation" where
  "new_annotations pod m = with_record (key_record m) (merged_value (o_annotations pod) (snd (applied_before pod)) (snd m))"

lemma merged_reserved [simp]: "IsReservedPodMetadataKey key \<Longrightarrow> merged_value current previous desired key = current key"
  by (simp add: merged_value_def)

lemma with_record_differs:
  "m workspacePodMetadataAnnotation = old workspacePodMetadataAnnotation \<Longrightarrow>
   with_record r m \<noteq> old \<longleftrightarrow> m \<noteq> old \<or> (case m workspacePodMetadataAnnotation of None \<Rightarrow> Raw [] | Some v \<Rightarrow> v) \<noteq> r"
  by (auto simp: with_record_def fun_eq_iff split: option.splits if_splits)

lemma apply_metadata:
  "applyWorkspacePodMetadata pod metadata =
     (let m = desired_metadata metadata
      in (pod\<lparr>o_labels := new_labels pod m, o_annotations := new_annotations pod m\<rparr>,
          new_labels pod m \<noteq> o_labels pod \<or> new_annotations pod m \<noteq> o_annotations pod))"
proof -
  obtain dl da where m: "desired_metadata metadata = (dl, da)" by (cases "desired_metadata metadata")
  obtain pl pa where p: "applied_before pod = (pl, pa)" by (cases "applied_before pod")
  let ?A = "merged_value (o_annotations pod) pa da"
  have same: "?A workspacePodMetadataAnnotation = o_annotations pod workspacePodMetadataAnnotation" by (simp add: record_reserved)
  note differs = with_record_differs [where m = ?A and old = "o_annotations pod" and r = "key_record (dl, da)", OF same]
  have "applyWorkspacePodMetadata pod metadata =
      (pod\<lparr>o_labels := (if merged_value (o_labels pod) pl dl \<noteq> o_labels pod then merged_value (o_labels pod) pl dl else o_labels pod),
            o_annotations := (if ?A \<noteq> o_annotations pod \<or> (case ?A workspacePodMetadataAnnotation of None \<Rightarrow> Raw [] | Some v \<Rightarrow> v) \<noteq> key_record (dl, da)
                              then with_record (key_record (dl, da)) ?A else o_annotations pod)\<rparr>,
       merged_value (o_labels pod) pl dl \<noteq> o_labels pod \<or> ?A \<noteq> o_annotations pod \<or>
         (case ?A workspacePodMetadataAnnotation of None \<Rightarrow> Raw [] | Some v \<Rightarrow> v) \<noteq> key_record (dl, da))"
    using m by (simp add: applyWorkspacePodMetadata_def desired_metadata_def p merge_keys key_record_def with_record_def Let_def split: option.splits)
  then show ?thesis unfolding differs [symmetric] by (simp add: m p new_labels_def new_annotations_def Let_def)
qed

lemma new_labels_value:
  "new_labels pod m key =
     (if IsReservedPodMetadataKey key then o_labels pod key
      else case map_of (fst m) key of Some v \<Rightarrow> Some v | None \<Rightarrow> if key \<in> set (fst (applied_before pod)) then None else o_labels pod key)"
  by (simp add: new_labels_def merged_value_def)

lemma new_annotations_value:
  "key \<noteq> workspacePodMetadataAnnotation \<Longrightarrow> new_annotations pod m key =
     (if IsReservedPodMetadataKey key then o_annotations pod key
      else case map_of (snd m) key of Some v \<Rightarrow> Some v | None \<Rightarrow> if key \<in> set (snd (applied_before pod)) then None else o_annotations pod key)"
  by (simp add: new_annotations_def with_record_def merged_value_def)

text \<open>The Pod after a run, and what it records.\<close>

abbreviation with_metadata :: "spec_pod \<Rightarrow> pod_metadata \<Rightarrow> spec_pod" where
  "with_metadata pod m \<equiv> pod\<lparr>o_labels := new_labels pod m, o_annotations := new_annotations pod m\<rparr>"

lemma recorded_value: "annotation_value (with_metadata pod m) workspacePodMetadataAnnotation = key_record m"
  by (simp add: annotation_value_def new_annotations_def with_record_def record_reserved split: option.splits)

lemma applied_after: "applied_before (with_metadata pod m) = (applied_keys (fst m), applied_keys (snd m))"
  unfolding recorded_value by (simp add: key_record_def applied_round_trip)

lemma metadata_settles: "new_labels (with_metadata pod m) m = new_labels pod m" "new_annotations (with_metadata pod m) m = new_annotations pod m"
proof -
  show "new_labels (with_metadata pod m) m = new_labels pod m"
    by (rule ext) (auto simp: new_labels_value applied_after set_applied_keys split: option.splits)
  show "new_annotations (with_metadata pod m) m = new_annotations pod m"
  proof
    fix key
    show "new_annotations (with_metadata pod m) m key = new_annotations pod m key"
    proof (cases "key = workspacePodMetadataAnnotation")
      case True
      from recorded_value [of pod m]
      have "(case new_annotations pod m workspacePodMetadataAnnotation of None \<Rightarrow> Raw [] | Some v \<Rightarrow> v) = key_record m"
        by (simp add: annotation_value_def)
      with True show ?thesis by (simp add: new_annotations_def [of "with_metadata pod m"] with_record_def record_reserved)
    next
      case False
      then show ?thesis by (auto simp: new_annotations_value applied_after set_applied_keys split: option.splits)
    qed
  qed
qed

lemma with_metadata_same: "with_metadata pod m = pod \<longleftrightarrow> new_labels pod m = o_labels pod \<and> new_annotations pod m = o_annotations pod"
proof
  assume same: "with_metadata pod m = pod"
  have "o_labels (with_metadata pod m) = new_labels pod m" "o_annotations (with_metadata pod m) = new_annotations pod m" by simp_all
  with same show "new_labels pod m = o_labels pod \<and> new_annotations pod m = o_annotations pod" by metis
qed simp

text \<open>A key outside the reserved domain after a run, and after a run that withdraws the request.\<close>

lemma unreserved_differs: "\<not> IsReservedPodMetadataKey key \<Longrightarrow> key \<noteq> workspacePodMetadataAnnotation"
  using record_reserved by blast

lemma asked_for:
  assumes "\<not> IsReservedPodMetadataKey key"
  shows "map_of (fst m) key = Some v \<Longrightarrow> new_labels pod m key = Some v"
    and "map_of (snd m) key = Some w \<Longrightarrow> new_annotations pod m key = Some w"
  using assms by (simp_all add: new_labels_value new_annotations_value unreserved_differs)

lemma withdrawn:
  fixes pod :: spec_pod and m :: pod_metadata
  defines "pod' \<equiv> with_metadata pod m"
  assumes "\<not> IsReservedPodMetadataKey key"
  shows "new_labels pod' ([], []) key = (if map_of (fst m) key = None then o_labels pod' key else None)"
    and "new_annotations pod' ([], []) key = (if map_of (snd m) key = None then o_annotations pod' key else None)"
proof -
  have b: "applied_before pod' = (applied_keys (fst m), applied_keys (snd m))" unfolding pod'_def by (rule applied_after)
  show "new_labels pod' ([], []) key = (if map_of (fst m) key = None then o_labels pod' key else None)"
    using assms(2) by (auto simp: new_labels_value [of pod'] b set_applied_keys)
  show "new_annotations pod' ([], []) key = (if map_of (snd m) key = None then o_annotations pod' key else None)"
    using assms(2) by (auto simp: new_annotations_value [of key pod'] unreserved_differs b set_applied_keys)
qed

lemma reserved_kept:
  assumes "IsReservedPodMetadataKey key"
  shows "new_labels pod m key = o_labels pod key"
    and "key \<noteq> workspacePodMetadataAnnotation \<Longrightarrow> new_annotations pod m key = o_annotations pod key"
  using assms by (simp_all add: new_labels_value new_annotations_value)



section \<open>The runtime Pod\<close>

text \<open>A compiled Pod carries the metadata of its intent, and what identifies it to the controller is reserved.\<close>

lemma new_pod_metadata [simp]:
  "o_name (new_pod md spec) = o_name md" "o_namespace (new_pod md spec) = o_namespace md"
  "o_labels (new_pod md spec) = o_labels md" "o_annotations (new_pod md spec) = o_annotations md"
  by (simp_all add: new_pod_def kobj.defs spec_pod.defs)

lemma darwin_metadata: "darwinWorkspacePod cd rt i = Inr pod \<Longrightarrow> \<exists>spec. pod = new_pod (wi_metadata i) spec"
  by (auto simp: darwinWorkspacePod_def Let_def split: if_splits sum.splits)

lemma compiled_metadata:
  assumes "WorkspacePod cd rt i = Inr pod" "pf_os rt \<in> {Linux, Windows, Darwin}"
  shows "\<exists>spec. pod = new_pod (wi_metadata i) spec"
  using assms
proof (cases rule: WorkspacePod_cases)
  case darwin
  then show ?thesis by (blast intro: darwin_metadata)
qed (auto simp: workspace_pod_def)

lemma map_sum_Inr: "map_sum f g x = Inr y \<Longrightarrow> (\<And>z. x = Inr z \<Longrightarrow> y = g z \<Longrightarrow> P) \<Longrightarrow> P"
  by (cases x) auto

lemma FromPod_spec: "po_spec pod = po_spec pod' \<Longrightarrow> FromPod pod = FromPod pod'"
  by (auto simp: FromPod_def pod_placement_def injectsRCKube_def split: option.splits sum.splits)

lemma identity_reserved:
  "IsReservedPodMetadataKey workspaceManagedByLabel" "IsReservedPodMetadataKey workspaceTopologyAnnotation"
  "IsReservedPodMetadataKey workspaceWriteWorktreesAnnotation" "IsReservedPodMetadataKey workspaceRuntimePolicyAnnotation"
  by code_simp+

lemma identity_apart:
  "workspaceTopologyAnnotation \<noteq> workspacePodMetadataAnnotation" "workspaceWriteWorktreesAnnotation \<noteq> workspacePodMetadataAnnotation"
  "workspaceRuntimePolicyAnnotation \<noteq> workspacePodMetadataAnnotation" "workspaceTopologyAnnotation \<noteq> workspaceWriteWorktreesAnnotation"
  "workspaceTopologyAnnotation \<noteq> workspaceRuntimePolicyAnnotation" "workspaceWriteWorktreesAnnotation \<noteq> workspaceRuntimePolicyAnnotation"
  by code_simp+

text \<open>C21: A runtime Pod keeps the identity that the controller recognises it by, whatever metadata the Workspace asks for: it has the name
  of the Workspace, its label selects it, its annotations record the topology hash of exactly the resolved state, the Worktrees it may write
  and the runtime policy, and the platform that later requests read back from the Pod is the resolved one.\<close>

theorem runtime_pod_keeps_identity:
  assumes "platform_Resolve os pl = Inr (rw_runtime resolved)" "workspaceRuntimePod cd digest workspace resolved = Inr pod"
  shows "FromPod pod = Inr (rw_runtime resolved) \<and> o_namespace pod = o_namespace workspace \<and> o_name pod = o_name workspace \<and>
    o_labels pod workspaceManagedByLabel = Some (o_name workspace) \<and>
    (\<exists>hash. digest (workspace_topology workspace resolved) = Inr hash \<and> o_annotations pod workspaceTopologyAnnotation = Some (Raw hash)) \<and>
    o_annotations pod workspaceWriteWorktreesAnnotation = Some (Doc (JArr (map JStr (rw_writeClaims resolved)))) \<and>
    o_annotations pod workspaceRuntimePolicyAnnotation = Some (Raw workspaceRuntimePolicyVersion)"
proof -
  note os = Resolve_ok(3,4) [OF assms(1)]
  from assms(2) os(1) obtain hash compiled where hash: "digest (workspace_topology workspace resolved) = Inr hash"
    and compiled: "WorkspacePod cd (rw_runtime resolved) (runtime_intent workspace resolved (rw_runtime resolved) hash) = Inr compiled"
    and pod: "pod = fst (applyWorkspacePodMetadata compiled (wo_podMetadata workspace))"
    by (auto simp: workspaceRuntimePod_def workspaceTopologyHash_def elim!: map_sum_Inr split: sum.splits)
  from compiled_metadata [OF compiled os(2)] obtain spec
    where spec: "compiled = new_pod (wi_metadata (runtime_intent workspace resolved (rw_runtime resolved) hash)) spec" by blast
  let ?m = "desired_metadata (wo_podMetadata workspace)"
  have pod': "pod = with_metadata compiled ?m" by (simp add: pod apply_metadata Let_def)
  have "FromPod pod = Inr (rw_runtime resolved)"
    using from_compiled_pod(1) [OF assms(1) compiled] FromPod_spec [of pod compiled] by (simp add: pod')
  with hash show ?thesis
    by (simp add: pod' reserved_kept identity_reserved identity_apart spec runtime_intent_def blank_object_def)
qed

definition metadata_workspace :: workspace_object where
  "metadata_workspace = workspace.extend sample_ws
     (workspace_object.fields [] [] [] [] Linux sample_placement None None [] [] [] None [] [] None [] [] (Some ([(''team'', ''a'')], [])) 0 [] [] 0)"

definition sample_resolved_workspace :: resolved_workspace where
  "sample_resolved_workspace =
     \<lparr>rw_runtime = sample_platform, rw_image = ''dev:1'', rw_revision = 0,
      rw_storage = \<lparr>pe_class = [], pe_size = 1, pe_accessModes = [], pe_volumeMode = None\<rparr>, rw_source = [], rw_homeClaim = ''ws-home'',
      rw_mounts = [], rw_volumes = [], rw_hotMounts = [], rw_staticMounts = [], rw_outdated = False, rw_serviceAccount = ''rc'',
      rw_automount = False, rw_writeClaims = [''wt''], rw_worktrees = [], rw_initializers = [], rw_beforeStop = [], rw_services = [],
      rw_serviceEnvironment = [], rw_homeHostPath = [], rw_lxcfsDir = [], rw_rcKubeImage = ''rc-kube:1'', rw_storageReady = None\<rparr>"

lemma sample_runtime_pod:
  "\<exists>pod. workspaceRuntimePod sample_encoders (\<lambda>t. Inr (tp_image t)) metadata_workspace sample_resolved_workspace = Inr pod"
  by (simp add: workspaceRuntimePod_def workspaceTopologyHash_def workspace_topology_def WorkspacePod_def compile_workspace_def rcKubeInjection_def
      before_stop_def serve_args_def sample_encoders_def sample_platform_def sample_resolved_workspace_def runtime_intent_def Linux_def Darwin_def Windows_def Let_def)

lemma runtime_pod_keeps_identity_witness:
  "\<exists>pod. workspaceRuntimePod sample_encoders (\<lambda>t. Inr (tp_image t)) metadata_workspace sample_resolved_workspace = Inr pod \<and>
     FromPod pod = Inr sample_platform \<and> o_annotations pod workspaceTopologyAnnotation = Some (Raw ''dev:1'')"
proof -
  obtain pod where pod: "workspaceRuntimePod sample_encoders (\<lambda>t. Inr (tp_image t)) metadata_workspace sample_resolved_workspace = Inr pod"
    using sample_runtime_pod by blast
  have runtime: "platform_Resolve [] sample_placement = Inr (rw_runtime sample_resolved_workspace)"
    unfolding sample_resolved by (simp add: sample_resolved_workspace_def)
  from runtime_pod_keeps_identity [OF runtime pod] pod show ?thesis
    by (auto simp: workspace_topology_def sample_resolved_workspace_def Let_def)
qed

end
