(* ===== verification/Spec2Isabelle.thy ===== *)
theory Spec2Isabelle
  imports WorktreeOwnership RepositoryAccess WorkspaceAdmission WorkspaceRetention WorktreeStorage VolumeClaim
    RepositoryNames SupervisorProcess SupervisorHistory InputFrames Services StartSafety WorktreeHolders
    RepositoryControllerSafety BoundedRuns WorkspaceEnvironmentSafety WorkspaceRuntimeSafety
begin

text \<open>
  A verification development of rc, a Kubernetes operator that runs development Workspaces.

  \<^bold>\<open>The program.\<close> Repositories hold a parent checkout on a volume, Worktrees are clones of it, Workspaces
  mount Worktrees and run processes in a runtime Pod, WorkspaceExecs are the commands in a Workspace.
  Controllers (\<^verbatim>\<open>internal/controller\<close>) reconcile these objects through the API server and coordinate through
  small protocols that live in annotations and status fields. In every runtime Pod the supervisor
  rc-kube (\<^verbatim>\<open>internal/rckube\<close>) owns the processes, their transcripts and their credentials.

  \<^bold>\<open>Shared vocabulary.\<close>
  \<^item> \<open>RC_Prelude\<close>: errors, lists and the parts of package \<^verbatim>\<open>strings\<close> the code uses.
  \<^item> \<open>Filepath\<close>: \<^verbatim>\<open>path/filepath\<close> on Unix.
  \<^item> \<open>Kube\<close>: object metadata, conditions (\<^verbatim>\<open>internal/conditions\<close>) and the optimistic-lock contract of the API
    server, with an in-memory server that satisfies it. API objects are records that extend \<open>kobj\<close>; a
    client call is a function on an abstract server state \<open>'api\<close>, so that other clients may act between
    any two calls.
  \<^item> \<open>RC_Types\<close>: the fields of Workspaces, executions and Worktrees that the components read.

  \<^bold>\<open>Coordination protocols.\<close>
  \<^item> \<open>HoldSet\<close> (\<^verbatim>\<open>internal/holdset\<close>): a set of holders kept in an annotation, changed by compare-and-swap with
    bounded retries. Locales state what a conflict policy and a store promise; the update loop is
    linearized once for every store.
  \<^item> \<open>WorktreeOwnership\<close> (\<^verbatim>\<open>internal/worktreeownership\<close>): mounts of a Worktree, at most one writer; closing is
    final; generated Worktrees; reference blockers; the data of older releases.
  \<^item> \<open>RepositoryAccess\<close> (\<^verbatim>\<open>internal/repositoryaccess\<close>): write, mount and clone reservations of a Repository
    volume.
  \<^item> \<open>WorkspaceAdmission\<close> (\<^verbatim>\<open>internal/workspaceadmission\<close>): the fence that orders command starts against
    deletion, with the interleaving of executions, deletions and other writers.
  \<^item> \<open>WorkspaceRetention\<close> (\<^verbatim>\<open>workspace_lifecycle.go\<close>, \<^verbatim>\<open>workspace_retention_controller.go\<close>, \<^verbatim>\<open>history_retention.go\<close>,
    \<^verbatim>\<open>executionretention\<close>): clocks, deadlines, suspension and deletion.

  \<^bold>\<open>Storage and names.\<close>
  \<^item> \<open>WorktreeStorage\<close> (\<^verbatim>\<open>internal/worktreestorage\<close>): the storage plan of a clone and the recovery of its source.
  \<^item> \<open>VolumeClaim\<close> (\<^verbatim>\<open>internal/volumeclaim\<close>): names and ownership of persistent volume claims.
  \<^item> \<open>RepositoryNames\<close> (\<^verbatim>\<open>internal/repositories/naming.go\<close>, \<^verbatim>\<open>selector.go\<close>): derived names and selectors.

  \<^bold>\<open>Controllers.\<close>
  \<^item> \<open>Controller\<close>: the monad of API calls. A computation works on the server's state and on a ghost trace of its
    calls and their answers; before every call the other clients may change the state at will. The calculus
    \<open>emits\<close>, \<open>runs\<close> and \<open>keeps\<close> proves what precedes a call in every run. Also the helpers of client-go and
    apimachinery that the controllers use (retry on conflict, status conditions).
  \<^item> \<open>WorktreeController\<close> (\<^verbatim>\<open>controller/repositories/worktree_controller.go\<close>, \<^verbatim>\<open>worktree_cleanup.go\<close>, \<^verbatim>\<open>holders.go\<close>,
    \<^verbatim>\<open>usage_status.go\<close>, \<^verbatim>\<open>worktree_watch.go\<close>, \<^verbatim>\<open>worktreebootstrap\<close>): the Worktree reconciler, one definition per
    function or per stage of the long ones, over the protocols below it (hold sets, reservations, claims, plans).
  \<^item> \<open>WorktreeSafety\<close>, \<open>WorktreeHolders\<close>: in every run, when the deletion finalizer is removed, when a child volume is
    created, when holders are swept and when legacy Leases are deleted; the status it publishes; the claims it builds.
  \<^item> \<open>OneShot\<close> (\<^verbatim>\<open>oneshot_job.go\<close>): the Job and the recorded result of a command that runs once. A locale states the laws of a
    status adapter; every kind of request interprets it.
  \<^item> \<open>WorktreeExec\<close>, \<open>WorktreeExecSafety\<close> (\<^verbatim>\<open>worktreeexec_controller.go\<close>): commands in a Worktree under its exclusive writer.
  \<^item> \<open>RepositoryCheckout\<close> (\<^verbatim>\<open>repository_checkout.go\<close>): the checkout Job, its credentials, and the report it is read back from.
  \<^item> \<open>RepositoryOperations\<close>, \<open>RepositorySync\<close>, with \<open>RepositoryOperationSafety\<close>, \<open>RepositoryExecSafety\<close>, \<open>RepositorySyncSafety\<close>
    (\<^verbatim>\<open>repository_operation.go\<close>, \<^verbatim>\<open>repositoryexec_controller.go\<close>, \<^verbatim>\<open>repositorysync_controller.go\<close>): operations on the parent
    volume under a write reservation, in which order they start and end, and what they may write.
  \<^item> \<open>RepositoryController\<close>, \<open>RepositoryControllerSafety\<close> (\<^verbatim>\<open>repository_controller.go\<close>, \<^verbatim>\<open>usage_status.go\<close>): the parent volume, its
    bootstrap and readiness. Every call is justified by the calls before it (\<open>justified\<close>, \<open>secures\<close> of theory Controller).
  \<^item> \<open>BoundedRuns\<close>: how many calls a reconcile makes at most.
  \<^item> \<open>Platform\<close> (\<^verbatim>\<open>internal/rcplatform\<close>, \<^verbatim>\<open>runtimepolicy\<close>): target platforms, the Pods compiled for them and the process
    requests; a platform is recovered from its Pod, and a Linux Workspace Pod is confined.
  \<^item> \<open>WorkspaceClient\<close>: the objects and calls of the workspace controllers and the helpers they share (\<^verbatim>\<open>pvc_failure.go\<close>, access
    objects, claims of Environments).
  \<^item> \<open>WorkspaceExecution\<close>, \<open>WorkspaceExecSafety\<close> (\<^verbatim>\<open>workspaceexec_controller.go\<close>, \<^verbatim>\<open>execution_target.go\<close>,
    \<^verbatim>\<open>execution_idle_clock.go\<close>, \<^verbatim>\<open>environment_runtime.go\<close>): commands in a runtime Pod from the record to the call of
    rc-kube: when one is started, when its finalizer is released, which secrets are read and deleted.
  \<^item> \<open>WorkspaceEnvironments\<close>, \<open>WorkspaceEnvironmentSafety\<close> (\<^verbatim>\<open>workspaceenvironment_controller.go\<close>): committed revisions, drafts
    and the editor Pod.
  \<^item> \<open>WorkspaceRuntime\<close>, \<open>WorkspaceRuntimeSafety\<close> (\<^verbatim>\<open>admission_rejection.go\<close>, \<^verbatim>\<open>pod_metadata.go\<close>, \<^verbatim>\<open>workspace_services.go\<close>,
    \<^verbatim>\<open>hot_mount.go\<close>, \<^verbatim>\<open>runtime_plan.go\<close>, \<^verbatim>\<open>workspace_controller.go\<close>): what the Workspace controller computes between its
    calls, namely the backoff of rejected creations, the metadata, services and topology of the runtime Pod, the Pods of hot mounts, the
    diagnosis of an ended runtime and the published status. The backoff is bounded in every history, and the metadata of a
    Workspace changes exactly its own keys of the Pod.

  \<^bold>\<open>The supervisor rc-kube.\<close>
  \<^item> \<open>SupervisorProcess\<close> (\<^verbatim>\<open>supervisor.go\<close>): transcript, clients, input and exit of one process, as operations
    under its lock; runs are sequences of events.
  \<^item> \<open>SupervisorHistory\<close> (\<^verbatim>\<open>history.go\<close>, \<^verbatim>\<open>transcript_scope.go\<close>): durable records.
  \<^item> \<open>InputFrames\<close> (\<^verbatim>\<open>input_frames.go\<close>): framing of attached input.
  \<^item> \<open>CredentialAliases\<close> (\<^verbatim>\<open>supervisor.go\<close>): files and links through which a process sees its credentials.
  \<^item> \<open>ProcessStart\<close>, \<open>StartSafety\<close> (\<^verbatim>\<open>supervisor.go\<close>, \<^verbatim>\<open>process_start.go\<close>): starting, stopping and the exit of a
    process, over any sequence of starts, exits and restarts.
  \<^item> \<open>Services\<close> (\<^verbatim>\<open>services.go\<close>, \<^verbatim>\<open>execution/service.go\<close>): resident services and private variables.

  \<^bold>\<open>Bounds and parameters.\<close> Times are natural numbers (nanoseconds since the Go zero time), durations
  integers; a retry loop has the number of attempts of its backoff; all other loops are structural.
  SHA-256, URL parsing, JSON, base64, the clock, the random source, the file system and native processes are
  parameters; what a theorem needs of them is a hypothesis with a name and a witness that
  instantiates it.

  \<^bold>\<open>Not modelled.\<close> The command-line client and the transport between client and supervisor (input and output);
  generated deep copies; the calls of the Workspace controller's Reconcile (resolution of dependencies, reconciliation of hot mounts,
  runtime recovery) and the controllers that are not named above.
\<close>

end
